(* ===== verification/Prelude.thy ===== *)
theory Prelude
  imports Main "HOL-Library.Finite_Map" "HOL-Library.Word" "HOL-Library.Code_Target_Nat"
begin

text \<open>
  Shared vocabulary of the development: Go errors as values, results of fallible calls, the
  collections of facts the component proofs use, and generic lemmas on lists, options and finite
  maps.

  A Go \<open>error\<close> that is nil is \<open>None\<close>; an error value is an \<open>err\<close>. A wrapped error keeps the error
  it wraps, so that \<open>errors.Is\<close> can be decided; of the message only the constant part is kept, since
  the formatted arguments are for the log reader and no code inspects them.
\<close>

named_theorems go_defs \<open>definitions of small helpers that proofs unfold\<close>
named_theorems inv_intros \<open>facts that an operation keeps an invariant\<close>
named_theorems frame_simps \<open>facts that an operation leaves a part of the state alone\<close>

section \<open>Errors and results\<close>

datatype err =
    Err string             \<comment> \<open>errors.New, errors.Errorf, fmt.Errorf\<close>
  | Sentinel string        \<comment> \<open>a package-level error variable, compared by identity\<close>
  | Wrapped string err     \<comment> \<open>errors.Wrap, errors.Wrapf\<close>

type_synonym 'a result = "err + 'a"

fun errors_is :: "err \<Rightarrow> err \<Rightarrow> bool" where
  "errors_is (Wrapped m e) t \<longleftrightarrow> Wrapped m e = t \<or> errors_is e t"
| "errors_is e t \<longleftrightarrow> e = t"

text \<open>\<open>errors.Wrap(nil, _)\<close> is nil.\<close>

definition wrap :: "string \<Rightarrow> err option \<Rightarrow> err option" where
  "wrap m e = map_option (Wrapped m) e"

lemma wrap_simps [simp]:
  "wrap m None = None" "wrap m (Some e) = Some (Wrapped m e)" "wrap m r = None \<longleftrightarrow> r = None"
  by (simp_all add: wrap_def)

definition wrap_res :: "string \<Rightarrow> 'a result \<Rightarrow> 'a result" where
  "wrap_res m r = map_sum (Wrapped m) id r"

lemma wrap_res_simps [simp]:
  "wrap_res m (Inl e) = Inl (Wrapped m e)" "wrap_res m (Inr x) = Inr x"
  "wrap_res m r = Inr x \<longleftrightarrow> r = Inr x"
  by (simp_all add: wrap_res_def) (cases r; auto)

section \<open>Lists and options\<close>

lemma filter_neq_id [simp]: "x \<notin> set xs \<Longrightarrow> filter (\<lambda>y. y \<noteq> x) xs = xs"
  by (induction xs) auto

lemma remove1_funpow_filter:
  "(remove1 x ^^ count_list xs x) xs = filter (\<lambda>y. y \<noteq> x) xs"
proof (induction xs)
  case Nil
  show ?case by simp
next
  case (Cons y ys)
  have other: "(remove1 x ^^ n) (y # zs) = y # (remove1 x ^^ n) zs" if "y \<noteq> x" for n zs
    using that by (induction n arbitrary: zs) auto
  show ?case
  proof (cases "y = x")
    case True
    have "(remove1 x ^^ Suc (count_list ys x)) (x # ys) = (remove1 x ^^ count_list ys x) ys"
      by (simp add: funpow_swap1)
    with True Cons show ?thesis by simp
  next
    case False
    with Cons other show ?thesis by simp
  qed
qed

lemma find_None_iff_all: "find P xs = None \<longleftrightarrow> (\<forall>x\<in>set xs. \<not> P x)"
  by (induction xs) auto

lemma list_all_filter_set: "list_all P xs \<longleftrightarrow> (\<forall>x\<in>set xs. P x)"
  by (induction xs) auto

lemma map_add_upd_other [simp]: "k \<noteq> k' \<Longrightarrow> (m(k \<mapsto> v)) k' = m k'"
  by simp

end
