(* ===== verification/GoNet.thy ===== *)
theory GoNet
  imports GoStd
begin

unbundle bit_operations_syntax

text \<open>
  The parts of Go's \<open>net\<close> and \<open>net/netip\<close> packages that the modelled code uses: \<open>ParseIP\<close>,
  \<open>ParseCIDR\<close>, \<open>IPNet.Contains\<close>, \<open>IPMask.Size\<close>, \<open>IP.String\<close>, \<open>IPNet.String\<close>.

  A \<open>net.IP\<close> is kept in the normal form that \<open>To4\<close> gives: an IPv4 address, be it 4 bytes or its
  16-byte IPv4-mapped form, is \<open>IP4\<close>; every other 16-byte address is \<open>IP6\<close>. An \<open>IPNet\<close> keeps the
  mask length in bits beside the prefix length, as \<open>Mask.Size\<close> returns both.

  \<open>k8s.io/utils/net\<close> and the admiral library are not part of the repository: the functions the code
  calls there are the fields of the record \<open>libs\<close>, an argument of the definitions that use them, and
  \<open>libs_ok\<close> names the documented behaviour the code relies on.
\<close>

section \<open>Addresses and networks\<close>

datatype ip = IP4 "32 word" | IP6 "128 word"

record ipnet =
  n_ip :: ip
  n_ones :: nat
  n_bits :: nat

text \<open>\<open>CIDRMask(ones, bits)\<close> for each width.\<close>

definition mask4 :: "nat \<Rightarrow> 32 word" where
  "mask4 ones = NOT (mask (32 - ones))"

definition mask6 :: "nat \<Rightarrow> 128 word" where
  "mask6 ones = NOT (mask (128 - ones))"

text \<open>The IPv4-mapped prefix \<open>::ffff:0:0/96\<close> and \<open>To4\<close> on a 16-byte address.\<close>

definition of16 :: "128 word \<Rightarrow> ip" where
  "of16 w = (if drop_bit 32 w = 0xFFFF then IP4 (ucast w) else IP6 w)"

section \<open>Parsing\<close>

text \<open>\<open>netip.parseIPv4Fields\<close>: four decimal octets without leading zeros.\<close>

definition parse_octet :: "string \<Rightarrow> nat option" where
  "parse_octet s =
     (if s \<noteq> [] \<and> list_all is_digit s \<and> (hd s = CHR ''0'' \<longrightarrow> length s = 1) \<and> dec_val s \<le> 255
      then Some (dec_val s) else None)"

definition parse_ipv4 :: "string \<Rightarrow> 32 word option" where
  "parse_ipv4 s =
     (case map parse_octet (split_on (CHR ''.'') s) of
        [Some a, Some b, Some c, Some d] \<Rightarrow>
          Some (word_of_nat (((a * 256 + b) * 256 + c) * 256 + d))
      | _ \<Rightarrow> None)"

definition hex_val :: "char \<Rightarrow> nat option" where
  "hex_val c =
     (let n = (of_char c :: nat) in
      if 48 \<le> n \<and> n \<le> 57 then Some (n - 48)
      else if 97 \<le> n \<and> n \<le> 102 then Some (n - 87)
      else if 65 \<le> n \<and> n \<le> 70 then Some (n - 55)
      else None)"

fun hex_run :: "string \<Rightarrow> nat list \<times> string" where
  "hex_run [] = ([], [])"
| "hex_run (c # cs) = (case hex_val c of None \<Rightarrow> ([], c # cs)
     | Some v \<Rightarrow> (let (vs, r) = hex_run cs in (v # vs, r)))"

text \<open>
  \<open>netip.parseIPv6\<close>: the loop over groups. \<open>room\<close> is the number of 16-bit groups still free (the
  loop condition \<open>i < 16\<close>), \<open>gs\<close> the groups read so far in reverse, \<open>ell\<close> the position of the
  ellipsis. It returns the groups and the ellipsis, or None on a syntax error.
\<close>

fun v6_groups :: "nat \<Rightarrow> string \<Rightarrow> nat list \<Rightarrow> nat option \<Rightarrow> (nat list \<times> nat option) option" where
  "v6_groups 0 s gs ell = (if s = [] then Some (rev gs, ell) else None)"
| "v6_groups (Suc room) s gs ell =
     (let (ds, r) = hex_run s in
      if ds = [] \<or> length ds > 4 then None
      else if r \<noteq> [] \<and> hd r = CHR ''.'' then
        (if (ell = None \<and> length gs \<noteq> 6) \<or> room = 0 then None
         else (case parse_ipv4 s of None \<Rightarrow> None
               | Some w \<Rightarrow> Some (rev gs @ [unat w div 65536, unat w mod 65536], ell)))
      else
        (let gs' = foldl (\<lambda>a d. 16 * a + d) 0 ds # gs in
         case r of
           [] \<Rightarrow> Some (rev gs', ell)
         | c # r1 \<Rightarrow>
             if c \<noteq> CHR '':'' \<or> r1 = [] then None
             else if hd r1 = CHR '':'' then
               (if ell \<noteq> None then None
                else if tl r1 = [] then Some (rev gs', Some (length gs'))
                else v6_groups room (tl r1) gs' (Some (length gs')))
             else v6_groups room r1 gs' ell))"

definition v6_expand :: "nat list \<times> nat option \<Rightarrow> nat list option" where
  "v6_expand p = (case p of (gs, ell) \<Rightarrow>
     if length gs < 8 then
       (case ell of None \<Rightarrow> None
        | Some e \<Rightarrow> Some (take e gs @ replicate (8 - length gs) 0 @ drop e gs))
     else (case ell of None \<Rightarrow> Some gs | Some _ \<Rightarrow> None))"

definition parse_ipv6 :: "string \<Rightarrow> 128 word option" where
  "parse_ipv6 s =
     (let lead = has_prefix s ''::''; t = (if lead then drop 2 s else s)
      in if lead \<and> t = [] then Some 0
         else Option.bind (v6_groups 8 t [] (if lead then Some 0 else None))
           (\<lambda>p. map_option (\<lambda>gs. word_of_nat (foldl (\<lambda>a g. 65536 * a + g) 0 gs)) (v6_expand p)))"

datatype addr = A4 "32 word" | A16 "128 word"   \<comment> \<open>netip.Addr: IPv4, or IPv6 (4in6 included)\<close>

text \<open>\<open>netip.ParseAddr\<close>: the first of \<open>.\<close> \<open>:\<close> \<open>%\<close> decides. A zone is refused by the callers in \<open>net\<close>.\<close>

definition parse_addr :: "string \<Rightarrow> addr option" where
  "parse_addr s =
     (case filter (\<lambda>c. c = CHR ''.'' \<or> c = CHR '':'' \<or> c = CHR ''%'') s of
        [] \<Rightarrow> None
      | c # _ \<Rightarrow>
          if CHR ''%'' \<in> set s then None
          else if c = CHR ''.'' then map_option A4 (parse_ipv4 s)
          else map_option A16 (parse_ipv6 s))"

definition ParseIP :: "string \<Rightarrow> ip option" where
  "ParseIP s = map_option (\<lambda>a. case a of A4 w \<Rightarrow> IP4 w | A16 w \<Rightarrow> of16 w) (parse_addr s)"

definition cidr_net :: "addr \<Rightarrow> nat \<Rightarrow> ipnet" where
  "cidr_net a n = (case a of
      A4 w \<Rightarrow> \<lparr>n_ip = IP4 (w AND mask4 n), n_ones = n, n_bits = 32\<rparr>
    | A16 w \<Rightarrow> \<lparr>n_ip = of16 (w AND mask6 n), n_ones = n, n_bits = 128\<rparr>)"

definition addr_bits :: "addr \<Rightarrow> nat" where
  "addr_bits a = (case a of A4 _ \<Rightarrow> 32 | A16 _ \<Rightarrow> 128)"

text \<open>\<open>net.ParseCIDR\<close>: the network, None for a \<open>ParseError\<close>.\<close>

definition ParseCIDR :: "string \<Rightarrow> ipnet option" where
  "ParseCIDR s =
     (case cut (CHR ''/'') s of (a, m, found) \<Rightarrow>
        if \<not> found then None
        else (case parse_addr a of
            None \<Rightarrow> None
          | Some ad \<Rightarrow>
              if m \<noteq> [] \<and> list_all is_digit m \<and> dec_val m \<le> addr_bits ad
              then Some (cidr_net ad (dec_val m)) else None))"

section \<open>Containment\<close>

text \<open>
  \<open>networkNumberAndMask\<close> and \<open>Contains\<close>: the network number in its \<open>To4\<close> form, a 16-byte mask cut
  to its last four bytes for an IPv4 number, then the masked addresses are compared.
\<close>

definition v4_ones :: "ipnet \<Rightarrow> nat" where
  "v4_ones n = (if n_bits n = 32 then n_ones n else n_ones n - 96)"

definition Contains :: "ipnet \<Rightarrow> ip \<Rightarrow> bool" where
  "Contains n i = (case (n_ip n, i) of
      (IP4 a, IP4 b) \<Rightarrow> a AND mask4 (v4_ones n) = b AND mask4 (v4_ones n)
    | (IP6 a, IP6 b) \<Rightarrow> n_bits n = 128 \<and> a AND mask6 (n_ones n) = b AND mask6 (n_ones n)
    | _ \<Rightarrow> False)"

text \<open>A network as \<open>ParseCIDR\<close> builds it.\<close>

definition wf_net :: "ipnet \<Rightarrow> bool" where
  "wf_net n \<longleftrightarrow> n_ones n \<le> n_bits n \<and>
     (case n_ip n of
        IP4 a \<Rightarrow> (n_bits n = 32 \<or> n_bits n = 128 \<and> 96 \<le> n_ones n) \<and> a AND mask4 (v4_ones n) = a
      | IP6 a \<Rightarrow> n_bits n = 128 \<and> a AND mask6 (n_ones n) = a)"

definition net_addrs :: "ipnet \<Rightarrow> ip set" where
  "net_addrs n = {i. Contains n i}"

lemma mask4_bit: "bit (mask4 k) n \<longleftrightarrow> n < 32 \<and> 32 - k \<le> n"
  by (auto simp: mask4_def bit_simps)

lemma mask6_bit: "bit (mask6 k) n \<longleftrightarrow> n < 128 \<and> 128 - k \<le> n"
  by (auto simp: mask6_def bit_simps)

lemma mask4_eq_iff: "a AND mask4 k = b AND mask4 k \<longleftrightarrow> (\<forall>n<32. 32 - k \<le> n \<longrightarrow> bit a n = bit b n)"
  by (auto simp: bit_eq_iff bit_simps mask4_bit)

lemma mask6_eq_iff: "a AND mask6 k = b AND mask6 k \<longleftrightarrow> (\<forall>n<128. 128 - k \<le> n \<longrightarrow> bit a n = bit b n)"
  by (auto simp: bit_eq_iff bit_simps mask6_bit)

lemma mask4_nested:
  assumes "a AND mask4 p = x AND mask4 p" and "b AND mask4 q = x AND mask4 q"
  shows "a AND mask4 p = b AND mask4 p \<or> b AND mask4 q = a AND mask4 q"
proof (cases "p \<le> q")
  case True
  then have "32 - q \<le> 32 - p" by simp
  with assms show ?thesis unfolding mask4_eq_iff by (auto dest: le_trans)
next
  case False
  then have "32 - p \<le> 32 - q" by simp
  with assms show ?thesis unfolding mask4_eq_iff by (auto dest: le_trans)
qed

lemma mask4_fix_iff: "a AND mask4 k = a \<longleftrightarrow> (\<forall>n<32 - k. \<not> bit a n)"
  by (simp add: bit_eq_iff bit_simps mask4_bit) (meson less_le_trans diff_le_self not_le)

lemma mask6_nested:
  assumes "a AND mask6 p = x AND mask6 p" and "b AND mask6 q = x AND mask6 q"
  shows "a AND mask6 p = b AND mask6 p \<or> b AND mask6 q = a AND mask6 q"
proof (cases "p \<le> q")
  case True
  then have "128 - q \<le> 128 - p" by simp
  with assms show ?thesis unfolding mask6_eq_iff by (auto dest: le_trans)
next
  case False
  then have "128 - p \<le> 128 - q" by simp
  with assms show ?thesis unfolding mask6_eq_iff by (auto dest: le_trans)
qed

lemma mask6_fix_iff: "a AND mask6 k = a \<longleftrightarrow> (\<forall>n<128 - k. \<not> bit a n)"
  by (simp add: bit_eq_iff bit_simps mask6_bit) (meson less_le_trans diff_le_self not_le)

lemma wf_cidr_net: "n \<le> addr_bits a \<Longrightarrow> wf_net (cidr_net a n)"
proof (cases a)
  case (A4 w)
  assume "n \<le> addr_bits a"
  with A4 show ?thesis
    by (simp add: addr_bits_def wf_net_def cidr_net_def v4_ones_def ac_simps)
next
  case (A16 w)
  assume n: "n \<le> addr_bits a"
  let ?m = "w AND mask6 n"
  show ?thesis
  proof (cases "drop_bit 32 ?m = 0xFFFF")
    case False
    with A16 n show ?thesis
      by (simp add: addr_bits_def wf_net_def cidr_net_def of16_def ac_simps)
  next
    case True
    have "bit (drop_bit 32 ?m) 0"
      unfolding True by simp
    then have n96: "96 \<le> n"
      by (auto simp: bit_simps mask6_bit)
    have "(ucast ?m :: 32 word) AND mask4 (n - 96) = ucast ?m"
      using n A16 n96 by (auto simp: mask4_fix_iff bit_simps mask6_bit addr_bits_def)
    with True A16 n n96 show ?thesis
      by (simp add: addr_bits_def wf_net_def cidr_net_def of16_def v4_ones_def)
  qed
qed

lemma ParseCIDR_wf: "ParseCIDR s = Some n \<Longrightarrow> wf_net n"
  by (auto simp: ParseCIDR_def wf_cidr_net split: prod.splits if_splits option.splits)

lemma Contains_self: "wf_net n \<Longrightarrow> Contains n (n_ip n)"
  by (auto simp: Contains_def wf_net_def split: ip.splits)

text \<open>
  Two networks share an address exactly when one contains the base address of the other: prefixes
  are nested or disjoint.
\<close>

lemma nets_meet_iff:
  assumes "wf_net m" and "wf_net n"
  shows "net_addrs m \<inter> net_addrs n \<noteq> {} \<longleftrightarrow> Contains m (n_ip n) \<or> Contains n (n_ip m)"
proof
  assume "Contains m (n_ip n) \<or> Contains n (n_ip m)"
  with assms show "net_addrs m \<inter> net_addrs n \<noteq> {}"
    by (auto simp: net_addrs_def dest: Contains_self)
next
  assume "net_addrs m \<inter> net_addrs n \<noteq> {}"
  then obtain i where i: "Contains m i" "Contains n i"
    by (auto simp: net_addrs_def)
  show "Contains m (n_ip n) \<or> Contains n (n_ip m)"
  proof (cases i)
    case (IP4 x)
    then obtain a b where ab: "n_ip m = IP4 a" "n_ip n = IP4 b"
      using i by (auto simp: Contains_def split: ip.splits)
    with i IP4 have "a AND mask4 (v4_ones m) = x AND mask4 (v4_ones m)"
      "b AND mask4 (v4_ones n) = x AND mask4 (v4_ones n)"
      by (simp_all add: Contains_def)
    then have "a AND mask4 (v4_ones m) = b AND mask4 (v4_ones m) \<or>
        b AND mask4 (v4_ones n) = a AND mask4 (v4_ones n)"
      by (rule mask4_nested)
    with ab show ?thesis by (simp add: Contains_def)
  next
    case (IP6 x)
    then obtain a b where ab: "n_ip m = IP6 a" "n_ip n = IP6 b" "n_bits m = 128" "n_bits n = 128"
      using i by (auto simp: Contains_def split: ip.splits)
    with i IP6 have "a AND mask6 (n_ones m) = x AND mask6 (n_ones m)"
      "b AND mask6 (n_ones n) = x AND mask6 (n_ones n)"
      by (simp_all add: Contains_def)
    then have "a AND mask6 (n_ones m) = b AND mask6 (n_ones m) \<or>
        b AND mask6 (n_ones n) = a AND mask6 (n_ones n)"
      by (rule mask6_nested)
    with ab show ?thesis by (simp add: Contains_def)
  qed
qed

text \<open>Of two networks of the same mask width, one includes the other exactly by prefix length and base.\<close>

lemma flip4: "\<exists>y :: 32 word. (\<forall>n<32. n \<noteq> k \<longrightarrow> bit y n = bit x n) \<and> bit y k \<noteq> bit x k" if "k < 32" for x :: "32 word"
  by (rule exI [of _ "flip_bit k x"]) (use that in \<open>auto simp: bit_simps\<close>)

lemma flip6: "\<exists>y :: 128 word. (\<forall>n<128. n \<noteq> k \<longrightarrow> bit y n = bit x n) \<and> bit y k \<noteq> bit x k" if "k < 128" for x :: "128 word"
  by (rule exI [of _ "flip_bit k x"]) (use that in \<open>auto simp: bit_simps\<close>)

lemma Contains_bit4:
  "Contains m (IP4 x) \<Longrightarrow> Contains m (IP4 y) \<Longrightarrow> i < 32 \<Longrightarrow> 32 - v4_ones m \<le> i \<Longrightarrow> bit x i = bit y i"
  by (auto simp: Contains_def mask4_eq_iff split: ip.splits)

lemma Contains_bit6:
  "Contains m (IP6 x) \<Longrightarrow> Contains m (IP6 y) \<Longrightarrow> i < 128 \<Longrightarrow> 128 - n_ones m \<le> i \<Longrightarrow> bit x i = bit y i"
  by (auto simp: Contains_def mask6_eq_iff split: ip.splits)

lemma nets_subset_iff:
  assumes m: "wf_net m" and n: "wf_net n" and bits: "n_bits m = n_bits n"
  shows "net_addrs n \<subseteq> net_addrs m \<longleftrightarrow> n_ones m \<le> n_ones n \<and> Contains m (n_ip n)"
proof
  assume sub: "net_addrs n \<subseteq> net_addrs m"
  with n have c: "Contains m (n_ip n)"
    by (auto simp: net_addrs_def dest: Contains_self)
  have "n_ones m \<le> n_ones n"
  proof (rule ccontr)
    assume "\<not> ?thesis"
    then have less: "n_ones n < n_ones m" by simp
    show False
    proof (cases "n_ip n")
      case (IP4 b)
      with c obtain a where a: "n_ip m = IP4 a" by (auto simp: Contains_def split: ip.splits)
      have le: "v4_ones n < v4_ones m" "v4_ones m \<le> 32"
        using less m n a IP4 bits by (auto simp: v4_ones_def wf_net_def)
      let ?k = "32 - v4_ones m"
      have k: "?k < 32" using le by simp
      from flip4 [OF k, of b] obtain y :: "32 word"
        where yy: "(\<forall>i<32. i \<noteq> ?k \<longrightarrow> bit y i = bit b i) \<and> bit y ?k \<noteq> bit b ?k" ..
      note y = conjunct1 [OF yy] conjunct2 [OF yy]
      have "Contains n (IP4 y)"
        using IP4 y(1) le by (simp add: Contains_def mask4_eq_iff)
      with sub have "Contains m (IP4 y)" by (auto simp: net_addrs_def)
      from Contains_bit4 [OF this c [unfolded IP4] k] have "bit y ?k = bit b ?k" by simp
      with y(2) show False by simp
    next
      case (IP6 b)
      with c obtain a where a: "n_ip m = IP6 a" by (auto simp: Contains_def split: ip.splits)
      have le: "n_ones n < n_ones m" "n_ones m \<le> 128" "n_bits n = 128" "n_bits m = 128"
        using less m n a IP6 bits by (auto simp: wf_net_def)
      let ?k = "128 - n_ones m"
      have k: "?k < 128" using le by simp
      from flip6 [OF k, of b] obtain y :: "128 word"
        where yy: "(\<forall>i<128. i \<noteq> ?k \<longrightarrow> bit y i = bit b i) \<and> bit y ?k \<noteq> bit b ?k" ..
      note y = conjunct1 [OF yy] conjunct2 [OF yy]
      have "Contains n (IP6 y)"
        using IP6 y(1) le by (simp add: Contains_def mask6_eq_iff)
      with sub have "Contains m (IP6 y)" by (auto simp: net_addrs_def)
      from Contains_bit6 [OF this c [unfolded IP6] k] have "bit y ?k = bit b ?k" by simp
      with y(2) show False by simp
    qed
  qed
  with c show "n_ones m \<le> n_ones n \<and> Contains m (n_ip n)" by simp
next
  assume r: "n_ones m \<le> n_ones n \<and> Contains m (n_ip n)"
  show "net_addrs n \<subseteq> net_addrs m"
  proof
    fix i assume "i \<in> net_addrs n"
    then have i: "Contains n i" by (simp add: net_addrs_def)
    have le4: "v4_ones m \<le> v4_ones n"
      using r bits by (auto simp: v4_ones_def)
    have "Contains m i"
      using r i le4 by (auto simp: Contains_def mask4_eq_iff mask6_eq_iff split: ip.splits)
    then show "i \<in> net_addrs m" by (simp add: net_addrs_def)
  qed
qed

section \<open>Printing\<close>

definition octets4 :: "32 word \<Rightarrow> nat list" where
  "octets4 w = (let n = unat w in [n div 16777216, n div 65536 mod 256, n div 256 mod 256, n mod 256])"

definition groups6 :: "128 word \<Rightarrow> nat list" where
  "groups6 w = map (\<lambda>i. unat w div 65536 ^ (7 - i) mod 65536) [0..<8]"

fun hex_of_nat :: "nat \<Rightarrow> string" where
  "hex_of_nat n =
     (let d = (\<lambda>k. char_of (if k < 10 then 48 + k else 87 + k :: nat))
      in if n < 16 then [d n] else hex_of_nat (n div 16) @ [d (n mod 16)])"

declare hex_of_nat.simps [simp del]

fun zero_run :: "nat list \<Rightarrow> nat" where
  "zero_run [] = 0"
| "zero_run (g # gs) = (if g = 0 then Suc (zero_run gs) else 0)"

definition longest_zero_run :: "nat list \<Rightarrow> nat \<times> nat" where
  "longest_zero_run gs = foldl (\<lambda>(s, e) i. let l = zero_run (drop i gs)
     in if 2 \<le> l \<and> e - s < l then (i, i + l) else (s, e)) (255, 255) [0..<8]"

definition ip_String :: "ip \<Rightarrow> string" where
  "ip_String a = (case a of
      IP4 w \<Rightarrow> join ''.'' (map dec_of_nat (octets4 w))
    | IP6 w \<Rightarrow> (let gs = groups6 w; (s, e) = longest_zero_run gs
        in if s = 255 then join '':'' (map hex_of_nat gs)
           else join '':'' (map hex_of_nat (take s gs)) @ ''::'' @ join '':'' (map hex_of_nat (drop e gs))))"

definition ipnet_String :: "ipnet \<Rightarrow> string" where
  "ipnet_String n = ip_String (n_ip n) @ ''/'' @
     dec_of_nat (case n_ip n of IP4 _ \<Rightarrow> v4_ones n | IP6 _ \<Rightarrow> n_ones n)"

section \<open>Code outside the repository\<close>

datatype IPFamily = IPFamilyUnknown | IPv4 | IPv6

text \<open>\<open>k8snet.IPFamily\<close> is a string type; its constants are the empty string, \<open>4\<close> and \<open>6\<close>.\<close>

fun family_str :: "IPFamily \<Rightarrow> string" where
  "family_str IPFamilyUnknown = []"
| "family_str IPv4 = ''4''"
| "family_str IPv6 = ''6''"

record libs =
  IPFamilyOfString :: "string \<Rightarrow> IPFamily"       \<comment> \<open>k8s.io/utils/net\<close>
  IPFamilyOfCIDRString :: "string \<Rightarrow> IPFamily"
  IPFamilyOf :: "ip \<Rightarrow> IPFamily"
  IPFamilyOfCIDR :: "ipnet \<Rightarrow> IPFamily"
  AppendIfNotPresent :: "IPFamily list \<Rightarrow> IPFamily \<Rightarrow> IPFamily list"   \<comment> \<open>admiral/pkg/slices\<close>
  Intersect :: "IPFamily list \<Rightarrow> IPFamily list \<Rightarrow> IPFamily list"
  EnsureValidName :: "string \<Rightarrow> string"          \<comment> \<open>admiral/pkg/resource\<close>
  SemanticDeepEqual :: "(string, string) fmap \<Rightarrow> (string, string) fmap \<Rightarrow> bool"
    \<comment> \<open>k8s.io/apimachinery/pkg/api/equality\<close>

definition family_of :: "ip \<Rightarrow> IPFamily" where
  "family_of a = (case a of IP4 _ \<Rightarrow> IPv4 | IP6 _ \<Rightarrow> IPv6)"

text \<open>The documented behaviour of these functions, as far as a property relies on it.\<close>

definition libs_ok :: "libs \<Rightarrow> bool" where
  "libs_ok L \<longleftrightarrow>
     (\<forall>s a. ParseIP s = Some a \<longrightarrow> IPFamilyOfString L s = family_of a) \<and>
     IPFamilyOfString L [] = IPFamilyUnknown \<and>
     (\<forall>s n. ParseCIDR s = Some n \<longrightarrow> n_bits n = 32 \<longrightarrow> IPFamilyOfCIDRString L s = IPv4) \<and>
     (\<forall>s n w. ParseCIDR s = Some n \<longrightarrow> n_ip n = IP6 w \<longrightarrow> IPFamilyOfCIDRString L s = IPv6) \<and>
     (\<forall>a. IPFamilyOf L a = family_of a) \<and>
     (\<forall>xs x. AppendIfNotPresent L xs x = (if x \<in> set xs then xs else xs @ [x])) \<and>
     (\<forall>xs ys. set (Intersect L xs ys) = set xs \<inter> set ys) \<and>
     (\<forall>m m'. SemanticDeepEqual L m m' \<longleftrightarrow> m = m')"

text \<open>A concrete instance, for witnesses.\<close>

definition ref_libs :: libs where
  "ref_libs = \<lparr>
     IPFamilyOfString = (\<lambda>s. case ParseIP s of None \<Rightarrow> IPFamilyUnknown | Some a \<Rightarrow> family_of a),
     IPFamilyOfCIDRString = (\<lambda>s. case ParseCIDR s of None \<Rightarrow> IPFamilyUnknown | Some n \<Rightarrow> family_of (n_ip n)),
     IPFamilyOf = family_of,
     IPFamilyOfCIDR = (\<lambda>n. family_of (n_ip n)),
     AppendIfNotPresent = (\<lambda>xs x. if x \<in> set xs then xs else xs @ [x]),
     Intersect = (\<lambda>xs ys. filter (\<lambda>x. x \<in> set ys) xs),
     EnsureValidName = (\<lambda>s. s),
     SemanticDeepEqual = (\<lambda>m m'. m = m')\<rparr>"

lemma ParseIP_empty [simp]: "ParseIP [] = None"
  by (simp add: ParseIP_def parse_addr_def)

lemma net32_IP4: "wf_net n \<Longrightarrow> n_bits n = 32 \<Longrightarrow> \<exists>w. n_ip n = IP4 w"
  by (auto simp: wf_net_def split: ip.splits)

lemma ref_libs_ok: "libs_ok ref_libs"
  unfolding libs_ok_def
  by (auto simp: ref_libs_def family_of_def split: ip.splits dest!: ParseCIDR_wf dest: net32_IP4)

end
