(* ===== verification/Cidr.thy ===== *)
theory Cidr
  imports GoNet
begin

text \<open>
  \<open>pkg/cidr/iputil.go\<close>: which subnets overlap, which are contained in which, and the address families
  of a list of CIDRs. Go's pair \<open>(bool, error)\<close> is the pair of a bool and an optional error.
\<close>

definition parse_cidr_error :: err where
  "parse_cidr_error = Wrapped ''error parsing CIDR'' (Sentinel ''ParseError'')"

fun IsOverlapping_loop :: "ipnet \<Rightarrow> string list \<Rightarrow> bool \<times> err option" where
  "IsOverlapping_loop newNet [] = (False, None)"
| "IsOverlapping_loop newNet (v # vs) =
     (case ParseCIDR v of
        None \<Rightarrow> (False, Some parse_cidr_error)
      | Some baseNet \<Rightarrow>
          if Contains baseNet (n_ip newNet) \<or> Contains newNet (n_ip baseNet) then (True, None)
          else IsOverlapping_loop newNet vs)"

definition IsOverlapping :: "string list \<Rightarrow> string \<Rightarrow> bool \<times> err option" where
  "IsOverlapping cidrList cidr =
     (case ParseCIDR cidr of
        None \<Rightarrow> (False, Some parse_cidr_error)
      | Some newNet \<Rightarrow> IsOverlapping_loop newNet cidrList)"

fun IsContained_loop :: "ipnet \<Rightarrow> string list \<Rightarrow> bool \<times> err option" where
  "IsContained_loop innerNet [] = (False, None)"
| "IsContained_loop innerNet (v # vs) =
     (case ParseCIDR v of
        None \<Rightarrow> (False, Some parse_cidr_error)
      | Some outerNet \<Rightarrow>
          if n_bits outerNet = n_bits innerNet \<and> n_ones outerNet \<le> n_ones innerNet \<and>
             Contains outerNet (n_ip innerNet) then (True, None)
          else IsContained_loop innerNet vs)"

definition IsContained :: "string list \<Rightarrow> string \<Rightarrow> bool \<times> err option" where
  "IsContained outerList inner =
     (case ParseCIDR inner of
        None \<Rightarrow> (False, Some parse_cidr_error)
      | Some innerNet \<Rightarrow> IsContained_loop innerNet outerList)"

text \<open>
  \<open>OverlappingSubnets\<close>: an error of \<open>IsOverlapping\<close> is only logged, and its \<open>overlap\<close> result, which is
  then false, decides.
\<close>

fun overlapping_loop :: "string \<Rightarrow> string list \<Rightarrow> string list \<Rightarrow> err option" where
  "overlapping_loop msg remoteSubnets [] = None"
| "overlapping_loop msg remoteSubnets (c # cs) =
     (if fst (IsOverlapping remoteSubnets c) then Some (Err msg)
      else overlapping_loop msg remoteSubnets cs)"

definition OverlappingSubnets :: "string list \<Rightarrow> string list \<Rightarrow> string list \<Rightarrow> err option" where
  "OverlappingSubnets localServiceCIDRs localPodCIDRs remoteSubnets =
     (case overlapping_loop ''local Service CIDR overlaps with remote cluster subnets''
             remoteSubnets localServiceCIDRs of
        Some e \<Rightarrow> Some e
      | None \<Rightarrow> overlapping_loop ''local Pod CIDR overlaps with remote cluster subnets''
             remoteSubnets localPodCIDRs)"

definition ExtractSubnets :: "libs \<Rightarrow> IPFamily \<Rightarrow> string list \<Rightarrow> string list" where
  "ExtractSubnets L family cidrList = filter (\<lambda>s. IPFamilyOfCIDRString L s = family) cidrList"

definition ExtractIPFamilies :: "libs \<Rightarrow> string list \<Rightarrow> IPFamily list" where
  "ExtractIPFamilies L fromCIDRs =
     foldl (\<lambda>fams c. let f = IPFamilyOfCIDRString L c
       in if f \<noteq> IPFamilyUnknown then AppendIfNotPresent L fams f else fams) [] fromCIDRs"

section \<open>What the address sets say\<close>

definition valid_cidr :: "string \<Rightarrow> bool" where
  "valid_cidr s \<longleftrightarrow> ParseCIDR s \<noteq> None"

definition cidr_addrs :: "string \<Rightarrow> ip set" where
  "cidr_addrs s = (case ParseCIDR s of None \<Rightarrow> {} | Some n \<Rightarrow> net_addrs n)"

lemma IsOverlapping_loop_True:
  assumes "wf_net n" and "IsOverlapping_loop n vs = (True, e)"
  shows "\<exists>v\<in>set vs. cidr_addrs v \<inter> net_addrs n \<noteq> {}"
  using assms(2)
proof (induction vs)
  case (Cons v vs)
  show ?case
  proof (cases "ParseCIDR v")
    case (Some b)
    then have "wf_net b" by (rule ParseCIDR_wf)
    with Cons Some assms(1) show ?thesis
      by (auto simp: cidr_addrs_def nets_meet_iff split: if_splits)
  qed (use Cons in simp)
qed simp

lemma IsOverlapping_loop_valid:
  assumes "wf_net n" and "\<forall>v\<in>set vs. valid_cidr v"
  shows "IsOverlapping_loop n vs = (\<exists>v\<in>set vs. cidr_addrs v \<inter> net_addrs n \<noteq> {}, None)"
  using assms(2)
proof (induction vs)
  case (Cons v vs)
  then obtain b where b: "ParseCIDR v = Some b" by (auto simp: valid_cidr_def)
  then have "wf_net b" by (rule ParseCIDR_wf)
  with Cons b assms(1) show ?case
    by (auto simp: cidr_addrs_def nets_meet_iff)
qed simp

lemma IsContained_loop_True:
  assumes "wf_net n" and "IsContained_loop n vs = (True, e)"
  shows "\<exists>v\<in>set vs. net_addrs n \<subseteq> cidr_addrs v"
  using assms(2)
proof (induction vs)
  case (Cons v vs)
  show ?case
  proof (cases "ParseCIDR v")
    case (Some b)
    then have "wf_net b" by (rule ParseCIDR_wf)
    with Cons Some assms(1) show ?thesis
      by (auto simp: cidr_addrs_def nets_subset_iff [of b n] split: if_splits)
  qed (use Cons in simp)
qed simp

definition same_width :: "string \<Rightarrow> string \<Rightarrow> bool" where
  "same_width a b \<longleftrightarrow> map_option n_bits (ParseCIDR a) = map_option n_bits (ParseCIDR b)"

lemma IsContained_loop_valid:
  assumes "ParseCIDR c = Some n" and "\<forall>v\<in>set vs. valid_cidr v"
  shows "IsContained_loop n vs =
    (\<exists>v\<in>set vs. same_width v c \<and> cidr_addrs c \<subseteq> cidr_addrs v, None)"
  using assms(2)
proof (induction vs)
  case (Cons v vs)
  then obtain b where b: "ParseCIDR v = Some b" by (auto simp: valid_cidr_def)
  then have "wf_net b" by (rule ParseCIDR_wf)
  moreover have "wf_net n" using assms(1) by (rule ParseCIDR_wf)
  ultimately have "(n_bits b = n_bits n \<and> n_ones b \<le> n_ones n \<and> Contains b (n_ip n)) =
      (same_width v c \<and> cidr_addrs c \<subseteq> cidr_addrs v)"
    using assms(1) b nets_subset_iff [of b n] by (simp add: same_width_def cidr_addrs_def) blast
  with Cons b show ?case by (simp split del: if_split) (simp split: if_split; blast)
qed simp

text \<open>C24: On parseable CIDRs, \<open>IsOverlapping\<close> returns true exactly when some CIDR of the list and the
  given CIDR have an address in common, and never an error.\<close>

theorem IsOverlapping_correct:
  assumes "valid_cidr cidr" and "\<forall>v\<in>set cidrList. valid_cidr v"
  shows "IsOverlapping cidrList cidr =
    (\<exists>v\<in>set cidrList. cidr_addrs v \<inter> cidr_addrs cidr \<noteq> {}, None)"
proof -
  from assms(1) obtain n where n: "ParseCIDR cidr = Some n" by (auto simp: valid_cidr_def)
  then have "wf_net n" by (rule ParseCIDR_wf)
  from IsOverlapping_loop_valid [OF this assms(2)] n show ?thesis
    by (simp add: IsOverlapping_def cidr_addrs_def)
qed

theorem IsOverlapping_correct_witness:
  "valid_cidr ''1.2.3.4/16'' \<and>
   IsOverlapping [''5.6.7.8/16'', ''1.2.3.5/24''] ''1.2.3.4/16'' =
     (\<exists>v\<in>set [''5.6.7.8/16'', ''1.2.3.5/24'']. cidr_addrs v \<inter> cidr_addrs ''1.2.3.4/16'' \<noteq> {}, None)"
proof -
  have h1: "valid_cidr ''1.2.3.4/16''" by code_simp
  have h2: "\<forall>v\<in>set [''5.6.7.8/16'', ''1.2.3.5/24'']. valid_cidr v" by code_simp
  show ?thesis using h1 h2 IsOverlapping_correct [OF h1 h2] by blast
qed

text \<open>C21: On parseable CIDRs, \<open>IsContained\<close> returns true exactly when one CIDR of the outer list, of
  the same mask width, includes every address of the inner CIDR.\<close>

theorem IsContained_correct:
  assumes "valid_cidr inner" and "\<forall>v\<in>set outerList. valid_cidr v"
  shows "IsContained outerList inner =
    (\<exists>v\<in>set outerList. same_width v inner \<and> cidr_addrs inner \<subseteq> cidr_addrs v, None)"
proof -
  from assms(1) obtain n where n: "ParseCIDR inner = Some n" by (auto simp: valid_cidr_def)
  from IsContained_loop_valid [OF this assms(2)] n show ?thesis
    by (simp add: IsContained_def)
qed

theorem IsContained_correct_witness:
  "valid_cidr ''10.1.0.0/16'' \<and>
   IsContained [''2002::1/64'', ''10.0.0.0/14''] ''10.1.0.0/16'' =
     (\<exists>v\<in>set [''2002::1/64'', ''10.0.0.0/14'']. same_width v ''10.1.0.0/16'' \<and>
        cidr_addrs ''10.1.0.0/16'' \<subseteq> cidr_addrs v, None)"
proof -
  have h1: "valid_cidr ''10.1.0.0/16''" by code_simp
  have h2: "\<forall>v\<in>set [''2002::1/64'', ''10.0.0.0/14'']. valid_cidr v" by code_simp
  show ?thesis using h1 h2 IsContained_correct [OF h1 h2] by blast
qed

lemma IsOverlapping_correct_fst:
  assumes "valid_cidr cidr" and "\<forall>v\<in>set cidrList. valid_cidr v"
  shows "fst (IsOverlapping cidrList cidr) \<longleftrightarrow> (\<exists>v\<in>set cidrList. cidr_addrs v \<inter> cidr_addrs cidr \<noteq> {})"
proof -
  from assms(1) obtain n where n: "ParseCIDR cidr = Some n" by (auto simp: valid_cidr_def)
  then have "wf_net n" by (rule ParseCIDR_wf)
  from IsOverlapping_loop_valid [OF this assms(2)] n show ?thesis
    by (simp add: IsOverlapping_def cidr_addrs_def)
qed

lemma overlapping_loop_valid:
  assumes "\<forall>v\<in>set remote. valid_cidr v" and "\<forall>c\<in>set cs. valid_cidr c"
  shows "overlapping_loop msg remote cs = None \<longleftrightarrow>
    (\<forall>c\<in>set cs. \<forall>v\<in>set remote. cidr_addrs v \<inter> cidr_addrs c = {})"
  using assms(2) by (induction cs) (auto simp: IsOverlapping_correct_fst [OF _ assms(1)])

text \<open>On parseable CIDRs, \<open>OverlappingSubnets\<close> returns no error exactly when no local service or
  pod CIDR shares an address with a remote subnet.\<close>

theorem OverlappingSubnets_correct:
  assumes "\<forall>c\<in>set service \<union> set pod \<union> set remote. valid_cidr c"
  shows "OverlappingSubnets service pod remote = None \<longleftrightarrow>
    (\<forall>c\<in>set service \<union> set pod. \<forall>v\<in>set remote. cidr_addrs v \<inter> cidr_addrs c = {})"
proof -
  have r: "\<forall>v\<in>set remote. valid_cidr v" and s: "\<forall>c\<in>set service. valid_cidr c"
    and p: "\<forall>c\<in>set pod. valid_cidr c"
    using assms by simp_all
  show ?thesis
    unfolding OverlappingSubnets_def ball_Un option.case_eq_if
    by (simp add: overlapping_loop_valid [OF r s] overlapping_loop_valid [OF r p] if_bool_eq_conj)
      blast
qed

theorem OverlappingSubnets_correct_witness:
  "OverlappingSubnets [''10.1.0.0/16''] [''10.2.0.0/16''] [''10.2.3.0/24''] \<noteq> None \<and>
   (\<exists>c\<in>set [''10.1.0.0/16''] \<union> set [''10.2.0.0/16'']. cidr_addrs ''10.2.3.0/24'' \<inter> cidr_addrs c \<noteq> {})"
proof -
  have h: "\<forall>c\<in>set [''10.1.0.0/16''] \<union> set [''10.2.0.0/16''] \<union> set [''10.2.3.0/24'']. valid_cidr c"
    by code_simp
  have r: "OverlappingSubnets [''10.1.0.0/16''] [''10.2.0.0/16''] [''10.2.3.0/24''] \<noteq> None"
    by code_simp
  show ?thesis using r OverlappingSubnets_correct [OF h] by auto
qed

lemma ExtractIPFamilies_fold:
  assumes "libs_ok L"
  shows "distinct fs \<Longrightarrow> IPFamilyUnknown \<notin> set fs \<Longrightarrow>
    (let r = foldl (\<lambda>fams c. let f = IPFamilyOfCIDRString L c
       in if f \<noteq> IPFamilyUnknown then AppendIfNotPresent L fams f else fams) fs cs
     in distinct r \<and> IPFamilyUnknown \<notin> set r \<and>
        set r = set fs \<union> (IPFamilyOfCIDRString L ` set cs - {IPFamilyUnknown}))"
proof (induction cs arbitrary: fs)
  case (Cons c cs)
  have app: "\<And>xs x. AppendIfNotPresent L xs x = (if x \<in> set xs then xs else xs @ [x])"
    using assms by (simp add: libs_ok_def)
  show ?case
    using Cons.prems Cons.IH [of fs] Cons.IH [of "fs @ [IPFamilyOfCIDRString L c]"]
    by (auto simp: app Let_def)
qed simp

text \<open>\<open>ExtractIPFamilies\<close> lists each known family of the CIDRs once.\<close>

lemma ExtractIPFamilies_set:
  assumes "libs_ok L"
  shows "distinct (ExtractIPFamilies L cs) \<and> IPFamilyUnknown \<notin> set (ExtractIPFamilies L cs) \<and>
    set (ExtractIPFamilies L cs) = IPFamilyOfCIDRString L ` set cs - {IPFamilyUnknown}"
  using ExtractIPFamilies_fold [OF assms, of "[]" cs] by (simp add: ExtractIPFamilies_def Let_def)

end
