(* ===== verification/EndpointApi.thy ===== *)
theory EndpointApi
  imports Cidr
begin

text \<open>
  \<open>pkg/apis/submariner.io/v1\<close> (\<open>types.go\<close>, \<open>endpoint.go\<close>) and \<open>pkg/types\<close>: the resources the
  components exchange and the methods on \<open>EndpointSpec\<close>.

  Object metadata is reduced to what the code reads: name, UID, creation timestamp, annotations. A
  timestamp counts from Go's zero time, which is therefore 0 and before every other. A config map is a
  finite map; reading a missing key gives the empty string. Nil and empty maps are not distinguished.
\<close>

section \<open>Resources\<close>

record ClusterSpec =
  cs_ClusterID :: string
  cs_ColorCodes :: "string list"
  cs_ServiceCIDR :: "string list"
  cs_ClusterCIDR :: "string list"
  cs_GlobalCIDR :: "string list"

record Cluster =
  cl_Name :: string
  cl_Spec :: ClusterSpec

record EndpointSpec =
  ClusterID :: string
  CableName :: string
  HealthCheckIP :: string
  HealthCheckIPs :: "string list"
  Hostname :: string
  Subnets :: "string list"
  PrivateIP :: string
  PrivateIPs :: "string list"
  PublicIP :: string
  PublicIPs :: "string list"
  NATEnabled :: bool
  Backend :: string
  BackendConfig :: "(string, string) fmap"

type_synonym timestamp = nat

record Endpoint =
  ep_Name :: string
  ep_UID :: string
  ep_CreationTimestamp :: timestamp
  ep_Spec :: EndpointSpec

datatype HAStatus = HAStatusActive | HAStatusPassive

datatype ConnectionStatus = NoStatus | Connected | Connecting | ConnectionError | ConnectionNone
  \<comment> \<open>\<open>NoStatus\<close> is the zero value of the string type\<close>

record LatencyRTTSpec =
  rtt_Last :: string
  rtt_Min :: string
  rtt_Average :: string
  rtt_Max :: string
  rtt_StdDev :: string

record Connection =
  Status :: ConnectionStatus
  StatusMessage :: string
  conn_Endpoint :: EndpointSpec
  UsingIP :: string
  UsingNAT :: bool
  LatencyRTT :: "LatencyRTTSpec option"

record GatewayStatus =
  gw_Version :: string
  gw_HAStatus :: HAStatus
  gw_LocalEndpoint :: EndpointSpec
  gw_StatusFailure :: string
  gw_Connections :: "Connection list"

record Gateway =
  gw_Name :: string
  gw_Annotations :: "(string, string) fmap"
  gw_Status :: GatewayStatus

record SubmarinerCluster =
  sc_ID :: string
  sc_Spec :: ClusterSpec

definition UDPPortConfig :: string where "UDPPortConfig = ''udp-port''"
definition NATTDiscoveryPortConfig :: string where "NATTDiscoveryPortConfig = ''natt-discovery-port''"
definition PreferredServerConfig :: string where "PreferredServerConfig = ''preferred-server''"
definition PublicIPConfig :: string where "PublicIPConfig = ''public-ip''"
definition UsingLoadBalancer :: string where "UsingLoadBalancer = ''using-loadbalancer''"

definition ValidGatewayNodeConfig :: "string list" where
  "ValidGatewayNodeConfig =
     [UDPPortConfig, NATTDiscoveryPortConfig, PublicIPConfig, PreferredServerConfig]"

definition NewConnection :: "EndpointSpec \<Rightarrow> string \<Rightarrow> bool \<Rightarrow> Connection" where
  "NewConnection endpointSpec usedIP nat' =
     \<lparr>Status = NoStatus, StatusMessage = [], conn_Endpoint = endpointSpec, UsingIP = usedIP,
      UsingNAT = nat', LatencyRTT = None\<rparr>"

definition SetStatus :: "ConnectionStatus \<Rightarrow> string \<Rightarrow> Connection \<Rightarrow> Connection" where
  "SetStatus status msg c = c\<lparr>Status := status, StatusMessage := msg\<rparr>"

definition GetFamily :: "libs \<Rightarrow> Connection \<Rightarrow> IPFamily" where
  "GetFamily L c = IPFamilyOfString L (UsingIP c)"

section \<open>Backend configuration\<close>

definition cfg_get :: "(string, string) fmap \<Rightarrow> string \<Rightarrow> string" where
  "cfg_get m k = (case fmlookup m k of None \<Rightarrow> [] | Some v \<Rightarrow> v)"

definition parsePort :: "string \<Rightarrow> int \<times> err option" where
  "parsePort port =
     (case parse_uint 16 port of
        None \<Rightarrow> (-1, Some (Wrapped ''error parsing port'' (Sentinel ''NumError'')))
      | Some p \<Rightarrow> if p < 1 then (-1, Some (Err ''port is < 1'')) else (int p, None))"

definition GetBackendPort :: "EndpointSpec \<Rightarrow> string \<Rightarrow> int \<Rightarrow> int \<times> err option" where
  "GetBackendPort ep configName defaultValue =
     (let portStr = cfg_get (BackendConfig ep) configName in
      if portStr \<noteq> [] then
        (case parsePort portStr of
           (_, Some e) \<Rightarrow> (defaultValue, Some (Wrapped ''error parsing backend config'' e))
         | (port, None) \<Rightarrow> (port, None))
      else (defaultValue, None))"

definition GetBackendBool :: "EndpointSpec \<Rightarrow> string \<Rightarrow> bool \<Rightarrow> bool \<times> err option" where
  "GetBackendBool ep configName defaultValue =
     (let boolStr = cfg_get (BackendConfig ep) configName in
      if boolStr \<noteq> [] then
        (case parse_bool boolStr of
           None \<Rightarrow> (defaultValue, Some (Wrapped ''error parsing backend config'' (Sentinel ''NumError'')))
         | Some b \<Rightarrow> (b, None))
      else (defaultValue, None))"

section \<open>Identity of endpoints\<close>

definition GenerateName :: "libs \<Rightarrow> EndpointSpec \<Rightarrow> string result" where
  "GenerateName L ep =
     (if ClusterID ep = [] then Inl (Err ''ClusterID cannot be empty'')
      else if CableName ep = [] then Inl (Err ''CableName cannot be empty'')
      else Inr (EnsureValidName L (ClusterID ep @ ''-'' @ CableName ep)))"

definition hasSameBackendConfig :: "libs \<Rightarrow> EndpointSpec \<Rightarrow> EndpointSpec \<Rightarrow> bool" where
  "hasSameBackendConfig L ep other =
     (if cfg_get (BackendConfig ep) UsingLoadBalancer = ''true'' \<and>
         cfg_get (BackendConfig other) UsingLoadBalancer = ''true'' then True
      else SemanticDeepEqual L (BackendConfig ep) (BackendConfig other))"

definition Equals :: "libs \<Rightarrow> EndpointSpec option \<Rightarrow> EndpointSpec option \<Rightarrow> bool" where
  "Equals L a b =
     (case (a, b) of
        (None, None) \<Rightarrow> True
      | (Some ep, Some other) \<Rightarrow>
          ClusterID ep = ClusterID other \<and> CableName ep = CableName other \<and>
          Hostname ep = Hostname other \<and> Backend ep = Backend other \<and>
          hasSameBackendConfig L ep other
      | _ \<Rightarrow> False)"

definition GetFamilyCableName :: "EndpointSpec \<Rightarrow> IPFamily \<Rightarrow> string" where
  "GetFamilyCableName ep family = CableName ep @ ''-v'' @ family_str family"

definition GetIPFamilies :: "libs \<Rightarrow> EndpointSpec \<Rightarrow> IPFamily list" where
  "GetIPFamilies L ep = ExtractIPFamilies L (Subnets ep)"

section \<open>IP addresses per family\<close>

definition getIPFrom :: "libs \<Rightarrow> IPFamily \<Rightarrow> string list \<Rightarrow> string \<Rightarrow> string" where
  "getIPFrom L family ips ipv4Fallback =
     (case find (\<lambda>ip. IPFamilyOfString L ip = family) ips of
        Some ip \<Rightarrow> ip
      | None \<Rightarrow> if family = IPv4 then ipv4Fallback else [])"

fun replace_family :: "libs \<Rightarrow> IPFamily \<Rightarrow> string \<Rightarrow> string list \<Rightarrow> string list" where
  "replace_family L family newIP [] = [newIP]"
| "replace_family L family newIP (ip # ips) =
     (if IPFamilyOfString L ip = family then newIP # ips
      else ip # replace_family L family newIP ips)"

definition setIP :: "libs \<Rightarrow> string list \<Rightarrow> string \<Rightarrow> string \<Rightarrow> string list \<times> string" where
  "setIP L ips ipv4Fallback newIP =
     (if newIP = [] then (ips, ipv4Fallback)
      else let family = IPFamilyOfString L newIP in
        if family = IPFamilyUnknown then (ips, ipv4Fallback)
        else (replace_family L family newIP ips, if family = IPv4 then newIP else ipv4Fallback))"

definition GetHealthCheckIP :: "libs \<Rightarrow> IPFamily \<Rightarrow> EndpointSpec \<Rightarrow> string" where
  "GetHealthCheckIP L family ep = getIPFrom L family (HealthCheckIPs ep) (HealthCheckIP ep)"

definition SetHealthCheckIP :: "libs \<Rightarrow> string \<Rightarrow> EndpointSpec \<Rightarrow> EndpointSpec" where
  "SetHealthCheckIP L ip ep = (let (ips, f) = setIP L (HealthCheckIPs ep) (HealthCheckIP ep) ip
     in ep\<lparr>HealthCheckIPs := ips, HealthCheckIP := f\<rparr>)"

definition GetPublicIP :: "libs \<Rightarrow> IPFamily \<Rightarrow> EndpointSpec \<Rightarrow> string" where
  "GetPublicIP L family ep = getIPFrom L family (PublicIPs ep) (PublicIP ep)"

definition SetPublicIP :: "libs \<Rightarrow> string \<Rightarrow> EndpointSpec \<Rightarrow> EndpointSpec" where
  "SetPublicIP L ip ep = (let (ips, f) = setIP L (PublicIPs ep) (PublicIP ep) ip
     in ep\<lparr>PublicIPs := ips, PublicIP := f\<rparr>)"

definition GetPrivateIP :: "libs \<Rightarrow> IPFamily \<Rightarrow> EndpointSpec \<Rightarrow> string" where
  "GetPrivateIP L family ep = getIPFrom L family (PrivateIPs ep) (PrivateIP ep)"

definition SetPrivateIP :: "libs \<Rightarrow> string \<Rightarrow> EndpointSpec \<Rightarrow> EndpointSpec" where
  "SetPrivateIP L ip ep = (let (ips, f) = setIP L (PrivateIPs ep) (PrivateIP ep) ip
     in ep\<lparr>PrivateIPs := ips, PrivateIP := f\<rparr>)"

definition GatewayIP :: "libs \<Rightarrow> IPFamily \<Rightarrow> EndpointSpec \<Rightarrow> ip option" where
  "GatewayIP L family ep =
     (let publicIP = GetPublicIP L family ep in
      if publicIP \<noteq> [] then ParseIP publicIP else ParseIP (GetPrivateIP L family ep))"

text \<open>\<open>ParseSubnets\<close> panics on an unparseable subnet (\<open>utilruntime.Must\<close>): None.\<close>

fun parse_subnets :: "libs \<Rightarrow> IPFamily \<Rightarrow> string list \<Rightarrow> ipnet list option" where
  "parse_subnets L family [] = Some []"
| "parse_subnets L family (s # ss) =
     (case ParseCIDR s of
        None \<Rightarrow> None
      | Some n \<Rightarrow> map_option (\<lambda>ns. if IPFamilyOfCIDR L n = family then n # ns else ns)
                   (parse_subnets L family ss))"

definition ParseSubnets :: "libs \<Rightarrow> IPFamily \<Rightarrow> EndpointSpec \<Rightarrow> ipnet list option" where
  "ParseSubnets L family ep = parse_subnets L family (Subnets ep)"

definition ExtractSubnetsExcludingIP :: "libs \<Rightarrow> string \<Rightarrow> EndpointSpec \<Rightarrow> string list option" where
  "ExtractSubnetsExcludingIP L excIP ep =
     (let ipFamily = IPFamilyOfString L excIP; subnetPrefix = excIP @ ''/'' in
      map_option (\<lambda>ns. filter (\<lambda>s. \<not> has_prefix s subnetPrefix \<and> IPFamilyOfCIDRString L s = ipFamily)
          (map ipnet_String ns)) (ParseSubnets L ipFamily ep))"

record SubmarinerSpecification =
  ss_ClusterCidr :: "string list"
  ss_GlobalCidr :: "string list"
  ss_ServiceCidr :: "string list"
  ss_Broker :: string
  ss_CableDriver :: string
  ss_ClusterID :: string
  ss_Namespace :: string
  ss_PublicIP :: string
  ss_Debug :: bool
  ss_NATEnabled :: bool
  ss_HealthCheckEnabled :: bool
  ss_Uninstall :: bool
  ss_HaltOnCertError :: bool
  ss_HealthCheckInterval :: int
  ss_HealthCheckMaxPacketLossCount :: int
  ss_MetricsPort :: int

definition spec_GetIPFamilies :: "libs \<Rightarrow> SubmarinerSpecification \<Rightarrow> IPFamily list" where
  "spec_GetIPFamilies L subSpec = ExtractIPFamilies L (ss_ClusterCidr subSpec)"

section \<open>Properties\<close>

text \<open>A concrete endpoint, for witnesses.\<close>

definition example_spec :: EndpointSpec where
  "example_spec = \<lparr>ClusterID = ''east'', CableName = ''submariner-cable-east-10-0-0-1'',
     HealthCheckIP = [], HealthCheckIPs = [], Hostname = ''node1'', Subnets = [''10.1.0.0/16''],
     PrivateIP = ''10.0.0.1'', PrivateIPs = [''10.0.0.1'', ''fd00::1''], PublicIP = ''1.2.3.4'',
     PublicIPs = [''1.2.3.4''], NATEnabled = True, Backend = ''libreswan'',
     BackendConfig = fmupd NATTDiscoveryPortConfig ''4490'' fmempty\<rparr>"

definition example_endpoint :: Endpoint where
  "example_endpoint = \<lparr>ep_Name = ''east-cable'', ep_UID = ''uid-1'', ep_CreationTimestamp = 100,
     ep_Spec = example_spec\<rparr>"

lemma find_replace_same:
  "IPFamilyOfString L newIP = family \<Longrightarrow>
   find (\<lambda>ip. IPFamilyOfString L ip = family) (replace_family L family newIP ips) = Some newIP"
  by (induction ips) auto

lemma find_replace_other:
  "IPFamilyOfString L newIP = family \<Longrightarrow> g \<noteq> family \<Longrightarrow>
   find (\<lambda>ip. IPFamilyOfString L ip = g) (replace_family L family newIP ips) =
   find (\<lambda>ip. IPFamilyOfString L ip = g) ips"
  by (induction ips) auto

lemma getIPFrom_setIP:
  assumes "IPFamilyOfString L newIP \<noteq> IPFamilyUnknown" and "newIP \<noteq> []"
    and "setIP L ips fb newIP = (ips', fb')"
  shows "getIPFrom L g ips' fb' =
    (if g = IPFamilyOfString L newIP then newIP else getIPFrom L g ips fb)"
  using assms by (auto simp: setIP_def getIPFrom_def Let_def find_replace_same find_replace_other
      split: if_splits option.splits)

lemmas family_ip_defs [go_defs] =
  GetPublicIP_def SetPublicIP_def GetPrivateIP_def SetPrivateIP_def GetHealthCheckIP_def
  SetHealthCheckIP_def

text \<open>Setting an address of a known family is read back for that family, and leaves the address of
  every other family unchanged, for the public, private and health check addresses alike.\<close>

theorem set_get_ip:
  assumes "IPFamilyOfString L newIP = family" and "family \<noteq> IPFamilyUnknown" and "newIP \<noteq> []"
  shows "GetPublicIP L g (SetPublicIP L newIP ep) = (if g = family then newIP else GetPublicIP L g ep) \<and>
    GetPrivateIP L g (SetPrivateIP L newIP ep) = (if g = family then newIP else GetPrivateIP L g ep) \<and>
    GetHealthCheckIP L g (SetHealthCheckIP L newIP ep) =
      (if g = family then newIP else GetHealthCheckIP L g ep)"
  using assms by (auto simp: go_defs split: prod.splits dest!: getIPFrom_setIP [rotated 2, where g = g])

theorem set_get_ip_witness:
  "IPFamilyOfString ref_libs ''10.1.2.3'' = IPv4 \<and> IPv4 \<noteq> IPFamilyUnknown \<and> ''10.1.2.3'' \<noteq> [] \<and>
   GetPublicIP ref_libs IPv4 (SetPublicIP ref_libs ''10.1.2.3'' example_spec) = ''10.1.2.3'' \<and>
   GetPrivateIP ref_libs IPv6 (SetPrivateIP ref_libs ''10.1.2.3'' example_spec) = ''fd00::1'' \<and>
   GetHealthCheckIP ref_libs IPv4 (SetHealthCheckIP ref_libs ''10.1.2.3'' example_spec) = ''10.1.2.3''"
proof -
  have f: "IPFamilyOfString ref_libs ''10.1.2.3'' = IPv4" by code_simp
  have p: "GetPrivateIP ref_libs IPv6 example_spec = ''fd00::1''" by code_simp
  show ?thesis
    using f p set_get_ip [of ref_libs "''10.1.2.3''" IPv4 IPv4 example_spec]
      set_get_ip [of ref_libs "''10.1.2.3''" IPv4 IPv6 example_spec] by simp
qed

text \<open>One address per known family is kept: \<open>setIP\<close> never adds a second one.\<close>

definition one_per_family :: "libs \<Rightarrow> string list \<Rightarrow> bool" where
  "one_per_family L ips \<longleftrightarrow>
     distinct (filter (\<lambda>f. f \<noteq> IPFamilyUnknown) (map (IPFamilyOfString L) ips))"

lemma replace_family_families:
  "IPFamilyOfString L newIP = family \<Longrightarrow>
   map (IPFamilyOfString L) (replace_family L family newIP ips) =
   (if family \<in> IPFamilyOfString L ` set ips then map (IPFamilyOfString L) ips
    else map (IPFamilyOfString L) ips @ [family])"
  by (induction ips) auto

text \<open>\<open>setIP\<close> keeps at most one address of each known family in the list, whatever it is given.\<close>

theorem setIP_one_per_family:
  assumes "one_per_family L ips"
  shows "one_per_family L (fst (setIP L ips fb newIP))"
  using assms
  by (auto simp: one_per_family_def setIP_def Let_def replace_family_families)

theorem setIP_one_per_family_witness:
  "one_per_family ref_libs [''10.0.0.1'', ''fd00::1''] \<and>
   one_per_family ref_libs (fst (setIP ref_libs [''10.0.0.1'', ''fd00::1''] ''10.0.0.1'' ''fd00::2''))"
proof -
  have h: "one_per_family ref_libs [''10.0.0.1'', ''fd00::1'']" by code_simp
  show ?thesis using h setIP_one_per_family [OF h] by simp
qed

text \<open>A backend port read from the configuration is either the default or between 1 and 65535, and
  the default is returned exactly when the key is unset or does not parse to such a port.\<close>

theorem GetBackendPort_range:
  "(case GetBackendPort ep key d of
      (p, None) \<Rightarrow> p = d \<and> cfg_get (BackendConfig ep) key = [] \<or> 1 \<le> p \<and> p \<le> 65535 \<and>
         parse_uint 16 (cfg_get (BackendConfig ep) key) = Some (nat p)
    | (p, Some e) \<Rightarrow> p = d \<and> cfg_get (BackendConfig ep) key \<noteq> [] \<and>
         parse_uint 16 (cfg_get (BackendConfig ep) key) \<in> {None, Some 0})"
  by (auto simp: GetBackendPort_def parsePort_def Let_def split: option.splits if_splits
      dest!: parse_uint_bound)

text \<open>\<open>Equals\<close> is an equivalence relation on endpoint specifications.\<close>

theorem Equals_equivp:
  assumes "libs_ok L"
  shows "equivp (Equals L)"
proof -
  have eq: "\<And>m m'. SemanticDeepEqual L m m' \<longleftrightarrow> m = m'"
    using assms by (simp add: libs_ok_def)
  show ?thesis
  proof (rule equivpI)
    show "reflp (Equals L)"
      by (auto simp: reflp_def Equals_def hasSameBackendConfig_def eq split: option.splits)
    show "symp (Equals L)"
      by (auto simp: symp_def Equals_def hasSameBackendConfig_def eq split: option.splits if_splits)
    show "transp (Equals L)"
      by (auto simp: transp_def Equals_def hasSameBackendConfig_def eq split: option.splits if_splits)
  qed
qed

theorem Equals_equivp_witness: "libs_ok ref_libs \<and> equivp (Equals ref_libs)"
  using ref_libs_ok Equals_equivp [OF ref_libs_ok] by simp

lemma family_str_inj: "family_str f = family_str g \<Longrightarrow> f = g"
  by (cases f; cases g) auto

text \<open>Cable names of two known families never coincide, whatever the cables are called.\<close>

lemma GetFamilyCableName_inj:
  assumes "f \<noteq> IPFamilyUnknown" and "g \<noteq> IPFamilyUnknown"
  shows "GetFamilyCableName a f = GetFamilyCableName b g \<longleftrightarrow> CableName a = CableName b \<and> f = g"
  using assms
  by (cases f; cases g; simp add: GetFamilyCableName_def)

end
