(* ===== verification/NatDiscovery.thy ===== *)
theory NatDiscovery
  imports EndpointApi
begin

text \<open>
  \<open>pkg/natdiscovery\<close>: for each remote endpoint and IP family, find out whether its private or its
  public address is reachable and whether the path is NATed, and hand the result to the ready channel.

  The mutable \<open>natDiscovery\<close> object is the record \<open>natDiscovery\<close>. Its \<open>sync.Map\<close> is a map; the order in
  which \<open>Range\<close> visits it is an argument of \<open>checkEndpointList\<close>. The ready channel is the list of the
  infos sent to it, in order (the buffer's capacity of 100, which makes a sender wait, is not
  modelled); \<open>nd_sent\<close> lists the packets handed to the UDP sockets. The clock is an argument \<open>now\<close>, in
  nanoseconds. \<open>nd_writers\<close> are the families with a listener: calling the nil function of another
  family panics, which is the distinguished error \<open>go_panic\<close>. Protobuf encoding, the socket and the
  route lookup are the environment \<open>natEnv\<close>.
\<close>

section \<open>Messages\<close>

record IPPortPair =
  ipp_IP :: string
  ipp_Port :: int

record EndpointDetails =
  ed_ClusterId :: string
  ed_EndpointId :: string

record NATRequest =
  rq_RequestNumber :: "64 word"
  rq_Sender :: "EndpointDetails option"
  rq_Receiver :: "EndpointDetails option"
  rq_UsingSrc :: "IPPortPair option"
  rq_UsingDst :: "IPPortPair option"

datatype ResponseType =
  RT_OK | RT_NAT_DETECTED | RT_UNKNOWN_DST_CLUSTER | RT_UNKNOWN_DST_ENDPOINT | RT_MALFORMED
  | RT_Other int

record NATResponse =
  rs_RequestNumber :: "64 word"
  rs_Response :: ResponseType
  rs_Sender :: "EndpointDetails option"
  rs_Receiver :: "EndpointDetails option"
  rs_SrcIpNatDetected :: bool
  rs_SrcPortNatDetected :: bool
  rs_DstIpNatDetected :: bool
  rs_ReceivedSrc :: "IPPortPair option"

datatype natMessage =
    RequestMessage int NATRequest     \<comment> \<open>version, payload\<close>
  | ResponseMessage int NATResponse
  | EmptyMessage int

definition proto_Version :: int where "proto_Version = 1"

record UDPAddr =
  ua_IP :: "ip option"
  ua_Port :: int

definition addr_IP_String :: "UDPAddr \<Rightarrow> string" where
  "addr_IP_String a = (case ua_IP a of None \<Rightarrow> ''<nil>'' | Some i \<Rightarrow> ip_String i)"

text \<open>The getters of a nil message give zero values.\<close>

definition endpointId :: "EndpointDetails option \<Rightarrow> string" where
  "endpointId d = (case d of None \<Rightarrow> [] | Some e \<Rightarrow> ed_EndpointId e)"

definition clusterId :: "EndpointDetails option \<Rightarrow> string" where
  "clusterId d = (case d of None \<Rightarrow> [] | Some e \<Rightarrow> ed_ClusterId e)"

definition pairIP :: "IPPortPair option \<Rightarrow> string" where
  "pairIP p = (case p of None \<Rightarrow> [] | Some q \<Rightarrow> ipp_IP q)"

definition pairPort :: "IPPortPair option \<Rightarrow> int" where
  "pairPort p = (case p of None \<Rightarrow> 0 | Some q \<Rightarrow> ipp_Port q)"

record natEnv =
  ne_FindSourceIP :: "string \<Rightarrow> IPFamily \<Rightarrow> string result"
  ne_Marshal :: "natMessage \<Rightarrow> nat list result"
  ne_Unmarshal :: "nat list \<Rightarrow> natMessage result"
  ne_Write :: "IPFamily \<Rightarrow> nat list \<Rightarrow> UDPAddr \<Rightarrow> int \<times> err option"

definition go_panic :: err where "go_panic = Sentinel ''panic''"

section \<open>One remote endpoint\<close>

datatype endpointState =
  testingPrivateAndPublicIPs | waitingForResponse | selectedPublicIP | selectedPrivateIP

record natTimeouts =
  RecheckTime :: int
  TotalTimeout :: int
  TotalTimeoutLoadBalancer :: int
  PublicToPrivateFailoverTimeout :: int

definition init_timeouts :: natTimeouts where
  "init_timeouts = \<lparr>RecheckTime = 2 * 1000000000, TotalTimeout = 60 * 1000000000,
     TotalTimeoutLoadBalancer = 6 * 1000000000, PublicToPrivateFailoverTimeout = 1000000000\<rparr>"

record remoteEndpointNAT =
  rn_endpoint :: Endpoint
  rn_family :: IPFamily
  rn_state :: endpointState
  rn_lastCheck :: int
  rn_lastTransition :: int
  rn_started :: int
  rn_timeout :: int
  rn_useIP :: string
  rn_lastPublicIPRequestID :: "64 word"
  rn_lastPrivateIPRequestID :: "64 word"
  rn_useNAT :: bool
  rn_usingLoadBalancer :: bool

record NATEndpointInfo =
  ni_Endpoint :: Endpoint
  ni_UseNAT :: bool
  ni_UseIP :: string
  ni_UseFamily :: IPFamily

definition toNATEndpointInfo :: "remoteEndpointNAT \<Rightarrow> NATEndpointInfo" where
  "toNATEndpointInfo rn = \<lparr>ni_Endpoint = rn_endpoint rn, ni_UseNAT = rn_useNAT rn,
     ni_UseIP = rn_useIP rn, ni_UseFamily = rn_family rn\<rparr>"

definition newRemoteEndpointNAT :: "natTimeouts \<Rightarrow> int \<Rightarrow> Endpoint \<Rightarrow> IPFamily \<Rightarrow> remoteEndpointNAT" where
  "newRemoteEndpointNAT T now endpoint family =
     (let lb = fst (GetBackendBool (ep_Spec endpoint) UsingLoadBalancer False) in
      \<lparr>rn_endpoint = endpoint, rn_family = family, rn_state = testingPrivateAndPublicIPs,
       rn_lastCheck = 0, rn_lastTransition = now, rn_started = now,
       rn_timeout = (if lb then TotalTimeoutLoadBalancer T else TotalTimeout T),
       rn_useIP = [], rn_lastPublicIPRequestID = 0, rn_lastPrivateIPRequestID = 0,
       rn_useNAT = False, rn_usingLoadBalancer = lb\<rparr>)"

definition rn_cable :: "remoteEndpointNAT \<Rightarrow> string" where
  "rn_cable rn = GetFamilyCableName (ep_Spec (rn_endpoint rn)) (rn_family rn)"

definition rn_publicIP :: "libs \<Rightarrow> remoteEndpointNAT \<Rightarrow> string" where
  "rn_publicIP L rn = GetPublicIP L (rn_family rn) (ep_Spec (rn_endpoint rn))"

definition rn_privateIP :: "libs \<Rightarrow> remoteEndpointNAT \<Rightarrow> string" where
  "rn_privateIP L rn = GetPrivateIP L (rn_family rn) (ep_Spec (rn_endpoint rn))"

definition transitionToState :: "int \<Rightarrow> endpointState \<Rightarrow> remoteEndpointNAT \<Rightarrow> remoteEndpointNAT" where
  "transitionToState now s rn = rn\<lparr>rn_lastTransition := now, rn_state := s\<rparr>"

definition sinceLastTransition :: "int \<Rightarrow> remoteEndpointNAT \<Rightarrow> int" where
  "sinceLastTransition now rn = now - rn_lastTransition rn"

definition hasTimedOut :: "int \<Rightarrow> remoteEndpointNAT \<Rightarrow> bool" where
  "hasTimedOut now rn \<longleftrightarrow> now - rn_started rn > rn_timeout rn"

definition useLegacyNATSettings :: "libs \<Rightarrow> int \<Rightarrow> remoteEndpointNAT \<Rightarrow> remoteEndpointNAT" where
  "useLegacyNATSettings L now rn =
     (if rn_usingLoadBalancer rn \<or> NATEnabled (ep_Spec (rn_endpoint rn))
      then transitionToState now selectedPublicIP (rn\<lparr>rn_useNAT := True, rn_useIP := rn_publicIP L rn\<rparr>)
      else transitionToState now selectedPrivateIP (rn\<lparr>rn_useNAT := False, rn_useIP := rn_privateIP L rn\<rparr>))"

definition isDiscoveryComplete :: "remoteEndpointNAT \<Rightarrow> bool" where
  "isDiscoveryComplete rn \<longleftrightarrow> rn_state rn = selectedPublicIP \<or> rn_state rn = selectedPrivateIP"

fun shouldCheck :: "natTimeouts \<Rightarrow> int \<Rightarrow> remoteEndpointNAT \<Rightarrow> bool" where
  "shouldCheck T now rn = (case rn_state rn of
      testingPrivateAndPublicIPs \<Rightarrow> True
    | waitingForResponse \<Rightarrow> now - rn_lastCheck rn > RecheckTime T
    | selectedPublicIP \<Rightarrow> False
    | selectedPrivateIP \<Rightarrow> False)"

definition checkSent :: "int \<Rightarrow> remoteEndpointNAT \<Rightarrow> remoteEndpointNAT" where
  "checkSent now rn =
     (if rn_state rn = testingPrivateAndPublicIPs then rn\<lparr>rn_state := waitingForResponse\<rparr> else rn)
       \<lparr>rn_lastCheck := now\<rparr>"

definition transitionToPublicIP ::
  "libs \<Rightarrow> int \<Rightarrow> bool \<Rightarrow> remoteEndpointNAT \<Rightarrow> remoteEndpointNAT \<times> bool" where
  "transitionToPublicIP L now useNAT rn = (case rn_state rn of
      waitingForResponse \<Rightarrow>
        (transitionToState now selectedPublicIP
           (rn\<lparr>rn_useIP := rn_publicIP L rn, rn_useNAT := useNAT\<rparr>), True)
    | _ \<Rightarrow> (rn, False))"

definition transitionToPrivateIP ::
  "libs \<Rightarrow> natTimeouts \<Rightarrow> int \<Rightarrow> bool \<Rightarrow> remoteEndpointNAT \<Rightarrow> remoteEndpointNAT \<times> bool" where
  "transitionToPrivateIP L T now useNAT rn =
     (let selected = (transitionToState now selectedPrivateIP
            (rn\<lparr>rn_useIP := rn_privateIP L rn, rn_useNAT := useNAT\<rparr>), True) in
      case rn_state rn of
        waitingForResponse \<Rightarrow> selected
      | selectedPublicIP \<Rightarrow>
          if sinceLastTransition now rn > PublicToPrivateFailoverTimeout T then (rn, False)
          else selected
      | _ \<Rightarrow> (rn, False))"

section \<open>The discovery service\<close>

record natDiscovery =
  nd_LocalSpec :: EndpointSpec
  nd_serverPort :: int
  nd_remoteEndpoints :: "string \<rightharpoonup> remoteEndpointNAT"
  nd_requestCounter :: "64 word"
  nd_writers :: "IPFamily list"
  nd_ready :: "NATEndpointInfo list"
  nd_sent :: "(IPFamily \<times> natMessage \<times> UDPAddr) list"

definition errNoNATDiscoveryPort :: err where
  "errNoNATDiscoveryPort = Sentinel ''NATT discovery port missing in endpoint''"

text \<open>\<open>NewWithConfig\<close>; the request counter starts at a random number.\<close>

definition NewWithConfig :: "EndpointSpec \<Rightarrow> 64 word \<Rightarrow> natDiscovery result" where
  "NewWithConfig localSpec rand =
     (case GetBackendPort localSpec NATTDiscoveryPortConfig 0 of
        (_, Some e) \<Rightarrow> Inl (Wrapped ''error parsing nat discovery port'' e)
      | (ndPort, None) \<Rightarrow>
          Inr \<lparr>nd_LocalSpec = localSpec, nd_serverPort = ndPort, nd_remoteEndpoints = Map.empty,
               nd_requestCounter = rand, nd_writers = [], nd_ready = [], nd_sent = []\<rparr>)"

definition extractNATDiscoveryPort :: "EndpointSpec \<Rightarrow> int \<times> err option" where
  "extractNATDiscoveryPort spec =
     (case GetBackendPort spec NATTDiscoveryPortConfig 0 of
        (p, Some e) \<Rightarrow> (p, Some e)
      | (p, None) \<Rightarrow> if p = 0 then (p, Some errNoNATDiscoveryPort) else (p, None))"

definition ready :: "NATEndpointInfo \<Rightarrow> natDiscovery \<Rightarrow> natDiscovery" where
  "ready info nd = nd\<lparr>nd_ready := nd_ready nd @ [info]\<rparr>"

definition store :: "string \<Rightarrow> remoteEndpointNAT \<Rightarrow> natDiscovery \<Rightarrow> natDiscovery" where
  "store k rn nd = nd\<lparr>nd_remoteEndpoints := (nd_remoteEndpoints nd)(k \<mapsto> rn)\<rparr>"

text \<open>\<open>runListeners\<close>: a listener per local family, none when the port is 0; the first failure stops it.\<close>

fun runListeners_loop ::
  "(int \<Rightarrow> IPFamily \<Rightarrow> err option) \<Rightarrow> IPFamily list \<Rightarrow> natDiscovery \<Rightarrow> natDiscovery \<times> err option" where
  "runListeners_loop create [] nd = (nd, None)"
| "runListeners_loop create (f # fs) nd =
     (if nd_serverPort nd = 0 then runListeners_loop create fs nd
      else (case create (nd_serverPort nd) f of
              Some e \<Rightarrow> (nd, Some e)
            | None \<Rightarrow> runListeners_loop create fs (nd\<lparr>nd_writers := f # nd_writers nd\<rparr>)))"

definition runListeners ::
  "libs \<Rightarrow> (int \<Rightarrow> IPFamily \<Rightarrow> err option) \<Rightarrow> natDiscovery \<Rightarrow> natDiscovery \<times> err option" where
  "runListeners L create nd = runListeners_loop create (GetIPFamilies L (nd_LocalSpec nd)) nd"

definition AddEndpoint ::
  "libs \<Rightarrow> natTimeouts \<Rightarrow> int \<Rightarrow> Endpoint \<Rightarrow> IPFamily \<Rightarrow> natDiscovery \<Rightarrow> natDiscovery" where
  "AddEndpoint L T now endPoint family nd =
     (let new = newRemoteEndpointNAT T now endPoint family;
          legacy = snd (extractNATDiscoveryPort (ep_Spec endPoint)) \<noteq> None \<or> nd_serverPort nd = 0;
          remoteNAT = (if legacy then useLegacyNATSettings L now new else new);
          nd1 = (if legacy then ready (toNATEndpointInfo remoteNAT) nd else nd);
          cableName = GetFamilyCableName (ep_Spec endPoint) family in
      case nd_remoteEndpoints nd1 cableName of
        None \<Rightarrow> store cableName remoteNAT nd1
      | Some existing \<Rightarrow>
          if ep_Spec (rn_endpoint existing) = ep_Spec endPoint then
            (if isDiscoveryComplete existing then ready (toNATEndpointInfo existing) nd1 else nd1)
          else store cableName remoteNAT nd1)"

definition RemoveEndpoint :: "string \<Rightarrow> natDiscovery \<Rightarrow> natDiscovery" where
  "RemoveEndpoint endpointName nd =
     nd\<lparr>nd_remoteEndpoints := (nd_remoteEndpoints nd)(endpointName := None)\<rparr>"

section \<open>Sending check requests\<close>

text \<open>
  Writing a message: the nil function panics; an error or a short write is an error. The packet is in
  \<open>nd_sent\<close> whenever the socket was called.
\<close>

definition udp_send ::
  "natEnv \<Rightarrow> string \<Rightarrow> IPFamily \<Rightarrow> natMessage \<Rightarrow> nat list \<Rightarrow> UDPAddr \<Rightarrow> natDiscovery \<Rightarrow>
   natDiscovery \<times> err option" where
  "udp_send V msg family m buf addr nd =
     (if family \<notin> set (nd_writers nd) then (nd, Some go_panic)
      else (let nd' = nd\<lparr>nd_sent := nd_sent nd @ [(family, m, addr)]\<rparr> in
            case ne_Write V family buf addr of
              (_, Some e) \<Rightarrow> (nd', Some (Wrapped msg e))
            | (len, None) \<Rightarrow>
                if len \<noteq> int (length buf)
                then (nd', Some (Err ''the sent UDP packet was smaller than requested''))
                else (nd', None)))"

definition check_request ::
  "64 word \<Rightarrow> natDiscovery \<Rightarrow> remoteEndpointNAT \<Rightarrow> string \<Rightarrow> string \<Rightarrow> int \<Rightarrow> NATRequest" where
  "check_request number nd rn sourceIP targetIP targetPort =
     \<lparr>rq_RequestNumber = number,
      rq_Sender = Some \<lparr>ed_ClusterId = ClusterID (nd_LocalSpec nd),
                        ed_EndpointId = GetFamilyCableName (nd_LocalSpec nd) (rn_family rn)\<rparr>,
      rq_Receiver = Some \<lparr>ed_ClusterId = ClusterID (ep_Spec (rn_endpoint rn)), ed_EndpointId = rn_cable rn\<rparr>,
      rq_UsingSrc = Some \<lparr>ipp_IP = sourceIP, ipp_Port = nd_serverPort nd\<rparr>,
      rq_UsingDst = Some \<lparr>ipp_IP = targetIP, ipp_Port = targetPort\<rparr>\<rparr>"

text \<open>The result: the service, the endpoint, the request ID the caller's pointer holds, the error.\<close>

definition sendCheckRequestToTargetIP ::
  "natEnv \<Rightarrow> int \<Rightarrow> natDiscovery \<Rightarrow> remoteEndpointNAT \<Rightarrow> string \<Rightarrow> 64 word \<Rightarrow>
   natDiscovery \<times> remoteEndpointNAT \<times> 64 word \<times> err option" where
  "sendCheckRequestToTargetIP V now nd rn targetIP reqNumber =
     (case extractNATDiscoveryPort (ep_Spec (rn_endpoint rn)) of
        (_, Some e) \<Rightarrow> (nd, rn, reqNumber, Some e)
      | (targetPort, None) \<Rightarrow>
          (case ne_FindSourceIP V targetIP (rn_family rn) of
             Inl e \<Rightarrow> (nd, rn, reqNumber, Some (Wrapped ''error finding source IP for target'' e))
           | Inr sourceIP \<Rightarrow>
               (let number = nd_requestCounter nd + 1;
                    nd1 = nd\<lparr>nd_requestCounter := number\<rparr>;
                    m = RequestMessage proto_Version
                          (check_request number nd rn sourceIP targetIP targetPort) in
                case ne_Marshal V m of
                  Inl e \<Rightarrow> (nd1, rn, reqNumber, Some (Wrapped ''error marshaling request'' e))
                | Inr buf \<Rightarrow>
                    (case udp_send V ''error sending request packet'' (rn_family rn) m buf
                            \<lparr>ua_IP = ParseIP targetIP, ua_Port = targetPort\<rparr> nd1 of
                       (nd2, Some e) \<Rightarrow> (nd2, rn, 0, Some e)
                     | (nd2, None) \<Rightarrow> (nd2, checkSent now rn, number, None)))))"

definition sendCheckRequest ::
  "libs \<Rightarrow> natEnv \<Rightarrow> int \<Rightarrow> natDiscovery \<Rightarrow> remoteEndpointNAT \<Rightarrow>
   natDiscovery \<times> remoteEndpointNAT \<times> err option" where
  "sendCheckRequest L V now nd rn =
     (let (nd1, rn1, errPrivate) =
            (if rn_privateIP L rn \<noteq> [] then
               (case sendCheckRequestToTargetIP V now nd rn (rn_privateIP L rn) (rn_lastPrivateIPRequestID rn)
                of (n, r, i, e) \<Rightarrow> (n, r\<lparr>rn_lastPrivateIPRequestID := i\<rparr>, e))
             else (nd, rn, None));
          (nd2, rn2, errPublic) =
            (if rn_publicIP L rn1 \<noteq> [] then
               (case sendCheckRequestToTargetIP V now nd1 rn1 (rn_publicIP L rn1) (rn_lastPublicIPRequestID rn1)
                of (n, r, i, e) \<Rightarrow> (n, r\<lparr>rn_lastPublicIPRequestID := i\<rparr>, e))
             else (nd1, rn1, None))
      in (nd2, rn2,
          case (errPrivate, errPublic) of
            (Some _, Some _) \<Rightarrow> Some (Err ''error while trying to discover both public & private addresses'')
          | (Some e, None) \<Rightarrow> Some (Wrapped ''error while trying to NAT-discover private IP'' e)
          | (None, Some e) \<Rightarrow> Some (Wrapped ''error while trying to NAT-discover public IP'' e)
          | (None, None) \<Rightarrow> None))"

text \<open>One iteration of \<open>checkEndpointList\<close>, then the loop over the keys in the order visited.\<close>

definition check_one ::
  "libs \<Rightarrow> natTimeouts \<Rightarrow> natEnv \<Rightarrow> int \<Rightarrow> natDiscovery \<Rightarrow> string \<Rightarrow> natDiscovery" where
  "check_one L T V now nd key =
     (case nd_remoteEndpoints nd key of
        None \<Rightarrow> nd
      | Some rn \<Rightarrow>
          if shouldCheck T now rn then
            (if hasTimedOut now rn then
               (let rn' = useLegacyNATSettings L now rn
                in ready (toNATEndpointInfo rn') (store key rn' nd))
             else (case sendCheckRequest L V now nd rn of (nd', rn', _) \<Rightarrow> store key rn' nd'))
          else nd)"

definition checkEndpointList ::
  "libs \<Rightarrow> natTimeouts \<Rightarrow> natEnv \<Rightarrow> int \<Rightarrow> string list \<Rightarrow> natDiscovery \<Rightarrow> natDiscovery" where
  "checkEndpointList L T V now order nd = foldl (check_one L T V now) nd order"

section \<open>Handling messages\<close>

definition sendResponseToAddress ::
  "libs \<Rightarrow> natEnv \<Rightarrow> NATResponse \<Rightarrow> UDPAddr \<Rightarrow> natDiscovery \<Rightarrow> natDiscovery \<times> err option" where
  "sendResponseToAddress L V response addr nd =
     (let m = ResponseMessage proto_Version response in
      case ne_Marshal V m of
        Inl e \<Rightarrow> (nd, Some (Wrapped ''error marshaling response'' e))
      | Inr buf \<Rightarrow> udp_send V ''error sending response packet''
          (case ua_IP addr of None \<Rightarrow> IPFamilyUnknown | Some i \<Rightarrow> IPFamilyOf L i) m buf addr nd)"

definition int32 :: "int \<Rightarrow> int" where
  "int32 i = sint (word_of_int i :: 32 word)"

definition addr_family :: "UDPAddr \<Rightarrow> IPFamily" where
  "addr_family addr = (case ua_IP addr of Some (IP4 _) \<Rightarrow> IPv4 | _ \<Rightarrow> IPv6)"

text \<open>The response that \<open>handleRequestFromAddress\<close> builds; then it sends it.\<close>

definition request_response :: "libs \<Rightarrow> EndpointSpec \<Rightarrow> NATRequest \<Rightarrow> UDPAddr \<Rightarrow> NATResponse" where
  "request_response L localSpec req addr =
     (let family = addr_family addr;
          response = \<lparr>rs_RequestNumber = rq_RequestNumber req, rs_Response = RT_OK,
            rs_Sender = Some \<lparr>ed_ClusterId = ClusterID localSpec,
                              ed_EndpointId = GetFamilyCableName localSpec family\<rparr>,
            rs_Receiver = rq_Sender req, rs_SrcIpNatDetected = False, rs_SrcPortNatDetected = False,
            rs_DstIpNatDetected = False,
            rs_ReceivedSrc = Some \<lparr>ipp_IP = addr_IP_String addr, ipp_Port = int32 (ua_Port addr)\<rparr>\<rparr> in
      if rq_Receiver req = None \<or> rq_Sender req = None \<or> rq_UsingDst req = None \<or> rq_UsingSrc req = None
      then response\<lparr>rs_Response := RT_MALFORMED\<rparr>
      else if clusterId (rq_Receiver req) \<noteq> ClusterID localSpec
      then response\<lparr>rs_Response := RT_UNKNOWN_DST_CLUSTER\<rparr>
      else if endpointId (rq_Receiver req) \<noteq> GetFamilyCableName localSpec family
      then response\<lparr>rs_Response := RT_UNKNOWN_DST_ENDPOINT\<rparr>
      else
        (let srcIP = (pairIP (rq_UsingSrc req) \<noteq> [] \<and> pairIP (rq_UsingSrc req) \<noteq> addr_IP_String addr);
             srcPort = (pairPort (rq_UsingSrc req) \<noteq> ua_Port addr);
             dstIP = (pairIP (rq_UsingDst req) \<noteq> GetPrivateIP L family localSpec)
         in response\<lparr>rs_SrcIpNatDetected := srcIP, rs_SrcPortNatDetected := srcPort,
              rs_DstIpNatDetected := dstIP,
              rs_Response := (if srcPort \<or> srcIP \<or> dstIP then RT_NAT_DETECTED else RT_OK)\<rparr>))"

definition handleRequestFromAddress ::
  "libs \<Rightarrow> natEnv \<Rightarrow> NATRequest \<Rightarrow> UDPAddr \<Rightarrow> natDiscovery \<Rightarrow> natDiscovery \<times> err option" where
  "handleRequestFromAddress L V req addr nd =
     sendResponseToAddress L V (request_response L (nd_LocalSpec nd) req addr) addr nd"

definition handleResponseFromAddress ::
  "libs \<Rightarrow> natTimeouts \<Rightarrow> int \<Rightarrow> NATResponse \<Rightarrow> UDPAddr \<Rightarrow> natDiscovery \<Rightarrow> natDiscovery \<times> err option" where
  "handleResponseFromAddress L T now req addr nd =
     (if rs_Sender req = None \<or> rs_Receiver req = None \<or> rs_ReceivedSrc req = None
      then (nd, Some (Err ''received malformed response''))
      else if rs_Response req \<noteq> RT_OK \<and> rs_Response req \<noteq> RT_NAT_DETECTED
      then (nd, Some (Err ''remote endpoint responded with an error''))
      else
        (let key = endpointId (rs_Sender req) in
         case nd_remoteEndpoints nd key of
           None \<Rightarrow> (nd, Some (Err ''received response from unknown endpoint''))
         | Some remoteNAT \<Rightarrow>
             (let useNAT = (rs_Response req = RT_NAT_DETECTED);
                  finish = (\<lambda>(rn, ok). if ok then (ready (toNATEndpointInfo rn) (store key rn nd), None)
                                       else (nd, None)) in
              if rn_lastPublicIPRequestID remoteNAT = rs_RequestNumber req
              then finish (transitionToPublicIP L now useNAT remoteNAT)
              else if rn_lastPrivateIPRequestID remoteNAT = rs_RequestNumber req
              then (if ua_IP addr \<noteq> ParseIP (rn_privateIP L remoteNAT)
                    then (nd, Some (Err ''response for NAT discovery comes from different IP''))
                    else finish (transitionToPrivateIP L T now useNAT remoteNAT))
              else (nd, Some (Err ''received response for unknown request id'')))))"

definition parseAndHandleMessageFromAddress ::
  "libs \<Rightarrow> natTimeouts \<Rightarrow> natEnv \<Rightarrow> int \<Rightarrow> nat list \<Rightarrow> UDPAddr \<Rightarrow> natDiscovery \<Rightarrow>
   natDiscovery \<times> err option" where
  "parseAndHandleMessageFromAddress L T V now buf addr nd =
     (case ne_Unmarshal V buf of
        Inl e \<Rightarrow> (nd, Some (Wrapped ''Error unmarshaling message received on UDP port'' e))
      | Inr (RequestMessage _ request) \<Rightarrow> handleRequestFromAddress L V request addr nd
      | Inr (ResponseMessage _ response) \<Rightarrow> handleResponseFromAddress L T now response addr nd
      | Inr (EmptyMessage _) \<Rightarrow> (nd, Some (Err ''message without response or request received'')))"

end
