(* ===== verification/NatDiscoveryProps.thy ===== *)
theory NatDiscoveryProps
  imports NatDiscovery
begin

text \<open>
  Properties of NAT discovery: the invariant of the endpoint table and of the ready channel over every
  run of the service, stability of a selected private address, the fallback after the timeout, the
  answers to requests, and a whole exchange over a path without NAT. The interface the cable engine
  relies on is the locale \<open>nat_service\<close>, interpreted on the service.
\<close>

section \<open>Runs\<close>

inductive nat_step :: "libs \<Rightarrow> natTimeouts \<Rightarrow> natDiscovery \<Rightarrow> natDiscovery \<Rightarrow> bool"
  for L T where
  listen: "nat_step L T nd (fst (runListeners L create nd))"
| add: "nat_step L T nd (AddEndpoint L T now ep family nd)"
| remove: "nat_step L T nd (RemoveEndpoint key nd)"
| check: "nat_step L T nd (checkEndpointList L T V now order nd)"
| receive: "nat_step L T nd (fst (parseAndHandleMessageFromAddress L T V now buf addr nd))"
| consume: "nat_step L T nd (nd\<lparr>nd_ready := tl (nd_ready nd)\<rparr>)"

inductive nat_reachable :: "libs \<Rightarrow> natTimeouts \<Rightarrow> natDiscovery \<Rightarrow> bool" for L T where
  start: "NewWithConfig spec rand = Inr nd \<Longrightarrow> nat_reachable L T nd"
| step: "nat_reachable L T nd \<Longrightarrow> nat_step L T nd nd' \<Longrightarrow> nat_reachable L T nd'"

text \<open>A concrete service, endpoint and environment, for the witnesses.\<close>

definition example_nd :: natDiscovery where
  "example_nd = \<lparr>nd_LocalSpec = example_spec, nd_serverPort = 4490, nd_remoteEndpoints = Map.empty,
     nd_requestCounter = 7, nd_writers = [], nd_ready = [], nd_sent = []\<rparr>"

definition example_rn :: "endpointState \<Rightarrow> remoteEndpointNAT" where
  "example_rn s = (newRemoteEndpointNAT init_timeouts 0 example_endpoint IPv4)
     \<lparr>rn_state := s, rn_lastPrivateIPRequestID := 8\<rparr>"

definition example_env :: natEnv where
  "example_env = \<lparr>ne_FindSourceIP = (\<lambda>_ _. Inr ''10.0.0.9''), ne_Marshal = (\<lambda>_. Inr [1]),
     ne_Unmarshal = (\<lambda>_. Inr (EmptyMessage 1)), ne_Write = (\<lambda>_ buf _. (int (length buf), None))\<rparr>"

definition example_response :: NATResponse where
  "example_response = \<lparr>rs_RequestNumber = 0, rs_Response = RT_OK,
     rs_Sender = Some \<lparr>ed_ClusterId = ''x'', ed_EndpointId = ''k''\<rparr>,
     rs_Receiver = Some \<lparr>ed_ClusterId = ''y'', ed_EndpointId = ''y''\<rparr>, rs_SrcIpNatDetected = False,
     rs_SrcPortNatDetected = False, rs_DstIpNatDetected = False,
     rs_ReceivedSrc = Some \<lparr>ipp_IP = [], ipp_Port = 0\<rparr>\<rparr>"

lemma example_nd_new: "NewWithConfig example_spec 7 = Inr example_nd"
proof -
  have "GetBackendPort example_spec NATTDiscoveryPortConfig 0 = (4490, None)" by code_simp
  then show ?thesis by (simp add: NewWithConfig_def example_nd_def)
qed

lemma example_rn_simps:
  "rn_state (example_rn s) = s" "rn_lastPrivateIPRequestID (example_rn s) = 8"
  "rn_lastPublicIPRequestID (example_rn s) = 0" "rn_endpoint (example_rn s) = example_endpoint"
  "rn_family (example_rn s) = IPv4" "rn_started (example_rn s) = 0" "rn_lastCheck (example_rn s) = 0"
  by (simp_all add: example_rn_def newRemoteEndpointNAT_def Let_def)

section \<open>The invariant\<close>

definition rn_inv :: "libs \<Rightarrow> remoteEndpointNAT \<Rightarrow> bool" where
  "rn_inv L rn \<longleftrightarrow>
     (rn_state rn = selectedPublicIP \<longrightarrow> rn_useIP rn = rn_publicIP L rn) \<and>
     (rn_state rn = selectedPrivateIP \<longrightarrow> rn_useIP rn = rn_privateIP L rn) \<and>
     (rn_state rn = testingPrivateAndPublicIPs \<longrightarrow>
        rn_lastPublicIPRequestID rn = 0 \<and> rn_lastPrivateIPRequestID rn = 0)"

definition info_ok :: "libs \<Rightarrow> NATEndpointInfo \<Rightarrow> bool" where
  "info_ok L info \<longleftrightarrow>
     ni_UseIP info = GetPublicIP L (ni_UseFamily info) (ep_Spec (ni_Endpoint info)) \<or>
     ni_UseIP info = GetPrivateIP L (ni_UseFamily info) (ep_Spec (ni_Endpoint info))"

definition nat_inv :: "libs \<Rightarrow> natDiscovery \<Rightarrow> bool" where
  "nat_inv L nd \<longleftrightarrow>
     (\<forall>k rn. nd_remoteEndpoints nd k = Some rn \<longrightarrow> k = rn_cable rn \<and> rn_inv L rn) \<and>
     (\<forall>info\<in>set (nd_ready nd). info_ok L info)"

lemma nat_inv_entry: "nat_inv L nd \<Longrightarrow> nd_remoteEndpoints nd k = Some rn \<Longrightarrow> k = rn_cable rn \<and> rn_inv L rn"
  by (auto simp: nat_inv_def)

lemmas rn_defs = rn_cable_def rn_publicIP_def rn_privateIP_def

lemma info_ok_of_complete: "rn_inv L rn \<Longrightarrow> isDiscoveryComplete rn \<Longrightarrow> info_ok L (toNATEndpointInfo rn)"
  by (auto simp: rn_inv_def isDiscoveryComplete_def info_ok_def toNATEndpointInfo_def rn_defs)

lemma nat_inv_store [inv_intros]:
  "nat_inv L nd \<Longrightarrow> rn_inv L rn \<Longrightarrow> k = rn_cable rn \<Longrightarrow> nat_inv L (store k rn nd)"
  by (auto simp: nat_inv_def store_def)

lemma nat_inv_ready [inv_intros]:
  "nat_inv L nd \<Longrightarrow> info_ok L info \<Longrightarrow> nat_inv L (ready info nd)"
  by (auto simp: nat_inv_def ready_def)

lemma transitionToState_simps [simp]:
  "rn_cable (transitionToState now s rn) = rn_cable rn"
  "rn_publicIP L (transitionToState now s rn) = rn_publicIP L rn"
  "rn_privateIP L (transitionToState now s rn) = rn_privateIP L rn"
  "rn_useIP (transitionToState now s rn) = rn_useIP rn"
  "rn_useNAT (transitionToState now s rn) = rn_useNAT rn"
  "rn_state (transitionToState now s rn) = s"
  by (simp_all add: transitionToState_def rn_defs)

lemma rn_upd_simps [simp]:
  "rn_cable (rn\<lparr>rn_useIP := a\<rparr>) = rn_cable rn" "rn_cable (rn\<lparr>rn_useNAT := b\<rparr>) = rn_cable rn"
  "rn_publicIP L (rn\<lparr>rn_useIP := a\<rparr>) = rn_publicIP L rn" "rn_publicIP L (rn\<lparr>rn_useNAT := b\<rparr>) = rn_publicIP L rn"
  "rn_privateIP L (rn\<lparr>rn_useIP := a\<rparr>) = rn_privateIP L rn"
  "rn_privateIP L (rn\<lparr>rn_useNAT := b\<rparr>) = rn_privateIP L rn"
  "rn_cable (rn\<lparr>rn_lastPublicIPRequestID := i\<rparr>) = rn_cable rn"
  "rn_cable (rn\<lparr>rn_lastPrivateIPRequestID := i\<rparr>) = rn_cable rn"
  "rn_publicIP L (rn\<lparr>rn_lastPrivateIPRequestID := i\<rparr>) = rn_publicIP L rn"
  "rn_privateIP L (rn\<lparr>rn_lastPrivateIPRequestID := i\<rparr>) = rn_privateIP L rn"
  "rn_cable (checkSent now rn) = rn_cable rn"
  "rn_publicIP L (checkSent now rn) = rn_publicIP L rn"
  "rn_privateIP L (checkSent now rn) = rn_privateIP L rn"
  by (simp_all add: rn_defs checkSent_def)

lemma useLegacy_complete [simp]: "isDiscoveryComplete (useLegacyNATSettings L now rn)"
  by (simp add: useLegacyNATSettings_def isDiscoveryComplete_def)

lemma useLegacy_inv [simp]: "rn_inv L (useLegacyNATSettings L now rn)"
  by (simp add: useLegacyNATSettings_def rn_inv_def)

lemma useLegacy_cable [simp]: "rn_cable (useLegacyNATSettings L now rn) = rn_cable rn"
  by (simp add: useLegacyNATSettings_def)

lemma new_inv [simp]: "rn_inv L (newRemoteEndpointNAT T now ep f)"
  by (simp add: newRemoteEndpointNAT_def rn_inv_def Let_def)

lemma new_cable [simp]: "rn_cable (newRemoteEndpointNAT T now ep f) = GetFamilyCableName (ep_Spec ep) f"
  by (simp add: newRemoteEndpointNAT_def rn_cable_def Let_def)

lemma ready_frame [simp]: "nd_remoteEndpoints (ready i nd) = nd_remoteEndpoints nd"
  by (simp add: ready_def)

lemma AddEndpoint_inv:
  assumes inv: "nat_inv L nd"
  shows "nat_inv L (AddEndpoint L T now ep f nd)"
proof -
  define legacy where "legacy \<longleftrightarrow>
    snd (extractNATDiscoveryPort (ep_Spec ep)) \<noteq> None \<or> nd_serverPort nd = 0"
  define rn where "rn = (let new = newRemoteEndpointNAT T now ep f in
    if legacy then useLegacyNATSettings L now new else new)"
  define nd1 where "nd1 = (if legacy then ready (toNATEndpointInfo rn) nd else nd)"
  have rn: "rn_inv L rn" "rn_cable rn = GetFamilyCableName (ep_Spec ep) f"
    by (simp_all add: rn_def Let_def)
  have "info_ok L (toNATEndpointInfo rn)" if legacy
    using that rn by (intro info_ok_of_complete) (simp_all add: rn_def Let_def)
  then have nd1: "nat_inv L nd1"
    using inv by (auto simp: nd1_def intro: nat_inv_ready)
  have *: "AddEndpoint L T now ep f nd = (case nd_remoteEndpoints nd1 (rn_cable rn) of
        None \<Rightarrow> store (rn_cable rn) rn nd1
      | Some existing \<Rightarrow>
          if ep_Spec (rn_endpoint existing) = ep_Spec ep then
            (if isDiscoveryComplete existing then ready (toNATEndpointInfo existing) nd1 else nd1)
          else store (rn_cable rn) rn nd1)"
    unfolding rn(2) unfolding AddEndpoint_def nd1_def rn_def legacy_def Let_def by (rule refl)
  have ex: "info_ok L (toNATEndpointInfo e)"
    if "nd_remoteEndpoints nd1 k = Some e" "isDiscoveryComplete e" for k e
    using nat_inv_entry [OF nd1 that(1)] that(2) info_ok_of_complete by blast
  show ?thesis
    unfolding * using nd1 rn(1) ex by (simp add: nat_inv_store nat_inv_ready split: option.split)
qed

section \<open>Sending leaves the table alone\<close>

lemma udp_send_frame [frame_simps]:
  "udp_send V msg f m buf a nd = (nd', e) \<Longrightarrow>
   nd_remoteEndpoints nd' = nd_remoteEndpoints nd \<and> nd_ready nd' = nd_ready nd \<and>
   nd_LocalSpec nd' = nd_LocalSpec nd \<and> nd_serverPort nd' = nd_serverPort nd \<and>
   nd_requestCounter nd' = nd_requestCounter nd"
  by (auto simp: udp_send_def Let_def split: if_splits prod.splits option.splits)

lemma send_target_frame:
  assumes "sendCheckRequestToTargetIP V now nd rn t i = (nd', rn', i', e)"
  shows "nd_remoteEndpoints nd' = nd_remoteEndpoints nd \<and> nd_ready nd' = nd_ready nd \<and>
    nd_LocalSpec nd' = nd_LocalSpec nd \<and> nd_serverPort nd' = nd_serverPort nd \<and>
    (rn' = rn \<and> (i' = i \<or> i' = 0) \<or> rn' = checkSent now rn)"
  using assms
  by (auto simp: sendCheckRequestToTargetIP_def Let_def dest!: udp_send_frame
      split: prod.splits option.splits sum.splits)

lemma checkSent_state: "rn_state (checkSent now rn) \<noteq> testingPrivateAndPublicIPs"
  by (simp add: checkSent_def)

lemma rn_inv_checkSent: "rn_inv L rn \<Longrightarrow> rn_inv L (checkSent now rn)"
  by (auto simp: rn_inv_def checkSent_def rn_publicIP_def rn_privateIP_def)

lemma rn_inv_ids:
  "rn_inv L rn \<Longrightarrow> i = rn_lastPublicIPRequestID rn \<or> i = 0 \<or> rn_state rn \<noteq> testingPrivateAndPublicIPs \<Longrightarrow>
   rn_inv L (rn\<lparr>rn_lastPublicIPRequestID := i\<rparr>)"
  "rn_inv L rn \<Longrightarrow> i = rn_lastPrivateIPRequestID rn \<or> i = 0 \<or> rn_state rn \<noteq> testingPrivateAndPublicIPs \<Longrightarrow>
   rn_inv L (rn\<lparr>rn_lastPrivateIPRequestID := i\<rparr>)"
  by (auto simp: rn_inv_def rn_publicIP_def rn_privateIP_def)

lemma send_target_inv:
  assumes "sendCheckRequestToTargetIP V now nd rn t i = (nd', rn', i', e)" and "rn_inv L rn"
  shows "rn_inv L rn' \<and> rn_cable rn' = rn_cable rn \<and>
    (i' = i \<or> i' = 0 \<or> rn_state rn' \<noteq> testingPrivateAndPublicIPs) \<and>
    rn_lastPublicIPRequestID rn' = rn_lastPublicIPRequestID rn \<and>
    rn_lastPrivateIPRequestID rn' = rn_lastPrivateIPRequestID rn"
  using send_target_frame [OF assms(1)] assms(2)
  by (auto simp: rn_inv_checkSent checkSent_state) (simp_all add: checkSent_def)

lemma sendCheckRequest_frame:
  assumes "sendCheckRequest L V now nd rn = (nd', rn', e)"
  shows "nd_remoteEndpoints nd' = nd_remoteEndpoints nd \<and> nd_ready nd' = nd_ready nd"
  using assms
  by (auto simp: sendCheckRequest_def Let_def dest!: send_target_frame split: prod.splits if_splits)

lemma sendCheckRequest_inv:
  assumes "sendCheckRequest L V now nd rn = (nd', rn', e)" and "rn_inv L rn"
  shows "rn_inv L rn' \<and> rn_cable rn' = rn_cable rn"
proof -
  obtain nd1 rn1 e1 where s1: "(nd1, rn1, e1) =
      (if rn_privateIP L rn \<noteq> [] then
         (case sendCheckRequestToTargetIP V now nd rn (rn_privateIP L rn) (rn_lastPrivateIPRequestID rn)
          of (n, r, i, e) \<Rightarrow> (n, r\<lparr>rn_lastPrivateIPRequestID := i\<rparr>, e))
       else (nd, rn, None))"
    by (metis prod_cases3)
  have i1: "rn_inv L rn1 \<and> rn_cable rn1 = rn_cable rn"
    using s1 assms(2)
    by (auto split: if_splits prod.splits dest!: send_target_inv [where L = L] intro: rn_inv_ids)
  from assms(1) s1 [symmetric] have "rn' = rn1 \<or> (\<exists>n r i e. sendCheckRequestToTargetIP V now nd1 rn1
      (rn_publicIP L rn1) (rn_lastPublicIPRequestID rn1) = (n, r, i, e) \<and>
      rn' = r\<lparr>rn_lastPublicIPRequestID := i\<rparr>)"
    by (auto simp: sendCheckRequest_def Let_def split: prod.splits if_splits)
  then show ?thesis
    using i1 by (auto dest!: send_target_inv [where L = L] intro: rn_inv_ids)
qed

lemma check_one_inv: "nat_inv L nd \<Longrightarrow> nat_inv L (check_one L T V now nd key)"
proof (cases "nd_remoteEndpoints nd key")
  case (Some rn)
  assume inv: "nat_inv L nd"
  from nat_inv_entry [OF this Some] have rn: "key = rn_cable rn" "rn_inv L rn" by simp_all
  show ?thesis
  proof (cases "hasTimedOut now rn")
    case True
    with Some inv rn show ?thesis
      by (auto simp: check_one_def Let_def intro!: inv_intros info_ok_of_complete)
  next
    case False
    obtain nd' rn' e where s: "sendCheckRequest L V now nd rn = (nd', rn', e)"
      by (metis prod_cases3)
    have "nat_inv L nd'"
      using inv sendCheckRequest_frame [OF s] by (auto simp: nat_inv_def)
    with Some False inv rn s sendCheckRequest_inv [OF s rn(2)] show ?thesis
      by (auto simp: check_one_def intro!: nat_inv_store)
  qed
qed (simp add: check_one_def)

lemma checkEndpointList_inv: "nat_inv L nd \<Longrightarrow> nat_inv L (checkEndpointList L T V now order nd)"
  unfolding checkEndpointList_def by (induction order arbitrary: nd) (auto intro: check_one_inv)

section \<open>Handling messages keeps the invariant\<close>

lemma handleRequest_frame:
  "nd_remoteEndpoints (fst (handleRequestFromAddress L V req addr nd)) = nd_remoteEndpoints nd"
  "nd_ready (fst (handleRequestFromAddress L V req addr nd)) = nd_ready nd"
  by (auto simp: handleRequestFromAddress_def sendResponseToAddress_def Let_def udp_send_def
      split: sum.splits option.splits prod.splits if_splits)

lemma toPublic_inv:
  "rn_inv L rn \<Longrightarrow> transitionToPublicIP L now b rn = (rn', True) \<Longrightarrow>
   rn_inv L rn' \<and> rn_cable rn' = rn_cable rn \<and> isDiscoveryComplete rn'"
  by (auto simp: transitionToPublicIP_def rn_inv_def isDiscoveryComplete_def split: endpointState.splits)

lemma toPrivate_inv:
  "rn_inv L rn \<Longrightarrow> transitionToPrivateIP L T now b rn = (rn', True) \<Longrightarrow>
   rn_inv L rn' \<and> rn_cable rn' = rn_cable rn \<and> isDiscoveryComplete rn'"
  by (auto simp: transitionToPrivateIP_def rn_inv_def isDiscoveryComplete_def Let_def
      split: endpointState.splits if_splits)

lemma handleResponse_cases:
  assumes "handleResponseFromAddress L T now req addr nd = (nd', e)"
  shows "nd' = nd \<or> (\<exists>rn rn'. nd_remoteEndpoints nd (endpointId (rs_Sender req)) = Some rn \<and>
      (transitionToPublicIP L now (rs_Response req = RT_NAT_DETECTED) rn = (rn', True) \<or>
       transitionToPrivateIP L T now (rs_Response req = RT_NAT_DETECTED) rn = (rn', True)) \<and>
      nd' = ready (toNATEndpointInfo rn') (store (endpointId (rs_Sender req)) rn' nd) \<and> e = None)"
proof (cases "nd_remoteEndpoints nd (endpointId (rs_Sender req))")
  case None
  with assms show ?thesis
    by (simp add: handleResponseFromAddress_def Let_def split: if_split_asm)
next
  case (Some rn)
  obtain r1 b1 where t1: "transitionToPublicIP L now (rs_Response req = RT_NAT_DETECTED) rn = (r1, b1)"
    by (metis prod.exhaust)
  obtain r2 b2 where t2: "transitionToPrivateIP L T now (rs_Response req = RT_NAT_DETECTED) rn = (r2, b2)"
    by (metis prod.exhaust)
  from assms Some t1 t2 show ?thesis
    by (cases b1; cases b2) (auto simp: handleResponseFromAddress_def Let_def split: if_split_asm)
qed

lemma handleResponse_inv:
  assumes "nat_inv L nd" and h: "handleResponseFromAddress L T now req addr nd = (nd', e)"
  shows "nat_inv L nd'"
  using handleResponse_cases [OF h]
proof (elim disjE exE conjE)
  assume "nd' = nd"
  with assms(1) show ?thesis by simp
next
  fix rn rn'
  assume rn: "nd_remoteEndpoints nd (endpointId (rs_Sender req)) = Some rn"
    and nd': "nd' = ready (toNATEndpointInfo rn') (store (endpointId (rs_Sender req)) rn' nd)"
  from nat_inv_entry [OF assms(1) rn]
  have key: "endpointId (rs_Sender req) = rn_cable rn" and inv: "rn_inv L rn" by simp_all
  have *: "nat_inv L nd'" if "rn_inv L rn' \<and> rn_cable rn' = rn_cable rn \<and> isDiscoveryComplete rn'"
    unfolding nd' key using that assms(1) info_ok_of_complete [of L rn']
    by (intro nat_inv_ready nat_inv_store) simp_all
  {
    assume "transitionToPublicIP L now (rs_Response req = RT_NAT_DETECTED) rn = (rn', True)"
    from * [OF toPublic_inv [OF inv this]] show "nat_inv L nd'" .
  next
    assume "transitionToPrivateIP L T now (rs_Response req = RT_NAT_DETECTED) rn = (rn', True)"
    from * [OF toPrivate_inv [OF inv this]] show "nat_inv L nd'" .
  }
qed

lemma runListeners_frame:
  "nd_remoteEndpoints (fst (runListeners_loop create fs nd)) = nd_remoteEndpoints nd \<and>
   nd_ready (fst (runListeners_loop create fs nd)) = nd_ready nd"
  by (induction create fs nd rule: runListeners_loop.induct) (auto split: option.splits)

lemma nat_inv_cong:
  "nat_inv L nd \<Longrightarrow> nd_remoteEndpoints nd' = nd_remoteEndpoints nd \<Longrightarrow>
   set (nd_ready nd') \<subseteq> set (nd_ready nd) \<Longrightarrow> nat_inv L nd'"
  by (auto simp: nat_inv_def)

lemma parseAndHandle_inv:
  "nat_inv L nd \<Longrightarrow> nat_inv L (fst (parseAndHandleMessageFromAddress L T V now buf addr nd))"
proof -
  assume inv: "nat_inv L nd"
  have "nat_inv L (fst (handleResponseFromAddress L T now r addr nd))" for r
    using inv by (metis handleResponse_inv prod.collapse)
  moreover have "nat_inv L (fst (handleRequestFromAddress L V r addr nd))" for r
    using inv by (rule nat_inv_cong) (simp_all add: handleRequest_frame)
  ultimately show ?thesis
    using inv by (auto simp: parseAndHandleMessageFromAddress_def split: sum.splits natMessage.splits)
qed

lemma nat_step_inv: "nat_step L T nd nd' \<Longrightarrow> nat_inv L nd \<Longrightarrow> nat_inv L nd'"
proof (induction rule: nat_step.induct)
  case (listen nd create)
  then show ?case
    by (rule nat_inv_cong) (simp_all add: runListeners_def runListeners_frame)
next
  case (add nd now ep family)
  then show ?case by (rule AddEndpoint_inv)
next
  case (remove nd key)
  then show ?case by (auto simp: nat_inv_def RemoveEndpoint_def split: if_splits)
next
  case (check nd V now order)
  then show ?case by (rule checkEndpointList_inv)
next
  case (receive nd V now buf addr)
  then show ?case by (rule parseAndHandle_inv)
next
  case (consume nd)
  then show ?case by (cases "nd_ready nd") (auto intro: nat_inv_cong)
qed

text \<open>C2: In every run of the service (listeners started, endpoints added and removed, periodic checks,
  any received packets, infos consumed), each entry is filed under its family cable name, a selected
  public or private state uses exactly that address of the endpoint, an endpoint that was never
  contacted has no outstanding request, and every info on the ready channel carries one of the two
  addresses of its endpoint.\<close>

theorem nat_reachable_inv: "nat_reachable L T nd \<Longrightarrow> nat_inv L nd"
proof (induction rule: nat_reachable.induct)
  case (start spec rand nd)
  then show ?case
    by (auto simp: NewWithConfig_def nat_inv_def split: prod.splits option.splits)
next
  case (step nd nd')
  then show ?case by (blast intro: nat_step_inv)
qed

theorem nat_reachable_inv_witness:
  "nat_inv ref_libs (AddEndpoint ref_libs init_timeouts 5 example_endpoint IPv4 example_nd)"
proof -
  have "nat_reachable ref_libs init_timeouts example_nd"
    using example_nd_new by (rule nat_reachable.start)
  then have "nat_reachable ref_libs init_timeouts
      (AddEndpoint ref_libs init_timeouts 5 example_endpoint IPv4 example_nd)"
    by (rule nat_reachable.step) (rule nat_step.add)
  then show ?thesis by (rule nat_reachable_inv)
qed

section \<open>Stability, timeout and responses\<close>

lemma check_one_other: "k \<noteq> key \<Longrightarrow> nd_remoteEndpoints (check_one L T V now nd key) k = nd_remoteEndpoints nd k"
  by (auto simp: check_one_def store_def Let_def dest!: sendCheckRequest_frame
      split: option.split prod.split)

lemma check_one_idle:
  "nd_remoteEndpoints nd key = Some rn \<Longrightarrow> \<not> shouldCheck T now rn \<Longrightarrow> check_one L T V now nd key = nd"
  by (simp add: check_one_def)

lemma check_one_keeps:
  "nd_remoteEndpoints nd k = Some rn \<Longrightarrow> \<not> shouldCheck T now rn \<Longrightarrow>
   nd_remoteEndpoints (check_one L T V now nd key) k = Some rn"
  by (cases "k = key") (simp_all add: check_one_idle check_one_other)

lemma checkEndpointList_keeps:
  "nd_remoteEndpoints nd k = Some rn \<Longrightarrow> \<not> shouldCheck T now rn \<Longrightarrow>
   nd_remoteEndpoints (checkEndpointList L T V now order nd) k = Some rn"
  unfolding checkEndpointList_def
  by (induction order arbitrary: nd) (simp_all add: check_one_keeps del: shouldCheck.simps)

lemma check_one_ready: "\<exists>new. nd_ready (check_one L T V now nd key) = nd_ready nd @ new"
  by (auto simp: check_one_def store_def ready_def Let_def dest!: sendCheckRequest_frame
      split: option.split prod.split)

lemma checkEndpointList_ready: "\<exists>new. nd_ready (checkEndpointList L T V now order nd) = nd_ready nd @ new"
  unfolding checkEndpointList_def
proof (induction order arbitrary: nd)
  case (Cons k ks)
  obtain a where a: "nd_ready (check_one L T V now nd k) = nd_ready nd @ a"
    using check_one_ready by blast
  from Cons [of "check_one L T V now nd k"] show ?case
    unfolding foldl_Cons a by auto
qed simp

lemma useLegacy_idle: "\<not> shouldCheck T now (useLegacyNATSettings L now' rn)"
  by (simp add: useLegacyNATSettings_def)

lemma toPrivate_selected: "rn_state rn = selectedPrivateIP \<Longrightarrow> transitionToPrivateIP L T now b rn = (rn, False)"
  by (simp add: transitionToPrivateIP_def Let_def)

lemma toPublic_selected: "rn_state rn = selectedPrivateIP \<Longrightarrow> transitionToPublicIP L now b rn = (rn, False)"
  by (simp add: transitionToPublicIP_def)

lemma handleResponse_keeps_private:
  assumes "nd_remoteEndpoints nd k = Some rn" "rn_state rn = selectedPrivateIP"
  shows "nd_remoteEndpoints (fst (handleResponseFromAddress L T now r addr nd)) k = Some rn"
proof -
  obtain nd' e where h: "handleResponseFromAddress L T now r addr nd = (nd', e)" by fastforce
  from handleResponse_cases [OF h] show ?thesis
    unfolding h using assms
    by (auto simp: ready_def store_def toPublic_selected toPrivate_selected)
qed

text \<open>Once the private address of an endpoint is selected, neither a periodic check nor any packet
  received from the network changes the selection; only adding a different endpoint under the same
  name or removing it does.\<close>

theorem private_selection_stable:
  assumes "nd_remoteEndpoints nd k = Some rn" and "rn_state rn = selectedPrivateIP"
  shows "nd_remoteEndpoints (checkEndpointList L T V now order nd) k = Some rn \<and>
    nd_remoteEndpoints (fst (parseAndHandleMessageFromAddress L T V now buf addr nd)) k = Some rn"
proof
  show "nd_remoteEndpoints (checkEndpointList L T V now order nd) k = Some rn"
    using assms by (intro checkEndpointList_keeps) simp_all
  show "nd_remoteEndpoints (fst (parseAndHandleMessageFromAddress L T V now buf addr nd)) k = Some rn"
    using assms handleResponse_keeps_private [OF assms]
    by (auto simp: parseAndHandleMessageFromAddress_def handleRequest_frame
        split: sum.split natMessage.split)
qed

theorem private_selection_stable_witness:
  "nd_remoteEndpoints (checkEndpointList ref_libs init_timeouts example_env 9 [''k'']
     (store ''k'' (example_rn selectedPrivateIP) example_nd)) ''k'' = Some (example_rn selectedPrivateIP)"
  using private_selection_stable [of "store ''k'' (example_rn selectedPrivateIP) example_nd" "''k''"
      "example_rn selectedPrivateIP"]
  by (simp add: store_def example_rn_simps)

text \<open>What is selected without a response: the public address with NAT when the endpoint is behind a load balancer or asks for NAT,
  its private address without NAT otherwise.\<close>

definition legacy_info :: "libs \<Rightarrow> remoteEndpointNAT \<Rightarrow> NATEndpointInfo" where
  "legacy_info L rn = (let spec = ep_Spec (rn_endpoint rn); nat = rn_usingLoadBalancer rn \<or> NATEnabled spec in
     \<lparr>ni_Endpoint = rn_endpoint rn, ni_UseNAT = nat,
      ni_UseIP = (if nat then GetPublicIP L (rn_family rn) spec else GetPrivateIP L (rn_family rn) spec), ni_UseFamily = rn_family rn\<rparr>)"

lemma useLegacy_info:
  "toNATEndpointInfo (useLegacyNATSettings L now rn) = legacy_info L rn \<and>
   rn_state (useLegacyNATSettings L now rn) = (if ni_UseNAT (legacy_info L rn) then selectedPublicIP else selectedPrivateIP)"
  by (auto simp: useLegacyNATSettings_def legacy_info_def toNATEndpointInfo_def transitionToState_def rn_publicIP_def rn_privateIP_def Let_def)

text \<open>C9: Discovery ends. An endpoint that is due for a check when its timeout has passed gets the legacy
  settings in that round, whatever else the round does: public address and NAT when it is behind a load
  balancer or asks for NAT, its private address without NAT otherwise; its state says which of the two was selected, and
  the result is on the ready channel.\<close>

theorem timeout_completes:
  assumes "nd_remoteEndpoints nd k = Some rn" and "shouldCheck T now rn" and "hasTimedOut now rn"
    and "k \<in> set order"
  shows "let spec = ep_Spec (rn_endpoint rn); nat = rn_usingLoadBalancer rn \<or> NATEnabled spec;
      info = \<lparr>ni_Endpoint = rn_endpoint rn, ni_UseNAT = nat,
        ni_UseIP = (if nat then GetPublicIP L (rn_family rn) spec else GetPrivateIP L (rn_family rn) spec), ni_UseFamily = rn_family rn\<rparr>;
      nd' = checkEndpointList L T V now order nd in
    info \<in> set (nd_ready nd') \<and>
    (\<exists>rn'. nd_remoteEndpoints nd' k = Some rn' \<and> toNATEndpointInfo rn' = info \<and>
      rn_state rn' = (if nat then selectedPublicIP else selectedPrivateIP))"
proof -
  let ?rn = "useLegacyNATSettings L now rn"
  obtain pre post where order: "order = pre @ k # post" "k \<notin> set pre"
    using assms(4) by (metis split_list_first)
  define nd1 where "nd1 = checkEndpointList L T V now pre nd"
  have other: "k \<notin> set ks \<Longrightarrow> nd_remoteEndpoints (checkEndpointList L T V now ks n) k = nd_remoteEndpoints n k" for ks n
    unfolding checkEndpointList_def by (induction ks arbitrary: n) (auto simp: check_one_other)
  have "nd_remoteEndpoints nd1 k = Some rn"
    using other order(2) assms(1) by (simp add: nd1_def)
  then have one: "check_one L T V now nd1 k = ready (toNATEndpointInfo ?rn) (store k ?rn nd1)"
    using assms(2,3) by (simp add: check_one_def Let_def)
  have run: "checkEndpointList L T V now order nd = checkEndpointList L T V now post (check_one L T V now nd1 k)"
    by (simp add: checkEndpointList_def order nd1_def)
  have "nd_remoteEndpoints (check_one L T V now nd1 k) k = Some ?rn"
    by (simp add: one store_def)
  note kept = checkEndpointList_keeps [OF this useLegacy_idle]
  have "toNATEndpointInfo ?rn \<in> set (nd_ready (check_one L T V now nd1 k))" by (simp add: one) (simp add: ready_def)
  then have "toNATEndpointInfo ?rn \<in> set (nd_ready (checkEndpointList L T V now post (check_one L T V now nd1 k)))"
    using checkEndpointList_ready [of L T V now post "check_one L T V now nd1 k"] by auto
  with kept useLegacy_info [of L now rn] show ?thesis
    unfolding run by (simp add: legacy_info_def Let_def)
qed

theorem timeout_completes_witness:
  "\<lparr>ni_Endpoint = rn_endpoint (example_rn waitingForResponse), ni_UseNAT = True, ni_UseIP = ''1.2.3.4'',
     ni_UseFamily = rn_family (example_rn waitingForResponse)\<rparr> \<in> set (nd_ready (checkEndpointList ref_libs init_timeouts example_env
       61000000000 [''k''] (store ''k'' (example_rn waitingForResponse) example_nd)))"
proof -
  let ?rn = "example_rn waitingForResponse"
  have "rn_timeout ?rn = 60000000000" "NATEnabled (ep_Spec (rn_endpoint ?rn))"
    "GetPublicIP ref_libs (rn_family ?rn) (ep_Spec (rn_endpoint ?rn)) = ''1.2.3.4''" by code_simp+
  then show ?thesis
    using timeout_completes [of "store ''k'' ?rn example_nd" "''k''" ?rn init_timeouts 61000000000 "[''k'']" ref_libs example_env]
    by (simp add: store_def example_rn_simps hasTimedOut_def init_timeouts_def Let_def)
qed

text \<open>The answer to a request says OK exactly when the request is complete, is addressed to this cluster
  and to the cable of the family it arrived on, and arrived unchanged: from the source address (when the
  sender gave one) and port the sender used, to this gateway's private address. It always carries the
  request's number and is addressed to the request's sender.\<close>

theorem request_response_spec:
  "(rs_Response (request_response L spec req addr) = RT_OK \<longleftrightarrow>
     rq_Sender req \<noteq> None \<and>
     (case (rq_Receiver req, rq_UsingSrc req, rq_UsingDst req) of
        (Some rcv, Some src, Some dst) \<Rightarrow>
          ed_ClusterId rcv = ClusterID spec \<and>
          ed_EndpointId rcv = GetFamilyCableName spec (addr_family addr) \<and>
          (ipp_IP src = [] \<or> ipp_IP src = addr_IP_String addr) \<and> ipp_Port src = ua_Port addr \<and>
          ipp_IP dst = GetPrivateIP L (addr_family addr) spec
      | _ \<Rightarrow> False)) \<and>
   rs_RequestNumber (request_response L spec req addr) = rq_RequestNumber req \<and>
   rs_Receiver (request_response L spec req addr) = rq_Sender req"
  by (auto simp: request_response_def Let_def clusterId_def endpointId_def pairIP_def pairPort_def
      split: option.split)

text \<open>A check of the private address over a path without NAT succeeds end to end: the request this
  gateway sends, answered by the remote gateway that receives it unchanged, and the answer received from
  the remote's private address, selects that address without NAT and puts the result on the ready channel.\<close>

theorem private_exchange:
  assumes entry: "nd_remoteEndpoints nd (rn_cable rn) = Some rn"
    and waiting: "rn_state rn = waitingForResponse"
    and number: "rn_lastPrivateIPRequestID rn = n" "rn_lastPublicIPRequestID rn \<noteq> n"
    and remote: "spec = ep_Spec (rn_endpoint rn)"
    and path: "addr_IP_String src = sourceIP" "ua_Port src = nd_serverPort nd" "addr_family src = rn_family rn"
      "ua_IP from = ParseIP (rn_privateIP L rn)"
  shows "\<exists>nd' rn'. handleResponseFromAddress L T now
        (request_response L spec (check_request n nd rn sourceIP (rn_privateIP L rn) port) src) from nd = (nd', None) \<and>
      nd_remoteEndpoints nd' (rn_cable rn) = Some rn' \<and> rn_state rn' = selectedPrivateIP \<and>
      nd_ready nd' = nd_ready nd @ [\<lparr>ni_Endpoint = rn_endpoint rn, ni_UseNAT = False,
        ni_UseIP = rn_privateIP L rn, ni_UseFamily = rn_family rn\<rparr>]"
proof -
  let ?r = "request_response L spec (check_request n nd rn sourceIP (rn_privateIP L rn) port) src"
  have cable: "GetFamilyCableName spec (rn_family rn) = rn_cable rn" "GetPrivateIP L (rn_family rn) spec = rn_privateIP L rn"
    by (simp_all add: rn_defs remote)
  have r: "rs_Response ?r = RT_OK" "rs_RequestNumber ?r = n" "rs_Receiver ?r \<noteq> None" "rs_ReceivedSrc ?r \<noteq> None"
    "rs_Sender ?r = Some \<lparr>ed_ClusterId = ClusterID spec, ed_EndpointId = rn_cable rn\<rparr>"
    using path by (simp_all add: request_response_def check_request_def Let_def clusterId_def endpointId_def
        pairIP_def pairPort_def rn_defs remote)
  have "handleResponseFromAddress L T now ?r from nd =
      (case transitionToPrivateIP L T now False rn of (x, ok) \<Rightarrow>
         if ok then (ready (toNATEndpointInfo x) (store (rn_cable rn) x nd), None) else (nd, None))"
    using entry number path(4) r(3,4)
    by (auto simp: handleResponseFromAddress_def r(1,2,5) endpointId_def Let_def)
  then show ?thesis
    using waiting by (simp add: transitionToPrivateIP_def Let_def toNATEndpointInfo_def store_def ready_def
        transitionToState_def)
qed

theorem private_exchange_witness:
  "\<exists>nd'. nd_ready nd' = [\<lparr>ni_Endpoint = example_endpoint, ni_UseNAT = False,
     ni_UseIP = rn_privateIP ref_libs (example_rn waitingForResponse), ni_UseFamily = IPv4\<rparr>] \<and>
     handleResponseFromAddress ref_libs init_timeouts 9
       (request_response ref_libs example_spec
          (check_request 8 example_nd (example_rn waitingForResponse) ''10.0.0.9''
             (rn_privateIP ref_libs (example_rn waitingForResponse)) 4490)
          \<lparr>ua_IP = Some (IP4 0x0A000009), ua_Port = 4490\<rparr>)
       \<lparr>ua_IP = ParseIP (rn_privateIP ref_libs (example_rn waitingForResponse)), ua_Port = 4490\<rparr>
       (store (rn_cable (example_rn waitingForResponse)) (example_rn waitingForResponse) example_nd) = (nd', None)"
proof -
  let ?rn = "example_rn waitingForResponse"
  have a: "addr_IP_String \<lparr>ua_IP = Some (IP4 0x0A000009), ua_Port = 4490\<rparr> = ''10.0.0.9''" by code_simp
  have c: "check_request 8 (store k r example_nd) = check_request 8 example_nd" for k r
    by (simp add: fun_eq_iff check_request_def store_def)
  show ?thesis
    using private_exchange [of "store (rn_cable ?rn) ?rn example_nd" ?rn 8 example_spec
        "\<lparr>ua_IP = Some (IP4 0x0A000009), ua_Port = 4490\<rparr>" "''10.0.0.9''"
        "\<lparr>ua_IP = ParseIP (rn_privateIP ref_libs ?rn), ua_Port = 4490\<rparr>" ref_libs init_timeouts 9 4490]
    unfolding c
    by (auto simp: a example_rn_simps store_def example_nd_def addr_family_def example_endpoint_def)
qed

text \<open>A response with request number 0 is accepted for an endpoint whose public address was never
  contacted successfully (its last public request number is 0): it selects the public address, from
  whatever address the response came.\<close>

theorem zero_request_number_accepted:
  assumes "nd_remoteEndpoints nd k = Some rn" and "rn_state rn = waitingForResponse"
    and "rn_lastPublicIPRequestID rn = 0" and "rs_RequestNumber resp = 0"
    and "rs_Response resp = RT_OK" and "rs_Sender resp = Some \<lparr>ed_ClusterId = c, ed_EndpointId = k\<rparr>"
    and "rs_Receiver resp \<noteq> None" and "rs_ReceivedSrc resp \<noteq> None"
  shows "\<exists>nd'. handleResponseFromAddress L T now resp addr nd = (nd', None) \<and>
    (\<exists>rn'. nd_remoteEndpoints nd' k = Some rn' \<and> rn_state rn' = selectedPublicIP \<and>
      rn_useIP rn' = rn_publicIP L rn)"
  using assms
  by (simp add: handleResponseFromAddress_def Let_def endpointId_def transitionToPublicIP_def store_def)

theorem zero_request_number_accepted_witness:
  "\<exists>nd' rn'. handleResponseFromAddress ref_libs init_timeouts 9 example_response
       \<lparr>ua_IP = None, ua_Port = 0\<rparr> (store ''k'' (example_rn waitingForResponse) example_nd) = (nd', None) \<and>
     nd_remoteEndpoints nd' ''k'' = Some rn' \<and> rn_state rn' = selectedPublicIP"
  using zero_request_number_accepted [of "store ''k'' (example_rn waitingForResponse) example_nd" "''k''"
      "example_rn waitingForResponse" example_response "''x''" ref_libs init_timeouts 9 "\<lparr>ua_IP = None, ua_Port = 0\<rparr>"]
  by (auto simp: store_def example_rn_simps example_response_def)

section \<open>The interface the cable engine relies on\<close>

text \<open>
  What the cable engine may assume of NAT discovery: an added endpoint is known under its family cable
  name, and under no other name anything changes; removing a name forgets it; the infos put on the ready
  channel by \<open>AddEndpoint\<close> are about an endpoint with the added one's specification, in its family.
\<close>

locale nat_service =
  fixes add :: "Endpoint \<Rightarrow> IPFamily \<Rightarrow> 's \<Rightarrow> 's"
    and remove :: "string \<Rightarrow> 's \<Rightarrow> 's"
    and infos :: "'s \<Rightarrow> NATEndpointInfo list"
    and known :: "'s \<Rightarrow> string \<rightharpoonup> EndpointSpec"
    and ninv :: "'s \<Rightarrow> bool"
  assumes add_known: "known (add ep f s) = (known s)(GetFamilyCableName (ep_Spec ep) f \<mapsto> ep_Spec ep)"
    and add_infos: "ninv s \<Longrightarrow> \<exists>new. infos (add ep f s) = infos s @ new \<and>
        (\<forall>i\<in>set new. ep_Spec (ni_Endpoint i) = ep_Spec ep \<and>
           GetFamilyCableName (ep_Spec ep) (ni_UseFamily i) = GetFamilyCableName (ep_Spec ep) f)"
    and add_inv: "ninv s \<Longrightarrow> ninv (add ep f s)"
    and remove_known: "known (remove k s) = (known s)(k := None)"
    and remove_infos: "infos (remove k s) = infos s"
    and remove_inv: "ninv s \<Longrightarrow> ninv (remove k s)"
begin

lemma remove_add_known:
  "known (remove (GetFamilyCableName (ep_Spec ep) f) (add ep f s)) =
   (known s)(GetFamilyCableName (ep_Spec ep) f := None)"
  by (simp add: remove_known add_known)

lemma add_infos_family:
  assumes "ninv s" "f \<in> {IPv4, IPv6}" "i \<in> set (infos (add ep f s))" "i \<notin> set (infos s)"
    "ni_UseFamily i \<in> {IPv4, IPv6}"
  shows "ni_UseFamily i = f \<and> ep_Spec (ni_Endpoint i) = ep_Spec ep"
proof -
  from add_infos [OF assms(1), of ep f] assms(3,4)
  have "ep_Spec (ni_Endpoint i) = ep_Spec ep \<and>
      GetFamilyCableName (ep_Spec ep) (ni_UseFamily i) = GetFamilyCableName (ep_Spec ep) f" by auto
  then show ?thesis
    using GetFamilyCableName_inj [of "ni_UseFamily i" f "ep_Spec ep" "ep_Spec ep"] assms(2,5) by auto
qed

end

definition nat_known :: "natDiscovery \<Rightarrow> string \<rightharpoonup> EndpointSpec" where
  "nat_known nd k = map_option (\<lambda>rn. ep_Spec (rn_endpoint rn)) (nd_remoteEndpoints nd k)"

lemma AddEndpoint_known:
  "nat_known (AddEndpoint L T now ep f nd) = (nat_known nd)(GetFamilyCableName (ep_Spec ep) f \<mapsto> ep_Spec ep)"
  by (auto simp: fun_eq_iff nat_known_def AddEndpoint_def Let_def store_def useLegacyNATSettings_def
      transitionToState_def newRemoteEndpointNAT_def split: option.split)

lemma toNAT_about: "ep_Spec (ni_Endpoint (toNATEndpointInfo rn)) = ep_Spec (rn_endpoint rn)"
  "GetFamilyCableName (ep_Spec (rn_endpoint rn)) (ni_UseFamily (toNATEndpointInfo rn)) = rn_cable rn"
  by (simp_all add: toNATEndpointInfo_def rn_cable_def)

lemma useLegacy_endpoint [simp]: "rn_endpoint (useLegacyNATSettings L now rn) = rn_endpoint rn"
  by (simp add: useLegacyNATSettings_def transitionToState_def)

lemma new_endpoint [simp]: "rn_endpoint (newRemoteEndpointNAT T now ep f) = ep"
  by (simp add: newRemoteEndpointNAT_def Let_def)

lemma AddEndpoint_infos:
  assumes "nat_inv L nd"
  shows "\<exists>new. nd_ready (AddEndpoint L T now ep f nd) = nd_ready nd @ new \<and>
    (\<forall>i\<in>set new. ep_Spec (ni_Endpoint i) = ep_Spec ep \<and>
       GetFamilyCableName (ep_Spec ep) (ni_UseFamily i) = GetFamilyCableName (ep_Spec ep) f)"
proof -
  let ?k = "GetFamilyCableName (ep_Spec ep) f"
  have new: "ep_Spec (ni_Endpoint (toNATEndpointInfo x)) = ep_Spec ep \<and>
      GetFamilyCableName (ep_Spec ep) (ni_UseFamily (toNATEndpointInfo x)) = ?k"
    if "x = useLegacyNATSettings L now (newRemoteEndpointNAT T now ep f)" for x
    using toNAT_about [of x] that by simp
  have old: "GetFamilyCableName (ep_Spec ep) (ni_UseFamily (toNATEndpointInfo x)) = ?k"
    if "nd_remoteEndpoints nd ?k = Some x" "ep_Spec (rn_endpoint x) = ep_Spec ep" for x
    using toNAT_about(2) [of x] that nat_inv_entry [OF assms that(1)] by simp
  show ?thesis
    using new old toNAT_about(1)
    by (auto simp: AddEndpoint_def Let_def ready_def store_def split: option.split)
qed

interpretation nat: nat_service "AddEndpoint L T now" RemoveEndpoint nd_ready nat_known "nat_inv L" for L T now
proof unfold_locales
  fix nd and k :: string
  show "nat_known (RemoveEndpoint k nd) = (nat_known nd)(k := None)"
    by (auto simp: fun_eq_iff nat_known_def RemoveEndpoint_def)
  show "nd_ready (RemoveEndpoint k nd) = nd_ready nd" by (simp add: RemoveEndpoint_def)
  show "nat_inv L nd \<Longrightarrow> nat_inv L (RemoveEndpoint k nd)"
    by (auto simp: nat_inv_def RemoveEndpoint_def split: if_splits)
qed (simp_all add: AddEndpoint_known AddEndpoint_infos AddEndpoint_inv)

section \<open>Where endpoints come from\<close>

text \<open>
  A predicate on the endpoint and family of every entry and every ready info: whatever the added
  endpoints satisfy, all of them satisfy.
\<close>

definition nat_all :: "(Endpoint \<Rightarrow> IPFamily \<Rightarrow> bool) \<Rightarrow> natDiscovery \<Rightarrow> bool" where
  "nat_all P nd \<longleftrightarrow>
     (\<forall>k rn. nd_remoteEndpoints nd k = Some rn \<longrightarrow> P (rn_endpoint rn) (rn_family rn)) \<and>
     (\<forall>i\<in>set (nd_ready nd). P (ni_Endpoint i) (ni_UseFamily i))"

lemma nat_all_store: "nat_all P nd \<Longrightarrow> P (rn_endpoint rn) (rn_family rn) \<Longrightarrow> nat_all P (store k rn nd)"
  by (auto simp: nat_all_def store_def)

lemma nat_all_ready: "nat_all P nd \<Longrightarrow> P (ni_Endpoint i) (ni_UseFamily i) \<Longrightarrow> nat_all P (ready i nd)"
  by (auto simp: nat_all_def ready_def)

lemma nat_all_cong:
  "nat_all P nd \<Longrightarrow> nd_remoteEndpoints nd' = nd_remoteEndpoints nd \<Longrightarrow>
   set (nd_ready nd') \<subseteq> set (nd_ready nd) \<Longrightarrow> nat_all P nd'"
  by (auto simp: nat_all_def)

lemma toNAT_sel [simp]: "ni_Endpoint (toNATEndpointInfo rn) = rn_endpoint rn"
  "ni_UseFamily (toNATEndpointInfo rn) = rn_family rn"
  by (simp_all add: toNATEndpointInfo_def)

lemma useLegacy_family [simp]: "rn_family (useLegacyNATSettings L now rn) = rn_family rn"
  by (simp add: useLegacyNATSettings_def transitionToState_def)

lemma new_family [simp]: "rn_family (newRemoteEndpointNAT T now ep f) = f"
  by (simp add: newRemoteEndpointNAT_def Let_def)

lemma AddEndpoint_all:
  assumes "nat_all P nd" "P ep f" shows "nat_all P (AddEndpoint L T now ep f nd)"
  using assms by (auto simp: AddEndpoint_def Let_def split: option.split
      intro!: nat_all_store nat_all_ready) (auto simp: nat_all_def ready_def)

lemma sendCheckRequest_sel:
  assumes "sendCheckRequest L V now nd rn = (nd', rn', e)"
  shows "rn_endpoint rn' = rn_endpoint rn \<and> rn_family rn' = rn_family rn"
proof -
  have sel: "rn_endpoint r = rn_endpoint r0 \<and> rn_family r = rn_family r0"
    if "sendCheckRequestToTargetIP V now n r0 t i = (n', r, i', e)" for n r0 t i n' r i' e
    using send_target_frame [OF that] by (auto simp: checkSent_def)
  from assms show ?thesis
    by (auto simp: sendCheckRequest_def Let_def dest!: sel split: prod.split_asm if_split_asm)
qed

lemma check_one_all: "nat_all P nd \<Longrightarrow> nat_all P (check_one L T V now nd key)"
proof (cases "nd_remoteEndpoints nd key")
  case (Some rn)
  assume all: "nat_all P nd"
  with Some have p: "P (rn_endpoint rn) (rn_family rn)" by (auto simp: nat_all_def)
  obtain nd' rn' e where s: "sendCheckRequest L V now nd rn = (nd', rn', e)" by (metis prod_cases3)
  have "nat_all P (store key rn' nd')"
    using all p sendCheckRequest_frame [OF s] sendCheckRequest_sel [OF s]
    by (intro nat_all_store) (auto intro: nat_all_cong)
  with Some s all p show ?thesis
    by (auto simp: check_one_def Let_def intro!: nat_all_store nat_all_ready)
qed (simp add: check_one_def)

lemma checkEndpointList_all: "nat_all P nd \<Longrightarrow> nat_all P (checkEndpointList L T V now order nd)"
  unfolding checkEndpointList_def by (induction order arbitrary: nd) (auto intro: check_one_all)

lemma transitions_sel:
  "transitionToPublicIP L now b rn = (rn', ok) \<Longrightarrow> rn_endpoint rn' = rn_endpoint rn \<and> rn_family rn' = rn_family rn"
  "transitionToPrivateIP L T now b rn = (rn', ok) \<Longrightarrow> rn_endpoint rn' = rn_endpoint rn \<and> rn_family rn' = rn_family rn"
  by (auto simp: transitionToPublicIP_def transitionToPrivateIP_def transitionToState_def Let_def
      split: endpointState.split_asm if_split_asm)

lemma handleResponse_all:
  assumes all: "nat_all P nd" and h: "handleResponseFromAddress L T now req addr nd = (nd', e)"
  shows "nat_all P nd'"
proof -
  have p: "P (rn_endpoint rn) (rn_family rn)" if "nd_remoteEndpoints nd k = Some rn" for k rn
    using all that by (auto simp: nat_all_def)
  show ?thesis
    using handleResponse_cases [OF h] all
    by (auto intro!: nat_all_ready nat_all_store dest!: transitions_sel p)
qed

lemma parseAndHandle_all:
  "nat_all P nd \<Longrightarrow> nat_all P (fst (parseAndHandleMessageFromAddress L T V now buf addr nd))"
proof -
  assume all: "nat_all P nd"
  have "nat_all P (fst (handleResponseFromAddress L T now r addr nd))" for r
    using all by (metis handleResponse_all prod.collapse)
  moreover have "nat_all P (fst (handleRequestFromAddress L V r addr nd))" for r
    using all by (rule nat_all_cong) (simp_all add: handleRequest_frame)
  ultimately show ?thesis
    using all by (auto simp: parseAndHandleMessageFromAddress_def split: sum.splits natMessage.splits)
qed

lemma RemoveEndpoint_all: "nat_all P nd \<Longrightarrow> nat_all P (RemoveEndpoint k nd)"
  by (auto simp: nat_all_def RemoveEndpoint_def)

lemma runListeners_all: "nat_all P nd \<Longrightarrow> nat_all P (fst (runListeners L create nd))"
  by (erule nat_all_cong) (simp_all add: runListeners_def runListeners_frame)

lemma NewWithConfig_start: "NewWithConfig spec rand = Inr nd \<Longrightarrow> nat_inv L nd \<and> nat_all P nd"
  by (auto simp: NewWithConfig_def nat_inv_def nat_all_def split: prod.splits option.splits)

end
