(* ===== verification/CableDriver.thy ===== *)
theory CableDriver
  imports NatDiscovery
begin

text \<open>
  \<open>pkg/cable/driver.go\<close>: the interface every cable driver implements, as a record of functions on the
  driver's state, the registry of drivers, and what the cable engine relies on, as the locale
  \<open>cable_driver\<close>.
\<close>

section \<open>The interface and the registry\<close>

record 'd Driver =
  drv_Name :: string
  drv_Init :: "'d \<Rightarrow> 'd \<times> err option"
  drv_GetActiveConnections :: "'d \<Rightarrow> Connection list result"
  drv_GetConnections :: "'d \<Rightarrow> 'd \<times> Connection list result"   \<comment> \<open>may refresh the status of the connections\<close>
  drv_ConnectToEndpoint :: "NATEndpointInfo \<Rightarrow> 'd \<Rightarrow> 'd \<times> string \<times> err option"
  drv_DisconnectFromEndpoint :: "EndpointSpec \<Rightarrow> IPFamily \<Rightarrow> 'd \<Rightarrow> 'd \<times> err option"
  drv_Cleanup :: "'d \<Rightarrow> 'd \<times> err option"

type_synonym 'd DriverCreateFunc = "EndpointSpec \<Rightarrow> SubmarinerCluster \<Rightarrow> 'd result"

type_synonym 'd drivers = "string \<rightharpoonup> 'd DriverCreateFunc"

text \<open>A double registration is fatal: None.\<close>

definition AddDriver :: "string \<Rightarrow> 'd DriverCreateFunc \<Rightarrow> 'd drivers \<Rightarrow> 'd drivers option" where
  "AddDriver name driverCreate ds = (if ds name \<noteq> None then None else Some (ds(name \<mapsto> driverCreate)))"

definition NewDriver :: "'d drivers \<Rightarrow> EndpointSpec \<Rightarrow> SubmarinerCluster \<Rightarrow> 'd result" where
  "NewDriver ds spec cluster =
     (case ds (Backend spec) of
        None \<Rightarrow> Inl (Err ''unsupported cable type'')
      | Some create \<Rightarrow> create spec cluster)"

lemma NewDriver_AddDriver:
  "AddDriver name create ds = Some ds' \<Longrightarrow>
   NewDriver ds' spec cluster = (if Backend spec = name then create spec cluster else NewDriver ds spec cluster)"
  by (auto simp: AddDriver_def NewDriver_def split: if_splits)

section \<open>What the engine relies on\<close>

definition conn_key :: "libs \<Rightarrow> Connection \<Rightarrow> string \<times> IPFamily" where
  "conn_key L c = (CableName (conn_Endpoint c), GetFamily L c)"

definition conn_of :: "NATEndpointInfo \<Rightarrow> Connection \<Rightarrow> bool" where
  "conn_of info c \<longleftrightarrow> conn_Endpoint c = ep_Spec (ni_Endpoint info) \<and> UsingIP c = ni_UseIP info \<and>
     UsingNAT c = ni_UseNAT info"

text \<open>
  The active connections of a driver state that meets the invariant can be listed; connecting to a
  remote cluster needs an address of a known family and adds one connection for the info, or fails and leaves the set of connections alone;
  disconnecting removes the connections of that cable and family, or fails and leaves the set alone;
  listing the connections changes at most their status. The
  invariant is kept, provided a cable that is already connected in that family is not connected again.
\<close>

locale cable_driver =
  fixes L :: libs and D :: "'d Driver" and dinv :: "'d \<Rightarrow> bool" and localID :: string
  assumes active_ok: "dinv d \<Longrightarrow> \<exists>cs. drv_GetActiveConnections D d = Inr cs"
    and connect_ok: "dinv d \<Longrightarrow> drv_GetActiveConnections D d = Inr cs \<Longrightarrow>
        drv_ConnectToEndpoint D info d = (d', ip, None) \<Longrightarrow> ClusterID (ep_Spec (ni_Endpoint info)) \<noteq> localID \<Longrightarrow>
        (CableName (ep_Spec (ni_Endpoint info)), IPFamilyOfString L (ni_UseIP info)) \<notin> conn_key L ` set cs \<Longrightarrow>
        dinv d' \<and> (\<exists>c cs'. drv_GetActiveConnections D d' = Inr cs' \<and> conn_of info c \<and> set cs' = insert c (set cs))"
    and connect_addr: "dinv d \<Longrightarrow> drv_ConnectToEndpoint D info d = (d', ip, None) \<Longrightarrow>
        ClusterID (ep_Spec (ni_Endpoint info)) \<noteq> localID \<Longrightarrow>
        ni_UseIP info \<noteq> [] \<and> IPFamilyOfString L (ni_UseIP info) \<noteq> IPFamilyUnknown"
    and connect_fail: "dinv d \<Longrightarrow> drv_GetActiveConnections D d = Inr cs \<Longrightarrow>
        drv_ConnectToEndpoint D info d = (d', ip, Some e) \<Longrightarrow>
        dinv d' \<and> (\<exists>cs'. drv_GetActiveConnections D d' = Inr cs' \<and> set cs' = set cs)"
    and disconnect_ok: "dinv d \<Longrightarrow> drv_GetActiveConnections D d = Inr cs \<Longrightarrow>
        drv_DisconnectFromEndpoint D spec family d = (d', None) \<Longrightarrow> ClusterID spec \<noteq> localID \<Longrightarrow>
        family \<noteq> IPFamilyUnknown \<Longrightarrow>
        dinv d' \<and> (\<exists>cs'. drv_GetActiveConnections D d' = Inr cs' \<and>
          set cs' = {c \<in> set cs. conn_key L c \<noteq> (CableName spec, family)})"
    and disconnect_fail: "dinv d \<Longrightarrow> drv_GetActiveConnections D d = Inr cs \<Longrightarrow>
        drv_DisconnectFromEndpoint D spec family d = (d', Some e) \<Longrightarrow>
        dinv d' \<and> (\<exists>cs'. drv_GetActiveConnections D d' = Inr cs' \<and> set cs' = set cs)"
    and connections_ok: "dinv d \<Longrightarrow> drv_GetActiveConnections D d = Inr cs \<Longrightarrow> drv_GetConnections D d = (d', r) \<Longrightarrow>
        dinv d' \<and> (\<exists>f cs'. drv_GetActiveConnections D d' = Inr cs' \<and> set cs' = f ` set cs \<and>
          (\<forall>c. f c = c\<lparr>Status := Status (f c)\<rparr>))"
begin

text \<open>The active connections as a set.\<close>

definition act :: "'d \<Rightarrow> Connection set" where
  "act d = (case drv_GetActiveConnections D d of Inr cs \<Rightarrow> set cs | Inl _ \<Rightarrow> {})"

lemma act_eq: "drv_GetActiveConnections D d = Inr cs \<Longrightarrow> act d = set cs"
  by (simp add: act_def)

lemma connect_act:
  assumes "dinv d" "drv_ConnectToEndpoint D info d = (d', ip, None)"
    "ClusterID (ep_Spec (ni_Endpoint info)) \<noteq> localID"
    "(CableName (ep_Spec (ni_Endpoint info)), IPFamilyOfString L (ni_UseIP info)) \<notin> conn_key L ` act d"
  shows "dinv d' \<and> (\<exists>c. conn_of info c \<and> act d' = insert c (act d))"
proof -
  obtain cs where cs: "drv_GetActiveConnections D d = Inr cs" using active_ok [OF assms(1)] by blast
  from connect_ok [OF assms(1) cs assms(2,3)] assms(4) obtain c cs' where
    "dinv d'" "drv_GetActiveConnections D d' = Inr cs'" "conn_of info c" "set cs' = insert c (set cs)"
    unfolding act_eq [OF cs] by blast
  with act_eq [OF cs] act_eq show ?thesis by blast
qed

lemma connect_fail_act:
  "dinv d \<Longrightarrow> drv_ConnectToEndpoint D info d = (d', ip, Some e) \<Longrightarrow> dinv d' \<and> act d' = act d"
  using active_ok connect_fail act_eq by metis

lemma disconnect_act:
  assumes "dinv d" "drv_DisconnectFromEndpoint D spec family d = (d', None)"
    "ClusterID spec \<noteq> localID" "family \<noteq> IPFamilyUnknown"
  shows "dinv d' \<and> act d' = {c \<in> act d. conn_key L c \<noteq> (CableName spec, family)}"
proof -
  obtain cs where cs: "drv_GetActiveConnections D d = Inr cs" using active_ok [OF assms(1)] by blast
  from disconnect_ok [OF assms(1) cs assms(2-)] obtain cs' where
    "dinv d'" "drv_GetActiveConnections D d' = Inr cs'"
    "set cs' = {c \<in> set cs. conn_key L c \<noteq> (CableName spec, family)}" by blast
  with act_eq [OF cs] act_eq show ?thesis by simp
qed

lemma connections_act:
  assumes "dinv d" "drv_GetConnections D d = (d', r)"
  shows "dinv d' \<and> (\<exists>f. act d' = f ` act d \<and> (\<forall>c. f c = c\<lparr>Status := Status (f c)\<rparr>))"
proof -
  obtain cs where cs: "drv_GetActiveConnections D d = Inr cs" using active_ok [OF assms(1)] by blast
  with connections_ok [OF assms(1) cs assms(2)] act_eq show ?thesis by metis
qed

lemma disconnect_fail_act:
  "dinv d \<Longrightarrow> drv_DisconnectFromEndpoint D spec family d = (d', Some e) \<Longrightarrow> dinv d' \<and> act d' = act d"
  using active_ok disconnect_fail act_eq by metis

end

text \<open>A driver the engine can create: a new driver has no connections.\<close>

locale engine_driver = cable_driver +
  fixes ds :: "'a drivers"
  assumes new_ok: "NewDriver ds spec cluster = Inr d \<Longrightarrow> libs_ok L \<Longrightarrow> ClusterID spec = localID \<Longrightarrow>
      dinv d \<and> drv_GetActiveConnections D d = Inr []"
    and init_ok: "dinv d \<Longrightarrow> drv_GetActiveConnections D d = Inr [] \<Longrightarrow> drv_Init D d = (d', e) \<Longrightarrow>
      dinv d' \<and> drv_GetActiveConnections D d' = Inr []"

end
