(* ===== verification/VxlanIface.thy ===== *)
theory VxlanIface
  imports EndpointApi
begin

text \<open>
  \<open>pkg/vxlan/vxlan.go\<close>: VXLAN link devices, the addresses of their tunnel end points, forwarding
  database entries and routes. The \<open>netlinkAPI.Interface\<close> the code calls is the record \<open>netLink\<close> of
  functions on a kernel state of any type: whatever the kernel does, the code does what is written here.
\<close>

unbundle bit_operations_syntax

section \<open>The netlink interface\<close>

record vxlanAttributes =
  va_Name :: string
  va_VxlanID :: int
  va_Group :: "ip option"
  va_SrcAddr :: "ip option"
  va_VtepPort :: int
  va_Mtu :: int
  va_HardwareAddr :: "nat list"

record vxlanLink =
  vl_Name :: string
  vl_MTU :: int
  vl_HardwareAddr :: "nat list"
  vl_VxlanId :: int
  vl_SrcAddr :: "ip option"
  vl_Group :: "ip option"
  vl_Port :: int

datatype netLinkDev = VxlanDev vxlanLink | OtherDev string

record neigh =
  ng_Link :: string
  ng_IP :: "ip option"        \<comment> \<open>None is a nil address\<close>
  ng_HardwareAddr :: string

record route =
  rt_Link :: string
  rt_Src :: "ip option"
  rt_Dst :: ipnet
  rt_Gw :: "ip option"
  rt_Priority :: int
  rt_Table :: int

record 'k netLink =
  LinkAdd :: "vxlanLink \<Rightarrow> 'k \<Rightarrow> 'k \<times> err option"
  LinkDel :: "string \<Rightarrow> 'k \<Rightarrow> 'k \<times> err option"
  LinkByName :: "string \<Rightarrow> 'k \<Rightarrow> netLinkDev result"
  LinkSetUp :: "string \<Rightarrow> 'k \<Rightarrow> 'k \<times> err option"
  AddrAdd :: "string \<Rightarrow> ip \<times> nat \<Rightarrow> 'k \<Rightarrow> 'k \<times> err option"
  NeighAppend :: "neigh \<Rightarrow> 'k \<Rightarrow> 'k \<times> err option"
  NeighDel :: "neigh \<Rightarrow> 'k \<Rightarrow> 'k \<times> err option"
  RouteAddOrReplace :: "route \<Rightarrow> 'k \<Rightarrow> 'k \<times> err option"
  RouteDel :: "route \<Rightarrow> 'k \<Rightarrow> 'k \<times> err option"
  RuleAddIfNotPresent :: "int \<Rightarrow> IPFamily \<Rightarrow> 'k \<Rightarrow> 'k \<times> err option"
  RuleDelIfPresent :: "int \<Rightarrow> IPFamily \<Rightarrow> 'k \<Rightarrow> 'k \<times> err option"
  GetDefaultGatewayInterfaceMTU :: "IPFamily \<Rightarrow> 'k \<Rightarrow> int result"
  EnsureLooseModeIsConfigured :: "string \<Rightarrow> IPFamily \<Rightarrow> 'k \<Rightarrow> 'k \<times> err option"
  EnableForwarding :: "string \<Rightarrow> IPFamily \<Rightarrow> 'k \<Rightarrow> 'k \<times> err option"
  DeleteIfaceAndAssociatedRoutes :: "string \<Rightarrow> int \<Rightarrow> IPFamily \<Rightarrow> 'k \<Rightarrow> 'k \<times> err option"
  CniDiscover :: "string list \<Rightarrow> IPFamily \<Rightarrow> 'k \<Rightarrow> string result"   \<comment> \<open>\<open>cni.Discover\<close>, the address\<close>

definition EEXIST :: err where "EEXIST = Sentinel ''file exists''"
definition ErrNotExist :: err where "ErrNotExist = Sentinel ''file does not exist''"
definition vxlan_panic :: err where "vxlan_panic = Sentinel ''panic''"

definition MTUOverhead :: int where "MTUOverhead = 50"

section \<open>Hardware addresses\<close>

text \<open>The bytes of an address, most significant first.\<close>

definition bytes4 :: "32 word \<Rightarrow> nat list" where
  "bytes4 w = map (\<lambda>i. unat (drop_bit (8 * (3 - i)) w) mod 256) [0..<4]"

definition bytes16 :: "128 word \<Rightarrow> nat list" where
  "bytes16 w = map (\<lambda>i. unat (drop_bit (8 * (15 - i)) w) mod 256) [0..<16]"

text \<open>\<open>hash/fnv\<close>'s 64-bit FNV-1a.\<close>

definition fnv64a :: "nat list \<Rightarrow> 64 word" where
  "fnv64a bs = foldl (\<lambda>h b. (h XOR word_of_nat b) * 1099511628211) 14695981039346656037 bs"

definition HardwareAddrFromIP :: "ip option \<Rightarrow> nat list" where
  "HardwareAddrFromIP i = (case i of
      Some (IP4 w) \<Rightarrow> [2, 0] @ bytes4 w
    | Some (IP6 w) \<Rightarrow>
        (let sum = fnv64a (bytes16 w)
         in 2 # map (\<lambda>s. unat (drop_bit s sum) mod 256) [32, 24, 16, 8, 0])
    | None \<Rightarrow> [])"

section \<open>Link devices\<close>

definition isVxlanConfigTheSame :: "vxlanLink \<Rightarrow> vxlanLink \<Rightarrow> bool" where
  "isVxlanConfigTheSame required existing \<longleftrightarrow>
     vl_VxlanId required = vl_VxlanId existing \<and> vl_Group required = vl_Group existing \<and>
     vl_SrcAddr required = vl_SrcAddr existing \<and> vl_Port required = vl_Port existing \<and>
     \<not> (vl_HardwareAddr required \<noteq> [] \<and> vl_HardwareAddr required \<noteq> vl_HardwareAddr existing)"

definition attrs_link :: "vxlanAttributes \<Rightarrow> vxlanLink" where
  "attrs_link attrs = \<lparr>vl_Name = va_Name attrs, vl_MTU = va_Mtu attrs - MTUOverhead,
     vl_HardwareAddr = va_HardwareAddr attrs, vl_VxlanId = va_VxlanID attrs,
     vl_SrcAddr = va_SrcAddr attrs, vl_Group = va_Group attrs, vl_Port = va_VtepPort attrs\<rparr>"

definition createLinkDevice ::
  "'k netLink \<Rightarrow> vxlanAttributes \<Rightarrow> 'k \<Rightarrow> 'k \<times> vxlanLink result" where
  "createLinkDevice N attrs k =
     (let link = attrs_link attrs in
      case LinkAdd N link k of
        (k1, None) \<Rightarrow> (k1, Inr link)
      | (k1, Some e) \<Rightarrow>
          if errors_is e EEXIST then
            (case LinkByName N (vl_Name link) k1 of
               Inl e \<Rightarrow> (k1, Inl (Wrapped ''error retrieving vxlan link by name'' e))
             | Inr (OtherDev _) \<Rightarrow> (k1, Inl vxlan_panic)
             | Inr (VxlanDev existing) \<Rightarrow>
                 if isVxlanConfigTheSame link existing then (k1, Inr existing)
                 else (case LinkDel N (vl_Name existing) k1 of
                         (k2, Some e) \<Rightarrow> (k2, Inl (Wrapped ''error deleting existing vxlan device'' e))
                       | (k2, None) \<Rightarrow>
                           (case LinkAdd N link k2 of
                              (k3, Some e) \<Rightarrow> (k3, Inl (Wrapped ''error re-creating vxlan device'' e))
                            | (k3, None) \<Rightarrow> (k3, Inr link))))
          else (k1, Inl (Wrapped ''error creating vxlan device'' e)))"

definition ConfigureIPAddress ::
  "'k netLink \<Rightarrow> string \<Rightarrow> ip \<Rightarrow> nat \<Rightarrow> 'k \<Rightarrow> 'k \<times> err option" where
  "ConfigureIPAddress N name ipAddress ones k =
     (case AddrAdd N name (ipAddress, ones) k of
        (k', None) \<Rightarrow> (k', None)
      | (k', Some e) \<Rightarrow>
          (k', if errors_is e EEXIST then None else Some (Wrapped ''unable to configure address'' e)))"

definition SetupLink :: "'k netLink \<Rightarrow> string \<Rightarrow> 'k \<Rightarrow> 'k \<times> err option" where
  "SetupLink N name k = LinkSetUp N name k"

definition DeleteLinkDevice :: "'k netLink \<Rightarrow> string \<Rightarrow> 'k \<Rightarrow> 'k \<times> err option" where
  "DeleteLinkDevice N name k = apsnd (wrap ''error deleting vxlan device'') (LinkDel N name k)"

section \<open>Tunnel end point addresses\<close>

definition to16 :: "ip \<Rightarrow> 128 word" where
  "to16 i = (case i of IP4 w \<Rightarrow> push_bit 32 0xFFFF OR ucast w | IP6 w \<Rightarrow> w)"

definition GetVtepIPAddressFrom :: "string \<Rightarrow> string \<Rightarrow> IPFamily \<Rightarrow> ip result" where
  "GetVtepIPAddressFrom ipAddr prefixCIDR family =
     (case ParseIP ipAddr of
        None \<Rightarrow> Inl (Err ''invalid IP address'')
      | Some i \<Rightarrow>
          (case ParseCIDR prefixCIDR of
             None \<Rightarrow> Inl (Wrapped ''failed to parse prefix'' (Sentinel ''ParseError''))
           | Some prefixNet \<Rightarrow>
               (case family of
                  IPv4 \<Rightarrow>
                    (case (i, n_ip prefixNet) of
                       (IP4 src, IP4 pre) \<Rightarrow> Inr (IP4 (pre AND mask4 8 OR src AND mask 24))
                     | _ \<Rightarrow> Inl (Err ''expected IPv4 addresses''))
                | IPv6 \<Rightarrow> Inr (of16 (to16 (n_ip prefixNet) AND mask6 96 OR to16 i AND mask 32))
                | IPFamilyUnknown \<Rightarrow> Inl (Err ''unsupported IP family''))))"

section \<open>Forwarding database and routes\<close>

definition zeroMAC :: string where "zeroMAC = ''00:00:00:00:00:00''"

definition AddFDB :: "'k netLink \<Rightarrow> string \<Rightarrow> ip option \<Rightarrow> 'k \<Rightarrow> 'k \<times> err option" where
  "AddFDB N name ipAddress k = apsnd (wrap ''unable to add the bridge fdb entry'')
     (NeighAppend N \<lparr>ng_Link = name, ng_IP = ipAddress, ng_HardwareAddr = zeroMAC\<rparr> k)"

definition DelFDB :: "'k netLink \<Rightarrow> string \<Rightarrow> ip option \<Rightarrow> 'k \<Rightarrow> 'k \<times> err option" where
  "DelFDB N name ipAddress k = apsnd (wrap ''unable to delete the bridge fdb entry'')
     (NeighDel N \<lparr>ng_Link = name, ng_IP = ipAddress, ng_HardwareAddr = zeroMAC\<rparr> k)"

fun AddRoutes ::
  "'k netLink \<Rightarrow> string \<Rightarrow> ip option \<Rightarrow> ip option \<Rightarrow> int \<Rightarrow> ipnet list \<Rightarrow> 'k \<Rightarrow> 'k \<times> err option" where
  "AddRoutes N name gwIP srcIP tableID [] k = (k, None)"
| "AddRoutes N name gwIP srcIP tableID (dst # dsts) k =
     (case RouteAddOrReplace N \<lparr>rt_Link = name, rt_Src = srcIP, rt_Dst = dst, rt_Gw = gwIP,
              rt_Priority = 100, rt_Table = tableID\<rparr> k of
        (k', Some e) \<Rightarrow> (k', Some (Wrapped ''unable to add the route entry'' e))
      | (k', None) \<Rightarrow> AddRoutes N name gwIP srcIP tableID dsts k')"

fun DelRoutes :: "'k netLink \<Rightarrow> string \<Rightarrow> int \<Rightarrow> ipnet list \<Rightarrow> 'k \<Rightarrow> 'k \<times> err option" where
  "DelRoutes N name tableID [] k = (k, None)"
| "DelRoutes N name tableID (dst # dsts) k =
     (case RouteDel N \<lparr>rt_Link = name, rt_Src = None, rt_Dst = dst, rt_Gw = None,
              rt_Priority = 100, rt_Table = tableID\<rparr> k of
        (k', Some e) \<Rightarrow>
          if errors_is e ErrNotExist then DelRoutes N name tableID dsts k'
          else (k', Some (Wrapped ''unable to delete the route entry'' e))
      | (k', None) \<Rightarrow> DelRoutes N name tableID dsts k')"

section \<open>Properties\<close>

lemma vtep4_bit:
  "bit (pre AND mask4 8 OR src AND mask 24 :: 32 word) n \<longleftrightarrow>
   n < 32 \<and> (if n < 24 then bit src n else bit pre n)"
  by (auto simp: bit_simps mask4_bit dest: bit_imp_le_length)

lemma vtep6_bit:
  "bit (pre AND mask6 96 OR src AND mask 32 :: 128 word) n \<longleftrightarrow>
   n < 128 \<and> (if n < 32 then bit src n else bit pre n)"
  by (auto simp: bit_simps mask6_bit dest: bit_imp_le_length)

lemma vtep6_high: "drop_bit 32 (pre AND mask6 96 OR src AND mask 32 :: 128 word) = drop_bit 32 pre"
  by (rule bit_eqI) (simp only: bit_drop_bit_eq o_apply vtep6_bit, auto dest: bit_imp_le_length)

lemma ParseCIDR_not_mapped: "ParseCIDR s = Some n \<Longrightarrow> n_ip n = IP6 w \<Longrightarrow> drop_bit 32 w \<noteq> 0xFFFF"
  by (auto simp: ParseCIDR_def cidr_net_def of16_def split: prod.splits if_splits option.splits addr.splits)

text \<open>The tunnel end point address derived from a node address lies in the prefix it is derived from,
  for an IPv4 prefix of at most 8 bits and an IPv6 prefix of at most 96 bits, as the cable driver and the
  route agent use them.\<close>

theorem GetVtepIPAddressFrom_in_prefix:
  assumes "GetVtepIPAddressFrom ipAddr prefixCIDR family = Inr vtep" and "ParseCIDR prefixCIDR = Some n"
    and "family = IPv4 \<Longrightarrow> n_bits n = 32 \<and> n_ones n \<le> 8"
    and "family = IPv6 \<Longrightarrow> n_bits n = 128 \<and> n_ones n \<le> 96 \<and> (\<exists>w. n_ip n = IP6 w)"
  shows "Contains n vtep"
proof (cases family)
  case IPFamilyUnknown
  with assms(1,2) show ?thesis by (auto simp: GetVtepIPAddressFrom_def split: option.splits)
next
  case IPv4
  with assms(1,2) obtain src pre where
    p: "n_ip n = IP4 pre" "vtep = IP4 (pre AND mask4 8 OR src AND mask 24)"
    by (auto simp: GetVtepIPAddressFrom_def split: option.splits ip.splits)
  from assms(3) [OF IPv4] show ?thesis
    by (auto simp: p Contains_def mask4_eq_iff vtep4_bit v4_ones_def)
next
  case IPv6
  with assms(4) obtain pre where pre: "n_ip n = IP6 pre" "n_bits n = 128" "n_ones n \<le> 96" by blast
  from assms(1,2) IPv6 obtain src where
    v: "vtep = of16 (pre AND mask6 96 OR src AND mask 32)"
    by (auto simp: GetVtepIPAddressFrom_def pre to16_def split: option.splits ip.splits)
  have "vtep = IP6 (pre AND mask6 96 OR src AND mask 32)"
    using ParseCIDR_not_mapped [OF assms(2) pre(1)] unfolding v of16_def vtep6_high by simp
  then show ?thesis
    using pre(2,3) by (auto simp: pre(1) Contains_def mask6_eq_iff vtep6_bit)
qed

theorem GetVtepIPAddressFrom_in_prefix_witness:
  "\<exists>n vtep. GetVtepIPAddressFrom ''10.1.2.3'' ''241.0.0.0/8'' IPv4 = Inr vtep \<and>
     ParseCIDR ''241.0.0.0/8'' = Some n \<and> Contains n vtep"
proof -
  have v: "GetVtepIPAddressFrom ''10.1.2.3'' ''241.0.0.0/8'' IPv4 = Inr (IP4 0xF1010203)" by code_simp
  have n: "ParseCIDR ''241.0.0.0/8'' = Some \<lparr>n_ip = IP4 0xF1000000, n_ones = 8, n_bits = 32\<rparr>" by code_simp
  show ?thesis
    using v n GetVtepIPAddressFrom_in_prefix [OF v n] by simp
qed

text \<open>Two nodes get the same IPv4 tunnel end point address exactly when the last three octets of
  their addresses agree, whatever the prefix.\<close>

theorem GetVtepIPAddressFrom_collision:
  assumes "GetVtepIPAddressFrom a p IPv4 = Inr v" and "GetVtepIPAddressFrom b p IPv4 = Inr v'"
    and "ParseIP a = Some (IP4 x)" and "ParseIP b = Some (IP4 y)"
  shows "v = v' \<longleftrightarrow> x AND mask 24 = y AND mask 24"
proof -
  from assms obtain pre where "v = IP4 (pre AND mask4 8 OR x AND mask 24)" "v' = IP4 (pre AND mask4 8 OR y AND mask 24)"
    by (auto simp: GetVtepIPAddressFrom_def split: option.splits ip.splits)
  moreover have "(pre AND mask4 8 OR x AND mask 24 = pre AND mask4 8 OR y AND mask 24) \<longleftrightarrow>
      x AND mask 24 = y AND mask 24"
    by (auto simp: bit_eq_iff vtep4_bit bit_simps mask4_bit)
  ultimately show ?thesis by simp
qed

theorem GetVtepIPAddressFrom_collision_witness:
  "GetVtepIPAddressFrom ''10.1.2.3'' ''241.0.0.0/8'' IPv4 = GetVtepIPAddressFrom ''172.1.2.3'' ''241.0.0.0/8'' IPv4"
proof -
  have v: "GetVtepIPAddressFrom ''10.1.2.3'' ''241.0.0.0/8'' IPv4 = Inr (IP4 0xF1010203)" by code_simp
  have w: "GetVtepIPAddressFrom ''172.1.2.3'' ''241.0.0.0/8'' IPv4 = Inr (IP4 0xF1010203)" by code_simp
  have a: "ParseIP ''10.1.2.3'' = Some (IP4 0x0A010203)" by code_simp
  have b: "ParseIP ''172.1.2.3'' = Some (IP4 0xAC010203)" by code_simp
  show ?thesis
    using GetVtepIPAddressFrom_collision [OF v w a b] v w by simp
qed

lemma bytes4_bytes: "length (bytes4 w) = 4" "b \<in> set (bytes4 w) \<Longrightarrow> b < 256"
  by (auto simp: bytes4_def)

lemma bytes4_inj: "bytes4 a = bytes4 b \<Longrightarrow> a = b"
proof -
  assume "bytes4 a = bytes4 b"
  then have all: "\<forall>i\<in>{0..<4}. unat (drop_bit (8 * (3 - i)) a) mod 256 = unat (drop_bit (8 * (3 - i)) b) mod 256"
    unfolding bytes4_def map_eq_conv set_upt .
  have eq: "unat (drop_bit (8 * k) a) mod 256 = unat (drop_bit (8 * k) b) mod 256" if "k < 4" for k
  proof -
    from that have "3 - k \<in> {0..<4}" "3 - (3 - k) = k" by auto
    with all show ?thesis by metis
  qed
  have "bit a n = bit b n" if "n < 32" for n
  proof -
    have m: "(m :: nat) mod 256 = take_bit 8 m" for m by (simp add: take_bit_eq_mod)
    have n: "8 * (n div 8) + n mod 8 = n" "n mod 8 < 8" by simp_all
    have b: "bit (x :: 32 word) n \<longleftrightarrow> bit (unat (drop_bit (8 * (n div 8)) x) mod 256) (n mod 8)" for x
      using n unfolding m bit_take_bit_iff by (simp only: bit_unsigned_iff bit_drop_bit_eq o_apply simp_thms) (auto dest: bit_imp_le_length)
    from that have "n div 8 < 4" by simp
    from eq [OF this] show ?thesis unfolding b by simp
  qed
  then show "a = b" by (auto intro: bit_word_eqI)
qed

text \<open>Derived hardware addresses have six bytes, are unicast and locally administered (the first byte is
  2), and differ for different IPv4 addresses.\<close>

theorem HardwareAddrFromIP_spec:
  "HardwareAddrFromIP (Some a) ! 0 = 2 \<and> length (HardwareAddrFromIP (Some a)) = 6 \<and>
   (\<forall>b\<in>set (HardwareAddrFromIP (Some a)). b < 256) \<and>
   (HardwareAddrFromIP (Some (IP4 x)) = HardwareAddrFromIP (Some (IP4 y)) \<longleftrightarrow> x = y)"
  by (auto simp: HardwareAddrFromIP_def Let_def bytes4_bytes split: ip.split intro: bytes4_inj)

theorem HardwareAddrFromIP_spec_witness:
  "HardwareAddrFromIP (Some (IP4 0x0A000001)) \<noteq> HardwareAddrFromIP (Some (IP4 0x0A000002))"
  using HardwareAddrFromIP_spec [of "IP4 0" "0x0A000001" "0x0A000002"] by simp

end
