(* ===== verification/VxlanDriver.thy ===== *)
theory VxlanDriver
  imports CableDriver VxlanIface
begin

text \<open>
  \<open>pkg/cable/vxlan/vxlan.go\<close>: the VXLAN cable driver. Its state is the record \<open>vxLan\<close> with the state
  of the kernel beside it; its mutex makes every operation atomic. The interpretation at the end shows
  that it is a \<open>cable_driver\<close>.
\<close>

section \<open>State\<close>

record 'k vxLan =
  vx_localEndpoint :: EndpointSpec
  vx_localCluster :: SubmarinerCluster
  vx_connections :: "Connection list"
  vx_vxlanIfaces :: "IPFamily \<rightharpoonup> vxlanLink"
  vx_vtepIPs :: "IPFamily \<rightharpoonup> ip"
  vx_kernel :: 'k

definition VxlanIface :: string where "VxlanIface = ''vxlan-tunnel''"
definition VxlanVTepNetworkPrefixCIDR :: string where "VxlanVTepNetworkPrefixCIDR = ''241.0.0.0/8''"
definition VxlanVTepNetworkPrefixCIDRv6 :: string where "VxlanVTepNetworkPrefixCIDRv6 = ''fd00:100:200::/96''"
definition CableDriverName :: string where "CableDriverName = ''vxlan''"
definition TableID :: int where "TableID = 100"
definition DefaultPort :: int where "DefaultPort = 4500"

fun vtepPrefixCIDRByFamily :: "IPFamily \<Rightarrow> string" where
  "vtepPrefixCIDRByFamily IPv4 = VxlanVTepNetworkPrefixCIDR"
| "vtepPrefixCIDRByFamily IPv6 = VxlanVTepNetworkPrefixCIDRv6"
| "vtepPrefixCIDRByFamily IPFamilyUnknown = []"

definition GetVxlanInterfaceName :: "IPFamily \<Rightarrow> string" where
  "GetVxlanInterfaceName ipFamily = (if ipFamily = IPv6 then VxlanIface @ ''-6'' else VxlanIface)"

section \<open>Creation\<close>

text \<open>Run the second step when the first one succeeded, wrapping its error otherwise.\<close>

definition and_then ::
  "string \<Rightarrow> ('s \<times> err option) \<Rightarrow> ('s \<Rightarrow> 's \<times> err option) \<Rightarrow> 's \<times> err option" where
  "and_then msg r f = (case r of (s, Some e) \<Rightarrow> (s, Some (Wrapped msg e)) | (s, None) \<Rightarrow> f s)"

definition with_kernel :: "'k vxLan \<Rightarrow> ('k \<Rightarrow> 'k \<times> err option) \<Rightarrow> 'k vxLan \<times> err option" where
  "with_kernel v f = apfst (\<lambda>k. v\<lparr>vx_kernel := k\<rparr>) (f (vx_kernel v))"

definition createVxlanInterface ::
  "libs \<Rightarrow> 'k netLink \<Rightarrow> int \<Rightarrow> IPFamily \<Rightarrow> 'k vxLan \<Rightarrow> 'k vxLan \<times> err option" where
  "createVxlanInterface L N port family v =
     (let ipAddr = GetPrivateIP L family (vx_localEndpoint v);
          cidr = vtepPrefixCIDRByFamily family;
          name = GetVxlanInterfaceName family in
      case GetVtepIPAddressFrom ipAddr cidr family of
        Inl e \<Rightarrow> (v, Some (Wrapped ''failed to derive the vxlan vtepIP'' e))
      | Inr vtepIP \<Rightarrow>
          (let v1 = v\<lparr>vx_vtepIPs := (vx_vtepIPs v)(family \<mapsto> vtepIP)\<rparr> in
           case GetDefaultGatewayInterfaceMTU N family (vx_kernel v1) of
             Inl e \<Rightarrow> (v1, Some (Wrapped ''Unable to find the default interface on host'' e))
           | Inr mtu \<Rightarrow>
               (let attrs = \<lparr>va_Name = name, va_VxlanID = 1000, va_Group = None,
                      va_SrcAddr = (if family = IPv6 then ParseIP ipAddr else None), va_VtepPort = port,
                      va_Mtu = mtu, va_HardwareAddr = []\<rparr> in
                case createLinkDevice N attrs (vx_kernel v1) of
                  (k, Inl e) \<Rightarrow> (v1\<lparr>vx_kernel := k\<rparr>, Some (Wrapped ''failed to create vxlan interface'' e))
                | (k, Inr link) \<Rightarrow>
                    (let v2 = v1\<lparr>vx_kernel := k, vx_vxlanIfaces := (vx_vxlanIfaces v1)(family \<mapsto> link)\<rparr> in
                     and_then ''failed to setup link for vxlan interface''
                       (with_kernel v2 (SetupLink N (vl_Name link)))
                     (\<lambda>v3. and_then ''failed to add ip rule'' (with_kernel v3 (RuleAddIfNotPresent N TableID family))
                     (\<lambda>v4. and_then ''error while validating loose mode''
                       (with_kernel v4 (EnsureLooseModeIsConfigured N name family))
                     (\<lambda>v5. case ParseCIDR cidr of
                         None \<Rightarrow> (v5, Some (Wrapped ''invalid VTEP CIDR'' (Sentinel ''ParseError'')))
                       | Some ipNet \<Rightarrow>
                           and_then ''failed to configure vxlan interface ipaddress''
                             (with_kernel v5 (ConfigureIPAddress N (vl_Name link) vtepIP (n_ones ipNet)))
                           (\<lambda>v6. and_then ''error enabling forwarding''
                             (with_kernel v6 (EnableForwarding N name family))
                           (\<lambda>v7. (v7, None))))))))))"

fun createInterfaces ::
  "libs \<Rightarrow> 'k netLink \<Rightarrow> int \<Rightarrow> IPFamily list \<Rightarrow> 'k vxLan \<Rightarrow> 'k vxLan result" where
  "createInterfaces L N port [] v = Inr v"
| "createInterfaces L N port (f # fs) v =
     (case createVxlanInterface L N port f v of
        (_, Some e) \<Rightarrow> Inl (Wrapped ''failed to setup Vxlan link'' e)
      | (v', None) \<Rightarrow> createInterfaces L N port fs v')"

definition NewVxlanDriver ::
  "libs \<Rightarrow> 'k netLink \<Rightarrow> 'k \<Rightarrow> EndpointSpec \<Rightarrow> SubmarinerCluster \<Rightarrow> 'k vxLan result" where
  "NewVxlanDriver L N k localEndpoint localCluster =
     (case GetBackendPort localEndpoint UDPPortConfig DefaultPort of
        (_, Some e) \<Rightarrow> Inl (Wrapped ''failed to get the UDP port configuration'' e)
      | (port, None) \<Rightarrow>
          createInterfaces L N port (GetIPFamilies L localEndpoint)
            \<lparr>vx_localEndpoint = localEndpoint, vx_localCluster = localCluster, vx_connections = [],
             vx_vxlanIfaces = Map.empty, vx_vtepIPs = Map.empty, vx_kernel = k\<rparr>)"

section \<open>Connections\<close>

definition ConnectToEndpoint ::
  "libs \<Rightarrow> 'k netLink \<Rightarrow> NATEndpointInfo \<Rightarrow> 'k vxLan \<Rightarrow> 'k vxLan \<times> string \<times> err option" where
  "ConnectToEndpoint L N endpointInfo v =
     (let spec = ep_Spec (ni_Endpoint endpointInfo); family = ni_UseFamily endpointInfo;
          useIP = ni_UseIP endpointInfo in
      if ClusterID (vx_localEndpoint v) = ClusterID spec then (v, [], None)
      else (case ParseIP useIP of
          None \<Rightarrow> (v, [], Some (Err ''failed to parse remote IP''))
        | Some remoteIP \<Rightarrow>
            (case ParseSubnets L family spec of
               None \<Rightarrow> (v, [], Some go_panic)
             | Some allowedIPs \<Rightarrow>
                 (case vx_vxlanIfaces v family of
                    None \<Rightarrow> (v, [], Some (Err ''no VXLAN interface configured''))
                  | Some link \<Rightarrow>
                      (case GetVtepIPAddressFrom (GetPrivateIP L family spec)
                              (vtepPrefixCIDRByFamily family) family of
                         Inl e \<Rightarrow> (v, useIP, Some (Wrapped ''failed to derive the vxlan vtepIP'' e))
                       | Inr remoteVtepIP \<Rightarrow>
                           (case AddFDB N (vl_Name link) (Some remoteIP) (vx_kernel v) of
                              (k, Some e) \<Rightarrow> (v\<lparr>vx_kernel := k\<rparr>, useIP,
                                Some (Wrapped ''failed to add remoteIP to the forwarding database'' e))
                            | (k, None) \<Rightarrow>
                                (let cidrs = cs_ClusterCIDR (sc_Spec (vx_localCluster v));
                                     cni = CniDiscover N cidrs family k in
                                 if (case cni of Inl _ \<Rightarrow> cidrs = [] | Inr _ \<Rightarrow> False)
                                 then (v\<lparr>vx_kernel := k\<rparr>, [], Some go_panic)
                                 else (let ipAddress = (case cni of Inr a \<Rightarrow> ParseIP a | Inl _ \<Rightarrow> None) in
                                   case AddRoutes N (vl_Name link) (Some remoteVtepIP) ipAddress TableID allowedIPs k of
                                     (k', Some e) \<Rightarrow> (v\<lparr>vx_kernel := k'\<rparr>, useIP, Some (Wrapped ''failed to add route'' e))
                                   | (k', None) \<Rightarrow>
                                       (v\<lparr>vx_kernel := k', vx_connections := vx_connections v @
                                          [\<lparr>Status = Connected, StatusMessage = [], conn_Endpoint = spec,
                                            UsingIP = useIP, UsingNAT = ni_UseNAT endpointInfo,
                                            LatencyRTT = None\<rparr>]\<rparr>, useIP, None)))))))))"

fun removeConnectionForEndpoint ::
  "libs \<Rightarrow> Connection list \<Rightarrow> EndpointSpec \<Rightarrow> IPFamily \<Rightarrow> Connection list" where
  "removeConnectionForEndpoint L [] spec family = []"
| "removeConnectionForEndpoint L (c # cs) spec family =
     (if CableName (conn_Endpoint c) = CableName spec \<and> GetFamily L c = family then cs
      else c # removeConnectionForEndpoint L cs spec family)"

text \<open>The loop over the connections keeps the address of the last one that matches.\<close>

definition connection_ip :: "libs \<Rightarrow> Connection list \<Rightarrow> EndpointSpec \<Rightarrow> IPFamily \<Rightarrow> string" where
  "connection_ip L cs spec family = foldl (\<lambda>ip c.
     if CableName (conn_Endpoint c) = CableName spec \<and> GetFamily L c = family then UsingIP c else ip) [] cs"

definition DisconnectFromEndpoint ::
  "libs \<Rightarrow> 'k netLink \<Rightarrow> EndpointSpec \<Rightarrow> IPFamily \<Rightarrow> 'k vxLan \<Rightarrow> 'k vxLan \<times> err option" where
  "DisconnectFromEndpoint L N spec family v =
     (if ClusterID (vx_localEndpoint v) = ClusterID spec then (v, None)
      else (case vx_vxlanIfaces v family of
          None \<Rightarrow> (v, Some (Err ''no VXLAN interface configured''))
        | Some link \<Rightarrow>
            (let ip = connection_ip L (vx_connections v) spec family in
             if ip = [] then (v, None)
             else (case ParseIP ip of
                 None \<Rightarrow> (v, Some (Err ''failed to parse remote IP''))
               | Some remoteIP \<Rightarrow>
                   (case ParseSubnets L family spec of
                      None \<Rightarrow> (v, Some go_panic)
                    | Some allowedIPs \<Rightarrow>
                        (case DelFDB N (vl_Name link) (Some remoteIP) (vx_kernel v) of
                           (k, Some e) \<Rightarrow> (v\<lparr>vx_kernel := k\<rparr>,
                             Some (Wrapped ''failed to delete remoteIP from the forwarding database'' e))
                         | (k, None) \<Rightarrow>
                             (case DelRoutes N (vl_Name link) TableID allowedIPs k of
                                (k', Some e) \<Rightarrow> (v\<lparr>vx_kernel := k'\<rparr>, Some (Wrapped ''failed to remove route'' e))
                              | (k', None) \<Rightarrow>
                                  (v\<lparr>vx_kernel := k', vx_connections :=
                                     removeConnectionForEndpoint L (vx_connections v) spec family\<rparr>, None))))))))"

fun cleanup_families :: "'k netLink \<Rightarrow> IPFamily list \<Rightarrow> 'k \<Rightarrow> 'k" where
  "cleanup_families N [] k = k"
| "cleanup_families N (f # fs) k =
     cleanup_families N fs (fst (RuleDelIfPresent N TableID f
       (fst (DeleteIfaceAndAssociatedRoutes N (GetVxlanInterfaceName f) TableID f k))))"

definition Cleanup :: "libs \<Rightarrow> 'k netLink \<Rightarrow> 'k vxLan \<Rightarrow> 'k vxLan \<times> err option" where
  "Cleanup L N v =
     (let fs = GetIPFamilies L (vx_localEndpoint v) in
      (v\<lparr>vx_kernel := cleanup_families N (if fs = [] then [IPv4] else fs) (vx_kernel v)\<rparr>, None))"

definition vxlanDriver :: "libs \<Rightarrow> 'k netLink \<Rightarrow> 'k vxLan Driver" where
  "vxlanDriver L N = \<lparr>drv_Name = CableDriverName, drv_Init = (\<lambda>v. (v, None)),
     drv_GetActiveConnections = (\<lambda>v. Inr (vx_connections v)),
     drv_GetConnections = (\<lambda>v. (v, Inr (vx_connections v))),
     drv_ConnectToEndpoint = ConnectToEndpoint L N,
     drv_DisconnectFromEndpoint = DisconnectFromEndpoint L N, drv_Cleanup = Cleanup L N\<rparr>"

section \<open>The driver is a cable driver\<close>

definition vx_inv :: "libs \<Rightarrow> string \<Rightarrow> 'k vxLan \<Rightarrow> bool" where
  "vx_inv L localID v \<longleftrightarrow> libs_ok L \<and> ClusterID (vx_localEndpoint v) = localID \<and>
     distinct (map (conn_key L) (vx_connections v)) \<and>
     (\<forall>c\<in>set (vx_connections v). UsingIP c \<noteq> [])"

lemma removeConnection_filter:
  "distinct (map (conn_key L) cs) \<Longrightarrow>
   removeConnectionForEndpoint L cs spec family = filter (\<lambda>c. conn_key L c \<noteq> (CableName spec, family)) cs"
proof (induction cs)
  case (Cons c cs)
  then show ?case
    by (auto simp: conn_key_def image_iff intro!: filter_True [symmetric])
qed simp

lemma connection_ip_empty:
  assumes "connection_ip L cs spec family = []" and "\<forall>c\<in>set cs. UsingIP c \<noteq> []"
  shows "\<forall>c\<in>set cs. conn_key L c \<noteq> (CableName spec, family)"
  using assms
proof (induction cs rule: rev_induct)
  case (snoc c cs)
  then show ?case by (auto simp: connection_ip_def conn_key_def split: if_splits)
qed simp

lemma ConnectToEndpoint_cases:
  assumes "ConnectToEndpoint L N info v = (v', ip, e)"
  shows "vx_localEndpoint v' = vx_localEndpoint v \<and>
    (if e = None \<and> ClusterID (ep_Spec (ni_Endpoint info)) \<noteq> ClusterID (vx_localEndpoint v)
     then ParseIP (ni_UseIP info) \<noteq> None \<and> (\<exists>c. conn_of info c \<and> vx_connections v' = vx_connections v @ [c])
     else vx_connections v' = vx_connections v)"
  using assms
  by (auto simp: ConnectToEndpoint_def Let_def conn_of_def
      split: if_split_asm option.split_asm sum.split_asm prod.split_asm)

lemma DisconnectFromEndpoint_cases:
  assumes "DisconnectFromEndpoint L N spec family v = (v', e)"
  shows "vx_localEndpoint v' = vx_localEndpoint v \<and>
    (vx_connections v' = vx_connections v \<and>
       (e = None \<longrightarrow> ClusterID spec \<noteq> ClusterID (vx_localEndpoint v) \<longrightarrow>
          connection_ip L (vx_connections v) spec family = []) \<or>
     e = None \<and> vx_connections v' = removeConnectionForEndpoint L (vx_connections v) spec family)"
  using assms
  by (auto simp: DisconnectFromEndpoint_def Let_def
      split: if_split_asm option.split_asm sum.split_asm prod.split_asm)

lemma conn_of_key: "conn_of info c \<Longrightarrow> conn_key L c = (CableName (ep_Spec (ni_Endpoint info)), IPFamilyOfString L (ni_UseIP info))"
  by (simp add: conn_of_def conn_key_def GetFamily_def)

lemma parsed_family: "libs_ok L \<Longrightarrow> ParseIP s \<noteq> None \<Longrightarrow> s \<noteq> [] \<and> IPFamilyOfString L s \<noteq> IPFamilyUnknown"
  by (auto simp: libs_ok_def family_of_def split: ip.splits)

lemma vx_connect_inv:
  assumes "vx_inv L localID v" "ConnectToEndpoint L N info v = (v', ip, None)"
    "ClusterID (ep_Spec (ni_Endpoint info)) \<noteq> localID"
    "(CableName (ep_Spec (ni_Endpoint info)), IPFamilyOfString L (ni_UseIP info)) \<notin> conn_key L ` set (vx_connections v)"
  shows "vx_inv L localID v' \<and> (\<exists>c. conn_of info c \<and> vx_connections v' = vx_connections v @ [c])"
proof -
  from ConnectToEndpoint_cases [OF assms(2)] assms(1,3) obtain c where
    c: "conn_of info c" "vx_connections v' = vx_connections v @ [c]"
    and "ParseIP (ni_UseIP info) \<noteq> None" "vx_localEndpoint v' = vx_localEndpoint v"
    by (auto simp: vx_inv_def)
  moreover have "UsingIP c \<noteq> []"
    using c(1) \<open>ParseIP (ni_UseIP info) \<noteq> None\<close> by (auto simp: conn_of_def)
  ultimately show ?thesis
    using assms(1,4) conn_of_key [OF c(1), of L] by (auto simp: vx_inv_def)
qed

lemma vx_disconnect_inv:
  assumes "vx_inv L localID v" "DisconnectFromEndpoint L N spec family v = (v', None)" "ClusterID spec \<noteq> localID"
  shows "vx_inv L localID v' \<and>
    vx_connections v' = filter (\<lambda>c. conn_key L c \<noteq> (CableName spec, family)) (vx_connections v)"
proof -
  have inv: "distinct (map (conn_key L) (vx_connections v))" "\<forall>c\<in>set (vx_connections v). UsingIP c \<noteq> []"
    "ClusterID (vx_localEndpoint v) = localID"
    using assms(1) by (auto simp: vx_inv_def)
  have "vx_connections v' = filter (\<lambda>c. conn_key L c \<noteq> (CableName spec, family)) (vx_connections v)"
    using DisconnectFromEndpoint_cases [OF assms(2)]
  proof (elim conjE disjE)
    assume same: "vx_connections v' = vx_connections v"
      and "None = None \<longrightarrow> ClusterID spec \<noteq> ClusterID (vx_localEndpoint v) \<longrightarrow>
          connection_ip L (vx_connections v) spec family = []"
    with connection_ip_empty [of L "vx_connections v" spec family] inv assms(3)
    have "\<forall>c\<in>set (vx_connections v). conn_key L c \<noteq> (CableName spec, family)" by simp
    with same show ?thesis by simp
  next
    assume "vx_connections v' = removeConnectionForEndpoint L (vx_connections v) spec family"
    with removeConnection_filter [OF inv(1)] show ?thesis by simp
  qed
  then show ?thesis
    using assms(1) DisconnectFromEndpoint_cases [OF assms(2)]
    by (auto simp: vx_inv_def distinct_map_filter)
qed

interpretation vxlan: cable_driver L "vxlanDriver L N" "vx_inv L localID" localID for L N localID
proof unfold_locales
  fix v v' :: "'a vxLan" and cs info ip
  assume v: "vx_inv L localID v" and cs: "drv_GetActiveConnections (vxlanDriver L N) v = Inr cs"
  {
    assume "drv_ConnectToEndpoint (vxlanDriver L N) info v = (v', ip, None)"
      "ClusterID (ep_Spec (ni_Endpoint info)) \<noteq> localID"
      "(CableName (ep_Spec (ni_Endpoint info)), IPFamilyOfString L (ni_UseIP info)) \<notin> conn_key L ` set cs"
    with vx_connect_inv [OF v, of N info v' ip] cs
    show "vx_inv L localID v' \<and> (\<exists>c cs'. drv_GetActiveConnections (vxlanDriver L N) v' = Inr cs' \<and>
        conn_of info c \<and> set cs' = insert c (set cs))"
      by (auto simp: vxlanDriver_def)
  }
  {
    fix e
    assume "drv_ConnectToEndpoint (vxlanDriver L N) info v = (v', ip, Some e)"
    then have "ConnectToEndpoint L N info v = (v', ip, Some e)" by (simp add: vxlanDriver_def)
    from ConnectToEndpoint_cases [OF this] v cs
    show "vx_inv L localID v' \<and> (\<exists>cs'. drv_GetActiveConnections (vxlanDriver L N) v' = Inr cs' \<and> set cs' = set cs)"
      by (auto simp: vxlanDriver_def vx_inv_def)
  }
next
  fix v v' :: "'a vxLan" and info ip
  assume v: "vx_inv L localID v" and "drv_ConnectToEndpoint (vxlanDriver L N) info v = (v', ip, None)"
    and remote: "ClusterID (ep_Spec (ni_Endpoint info)) \<noteq> localID"
  then have "ConnectToEndpoint L N info v = (v', ip, None)" by (simp add: vxlanDriver_def)
  from ConnectToEndpoint_cases [OF this] v remote have "ParseIP (ni_UseIP info) \<noteq> None"
    by (auto simp: vx_inv_def)
  with parsed_family [of L "ni_UseIP info"] v
  show "ni_UseIP info \<noteq> [] \<and> IPFamilyOfString L (ni_UseIP info) \<noteq> IPFamilyUnknown"
    by (auto simp: vx_inv_def)
next
  fix v v' :: "'a vxLan" and cs spec family
  assume v: "vx_inv L localID v" and cs: "drv_GetActiveConnections (vxlanDriver L N) v = Inr cs"
  {
    assume "drv_DisconnectFromEndpoint (vxlanDriver L N) spec family v = (v', None)"
      "ClusterID spec \<noteq> localID"
    with vx_disconnect_inv [OF v, of N spec family v'] cs
    show "vx_inv L localID v' \<and> (\<exists>cs'. drv_GetActiveConnections (vxlanDriver L N) v' = Inr cs' \<and>
        set cs' = {c \<in> set cs. conn_key L c \<noteq> (CableName spec, family)})"
      by (auto simp: vxlanDriver_def)
  }
  {
    fix e
    assume "drv_DisconnectFromEndpoint (vxlanDriver L N) spec family v = (v', Some e)"
    then have "DisconnectFromEndpoint L N spec family v = (v', Some e)" by (simp add: vxlanDriver_def)
    from DisconnectFromEndpoint_cases [OF this] v cs
    show "vx_inv L localID v' \<and> (\<exists>cs'. drv_GetActiveConnections (vxlanDriver L N) v' = Inr cs' \<and> set cs' = set cs)"
      by (auto simp: vxlanDriver_def vx_inv_def)
  }
next
  fix v v' :: "'a vxLan" and cs r
  assume "vx_inv L localID v" "drv_GetActiveConnections (vxlanDriver L N) v = Inr cs"
    "drv_GetConnections (vxlanDriver L N) v = (v', r)"
  then show "vx_inv L localID v' \<and> (\<exists>f cs'. drv_GetActiveConnections (vxlanDriver L N) v' = Inr cs' \<and>
      set cs' = f ` set cs \<and> (\<forall>c. f c = c\<lparr>Status := Status (f c)\<rparr>))"
    by (intro conjI exI [of _ "\<lambda>c. c"] exI [of _ cs]) (auto simp: vxlanDriver_def)
qed (simp add: vxlanDriver_def)

lemma createVxlanInterface_frame:
  "createVxlanInterface L N port f v = (v', e) \<Longrightarrow>
   vx_connections v' = vx_connections v \<and> vx_localEndpoint v' = vx_localEndpoint v"
  by (auto simp: createVxlanInterface_def and_then_def with_kernel_def Let_def apfst_def map_prod_def
      split: sum.split_asm prod.split_asm option.split_asm)

lemma createInterfaces_frame:
  "createInterfaces L N port fs v = Inr v' \<Longrightarrow>
   vx_connections v' = vx_connections v \<and> vx_localEndpoint v' = vx_localEndpoint v"
  by (induction fs arbitrary: v)
    (auto dest!: createVxlanInterface_frame split: prod.split_asm option.split_asm)

text \<open>The registry with the VXLAN driver, as its \<open>init\<close> function leaves it.\<close>

definition vxlan_drivers :: "libs \<Rightarrow> 'k netLink \<Rightarrow> 'k \<Rightarrow> 'k vxLan drivers" where
  "vxlan_drivers L N k = [CableDriverName \<mapsto> NewVxlanDriver L N k]"

lemma vxlan_init_registers: "AddDriver CableDriverName (NewVxlanDriver L N k) Map.empty = Some (vxlan_drivers L N k)"
  by (simp add: AddDriver_def vxlan_drivers_def)

interpretation vxlan: engine_driver L "vxlanDriver L N" "vx_inv L localID" localID "vxlan_drivers L N k"
  for L N localID k
proof unfold_locales
  fix spec cluster d
  assume "NewDriver (vxlan_drivers L N k) spec cluster = Inr d" and "libs_ok L" "ClusterID spec = localID"
  then show "vx_inv L localID d \<and> drv_GetActiveConnections (vxlanDriver L N) d = Inr []"
    by (auto simp: NewDriver_def vxlan_drivers_def NewVxlanDriver_def vx_inv_def vxlanDriver_def
        dest!: createInterfaces_frame split: option.split_asm if_split_asm prod.split_asm)
qed (auto simp: vxlanDriver_def)

text \<open>A kernel that accepts everything, for witnesses.\<close>

definition ref_netLink :: "unit netLink" where
  "ref_netLink = \<lparr>LinkAdd = (\<lambda>_ k. (k, None)), LinkDel = (\<lambda>_ k. (k, None)),
     LinkByName = (\<lambda>n k. Inr (OtherDev n)), LinkSetUp = (\<lambda>_ k. (k, None)), AddrAdd = (\<lambda>_ _ k. (k, None)),
     NeighAppend = (\<lambda>_ k. (k, None)), NeighDel = (\<lambda>_ k. (k, None)), RouteAddOrReplace = (\<lambda>_ k. (k, None)),
     RouteDel = (\<lambda>_ k. (k, None)), RuleAddIfNotPresent = (\<lambda>_ _ k. (k, None)),
     RuleDelIfPresent = (\<lambda>_ _ k. (k, None)), GetDefaultGatewayInterfaceMTU = (\<lambda>_ _. Inr 1500),
     EnsureLooseModeIsConfigured = (\<lambda>_ _ k. (k, None)), EnableForwarding = (\<lambda>_ _ k. (k, None)),
     DeleteIfaceAndAssociatedRoutes = (\<lambda>_ _ _ k. (k, None)), CniDiscover = (\<lambda>_ _ _. Inr ''10.1.0.1'')\<rparr>"

end
