(* ===== verification/CableEngine.thy ===== *)
theory CableEngine
  imports NatDiscoveryProps VxlanDriver
begin

text \<open>
  \<open>pkg/cableengine/cableengine.go\<close>: the engine that asks NAT discovery how to reach a remote endpoint
  and has a cable driver connect to it. The driver is any \<open>Driver\<close> record; NAT discovery is the model of
  \<open>pkg/natdiscovery\<close>. The mutex makes every operation atomic; the goroutine that reads the ready channel
  is the step \<open>consume\<close> of \<open>engine_step\<close>.

  \<open>GetActiveConnections\<close> may return a slice that shares its array with the driver's own: the loop of
  \<open>installCableWithNATInfo\<close> is modelled on the list as returned. The two agree when at most one connection
  belongs to the endpoint's cluster and family, which \<open>engine_run_inv\<close> shows of every run.
\<close>

section \<open>State and operations\<close>

record 'd engine =
  en_driver :: "'d option"
  en_running :: bool
  en_localCluster :: SubmarinerCluster
  en_localSpec :: EndpointSpec
  en_nat :: "natDiscovery option"
  en_pending :: "string \<rightharpoonup> int"
  en_installed :: "string \<rightharpoonup> timestamp"

definition NewEngine :: "SubmarinerCluster \<Rightarrow> EndpointSpec \<Rightarrow> 'd engine" where
  "NewEngine localCluster localEndpoint = \<lparr>en_driver = None, en_running = False,
     en_localCluster = localCluster, en_localSpec = localEndpoint, en_nat = None,
     en_pending = Map.empty, en_installed = Map.empty\<rparr>"

definition GetLocalEndpoint :: "'d engine \<Rightarrow> EndpointSpec" where
  "GetLocalEndpoint e = en_localSpec e"

definition startDriver :: "'d Driver \<Rightarrow> 'd drivers \<Rightarrow> 'd engine \<Rightarrow> 'd engine \<times> err option" where
  "startDriver D ds e =
     (if en_driver e \<noteq> None then (e, None)
      else (case NewDriver ds (en_localSpec e) (en_localCluster e) of
          Inl err \<Rightarrow> (e, Some (Wrapped ''error creating the cable driver'' err))
        | Inr d \<Rightarrow>
            (case drv_Init D d of
               (d', r) \<Rightarrow> (e\<lparr>en_driver := Some d'\<rparr>, wrap ''error initializing the cable driver'' r))))"

definition StartEngine :: "'d Driver \<Rightarrow> 'd drivers \<Rightarrow> 'd engine \<Rightarrow> 'd engine \<times> err option" where
  "StartEngine D ds e =
     (case startDriver D ds e of
        (e', Some err) \<Rightarrow> (e', Some err)
      | (e', None) \<Rightarrow> (e'\<lparr>en_running := True\<rparr>, None))"

definition Stop :: "'d engine \<Rightarrow> 'd engine" where
  "Stop e = e\<lparr>en_running := False\<rparr>"

definition SetupNATDiscovery :: "natDiscovery \<Rightarrow> 'd engine \<Rightarrow> 'd engine" where
  "SetupNATDiscovery nd e = e\<lparr>en_nat := Some nd\<rparr>"

definition shouldProceedWithInstallation :: "string \<Rightarrow> 'd engine \<Rightarrow> 'd engine \<times> bool" where
  "shouldProceedWithInstallation familyCableName e =
     (case en_pending e familyCableName of
        None \<Rightarrow> (e, False)
      | Some n \<Rightarrow>
          (e\<lparr>en_pending := (if n - 1 = 0 then (en_pending e)(familyCableName := None)
                          else (en_pending e)(familyCableName \<mapsto> n - 1))\<rparr>, True))"

text \<open>The loop over the active connections: go on to connect, or return from the function.\<close>

datatype loopOutcome = Proceed | Return "err option"

definition installed_at :: "(string \<rightharpoonup> timestamp) \<Rightarrow> string \<Rightarrow> timestamp" where
  "installed_at inst k = (case inst k of None \<Rightarrow> 0 | Some t \<Rightarrow> t)"

definition same_connection :: "NATEndpointInfo \<Rightarrow> Connection \<Rightarrow> bool" where
  "same_connection rnat active \<longleftrightarrow> UsingIP active = ni_UseIP rnat \<and> UsingNAT active = ni_UseNAT rnat \<and>
     BackendConfig (conn_Endpoint active) = BackendConfig (ep_Spec (ni_Endpoint rnat))"

fun disconnect_existing ::
  "libs \<Rightarrow> 'd Driver \<Rightarrow> (string \<rightharpoonup> timestamp) \<Rightarrow> NATEndpointInfo \<Rightarrow> Connection list \<Rightarrow> 'd \<Rightarrow>
   'd \<times> loopOutcome" where
  "disconnect_existing L D inst rnat [] d = (d, Proceed)"
| "disconnect_existing L D inst rnat (active # rest) d =
     (let endpoint = ni_Endpoint rnat;
          familyCableName = GetFamilyCableName (ep_Spec endpoint) (ni_UseFamily rnat);
          activeFamily = GetFamily L active;
          activeFamilyCableName = GetFamilyCableName (conn_Endpoint active) activeFamily;
          prevTimestamp = installed_at inst activeFamilyCableName in
      if ClusterID (conn_Endpoint active) \<noteq> ClusterID (ep_Spec endpoint) \<or> activeFamily \<noteq> ni_UseFamily rnat
      then disconnect_existing L D inst rnat rest d
      else if ep_CreationTimestamp endpoint < prevTimestamp then (d, Return None)
      else if ep_CreationTimestamp endpoint = prevTimestamp \<and> activeFamilyCableName = familyCableName \<and>
              same_connection rnat active
      then (d, Return None)
      else (case drv_DisconnectFromEndpoint D (conn_Endpoint active) (ni_UseFamily rnat) d of
              (d', Some e) \<Rightarrow> (d', Return (Some (Wrapped ''error disconnecting previous Endpoint cable'' e)))
            | (d', None) \<Rightarrow> disconnect_existing L D inst rnat rest d'))"

definition installCableWithNATInfo ::
  "libs \<Rightarrow> 'd Driver \<Rightarrow> NATEndpointInfo \<Rightarrow> 'd engine \<Rightarrow> 'd engine \<times> err option" where
  "installCableWithNATInfo L D rnat e =
     (let endpoint = ni_Endpoint rnat;
          familyCableName = GetFamilyCableName (ep_Spec endpoint) (ni_UseFamily rnat);
          (e1, proceed) = shouldProceedWithInstallation familyCableName e in
      if \<not> proceed then (e1, None)
      else if \<not> en_running e1 then (e1, None)
      else (case en_driver e1 of
          None \<Rightarrow> (e1, Some go_panic)
        | Some d \<Rightarrow>
            (case drv_GetActiveConnections D d of
               Inl err \<Rightarrow> (e1, Some (Wrapped ''error getting the active connections'' err))
             | Inr activeConnections \<Rightarrow>
                 (case disconnect_existing L D (en_installed e1) rnat activeConnections d of
                    (d1, Return r) \<Rightarrow> (e1\<lparr>en_driver := Some d1\<rparr>, r)
                  | (d1, Proceed) \<Rightarrow>
                      (case drv_ConnectToEndpoint D rnat d1 of
                         (d2, _, Some err) \<Rightarrow>
                           (e1\<lparr>en_driver := Some d2\<rparr>, Some (Wrapped ''error installing Endpoint cable'' err))
                       | (d2, _, None) \<Rightarrow>
                           (e1\<lparr>en_driver := Some d2, en_installed :=
                              (en_installed e1)(familyCableName \<mapsto> ep_CreationTimestamp endpoint)\<rparr>, None))))))"

definition InstallCable ::
  "libs \<Rightarrow> natTimeouts \<Rightarrow> int \<Rightarrow> Endpoint \<Rightarrow> IPFamily \<Rightarrow> 'd engine \<Rightarrow> 'd engine \<times> err option" where
  "InstallCable L T now endpoint family e =
     (if ClusterID (ep_Spec endpoint) = sc_ID (en_localCluster e) then (e, None)
      else if ep_Spec endpoint = en_localSpec e then (e, None)
      else
        (let k = GetFamilyCableName (ep_Spec endpoint) family;
             n = (case en_pending e k of None \<Rightarrow> 0 | Some n \<Rightarrow> n);
             e1 = e\<lparr>en_pending := (en_pending e)(k \<mapsto> n + 1)\<rparr> in
         case en_nat e1 of
           None \<Rightarrow> (e1, Some go_panic)
         | Some nd \<Rightarrow> (e1\<lparr>en_nat := Some (AddEndpoint L T now endpoint family nd)\<rparr>, None)))"

definition RemoveCable ::
  "'d Driver \<Rightarrow> Endpoint \<Rightarrow> IPFamily \<Rightarrow> 'd engine \<Rightarrow> 'd engine \<times> err option" where
  "RemoveCable D endpoint family e =
     (if ClusterID (ep_Spec endpoint) = sc_ID (en_localCluster e) then (e, None)
      else
        (let k = GetFamilyCableName (ep_Spec endpoint) family in
         case en_nat e of
           None \<Rightarrow> (e, Some go_panic)
         | Some nd \<Rightarrow>
             (let e1 = e\<lparr>en_nat := Some (RemoveEndpoint k nd), en_pending := (en_pending e)(k := None)\<rparr> in
              if en_installed e1 k = None then (e1, None)
              else (case en_driver e1 of
                  None \<Rightarrow> (e1, Some go_panic)
                | Some d \<Rightarrow>
                    (case drv_DisconnectFromEndpoint D (ep_Spec endpoint) family d of
                       (d', Some err) \<Rightarrow>
                         (e1\<lparr>en_driver := Some d'\<rparr>, Some (Wrapped ''error disconnecting Endpoint cable'' err))
                     | (d', None) \<Rightarrow>
                         (e1\<lparr>en_driver := Some d', en_installed := (en_installed e1)(k := None)\<rparr>, None))))))"

definition GetHAStatus :: "'d engine \<Rightarrow> HAStatus" where
  "GetHAStatus e = (if \<not> en_running e then HAStatusPassive else HAStatusActive)"

definition ListCableConnections :: "'d Driver \<Rightarrow> 'd engine \<Rightarrow> 'd engine \<times> Connection list result" where
  "ListCableConnections D e =
     (if en_running e then (case en_driver e of
          None \<Rightarrow> (e, Inl go_panic)
        | Some d \<Rightarrow> (case drv_GetConnections D d of (d', r) \<Rightarrow> (e\<lparr>en_driver := Some d'\<rparr>, r)))
      else (e, Inr []))"

definition engine_Cleanup :: "'d Driver \<Rightarrow> 'd engine \<Rightarrow> 'd engine \<times> err option" where
  "engine_Cleanup D e = (case en_driver e of
      None \<Rightarrow> (e, None)
    | Some d \<Rightarrow> (case drv_Cleanup D d of (d', r) \<Rightarrow> (e\<lparr>en_driver := Some d'\<rparr>, r)))"

end
