(* ===== verification/CableEngineProps.thy ===== *)
theory CableEngineProps
  imports CableEngine
begin

text \<open>
  Properties of the cable engine. What holds for every driver is proved directly or in the locale
  \<open>engine_driver\<close>; the theorems are stated for the VXLAN driver, through its interpretation.

  \<open>owner\<close> maps a cable name to the cluster it belongs to: cable names are made from the cluster ID, so two
  clusters never share one. \<open>ep_named\<close> says this of an endpoint, and that the IPv4 addresses of an older endpoint without address
  lists are absent or IPv4 addresses. The endpoints of a run are of any cluster, the local one included: that no cable is installed to
  it is due to the engine. \<open>ep_ok\<close> is what the engine lets through.
\<close>

section \<open>Runs\<close>

definition ep_named :: "libs \<Rightarrow> (string \<Rightarrow> string) \<Rightarrow> Endpoint \<Rightarrow> IPFamily \<Rightarrow> bool" where
  "ep_named L owner ep f \<longleftrightarrow> f \<noteq> IPFamilyUnknown \<and> owner (CableName (ep_Spec ep)) = ClusterID (ep_Spec ep) \<and>
     (PublicIP (ep_Spec ep) = [] \<or> IPFamilyOfString L (PublicIP (ep_Spec ep)) = IPv4) \<and>
     (PrivateIP (ep_Spec ep) = [] \<or> IPFamilyOfString L (PrivateIP (ep_Spec ep)) = IPv4)"

definition ep_ok :: "libs \<Rightarrow> (string \<Rightarrow> string) \<Rightarrow> string \<Rightarrow> Endpoint \<Rightarrow> IPFamily \<Rightarrow> bool" where
  "ep_ok L owner localID ep f \<longleftrightarrow> ClusterID (ep_Spec ep) \<noteq> localID \<and> ep_named L owner ep f"

inductive engine_step ::
  "libs \<Rightarrow> natTimeouts \<Rightarrow> 'd Driver \<Rightarrow> 'd drivers \<Rightarrow> (string \<Rightarrow> string) \<Rightarrow> string \<Rightarrow>
   'd engine \<Rightarrow> 'd engine \<Rightarrow> bool"
  for L T D ds owner localID where
  start: "engine_step L T D ds owner localID e (fst (StartEngine D ds e))"
| stop: "engine_step L T D ds owner localID e (Stop e)"
| attach: "NewWithConfig spec rand = Inr nd \<Longrightarrow> engine_step L T D ds owner localID e (SetupNATDiscovery nd e)"
| install: "ep_named L owner ep f \<Longrightarrow>
    engine_step L T D ds owner localID e (fst (InstallCable L T now ep f e))"
| remove: "ep_named L owner ep f \<Longrightarrow>
    engine_step L T D ds owner localID e (fst (RemoveCable D ep f e))"
| check: "en_nat e = Some nd \<Longrightarrow>
    engine_step L T D ds owner localID e (e\<lparr>en_nat := Some (checkEndpointList L T V now order nd)\<rparr>)"
| receive: "en_nat e = Some nd \<Longrightarrow> engine_step L T D ds owner localID e
    (e\<lparr>en_nat := Some (fst (parseAndHandleMessageFromAddress L T V now buf addr nd))\<rparr>)"
| consume: "en_nat e = Some nd \<Longrightarrow> nd_ready nd = info # rest \<Longrightarrow>
    engine_step L T D ds owner localID e
      (fst (installCableWithNATInfo L D info (e\<lparr>en_nat := Some (nd\<lparr>nd_ready := rest\<rparr>)\<rparr>)))"
| list_connections: "engine_step L T D ds owner localID e (fst (ListCableConnections D e))"

inductive engine_reachable ::
  "libs \<Rightarrow> natTimeouts \<Rightarrow> 'd Driver \<Rightarrow> 'd drivers \<Rightarrow> (string \<Rightarrow> string) \<Rightarrow> string \<Rightarrow> 'd engine \<Rightarrow> bool"
  for L T D ds owner localID where
  new: "sc_ID cluster = localID \<Longrightarrow> ClusterID spec = localID \<Longrightarrow>
    engine_reachable L T D ds owner localID (NewEngine cluster spec)"
| step: "engine_reachable L T D ds owner localID e \<Longrightarrow> engine_step L T D ds owner localID e e' \<Longrightarrow>
    engine_reachable L T D ds owner localID e'"

section \<open>The invariant\<close>

definition cluster_family :: "libs \<Rightarrow> Connection \<Rightarrow> string \<times> IPFamily" where
  "cluster_family L c = (ClusterID (conn_Endpoint c), GetFamily L c)"

definition conns_ok :: "libs \<Rightarrow> (string \<Rightarrow> string) \<Rightarrow> string \<Rightarrow> Connection set \<Rightarrow> bool" where
  "conns_ok L owner localID A \<longleftrightarrow> inj_on (cluster_family L) A \<and>
     (\<forall>c\<in>A. ClusterID (conn_Endpoint c) \<noteq> localID \<and>
        owner (CableName (conn_Endpoint c)) = ClusterID (conn_Endpoint c) \<and> GetFamily L c \<noteq> IPFamilyUnknown)"

definition engine_inv ::
  "libs \<Rightarrow> (string \<Rightarrow> string) \<Rightarrow> string \<Rightarrow> ('d \<Rightarrow> bool) \<Rightarrow> ('d \<Rightarrow> Connection set) \<Rightarrow> 'd engine \<Rightarrow> bool" where
  "engine_inv L owner localID dinv act e \<longleftrightarrow>
     (\<forall>k n. en_pending e k = Some n \<longrightarrow> 1 \<le> n) \<and> (en_running e \<longrightarrow> en_driver e \<noteq> None) \<and>
     sc_ID (en_localCluster e) = localID \<and> ClusterID (en_localSpec e) = localID \<and>
     (\<forall>d. en_driver e = Some d \<longrightarrow> dinv d \<and> conns_ok L owner localID (act d)) \<and>
     (\<forall>nd. en_nat e = Some nd \<longrightarrow> nat_inv L nd \<and> nat_all (ep_ok L owner localID) nd)"

lemma conns_ok_subset: "conns_ok L owner localID A \<Longrightarrow> B \<subseteq> A \<Longrightarrow> conns_ok L owner localID B"
  by (auto simp: conns_ok_def intro: inj_on_subset)

lemma conns_ok_status:
  assumes "conns_ok L owner localID A" and "\<forall>c. f c = c\<lparr>Status := Status (f c)\<rparr>"
  shows "conns_ok L owner localID (f ` A)"
proof -
  have eq: "conn_Endpoint (f c) = conn_Endpoint c" "UsingIP (f c) = UsingIP c" for c
    using arg_cong [OF spec [OF assms(2), of c], of conn_Endpoint] arg_cong [OF spec [OF assms(2), of c], of UsingIP]
    by simp_all
  then have "cluster_family L (f c) = cluster_family L c" "GetFamily L (f c) = GetFamily L c" for c
    by (simp_all add: cluster_family_def GetFamily_def)
  with assms(1) eq show ?thesis by (auto simp: conns_ok_def inj_on_def)
qed

lemma getIPFrom_family:
  assumes "getIPFrom L f ips x \<noteq> []" "x = [] \<or> IPFamilyOfString L x = IPv4"
  shows "IPFamilyOfString L (getIPFrom L f ips x) = f"
proof (cases "find (\<lambda>i. IPFamilyOfString L i = f) ips")
  case None
  with assms show ?thesis by (auto simp: getIPFrom_def split: if_splits)
next
  case (Some y)
  moreover from this have "IPFamilyOfString L y = f" by (auto simp: find_Some_iff)
  ultimately show ?thesis by (simp add: getIPFrom_def)
qed

lemma info_address:
  assumes "info_ok L info" "ep_ok L owner localID (ni_Endpoint info) (ni_UseFamily info)" "ni_UseIP info \<noteq> []"
  shows "IPFamilyOfString L (ni_UseIP info) = ni_UseFamily info"
  using assms getIPFrom_family [of L "ni_UseFamily info"]
  by (auto simp: info_ok_def ep_ok_def ep_named_def GetPublicIP_def GetPrivateIP_def)

text \<open>The connections the new cable replaces.\<close>

definition replaced :: "libs \<Rightarrow> NATEndpointInfo \<Rightarrow> Connection \<Rightarrow> bool" where
  "replaced L info c \<longleftrightarrow> cluster_family L c = (ClusterID (ep_Spec (ni_Endpoint info)), ni_UseFamily info)"

context engine_driver
begin

lemma disconnect_existing_act:
  assumes "disconnect_existing L D inst info cs d = (d', r)" and "dinv d"
    and "\<forall>c\<in>set cs. ClusterID (conn_Endpoint c) \<noteq> localID \<and> owner (CableName (conn_Endpoint c)) = ClusterID (conn_Endpoint c)"
    and "\<forall>c\<in>act d. owner (CableName (conn_Endpoint c)) = ClusterID (conn_Endpoint c)"
    and "ni_UseFamily info \<noteq> IPFamilyUnknown"
  shows "dinv d' \<and> act d' \<subseteq> act d \<and> (\<forall>c\<in>act d. \<not> replaced L info c \<longrightarrow> c \<in> act d') \<and>
    (r = Proceed \<longrightarrow> (\<forall>c\<in>act d'. c \<in> set cs \<longrightarrow> \<not> replaced L info c))"
  using assms
proof (induction cs arbitrary: d)
  case (Cons c cs)
  show ?case
  proof (cases "replaced L info c")
    case False
    with Cons show ?thesis
      by (auto simp: Let_def replaced_def cluster_family_def)
  next
    case True
    obtain d1 e1 where dis: "drv_DisconnectFromEndpoint D (conn_Endpoint c) (ni_UseFamily info) d = (d1, e1)"
      by fastforce
    from Cons.prems(1) True dis consider
        "d' = d" "r = Return None"
      | e where "e1 = Some e" "d' = d1" "\<exists>x. r = Return (Some x)"
      | "e1 = None" "disconnect_existing L D inst info cs d1 = (d', r)"
      by (auto simp: Let_def replaced_def cluster_family_def split: if_splits option.splits)
    then show ?thesis
    proof cases
      case 1
      with Cons.prems(2) show ?thesis by simp
    next
      case 2
      with disconnect_fail_act [OF Cons.prems(2)] dis show ?thesis by auto
    next
      case 3
      have local: "ClusterID (conn_Endpoint c) \<noteq> localID" using Cons.prems(3) by simp
      have d1: "dinv d1" "act d1 = {x \<in> act d. conn_key L x \<noteq> (CableName (conn_Endpoint c), ni_UseFamily info)}"
        using disconnect_act [OF Cons.prems(2) _ local Cons.prems(5)] dis 3(1) by auto
      have gone: "c \<notin> act d1"
        using True by (auto simp: d1(2) conn_key_def replaced_def cluster_family_def)
      have kept: "x \<in> act d1" if "x \<in> act d" "\<not> replaced L info x" for x
        using that True Cons.prems(3,4)
        by (auto simp: d1(2) conn_key_def replaced_def cluster_family_def)
      have "\<forall>x\<in>act d1. owner (CableName (conn_Endpoint x)) = ClusterID (conn_Endpoint x)"
        using Cons.prems(4) by (simp add: d1(2))
      from Cons.IH [OF 3(2) d1(1) _ this Cons.prems(5)] Cons.prems(3) gone kept show ?thesis
        by (auto simp: d1(2))
    qed
  qed
qed simp

text \<open>One installation, from a state whose connections meet the invariant.\<close>

lemma install_conns:
  assumes run: "disconnect_existing L D inst info cs d = (d1, Proceed)"
      "drv_ConnectToEndpoint D info d1 = (d2, a, r)"
    and cs: "drv_GetActiveConnections D d = Inr cs" and d: "dinv d" "conns_ok L owner localID (act d)"
    and info: "info_ok L info" "ep_ok L owner localID (ni_Endpoint info) (ni_UseFamily info)"
  shows "dinv d2 \<and> conns_ok L owner localID (act d2) \<and>
    (r = None \<longrightarrow> (\<exists>c. conn_of info c \<and> replaced L info c \<and> act d2 = insert c {x \<in> act d. \<not> replaced L info x}))"
proof -
  have known: "ni_UseFamily info \<noteq> IPFamilyUnknown" "ClusterID (ep_Spec (ni_Endpoint info)) \<noteq> localID"
    "owner (CableName (ep_Spec (ni_Endpoint info))) = ClusterID (ep_Spec (ni_Endpoint info))"
    using info(2) by (auto simp: ep_ok_def ep_named_def)
  have "dinv d1 \<and> act d1 \<subseteq> act d \<and> (\<forall>c\<in>act d. \<not> replaced L info c \<longrightarrow> c \<in> act d1) \<and>
    (\<forall>c\<in>act d1. c \<in> set cs \<longrightarrow> \<not> replaced L info c)"
    using disconnect_existing_act [OF run(1) d(1) _ _ known(1), of owner] d(2)
    by (auto simp: act_eq [OF cs] conns_ok_def)
  then have d1: "dinv d1" "act d1 = {x \<in> act d. \<not> replaced L info x}"
    by (auto simp: act_eq [OF cs])
  have ok1: "conns_ok L owner localID (act d1)"
    using conns_ok_subset [OF d(2)] by (simp add: d1(2))
  show ?thesis
  proof (cases r)
    case (Some e)
    with connect_fail_act [OF d1(1)] run(2) ok1 show ?thesis by auto
  next
    case None
    note con = run(2) [unfolded None]
    have fam: "IPFamilyOfString L (ni_UseIP info) = ni_UseFamily info"
      using connect_addr [OF d1(1) con known(2)] info_address [OF info] by blast
    have fresh: "(CableName (ep_Spec (ni_Endpoint info)), IPFamilyOfString L (ni_UseIP info)) \<notin> conn_key L ` act d1"
      using ok1 known(3) by (auto simp: d1(2) conn_key_def conns_ok_def replaced_def cluster_family_def fam)
    from connect_act [OF d1(1) con known(2) fresh] obtain c where
      c: "dinv d2" "conn_of info c" "act d2 = insert c (act d1)" by blast
    have rep: "replaced L info c"
      using c(2) fam by (simp add: replaced_def cluster_family_def conn_of_def GetFamily_def)
    have "inj_on (cluster_family L) (act d2)"
      using ok1 rep unfolding c(3) by (auto simp: conns_ok_def d1(2) replaced_def)
    moreover have "ClusterID (conn_Endpoint c) \<noteq> localID \<and>
        owner (CableName (conn_Endpoint c)) = ClusterID (conn_Endpoint c) \<and> GetFamily L c \<noteq> IPFamilyUnknown"
      using c(2) known fam by (auto simp: conn_of_def GetFamily_def)
    ultimately have "conns_ok L owner localID (act d2)"
      using ok1 by (auto simp: conns_ok_def c(3))
    with c rep d1(2) None show ?thesis by auto
  qed
qed

lemma engine_inv_driver:
  "engine_inv L owner localID dinv act e \<Longrightarrow> dinv d \<Longrightarrow> conns_ok L owner localID (act d) \<Longrightarrow>
   engine_inv L owner localID dinv act (e\<lparr>en_driver := Some d\<rparr>)"
  by (auto simp: engine_inv_def)

lemma engine_inv_installed:
  "engine_inv L owner localID dinv act (e\<lparr>en_installed := m\<rparr>) = engine_inv L owner localID dinv act e"
  by (simp add: engine_inv_def)

lemma engine_inv_nat:
  "engine_inv L owner localID dinv act e \<Longrightarrow> nat_inv L nd \<Longrightarrow> nat_all (ep_ok L owner localID) nd \<Longrightarrow>
   engine_inv L owner localID dinv act (e\<lparr>en_nat := Some nd\<rparr>)"
  by (auto simp: engine_inv_def)

lemma engine_inv_pending:
  "engine_inv L owner localID dinv act e \<Longrightarrow> (\<And>k n. m k = Some n \<Longrightarrow> 1 \<le> n) \<Longrightarrow>
   engine_inv L owner localID dinv act (e\<lparr>en_pending := m\<rparr>)"
  by (simp add: engine_inv_def)

lemma engine_invD:
  assumes "engine_inv L owner localID dinv act e"
  shows "en_driver e = Some d \<Longrightarrow> dinv d" "en_driver e = Some d \<Longrightarrow> conns_ok L owner localID (act d)"
    "en_nat e = Some nd \<Longrightarrow> nat_inv L nd" "en_nat e = Some nd \<Longrightarrow> nat_all (ep_ok L owner localID) nd"
    "en_pending e k = Some n \<Longrightarrow> 1 \<le> n"
  using assms by (simp_all add: engine_inv_def)

lemma shouldProceed_inv:
  assumes "engine_inv L owner localID dinv act e"
  shows "engine_inv L owner localID dinv act (fst (shouldProceedWithInstallation k e))"
proof (cases "en_pending e k")
  case (Some n)
  have "1 \<le> n" using assms Some by (rule engine_invD)
  with engine_invD(5) [OF assms]
  have "1 \<le> j" if "(if n - 1 = 0 then (en_pending e)(k := None) else (en_pending e)(k \<mapsto> n - 1)) i = Some j" for i j
    using that \<open>1 \<le> n\<close> by (auto split: if_splits)
  with assms Some show ?thesis
    by (simp add: shouldProceedWithInstallation_def engine_inv_pending)
qed (simp add: shouldProceedWithInstallation_def assms)

lemma install_inv:
  assumes inv: "engine_inv L owner localID dinv act e"
    and info: "info_ok L info" "ep_ok L owner localID (ni_Endpoint info) (ni_UseFamily info)"
  shows "engine_inv L owner localID dinv act (fst (installCableWithNATInfo L D info e))"
proof -
  let ?k = "GetFamilyCableName (ep_Spec (ni_Endpoint info)) (ni_UseFamily info)"
  obtain e1 p where e1: "shouldProceedWithInstallation ?k e = (e1, p)" by fastforce
  have inv1: "engine_inv L owner localID dinv act e1"
    using shouldProceed_inv [OF inv, of ?k] by (simp add: e1)
  show ?thesis
  proof (cases "p \<and> en_running e1 \<and> en_driver e1 \<noteq> None")
    case False
    with inv1 show ?thesis by (auto simp: installCableWithNATInfo_def Let_def e1)
  next
    case True
    then obtain d where d: "en_driver e1 = Some d" by auto
    note dinv = engine_invD(1,2) [OF inv1 d]
    obtain cs where cs: "drv_GetActiveConnections D d = Inr cs" using active_ok [OF dinv(1)] by blast
    obtain d1 r where loop: "disconnect_existing L D (en_installed e1) info cs d = (d1, r)" by fastforce
    have "dinv d1 \<and> act d1 \<subseteq> act d"
      using disconnect_existing_act [OF loop dinv(1), of owner] dinv(2) info(2)
      by (auto simp: act_eq [OF cs] conns_ok_def ep_ok_def ep_named_def)
    then have d1: "engine_inv L owner localID dinv act (e1\<lparr>en_driver := Some d1\<rparr>)"
      using inv1 dinv(2) conns_ok_subset by (blast intro: engine_inv_driver)
    show ?thesis
    proof (cases r)
      case (Return x)
      with True d cs loop d1 show ?thesis by (simp add: installCableWithNATInfo_def Let_def e1)
    next
      case Proceed
      obtain d2 a x where con: "drv_ConnectToEndpoint D info d1 = (d2, a, x)" by (metis prod_cases3)
      have "engine_inv L owner localID dinv act (e1\<lparr>en_driver := Some d2\<rparr>)"
        using install_conns [OF loop [unfolded Proceed] con cs dinv info] inv1
        by (blast intro: engine_inv_driver)
      with engine_inv_installed [of owner _ "e1\<lparr>en_driver := Some d2\<rparr>"] True d cs loop con Proceed
      show ?thesis
        by (auto simp: installCableWithNATInfo_def Let_def e1 split: option.split)
    qed
  qed
qed

lemma start_inv:
  assumes inv: "engine_inv L owner localID dinv act e" and "libs_ok L"
  shows "engine_inv L owner localID dinv act (fst (StartEngine D ds e))"
proof -
  have run: "engine_inv L owner localID dinv act (x\<lparr>en_running := True\<rparr>)"
    if "engine_inv L owner localID dinv act x" "en_driver x \<noteq> None" for x
    using that by (auto simp: engine_inv_def)
  have new: "dinv d' \<and> conns_ok L owner localID (act d')"
    if "NewDriver ds (en_localSpec e) (en_localCluster e) = Inr d" "drv_Init D d = (d', r)" for d d' r
    using new_ok [OF that(1) assms(2)] inv init_ok [OF _ _ that(2)]
    by (auto simp: engine_inv_def conns_ok_def act_def)
  show ?thesis
    using inv new
    by (auto simp: StartEngine_def startDriver_def split: sum.split prod.split option.split
        intro!: run engine_inv_driver)
qed

lemma InstallCable_inv:
  assumes inv: "engine_inv L owner localID dinv act e" and ep: "ep_named L owner ep f"
  shows "engine_inv L owner localID dinv act (fst (InstallCable L T now ep f e))"
proof (cases "ClusterID (ep_Spec ep) = localID")
  case True
  with inv show ?thesis by (simp add: InstallCable_def engine_inv_def)
next
  case False
  with ep have ok: "ep_ok L owner localID ep f" by (simp add: ep_ok_def)
  let ?k = "GetFamilyCableName (ep_Spec ep) f"
  define e1 where "e1 = e\<lparr>en_pending := (en_pending e)(?k \<mapsto>
      (case en_pending e ?k of None \<Rightarrow> 0 | Some n \<Rightarrow> n) + 1)\<rparr>"
  have "1 \<le> (case en_pending e ?k of None \<Rightarrow> 0 | Some n \<Rightarrow> n) + 1"
    using engine_invD(5) [OF inv, of ?k] by (cases "en_pending e ?k") force+
  then have e1: "engine_inv L owner localID dinv act e1"
    unfolding e1_def using inv engine_invD(5) [OF inv]
    by (intro engine_inv_pending) (auto split: if_splits)
  have "nat_inv L (AddEndpoint L T now ep f nd) \<and> nat_all (ep_ok L owner localID) (AddEndpoint L T now ep f nd)"
    if "en_nat e1 = Some nd" for nd
    using engine_invD(3,4) [OF e1 that] ok by (simp add: AddEndpoint_inv AddEndpoint_all)
  with e1 have "engine_inv L owner localID dinv act (fst (case en_nat e1 of None \<Rightarrow> (e1, Some go_panic)
      | Some nd \<Rightarrow> (e1\<lparr>en_nat := Some (AddEndpoint L T now ep f nd)\<rparr>, None)))"
    by (auto intro: engine_inv_nat split: option.split)
  with inv show ?thesis
    unfolding InstallCable_def Let_def e1_def by (auto split del: option.split)
qed

lemma RemoveCable_inv:
  assumes inv: "engine_inv L owner localID dinv act e" and named: "ep_named L owner ep f"
  shows "engine_inv L owner localID dinv act (fst (RemoveCable D ep f e))"
proof (cases "ClusterID (ep_Spec ep) = localID \<or> en_nat e = None")
  case True
  with inv show ?thesis by (auto simp: RemoveCable_def engine_inv_def)
next
  case False
  then obtain nd where Some: "en_nat e = Some nd" and ep: "ep_ok L owner localID ep f" using named by (auto simp: ep_ok_def)
  let ?k = "GetFamilyCableName (ep_Spec ep) f"
  define e1 where "e1 = e\<lparr>en_nat := Some (RemoveEndpoint ?k nd), en_pending := (en_pending e)(?k := None)\<rparr>"
  have e1: "engine_inv L owner localID dinv act e1"
    unfolding e1_def using engine_invD(3-5) [OF inv] Some inv nat.remove_inv RemoveEndpoint_all
    by (intro engine_inv_pending engine_inv_nat) (auto split: if_splits)
  have "dinv d' \<and> conns_ok L owner localID (act d')"
    if d: "en_driver e1 = Some d" and dis: "drv_DisconnectFromEndpoint D (ep_Spec ep) f d = (d', r)" for d d' r
  proof (cases r)
    case (Some x)
    with disconnect_fail_act [OF engine_invD(1) [OF e1 d]] dis engine_invD(2) [OF e1 d] show ?thesis by auto
  next
    case None
    with disconnect_act [OF engine_invD(1) [OF e1 d], of "ep_Spec ep" f d'] dis ep
      conns_ok_subset [OF engine_invD(2) [OF e1 d]]
    show ?thesis by (auto simp: ep_ok_def ep_named_def)
  qed
  with e1 inv Some show ?thesis
    by (auto simp: RemoveCable_def Let_def e1_def [symmetric] engine_inv_installed
        intro!: engine_inv_driver split: option.split prod.split)
qed

lemma ListCableConnections_inv:
  assumes inv: "engine_inv L owner localID dinv act e"
  shows "engine_inv L owner localID dinv act (fst (ListCableConnections D e))"
proof (cases "en_running e \<and> en_driver e \<noteq> None")
  case True
  then obtain d d' r where d: "en_driver e = Some d" and g: "drv_GetConnections D d = (d', r)" by fastforce
  from connections_act [OF engine_invD(1) [OF inv d] g] engine_invD(2) [OF inv d] conns_ok_status
  have "dinv d'" "conns_ok L owner localID (act d')" by force+
  with inv True d g show ?thesis by (simp add: ListCableConnections_def engine_inv_driver)
qed (use inv in \<open>auto simp: ListCableConnections_def\<close>)

lemma engine_step_inv:
  assumes "engine_step L T D ds owner localID e e'" "libs_ok L" "engine_inv L owner localID dinv act e"
  shows "engine_inv L owner localID dinv act e'"
  using assms
proof (induction rule: engine_step.induct)
  case (start e)
  then show ?case by (intro start_inv)
next
  case (stop e)
  then show ?case by (auto simp: Stop_def engine_inv_def)
next
  case (attach spec rand nd e)
  then show ?case
    using NewWithConfig_start [OF attach(1)] by (auto simp: SetupNATDiscovery_def intro: engine_inv_nat)
next
  case (install ep f e now)
  then show ?case by (intro InstallCable_inv)
next
  case (remove ep f e)
  then show ?case by (intro RemoveCable_inv)
next
  case (check e nd V now order)
  then show ?case
    using engine_invD(3,4) [OF check(3,1)]
    by (auto intro!: engine_inv_nat checkEndpointList_inv checkEndpointList_all)
next
  case (receive e nd V now buf addr)
  then show ?case
    using engine_invD(3,4) [OF receive(3,1)]
    by (auto intro!: engine_inv_nat parseAndHandle_inv parseAndHandle_all)
next
  case (consume e nd info rest)
  note nd = engine_invD(3,4) [OF consume(4,1)]
  have "nat_inv L (nd\<lparr>nd_ready := rest\<rparr>)" "nat_all (ep_ok L owner localID) (nd\<lparr>nd_ready := rest\<rparr>)"
    using nd consume(2) by (auto simp: nat_inv_def nat_all_def)
  moreover have "info_ok L info" "ep_ok L owner localID (ni_Endpoint info) (ni_UseFamily info)"
    using nd consume(2) by (auto simp: nat_inv_def nat_all_def)
  ultimately show ?case
    using consume(4) by (intro install_inv engine_inv_nat)
next
  case (list_connections e)
  then show ?case by (intro ListCableConnections_inv)
qed

lemma engine_reachable_inv:
  assumes "engine_reachable L T D ds owner localID e" "libs_ok L"
  shows "engine_inv L owner localID dinv act e"
  using assms
proof (induction rule: engine_reachable.induct)
  case (new cluster spec)
  then show ?case by (auto simp: NewEngine_def engine_inv_def)
next
  case (step e e')
  then show ?case by (blast intro: engine_step_inv)
qed

end

section \<open>One installation\<close>

text \<open>The tests by which the engine keeps an active connection.\<close>

definition keeps :: "libs \<Rightarrow> (string \<rightharpoonup> timestamp) \<Rightarrow> NATEndpointInfo \<Rightarrow> Connection \<Rightarrow> bool" where
  "keeps L inst info c \<longleftrightarrow>
     (let prev = installed_at inst (GetFamilyCableName (conn_Endpoint c) (GetFamily L c));
          ts = ep_CreationTimestamp (ni_Endpoint info) in
      ts < prev \<or>
      ts = prev \<and> same_connection info c \<and> GetFamilyCableName (conn_Endpoint c) (GetFamily L c) =
        GetFamilyCableName (ep_Spec (ni_Endpoint info)) (ni_UseFamily info))"

lemma existing_simps:
  "\<not> replaced L info x \<Longrightarrow> disconnect_existing L D inst info (x # cs) d = disconnect_existing L D inst info cs d"
  "replaced L info x \<Longrightarrow> keeps L inst info x \<Longrightarrow>
     disconnect_existing L D inst info (x # cs) d = (d, Return None)"
  "replaced L info x \<Longrightarrow> \<not> keeps L inst info x \<Longrightarrow>
     disconnect_existing L D inst info (x # cs) d =
       (case drv_DisconnectFromEndpoint D (conn_Endpoint x) (ni_UseFamily info) d of
          (d', Some e) \<Rightarrow> (d', Return (Some (Wrapped ''error disconnecting previous Endpoint cable'' e)))
        | (d', None) \<Rightarrow> disconnect_existing L D inst info cs d')"
  by (auto simp: Let_def keeps_def replaced_def cluster_family_def)

lemma existing_kept:
  assumes "c \<in> set cs" "replaced L info c" "keeps L inst info c" "\<forall>x\<in>set cs. replaced L info x \<longrightarrow> x = c"
  shows "disconnect_existing L D inst info cs d = (d, Return None)"
  using assms
proof (induction cs)
  case Nil
  from Nil.prems(1) show ?case by simp
next
  case (Cons x cs)
  show ?case
  proof (cases "replaced L info x")
    case True
    with Cons.prems(3,4) show ?thesis by (simp add: existing_simps(2) del: disconnect_existing.simps)
  next
    case False
    moreover from this Cons.prems(1,2) have "c \<in> set cs" by auto
    moreover have "\<forall>y\<in>set cs. replaced L info y \<longrightarrow> y = c" using Cons.prems(4) by simp
    ultimately show ?thesis
      using Cons.IH [OF _ Cons.prems(2,3)] by (simp add: existing_simps(1) del: disconnect_existing.simps)
  qed
qed

lemma existing_returns_kept:
  assumes "disconnect_existing L D inst info cs d = (d', Return None)"
  shows "\<exists>c\<in>set cs. replaced L info c \<and> keeps L inst info c"
  using assms
proof (induction cs arbitrary: d)
  case (Cons x cs)
  show ?case
  proof (cases "replaced L info x \<and> keeps L inst info x")
    case False
    with Cons.prems obtain d1 where "disconnect_existing L D inst info cs d1 = (d', Return None)"
      by (cases "replaced L info x")
        (auto simp: existing_simps(1,3) simp del: disconnect_existing.simps split: prod.split_asm option.split_asm)
    from Cons.IH [OF this] show ?thesis by auto
  qed auto
qed simp

lemma replaced_unique:
  "conns_ok L owner localID A \<Longrightarrow> x \<in> A \<Longrightarrow> y \<in> A \<Longrightarrow> replaced L info x \<Longrightarrow> replaced L info y \<Longrightarrow> x = y"
  by (auto simp: conns_ok_def replaced_def inj_on_def)

lemma shouldProceed_frame:
  "shouldProceedWithInstallation k e = (e1, p) \<Longrightarrow>
   en_driver e1 = en_driver e \<and> en_running e1 = en_running e \<and> en_installed e1 = en_installed e \<and>
   en_nat e1 = en_nat e \<and> (p \<longleftrightarrow> en_pending e k \<noteq> None)"
  by (auto simp: shouldProceedWithInstallation_def split: option.split_asm)

context engine_driver
begin

text \<open>A kept connection: the driver and the installed cables do not change.\<close>

lemma install_kept:
  assumes inv: "engine_inv L owner localID dinv act e" and d: "en_driver e = Some d"
    and c: "c \<in> act d" "replaced L info c" "keeps L (en_installed e) info c"
  shows "en_driver (fst (installCableWithNATInfo L D info e)) = Some d \<and>
    en_installed (fst (installCableWithNATInfo L D info e)) = en_installed e \<and>
    snd (installCableWithNATInfo L D info e) = None"
proof -
  let ?k = "GetFamilyCableName (ep_Spec (ni_Endpoint info)) (ni_UseFamily info)"
  obtain e1 p where e1: "shouldProceedWithInstallation ?k e = (e1, p)" by fastforce
  obtain cs where cs: "drv_GetActiveConnections D d = Inr cs"
    using active_ok [OF engine_invD(1) [OF inv d]] by blast
  have "disconnect_existing L D (en_installed e) info cs d = (d, Return None)"
    using c replaced_unique [OF engine_invD(2) [OF inv d]] unfolding act_eq [OF cs]
    by (intro existing_kept) auto
  with shouldProceed_frame [OF e1] d cs show ?thesis
    by (simp add: installCableWithNATInfo_def Let_def e1)
qed

lemma install_outcome:
  assumes inv: "engine_inv L owner localID dinv act e" and run: "en_running e"
    and info: "info_ok L info" "ep_ok L owner localID (ni_Endpoint info) (ni_UseFamily info)"
    and pending: "en_pending e (GetFamilyCableName (ep_Spec (ni_Endpoint info)) (ni_UseFamily info)) \<noteq> None"
    and d: "en_driver e = Some d"
    and newer: "\<forall>c\<in>act d. replaced L info c \<longrightarrow>
        installed_at (en_installed e) (GetFamilyCableName (conn_Endpoint c) (GetFamily L c)) \<le>
        ep_CreationTimestamp (ni_Endpoint info)"
    and res: "installCableWithNATInfo L D info e = (e', None)"
  shows "\<exists>d' c. en_driver e' = Some d' \<and> act d' = insert c {x \<in> act d. \<not> replaced L info x} \<and>
    replaced L info c \<and> same_connection info c \<and>
    CableName (conn_Endpoint c) = CableName (ep_Spec (ni_Endpoint info))"
proof -
  let ?k = "GetFamilyCableName (ep_Spec (ni_Endpoint info)) (ni_UseFamily info)"
  obtain e1 p where e1: "shouldProceedWithInstallation ?k e = (e1, p)" by fastforce
  note fr = shouldProceed_frame [OF e1] and dd = engine_invD(1,2) [OF inv d]
  obtain cs where cs: "drv_GetActiveConnections D d = Inr cs" using active_ok [OF dd(1)] by blast
  obtain d1 r where loop: "disconnect_existing L D (en_installed e) info cs d = (d1, r)" by fastforce
  obtain d2 a x where con: "drv_ConnectToEndpoint D info d1 = (d2, a, x)" by (metis prod_cases3)
  show ?thesis
  proof (cases r)
    case Proceed
    with res fr run pending d cs loop con have "x = None" "en_driver e' = Some d2"
      by (auto simp: installCableWithNATInfo_def Let_def e1 split: option.split_asm)
    with install_conns [OF loop [unfolded Proceed] con cs dd info]
    show ?thesis by (auto simp: conn_of_def same_connection_def)
  next
    case (Return y)
    with res fr run pending d cs loop have y: "y = None"
      by (simp add: installCableWithNATInfo_def Let_def e1)
    from existing_returns_kept [OF loop [unfolded Return y]] obtain c where
      c: "c \<in> act d" "replaced L info c" "keeps L (en_installed e) info c" by (auto simp: act_eq [OF cs])
    have "en_driver e' = Some d" using install_kept [OF inv d c] res by simp
    moreover have "act d = insert c {x \<in> act d. \<not> replaced L info x}"
      using c replaced_unique [OF dd(2)] by blast
    moreover have "same_connection info c" "CableName (conn_Endpoint c) = CableName (ep_Spec (ni_Endpoint info))"
      using c newer by (auto simp: keeps_def Let_def replaced_def cluster_family_def GetFamilyCableName_def)
    ultimately show ?thesis using c(2) by blast
  qed
qed

lemma remove_outcome:
  assumes inv: "engine_inv L owner localID dinv act e" and d: "en_driver e = Some d"
    and ep: "ClusterID (ep_Spec ep) \<noteq> localID" "f \<noteq> IPFamilyUnknown"
    and inst: "en_installed e (GetFamilyCableName (ep_Spec ep) f) \<noteq> None"
    and res: "RemoveCable D ep f e = (e', None)"
  shows "\<exists>d'. en_driver e' = Some d' \<and> act d' = {c \<in> act d. conn_key L c \<noteq> (CableName (ep_Spec ep), f)} \<and>
    en_installed e' = (en_installed e)(GetFamilyCableName (ep_Spec ep) f := None)"
proof -
  have "ClusterID (ep_Spec ep) \<noteq> sc_ID (en_localCluster e)" using inv ep(1) by (simp add: engine_inv_def)
  with res d inst obtain d' where dis: "drv_DisconnectFromEndpoint D (ep_Spec ep) f d = (d', None)"
    and e': "en_driver e' = Some d'" "en_installed e' = (en_installed e)(GetFamilyCableName (ep_Spec ep) f := None)"
    by (auto simp: RemoveCable_def Let_def split: option.split_asm prod.split_asm)
  with disconnect_act [OF engine_invD(1) [OF inv d] dis ep] show ?thesis by blast
qed

end

section \<open>The engine with the VXLAN driver\<close>

lemma vxlan_act [simp]: "vxlan.act L N v = set (vx_connections v)"
  by (rule vxlan.act_eq) (simp add: vxlanDriver_def)

text \<open>
  A concrete run, for the witnesses: an engine for cluster \<open>east\<close> is started, a cable to \<open>west\<close> is installed
  (its endpoint has no NAT discovery port, so the result is ready at once), and the result is consumed.
\<close>

definition vx_local :: EndpointSpec where
  "vx_local = example_spec\<lparr>Backend := ''vxlan''\<rparr>"

definition vx_cluster :: SubmarinerCluster where
  "vx_cluster = \<lparr>sc_ID = ''east'', sc_Spec = \<lparr>cs_ClusterID = ''east'', cs_ColorCodes = [], cs_ServiceCIDR = [],
     cs_ClusterCIDR = [''10.1.0.0/16''], cs_GlobalCIDR = []\<rparr>\<rparr>"

definition west :: "timestamp \<Rightarrow> Endpoint" where
  "west t = \<lparr>ep_Name = ''west'', ep_UID = ''u'', ep_CreationTimestamp = t, ep_Spec = example_spec\<lparr>
     ClusterID := ''west'', CableName := ''submariner-cable-west-10-0-0-2'', PrivateIP := ''10.0.0.2'',
     PrivateIPs := [''10.0.0.2''], Subnets := [''10.2.0.0/16''], NATEnabled := False, BackendConfig := fmempty\<rparr>\<rparr>"

definition example_run1 :: "unit vxLan engine" where
  "example_run1 = fst (StartEngine (vxlanDriver ref_libs ref_netLink) (vxlan_drivers ref_libs ref_netLink ())
     (SetupNATDiscovery example_nd (NewEngine vx_cluster vx_local)))"

definition example_run2 :: "unit vxLan engine" where
  "example_run2 = fst (InstallCable ref_libs init_timeouts 5 (west 100) IPv4 example_run1)"

definition vx_consume :: "'k netLink \<Rightarrow> 'k vxLan engine \<Rightarrow> 'k vxLan engine" where
  "vx_consume N e = (case en_nat e of None \<Rightarrow> e | Some nd \<Rightarrow> (case nd_ready nd of [] \<Rightarrow> e
     | info # rest \<Rightarrow> fst (installCableWithNATInfo ref_libs (vxlanDriver ref_libs N) info
         (e\<lparr>en_nat := Some (nd\<lparr>nd_ready := rest\<rparr>)\<rparr>))))"

definition example_run3 :: "unit vxLan engine" where
  "example_run3 = vx_consume ref_netLink example_run2"

definition example_owner :: "string \<Rightarrow> string" where
  "example_owner s = (if s = ''submariner-cable-west-10-0-0-2'' then ''west'' else ''east'')"

definition example_info :: NATEndpointInfo where
  "example_info = (case en_nat example_run2 of Some nd \<Rightarrow> hd (nd_ready nd)
     | None \<Rightarrow> \<lparr>ni_Endpoint = west 0, ni_UseNAT = True, ni_UseIP = [], ni_UseFamily = IPv6\<rparr>)"

definition example_v :: "unit vxLan engine \<Rightarrow> unit vxLan" where
  "example_v e = (case en_driver e of Some v \<Rightarrow> v
     | None \<Rightarrow> \<lparr>vx_localEndpoint = vx_local, vx_localCluster = vx_cluster, vx_connections = [],
                vx_vxlanIfaces = Map.empty, vx_vtepIPs = Map.empty, vx_kernel = ()\<rparr>)"

abbreviation example_reachable :: "unit vxLan engine \<Rightarrow> bool" where
  "example_reachable e \<equiv> engine_reachable ref_libs init_timeouts (vxlanDriver ref_libs ref_netLink)
     (vxlan_drivers ref_libs ref_netLink ()) example_owner ''east'' e"

lemma consume_reachable:
  assumes "example_reachable e" shows "example_reachable (vx_consume ref_netLink e)"
proof (cases "en_nat e")
  case (Some nd)
  show ?thesis
  proof (cases "nd_ready nd")
    case (Cons info rest)
    from engine_step.consume [OF Some Cons] assms Some Cons show ?thesis
      by (auto simp: vx_consume_def intro: engine_reachable.step)
  qed (use assms Some in \<open>simp add: vx_consume_def\<close>)
qed (use assms in \<open>simp add: vx_consume_def\<close>)

lemma example_ep_named: "ep_named ref_libs example_owner (west 100) IPv4"
  by code_simp

lemma example_run2_reachable: "example_reachable example_run2"
proof -
  have "example_reachable (NewEngine vx_cluster vx_local)"
    by (rule engine_reachable.new) (simp_all add: vx_cluster_def vx_local_def example_spec_def)
  then have "example_reachable (SetupNATDiscovery example_nd (NewEngine vx_cluster vx_local))"
    using engine_step.attach [OF example_nd_new] by (rule engine_reachable.step)
  then have "example_reachable example_run1"
    unfolding example_run1_def using engine_step.start by (rule engine_reachable.step)
  then show ?thesis
    unfolding example_run2_def using engine_step.install [OF example_ep_named] by (rule engine_reachable.step)
qed

lemma example_run3_reachable: "example_reachable example_run3"
  unfolding example_run3_def by (rule consume_reachable [OF example_run2_reachable])

lemma example_driver:
  "en_driver example_run2 = Some (example_v example_run2)" "en_driver example_run3 = Some (example_v example_run3)"
proof -
  have "\<not> Option.is_none (en_driver example_run2)" "\<not> Option.is_none (en_driver example_run3)" by code_simp+
  then show "en_driver example_run2 = Some (example_v example_run2)"
    "en_driver example_run3 = Some (example_v example_run3)"
    by (auto simp: example_v_def Option.is_none_def)
qed

text \<open>C1: In every run of the cable engine with NAT discovery and the VXLAN driver (starts, stops, cables
  of endpoints of any cluster, the local one included, installed and removed, periodic checks, any packets, results consumed, connections listed), at most one connection belongs to
  each remote cluster and IP family, none to the local cluster, every pending count is at least one, and a
  running engine has a driver.\<close>

theorem engine_run_inv:
  assumes "libs_ok L" and "engine_reachable L T (vxlanDriver L N) (vxlan_drivers L N k) owner localID e"
  shows "(\<forall>v. en_driver e = Some v \<longrightarrow> inj_on (cluster_family L) (set (vx_connections v)) \<and>
      (\<forall>c\<in>set (vx_connections v). ClusterID (conn_Endpoint c) \<noteq> localID)) \<and>
    (\<forall>name n. en_pending e name = Some n \<longrightarrow> 1 \<le> n) \<and> (en_running e \<longrightarrow> en_driver e \<noteq> None)"
  using vxlan.engine_reachable_inv [OF assms(2,1)] by (auto simp: engine_inv_def conns_ok_def)

theorem engine_run_inv_witness:
  "inj_on (cluster_family ref_libs) (set (vx_connections (example_v example_run3))) \<and>
   map UsingIP (vx_connections (example_v example_run3)) = [''10.0.0.2'']"
proof
  show "inj_on (cluster_family ref_libs) (set (vx_connections (example_v example_run3)))"
    using engine_run_inv [OF ref_libs_ok example_run3_reachable] example_driver(2) by blast
  show "map UsingIP (vx_connections (example_v example_run3)) = [''10.0.0.2'']" by code_simp
qed

text \<open>C5: A pending result that is consumed by a running engine, for an endpoint that is not older than the
  cable its cluster already has in that family, leaves exactly one connection for the cluster and family
  when the installation reports no error: it is of this cable, with the address, the NAT setting and the
  backend configuration of the result. Every other connection is untouched.\<close>

theorem install_single_connection:
  assumes "libs_ok L" and "engine_reachable L T (vxlanDriver L N) (vxlan_drivers L N k) owner localID e"
    and "info_ok L info" and "ep_ok L owner localID (ni_Endpoint info) (ni_UseFamily info)"
    and "en_running e" and "en_driver e = Some v"
    and "en_pending e (GetFamilyCableName (ep_Spec (ni_Endpoint info)) (ni_UseFamily info)) \<noteq> None"
    and "\<forall>c\<in>set (vx_connections v). replaced L info c \<longrightarrow>
        installed_at (en_installed e) (GetFamilyCableName (conn_Endpoint c) (GetFamily L c)) \<le>
        ep_CreationTimestamp (ni_Endpoint info)"
    and "installCableWithNATInfo L (vxlanDriver L N) info e = (e', None)"
  shows "\<exists>v' c. en_driver e' = Some v' \<and>
    set (vx_connections v') = insert c {x \<in> set (vx_connections v). \<not> replaced L info x} \<and>
    replaced L info c \<and> same_connection info c \<and>
    CableName (conn_Endpoint c) = CableName (ep_Spec (ni_Endpoint info))"
  using vxlan.install_outcome [OF vxlan.engine_reachable_inv [OF assms(2,1)] assms(5,3,4,7,6) _ assms(9)] assms(8)
  by simp

theorem install_single_connection_witness:
  "\<exists>e' v' c. installCableWithNATInfo ref_libs (vxlanDriver ref_libs ref_netLink) example_info example_run2 = (e', None) \<and>
     en_driver e' = Some v' \<and> set (vx_connections v') = {c} \<and> same_connection example_info c"
proof -
  let ?r = "installCableWithNATInfo ref_libs (vxlanDriver ref_libs ref_netLink) example_info example_run2"
  have "snd ?r = None" by code_simp
  then have r: "?r = (fst ?r, None)" by (metis prod.collapse)
  have i: "info_ok ref_libs example_info" by code_simp
  have o: "ep_ok ref_libs example_owner ''east'' (ni_Endpoint example_info) (ni_UseFamily example_info)" by code_simp
  have run: "en_running example_run2" by code_simp
  have p: "en_pending example_run2 (GetFamilyCableName (ep_Spec (ni_Endpoint example_info)) (ni_UseFamily example_info)) \<noteq> None"
    by code_simp
  have c: "vx_connections (example_v example_run2) = []" by code_simp
  from install_single_connection [OF ref_libs_ok example_run2_reachable i o run example_driver(1) p _ r]
  show ?thesis using r unfolding c by auto
qed

text \<open>A result for an endpoint that is older than the cable its cluster has in that family changes neither
  the connections nor the installed cables.\<close>

theorem older_endpoint_never_replaces:
  assumes "libs_ok L" and "engine_reachable L T (vxlanDriver L N) (vxlan_drivers L N k) owner localID e"
    and "en_driver e = Some v" and "c \<in> set (vx_connections v)" and "replaced L info c"
    and "ep_CreationTimestamp (ni_Endpoint info) <
      installed_at (en_installed e) (GetFamilyCableName (conn_Endpoint c) (GetFamily L c))"
  shows "en_driver (fst (installCableWithNATInfo L (vxlanDriver L N) info e)) = Some v \<and>
    en_installed (fst (installCableWithNATInfo L (vxlanDriver L N) info e)) = en_installed e \<and>
    snd (installCableWithNATInfo L (vxlanDriver L N) info e) = None"
  using vxlan.install_kept [OF vxlan.engine_reachable_inv [OF assms(2,1)] assms(3) _ assms(5)] assms(4,6)
  by (simp add: keeps_def Let_def)

theorem older_endpoint_never_replaces_witness:
  "en_driver (fst (installCableWithNATInfo ref_libs (vxlanDriver ref_libs ref_netLink)
     (example_info\<lparr>ni_Endpoint := west 50\<rparr>) example_run3)) = Some (example_v example_run3)"
proof -
  let ?c = "hd (vx_connections (example_v example_run3))"
  have "vx_connections (example_v example_run3) \<noteq> []" by code_simp
  then have c: "?c \<in> set (vx_connections (example_v example_run3))" by simp
  have r: "replaced ref_libs (example_info\<lparr>ni_Endpoint := west 50\<rparr>) ?c" by code_simp
  have t: "ep_CreationTimestamp (ni_Endpoint (example_info\<lparr>ni_Endpoint := west 50\<rparr>)) <
      installed_at (en_installed example_run3) (GetFamilyCableName (conn_Endpoint ?c) (GetFamily ref_libs ?c))"
    by code_simp
  show ?thesis
    using older_endpoint_never_replaces [OF ref_libs_ok example_run3_reachable example_driver(2) c r t] by simp
qed

text \<open>After a cable was removed without error, the driver has no connection for that cable and family,
  every other connection is kept, and the cable is no longer recorded as installed.\<close>

theorem remove_disconnects:
  assumes "libs_ok L" and "engine_reachable L T (vxlanDriver L N) (vxlan_drivers L N k) owner localID e"
    and "en_driver e = Some v" and "ClusterID (ep_Spec ep) \<noteq> localID" and "f \<noteq> IPFamilyUnknown"
    and "en_installed e (GetFamilyCableName (ep_Spec ep) f) \<noteq> None"
    and "RemoveCable (vxlanDriver L N) ep f e = (e', None)"
  shows "\<exists>v'. en_driver e' = Some v' \<and>
    set (vx_connections v') = {c \<in> set (vx_connections v). conn_key L c \<noteq> (CableName (ep_Spec ep), f)} \<and>
    en_installed e' (GetFamilyCableName (ep_Spec ep) f) = None"
  using vxlan.remove_outcome [OF vxlan.engine_reachable_inv [OF assms(2,1)] assms(3-7)] by auto

theorem remove_disconnects_witness:
  "\<exists>v'. en_driver (fst (RemoveCable (vxlanDriver ref_libs ref_netLink) (west 100) IPv4 example_run3)) = Some v' \<and>
     (''submariner-cable-west-10-0-0-2'', IPv4) \<notin> conn_key ref_libs ` set (vx_connections v')"
proof -
  let ?r = "RemoveCable (vxlanDriver ref_libs ref_netLink) (west 100) IPv4 example_run3"
  have "snd ?r = None" by code_simp
  then have r: "?r = (fst ?r, None)" by (metis prod.collapse)
  have a: "ClusterID (ep_Spec (west 100)) \<noteq> ''east''" by code_simp
  have n: "CableName (ep_Spec (west 100)) = ''submariner-cable-west-10-0-0-2''" by code_simp
  have i: "en_installed example_run3 (GetFamilyCableName (ep_Spec (west 100)) IPv4) \<noteq> None" by code_simp
  from remove_disconnects [OF ref_libs_ok example_run3_reachable example_driver(2) a _ i r]
  show ?thesis unfolding n by auto
qed

text \<open>Whatever the driver, a NAT discovery result that arrives after its cable was removed is dropped: the
  engine does not change.\<close>

theorem late_result_ignored:
  assumes "ClusterID (ep_Spec ep) \<noteq> sc_ID (en_localCluster e)" and "en_nat e \<noteq> None"
    and "GetFamilyCableName (ep_Spec (ni_Endpoint info)) (ni_UseFamily info) = GetFamilyCableName (ep_Spec ep) f"
  shows "installCableWithNATInfo L D info (fst (RemoveCable D ep f e)) = (fst (RemoveCable D ep f e), None)"
proof -
  have "en_pending (fst (RemoveCable D ep f e)) (GetFamilyCableName (ep_Spec ep) f) = None"
    using assms(1,2) by (auto simp: RemoveCable_def Let_def split: option.split prod.split)
  then show ?thesis
    by (simp add: installCableWithNATInfo_def shouldProceedWithInstallation_def assms(3))
qed

theorem late_result_ignored_witness:
  "installCableWithNATInfo ref_libs (vxlanDriver ref_libs ref_netLink) example_info
     (fst (RemoveCable (vxlanDriver ref_libs ref_netLink) (west 100) IPv4 example_run2)) =
   (fst (RemoveCable (vxlanDriver ref_libs ref_netLink) (west 100) IPv4 example_run2), None)"
proof -
  have a: "ClusterID (ep_Spec (west 100)) \<noteq> sc_ID (en_localCluster example_run2)" by code_simp
  have "\<not> Option.is_none (en_nat example_run2)" by code_simp
  then have n: "en_nat example_run2 \<noteq> None" by (auto simp: Option.is_none_def)
  have k: "GetFamilyCableName (ep_Spec (ni_Endpoint example_info)) (ni_UseFamily example_info) =
      GetFamilyCableName (ep_Spec (west 100)) IPv4" by code_simp
  show ?thesis by (rule late_result_ignored [OF a n k])
qed

text \<open>Whatever the driver, once the only pending result of a cable is consumed, every further result for it
  is dropped until the cable is installed again: a private address that NAT discovery selects after it has
  reported the public one never reaches the driver.\<close>

theorem second_result_ignored:
  assumes "GetFamilyCableName (ep_Spec (ni_Endpoint info)) (ni_UseFamily info) = name"
    and "GetFamilyCableName (ep_Spec (ni_Endpoint info')) (ni_UseFamily info') = name"
    and "en_pending e name = Some 1"
  shows "installCableWithNATInfo L D info' (fst (installCableWithNATInfo L D info e)) =
    (fst (installCableWithNATInfo L D info e), None)"
proof -
  have "en_pending (fst (installCableWithNATInfo L D info e)) name = None"
    using assms(1,3)
    by (auto simp: installCableWithNATInfo_def shouldProceedWithInstallation_def Let_def
        split: option.split prod.split sum.split loopOutcome.split)
  then show ?thesis
    by (simp add: installCableWithNATInfo_def shouldProceedWithInstallation_def assms(2))
qed

theorem second_result_ignored_witness:
  "installCableWithNATInfo ref_libs (vxlanDriver ref_libs ref_netLink) (example_info\<lparr>ni_UseIP := ''10.0.0.3''\<rparr>)
     (fst (installCableWithNATInfo ref_libs (vxlanDriver ref_libs ref_netLink) example_info example_run2)) =
   (fst (installCableWithNATInfo ref_libs (vxlanDriver ref_libs ref_netLink) example_info example_run2), None)"
proof -
  let ?k = "GetFamilyCableName (ep_Spec (ni_Endpoint example_info)) (ni_UseFamily example_info)"
  have p: "en_pending example_run2 ?k = Some 1" by code_simp
  show ?thesis by (rule second_result_ignored [OF _ _ p]) simp_all
qed

text \<open>A result whose endpoint has other subnets than the connected one, and the same creation time, cable,
  address, NAT setting and backend configuration, leaves the connection as it is, with the old subnets.\<close>

theorem changed_subnets_not_installed:
  assumes "libs_ok L" and "engine_reachable L T (vxlanDriver L N) (vxlan_drivers L N k) owner localID e"
    and "en_driver e = Some v" and "c \<in> set (vx_connections v)" and "replaced L info c"
    and "same_connection info c" and "CableName (conn_Endpoint c) = CableName (ep_Spec (ni_Endpoint info))"
    and "ep_CreationTimestamp (ni_Endpoint info) =
      installed_at (en_installed e) (GetFamilyCableName (conn_Endpoint c) (GetFamily L c))"
  shows "en_driver (fst (installCableWithNATInfo L (vxlanDriver L N) info e)) = Some v \<and>
    snd (installCableWithNATInfo L (vxlanDriver L N) info e) = None"
  using vxlan.install_kept [OF vxlan.engine_reachable_inv [OF assms(2,1)] assms(3) _ assms(5)] assms(4-)
  by (simp add: keeps_def Let_def replaced_def cluster_family_def GetFamilyCableName_def)

theorem changed_subnets_not_installed_witness:
  "en_driver (fst (installCableWithNATInfo ref_libs (vxlanDriver ref_libs ref_netLink)
     (example_info\<lparr>ni_Endpoint := (west 100)\<lparr>ep_Spec := (ep_Spec (west 100))\<lparr>Subnets := []\<rparr>\<rparr>\<rparr>) example_run3)) =
   Some (example_v example_run3)"
proof -
  let ?c = "hd (vx_connections (example_v example_run3))"
  let ?i = "example_info\<lparr>ni_Endpoint := (west 100)\<lparr>ep_Spec := (ep_Spec (west 100))\<lparr>Subnets := []\<rparr>\<rparr>\<rparr>"
  have "vx_connections (example_v example_run3) \<noteq> []" by code_simp
  then have c: "?c \<in> set (vx_connections (example_v example_run3))" by simp
  have r: "replaced ref_libs ?i ?c" by code_simp
  have s: "same_connection ?i ?c" by code_simp
  have n: "CableName (conn_Endpoint ?c) = CableName (ep_Spec (ni_Endpoint ?i))" by code_simp
  have t: "ep_CreationTimestamp (ni_Endpoint ?i) =
      installed_at (en_installed example_run3) (GetFamilyCableName (conn_Endpoint ?c) (GetFamily ref_libs ?c))"
    by code_simp
  show ?thesis
    using changed_subnets_not_installed [OF ref_libs_ok example_run3_reachable example_driver(2) c r s n t] by simp
qed

end
