(* ===== verification/Pinger.thy ===== *)
theory Pinger
  imports EndpointApi
begin

text \<open>
  \<open>pkg/pinger\<close> and \<open>pkg/cableengine/healthchecker\<close>: the latency statistics of a pinger (64-bit
  arithmetic, written with its wrap-around), the callbacks it gives the ping library, the controller that
  keeps one pinger per remote cable and family, and the health checker that drives it.

  The ping library (\<open>pro-bing\<close>) is outside the repository: the callbacks receive its packet counters as
  arguments. \<open>int64(math.Sqrt(float64(x)))\<close> is the argument \<open>sq\<close>, since its value on a negative number
  depends on the platform.
\<close>

section \<open>Statistics\<close>

record statistics =
  st_previousRtts :: "int list"
  st_sum :: int
  st_mean :: int
  st_stdDev :: int
  st_lastRtt :: int
  st_minRtt :: int
  st_maxRtt :: int
  st_sqrDiff :: int
  st_index :: int
  st_size :: int

definition new_statistics :: "int \<Rightarrow> statistics" where
  "new_statistics size' = \<lparr>st_previousRtts = replicate (nat size') 0, st_sum = 0, st_mean = 0, st_stdDev = 0,
     st_lastRtt = 0, st_minRtt = 0, st_maxRtt = 0, st_sqrDiff = 0, st_index = 0, st_size = size'\<rparr>"

text \<open>Writing or reading outside the slice panics: None.\<close>

definition slice_get :: "int list \<Rightarrow> int \<Rightarrow> int option" where
  "slice_get xs i = (if 0 \<le> i \<and> i < int (length xs) then Some (xs ! nat i) else None)"

definition slice_set :: "int list \<Rightarrow> int \<Rightarrow> int \<Rightarrow> int list option" where
  "slice_set xs i v = (if 0 \<le> i \<and> i < int (length xs) then Some (xs[nat i := v]) else None)"

definition stat_reset :: "statistics \<Rightarrow> statistics option" where
  "stat_reset s =
     Option.bind (slice_get (st_previousRtts s) (st_size s - 2)) (\<lambda>a.
     Option.bind (slice_set (st_previousRtts s) 0 a) (\<lambda>prev1.
     Option.bind (slice_get prev1 (st_size s - 1)) (\<lambda>b.
     Option.bind (slice_set prev1 1 b) (\<lambda>prev2.
       let sum = wrap64 (a + b); mean = quot64 sum 2 in
       Some (s\<lparr>st_index := 2, st_previousRtts := prev2, st_sum := sum, st_mean := mean,
               st_sqrDiff := wrap64 ((a - mean) * (a - mean) + (b - mean) * (b - mean))\<rparr>)))))"

definition update :: "(int \<Rightarrow> int) \<Rightarrow> int \<Rightarrow> statistics \<Rightarrow> statistics option" where
  "update sq rtt s0 =
     Option.bind (let s = s0\<lparr>st_lastRtt := rtt\<rparr>
                  in if st_index s = st_size s then stat_reset s else Some s) (\<lambda>s.
     if st_index s + 1 > 1 then
       Option.bind (slice_set (st_previousRtts s) (st_index s) rtt) (\<lambda>prev.
         let minRtt = (if st_minRtt s = 0 \<or> st_minRtt s > rtt then rtt else st_minRtt s);
             maxRtt = (if st_maxRtt s < rtt then rtt else st_maxRtt s);
             sum = wrap64 (st_sum s + rtt);
             mean = quot64 sum (st_index s + 1);
             sqrDiff = wrap64 (st_sqrDiff s + (rtt - st_mean s) * (rtt - mean)) in
         Some (s\<lparr>st_previousRtts := prev, st_minRtt := minRtt, st_maxRtt := maxRtt, st_sum := sum,
                 st_mean := mean, st_sqrDiff := sqrDiff,
                 st_stdDev := sq (quot64 sqrDiff (st_index s + 1)), st_index := st_index s + 1\<rparr>))
     else
       Option.bind (slice_set (st_previousRtts s) (st_index s) rtt) (\<lambda>prev.
         Some (s\<lparr>st_previousRtts := prev, st_minRtt := rtt, st_maxRtt := rtt, st_sum := rtt,
                 st_mean := rtt, st_sqrDiff := 0, st_stdDev := 0, st_index := st_index s + 1\<rparr>)))"

fun updates :: "(int \<Rightarrow> int) \<Rightarrow> int list \<Rightarrow> statistics \<Rightarrow> statistics option" where
  "updates sq [] s = Some s"
| "updates sq (r # rs) s = Option.bind (update sq r s) (updates sq rs)"

section \<open>One pinger\<close>

datatype PingStatus = PingNoStatus | PingConnected | PingUnknown | PingError

record LatencyInfo =
  li_ConnectionError :: string
  li_ConnectionStatus :: PingStatus
  li_IP :: string
  li_Spec :: LatencyRTTSpec

record PingerConfig =
  pc_IP :: string
  pc_Interval :: int
  pc_Timeout :: int
  pc_MaxPacketLossCount :: int

record pingerImpl =
  pi_ip :: string
  pi_pingInterval :: int
  pi_pingTimeout :: int
  pi_maxPacketLossCount :: int
  pi_statistics :: statistics
  pi_failureMsg :: string
  pi_connectionStatus :: PingStatus
  pi_started :: bool
  pi_stopped :: bool        \<comment> \<open>\<open>stopCh\<close> is closed\<close>
  pi_sendErrors :: "32 word"

definition second :: int where "second = 1000000000"
definition defaultMaxPacketLossCount :: int where "defaultMaxPacketLossCount = 5"
definition defaultPingInterval :: int where "defaultPingInterval = 1 * second"
definition statistics_size :: int where "statistics_size = 1000"
definition defaultPingTimeout :: int where "defaultPingTimeout = 87600 * 3600 * second"

definition NewPinger :: "PingerConfig \<Rightarrow> pingerImpl" where
  "NewPinger config = \<lparr>pi_ip = pc_IP config,
     pi_pingInterval = (if pc_Interval config = 0 then defaultPingInterval else pc_Interval config),
     pi_pingTimeout = (if pc_Timeout config = 0 then defaultPingTimeout else pc_Timeout config),
     pi_maxPacketLossCount =
       (if pc_MaxPacketLossCount config = 0 then defaultMaxPacketLossCount else pc_MaxPacketLossCount config),
     pi_statistics = new_statistics statistics_size, pi_failureMsg = [],
     pi_connectionStatus = PingNoStatus, pi_started = False, pi_stopped = False, pi_sendErrors = 0\<rparr>"

definition pinger_Start :: "pingerImpl \<Rightarrow> pingerImpl" where
  "pinger_Start p = p\<lparr>pi_started := True\<rparr>"

text \<open>Closing the channel twice would panic; \<open>Stop\<close> looks first.\<close>

definition pinger_Stop :: "pingerImpl \<Rightarrow> pingerImpl" where
  "pinger_Stop p = (if pi_stopped p then p else p\<lparr>pi_stopped := True\<rparr>)"

text \<open>The packet counters of the library's pinger, and whether its \<open>Stop\<close> was called.\<close>

record prober =
  pr_PacketsSent :: int
  pr_PacketsRecv :: int
  pr_stopped :: bool

definition ping_failed :: "string \<Rightarrow> string" where
  "ping_failed ip = ''Failed to successfully ping the remote endpoint IP '' @ ip"

definition checkPacketLoss :: "pingerImpl \<times> prober \<Rightarrow> pingerImpl \<times> prober" where
  "checkPacketLoss x = (case x of (p, pr) \<Rightarrow>
     if pr_PacketsSent pr + sint (pi_sendErrors p) - pr_PacketsRecv pr > pi_maxPacketLossCount p
     then (p\<lparr>pi_connectionStatus := PingError, pi_failureMsg := ping_failed (pi_ip p)\<rparr>, pr\<lparr>pr_stopped := True\<rparr>)
     else (p, pr))"

definition OnSend :: "pingerImpl \<times> prober \<Rightarrow> pingerImpl \<times> prober" where
  "OnSend x = checkPacketLoss x"

definition ENOBUFS :: err where "ENOBUFS = Sentinel ''no buffer space available''"

definition OnSendError :: "err \<Rightarrow> pingerImpl \<times> prober \<Rightarrow> pingerImpl \<times> prober" where
  "OnSendError e x =
     (if errors_is e ENOBUFS then x
      else checkPacketLoss (apfst (\<lambda>p. p\<lparr>pi_sendErrors := pi_sendErrors p + 1\<rparr>) x))"

text \<open>A reply; None is a panic of the statistics.\<close>

definition OnRecv :: "(int \<Rightarrow> int) \<Rightarrow> int \<Rightarrow> pingerImpl \<times> prober \<Rightarrow> (pingerImpl \<times> prober) option" where
  "OnRecv sq rtt x = (case x of (p, pr) \<Rightarrow>
     map_option (\<lambda>st.
       (p\<lparr>pi_connectionStatus := PingConnected, pi_failureMsg := [], pi_statistics := st, pi_sendErrors := 0\<rparr>,
        pr\<lparr>pr_PacketsSent := 0, pr_PacketsRecv := 0\<rparr>)) (update sq rtt (pi_statistics p)))"

text \<open>The two ways \<open>doPing\<close> fails: the library's pinger cannot be created, or its run ends with an error.\<close>

definition doPing_create_failed :: "string \<Rightarrow> pingerImpl \<Rightarrow> pingerImpl" where
  "doPing_create_failed msg p = p\<lparr>pi_connectionStatus := PingUnknown, pi_failureMsg := msg\<rparr>"

definition doPing_run_failed :: "string \<Rightarrow> pingerImpl \<Rightarrow> pingerImpl" where
  "doPing_run_failed msg p =
     (if pi_connectionStatus p \<noteq> PingError then p\<lparr>pi_connectionStatus := PingUnknown\<rparr> else p)
       \<lparr>pi_failureMsg := msg\<rparr>"

text \<open>\<open>time.Duration.String\<close> is the argument \<open>durationString\<close>.\<close>

definition pinger_GetLatencyInfo :: "(int \<Rightarrow> string) \<Rightarrow> pingerImpl \<Rightarrow> LatencyInfo" where
  "pinger_GetLatencyInfo durationString p =
     (let s = pi_statistics p in
      \<lparr>li_ConnectionError = pi_failureMsg p, li_ConnectionStatus = pi_connectionStatus p, li_IP = pi_ip p,
       li_Spec = \<lparr>rtt_Last = durationString (st_lastRtt s), rtt_Min = durationString (st_minRtt s),
         rtt_Average = durationString (st_mean s), rtt_Max = durationString (st_maxRtt s),
         rtt_StdDev = durationString (st_stdDev s)\<rparr>\<rparr>)"

section \<open>The pinger controller\<close>

text \<open>
  \<open>pc_heap\<close> holds every pinger object the controller ever made, in order; the map refers to them by
  position, as the Go map refers to them by pointer.
\<close>

record pingerController =
  pc_SupportedIPFamilies :: "IPFamily list"
  pc_PingInterval :: int
  pc_MaxLoss :: int
  pc_heap :: "pingerImpl list"
  pc_pingers :: "string \<rightharpoonup> nat"

text \<open>Creating a controller without families panics: None.\<close>

definition NewController :: "IPFamily list \<Rightarrow> int \<Rightarrow> int \<Rightarrow> pingerController option" where
  "NewController families interval maxLoss =
     (if families = [] then None
      else Some \<lparr>pc_SupportedIPFamilies = families, pc_PingInterval = interval, pc_MaxLoss = maxLoss,
                 pc_heap = [], pc_pingers = Map.empty\<rparr>)"

definition stop_at :: "nat \<Rightarrow> pingerImpl list \<Rightarrow> pingerImpl list" where
  "stop_at i ps = ps[i := pinger_Stop (ps ! i)]"

definition startPinger :: "string \<Rightarrow> string \<Rightarrow> pingerController \<Rightarrow> pingerController" where
  "startPinger familyCableName healthCheckIP c =
     (let start = (\<lambda>c. c\<lparr>pc_heap := pc_heap c @ [pinger_Start (NewPinger
            \<lparr>pc_IP = healthCheckIP, pc_Interval = (if pc_PingInterval c \<noteq> 0 then second * pc_PingInterval c else 0),
             pc_Timeout = 0, pc_MaxPacketLossCount = pc_MaxLoss c\<rparr>)],
            pc_pingers := (pc_pingers c)(familyCableName \<mapsto> length (pc_heap c))\<rparr>) in
      case pc_pingers c familyCableName of
        None \<Rightarrow> start c
      | Some i \<Rightarrow>
          if pi_ip (pc_heap c ! i) = healthCheckIP then c
          else start (c\<lparr>pc_heap := stop_at i (pc_heap c), pc_pingers := (pc_pingers c)(familyCableName := None)\<rparr>))"

definition pc_EndpointCreatedOrUpdated :: "libs \<Rightarrow> EndpointSpec \<Rightarrow> pingerController \<Rightarrow> pingerController" where
  "pc_EndpointCreatedOrUpdated L spec c =
     foldl (\<lambda>c family. let healthCheckIP = GetHealthCheckIP L family spec in
         if healthCheckIP = [] then c else startPinger (GetFamilyCableName spec family) healthCheckIP c)
       c (pc_SupportedIPFamilies c)"

definition removePinger :: "string \<Rightarrow> pingerController \<Rightarrow> pingerController" where
  "removePinger familyCableName c = (case pc_pingers c familyCableName of
      None \<Rightarrow> c
    | Some i \<Rightarrow> c\<lparr>pc_heap := stop_at i (pc_heap c), pc_pingers := (pc_pingers c)(familyCableName := None)\<rparr>)"

definition pc_EndpointRemoved :: "EndpointSpec \<Rightarrow> pingerController \<Rightarrow> pingerController" where
  "pc_EndpointRemoved spec c =
     foldl (\<lambda>c family. removePinger (GetFamilyCableName spec family) c) c (pc_SupportedIPFamilies c)"

definition pc_Get :: "EndpointSpec \<Rightarrow> IPFamily \<Rightarrow> pingerController \<Rightarrow> pingerImpl option" where
  "pc_Get spec family c = map_option (\<lambda>i. pc_heap c ! i) (pc_pingers c (GetFamilyCableName spec family))"

text \<open>\<open>order\<close> is the order in which the loop of \<open>Stop\<close> visits the map.\<close>

definition pc_Stop :: "string list \<Rightarrow> pingerController \<Rightarrow> pingerController" where
  "pc_Stop order c = c\<lparr>pc_heap := foldl (\<lambda>h name. case pc_pingers c name of
        None \<Rightarrow> h | Some i \<Rightarrow> stop_at i h) (pc_heap c) order,
     pc_pingers := Map.empty\<rparr>"

section \<open>The health checker\<close>

definition hc_GetLatencyInfo ::
  "(int \<Rightarrow> string) \<Rightarrow> pingerController \<Rightarrow> EndpointSpec \<Rightarrow> IPFamily \<Rightarrow> LatencyInfo option" where
  "hc_GetLatencyInfo durationString c endpoint ipFamily =
     map_option (pinger_GetLatencyInfo durationString) (pc_Get endpoint ipFamily c)"

definition hc_endpointCreatedOrUpdated ::
  "libs \<Rightarrow> string \<Rightarrow> Endpoint \<Rightarrow> pingerController \<Rightarrow> pingerController \<times> bool" where
  "hc_endpointCreatedOrUpdated L clusterID endpoint c =
     (if ClusterID (ep_Spec endpoint) = clusterID then (c, False)
      else (pc_EndpointCreatedOrUpdated L (ep_Spec endpoint) c, False))"

definition hc_endpointDeleted :: "Endpoint \<Rightarrow> pingerController \<Rightarrow> pingerController \<times> bool" where
  "hc_endpointDeleted endpoint c = (pc_EndpointRemoved (ep_Spec endpoint) c, False)"

end
