(* ===== verification/PingerProps.thy ===== *)
theory PingerProps
  imports Pinger
begin

text \<open>
  Properties of the pinger: the statistics never leave their slice and give the true minimum, maximum and
  mean of the last round trips; their square differences do not overflow below a bound, and can beyond it; lost packets and
  failed sends lead to the error state, and the controller runs exactly the pingers it knows.
\<close>

section \<open>Statistics\<close>

definition st_inv :: "statistics \<Rightarrow> bool" where
  "st_inv s \<longleftrightarrow> int (length (st_previousRtts s)) = st_size s \<and> 3 \<le> st_size s \<and>
     0 \<le> st_index s \<and> st_index s \<le> st_size s"

lemma st_inv_new: "3 \<le> n \<Longrightarrow> st_inv (new_statistics n)"
  by (simp add: st_inv_def new_statistics_def)

lemma stat_reset_ok:
  assumes "st_inv s"
  shows "\<exists>s'. stat_reset s = Some s' \<and> st_inv s' \<and> st_index s' = 2 \<and> st_size s' = st_size s \<and>
    st_minRtt s' = st_minRtt s \<and> st_maxRtt s' = st_maxRtt s \<and> st_lastRtt s' = st_lastRtt s"
  using assms by (auto simp: stat_reset_def slice_get_def slice_set_def st_inv_def Let_def)

lemma update_ok:
  assumes "st_inv s"
  shows "\<exists>s'. update sq r s = Some s' \<and> st_inv s' \<and> st_lastRtt s' = r \<and> 1 \<le> st_index s' \<and> st_size s' = st_size s \<and>
    st_minRtt s' = (if st_index s = 0 \<or> st_minRtt s = 0 \<or> st_minRtt s > r then r else st_minRtt s) \<and>
    st_maxRtt s' = (if st_index s = 0 \<or> st_maxRtt s < r then r else st_maxRtt s) \<and>
    (st_index s < st_size s \<longrightarrow> st_index s' = st_index s + 1)"
proof (cases "st_index s = st_size s")
  case True
  let ?s = "s\<lparr>st_lastRtt := r\<rparr>"
  have "st_inv ?s" using assms by (simp add: st_inv_def)
  from stat_reset_ok [OF this] obtain s1 where
    s1: "stat_reset ?s = Some s1" "st_inv s1" "st_index s1 = 2" "st_size s1 = st_size s"
      "st_minRtt s1 = st_minRtt s" "st_maxRtt s1 = st_maxRtt s" "st_lastRtt s1 = r" by auto
  have "st_index s \<noteq> 0" using True assms by (simp add: st_inv_def)
  with True s1 show ?thesis
    by (auto simp: update_def slice_set_def st_inv_def Let_def)
next
  case False
  with assms show ?thesis
    by (auto simp: update_def slice_set_def st_inv_def Let_def)
qed

lemma updates_snoc: "updates sq (rs @ [r]) s = Option.bind (updates sq rs s) (update sq r)"
  by (induction rs arbitrary: s) (auto split: Option.bind_split)

text \<open>The statistics never index outside their slice, and after any number of round trip times, all
  positive, they hold the last one and the true minimum and maximum of all of them, resets included.\<close>

theorem statistics_min_max:
  assumes "3 \<le> n" and "rs \<noteq> []" and "\<forall>r\<in>set rs. 0 < r"
  shows "\<exists>s. updates sq rs (new_statistics n) = Some s \<and> st_lastRtt s = last rs \<and>
    st_minRtt s = Min (set rs) \<and> st_maxRtt s = Max (set rs)"
proof -
  have "\<exists>s. updates sq rs (new_statistics n) = Some s \<and> st_inv s \<and>
      (rs = [] \<longrightarrow> st_index s = 0) \<and>
      (rs \<noteq> [] \<longrightarrow> 1 \<le> st_index s \<and> st_lastRtt s = last rs \<and> st_minRtt s = Min (set rs) \<and> st_maxRtt s = Max (set rs))"
    using assms(3)
  proof (induction rs rule: rev_induct)
    case Nil
    show ?case using st_inv_new [OF assms(1)] by (simp add: new_statistics_def)
  next
    case (snoc r rs)
    then obtain s where s: "updates sq rs (new_statistics n) = Some s" "st_inv s"
      "rs = [] \<longrightarrow> st_index s = 0"
      "rs \<noteq> [] \<longrightarrow> 1 \<le> st_index s \<and> st_lastRtt s = last rs \<and> st_minRtt s = Min (set rs) \<and> st_maxRtt s = Max (set rs)"
      by auto
    from update_ok [OF s(2), of sq r] obtain s' where s': "update sq r s = Some s'" "st_inv s'" "st_lastRtt s' = r"
      "1 \<le> st_index s'"
      "st_minRtt s' = (if st_index s = 0 \<or> st_minRtt s = 0 \<or> st_minRtt s > r then r else st_minRtt s)"
      "st_maxRtt s' = (if st_index s = 0 \<or> st_maxRtt s < r then r else st_maxRtt s)" by auto
    have "st_minRtt s' = Min (set (rs @ [r])) \<and> st_maxRtt s' = Max (set (rs @ [r]))"
    proof (cases "rs = []")
      case True
      with s(3) s'(5,6) show ?thesis by simp
    next
      case False
      then have "Min (set rs) \<in> set rs" by simp
      with snoc.prems have "Min (set rs) \<noteq> 0" by fastforce
      moreover have "Min (set (rs @ [r])) = min r (Min (set rs))" "Max (set (rs @ [r])) = max r (Max (set rs))"
        using False by simp_all
      moreover obtain m m' where "Min (set rs) = m" "Max (set rs) = m'" by blast
      ultimately show ?thesis using False s(4) s'(5,6) by (auto simp: min_def max_def)
    qed
    with s(1) s' show ?case by (simp add: updates_snoc)
  qed
  then show ?thesis using assms(2) by blast
qed

theorem statistics_min_max_witness:
  "\<exists>s. updates (\<lambda>x. x) [5, 3, 9, 4] (new_statistics 3) = Some s \<and> st_minRtt s = 3 \<and> st_maxRtt s = 9"
  using statistics_min_max [of 3 "[5, 3, 9, 4]" "\<lambda>x. x"] by (auto simp del: updates.simps)

lemma quot64_div: "0 \<le> a \<Longrightarrow> a < 2 ^ 63 \<Longrightarrow> 0 < b \<Longrightarrow> quot64 a b = a div b"
proof -
  assume a: "0 \<le> a" "a < 2 ^ 63" and b: "0 < b"
  have "0 \<le> a div b" "a div b \<le> a"
    using a b zdiv_mono2 [of a 1 b] by (simp_all add: pos_imp_zdiv_nonneg_iff)
  then have "wrap64 (a div b) = a div b" using a by (intro wrap64_id) auto
  with a b show ?thesis by (auto simp: quot64_def sgn_if)
qed

text \<open>Until the slice is full, and as long as the sum of the round trip times fits in 63 bits, the average is
  the mean of all round trip times, rounded down.\<close>

theorem statistics_mean:
  assumes "3 \<le> n" and "rs \<noteq> []" and "int (length rs) \<le> n" and "\<forall>r\<in>set rs. 0 < r" and "sum_list rs < 2 ^ 63"
  shows "\<exists>s. updates sq rs (new_statistics n) = Some s \<and> st_mean s = sum_list rs div int (length rs)"
proof -
  have "\<exists>s. updates sq rs (new_statistics n) = Some s \<and> st_inv s \<and> st_index s = int (length rs) \<and>
      st_size s = n \<and> (rs \<noteq> [] \<longrightarrow> st_sum s = sum_list rs \<and> st_mean s = sum_list rs div int (length rs))"
    using assms(3-5)
  proof (induction rs rule: rev_induct)
    case Nil
    show ?case using st_inv_new [OF assms(1)] by (simp add: new_statistics_def)
  next
    case (snoc r rs)
    have nonneg: "0 \<le> sum_list rs" "0 < r" using snoc.prems(2) by (auto intro!: sum_list_nonneg intro: less_imp_le)
    with snoc obtain s where s: "updates sq rs (new_statistics n) = Some s" "st_inv s"
      "st_index s = int (length rs)" "st_size s = n"
      "rs \<noteq> [] \<longrightarrow> st_sum s = sum_list rs \<and> st_mean s = sum_list rs div int (length rs)"
      by auto
    have lt: "st_index s < n" using snoc.prems(1) s(3) by simp
    from update_ok [OF s(2), of sq r] lt s(4) obtain s' where
      s': "update sq r s = Some s'" "st_inv s'" "st_size s' = n" "st_index s' = st_index s + 1" by auto
    have fit: "0 \<le> sum_list rs + r" "sum_list rs + r < 2 ^ 63" using snoc.prems(3) nonneg by simp_all
    have w: "wrap64 (sum_list rs + r) = sum_list rs + r" using fit by (intro wrap64_id) simp_all
    have "st_sum s' = sum_list rs + r \<and> st_mean s' = (sum_list rs + r) div (int (length rs) + 1)"
    proof (cases "rs = []")
      case True
      with s'(1) s(3,4) lt assms(1) show ?thesis
        by (auto simp: update_def Let_def split: Option.bind_split_asm)
    next
      case False
      with s'(1) s(3-5) lt show ?thesis
        by (auto simp: update_def Let_def w quot64_div [OF fit] split: Option.bind_split_asm)
    qed
    with s(1,3) s' show ?case by (simp add: updates_snoc add.commute)
  qed
  then show ?thesis using assms(2) by blast
qed

theorem statistics_mean_witness:
  "\<exists>s. updates (\<lambda>x. x) [5, 3, 10] (new_statistics 3) = Some s \<and> st_mean s = 6"
  using statistics_mean [of 3 "[5, 3, 10]" "\<lambda>x. x"] by (simp del: updates.simps)

text \<open>The sum, the mean and the square difference belong to a window \<open>w\<close> of round trips, the first entries of the slice.\<close>

definition window :: "int \<Rightarrow> statistics \<Rightarrow> int list \<Rightarrow> bool" where
  "window B s w \<longleftrightarrow> st_inv s \<and> int (length w) = st_index s \<and> take (length w) (st_previousRtts s) = w \<and>
     (\<forall>r\<in>set w. 0 \<le> r \<and> r \<le> B) \<and>
     (w \<noteq> [] \<longrightarrow> st_sum s = sum_list w \<and> st_mean s = sum_list w div int (length w) \<and>
        0 \<le> st_sqrDiff s \<and> st_sqrDiff s \<le> int (length w) * (B * B))"

lemma window_lastRtt: "window B (s\<lparr>st_lastRtt := r\<rparr>) w = window B s w"
  by (simp add: window_def st_inv_def)

lemma sum_in_range: "\<forall>r\<in>set w. 0 \<le> r \<and> r \<le> (B :: int) \<Longrightarrow> 0 \<le> sum_list w \<and> sum_list w \<le> int (length w) * B"
  by (induction w) (auto simp: algebra_simps)

lemma mean_in_range: "0 < l \<Longrightarrow> 0 \<le> S \<Longrightarrow> S \<le> l * B \<Longrightarrow> 0 \<le> S div l \<and> S div l \<le> (B :: int)"
  using zdiv_mono1 [of S "l * B" l] by (simp add: pos_imp_zdiv_nonneg_iff)

lemma product_in_range: "\<bar>x\<bar> \<le> B \<Longrightarrow> \<bar>y\<bar> \<le> (B :: int) \<Longrightarrow> \<bar>x * y\<bar> \<le> B * B"
  unfolding abs_mult by (rule mult_mono) auto

lemma le_div_int: "0 < l \<Longrightarrow> q \<le> S div l \<longleftrightarrow> q * l \<le> (S :: int)"
proof
  assume l: "0 < l" and "q \<le> S div l"
  then have "q * l \<le> S div l * l" by (simp add: mult_right_mono)
  also have "\<dots> \<le> S" using l by (simp add: minus_mod_eq_div_mult [symmetric])
  finally show "q * l \<le> S" .
next
  assume "0 < l" "q * l \<le> S"
  then show "q \<le> S div l" using zdiv_mono1 [of "q * l" S l] by simp
qed

text \<open>Although the means are rounded down, a round trip never lies between the old and the new one.\<close>

lemma same_side:
  assumes "0 < (l :: int)"
  shows "0 \<le> (r - S div l) * (r - (S + r) div (l + 1))"
proof -
  consider "r = S div l" | "S div l < r" | "r < S div l" by linarith
  then show ?thesis
  proof cases
    case 2
    then have "S \<le> l * r" using le_div_int [OF assms, of r S] by (simp add: mult.commute)
    then have "S + r < (l + 1) * (r + 1)" using assms by (simp add: algebra_simps)
    then have "(S + r) div (l + 1) < r + 1" using assms le_div_int [of "l + 1" "r + 1" "S + r"] by (simp add: algebra_simps)
    with 2 show ?thesis by simp
  next
    case 3
    then have "l * r \<le> S" using le_div_int [OF assms, of r S] by (simp add: mult.commute)
    then have "r * (l + 1) \<le> S + r" by (simp add: algebra_simps)
    then have "r \<le> (S + r) div (l + 1)" using assms le_div_int [of "l + 1" r "S + r"] by simp
    with 3 show ?thesis by (simp add: mult_nonpos_nonpos)
  qed simp
qed

lemma size_fits:
  assumes "0 \<le> B" "n * (B * B) < 2 ^ 63" "0 \<le> l" "l \<le> n"
  shows "l * (B * B) < 2 ^ 63" and "l * B < (2 ^ 63 :: int)"
proof -
  have "l * (B * B) \<le> n * (B * B)" using assms by (intro mult_right_mono) simp_all
  with assms(2) show a: "l * (B * B) < 2 ^ 63" by simp
  have "B \<le> B * B" using assms(1) mult_right_mono [of 1 B B] by (cases "B = 0") auto
  then have "l * B \<le> l * (B * B)" using assms(3) by (intro mult_left_mono)
  with a show "l * B < 2 ^ 63" by simp
qed

lemma window_push:
  assumes w: "window B s w" and l: "int (length w) < st_size s" and r: "0 \<le> r" "r \<le> B" and fit: "st_size s * (B * B) < 2 ^ 63"
  shows "\<exists>s'. update sq r s = Some s' \<and> window B s' (w @ [r]) \<and> st_size s' = st_size s \<and> st_lastRtt s' = r \<and>
    (w \<noteq> [] \<longrightarrow> st_stdDev s' = sq (st_sqrDiff s' div int (length (w @ [r]))))"
proof -
  let ?l = "int (length w)"
  let ?p = "(st_previousRtts s)[length w := r]"
  have inv: "st_inv s" "st_index s = ?l" "int (length (st_previousRtts s)) = st_size s" "3 \<le> st_size s"
    using w by (auto simp: window_def st_inv_def)
  have len: "length w < length (st_previousRtts s)" using l inv(3) by simp
  have prev: "take (Suc (length w)) ?p = w @ [r]" "length ?p = length (st_previousRtts s)"
    using w len by (simp_all add: window_def take_Suc_conv_app_nth)
  have B: "0 \<le> B" using r by simp
  have set: "slice_set (st_previousRtts s) ?l r = Some ?p" using len by (simp add: slice_set_def)
  show ?thesis
  proof (cases "w = []")
    case True
    then have "update sq r s = Some (s\<lparr>st_lastRtt := r, st_previousRtts := ?p, st_minRtt := r, st_maxRtt := r, st_sum := r,
        st_mean := r, st_sqrDiff := 0, st_stdDev := 0, st_index := 1\<rparr>)"
      using inv l set by (simp add: update_def)
    with True prev inv r show ?thesis by (auto simp: window_def st_inv_def)
  next
    case False
    let ?S = "sum_list w" and ?m = "sum_list w div ?l" and ?m' = "(sum_list w + r) div (?l + 1)"
    let ?q = "st_sqrDiff s + (r - ?m) * (r - ?m')"
    have pos: "0 < ?l" using False by simp
    have old: "st_sum s = ?S" "st_mean s = ?m" "0 \<le> st_sqrDiff s" "st_sqrDiff s \<le> ?l * (B * B)" "\<forall>x\<in>set w. 0 \<le> x \<and> x \<le> B"
      using w False by (auto simp: window_def)
    note S = sum_in_range [OF old(5)]
    have S': "0 \<le> ?S + r" "?S + r \<le> (?l + 1) * B" using S r by (auto simp: algebra_simps)
    note fits = size_fits [OF B fit, of "?l + 1"]
    have sum: "wrap64 (?S + r) = ?S + r" using S' fits(2) l pos by (intro wrap64_id) auto
    have mean: "quot64 (?S + r) (?l + 1) = ?m'" using S' fits(2) l pos by (intro quot64_div) auto
    have "\<bar>(r - ?m) * (r - ?m')\<bar> \<le> B * B"
      using mean_in_range [OF pos, of ?S B] mean_in_range [of "?l + 1" "?S + r" B] S S' pos r by (intro product_in_range) auto
    with same_side [OF pos, of r ?S] old(3,4) have q: "0 \<le> ?q" "?q \<le> (?l + 1) * (B * B)" by (auto simp: algebra_simps)
    have sqr: "wrap64 ?q = ?q" using q fits(1) l pos by (intro wrap64_id) auto
    have dev: "quot64 ?q (?l + 1) = ?q div (?l + 1)" using q fits(1) l pos by (intro quot64_div) auto
    obtain s' where s': "update sq r s = Some s'" "st_previousRtts s' = ?p" "st_sum s' = ?S + r" "st_mean s' = ?m'" "st_sqrDiff s' = ?q"
      "st_stdDev s' = sq (?q div (?l + 1))" "st_index s' = ?l + 1" "st_size s' = st_size s" "st_lastRtt s' = r"
      using inv l pos by (auto simp: update_def Let_def set old(1,2) sum mean sqr dev)
    have "window B s' (w @ [r])"
      using s' prev inv l r q old(5) by (auto simp: window_def st_inv_def add.commute)
    with s' show ?thesis by (auto simp: add.commute)
  qed
qed

lemma window_reset:
  assumes w: "window B s w" and l: "int (length w) = st_size s" and fit: "st_size s * (B * B) < 2 ^ 63"
  shows "\<exists>s'. stat_reset s = Some s' \<and> window B s' (drop (length w - 2) w) \<and> st_size s' = st_size s \<and> st_lastRtt s' = st_lastRtt s"
proof -
  let ?p = "st_previousRtts s"
  have inv: "int (length ?p) = st_size s" "3 \<le> st_size s" "?p = w" "\<forall>x\<in>set w. 0 \<le> x \<and> x \<le> B"
    using w l by (auto simp: window_def st_inv_def)
  then have len: "3 \<le> length w" using l by linarith
  define a b where ab: "a = w ! (length w - 2)" "b = w ! (length w - 1)"
  have d: "drop (length w - 2) w = [a, b]"
    using len unfolding ab by (intro nth_equalityI) (auto simp: less_Suc_eq nth_Cons split: nat.split)
  have r: "0 \<le> a" "a \<le> B" "0 \<le> b" "b \<le> B" using inv(4) len by (simp_all add: ab)
  note fits = size_fits [of B "st_size s" 2, OF _ fit]
  let ?m = "(a + b) div 2"
  have m: "0 \<le> ?m" "?m \<le> B" using r by auto
  have sum: "wrap64 (a + b) = a + b" using r fits inv(2) by (intro wrap64_id) auto
  have mean: "quot64 (a + b) 2 = ?m" using r fits inv(2) by (intro quot64_div) auto
  let ?q = "(a - ?m) * (a - ?m) + (b - ?m) * (b - ?m)"
  have "\<bar>(a - ?m) * (a - ?m)\<bar> \<le> B * B" "\<bar>(b - ?m) * (b - ?m)\<bar> \<le> B * B"
    by (rule product_in_range; use r m in auto)+
  then have q: "0 \<le> ?q" "?q \<le> 2 * (B * B)" by auto
  have sqr: "wrap64 ?q = ?q"
    by (rule wrap64_id; rule order_trans [OF _ q(1)] le_less_trans [OF q(2)]) (use fits inv(2) r in auto)
  let ?p2 = "w[0 := a, Suc 0 := b]"
  have take: "take 2 ?p2 = [a, b]" using len by (cases w; cases "tl w") (auto simp: numeral_2_eq_2)
  have get: "slice_get w (st_size s - 2) = Some a" "slice_set w 0 a = Some (w[0 := a])" "slice_get (w[0 := a]) (st_size s - 1) = Some b"
    "slice_set (w[0 := a]) 1 b = Some ?p2"
    using len l[symmetric] by (auto simp: slice_get_def slice_set_def ab nat_diff_distrib)
  have "stat_reset s = Some (s\<lparr>st_index := 2, st_previousRtts := ?p2, st_sum := a + b, st_mean := ?m, st_sqrDiff := ?q\<rparr>)"
    by (simp add: stat_reset_def inv(3) get sum mean sqr Let_def)
  moreover have "window B (s\<lparr>st_index := 2, st_previousRtts := ?p2, st_sum := a + b, st_mean := ?m, st_sqrDiff := ?q\<rparr>) [a, b]"
    using take q r inv(1-3) by (auto simp: window_def st_inv_def numeral_2_eq_2)
  ultimately show ?thesis unfolding d by auto
qed

lemma update_full:
  assumes "st_index s = st_size s" "stat_reset (s\<lparr>st_lastRtt := r\<rparr>) = Some s1" "st_index s1 \<noteq> st_size s1" "st_lastRtt s1 = r"
  shows "update sq r s = update sq r s1"
  using assms by (cases s1) (simp add: update_def)

lemma updates_window:
  assumes "3 \<le> n" and "n * (B * B) < 2 ^ 63" and "\<forall>r\<in>set rs. 0 \<le> r \<and> r \<le> B"
  shows "\<exists>s l. updates sq rs (new_statistics n) = Some s \<and> st_size s = n \<and> l \<le> length rs \<and> min 3 (length rs) \<le> l \<and>
      window B s (drop (length rs - l) rs) \<and> (2 \<le> l \<longrightarrow> st_stdDev s = sq (st_sqrDiff s div int l))"
  using assms(3)
proof (induction rs rule: rev_induct)
  case Nil
  show ?case using st_inv_new [OF assms(1)] by (auto simp: new_statistics_def window_def)
next
  case (snoc r rs)
  then obtain s l where s: "updates sq rs (new_statistics n) = Some s" "st_size s = n" "l \<le> length rs" "min 3 (length rs) \<le> l"
    "window B s (drop (length rs - l) rs)" by auto
  let ?w = "drop (length rs - l) rs"
  have w: "int (length ?w) \<le> n" "length ?w = l" using s by (auto simp: window_def st_inv_def)
  obtain s1 m where s1: "update sq r s = update sq r s1" "window B s1 (drop (length rs - m) rs)" "int m < n" "st_size s1 = n"
    "m \<le> length rs" "min 2 (length rs) \<le> m"
  proof (cases "int l = n")
    case True
    have W: "window B (s\<lparr>st_lastRtt := r\<rparr>) ?w" using s(5) by (simp only: window_lastRtt)
    have l3: "3 \<le> l" using True assms(1) by simp
    then have d: "drop (length ?w - 2) ?w = drop (length rs - 2) rs" using s(3) by simp
    have "int (length ?w) = st_size (s\<lparr>st_lastRtt := r\<rparr>)" "st_size (s\<lparr>st_lastRtt := r\<rparr>) * (B * B) < 2 ^ 63"
      using True w(2) s(2) assms(2) by simp_all
    from window_reset [OF W this] obtain s1 where r: "stat_reset (s\<lparr>st_lastRtt := r\<rparr>) = Some s1"
      "window B s1 (drop (length rs - 2) rs)" "st_size s1 = n" "st_lastRtt s1 = r" unfolding d by (auto simp: s(2))
    have i: "st_index s1 = 2" "st_index s = st_size s"
      using r(2) l3 s True w by (auto simp: window_def)
    show ?thesis
      using that [of s1 2] update_full [OF i(2) r(1)] r i(1) l3 s(3) assms(1) by auto
  qed (use that [of s l] s w in auto)
  have rs: "0 \<le> r" "r \<le> B" using snoc.prems by auto
  let ?u = "drop (length rs - m) rs"
  have u: "length ?u = m" "?u \<noteq> [] \<longleftrightarrow> m \<noteq> 0" "int (length ?u) < st_size s1" "st_size s1 * (B * B) < 2 ^ 63"
    using s1(3-5) assms(2) by auto
  from window_push [OF s1(2) u(3) rs u(4), of sq] obtain s' where s': "update sq r s1 = Some s'"
    "window B s' (?u @ [r])" "st_size s' = n" "m \<noteq> 0 \<longrightarrow> st_stdDev s' = sq (st_sqrDiff s' div int (Suc m))"
    unfolding length_append u(1,2) s1(4) by auto
  have "updates sq (rs @ [r]) (new_statistics n) = Some s'" using s(1) s1(1) s'(1) by (simp add: updates_snoc)
  moreover have "drop (length (rs @ [r]) - Suc m) (rs @ [r]) = drop (length rs - m) rs @ [r]" using s1(5) by simp
  ultimately show ?case using s' s1(5,6) by (intro exI [of _ s'] exI [of _ "Suc m"]) (auto simp: add.commute)
qed

text \<open>C35: The statistics belong to the last round trips: when no round trip is negative or exceeds \<open>B\<close>, and \<open>size\<close> times the square of \<open>B\<close> is less
  than \<open>2 ^ 63\<close>, no update overflows or leaves the slice. After any number of updates, resets included, the average is the mean, rounded down,
  of the last \<open>st_index\<close> round trips, which are at least three if there were three; the accumulated square difference is never negative and at
  most \<open>B * B\<close> for each, so the standard deviation is the root of a number from 0 to \<open>B * B\<close>.\<close>

theorem statistics_bounded:
  assumes "3 \<le> n" and "n * (B * B) < 2 ^ 63" and "\<forall>r\<in>set rs. 0 \<le> r \<and> r \<le> B" and "rs \<noteq> []"
  shows "\<exists>s l. updates sq rs (new_statistics n) = Some s \<and> st_index s = int l \<and> min 3 (length rs) \<le> l \<and> l \<le> length rs \<and> int l \<le> n \<and>
    st_mean s = sum_list (drop (length rs - l) rs) div int l \<and>
    0 \<le> st_sqrDiff s \<and> st_sqrDiff s \<le> int l * (B * B) \<and>
    (2 \<le> l \<longrightarrow> st_stdDev s = sq (st_sqrDiff s div int l) \<and> 0 \<le> st_sqrDiff s div int l \<and> st_sqrDiff s div int l \<le> B * B)"
proof -
  from updates_window [OF assms(1-3), of sq] obtain s l where s: "updates sq rs (new_statistics n) = Some s" "st_size s = n" "l \<le> length rs" "min 3 (length rs) \<le> l"
      "window B s (drop (length rs - l) rs)" "2 \<le> l \<longrightarrow> st_stdDev s = sq (st_sqrDiff s div int l)" by blast
  have "0 < l" using s(4) assms(4) by (cases rs) auto
  with s(3,5) have W: "st_inv s" "st_index s = int l" "st_mean s = sum_list (drop (length rs - l) rs) div int l" "0 \<le> st_sqrDiff s"
    "st_sqrDiff s \<le> int l * (B * B)" by (auto simp: window_def)
  moreover have "int l \<le> n" using W(1,2) s(2) by (simp add: st_inv_def)
  moreover have "0 \<le> st_sqrDiff s div int l \<and> st_sqrDiff s div int l \<le> B * B" using \<open>0 < l\<close> W by (intro mean_in_range) auto
  ultimately show ?thesis using s by blast
qed

theorem statistics_bounded_witness:
  "\<exists>s. updates (\<lambda>x. x) [5000000, 90000000, 8000000, 10000000] (new_statistics 3) = Some s \<and>
     st_mean s = 36000000 \<and> 0 \<le> st_sqrDiff s \<and> st_index s = 3"
proof -
  let ?rs = "[5000000, 90000000, 8000000, 10000000] :: int list"
  from statistics_bounded [of 3 90000000 ?rs "\<lambda>x. x"]
  obtain s l where s: "updates (\<lambda>x. x) ?rs (new_statistics 3) = Some s" "st_index s = int l" "min 3 (length ?rs) \<le> l" "int l \<le> 3"
    "st_mean s = sum_list (drop (length ?rs - l) ?rs) div int l" "0 \<le> st_sqrDiff s" by (auto simp del: updates.simps)
  moreover have "l = 3" using s(3,4) by simp
  ultimately show ?thesis by (auto simp del: updates.simps)
qed

lemma two_updates:
  assumes "3 \<le> n"
  shows "\<exists>s. updates sq [a, b] (new_statistics n) = Some s \<and>
    st_sqrDiff s = wrap64 ((b - a) * (b - quot64 (wrap64 (a + b)) 2)) \<and> st_stdDev s = sq (quot64 (st_sqrDiff s) 2)"
  using assms by (auto simp: update_def new_statistics_def slice_set_def Let_def)

lemma wrap64_above: "2 ^ 63 \<le> p \<Longrightarrow> p < 2 ^ 64 + 2 ^ 63 \<Longrightarrow> wrap64 p = p - 2 ^ 64"
proof -
  assume p: "2 ^ 63 \<le> p" "p < 2 ^ 64 + 2 ^ 63"
  then have "(p - 2 ^ 64 + 2 ^ 63) mod 2 ^ 64 = p - 2 ^ 64 + 2 ^ 63" by (intro mod_pos_pos_trivial) simp_all
  moreover have "(p - 2 ^ 64 + 2 ^ 63) mod 2 ^ 64 = (p + 2 ^ 63) mod (2 ^ 64 :: int)"
    using mod_add_self2 [of "p - 2 ^ 64 + 2 ^ 63" "2 ^ 64"] by (simp add: algebra_simps)
  ultimately show ?thesis by (simp add: wrap64_def)
qed

text \<open>Beyond such a bound the square difference may overflow: two round trips far enough apart, about four to six seconds, make it
  negative, whatever the size, and the standard deviation is the root of a negative number.\<close>

lemma square_difference_overflow:
  assumes "3 \<le> n" and "0 \<le> a" and "a + b < 2 ^ 63" and "0 \<le> b"
    and "2 ^ 63 \<le> (b - a) * (b - (a + b) div 2)" and "(b - a) * (b - (a + b) div 2) < 2 ^ 64 - 1"
  shows "\<exists>s. updates sq [a, b] (new_statistics n) = Some s \<and> st_sqrDiff s < 0 \<and>
    st_stdDev s = sq (quot64 (st_sqrDiff s) 2) \<and> quot64 (st_sqrDiff s) 2 < 0"
proof -
  let ?p = "(b - a) * (b - (a + b) div 2)"
  have "quot64 (wrap64 (a + b)) 2 = (a + b) div 2" using assms(2-4) by (simp add: wrap64_id quot64_div)
  with two_updates [OF assms(1), of sq a b] obtain s where s: "updates sq [a, b] (new_statistics n) = Some s"
    "st_sqrDiff s = wrap64 ?p" "st_stdDev s = sq (quot64 (st_sqrDiff s) 2)" by auto
  have w: "wrap64 ?p = ?p - 2 ^ 64" by (rule wrap64_above [OF assms(5) less_trans [OF assms(6)]]) simp
  have v: "- (2 ^ 63) \<le> ?p - 2 ^ 64" "?p - 2 ^ 64 \<le> -2" using assms(5,6) by simp_all
  define q where "q = ?p - 2 ^ 64"
  have q: "st_sqrDiff s = q" "- (2 ^ 63) \<le> q" "q \<le> -2" using s(2) w v by (simp_all add: q_def)
  have "1 \<le> \<bar>q\<bar> div 2" "\<bar>q\<bar> div 2 \<le> 2 ^ 62" using q(2,3) by auto
  then have "quot64 q 2 = - (\<bar>q\<bar> div 2)" using q(3) by (simp add: quot64_def wrap64_id)
  with \<open>1 \<le> \<bar>q\<bar> div 2\<close> s(1,3) q show ?thesis by (auto simp del: updates.simps)
qed

lemma square_difference_overflow_witness:
  "\<exists>s. updates sq [1000000, 5000000000] (new_statistics 1000) = Some s \<and> st_sqrDiff s < 0"
  using square_difference_overflow [of 1000 1000000 5000000000 sq] by (auto simp del: updates.simps)

section \<open>Packet loss\<close>

text \<open>Consecutive failed sends, each with the counters of the library's pinger of that moment.\<close>

definition failed_sends :: "(err \<times> prober) list \<Rightarrow> pingerImpl \<Rightarrow> pingerImpl" where
  "failed_sends es p = foldl (\<lambda>p (e, pr). fst (OnSendError e (p, pr))) p es"

lemma sint_suc32: "0 \<le> sint (w :: 32 word) \<Longrightarrow> sint w < 2 ^ 31 - 1 \<Longrightarrow> sint (w + 1) = sint w + 1"
proof -
  assume "0 \<le> sint w" "sint w < 2 ^ 31 - 1"
  moreover have "sint (w + 1) = signed_take_bit 31 (sint w + 1)"
    by (simp add: sint_word_ariths)
  ultimately show ?thesis by (simp add: signed_take_bit_int_eq_self)
qed

lemma checkPacketLoss_frame:
  "pi_sendErrors (fst (checkPacketLoss x)) = pi_sendErrors (fst x)"
  "pi_maxPacketLossCount (fst (checkPacketLoss x)) = pi_maxPacketLossCount (fst x)"
  by (auto simp: checkPacketLoss_def split: prod.split)

lemma OnSendError_frame:
  "pi_maxPacketLossCount (fst (OnSendError e x)) = pi_maxPacketLossCount (fst x)"
  "\<not> errors_is e ENOBUFS \<Longrightarrow> pi_sendErrors (fst (OnSendError e x)) = pi_sendErrors (fst x) + 1"
  by (auto simp: OnSendError_def checkPacketLoss_frame)

lemma failed_sends_snoc: "failed_sends (es @ [(e, pr)]) p = fst (OnSendError e (failed_sends es p, pr))"
  by (simp add: failed_sends_def)

lemma failed_sends_count:
  assumes "\<forall>(e, pr)\<in>set es. \<not> errors_is e ENOBUFS" and "length es < 2 ^ 31" and "pi_sendErrors p = 0"
  shows "sint (pi_sendErrors (failed_sends es p)) = int (length es) \<and>
    pi_maxPacketLossCount (failed_sends es p) = pi_maxPacketLossCount p"
  using assms
proof (induction es rule: rev_induct)
  case Nil
  then show ?case by (simp add: failed_sends_def)
next
  case (snoc x es)
  obtain e pr where x: "x = (e, pr)" by fastforce
  from snoc have IH: "sint (pi_sendErrors (failed_sends es p)) = int (length es)"
    "pi_maxPacketLossCount (failed_sends es p) = pi_maxPacketLossCount p" by auto
  have "sint (pi_sendErrors (failed_sends es p) + 1) = int (length es) + 1"
    using IH(1) snoc.prems(2) by (subst sint_suc32) auto
  with snoc.prems(1) IH x show ?case by (auto simp: failed_sends_snoc OnSendError_frame)
qed

text \<open>After more failed sends since the last reply than the allowed packet loss (those that ran out of
  buffers apart, which are resent), over any number of restarts of the library's pinger, the connection is
  in the error state.\<close>

theorem failed_sends_error:
  assumes "\<forall>(e, pr)\<in>set es. \<not> errors_is e ENOBUFS \<and> pr_PacketsRecv pr \<le> pr_PacketsSent pr"
    and "pi_sendErrors p = 0" and "pi_maxPacketLossCount p < int (length es)" and "length es < 2 ^ 31"
    and "es \<noteq> []"
  shows "pi_connectionStatus (failed_sends es p) = PingError"
proof -
  obtain fs e pr where es: "es = fs @ [(e, pr)]"
    using assms(5) by (metis rev_exhaust surj_pair)
  have "\<forall>(e, pr)\<in>set es. \<not> errors_is e ENOBUFS" using assms(1) by auto
  from failed_sends_count [OF this assms(4,2)]
  have c: "sint (pi_sendErrors (failed_sends es p)) = int (length es)"
    "pi_maxPacketLossCount (failed_sends es p) = pi_maxPacketLossCount p" by auto
  let ?q = "(failed_sends fs p)\<lparr>pi_sendErrors := pi_sendErrors (failed_sends fs p) + 1\<rparr>"
  have run: "failed_sends es p = fst (checkPacketLoss (?q, pr))"
    using assms(1) by (simp add: es failed_sends_snoc OnSendError_def)
  have "sint (pi_sendErrors ?q) = int (length es)" "pi_maxPacketLossCount ?q = pi_maxPacketLossCount p"
    using c by (simp_all add: run checkPacketLoss_frame)
  moreover have "pr_PacketsRecv pr \<le> pr_PacketsSent pr" using assms(1) es by auto
  ultimately show ?thesis
    using assms(3) unfolding run checkPacketLoss_def by simp
qed

theorem failed_sends_error_witness:
  "pi_connectionStatus (failed_sends
     (replicate 6 (Err ''e'', \<lparr>pr_PacketsSent = 0, pr_PacketsRecv = 0, pr_stopped = False\<rparr>))
     (NewPinger \<lparr>pc_IP = ''10.0.0.1'', pc_Interval = 0, pc_Timeout = 0, pc_MaxPacketLossCount = 0\<rparr>)) = PingError"
  by (rule failed_sends_error) (simp_all add: NewPinger_def defaultMaxPacketLossCount_def ENOBUFS_def)

section \<open>The controller\<close>

text \<open>The map refers to distinct existing pingers; all were started; exactly those in the map still run.\<close>

definition pc_inv :: "pingerController \<Rightarrow> bool" where
  "pc_inv c \<longleftrightarrow> (\<forall>k i. pc_pingers c k = Some i \<longrightarrow> i < length (pc_heap c)) \<and>
     inj_on (pc_pingers c) (dom (pc_pingers c)) \<and>
     (\<forall>i<length (pc_heap c). pi_started (pc_heap c ! i) \<and>
        (\<not> pi_stopped (pc_heap c ! i) \<longleftrightarrow> i \<in> ran (pc_pingers c)))"

inductive pc_step :: "libs \<Rightarrow> pingerController \<Rightarrow> pingerController \<Rightarrow> bool" for L where
  created: "pc_step L c (pc_EndpointCreatedOrUpdated L spec c)"
| removed: "pc_step L c (pc_EndpointRemoved spec c)"
| stopped: "dom (pc_pingers c) \<subseteq> set order \<Longrightarrow> pc_step L c (pc_Stop order c)"

inductive pc_reachable :: "libs \<Rightarrow> pingerController \<Rightarrow> bool" for L where
  new: "NewController families interval maxLoss = Some c \<Longrightarrow> pc_reachable L c"
| step: "pc_reachable L c \<Longrightarrow> pc_step L c c' \<Longrightarrow> pc_reachable L c'"

lemma ran_upd_None: "inj_on m (dom m) \<Longrightarrow> m k = Some i \<Longrightarrow> ran (m(k := None)) = ran m - {i}"
proof -
  assume inj: "inj_on m (dom m)" and k: "m k = Some i"
  have u: "\<forall>k'. m k' = Some i \<longrightarrow> k' = k" using inj k by (metis domI inj_onD)
  have r: "v \<in> ran f \<longleftrightarrow> (\<exists>a. f a = Some v)" for v f by (simp add: ran_def)
  have "v \<in> ran (m(k := None)) \<longleftrightarrow> v \<in> ran m - {i}" for v
  proof
    assume "v \<in> ran (m(k := None))"
    then obtain a where "a \<noteq> k" "m a = Some v" unfolding r by (metis fun_upd_apply option.distinct(1))
    with u show "v \<in> ran m - {i}" unfolding Diff_iff r by blast
  next
    assume "v \<in> ran m - {i}"
    then obtain a where a: "m a = Some v" "v \<noteq> i" unfolding Diff_iff r by blast
    then have "a \<noteq> k" using k by auto
    with a show "v \<in> ran (m(k := None))" unfolding r by (metis fun_upd_apply)
  qed
  then show ?thesis by blast
qed

lemma stop_at_other: "j \<noteq> i \<or> \<not> i < length h \<Longrightarrow> stop_at i h ! j = h ! j"
  by (cases "i < length h") (auto simp: stop_at_def list_update_beyond not_less)

lemma stop_at_same: "i < length h \<Longrightarrow> stop_at i h ! i = pinger_Stop (h ! i)"
  by (simp add: stop_at_def)

lemma pinger_Stop_sel: "pi_stopped (pinger_Stop p)" "pi_started (pinger_Stop p) = pi_started p"
  "pi_ip (pinger_Stop p) = pi_ip p"
  by (simp_all add: pinger_Stop_def)

lemma stop_at_nth:
  assumes "j < length h"
  shows "pi_stopped (stop_at i h ! j) = (pi_stopped (h ! j) \<or> i = j)"
    "pi_started (stop_at i h ! j) = pi_started (h ! j)"
proof -
  have "stop_at i h ! j = (if i = j then pinger_Stop (h ! j) else h ! j)"
    using stop_at_same [of j h] stop_at_other [of j i h] assms by simp
  then show "pi_stopped (stop_at i h ! j) = (pi_stopped (h ! j) \<or> i = j)"
    "pi_started (stop_at i h ! j) = pi_started (h ! j)"
    by (simp_all add: pinger_Stop_sel)
qed

lemma stop_at_length [simp]: "length (stop_at i h) = length h"
  by (simp add: stop_at_def)

lemma removePinger_inv: "pc_inv c \<Longrightarrow> pc_inv (removePinger k c)"
proof (cases "pc_pingers c k")
  case (Some i)
  assume inv: "pc_inv c"
  then have "inj_on ((pc_pingers c)(k := None)) (dom ((pc_pingers c)(k := None)))"
    by (auto simp: pc_inv_def inj_on_def dom_def)
  with inv Some ran_upd_None [of "pc_pingers c" k i] show ?thesis
    by (auto simp: pc_inv_def removePinger_def stop_at_nth)
qed (simp add: removePinger_def)

lemma start_new_inv:
  assumes inv: "pc_inv c" and none: "pc_pingers c k = None" and p: "pi_started p" "\<not> pi_stopped p"
  shows "pc_inv (c\<lparr>pc_heap := pc_heap c @ [p], pc_pingers := (pc_pingers c)(k \<mapsto> length (pc_heap c))\<rparr>)"
proof -
  have lt: "i < length (pc_heap c)" if "pc_pingers c x = Some i" for x i
    using inv that by (auto simp: pc_inv_def)
  then have fresh: "length (pc_heap c) \<notin> ran (pc_pingers c)" by (auto simp: ran_def)
  have "Some (length (pc_heap c)) \<notin> pc_pingers c ` dom (pc_pingers c)"
    using fresh by (auto simp: ran_def)
  moreover have "inj_on (pc_pingers c) (dom (pc_pingers c))" using inv by (simp add: pc_inv_def)
  moreover have "(pc_pingers c)(k \<mapsto> length (pc_heap c)) ` dom (pc_pingers c) = pc_pingers c ` dom (pc_pingers c)"
    using none by (intro image_cong) (auto simp: domIff)
  ultimately have inj: "inj_on ((pc_pingers c)(k \<mapsto> length (pc_heap c))) (insert k (dom (pc_pingers c)))"
    using none by (auto simp: domIff intro: inj_on_fun_updI)
  have ran: "ran ((pc_pingers c)(k \<mapsto> length (pc_heap c))) = insert (length (pc_heap c)) (ran (pc_pingers c))"
    using none by (rule ran_map_upd)
  show ?thesis
    unfolding pc_inv_def
  proof (intro conjI allI impI)
    show "inj_on (pc_pingers (c\<lparr>pc_heap := pc_heap c @ [p], pc_pingers := (pc_pingers c)(k \<mapsto> length (pc_heap c))\<rparr>))
        (dom (pc_pingers (c\<lparr>pc_heap := pc_heap c @ [p], pc_pingers := (pc_pingers c)(k \<mapsto> length (pc_heap c))\<rparr>)))"
      using inj by simp
  qed (use inv p fresh ran lt in \<open>auto simp: pc_inv_def nth_append less_Suc_eq split: if_splits\<close>)
qed

lemma startPinger_eq:
  "startPinger k ip c = (case pc_pingers c k of
     Some i \<Rightarrow> if pi_ip (pc_heap c ! i) = ip then c else startPinger k ip (removePinger k c)
   | None \<Rightarrow> c\<lparr>pc_heap := pc_heap c @ [pinger_Start (NewPinger
        \<lparr>pc_IP = ip, pc_Interval = (if pc_PingInterval c \<noteq> 0 then second * pc_PingInterval c else 0),
         pc_Timeout = 0, pc_MaxPacketLossCount = pc_MaxLoss c\<rparr>)],
        pc_pingers := (pc_pingers c)(k \<mapsto> length (pc_heap c))\<rparr>)"
  by (auto simp: startPinger_def removePinger_def Let_def split: option.split)

lemma removePinger_None: "pc_pingers (removePinger k c) k = None"
  by (simp add: removePinger_def split: option.split)

lemma startPinger_inv: "pc_inv c \<Longrightarrow> pc_inv (startPinger k ip c)"
proof -
  have new: "pc_inv (startPinger k ip c)" if "pc_inv c" "pc_pingers c k = None" for c
    using that by (subst startPinger_eq) (simp add: start_new_inv pinger_Start_def NewPinger_def)
  assume inv: "pc_inv c"
  show ?thesis
  proof (cases "pc_pingers c k")
    case None
    with inv show ?thesis by (rule new)
  next
    case (Some i)
    have "pc_inv (startPinger k ip (removePinger k c))"
      by (rule new [OF removePinger_inv [OF inv] removePinger_None])
    with Some inv show ?thesis by (subst startPinger_eq) simp
  qed
qed

lemma foldl_inv: "(\<And>x s. P s \<Longrightarrow> P (f s x)) \<Longrightarrow> P s \<Longrightarrow> P (foldl f s xs)"
  by (induction xs arbitrary: s) auto

lemma created_inv: "pc_inv c \<Longrightarrow> pc_inv (pc_EndpointCreatedOrUpdated L spec c)"
  unfolding pc_EndpointCreatedOrUpdated_def Let_def by (rule foldl_inv) (auto intro: startPinger_inv)

lemma removed_inv: "pc_inv c \<Longrightarrow> pc_inv (pc_EndpointRemoved spec c)"
  unfolding pc_EndpointRemoved_def by (rule foldl_inv) (auto intro: removePinger_inv)

lemma stop_all_length:
  "length (foldl (\<lambda>h name. case m name of None \<Rightarrow> h | Some i \<Rightarrow> stop_at i h) h order) = length h"
  by (induction order arbitrary: h) (auto simp: stop_at_nth split: option.split)

lemma stop_all_nth:
  assumes "j < length h"
  shows "pi_stopped (foldl (\<lambda>h name. case m name of None \<Rightarrow> h | Some i \<Rightarrow> stop_at i h) h order ! j) =
      (pi_stopped (h ! j) \<or> (\<exists>k\<in>set order. m k = Some j)) \<and>
    pi_started (foldl (\<lambda>h name. case m name of None \<Rightarrow> h | Some i \<Rightarrow> stop_at i h) h order ! j) = pi_started (h ! j)"
  using assms
proof (induction order arbitrary: h)
  case (Cons k ks)
  then show ?case by (cases "m k") (auto simp: stop_at_nth)
qed simp

lemma stop_inv: "pc_inv c \<Longrightarrow> dom (pc_pingers c) \<subseteq> set order \<Longrightarrow> pc_inv (pc_Stop order c)"
proof -
  assume inv: "pc_inv c" and order: "dom (pc_pingers c) \<subseteq> set order"
  let ?h = "pc_heap (pc_Stop order c)"
  have "length ?h = length (pc_heap c)"
    by (simp add: pc_Stop_def stop_all_length)
  moreover have "pi_started (?h ! j) \<and> pi_stopped (?h ! j)" if "j < length (pc_heap c)" for j
  proof -
    have "(\<exists>k\<in>set order. pc_pingers c k = Some j) \<longleftrightarrow> j \<in> ran (pc_pingers c)"
      using order unfolding ran_def by blast
    with stop_all_nth [OF that, of "pc_pingers c" order] inv that show ?thesis
      by (auto simp: pc_Stop_def pc_inv_def)
  qed
  ultimately show ?thesis by (auto simp: pc_inv_def) (simp_all add: pc_Stop_def)
qed

lemma controller_no_leak_aux: "pc_reachable L c \<Longrightarrow> pc_inv c"
proof (induction rule: pc_reachable.induct)
  case (new families interval maxLoss c)
  then show ?case by (auto simp: NewController_def pc_inv_def split: if_splits)
next
  case (step c c')
  from step(2,3) show ?case
    by (induction rule: pc_step.induct) (auto intro: created_inv removed_inv stop_inv)
qed

text \<open>C11: Whatever endpoints are created, updated and removed, the controller leaks no pinger and loses none: a
  pinger it ever started is still running exactly when the controller has it under some cable, and two cables
  never share one. In particular none runs after the controller was stopped.\<close>

theorem controller_no_leak:
  assumes "pc_reachable L c"
  shows "pc_inv c"
  using assms by (rule controller_no_leak_aux)

theorem controller_no_leak_witness:
  "\<exists>c spec. NewController [IPv4] 1 5 = Some c \<and> spec = example_spec\<lparr>HealthCheckIP := ''10.1.0.1''\<rparr> \<and>
     (let c1 = pc_EndpointCreatedOrUpdated ref_libs spec c; c2 = pc_EndpointRemoved spec c1 in
      map pi_stopped (pc_heap c1) = [False] \<and> map pi_stopped (pc_heap c2) = [True] \<and> pc_inv c1 \<and> pc_inv c2)"
proof -
  let ?spec = "example_spec\<lparr>HealthCheckIP := ''10.1.0.1''\<rparr>" and ?c = "the (NewController [IPv4] 1 5)"
  let ?c1 = "pc_EndpointCreatedOrUpdated ref_libs ?spec ?c"
  have c: "NewController [IPv4] 1 5 = Some ?c" by (simp add: NewController_def)
  have r: "pc_reachable ref_libs ?c1" using pc_reachable.new [OF c] by (meson pc_reachable.step pc_step.created)
  then have r2: "pc_reachable ref_libs (pc_EndpointRemoved ?spec ?c1)" by (meson pc_reachable.step pc_step.removed)
  have h: "GetHealthCheckIP ref_libs IPv4 ?spec = ''10.1.0.1''" by code_simp
  have f: "pc_SupportedIPFamilies ?c = [IPv4]" "pc_pingers ?c = Map.empty" "pc_heap ?c = []" by (simp_all add: NewController_def)
  note defs = pc_EndpointCreatedOrUpdated_def startPinger_def Let_def pinger_Start_def NewPinger_def
  have "map pi_stopped (pc_heap ?c1) = [False]" "map pi_stopped (pc_heap (pc_EndpointRemoved ?spec ?c1)) = [True]"
    by (simp_all add: defs pc_EndpointRemoved_def removePinger_def stop_at_def pinger_Stop_def h f)
  with controller_no_leak [OF r] controller_no_leak [OF r2] c show ?thesis by (intro exI [of _ ?c] exI [of _ ?spec]) (simp add: Let_def)
qed

definition pings :: "pingerController \<Rightarrow> string \<Rightarrow> string \<Rightarrow> bool" where
  "pings c k ip \<longleftrightarrow> (\<exists>i. pc_pingers c k = Some i \<and> i < length (pc_heap c) \<and> pi_ip (pc_heap c ! i) = ip)"

lemma stop_at_ip: "pi_ip (stop_at i h ! j) = pi_ip (h ! j)"
  by (cases "j = i \<and> i < length h") (auto simp: stop_at_same stop_at_other pinger_Stop_sel)

lemma removePinger_other: "k' \<noteq> k \<Longrightarrow> pings c k' ip \<Longrightarrow> pings (removePinger k c) k' ip"
  by (auto simp: pings_def removePinger_def stop_at_ip split: option.split)

lemma start_pings:
  assumes "pc_pingers c k = None"
  shows "pings (startPinger k ip c) k ip" and "k' \<noteq> k \<Longrightarrow> pings c k' ip' \<Longrightarrow> pings (startPinger k ip c) k' ip'"
  using assms by (auto simp: pings_def startPinger_def Let_def pinger_Start_def NewPinger_def nth_append)

lemma startPinger_pings:
  assumes "pc_inv c"
  shows "pings (startPinger k ip c) k ip" and "k' \<noteq> k \<Longrightarrow> pings c k' ip' \<Longrightarrow> pings (startPinger k ip c) k' ip'"
proof -
  have known: "i < length (pc_heap c)" if "pc_pingers c x = Some i" for x i
    using assms that by (auto simp: pc_inv_def)
  show "pings (startPinger k ip c) k ip"
  proof (cases "pc_pingers c k")
    case None
    then show ?thesis by (rule start_pings)
  next
    case (Some i)
    with known [OF Some] start_pings(1) [OF removePinger_None, of k ip] show ?thesis
      by (subst startPinger_eq) (auto simp: pings_def)
  qed
  show "pings (startPinger k ip c) k' ip'" if "k' \<noteq> k" "pings c k' ip'"
  proof (cases "pc_pingers c k")
    case None
    with that show ?thesis by (blast intro: start_pings)
  next
    case (Some i)
    with that start_pings(2) [OF removePinger_None that(1)] removePinger_other [OF that] show ?thesis
      by (subst startPinger_eq) auto
  qed
qed

text \<open>After an endpoint was created or updated, a started pinger that is not stopped pings each of its health
  check addresses, for every supported family that has one.\<close>

theorem created_endpoint_is_pinged:
  assumes "pc_reachable L c" and "family \<in> set (pc_SupportedIPFamilies c)"
    and "GetHealthCheckIP L family spec \<noteq> []"
  shows "\<exists>p. pc_Get spec family (pc_EndpointCreatedOrUpdated L spec c) = Some p \<and>
    pi_ip p = GetHealthCheckIP L family spec \<and> pi_started p \<and> \<not> pi_stopped p"
proof -
  define one where "one = (\<lambda>c f. let ip = GetHealthCheckIP L f spec in
      if ip = [] then c else startPinger (GetFamilyCableName spec f) ip c)"
  have inv: "pc_inv (one c f)" if "pc_inv c" for c f
    using that by (simp add: one_def Let_def startPinger_inv)
  have key: "GetFamilyCableName spec f = GetFamilyCableName spec g \<Longrightarrow> f = g" for f g
    by (auto simp: GetFamilyCableName_def dest: family_str_inj)
  have keep: "pings (foldl one c fs) (GetFamilyCableName spec family) (GetHealthCheckIP L family spec)"
    if "pc_inv c" "family \<in> set fs \<or> pings c (GetFamilyCableName spec family) (GetHealthCheckIP L family spec)" for c fs
    using that
  proof (induction fs arbitrary: c)
    case (Cons f fs)
    have "pings (one c f) (GetFamilyCableName spec family) (GetHealthCheckIP L family spec)"
      if "f = family \<or> pings c (GetFamilyCableName spec family) (GetHealthCheckIP L family spec)"
    proof (cases "f = family")
      case True
      with assms(3) startPinger_pings(1) [OF Cons.prems(1)] show ?thesis by (simp add: one_def Let_def)
    next
      case False
      then have "GetFamilyCableName spec family \<noteq> GetFamilyCableName spec f" using key by blast
      with that False startPinger_pings(2) [OF Cons.prems(1)] show ?thesis by (simp add: one_def Let_def)
    qed
    with Cons.prems(2) Cons.IH [OF inv [OF Cons.prems(1)]] show ?case by auto
  qed simp
  have c: "pc_inv c" by (rule controller_no_leak_aux [OF assms(1)])
  have "pc_EndpointCreatedOrUpdated L spec c = foldl one c (pc_SupportedIPFamilies c)"
    by (simp add: pc_EndpointCreatedOrUpdated_def one_def)
  with keep [OF c] assms(2) obtain i where
    i: "pc_pingers (pc_EndpointCreatedOrUpdated L spec c) (GetFamilyCableName spec family) = Some i"
      "i < length (pc_heap (pc_EndpointCreatedOrUpdated L spec c))"
      "pi_ip (pc_heap (pc_EndpointCreatedOrUpdated L spec c) ! i) = GetHealthCheckIP L family spec"
    unfolding pings_def by metis
  moreover from i(1) have "i \<in> ran (pc_pingers (pc_EndpointCreatedOrUpdated L spec c))" by (rule ranI)
  ultimately show ?thesis
    using created_inv [OF c, of L spec] by (simp add: pc_Get_def pc_inv_def)
qed

theorem created_endpoint_is_pinged_witness:
  "\<exists>p c. NewController [IPv4] 1 5 = Some c \<and>
     pc_Get (example_spec\<lparr>HealthCheckIP := ''10.1.0.1''\<rparr>) IPv4
       (pc_EndpointCreatedOrUpdated ref_libs (example_spec\<lparr>HealthCheckIP := ''10.1.0.1''\<rparr>) c) = Some p \<and> \<not> pi_stopped p"
proof -
  obtain c where c: "NewController [IPv4] 1 5 = Some c" by (simp add: NewController_def)
  then have f: "IPv4 \<in> set (pc_SupportedIPFamilies c)" by (auto simp: NewController_def)
  have "GetHealthCheckIP ref_libs IPv4 (example_spec\<lparr>HealthCheckIP := ''10.1.0.1''\<rparr>) \<noteq> []" by code_simp
  from created_endpoint_is_pinged [OF pc_reachable.new [OF c] f this] c show ?thesis by blast
qed

end
