(* ===== verification/GatewaySyncer.thy ===== *)
theory GatewaySyncer
  imports CableEngine Pinger
begin

text \<open>
  \<open>pkg/cableengine/syncer/syncer.go\<close>: the gateway resource that reports the state of the engine, and the
  removal of the resources of gateways that no longer report. The gateway client and
  \<open>util.CreateOrUpdate\<close> of the admiral library are the record \<open>gwClient\<close> of functions on the state of the
  API server. The clock is an argument, in seconds; metrics are left out.
\<close>

section \<open>State\<close>

record 'k gwClient =
  gc_List :: "'k \<Rightarrow> Gateway list result"
  gc_Delete :: "string \<Rightarrow> 'k \<Rightarrow> 'k \<times> err option"
  gc_CreateOrUpdate :: "Gateway \<Rightarrow> (Gateway \<Rightarrow> Gateway result) \<Rightarrow> 'k \<Rightarrow> 'k \<times> err option"

record gatewaySyncer =
  gs_version :: string
  gs_statusError :: "string option"     \<comment> \<open>the message of the error\<close>
  gs_healthCheck :: "pingerController option"

definition GatewayStaleTimeout :: int where "GatewayStaleTimeout = 5 * 3"   \<comment> \<open>seconds\<close>

definition UpdateTimestampAnnotation :: string where
  "UpdateTimestampAnnotation = ''update-timestamp''"

section \<open>The gateway object\<close>

text \<open>The health of one connection, from the pinger of its cable and family.\<close>

definition apply_latency :: "libs \<Rightarrow> LatencyInfo \<Rightarrow> Connection \<Rightarrow> Connection" where
  "apply_latency L info c0 =
     (let c = c0\<lparr>LatencyRTT := Some (li_Spec info), conn_Endpoint := SetHealthCheckIP L (li_IP info) (conn_Endpoint c0)\<rparr> in
      if Status c = Connected then
        (let c1 = c\<lparr>StatusMessage := []\<rparr> in
         if li_ConnectionStatus info = PingError
         then c1\<lparr>Status := ConnectionError, StatusMessage := li_ConnectionError info\<rparr>
         else if li_ConnectionStatus info = PingUnknown
         then c1\<lparr>StatusMessage := li_ConnectionError info\<rparr>
         else c1)
      else if Status c = ConnectionError \<and> li_ConnectionStatus info = PingConnected
      then c\<lparr>Status := Connected, StatusMessage := []\<rparr>
      else c)"

definition connection_health ::
  "libs \<Rightarrow> (int \<Rightarrow> string) \<Rightarrow> pingerController option \<Rightarrow> Connection \<Rightarrow> Connection" where
  "connection_health L durationString hc c = (case hc of
      None \<Rightarrow> c
    | Some pc \<Rightarrow> (case hc_GetLatencyInfo durationString pc (conn_Endpoint c) (GetFamily L c) of
          None \<Rightarrow> c
        | Some info \<Rightarrow> apply_latency L info c))"

text \<open>The text of an error is the argument \<open>errText\<close>.\<close>

definition generateGatewayObject ::
  "libs \<Rightarrow> (int \<Rightarrow> string) \<Rightarrow> (err \<Rightarrow> string) \<Rightarrow> 'd Driver \<Rightarrow> int \<Rightarrow> 'd engine \<Rightarrow> gatewaySyncer \<Rightarrow> 'd engine \<times> Gateway" where
  "generateGatewayObject L durationString errText D now e gs =
     (let localEndpoint = GetLocalEndpoint e;
          (e', failure, connections) = (case gs_statusError gs of
             Some msg \<Rightarrow> (e, msg, [])
           | None \<Rightarrow> (case ListCableConnections D e of
               (e', Inl err) \<Rightarrow> (e', ''Error retrieving driver connections: '' @ errText err, [])
             | (e', Inr cs) \<Rightarrow> (e', [], cs))) in
      (e', \<lparr>gw_Name = EnsureValidName L (Hostname localEndpoint),
       gw_Annotations = fmupd UpdateTimestampAnnotation (dec_of_int now) fmempty,
       gw_Status = \<lparr>gw_Version = gs_version gs, gw_HAStatus = GetHAStatus e, gw_LocalEndpoint = localEndpoint,
         gw_StatusFailure = failure,
         gw_Connections = map (connection_health L durationString (gs_healthCheck gs)) connections\<rparr>\<rparr>))"

definition update_existing :: "Gateway \<Rightarrow> Gateway \<Rightarrow> Gateway result" where
  "update_existing gatewayObj existing = Inr (existing
     \<lparr>gw_Status := gw_Status gatewayObj,
      gw_Annotations := fmupd UpdateTimestampAnnotation
        (cfg_get (gw_Annotations gatewayObj) UpdateTimestampAnnotation) (gw_Annotations existing)\<rparr>)"

text \<open>An error is only logged; the result is the name of the gateway.\<close>

definition syncGatewayStatus ::
  "libs \<Rightarrow> (int \<Rightarrow> string) \<Rightarrow> (err \<Rightarrow> string) \<Rightarrow> 'd Driver \<Rightarrow> 'k gwClient \<Rightarrow> int \<Rightarrow> 'd engine \<Rightarrow>
   gatewaySyncer \<Rightarrow> 'k \<Rightarrow> ('d engine \<times> 'k) \<times> string" where
  "syncGatewayStatus L durationString errText D C now e gs k =
     (let (e', gatewayObj) = generateGatewayObject L durationString errText D now e gs in
      ((e', fst (gc_CreateOrUpdate C gatewayObj (update_existing gatewayObj) k)), gw_Name gatewayObj))"

definition SetGatewayStatusError ::
  "libs \<Rightarrow> (int \<Rightarrow> string) \<Rightarrow> (err \<Rightarrow> string) \<Rightarrow> 'd Driver \<Rightarrow> 'k gwClient \<Rightarrow> int \<Rightarrow> 'd engine \<Rightarrow>
   string option \<Rightarrow> gatewaySyncer \<Rightarrow> 'k \<Rightarrow> gatewaySyncer \<times> 'd engine \<times> 'k" where
  "SetGatewayStatusError L durationString errText D C now e err gs k =
     (let gs' = gs\<lparr>gs_statusError := err\<rparr>
      in (gs', fst (syncGatewayStatus L durationString errText D C now e gs' k)))"

section \<open>Stale gateways\<close>

definition isGatewayStale :: "int \<Rightarrow> Gateway \<Rightarrow> bool \<times> err option" where
  "isGatewayStale now gateway =
     (case fmlookup (gw_Annotations gateway) UpdateTimestampAnnotation of
        None \<Rightarrow> (True, Some (Err ''annotation not found''))
      | Some timestamp \<Rightarrow>
          (case parse_int 64 timestamp of
             None \<Rightarrow> (True, Some (Wrapped ''error parsing update-timestamp'' (Sentinel ''NumError'')))
           | Some t \<Rightarrow> (wrap64 (t + GatewayStaleTimeout) \<le> now, None)))"

fun cleanup_loop :: "'k gwClient \<Rightarrow> int \<Rightarrow> string \<Rightarrow> Gateway list \<Rightarrow> 'k \<Rightarrow> 'k" where
  "cleanup_loop C now localGatewayName [] k = k"
| "cleanup_loop C now localGatewayName (gw # gws) k =
     (if gw_Name gw = localGatewayName then cleanup_loop C now localGatewayName gws k
      else if fst (isGatewayStale now gw)
      then cleanup_loop C now localGatewayName gws (fst (gc_Delete C (gw_Name gw) k))
      else cleanup_loop C now localGatewayName gws k)"

definition cleanupStaleGatewayEntries :: "'k gwClient \<Rightarrow> int \<Rightarrow> string \<Rightarrow> 'k \<Rightarrow> 'k \<times> err option" where
  "cleanupStaleGatewayEntries C now localGatewayName k =
     (case gc_List C k of
        Inl e \<Rightarrow> (k, Some (Wrapped ''error listing Gateways'' e))
      | Inr gateways \<Rightarrow> (cleanup_loop C now localGatewayName gateways k, None))"

text \<open>One round of \<open>Run\<close>, and what it does when it ends.\<close>

definition run_round ::
  "libs \<Rightarrow> (int \<Rightarrow> string) \<Rightarrow> (err \<Rightarrow> string) \<Rightarrow> 'd Driver \<Rightarrow> 'k gwClient \<Rightarrow> int \<Rightarrow> 'd engine \<Rightarrow>
   gatewaySyncer \<Rightarrow> 'k \<Rightarrow> 'd engine \<times> 'k" where
  "run_round L durationString errText D C now e gs k =
     (case syncGatewayStatus L durationString errText D C now e gs k of
        ((e', k'), gatewayName) \<Rightarrow>
          (e', if GetHAStatus e' = HAStatusActive then fst (cleanupStaleGatewayEntries C now gatewayName k') else k'))"

definition CleanupGatewayEntry :: "libs \<Rightarrow> 'k gwClient \<Rightarrow> 'd engine \<Rightarrow> 'k \<Rightarrow> 'k" where
  "CleanupGatewayEntry L C e k = fst (gc_Delete C (EnsureValidName L (Hostname (GetLocalEndpoint e))) k)"

section \<open>Properties\<close>

text \<open>Concrete values, for the witnesses.\<close>

definition example_syncer :: gatewaySyncer where
  "example_syncer = \<lparr>gs_version = ''v1'', gs_statusError = None, gs_healthCheck = None\<rparr>"

definition example_cluster :: SubmarinerCluster where
  "example_cluster = \<lparr>sc_ID = ''east'', sc_Spec = \<lparr>cs_ClusterID = ''east'', cs_ColorCodes = [],
     cs_ServiceCIDR = [], cs_ClusterCIDR = [], cs_GlobalCIDR = []\<rparr>\<rparr>"

lemma cleanup_loop_filter:
  "cleanup_loop C now name gws k =
   foldl (\<lambda>k gw. fst (gc_Delete C (gw_Name gw) k)) k
     (filter (\<lambda>gw. gw_Name gw \<noteq> name \<and> fst (isGatewayStale now gw)) gws)"
  by (induction gws arbitrary: k) auto

lemma generated_annotations:
  "gw_Annotations (snd (generateGatewayObject L ds errText D t e gs)) =
   fmupd UpdateTimestampAnnotation (dec_of_int t) fmempty"
  by (simp add: generateGatewayObject_def Let_def case_prod_beta)

text \<open>A gateway object reports for fifteen seconds: the one generated at a time \<open>t\<close> is stale at a time \<open>now\<close>
  exactly when \<open>now\<close> is at least fifteen seconds later. A gateway without a readable timestamp is stale.\<close>

theorem gateway_staleness:
  assumes "0 \<le> t" and "t + GatewayStaleTimeout < 2 ^ 63"
  shows "isGatewayStale now (snd (generateGatewayObject L durationString errText D t e gs)) =
      (t + 15 \<le> now, None) \<and>
    (parse_int 64 (cfg_get (gw_Annotations gw) UpdateTimestampAnnotation) = None \<longrightarrow> fst (isGatewayStale now gw))"
proof
  have "isGatewayStale now (snd (generateGatewayObject L durationString errText D t e gs)) =
      (wrap64 (t + GatewayStaleTimeout) \<le> now, None)"
    using parse_int_dec_of_int [of t] assms
    by (simp add: isGatewayStale_def generated_annotations GatewayStaleTimeout_def)
  then show "isGatewayStale now (snd (generateGatewayObject L durationString errText D t e gs)) = (t + 15 \<le> now, None)"
    using assms by (simp add: wrap64_id GatewayStaleTimeout_def)
  show "parse_int 64 (cfg_get (gw_Annotations gw) UpdateTimestampAnnotation) = None \<longrightarrow> fst (isGatewayStale now gw)"
    by (auto simp: isGatewayStale_def cfg_get_def split: option.split)
qed

theorem gateway_staleness_witness:
  "isGatewayStale 115 (snd (generateGatewayObject ref_libs (\<lambda>_. []) (\<lambda>_. []) (vxlanDriver ref_libs ref_netLink) 100
     (NewEngine example_cluster example_spec) example_syncer)) = (True, None)"
  using gateway_staleness [of 100 115 ref_libs "\<lambda>_. []" "\<lambda>_. []" "vxlanDriver ref_libs ref_netLink"
      "NewEngine example_cluster example_spec" example_syncer]
  by (simp add: GatewayStaleTimeout_def)

text \<open>The cleanup of an active gateway deletes exactly the listed gateways that are stale and are not its own,
  in the order listed, and goes on when a deletion fails; if listing fails it deletes nothing.\<close>

theorem cleanup_deletes_stale:
  "cleanupStaleGatewayEntries C now name k =
    (case gc_List C k of
       Inl err \<Rightarrow> (k, Some (Wrapped ''error listing Gateways'' err))
     | Inr gws \<Rightarrow> (foldl (\<lambda>k gw. fst (gc_Delete C (gw_Name gw) k)) k
         (filter (\<lambda>gw. gw_Name gw \<noteq> name \<and> fst (isGatewayStale now gw)) gws), None))"
  by (simp add: cleanupStaleGatewayEntries_def cleanup_loop_filter split: sum.split)

lemma SetHealthCheckIP_frame:
  "CableName (SetHealthCheckIP L a s) = CableName s" "ClusterID (SetHealthCheckIP L a s) = ClusterID s"
  by (simp_all add: SetHealthCheckIP_def Let_def split: prod.split)

lemma connection_health_frame:
  "UsingIP (connection_health L ds hc c) = UsingIP c \<and> UsingNAT (connection_health L ds hc c) = UsingNAT c \<and>
   CableName (conn_Endpoint (connection_health L ds hc c)) = CableName (conn_Endpoint c) \<and>
   ClusterID (conn_Endpoint (connection_health L ds hc c)) = ClusterID (conn_Endpoint c)"
  by (auto simp: connection_health_def apply_latency_def Let_def SetHealthCheckIP_frame split: option.split)

lemma connection_health_status:
  "hc_GetLatencyInfo ds pc (conn_Endpoint c) (GetFamily L c) = Some info \<Longrightarrow>
   Status (connection_health L ds (Some pc) c) =
     (if Status c = Connected then if li_ConnectionStatus info = PingError then ConnectionError else Connected
      else if Status c = ConnectionError \<and> li_ConnectionStatus info = PingConnected then Connected
      else Status c)"
  by (simp add: connection_health_def apply_latency_def Let_def)

text \<open>A running engine without a status error reports the driver's connections one for one: same order, cable,
  cluster, address and NAT setting. A connection whose pinger is in the error state is reported in error if
  the driver has it connected, and one the driver has in error is reported connected when its pinger gets
  replies; without a pinger the driver's status stands. A stopped engine is passive and reports none.\<close>

theorem reported_connections:
  assumes "gs_statusError gs = None" and "ListCableConnections D e = (e', Inr cs)"
  shows "let st = gw_Status (snd (generateGatewayObject L ds errText D now e gs)) in
    length (gw_Connections st) = length cs \<and> gw_StatusFailure st = [] \<and>
    (\<forall>i<length cs.
       UsingIP (gw_Connections st ! i) = UsingIP (cs ! i) \<and> UsingNAT (gw_Connections st ! i) = UsingNAT (cs ! i) \<and>
       CableName (conn_Endpoint (gw_Connections st ! i)) = CableName (conn_Endpoint (cs ! i)) \<and>
       ClusterID (conn_Endpoint (gw_Connections st ! i)) = ClusterID (conn_Endpoint (cs ! i)) \<and>
       Status (gw_Connections st ! i) =
         (case Option.bind (gs_healthCheck gs)
                 (\<lambda>pc. hc_GetLatencyInfo ds pc (conn_Endpoint (cs ! i)) (GetFamily L (cs ! i))) of
            None \<Rightarrow> Status (cs ! i)
          | Some info \<Rightarrow>
              if Status (cs ! i) = Connected \<and> li_ConnectionStatus info = PingError then ConnectionError
              else if Status (cs ! i) = ConnectionError \<and> li_ConnectionStatus info = PingConnected then Connected
              else Status (cs ! i))) \<and>
    (\<not> en_running e \<longrightarrow> gw_HAStatus st = HAStatusPassive \<and> gw_Connections st = [])"
proof -
  let ?st = "gw_Status (snd (generateGatewayObject L ds errText D now e gs))"
  have cs: "gw_Connections ?st = map (connection_health L ds (gs_healthCheck gs)) cs"
    "gw_StatusFailure ?st = []" "gw_HAStatus ?st = GetHAStatus e"
    using assms by (simp_all add: generateGatewayObject_def Let_def)
  have status: "Status (connection_health L ds hc c) =
      (case Option.bind hc (\<lambda>pc. hc_GetLatencyInfo ds pc (conn_Endpoint c) (GetFamily L c)) of
         None \<Rightarrow> Status c
       | Some info \<Rightarrow>
           if Status c = Connected \<and> li_ConnectionStatus info = PingError then ConnectionError
           else if Status c = ConnectionError \<and> li_ConnectionStatus info = PingConnected then Connected
           else Status c)" for hc c
    by (cases hc; cases "Option.bind hc (\<lambda>pc. hc_GetLatencyInfo ds pc (conn_Endpoint c) (GetFamily L c))")
      (auto simp: connection_health_status, simp_all add: connection_health_def)
  have "\<not> en_running e \<Longrightarrow> cs = []" using assms(2) by (simp add: ListCableConnections_def)
  then show ?thesis
    by (simp add: Let_def cs connection_health_frame status GetHAStatus_def)
qed

theorem reported_connections_witness:
  "gw_HAStatus (gw_Status (snd (generateGatewayObject ref_libs (\<lambda>_. []) (\<lambda>_. []) (vxlanDriver ref_libs ref_netLink) 100
     (NewEngine example_cluster example_spec) example_syncer))) = HAStatusPassive"
proof -
  have "ListCableConnections (vxlanDriver ref_libs ref_netLink) (NewEngine example_cluster example_spec) =
      (NewEngine example_cluster example_spec, Inr [])"
    by (simp add: ListCableConnections_def NewEngine_def)
  from reported_connections [OF _ this, of example_syncer] show ?thesis
    by (simp add: example_syncer_def NewEngine_def Let_def)
qed

end
