(* ===== verification/Tunnel.thy ===== *)
theory Tunnel
  imports CableEngine
begin

text \<open>
  \<open>pkg/controllers/tunnel/tunnel.go\<close>: the controller that has the cable engine install and remove a cable
  for every IP family the local and the remote endpoint share. The result of a handler says whether the
  event is to be retried.
\<close>

section \<open>The handlers\<close>

definition findCommonIPFamilies :: "libs \<Rightarrow> IPFamily list \<Rightarrow> IPFamily list \<Rightarrow> IPFamily list" where
  "findCommonIPFamilies L local remote = Intersect L local remote"

fun install_families ::
  "libs \<Rightarrow> natTimeouts \<Rightarrow> int \<Rightarrow> Endpoint \<Rightarrow> IPFamily list \<Rightarrow> 'd engine \<Rightarrow> 'd engine \<times> err list" where
  "install_families L T now endpoint [] e = (e, [])"
| "install_families L T now endpoint (f # fs) e =
     (case InstallCable L T now endpoint f e of (e1, r) \<Rightarrow>
        (case install_families L T now endpoint fs e1 of (e2, errs) \<Rightarrow>
           (e2, (case r of None \<Rightarrow> errs | Some x \<Rightarrow> x # errs))))"

definition handleCreatedOrUpdatedEndpoint ::
  "libs \<Rightarrow> natTimeouts \<Rightarrow> int \<Rightarrow> IPFamily list \<Rightarrow> Endpoint \<Rightarrow> 'd engine \<Rightarrow> 'd engine \<times> bool" where
  "handleCreatedOrUpdatedEndpoint L T now localIPFamilies endpoint e =
     (case install_families L T now endpoint
             (findCommonIPFamilies L localIPFamilies (GetIPFamilies L (ep_Spec endpoint))) e of
        (e', errs) \<Rightarrow> (e', errs \<noteq> []))"

fun remove_families ::
  "'d Driver \<Rightarrow> Endpoint \<Rightarrow> IPFamily list \<Rightarrow> 'd engine \<Rightarrow> 'd engine \<times> err list" where
  "remove_families D endpoint [] e = (e, [])"
| "remove_families D endpoint (f # fs) e =
     (case RemoveCable D endpoint f e of (e1, r) \<Rightarrow>
        (case remove_families D endpoint fs e1 of (e2, errs) \<Rightarrow>
           (e2, (case r of None \<Rightarrow> errs | Some x \<Rightarrow> x # errs))))"

definition handleRemovedEndpoint ::
  "libs \<Rightarrow> 'd Driver \<Rightarrow> IPFamily list \<Rightarrow> Endpoint \<Rightarrow> 'd engine \<Rightarrow> 'd engine \<times> bool" where
  "handleRemovedEndpoint L D localIPFamilies endpoint e =
     (case remove_families D endpoint
             (findCommonIPFamilies L localIPFamilies (GetIPFamilies L (ep_Spec endpoint))) e of
        (e', errs) \<Rightarrow> (e', errs \<noteq> []))"

section \<open>Properties\<close>

lemma InstallCable_pending:
  assumes "ClusterID (ep_Spec ep) \<noteq> sc_ID (en_localCluster e)" "ep_Spec ep \<noteq> en_localSpec e" "en_nat e = Some nd"
  shows "\<exists>e'. InstallCable L T now ep f e = (e', None) \<and>
    en_pending e' (GetFamilyCableName (ep_Spec ep) f) \<noteq> None \<and>
    (\<forall>k. en_pending e k \<noteq> None \<longrightarrow> en_pending e' k \<noteq> None) \<and>
    en_localCluster e' = en_localCluster e \<and> en_localSpec e' = en_localSpec e \<and> en_nat e' \<noteq> None \<and>
    en_driver e' = en_driver e"
  using assms by (simp add: InstallCable_def Let_def)

lemma install_families_pending:
  assumes "ClusterID (ep_Spec ep) \<noteq> sc_ID (en_localCluster e)" "ep_Spec ep \<noteq> en_localSpec e" "en_nat e \<noteq> None"
  shows "\<exists>e'. install_families L T now ep fs e = (e', []) \<and>
    (\<forall>f\<in>set fs. en_pending e' (GetFamilyCableName (ep_Spec ep) f) \<noteq> None) \<and>
    (\<forall>k. en_pending e k \<noteq> None \<longrightarrow> en_pending e' k \<noteq> None) \<and> en_driver e' = en_driver e"
  using assms
proof (induction fs arbitrary: e)
  case (Cons f fs)
  from Cons.prems(3) obtain nd where nd: "en_nat e = Some nd" by blast
  from InstallCable_pending [OF Cons.prems(1,2) nd, of L T now f] obtain e1 where
    e1: "InstallCable L T now ep f e = (e1, None)" "en_pending e1 (GetFamilyCableName (ep_Spec ep) f) \<noteq> None"
      "\<forall>k. en_pending e k \<noteq> None \<longrightarrow> en_pending e1 k \<noteq> None" "en_localCluster e1 = en_localCluster e"
      "en_localSpec e1 = en_localSpec e" "en_nat e1 \<noteq> None" "en_driver e1 = en_driver e" by blast
  have "ClusterID (ep_Spec ep) \<noteq> sc_ID (en_localCluster e1)" "ep_Spec ep \<noteq> en_localSpec e1"
    using Cons.prems e1 by simp_all
  from Cons.IH [OF this e1(6)] obtain e2 where
    "install_families L T now ep fs e1 = (e2, [])"
    "\<forall>f\<in>set fs. en_pending e2 (GetFamilyCableName (ep_Spec ep) f) \<noteq> None"
    "\<forall>k. en_pending e1 k \<noteq> None \<longrightarrow> en_pending e2 k \<noteq> None" "en_driver e2 = en_driver e1" by blast
  with e1 show ?case by auto
qed simp

text \<open>Creating or updating a remote endpoint never needs a retry and makes a discovery result pending for every
  IP family that both endpoints have; the driver is not touched before the result is there.\<close>

theorem created_endpoint_pending:
  assumes "libs_ok L" and "ClusterID (ep_Spec ep) \<noteq> sc_ID (en_localCluster e)"
    and "ep_Spec ep \<noteq> en_localSpec e" and "en_nat e \<noteq> None"
  shows "\<exists>e'. handleCreatedOrUpdatedEndpoint L T now families ep e = (e', False) \<and>
    (\<forall>f\<in>set families \<inter> set (GetIPFamilies L (ep_Spec ep)).
       en_pending e' (GetFamilyCableName (ep_Spec ep) f) \<noteq> None) \<and>
    en_driver e' = en_driver e"
proof -
  let ?fs = "findCommonIPFamilies L families (GetIPFamilies L (ep_Spec ep))"
  have "set ?fs = set families \<inter> set (GetIPFamilies L (ep_Spec ep))"
    using assms(1) by (simp add: findCommonIPFamilies_def libs_ok_def)
  with install_families_pending [OF assms(2-4), of L T now ?fs] show ?thesis
    by (auto simp: handleCreatedOrUpdatedEndpoint_def)
qed

definition example_engine :: "unit vxLan engine" where
  "example_engine = SetupNATDiscovery
     \<lparr>nd_LocalSpec = example_spec, nd_serverPort = 4490, nd_remoteEndpoints = Map.empty,
      nd_requestCounter = 7, nd_writers = [], nd_ready = [], nd_sent = []\<rparr>
     (NewEngine \<lparr>sc_ID = ''east'', sc_Spec = \<lparr>cs_ClusterID = ''east'', cs_ColorCodes = [], cs_ServiceCIDR = [],
        cs_ClusterCIDR = [], cs_GlobalCIDR = []\<rparr>\<rparr> example_spec)"

definition example_remote :: Endpoint where
  "example_remote = example_endpoint\<lparr>ep_Spec := example_spec\<lparr>ClusterID := ''west'', CableName := ''cable-west''\<rparr>\<rparr>"

theorem created_endpoint_pending_witness:
  "\<exists>e'. handleCreatedOrUpdatedEndpoint ref_libs init_timeouts 5 [IPv4] example_remote example_engine = (e', False) \<and>
     en_pending e' ''cable-west-v4'' \<noteq> None"
proof -
  have c: "ClusterID (ep_Spec example_remote) \<noteq> sc_ID (en_localCluster example_engine)"
    "ep_Spec example_remote \<noteq> en_localSpec example_engine" by code_simp+
  have n: "en_nat example_engine \<noteq> None" by (simp add: example_engine_def SetupNATDiscovery_def)
  have f: "IPv4 \<in> set (GetIPFamilies ref_libs (ep_Spec example_remote))" by code_simp
  have k: "GetFamilyCableName (ep_Spec example_remote) IPv4 = ''cable-west-v4''" by code_simp
  from created_endpoint_pending [OF ref_libs_ok c n, of init_timeouts 5 "[IPv4]"] f k show ?thesis by auto
qed

lemma RemoveCable_pending:
  assumes "ClusterID (ep_Spec ep) \<noteq> sc_ID (en_localCluster e)" "en_nat e \<noteq> None" "RemoveCable D ep f e = (e', r)"
  shows "en_pending e' (GetFamilyCableName (ep_Spec ep) f) = None \<and>
    (\<forall>k. en_pending e k = None \<longrightarrow> en_pending e' k = None) \<and>
    (r = None \<longrightarrow> en_installed e' (GetFamilyCableName (ep_Spec ep) f) = None) \<and>
    (\<forall>k. en_installed e k = None \<longrightarrow> en_installed e' k = None) \<and>
    en_localCluster e' = en_localCluster e \<and> en_nat e' \<noteq> None"
  using assms by (auto simp: RemoveCable_def Let_def split: option.split_asm prod.split_asm if_split_asm)

lemma remove_families_pending:
  assumes "ClusterID (ep_Spec ep) \<noteq> sc_ID (en_localCluster e)" "en_nat e \<noteq> None"
    "remove_families D ep fs e = (e', errs)"
  shows "(\<forall>f\<in>set fs. en_pending e' (GetFamilyCableName (ep_Spec ep) f) = None \<and>
      (errs = [] \<longrightarrow> en_installed e' (GetFamilyCableName (ep_Spec ep) f) = None)) \<and>
    (\<forall>k. en_pending e k = None \<longrightarrow> en_pending e' k = None) \<and>
    (\<forall>k. en_installed e k = None \<longrightarrow> en_installed e' k = None)"
  using assms
proof (induction fs arbitrary: e e' errs)
  case (Cons f fs)
  obtain e1 r where e1: "RemoveCable D ep f e = (e1, r)" by fastforce
  obtain e2 errs2 where e2: "remove_families D ep fs e1 = (e2, errs2)" by fastforce
  note one = RemoveCable_pending [OF Cons.prems(1,2) e1]
  have "ClusterID (ep_Spec ep) \<noteq> sc_ID (en_localCluster e1)" "en_nat e1 \<noteq> None"
    using one Cons.prems(1) by simp_all
  note rest = Cons.IH [OF this e2]
  from Cons.prems(3) e1 e2 have res: "e' = e2" "errs = (case r of None \<Rightarrow> errs2 | Some x \<Rightarrow> x # errs2)" by auto
  have ok: "r = None \<and> errs2 = []" if "errs = []" using res(2) that by (cases r) auto
  show ?case
    unfolding res(1) using one rest ok by (auto simp: ball_simps)
qed simp

text \<open>After the removal of a remote endpoint no discovery result is pending for any family it shares with the
  local endpoint, and unless the event is retried none of its cables is recorded as installed.\<close>

theorem removed_endpoint_cleared:
  assumes "libs_ok L" and "ClusterID (ep_Spec ep) \<noteq> sc_ID (en_localCluster e)" and "en_nat e \<noteq> None"
    and "handleRemovedEndpoint L D families ep e = (e', retry)"
  shows "\<forall>f\<in>set families \<inter> set (GetIPFamilies L (ep_Spec ep)).
    en_pending e' (GetFamilyCableName (ep_Spec ep) f) = None \<and>
    (\<not> retry \<longrightarrow> en_installed e' (GetFamilyCableName (ep_Spec ep) f) = None)"
proof -
  let ?fs = "findCommonIPFamilies L families (GetIPFamilies L (ep_Spec ep))"
  have fs: "set ?fs = set families \<inter> set (GetIPFamilies L (ep_Spec ep))"
    using assms(1) by (simp add: findCommonIPFamilies_def libs_ok_def)
  obtain errs where run: "remove_families D ep ?fs e = (e', errs)" "retry \<longleftrightarrow> errs \<noteq> []"
    using assms(4) by (auto simp: handleRemovedEndpoint_def split: prod.split_asm)
  from remove_families_pending [OF assms(2,3) run(1)] show ?thesis
    unfolding fs run(2) by blast
qed

theorem removed_endpoint_cleared_witness:
  "\<exists>e' retry. handleRemovedEndpoint ref_libs (vxlanDriver ref_libs ref_netLink) [IPv4] example_remote example_engine =
     (e', retry) \<and> en_pending e' ''cable-west-v4'' = None"
proof -
  have c: "ClusterID (ep_Spec example_remote) \<noteq> sc_ID (en_localCluster example_engine)" by code_simp
  have n: "en_nat example_engine \<noteq> None" by (simp add: example_engine_def SetupNATDiscovery_def)
  have f: "IPv4 \<in> set (GetIPFamilies ref_libs (ep_Spec example_remote))" by code_simp
  have k: "GetFamilyCableName (ep_Spec example_remote) IPv4 = ''cable-west-v4''" by code_simp
  obtain e' r where h: "handleRemovedEndpoint ref_libs (vxlanDriver ref_libs ref_netLink) [IPv4] example_remote
      example_engine = (e', r)" by fastforce
  from removed_endpoint_cleared [OF ref_libs_ok c n h] f k h show ?thesis by auto
qed

end
