(* ===== verification/EventController.thy ===== *)
theory EventController
  imports EndpointApi
begin

text \<open>
  \<open>pkg/event\<close> and \<open>pkg/event/controller\<close>: the registry of event handlers and, for each of them, the
  controller that turns endpoint and node events into calls of the handler, keeping track of the local
  node's gateway role and of the last endpoint seen from each remote cluster.

  A handler is a function from the callback and the handler's state to its new state and an error. The
  ghost field \<open>hc_calls\<close> lists the callbacks made, with whether each succeeded. A result \<open>True\<close> of a
  controller operation asks the work queue to retry the event.
\<close>

section \<open>Handlers and the registry\<close>

datatype callback =
    TransitionToNonGateway Endpoint
  | TransitionToGateway
  | LocalEndpointCreated Endpoint
  | LocalEndpointUpdated Endpoint
  | LocalEndpointRemoved Endpoint
  | RemoteEndpointCreated Endpoint
  | RemoteEndpointUpdated Endpoint
  | RemoteEndpointRemoved Endpoint
  | StaleRemoteEndpointRemoved Endpoint
  | NodeCreated string
  | NodeUpdated string
  | NodeRemoved string

type_synonym 'h callbacks = "callback \<Rightarrow> 'h \<Rightarrow> 'h \<times> err option"

definition HandlerBase :: "'h callbacks" where
  "HandlerBase cb h = (h, None)"

record 'h Handler =
  hd_Name :: string
  hd_NetworkPlugins :: "string list"
  hd_Init :: "'h \<Rightarrow> 'h \<times> err option"
  hd_Stop :: "'h \<Rightarrow> 'h \<times> err option"
  hd_Uninstall :: "'h \<Rightarrow> 'h \<times> err option"
  hd_State :: 'h

record 'h Registry =
  rg_name :: string
  rg_networkPlugin :: string
  rg_eventHandlers :: "'h Handler list"

definition AnyNetworkPlugin :: string where "AnyNetworkPlugin = []"

definition plugin_matches :: "string \<Rightarrow> 'h Handler \<Rightarrow> bool" where
  "plugin_matches networkPlugin h =
     (let evNetworkPlugins = map to_lower (hd_NetworkPlugins h) in
      networkPlugin = AnyNetworkPlugin \<or> AnyNetworkPlugin \<in> set evNetworkPlugins \<or>
      networkPlugin \<in> set evNetworkPlugins)"

definition addHandler :: "'h Handler \<Rightarrow> 'h Registry \<Rightarrow> 'h Registry result" where
  "addHandler h er =
     (if plugin_matches (rg_networkPlugin er) h then
        (case hd_Init h (hd_State h) of
           (_, Some e) \<Rightarrow> Inl (Wrapped ''Event handler failed to initialize'' e)
         | (st, None) \<Rightarrow> Inr (er\<lparr>rg_eventHandlers := rg_eventHandlers er @ [h\<lparr>hd_State := st\<rparr>]\<rparr>))
      else Inr er)"

fun add_handlers :: "'h Handler list \<Rightarrow> 'h Registry \<Rightarrow> 'h Registry result" where
  "add_handlers [] er = Inr er"
| "add_handlers (h # hs) er = (case addHandler h er of Inl e \<Rightarrow> Inl e | Inr er' \<Rightarrow> add_handlers hs er')"

definition NewRegistry :: "string \<Rightarrow> string \<Rightarrow> 'h Handler list \<Rightarrow> 'h Registry result" where
  "NewRegistry name networkPlugin eventHandlers =
     add_handlers eventHandlers \<lparr>rg_name = name, rg_networkPlugin = to_lower networkPlugin, rg_eventHandlers = []\<rparr>"

text \<open>Every handler is called; the errors are joined, which here is the list of them.\<close>

fun invoke_all ::
  "('h Handler \<Rightarrow> 'h \<Rightarrow> 'h \<times> err option) \<Rightarrow> 'h Handler list \<Rightarrow> 'h Handler list \<times> err list" where
  "invoke_all f [] = ([], [])"
| "invoke_all f (h # hs) =
     (case f h (hd_State h) of (st, r) \<Rightarrow>
        (case invoke_all f hs of (hs', errs) \<Rightarrow>
           (h\<lparr>hd_State := st\<rparr> # hs',
            (case r of None \<Rightarrow> errs | Some e \<Rightarrow> Wrapped (hd_Name h @ '' returned error'') e # errs))))"

definition invokeHandlers ::
  "string \<Rightarrow> ('h Handler \<Rightarrow> 'h \<Rightarrow> 'h \<times> err option) \<Rightarrow> 'h Registry \<Rightarrow> 'h Registry \<times> err list" where
  "invokeHandlers eventName f er =
     (case invoke_all f (rg_eventHandlers er) of (hs, errs) \<Rightarrow>
        (er\<lparr>rg_eventHandlers := hs\<rparr>, map (Wrapped (eventName @ '' failed'')) errs))"

definition StopHandlers :: "'h Registry \<Rightarrow> 'h Registry \<times> err list" where
  "StopHandlers er = invokeHandlers ''Stop'' hd_Stop er"

definition registry_Uninstall :: "'h Registry \<Rightarrow> 'h Registry \<times> err list" where
  "registry_Uninstall er = invokeHandlers ''Uninstall'' hd_Uninstall er"

section \<open>The controller of one handler\<close>

record 'h handlerController =
  hc_isOnGateway :: bool
  hc_wasOnGateway :: bool
  hc_remoteEndpoints :: "string \<rightharpoonup> Endpoint"
  hc_hostname :: string
  hc_clusterID :: string
  hc_lastRemoteEndpoint :: "string \<rightharpoonup> Endpoint"
  hc_handler :: 'h
  hc_calls :: "(callback \<times> bool) list"

definition maxRequeues :: int where "maxRequeues = 20"

definition new_handlerController :: "string \<Rightarrow> string \<Rightarrow> 'h \<Rightarrow> 'h handlerController" where
  "new_handlerController clusterID hostname h = \<lparr>hc_isOnGateway = False, hc_wasOnGateway = False,
     hc_remoteEndpoints = Map.empty, hc_hostname = hostname, hc_clusterID = clusterID,
     hc_lastRemoteEndpoint = Map.empty, hc_handler = h, hc_calls = []\<rparr>"

definition call_handler ::
  "'h callbacks \<Rightarrow> callback \<Rightarrow> 'h handlerController \<Rightarrow> 'h handlerController \<times> err option" where
  "call_handler H cb c = (case H cb (hc_handler c) of
     (h, r) \<Rightarrow> (c\<lparr>hc_handler := h, hc_calls := hc_calls c @ [(cb, r = None)]\<rparr>, r))"

definition handleCreatedLocalEndpoint ::
  "'h callbacks \<Rightarrow> Endpoint \<Rightarrow> 'h handlerController \<Rightarrow> 'h handlerController \<times> err option" where
  "handleCreatedLocalEndpoint H endpoint c0 =
     (let c = (if Hostname (ep_Spec endpoint) = hc_hostname c0 then c0\<lparr>hc_isOnGateway := True\<rparr> else c0);
          (c1, err1) = call_handler H (LocalEndpointCreated endpoint) c;
          (c2, err2) = (if err1 = None \<and> \<not> hc_wasOnGateway c1 \<and> hc_isOnGateway c1
                        then call_handler H TransitionToGateway c1 else (c1, err1))
      in (if err2 = None then c2\<lparr>hc_wasOnGateway := hc_isOnGateway c2\<rparr> else c2, err2))"

definition handleCreatedRemoteEndpoint ::
  "'h callbacks \<Rightarrow> Endpoint \<Rightarrow> 'h handlerController \<Rightarrow> 'h handlerController \<times> err option" where
  "handleCreatedRemoteEndpoint H endpoint c =
     (let cluster = ClusterID (ep_Spec endpoint);
          stale = (case hc_lastRemoteEndpoint c cluster of
             None \<Rightarrow> False | Some prev \<Rightarrow> ep_CreationTimestamp prev > ep_CreationTimestamp endpoint) in
      if stale then (c, None)
      else call_handler H (RemoteEndpointCreated endpoint)
        (c\<lparr>hc_remoteEndpoints := (hc_remoteEndpoints c)(ep_Name endpoint \<mapsto> endpoint),
           hc_lastRemoteEndpoint := (hc_lastRemoteEndpoint c)(cluster \<mapsto> endpoint)\<rparr>))"

text \<open>The three entry points have one shape: give up after too many retries, then local or remote.\<close>

definition dispatch ::
  "('h handlerController \<Rightarrow> 'h handlerController \<times> err option) \<Rightarrow>
   ('h handlerController \<Rightarrow> 'h handlerController \<times> err option) \<Rightarrow>
   Endpoint \<Rightarrow> int \<Rightarrow> 'h handlerController \<Rightarrow> 'h handlerController \<times> bool" where
  "dispatch remote local' endpoint requeueCount c =
     (if requeueCount > maxRequeues then (c, False)
      else (case (if ClusterID (ep_Spec endpoint) \<noteq> hc_clusterID c then remote c else local' c) of
              (c', err) \<Rightarrow> (c', err \<noteq> None)))"

definition handleCreatedEndpoint ::
  "'h callbacks \<Rightarrow> Endpoint \<Rightarrow> int \<Rightarrow> 'h handlerController \<Rightarrow> 'h handlerController \<times> bool" where
  "handleCreatedEndpoint H endpoint requeueCount c =
     dispatch (handleCreatedRemoteEndpoint H endpoint) (handleCreatedLocalEndpoint H endpoint) endpoint requeueCount c"

definition handleRemovedLocalEndpoint ::
  "'h callbacks \<Rightarrow> Endpoint \<Rightarrow> 'h handlerController \<Rightarrow> 'h handlerController \<times> err option" where
  "handleRemovedLocalEndpoint H endpoint c0 =
     (let c = (if Hostname (ep_Spec endpoint) = hc_hostname c0 then c0\<lparr>hc_isOnGateway := False\<rparr> else c0);
          (c1, err1) = call_handler H (LocalEndpointRemoved endpoint) c;
          (c2, err2) = (if err1 = None \<and> hc_wasOnGateway c1 \<and> \<not> hc_isOnGateway c1
                        then call_handler H (TransitionToNonGateway endpoint) c1 else (c1, err1))
      in (if err2 = None then c2\<lparr>hc_wasOnGateway := hc_isOnGateway c2\<rparr> else c2, err2))"

definition handleRemovedRemoteEndpoint ::
  "'h callbacks \<Rightarrow> Endpoint \<Rightarrow> 'h handlerController \<Rightarrow> 'h handlerController \<times> err option" where
  "handleRemovedRemoteEndpoint H endpoint c0 =
     (let c = c0\<lparr>hc_remoteEndpoints := (hc_remoteEndpoints c0)(ep_Name endpoint := None)\<rparr>;
          cluster = ClusterID (ep_Spec endpoint);
          stale = (case hc_lastRemoteEndpoint c cluster of None \<Rightarrow> False | Some prev \<Rightarrow> ep_UID prev \<noteq> ep_UID endpoint) in
      if stale then call_handler H (StaleRemoteEndpointRemoved endpoint) c
      else call_handler H (RemoteEndpointRemoved endpoint)
        (c\<lparr>hc_lastRemoteEndpoint := (hc_lastRemoteEndpoint c)(cluster := None)\<rparr>))"

definition handleRemovedEndpoint' ::
  "'h callbacks \<Rightarrow> Endpoint \<Rightarrow> int \<Rightarrow> 'h handlerController \<Rightarrow> 'h handlerController \<times> bool" where
  "handleRemovedEndpoint' H endpoint requeueCount c =
     dispatch (handleRemovedRemoteEndpoint H endpoint) (handleRemovedLocalEndpoint H endpoint) endpoint requeueCount c"

definition handleUpdatedLocalEndpoint ::
  "'h callbacks \<Rightarrow> Endpoint \<Rightarrow> 'h handlerController \<Rightarrow> 'h handlerController \<times> err option" where
  "handleUpdatedLocalEndpoint H endpoint c = call_handler H (LocalEndpointUpdated endpoint) c"

definition handleUpdatedRemoteEndpoint ::
  "'h callbacks \<Rightarrow> Endpoint \<Rightarrow> 'h handlerController \<Rightarrow> 'h handlerController \<times> err option" where
  "handleUpdatedRemoteEndpoint H endpoint c = call_handler H (RemoteEndpointUpdated endpoint)
     (c\<lparr>hc_remoteEndpoints := (hc_remoteEndpoints c)(ep_Name endpoint \<mapsto> endpoint)\<rparr>)"

definition handleUpdatedEndpoint ::
  "'h callbacks \<Rightarrow> Endpoint \<Rightarrow> int \<Rightarrow> 'h handlerController \<Rightarrow> 'h handlerController \<times> bool" where
  "handleUpdatedEndpoint H endpoint requeueCount c =
     dispatch (handleUpdatedRemoteEndpoint H endpoint) (handleUpdatedLocalEndpoint H endpoint) endpoint requeueCount c"

definition handleCreatedNode :: "'h callbacks \<Rightarrow> string \<Rightarrow> 'h handlerController \<Rightarrow> 'h handlerController \<times> bool" where
  "handleCreatedNode H node c = (case call_handler H (NodeCreated node) c of (c', r) \<Rightarrow> (c', r \<noteq> None))"

definition handleUpdatedNode :: "'h callbacks \<Rightarrow> string \<Rightarrow> 'h handlerController \<Rightarrow> 'h handlerController \<times> bool" where
  "handleUpdatedNode H node c = (case call_handler H (NodeUpdated node) c of (c', r) \<Rightarrow> (c', r \<noteq> None))"

definition handleRemovedNode :: "'h callbacks \<Rightarrow> string \<Rightarrow> 'h handlerController \<Rightarrow> 'h handlerController \<times> bool" where
  "handleRemovedNode H node c = (case call_handler H (NodeRemoved node) c of (c', r) \<Rightarrow> (c', r \<noteq> None))"

section \<open>The registry keeps the matching handlers\<close>

lemma add_handlers_spec:
  "add_handlers hs er = Inr er' \<Longrightarrow>
   rg_name er' = rg_name er \<and> rg_networkPlugin er' = rg_networkPlugin er \<and>
   map hd_Name (rg_eventHandlers er') =
     map hd_Name (rg_eventHandlers er) @ map hd_Name (filter (plugin_matches (rg_networkPlugin er)) hs)"
  by (induction hs arbitrary: er)
    (auto simp: addHandler_def split: sum.split_asm if_split_asm prod.split_asm option.split_asm)

lemma add_handlers_fail:
  "(\<exists>e. add_handlers hs er = Inl e) \<longleftrightarrow>
   (\<exists>h\<in>set hs. plugin_matches (rg_networkPlugin er) h \<and> snd (hd_Init h (hd_State h)) \<noteq> None)"
proof (induction hs arbitrary: er)
  case (Cons h hs)
  show ?case
  proof (cases "plugin_matches (rg_networkPlugin er) h \<and> snd (hd_Init h (hd_State h)) \<noteq> None")
    case True
    then show ?thesis by (auto simp: addHandler_def split: prod.split option.split)
  next
    case False
    obtain st r where "hd_Init h (hd_State h) = (st, r)" by fastforce
    with False obtain er1 where er1: "addHandler h er = Inr er1" "rg_networkPlugin er1 = rg_networkPlugin er"
      by (cases "plugin_matches (rg_networkPlugin er) h") (auto simp: addHandler_def)
    with Cons.IH [of er1] False show ?thesis by auto
  qed
qed simp

lemma invoke_all_spec:
  "invoke_all f hs = (hs', errs) \<Longrightarrow>
   map hd_State hs' = map (\<lambda>h. fst (f h (hd_State h))) hs \<and>
   length errs = length (filter (\<lambda>h. snd (f h (hd_State h)) \<noteq> None) hs)"
  by (induction hs arbitrary: hs' errs) (auto split: prod.split_asm option.split_asm)

text \<open>A new registry has exactly the handlers whose network plugins include the registry's plugin, compared
  without case (no name on either side matches everything), in the order given; creating it fails exactly when
  one of those fails to initialize. Stopping and uninstalling call every handler, whatever others return, and
  report one error per failure.\<close>

theorem registry_spec:
  "(\<forall>er. NewRegistry name plugin hs = Inr er \<longrightarrow>
      map hd_Name (rg_eventHandlers er) = map hd_Name (filter (plugin_matches (to_lower plugin)) hs)) \<and>
   ((\<exists>e. NewRegistry name plugin hs = Inl e) \<longleftrightarrow>
      (\<exists>h\<in>set hs. plugin_matches (to_lower plugin) h \<and> snd (hd_Init h (hd_State h)) \<noteq> None)) \<and>
   (\<forall>er er' errs. StopHandlers er = (er', errs) \<longrightarrow>
      map hd_State (rg_eventHandlers er') = map (\<lambda>h. fst (hd_Stop h (hd_State h))) (rg_eventHandlers er) \<and>
      length errs = length (filter (\<lambda>h. snd (hd_Stop h (hd_State h)) \<noteq> None) (rg_eventHandlers er)))"
  using add_handlers_fail [of hs "\<lparr>rg_name = name, rg_networkPlugin = to_lower plugin, rg_eventHandlers = []\<rparr>"]
  by (auto simp: NewRegistry_def StopHandlers_def invokeHandlers_def dest!: add_handlers_spec
      split: prod.split_asm dest!: invoke_all_spec)

definition example_handler :: "string \<Rightarrow> string \<Rightarrow> unit Handler" where
  "example_handler name plugin = \<lparr>hd_Name = name, hd_NetworkPlugins = [plugin], hd_Init = (\<lambda>h. (h, None)),
     hd_Stop = (\<lambda>h. (h, None)), hd_Uninstall = (\<lambda>h. (h, None)), hd_State = ()\<rparr>"

theorem registry_spec_witness:
  "case NewRegistry ''r'' ''OVN'' [example_handler ''a'' ''ovn'', example_handler ''b'' ''calico''] of
     Inl e \<Rightarrow> False | Inr er \<Rightarrow> map hd_Name (rg_eventHandlers er) = [''a'']"
proof -
  let ?hs = "[example_handler ''a'' ''ovn'', example_handler ''b'' ''calico'']"
  have m: "plugin_matches (to_lower ''OVN'') (example_handler ''a'' ''ovn'')"
    "\<not> plugin_matches (to_lower ''OVN'') (example_handler ''b'' ''calico'')" by code_simp+
  have "\<nexists>e. NewRegistry ''r'' ''OVN'' ?hs = Inl e"
    using registry_spec [of "''r''" "''OVN''" ?hs] by (auto simp: example_handler_def)
  then obtain er where "NewRegistry ''r'' ''OVN'' ?hs = Inr er" by (metis sum.exhaust)
  with registry_spec [of "''r''" "''OVN''" ?hs] m show ?thesis by (auto simp: example_handler_def)
qed

section \<open>Runs of a controller\<close>

inductive ev_step :: "'h callbacks \<Rightarrow> 'h handlerController \<Rightarrow> 'h handlerController \<Rightarrow> bool" for H where
  created: "ev_step H c (fst (handleCreatedEndpoint H ep n c))"
| updated: "ev_step H c (fst (handleUpdatedEndpoint H ep n c))"
| removed: "ev_step H c (fst (handleRemovedEndpoint' H ep n c))"
| node_created: "ev_step H c (fst (handleCreatedNode H node c))"
| node_updated: "ev_step H c (fst (handleUpdatedNode H node c))"
| node_removed: "ev_step H c (fst (handleRemovedNode H node c))"

inductive ev_reachable :: "'h callbacks \<Rightarrow> 'h handlerController \<Rightarrow> bool" for H where
  new: "ev_reachable H (new_handlerController clusterID hostname h)"
| step: "ev_reachable H c \<Longrightarrow> ev_step H c c' \<Longrightarrow> ev_reachable H c'"

text \<open>The successful transitions in a list of calls: True to gateway, False to non-gateway.\<close>

fun transitions :: "(callback \<times> bool) list \<Rightarrow> bool list" where
  "transitions [] = []"
| "transitions ((TransitionToGateway, True) # cs) = True # transitions cs"
| "transitions ((TransitionToNonGateway e, True) # cs) = False # transitions cs"
| "transitions (c # cs) = transitions cs"

fun alternates :: "bool \<Rightarrow> bool list \<Rightarrow> bool" where
  "alternates b [] = True"
| "alternates b (x # xs) = (x = b \<and> alternates (\<not> b) xs)"

definition on_gateway :: "bool list \<Rightarrow> bool" where
  "on_gateway ts = (ts \<noteq> [] \<and> last ts)"

lemma transitions_append: "transitions (xs @ ys) = transitions xs @ transitions ys"
  by (induction xs rule: transitions.induct) auto

lemma alternates_snoc: "alternates b (xs @ [x]) = (alternates b xs \<and> x = (if xs = [] then b else \<not> last xs))"
  by (induction b xs rule: alternates.induct) auto

definition gw_inv :: "'h handlerController \<Rightarrow> bool" where
  "gw_inv c \<longleftrightarrow> alternates True (transitions (hc_calls c)) \<and>
     hc_wasOnGateway c = on_gateway (transitions (hc_calls c)) \<and> hc_isOnGateway c = hc_wasOnGateway c"

text \<open>The callbacks about the local endpoint and the gateway role.\<close>

fun local_callback :: "callback \<Rightarrow> bool" where
  "local_callback (TransitionToNonGateway _) = True"
| "local_callback TransitionToGateway = True"
| "local_callback (LocalEndpointCreated _) = True"
| "local_callback (LocalEndpointRemoved _) = True"
| "local_callback _ = False"

definition never_fails_locally :: "'h callbacks \<Rightarrow> bool" where
  "never_fails_locally H \<longleftrightarrow> (\<forall>cb h. local_callback cb \<longrightarrow> snd (H cb h) = None)"

lemma call_handler_frame:
  "call_handler H cb c = (c', r) \<Longrightarrow>
   hc_wasOnGateway c' = hc_wasOnGateway c \<and> hc_isOnGateway c' = hc_isOnGateway c \<and>
   hc_lastRemoteEndpoint c' = hc_lastRemoteEndpoint c \<and> hc_remoteEndpoints c' = hc_remoteEndpoints c \<and>
   hc_clusterID c' = hc_clusterID c \<and> hc_hostname c' = hc_hostname c \<and> hc_calls c' = hc_calls c @ [(cb, r = None)]"
  by (auto simp: call_handler_def split: prod.split_asm)

lemma call_handler_ok: "never_fails_locally H \<Longrightarrow> local_callback cb \<Longrightarrow> call_handler H cb c = (c', r) \<Longrightarrow> r = None"
  by (auto simp: call_handler_def never_fails_locally_def split: prod.split_asm) (metis snd_conv)

lemma transitions_other:
  "transitions [(RemoteEndpointCreated e, b)] = []" "transitions [(RemoteEndpointUpdated e, b)] = []"
  "transitions [(RemoteEndpointRemoved e, b)] = []" "transitions [(StaleRemoteEndpointRemoved e, b)] = []"
  "transitions [(LocalEndpointCreated e, b)] = []" "transitions [(LocalEndpointUpdated e, b)] = []"
  "transitions [(LocalEndpointRemoved e, b)] = []" "transitions [(NodeCreated n, b)] = []"
  "transitions [(NodeUpdated n, b)] = []" "transitions [(NodeRemoved n, b)] = []"
  by (cases b; simp)+

lemma call_handler_gw:
  assumes "call_handler H cb c = (c', r)" "transitions [(cb, r = None)] = []"
  shows "gw_inv c' = gw_inv c"
  using call_handler_frame [OF assms(1)] assms(2) by (simp add: gw_inv_def transitions_append)

lemma created_local_gw:
  assumes "gw_inv c" "never_fails_locally H" shows "gw_inv (fst (handleCreatedLocalEndpoint H ep c))"
proof -
  define c0 where "c0 = (if Hostname (ep_Spec ep) = hc_hostname c then c\<lparr>hc_isOnGateway := True\<rparr> else c)"
  have c0: "hc_wasOnGateway c0 = hc_wasOnGateway c" "hc_calls c0 = hc_calls c"
    "hc_isOnGateway c0 = (hc_wasOnGateway c \<or> Hostname (ep_Spec ep) = hc_hostname c)"
    using assms(1) by (auto simp: c0_def gw_inv_def)
  obtain c1 r1 where c1: "call_handler H (LocalEndpointCreated ep) c0 = (c1, r1)" by fastforce
  obtain c2 r2 where c2: "call_handler H TransitionToGateway c1 = (c2, r2)" by fastforce
  have ok: "r1 = None" "r2 = None" using call_handler_ok [OF assms(2) _ c1] call_handler_ok [OF assms(2) _ c2] by simp_all
  note f1 = call_handler_frame [OF c1] and f2 = call_handler_frame [OF c2]
  show ?thesis
    using assms(1) f1 f2 c0 ok
    by (auto simp: handleCreatedLocalEndpoint_def Let_def c0_def [symmetric] c1 c2 gw_inv_def
        transitions_append transitions_other alternates_snoc on_gateway_def)
qed

lemma removed_local_gw:
  assumes "gw_inv c" "never_fails_locally H" shows "gw_inv (fst (handleRemovedLocalEndpoint H ep c))"
proof -
  define c0 where "c0 = (if Hostname (ep_Spec ep) = hc_hostname c then c\<lparr>hc_isOnGateway := False\<rparr> else c)"
  have c0: "hc_wasOnGateway c0 = hc_wasOnGateway c" "hc_calls c0 = hc_calls c"
    "hc_isOnGateway c0 = (hc_wasOnGateway c \<and> Hostname (ep_Spec ep) \<noteq> hc_hostname c)"
    using assms(1) by (auto simp: c0_def gw_inv_def)
  obtain c1 r1 where c1: "call_handler H (LocalEndpointRemoved ep) c0 = (c1, r1)" by fastforce
  obtain c2 r2 where c2: "call_handler H (TransitionToNonGateway ep) c1 = (c2, r2)" by fastforce
  have ok: "r1 = None" "r2 = None" using call_handler_ok [OF assms(2) _ c1] call_handler_ok [OF assms(2) _ c2] by simp_all
  note f1 = call_handler_frame [OF c1] and f2 = call_handler_frame [OF c2]
  show ?thesis
    using assms(1) f1 f2 c0 ok
    by (auto simp: handleRemovedLocalEndpoint_def Let_def c0_def [symmetric] c1 c2 gw_inv_def
        transitions_append transitions_other alternates_snoc on_gateway_def)
qed

lemma gw_inv_cong:
  "gw_inv (c\<lparr>hc_remoteEndpoints := m\<rparr>) = gw_inv c" "gw_inv (c\<lparr>hc_lastRemoteEndpoint := l\<rparr>) = gw_inv c"
  by (simp_all add: gw_inv_def)

lemma fst_call_gw:
  "(\<And>b. transitions [(cb, b)] = []) \<Longrightarrow> gw_inv (fst (call_handler H cb c)) = gw_inv c"
  by (metis call_handler_gw prod.collapse)

lemma ev_step_gw:
  assumes "ev_step H c c'" "never_fails_locally H" "gw_inv c" shows "gw_inv c'"
  using assms(1,3)
proof (induction rule: ev_step.induct)
  case (created c ep n)
  then show ?case
    using created_local_gw [OF created assms(2), of ep]
    by (auto simp: handleCreatedEndpoint_def dispatch_def handleCreatedRemoteEndpoint_def Let_def
        fst_call_gw transitions_other gw_inv_cong case_prod_beta)
next
  case (updated c ep n)
  then show ?case
    by (auto simp: handleUpdatedEndpoint_def dispatch_def handleUpdatedRemoteEndpoint_def
        handleUpdatedLocalEndpoint_def fst_call_gw transitions_other gw_inv_cong case_prod_beta)
next
  case (removed c ep n)
  then show ?case
    using removed_local_gw [OF removed assms(2), of ep]
    by (auto simp: handleRemovedEndpoint'_def dispatch_def handleRemovedRemoteEndpoint_def Let_def
        fst_call_gw transitions_other gw_inv_cong case_prod_beta)
qed (simp_all add: handleCreatedNode_def handleUpdatedNode_def handleRemovedNode_def case_prod_beta
    fst_call_gw transitions_other)

text \<open>C34: As long as the handler's callbacks about the local endpoint do not fail, whatever events arrive in
  whatever order, the gateway transitions reported to it alternate, beginning with a transition to gateway,
  and the node is on the gateway exactly when the last one reported was to gateway.\<close>

theorem transitions_alternate:
  assumes "ev_reachable H c" and "never_fails_locally H"
  shows "alternates True (transitions (hc_calls c)) \<and>
    hc_isOnGateway c = on_gateway (transitions (hc_calls c))"
proof -
  from assms have "gw_inv c"
  proof (induction rule: ev_reachable.induct)
    case (new clusterID hostname h)
    show ?case by (simp add: gw_inv_def new_handlerController_def on_gateway_def)
  next
    case (step c c')
    then show ?case by (blast intro: ev_step_gw)
  qed
  then show ?thesis by (simp add: gw_inv_def)
qed

definition local_on :: "string \<Rightarrow> Endpoint" where
  "local_on host = example_endpoint\<lparr>ep_Name := host, ep_Spec := example_spec\<lparr>Hostname := host\<rparr>\<rparr>"

theorem transitions_alternate_witness:
  "alternates True (transitions (hc_calls (fst (handleRemovedEndpoint' HandlerBase (local_on ''a'') 0
     (fst (handleCreatedEndpoint HandlerBase (local_on ''a'') 0 (new_handlerController ''east'' ''a'' ()))))))) \<and>
   transitions (hc_calls (fst (handleRemovedEndpoint' HandlerBase (local_on ''a'') 0
     (fst (handleCreatedEndpoint HandlerBase (local_on ''a'') 0 (new_handlerController ''east'' ''a'' ())))))) = [True, False]"
proof
  let ?c = "new_handlerController ''east'' ''a'' ()"
  have "never_fails_locally (HandlerBase :: unit callbacks)"
    by (simp add: never_fails_locally_def HandlerBase_def)
  moreover have "ev_reachable HandlerBase (fst (handleRemovedEndpoint' HandlerBase (local_on ''a'') 0
      (fst (handleCreatedEndpoint HandlerBase (local_on ''a'') 0 ?c))))"
    by (meson ev_reachable.new ev_reachable.step ev_step.created ev_step.removed)
  ultimately show "alternates True (transitions (hc_calls (fst (handleRemovedEndpoint' HandlerBase (local_on ''a'') 0
      (fst (handleCreatedEndpoint HandlerBase (local_on ''a'') 0 ?c))))))"
    using transitions_alternate by blast
  show "transitions (hc_calls (fst (handleRemovedEndpoint' HandlerBase (local_on ''a'') 0
     (fst (handleCreatedEndpoint HandlerBase (local_on ''a'') 0 ?c))))) = [True, False]" by code_simp
qed

text \<open>A handler whose removal of a local endpoint fails as often as its state says.\<close>

definition failing_removal :: "nat callbacks" where
  "failing_removal cb n = (case cb of
      LocalEndpointRemoved _ \<Rightarrow> if 0 < n then (n - 1, Some (Err ''busy'')) else (n, None)
    | _ \<Rightarrow> (n, None))"

definition lost_transition_run :: "nat handlerController" where
  "lost_transition_run =
     (let c1 = fst (handleCreatedEndpoint failing_removal (local_on ''a'') 0 (new_handlerController ''east'' ''a'' 1));
          (c2, _) = handleRemovedEndpoint' failing_removal (local_on ''a'') 0 c1;
          c3 = fst (handleCreatedEndpoint failing_removal (local_on ''b'') 0 c2)
      in fst (handleRemovedEndpoint' failing_removal (local_on ''a'') 1 c3))"

text \<open>When the removal of the local endpoint fails once, and the endpoint of the new gateway node is created
  before the retry, the retry succeeds but the handler is never told of its transition to non-gateway: the only
  transition in the whole run is the one to gateway.\<close>

theorem transition_lost_on_retry:
  "transitions (hc_calls lost_transition_run) = [True] \<and> \<not> hc_isOnGateway lost_transition_run \<and>
   (LocalEndpointRemoved (local_on ''a''), True) \<in> set (hc_calls lost_transition_run)"
  by code_simp

section \<open>Remote endpoints\<close>

text \<open>For each remote cluster the endpoint last seen never goes back in time while it is known: a create event
  for an older endpoint changes nothing and calls nothing, any other create event records the endpoint; and a
  removal is reported as stale exactly when another endpoint was recorded for the cluster since, which then
  stays recorded.\<close>

theorem remote_endpoint_order:
  "(case hc_lastRemoteEndpoint c (ClusterID (ep_Spec ep)) of
      Some prev \<Rightarrow> (if ep_CreationTimestamp ep < ep_CreationTimestamp prev
        then handleCreatedRemoteEndpoint H ep c = (c, None)
        else hc_lastRemoteEndpoint (fst (handleCreatedRemoteEndpoint H ep c)) =
          (hc_lastRemoteEndpoint c)(ClusterID (ep_Spec ep) \<mapsto> ep))
    | None \<Rightarrow> hc_lastRemoteEndpoint (fst (handleCreatedRemoteEndpoint H ep c)) =
        (hc_lastRemoteEndpoint c)(ClusterID (ep_Spec ep) \<mapsto> ep)) \<and>
   (let c' = fst (handleRemovedRemoteEndpoint H ep c) in
    hc_remoteEndpoints c' (ep_Name ep) = None \<and>
    (case hc_lastRemoteEndpoint c (ClusterID (ep_Spec ep)) of
       Some prev \<Rightarrow> (if ep_UID prev \<noteq> ep_UID ep
         then fst (last (hc_calls c')) = StaleRemoteEndpointRemoved ep \<and>
              hc_lastRemoteEndpoint c' = hc_lastRemoteEndpoint c
         else fst (last (hc_calls c')) = RemoteEndpointRemoved ep \<and>
              hc_lastRemoteEndpoint c' (ClusterID (ep_Spec ep)) = None)
     | None \<Rightarrow> fst (last (hc_calls c')) = RemoteEndpointRemoved ep \<and>
              hc_lastRemoteEndpoint c' (ClusterID (ep_Spec ep)) = None))"
  by (simp add: handleCreatedRemoteEndpoint_def handleRemovedRemoteEndpoint_def call_handler_def Let_def
      case_prod_beta split: option.split)

end
