(* ===== verification/LocalEndpoint.thy ===== *)
theory LocalEndpoint
  imports EndpointApi
begin

text \<open>
  \<open>pkg/endpoint/local_endpoint.go\<close>: the specification of the local endpoint, built from the node, the
  configuration and the addresses of the host, and the \<open>Local\<close> object that owns it. What the host and the
  API server answer are arguments: the record \<open>hostEnv\<close> and the functions of \<open>endpointClient\<close>.
\<close>

section \<open>The local endpoint object\<close>

record LocalEp =
  le_spec :: EndpointSpec
  le_created :: bool

record 'k endpointClient =
  ec_MustUpdate :: "Endpoint \<Rightarrow> (EndpointSpec \<Rightarrow> EndpointSpec) \<Rightarrow> 'k \<Rightarrow> 'k \<times> EndpointSpec result"
    \<comment> \<open>\<open>util.MustUpdate\<close>: the specification that was written\<close>
  ec_CreateOrUpdate :: "Endpoint \<Rightarrow> 'k \<Rightarrow> 'k \<times> err option"

definition NewLocal :: "EndpointSpec \<Rightarrow> LocalEp" where
  "NewLocal spec = \<lparr>le_spec = spec, le_created = False\<rparr>"

definition Spec :: "LocalEp \<Rightarrow> EndpointSpec" where
  "Spec l = le_spec l"

text \<open>A specification without a name panics (\<open>utilruntime.Must\<close>): None.\<close>

definition endpointFrom :: "libs \<Rightarrow> EndpointSpec \<Rightarrow> Endpoint option" where
  "endpointFrom L spec = (case GenerateName L spec of
      Inl _ \<Rightarrow> None
    | Inr name \<Rightarrow> Some \<lparr>ep_Name = name, ep_UID = [], ep_CreationTimestamp = 0, ep_Spec = spec\<rparr>)"

definition go_must :: err where "go_must = Sentinel ''panic''"

definition Update ::
  "libs \<Rightarrow> 'k endpointClient \<Rightarrow> (EndpointSpec \<Rightarrow> EndpointSpec) \<Rightarrow> LocalEp \<Rightarrow> 'k \<Rightarrow> (LocalEp \<times> 'k) \<times> err option" where
  "Update L C mutate l k =
     (if le_created l then
        (case endpointFrom L (le_spec l) of
           None \<Rightarrow> ((l, k), Some go_must)
         | Some toUpdate \<Rightarrow>
             (case ec_MustUpdate C toUpdate mutate k of
                (k', Inl e) \<Rightarrow> ((l, k'), Some e)
              | (k', Inr newSpec) \<Rightarrow> ((l\<lparr>le_spec := newSpec\<rparr>, k'), None)))
      else ((l\<lparr>le_spec := mutate (le_spec l)\<rparr>, k), None))"

definition Create :: "libs \<Rightarrow> 'k endpointClient \<Rightarrow> LocalEp \<Rightarrow> 'k \<Rightarrow> (LocalEp \<times> 'k) \<times> err option" where
  "Create L C l k =
     (case endpointFrom L (le_spec l) of
        None \<Rightarrow> ((l, k), Some go_must)
      | Some toCreate \<Rightarrow>
          (case ec_CreateOrUpdate C toCreate k of (k', e) \<Rightarrow> ((l\<lparr>le_created := (e = None)\<rparr>, k'), e)))"

section \<open>The backend configuration of the node\<close>

record nodeObj =
  no_Name :: string
  no_Labels :: "(string \<times> string) list"         \<comment> \<open>in the order the loop visits the map\<close>
  no_Annotations :: "(string \<times> string) list"

definition GatewayConfigPrefix :: string where "GatewayConfigPrefix = ''gateway.submariner.io/''"

fun addConfigFrom :: "(string \<times> string) list \<Rightarrow> (string, string) fmap \<Rightarrow> (string, string) fmap result" where
  "addConfigFrom [] backendConfig = Inr backendConfig"
| "addConfigFrom ((cfg, v) # configs) backendConfig =
     (if has_prefix cfg GatewayConfigPrefix then
        (let config = drop (length GatewayConfigPrefix) cfg in
         if config \<notin> set ValidGatewayNodeConfig then Inl (Err ''unknown config annotation on node'')
         else addConfigFrom configs (fmupd config v backendConfig))
      else addConfigFrom configs backendConfig)"

definition getNodeBackendConfig :: "nodeObj \<Rightarrow> (string, string) fmap result" where
  "getNodeBackendConfig node = (case addConfigFrom (no_Labels node) fmempty of
      Inl e \<Rightarrow> Inl e
    | Inr backendConfig \<Rightarrow> addConfigFrom (no_Annotations node) backendConfig)"

definition NATTDiscovery :: nat where "NATTDiscovery = 4490"
definition ExternalTunnel :: nat where "ExternalTunnel = 4500"

text \<open>\<open>nattPort\<close> is the environment variable \<open>CE_IPSEC_NATTPORT\<close>.\<close>

definition getBackendConfig :: "string \<Rightarrow> nodeObj \<Rightarrow> (string, string) fmap result" where
  "getBackendConfig nattPort node = (case getNodeBackendConfig node of
      Inl e \<Rightarrow> Inl e
    | Inr b \<Rightarrow>
        (let b1 = (if fmlookup b UDPPortConfig = None
               then fmupd UDPPortConfig (if nattPort = [] then dec_of_nat ExternalTunnel else nattPort) b else b)
         in Inr (if fmlookup b1 NATTDiscoveryPortConfig = None
               then fmupd NATTDiscoveryPortConfig (dec_of_nat NATTDiscovery) b1 else b1)))"

section \<open>The local specification\<close>

record hostEnv =
  he_GetLocalNode :: "nodeObj result"
  he_Hostname :: "string result"
  he_NattPort :: string
  he_GetLocalIP :: "IPFamily \<Rightarrow> string result"
  he_GetPublicIP :: "IPFamily \<Rightarrow> (string, string) fmap \<Rightarrow> string result"
  he_CniDiscover :: "IPFamily \<Rightarrow> string result"

definition replaceAll :: "char \<Rightarrow> char \<Rightarrow> string \<Rightarrow> string" where
  "replaceAll a b s = map (\<lambda>c. if c = a then b else c) s"

definition local_subnets :: "libs \<Rightarrow> SubmarinerSpecification \<Rightarrow> string list" where
  "local_subnets L submSpec =
     (if ss_GlobalCidr submSpec \<noteq> []
      then ss_GlobalCidr submSpec @ ExtractSubnets L IPv6 (ss_ServiceCidr submSpec @ ss_ClusterCidr submSpec)
      else ss_ServiceCidr submSpec @ ss_ClusterCidr submSpec)"

definition cable_name :: "string \<Rightarrow> string \<Rightarrow> string" where
  "cable_name clusterID replacedIP = ''submariner-cable-'' @ clusterID @ ''-'' @ replacedIP"

text \<open>The loops over the IP families: set an address per family, stop at the first error.\<close>

fun set_per_family ::
  "(IPFamily \<Rightarrow> string result) \<Rightarrow> (string \<Rightarrow> EndpointSpec \<Rightarrow> EndpointSpec) \<Rightarrow> IPFamily list \<Rightarrow>
   EndpointSpec \<Rightarrow> EndpointSpec result" where
  "set_per_family get put [] spec = Inr spec"
| "set_per_family get put (f # fs) spec = (case get f of
     Inl e \<Rightarrow> Inl e
   | Inr a \<Rightarrow> set_per_family get put fs (put a spec))"

definition getHealthCheckIP :: "hostEnv \<Rightarrow> IPFamily \<Rightarrow> string result" where
  "getHealthCheckIP E family = wrap_res ''error getting CNI Interface IP address'' (he_CniDiscover E family)"

definition base_spec ::
  "libs \<Rightarrow> SubmarinerSpecification \<Rightarrow> string \<Rightarrow> (string, string) fmap \<Rightarrow> EndpointSpec" where
  "base_spec L submSpec hostname backendConfig =
     \<lparr>ClusterID = ss_ClusterID submSpec, CableName = [], HealthCheckIP = [], HealthCheckIPs = [],
      Hostname = hostname, Subnets = local_subnets L submSpec, PrivateIP = [], PrivateIPs = [],
      PublicIP = [], PublicIPs = [], NATEnabled = ss_NATEnabled submSpec,
      Backend = ss_CableDriver submSpec, BackendConfig = backendConfig\<rparr>"

definition with_cable_name :: "libs \<Rightarrow> SubmarinerSpecification \<Rightarrow> EndpointSpec \<Rightarrow> EndpointSpec" where
  "with_cable_name L submSpec spec =
     (let v4 = GetPrivateIP L IPv4 spec;
          replacedIP = (if v4 \<noteq> [] then replaceAll (CHR ''.'') (CHR ''-'') v4
                        else replaceAll (CHR '':'') (CHR ''-'') (GetPrivateIP L IPv6 spec))
      in spec\<lparr>CableName := cable_name (ss_ClusterID submSpec) replacedIP\<rparr>)"

definition health_families :: "libs \<Rightarrow> SubmarinerSpecification \<Rightarrow> IPFamily list" where
  "health_families L submSpec =
     filter (\<lambda>f. \<not> (ss_GlobalCidr submSpec \<noteq> [] \<and> f = IPv4)) (spec_GetIPFamilies L submSpec)"

definition GetLocalSpec :: "libs \<Rightarrow> hostEnv \<Rightarrow> SubmarinerSpecification \<Rightarrow> EndpointSpec result" where
  "GetLocalSpec L E submSpec =
     (case he_GetLocalNode E of
        Inl e \<Rightarrow> Inl (Wrapped ''getting information on the local node'' e)
      | Inr gwNode \<Rightarrow>
     (case he_Hostname E of
        Inl e \<Rightarrow> Inl (Wrapped ''error getting hostname'' e)
      | Inr hostname \<Rightarrow>
     (case getBackendConfig (he_NattPort E) gwNode of
        Inl e \<Rightarrow> Inl e
      | Inr config0 \<Rightarrow>
        (let backendConfig = (if has_prefix (ss_PublicIP submSpec) ''lb:''
                then fmupd UsingLoadBalancer ''true'' config0 else config0);
             families = spec_GetIPFamilies L submSpec in
         case set_per_family (\<lambda>f. wrap_res ''error getting local IP'' (he_GetLocalIP E f)) (SetPrivateIP L)
                families (base_spec L submSpec hostname backendConfig) of
           Inl e \<Rightarrow> Inl e
         | Inr spec1 \<Rightarrow>
             (case set_per_family (\<lambda>f. wrap_res ''could not determine public IP'' (he_GetPublicIP E f backendConfig))
                     (SetPublicIP L) families (with_cable_name L submSpec spec1) of
                Inl e \<Rightarrow> Inl e
              | Inr spec2 \<Rightarrow>
                  if ss_HealthCheckEnabled submSpec
                  then set_per_family (\<lambda>f. wrap_res ''error getting HealthCheckIP'' (getHealthCheckIP E f))
                         (SetHealthCheckIP L) (health_families L submSpec) spec2
                  else Inr spec2)))))"

section \<open>Cable names identify clusters\<close>

lemma count_unique_split:
  assumes "xs @ c # r = ys @ c # r'" and "count_list r c = count_list r' c"
  shows "xs = ys \<and> r = r'"
proof -
  from assms(1) obtain us where "xs = ys @ us \<and> us @ c # r = c # r' \<or> xs @ us = ys \<and> c # r = us @ c # r'"
    by (auto simp: append_eq_append_conv2)
  then show ?thesis
    using assms(2) by (cases us) auto
qed

lemma split_on_count: "length (split_on c s) = Suc (count_list s c)"
  by (induction c s rule: split_on.induct) (auto split: list.split)

lemma split_on_set: "x \<in> set s \<Longrightarrow> x \<noteq> c \<Longrightarrow> \<exists>p\<in>set (split_on c s). x \<in> set p"
  by (induction c s rule: split_on.induct) (auto split: list.splits)

lemma parse_ipv4_shape:
  assumes "parse_ipv4 s = Some w"
  shows "count_list s (CHR ''.'') = 3 \<and> CHR ''-'' \<notin> set s"
proof -
  from assms have some: "length (split_on (CHR ''.'') s) = 4 \<and> (\<forall>p\<in>set (split_on (CHR ''.'') s). parse_octet p \<noteq> None)"
    by (auto simp: parse_ipv4_def map_eq_Cons_conv split: list.split_asm option.split_asm)
  then have "count_list s (CHR ''.'') = 3" using split_on_count [of "CHR ''.''" s] by simp
  moreover have "is_digit c" if "p \<in> set (split_on (CHR ''.'') s)" "c \<in> set p" for p c
    using some that by (auto simp: parse_octet_def list_all_iff split: if_split_asm)
  then have "CHR ''-'' \<notin> set s" using split_on_set [of "CHR ''-''" s "CHR ''.''"] by (force simp: is_digit_def)
  ultimately show ?thesis by simp
qed

lemma replaceAll_count: "CHR ''-'' \<notin> set s \<Longrightarrow>
  count_list (replaceAll (CHR ''.'') (CHR ''-'') s) (CHR ''-'') = count_list s (CHR ''.'')"
  by (induction s) (auto simp: replaceAll_def)

lemma replaceAll_inj:
  "CHR ''-'' \<notin> set s \<Longrightarrow> CHR ''-'' \<notin> set t \<Longrightarrow>
   replaceAll (CHR ''.'') (CHR ''-'') s = replaceAll (CHR ''.'') (CHR ''-'') t \<longleftrightarrow> s = t"
  by (induction s t rule: list_induct2') (auto simp: replaceAll_def split: if_splits)

lemma cable_name_inj:
  assumes "parse_ipv4 ip = Some w" and "parse_ipv4 ip' = Some w'"
    and "cable_name c (replaceAll (CHR ''.'') (CHR ''-'') ip) = cable_name c' (replaceAll (CHR ''.'') (CHR ''-'') ip')"
  shows "c = c' \<and> ip = ip'"
proof -
  note s = parse_ipv4_shape [OF assms(1)] parse_ipv4_shape [OF assms(2)]
  from assms(3) have "c @ CHR ''-'' # replaceAll (CHR ''.'') (CHR ''-'') ip =
      c' @ CHR ''-'' # replaceAll (CHR ''.'') (CHR ''-'') ip'"
    by (simp add: cable_name_def)
  from count_unique_split [OF this] s replaceAll_inj [of ip ip'] show ?thesis
    by (simp add: replaceAll_count)
qed

section \<open>What the local specification says\<close>

lemma set_per_family_frame:
  assumes "\<And>a s. F (put a s) = F s" and "set_per_family get put fs spec = Inr spec'"
  shows "F spec' = F spec"
  using assms(2) by (induction fs arbitrary: spec) (auto simp: assms(1) split: sum.split_asm)

lemma set_frames:
  "CableName (SetPrivateIP L a s) = CableName s" "ClusterID (SetPrivateIP L a s) = ClusterID s"
  "Subnets (SetPrivateIP L a s) = Subnets s" "BackendConfig (SetPrivateIP L a s) = BackendConfig s"
  "Hostname (SetPrivateIP L a s) = Hostname s"
  "CableName (SetPublicIP L a s) = CableName s" "ClusterID (SetPublicIP L a s) = ClusterID s"
  "Subnets (SetPublicIP L a s) = Subnets s" "BackendConfig (SetPublicIP L a s) = BackendConfig s"
  "Hostname (SetPublicIP L a s) = Hostname s"
  "PrivateIP (SetPublicIP L a s) = PrivateIP s" "PrivateIPs (SetPublicIP L a s) = PrivateIPs s"
  "CableName (SetHealthCheckIP L a s) = CableName s" "ClusterID (SetHealthCheckIP L a s) = ClusterID s"
  "Subnets (SetHealthCheckIP L a s) = Subnets s" "BackendConfig (SetHealthCheckIP L a s) = BackendConfig s"
  "Hostname (SetHealthCheckIP L a s) = Hostname s"
  "PrivateIP (SetHealthCheckIP L a s) = PrivateIP s" "PrivateIPs (SetHealthCheckIP L a s) = PrivateIPs s"
  by (simp_all add: SetPrivateIP_def SetPublicIP_def SetHealthCheckIP_def Let_def split: prod.split)

text \<open>The fields the address loops leave alone, as one tuple.\<close>

definition identity_of :: "EndpointSpec \<Rightarrow> string \<times> string \<times> string list \<times> (string, string) fmap \<times> string" where
  "identity_of s = (ClusterID s, CableName s, Subnets s, BackendConfig s, Hostname s)"

definition private_of :: "EndpointSpec \<Rightarrow> string \<times> string list" where
  "private_of s = (PrivateIP s, PrivateIPs s)"

lemma keep_public:
  "set_per_family get (SetPublicIP L) fs s = Inr s' \<Longrightarrow> identity_of s' = identity_of s \<and> private_of s' = private_of s"
  using set_per_family_frame [of identity_of "SetPublicIP L"] set_per_family_frame [of private_of "SetPublicIP L"]
  by (simp add: identity_of_def private_of_def set_frames)

lemma keep_health:
  "set_per_family get (SetHealthCheckIP L) fs s = Inr s' \<Longrightarrow> identity_of s' = identity_of s \<and> private_of s' = private_of s"
  using set_per_family_frame [of identity_of "SetHealthCheckIP L"] set_per_family_frame [of private_of "SetHealthCheckIP L"]
  by (simp add: identity_of_def private_of_def set_frames)

lemma GetLocalSpec_parts:
  assumes "GetLocalSpec L E submSpec = Inr spec"
  obtains node hostname config0 config spec1 where
    "he_GetLocalNode E = Inr node" "he_Hostname E = Inr hostname"
    "getBackendConfig (he_NattPort E) node = Inr config0"
    "config = (if has_prefix (ss_PublicIP submSpec) ''lb:'' then fmupd UsingLoadBalancer ''true'' config0 else config0)"
    "set_per_family (\<lambda>f. wrap_res ''error getting local IP'' (he_GetLocalIP E f)) (SetPrivateIP L)
       (spec_GetIPFamilies L submSpec) (base_spec L submSpec hostname config) = Inr spec1"
    "identity_of spec = identity_of (with_cable_name L submSpec spec1)" "private_of spec = private_of spec1"
proof -
  have p: "private_of (with_cable_name L submSpec s) = private_of s" for s
    by (simp add: with_cable_name_def private_of_def Let_def)
  show ?thesis
    using assms that
    by (auto simp: GetLocalSpec_def Let_def p dest!: keep_public keep_health
        split: sum.split_asm if_split_asm)
qed

text \<open>The cable names of two gateways with IPv4 private addresses are equal only if they belong to the same
  cluster and have the same address: a cable name identifies its cluster.\<close>

theorem cable_name_identifies_cluster:
  assumes "GetLocalSpec L E s = Inr a" and "GetLocalSpec L E' s' = Inr b" and "CableName a = CableName b"
    and "parse_ipv4 (GetPrivateIP L IPv4 a) \<noteq> None" and "parse_ipv4 (GetPrivateIP L IPv4 b) \<noteq> None"
  shows "ClusterID a = ClusterID b \<and> GetPrivateIP L IPv4 a = GetPrivateIP L IPv4 b"
proof -
  have form: "CableName x = cable_name (ClusterID x) (replaceAll (CHR ''.'') (CHR ''-'') (GetPrivateIP L IPv4 x))"
    if "GetLocalSpec L E s = Inr x" "parse_ipv4 (GetPrivateIP L IPv4 x) \<noteq> None" for E s x
  proof (rule GetLocalSpec_parts [OF that(1)])
    fix hostname config spec1
    assume s1: "set_per_family (\<lambda>f. wrap_res ''error getting local IP'' (he_GetLocalIP E f)) (SetPrivateIP L)
       (spec_GetIPFamilies L s) (base_spec L s hostname config) = Inr spec1"
      and i: "identity_of x = identity_of (with_cable_name L s spec1)" "private_of x = private_of spec1"
    have c: "ClusterID spec1 = ss_ClusterID s"
      using set_per_family_frame [of ClusterID, OF _ s1] by (simp add: set_frames base_spec_def)
    have p: "GetPrivateIP L IPv4 spec1 = GetPrivateIP L IPv4 x"
      using i(2) by (simp add: GetPrivateIP_def private_of_def)
    have "GetPrivateIP L IPv4 x \<noteq> []" using that(2) parse_ipv4_shape [of "[]"] by auto
    with i(1) c p show ?thesis by (simp add: identity_of_def with_cable_name_def Let_def)
  qed
  from assms(4,5) obtain w w' where w: "parse_ipv4 (GetPrivateIP L IPv4 a) = Some w" "parse_ipv4 (GetPrivateIP L IPv4 b) = Some w'"
    by blast
  from cable_name_inj [OF w] assms(3) form [OF assms(1,4)] form [OF assms(2,5)] show ?thesis by simp
qed

definition example_host :: "string \<Rightarrow> hostEnv" where
  "example_host ip = \<lparr>he_GetLocalNode = Inr \<lparr>no_Name = ''n'', no_Labels = [], no_Annotations = []\<rparr>,
     he_Hostname = Inr ''host'', he_NattPort = [],
     he_GetLocalIP = (\<lambda>f. case f of IPv4 \<Rightarrow> Inr ip | _ \<Rightarrow> Inl (Err ''no address'')),
     he_GetPublicIP = (\<lambda>_ _. Inr ''1.2.3.4''), he_CniDiscover = (\<lambda>_. Inr ''10.1.0.1'')\<rparr>"

definition example_submariner :: SubmarinerSpecification where
  "example_submariner = \<lparr>ss_ClusterCidr = [''10.1.0.0/16''], ss_GlobalCidr = [], ss_ServiceCidr = [''10.2.0.0/16''],
     ss_Broker = ''k8s'', ss_CableDriver = ''libreswan'', ss_ClusterID = ''east'', ss_Namespace = ''ns'',
     ss_PublicIP = [], ss_Debug = False, ss_NATEnabled = True, ss_HealthCheckEnabled = True, ss_Uninstall = False,
     ss_HaltOnCertError = False, ss_HealthCheckInterval = 1, ss_HealthCheckMaxPacketLossCount = 5,
     ss_MetricsPort = 0\<rparr>"

definition example_local :: EndpointSpec where
  "example_local = (case GetLocalSpec ref_libs (example_host ''10.0.0.7'') example_submariner of
     Inr s \<Rightarrow> s | Inl _ \<Rightarrow> example_spec)"

lemma example_local_spec: "GetLocalSpec ref_libs (example_host ''10.0.0.7'') example_submariner = Inr example_local"
proof -
  have "\<not> isl (GetLocalSpec ref_libs (example_host ''10.0.0.7'') example_submariner)" by code_simp
  then show ?thesis by (auto simp: example_local_def split: sum.split)
qed

theorem cable_name_identifies_cluster_witness:
  "CableName example_local = ''submariner-cable-east-10-0-0-7'' \<and> ClusterID example_local = ''east''"
proof
  show n: "CableName example_local = ''submariner-cable-east-10-0-0-7''" by code_simp
  have p: "parse_ipv4 (GetPrivateIP ref_libs IPv4 example_local) \<noteq> None" by code_simp
  have "ClusterID example_local = ClusterID example_local"
    using cable_name_identifies_cluster [OF example_local_spec example_local_spec refl p p] by (rule conjunct1)
  then show "ClusterID example_local = ''east''" by code_simp
qed

lemma getIP_setIP:
  assumes "a \<noteq> []" "IPFamilyOfString L a = f" "f \<noteq> IPFamilyUnknown"
  shows "GetPrivateIP L g (SetPrivateIP L a s) = (if g = f then a else GetPrivateIP L g s)"
  using assms
  by (auto simp: GetPrivateIP_def SetPrivateIP_def setIP_def Let_def getIPFrom_def find_replace_same find_replace_other)

lemma set_private_loop:
  assumes "set_per_family get (SetPrivateIP L) fs spec = Inr spec'" "distinct fs" "IPFamilyUnknown \<notin> set fs"
    and "\<And>f a. get f = Inr a \<Longrightarrow> a \<noteq> [] \<and> IPFamilyOfString L a = f"
  shows "(\<forall>f\<in>set fs. get f = Inr (GetPrivateIP L f spec')) \<and>
    (\<forall>f. f \<notin> set fs \<longrightarrow> GetPrivateIP L f spec' = GetPrivateIP L f spec)"
  using assms(1-3)
proof (induction fs arbitrary: spec)
  case (Cons f fs)
  from Cons.prems(1) obtain a where a: "get f = Inr a" "set_per_family get (SetPrivateIP L) fs (SetPrivateIP L a spec) = Inr spec'"
    by (auto split: sum.split_asm)
  note ga = assms(4) [OF a(1)]
  have g: "GetPrivateIP L g (SetPrivateIP L a spec) = (if g = f then a else GetPrivateIP L g spec)" for g
    using getIP_setIP [of a L f g spec] ga Cons.prems(3) by auto
  from Cons.IH [OF a(2)] Cons.prems(2,3) a(1) show ?case by (auto simp: g)
qed simp

lemma getBackendConfig_ports:
  "getBackendConfig p node = Inr b \<Longrightarrow> fmlookup b UDPPortConfig \<noteq> None \<and> fmlookup b NATTDiscoveryPortConfig \<noteq> None"
  by (auto simp: getBackendConfig_def Let_def UDPPortConfig_def NATTDiscoveryPortConfig_def
      split: sum.split_asm if_split_asm)

text \<open>The local specification has, for every IP family of the cluster, the address the host gave for it as its
  private address, belongs to the configured cluster, and always names a tunnel port and a NAT discovery port;
  with a load balancer for the public address it says so.\<close>

theorem local_spec_addresses:
  assumes "libs_ok L" and "GetLocalSpec L E submSpec = Inr spec"
    and "\<forall>f a. he_GetLocalIP E f = Inr a \<longrightarrow> a \<noteq> [] \<and> IPFamilyOfString L a = f"
  shows "(\<forall>f\<in>set (spec_GetIPFamilies L submSpec). he_GetLocalIP E f = Inr (GetPrivateIP L f spec)) \<and>
    ClusterID spec = ss_ClusterID submSpec \<and> Subnets spec = local_subnets L submSpec \<and>
    fmlookup (BackendConfig spec) UDPPortConfig \<noteq> None \<and>
    fmlookup (BackendConfig spec) NATTDiscoveryPortConfig \<noteq> None \<and>
    (has_prefix (ss_PublicIP submSpec) ''lb:'' \<longrightarrow> fmlookup (BackendConfig spec) UsingLoadBalancer = Some ''true'')"
proof (rule GetLocalSpec_parts [OF assms(2)])
  fix node hostname config0 config spec1
  let ?get = "\<lambda>f. wrap_res ''error getting local IP'' (he_GetLocalIP E f)"
  assume b: "getBackendConfig (he_NattPort E) node = Inr config0"
    and config: "config = (if has_prefix (ss_PublicIP submSpec) ''lb:'' then fmupd UsingLoadBalancer ''true'' config0 else config0)"
    and s1: "set_per_family ?get (SetPrivateIP L) (spec_GetIPFamilies L submSpec) (base_spec L submSpec hostname config) = Inr spec1"
    and i: "identity_of spec = identity_of (with_cable_name L submSpec spec1)" "private_of spec = private_of spec1"
  have fams: "distinct (spec_GetIPFamilies L submSpec)" "IPFamilyUnknown \<notin> set (spec_GetIPFamilies L submSpec)"
    using ExtractIPFamilies_set [OF assms(1)] by (auto simp: spec_GetIPFamilies_def)
  have get: "?get f = Inr a \<Longrightarrow> a \<noteq> [] \<and> IPFamilyOfString L a = f" for f a using assms(3) by simp
  have p: "GetPrivateIP L f spec = GetPrivateIP L f spec1" for f
    using i(2) by (simp add: GetPrivateIP_def private_of_def)
  have addrs: "\<forall>f\<in>set (spec_GetIPFamilies L submSpec). he_GetLocalIP E f = Inr (GetPrivateIP L f spec)"
    using set_private_loop [OF s1 fams get] by (simp add: p)
  have "ClusterID spec1 = ss_ClusterID submSpec" "Subnets spec1 = local_subnets L submSpec" "BackendConfig spec1 = config"
    using set_per_family_frame [of ClusterID, OF _ s1] set_per_family_frame [of Subnets, OF _ s1]
      set_per_family_frame [of BackendConfig, OF _ s1] by (simp_all add: set_frames base_spec_def)
  moreover have "ClusterID spec = ClusterID spec1" "Subnets spec = Subnets spec1" "BackendConfig spec = BackendConfig spec1"
    using i(1) by (simp_all add: identity_of_def with_cable_name_def Let_def)
  ultimately show ?thesis
    using addrs getBackendConfig_ports [OF b] by (auto simp: config)
qed

theorem local_spec_addresses_witness:
  "he_GetLocalIP (example_host ''10.0.0.7'') IPv4 = Inr (GetPrivateIP ref_libs IPv4 example_local)"
proof -
  have a: "\<forall>f a. he_GetLocalIP (example_host ''10.0.0.7'') f = Inr a \<longrightarrow> a \<noteq> [] \<and> IPFamilyOfString ref_libs a = f"
  proof -
    have "IPFamilyOfString ref_libs ''10.0.0.7'' = IPv4" by code_simp
    then show ?thesis by (auto simp: example_host_def split: IPFamily.split_asm)
  qed
  have "IPv4 \<in> set (spec_GetIPFamilies ref_libs example_submariner)" by code_simp
  with local_spec_addresses [OF ref_libs_ok example_local_spec a] show ?thesis by blast
qed

end
