(* ===== verification/DatastoreSyncer.thy ===== *)
theory DatastoreSyncer
  imports LocalEndpoint
begin

text \<open>
  \<open>pkg/controllers/datastoresyncer\<close>: which endpoints of other clusters are taken over from the broker, the
  exclusivity of the local endpoint, the cleanup, and the health check address of the local endpoint.

  The broker syncer and the federators belong to the admiral library. \<open>ListLocalResources\<close> gives the
  resources of the local datastore, the record \<open>datastore\<close>; a federator's \<open>Delete\<close> is a function on the state
  of the API servers. \<open>broker_event\<close> is what the syncer does with the answer of
  \<open>shouldSyncRemoteEndpoint\<close>: an object that is returned is written to the local datastore, or deleted there.
\<close>

section \<open>State\<close>

record datastore =
  ds_clusters :: "Cluster list"
  ds_endpoints :: "Endpoint list"

record datastoreSyncer =
  dy_localCluster :: SubmarinerCluster
  dy_localEndpoint :: LocalEp
  dy_syncer :: "datastore option"      \<comment> \<open>None before \<open>Start\<close>\<close>

datatype Operation = OpCreate | OpUpdate | OpDelete

section \<open>Accepting remote endpoints\<close>

text \<open>The first loop of \<open>shouldSyncRemoteEndpoint\<close>: True when a local subnet rules the endpoint out.\<close>

fun overlaps_local :: "string list \<Rightarrow> string list \<Rightarrow> bool" where
  "overlaps_local remoteSubnets [] = False"
| "overlaps_local remoteSubnets (localSubnet # rest) =
     (case IsOverlapping remoteSubnets localSubnet of
        (_, Some _) \<Rightarrow> True
      | (overlap, None) \<Rightarrow> if overlap then True else overlaps_local remoteSubnets rest)"

fun not_contained :: "string list \<Rightarrow> string list \<Rightarrow> bool" where
  "not_contained allowed [] = False"
| "not_contained allowed (subnet # rest) =
     (case IsContained allowed subnet of
        (_, Some _) \<Rightarrow> True
      | (inside, None) \<Rightarrow> if \<not> inside then True else not_contained allowed rest)"

fun overlaps_other :: "string list \<Rightarrow> string list \<Rightarrow> bool" where
  "overlaps_other otherSubnets [] = False"
| "overlaps_other otherSubnets (subnet # rest) =
     (case IsOverlapping otherSubnets subnet of
        (_, Some _) \<Rightarrow> True
      | (overlap, None) \<Rightarrow> if \<not> overlap then overlaps_other otherSubnets rest else True)"

fun conflicts :: "string \<Rightarrow> EndpointSpec \<Rightarrow> Endpoint list \<Rightarrow> bool" where
  "conflicts localID remote [] = False"
| "conflicts localID remote (other # rest) =
     (if ClusterID (ep_Spec other) = ClusterID remote \<or> ClusterID (ep_Spec other) = localID
      then conflicts localID remote rest
      else if overlaps_other (Subnets (ep_Spec other)) (Subnets remote) then True
      else conflicts localID remote rest)"

definition declared_CIDRs :: "Cluster \<Rightarrow> string list" where
  "declared_CIDRs c = cs_ServiceCIDR (cl_Spec c) @ cs_ClusterCIDR (cl_Spec c) @ cs_GlobalCIDR (cl_Spec c)"

text \<open>The result: rejected, requeue.\<close>

definition validateRemoteEndpointSubnets :: "datastoreSyncer \<Rightarrow> Endpoint \<Rightarrow> bool \<times> bool" where
  "validateRemoteEndpointSubnets d remoteEndpoint =
     (let spec = ep_Spec remoteEndpoint in
      case dy_syncer d of
        None \<Rightarrow> (False, False)
      | Some store \<Rightarrow>
          if Subnets spec = [] then (False, False)
          else (case find (\<lambda>c. cs_ClusterID (cl_Spec c) = ClusterID spec) (ds_clusters store) of
                  None \<Rightarrow> (True, True)
                | Some remoteCluster \<Rightarrow>
                    if not_contained (declared_CIDRs remoteCluster) (Subnets spec) then (True, False)
                    else if conflicts (cs_ClusterID (sc_Spec (dy_localCluster d))) spec (ds_endpoints store)
                    then (True, False)
                    else (False, False)))"

definition shouldSyncRemoteEndpoint ::
  "datastoreSyncer \<Rightarrow> Endpoint \<Rightarrow> Operation \<Rightarrow> Endpoint option \<times> bool" where
  "shouldSyncRemoteEndpoint d remoteEndpoint op =
     (if op = OpDelete then (Some remoteEndpoint, False)
      else if overlaps_local (Subnets (ep_Spec remoteEndpoint)) (Subnets (Spec (dy_localEndpoint d)))
      then (None, False)
      else (case validateRemoteEndpointSubnets d remoteEndpoint of
              (True, requeue) \<Rightarrow> (None, requeue)
            | (False, _) \<Rightarrow> (Some remoteEndpoint, False)))"

definition broker_event :: "Endpoint \<Rightarrow> Operation \<Rightarrow> datastoreSyncer \<Rightarrow> datastoreSyncer" where
  "broker_event ep op d = (case (dy_syncer d, fst (shouldSyncRemoteEndpoint d ep op)) of
     (Some store, Some obj) \<Rightarrow>
       (let others = filter (\<lambda>e. ep_Name e \<noteq> ep_Name obj) (ds_endpoints store) in
        d\<lparr>dy_syncer := Some (store\<lparr>ds_endpoints := (if op = OpDelete then others else others @ [obj])\<rparr>)\<rparr>)
   | _ \<Rightarrow> d)"

section \<open>Startup and cleanup\<close>

type_synonym 'k federator = "string \<Rightarrow> 'k \<Rightarrow> 'k \<times> err option"    \<comment> \<open>\<open>Delete\<close>, by name\<close>

definition NotFound :: err where "NotFound = Sentinel ''NotFound''"

fun ensure_exclusive_loop ::
  "libs \<Rightarrow> 'k federator \<Rightarrow> string \<Rightarrow> EndpointSpec \<Rightarrow> Endpoint list \<Rightarrow> 'k \<Rightarrow> 'k \<times> err option" where
  "ensure_exclusive_loop L del localID localSpec [] k = (k, None)"
| "ensure_exclusive_loop L del localID localSpec (existing # rest) k =
     (if ClusterID (ep_Spec existing) \<noteq> localID then ensure_exclusive_loop L del localID localSpec rest k
      else if Equals L (Some (ep_Spec existing)) (Some localSpec)
      then ensure_exclusive_loop L del localID localSpec rest k
      else (case del (ep_Name existing) k of
              (k', Some e) \<Rightarrow>
                if errors_is e NotFound then ensure_exclusive_loop L del localID localSpec rest k'
                else (k', Some (Wrapped ''error deleting submariner Endpoint from the local datastore'' e))
            | (k', None) \<Rightarrow> ensure_exclusive_loop L del localID localSpec rest k'))"

definition ensureExclusiveEndpoint ::
  "libs \<Rightarrow> 'k federator \<Rightarrow> datastoreSyncer \<Rightarrow> datastore \<Rightarrow> 'k \<Rightarrow> 'k \<times> err option" where
  "ensureExclusiveEndpoint L del d store k =
     ensure_exclusive_loop L del (cs_ClusterID (sc_Spec (dy_localCluster d))) (Spec (dy_localEndpoint d))
       (ds_endpoints store) k"

text \<open>A resource in the cleanup: its name and the cluster ID in its specification.\<close>

fun cleanupResources ::
  "'k federator \<Rightarrow> 'k federator \<Rightarrow> string \<Rightarrow> (string \<times> string) list \<Rightarrow> 'k \<Rightarrow> 'k \<times> err option" where
  "cleanupResources localDel brokerDel localID [] k = (k, None)"
| "cleanupResources localDel brokerDel localID ((name, clusterID) # rest) k =
     (let failed = (\<lambda>r. case r of Some e \<Rightarrow> \<not> errors_is e NotFound | None \<Rightarrow> False) in
      case localDel name k of (k1, r1) \<Rightarrow>
        if failed r1 then (k1, Some (Wrapped ''error deleting submariner resource from the local datastore'' (the r1)))
        else if clusterID \<noteq> localID then cleanupResources localDel brokerDel localID rest k1
        else (case brokerDel name k1 of (k2, r2) \<Rightarrow>
                if failed r2 then (k2, Some (Wrapped ''error deleting submariner resource from the remote datastore'' (the r2)))
                else cleanupResources localDel brokerDel localID rest k2))"

definition createLocalCluster :: "libs \<Rightarrow> datastoreSyncer \<Rightarrow> Cluster" where
  "createLocalCluster L d = \<lparr>cl_Name = EnsureValidName L (cs_ClusterID (sc_Spec (dy_localCluster d))),
     cl_Spec = sc_Spec (dy_localCluster d)\<rparr>"

section \<open>The global IP of the gateway\<close>

definition updateLocalEndpointIfNecessary ::
  "libs \<Rightarrow> 'k endpointClient \<Rightarrow> string \<Rightarrow> datastoreSyncer \<Rightarrow> 'k \<Rightarrow> (datastoreSyncer \<times> 'k) \<times> bool" where
  "updateLocalEndpointIfNecessary L C globalIP d k =
     (if GetHealthCheckIP L IPv4 (Spec (dy_localEndpoint d)) \<noteq> globalIP then
        (case Update L C (SetHealthCheckIP L globalIP) (dy_localEndpoint d) k of
           ((l, k'), err) \<Rightarrow> ((d\<lparr>dy_localEndpoint := l\<rparr>, k'), err \<noteq> None))
      else ((d, k), False))"

text \<open>Indexing the first global CIDR panics when there is none: None.\<close>

definition handleCreateOrUpdateGateway ::
  "libs \<Rightarrow> 'k endpointClient \<Rightarrow> string \<Rightarrow> datastoreSyncer \<Rightarrow> 'k \<Rightarrow> ((datastoreSyncer \<times> 'k) \<times> bool) option" where
  "handleCreateOrUpdateGateway L C globalIP d k =
     (if globalIP \<noteq> [] then
        (case cs_GlobalCIDR (sc_Spec (dy_localCluster d)) of
           [] \<Rightarrow> None
         | globalCIDR # _ \<Rightarrow>
             (case ParseCIDR globalCIDR of
                None \<Rightarrow> Some ((d, k), False)
              | Some n \<Rightarrow>
                  (case ParseIP globalIP of
                     Some a \<Rightarrow> if Contains n a then Some (updateLocalEndpointIfNecessary L C globalIP d k)
                               else Some ((d, k), False)
                   | None \<Rightarrow> Some ((d, k), False))))
      else Some ((d, k), False))"

definition areGatewaysEquivalent :: "string \<Rightarrow> string \<Rightarrow> bool" where
  "areGatewaysEquivalent existingGlobalIP newGlobalIP = (existingGlobalIP = newGlobalIP)"

section \<open>Accepted subnets\<close>

lemma IsOverlapping_loop_False:
  assumes "wf_net n" "IsOverlapping_loop n vs = (False, None)"
  shows "\<forall>v\<in>set vs. valid_cidr v \<and> cidr_addrs v \<inter> net_addrs n = {}"
  using assms(2)
proof (induction vs)
  case (Cons v vs)
  then obtain b where b: "ParseCIDR v = Some b" "\<not> (Contains b (n_ip n) \<or> Contains n (n_ip b))"
    "IsOverlapping_loop n vs = (False, None)"
    by (auto split: option.split_asm if_split_asm)
  have "wf_net b" using b(1) by (rule ParseCIDR_wf)
  from nets_meet_iff [OF this assms(1)] b have "cidr_addrs v \<inter> net_addrs n = {}" by (auto simp: cidr_addrs_def)
  with Cons.IH [OF b(3)] b(1) show ?case by (simp add: valid_cidr_def)
qed simp

lemma IsOverlapping_False:
  assumes "IsOverlapping vs c = (False, None)"
  shows "valid_cidr c \<and> (\<forall>v\<in>set vs. valid_cidr v \<and> cidr_addrs v \<inter> cidr_addrs c = {})"
proof -
  from assms obtain n where n: "ParseCIDR c = Some n" "IsOverlapping_loop n vs = (False, None)"
    by (auto simp: IsOverlapping_def split: option.split_asm)
  have "wf_net n" using n(1) by (rule ParseCIDR_wf)
  from IsOverlapping_loop_False [OF this n(2)] n(1) show ?thesis
    by (simp add: valid_cidr_def cidr_addrs_def)
qed

lemma overlaps_local_False:
  "\<not> overlaps_local remote ls \<Longrightarrow> l \<in> set ls \<Longrightarrow> valid_cidr l \<and> (\<forall>v\<in>set remote. cidr_addrs v \<inter> cidr_addrs l = {})"
  by (induction ls) (auto split: prod.split_asm option.split_asm if_split_asm dest: IsOverlapping_False)

lemma not_contained_False:
  "\<not> not_contained allowed ss \<Longrightarrow> s \<in> set ss \<Longrightarrow> valid_cidr s \<and> (\<exists>v\<in>set allowed. cidr_addrs s \<subseteq> cidr_addrs v)"
proof (induction ss)
  case (Cons x ss)
  then have x: "IsContained allowed x = (True, None)" "\<not> not_contained allowed ss"
    by (auto split: prod.split_asm option.split_asm if_split_asm)
  from x(1) obtain n where n: "ParseCIDR x = Some n" "IsContained_loop n allowed = (True, None)"
    by (auto simp: IsContained_def split: option.split_asm)
  have "wf_net n" using n(1) by (rule ParseCIDR_wf)
  from IsContained_loop_True [OF this n(2)] n(1)
  have "valid_cidr x \<and> (\<exists>v\<in>set allowed. cidr_addrs x \<subseteq> cidr_addrs v)"
    by (simp add: valid_cidr_def cidr_addrs_def)
  with Cons x(2) show ?case by auto
qed simp

lemma overlaps_other_False:
  "\<not> overlaps_other os ss \<Longrightarrow> s \<in> set ss \<Longrightarrow> \<forall>v\<in>set os. cidr_addrs v \<inter> cidr_addrs s = {}"
  by (induction ss) (auto split: prod.split_asm option.split_asm if_split_asm dest: IsOverlapping_False)

lemma conflicts_False:
  "\<not> conflicts localID remote es \<Longrightarrow> e \<in> set es \<Longrightarrow> ClusterID (ep_Spec e) \<noteq> ClusterID remote \<Longrightarrow>
   ClusterID (ep_Spec e) \<noteq> localID \<Longrightarrow> s \<in> set (Subnets remote) \<Longrightarrow>
   \<forall>v\<in>set (Subnets (ep_Spec e)). cidr_addrs v \<inter> cidr_addrs s = {}"
  by (induction es) (auto split: if_split_asm dest: overlaps_other_False)

lemma accepted_cases:
  assumes "fst (shouldSyncRemoteEndpoint d ep op) = Some obj" "op \<noteq> OpDelete" "dy_syncer d = Some store"
    "Subnets (ep_Spec ep) \<noteq> []"
  shows "obj = ep \<and> \<not> overlaps_local (Subnets (ep_Spec ep)) (Subnets (Spec (dy_localEndpoint d))) \<and>
    (\<exists>c\<in>set (ds_clusters store). cs_ClusterID (cl_Spec c) = ClusterID (ep_Spec ep) \<and>
       \<not> not_contained (declared_CIDRs c) (Subnets (ep_Spec ep))) \<and>
    \<not> conflicts (cs_ClusterID (sc_Spec (dy_localCluster d))) (ep_Spec ep) (ds_endpoints store)"
proof -
  from assms obtain c where c: "find (\<lambda>c. cs_ClusterID (cl_Spec c) = ClusterID (ep_Spec ep)) (ds_clusters store) = Some c"
    and rest: "obj = ep" "\<not> overlaps_local (Subnets (ep_Spec ep)) (Subnets (Spec (dy_localEndpoint d)))"
      "\<not> not_contained (declared_CIDRs c) (Subnets (ep_Spec ep))"
      "\<not> conflicts (cs_ClusterID (sc_Spec (dy_localCluster d))) (ep_Spec ep) (ds_endpoints store)"
    by (auto simp: shouldSyncRemoteEndpoint_def validateRemoteEndpointSubnets_def Let_def
        split: if_split_asm option.split_asm)
  from c have "c \<in> set (ds_clusters store)" "cs_ClusterID (cl_Spec c) = ClusterID (ep_Spec ep)"
    by (auto simp: find_Some_iff)
  with rest show ?thesis by blast
qed

text \<open>C8: An endpoint of another cluster that is taken over from the broker has only parseable subnets, and the set of
  addresses of each of them lies within one CIDR that its own cluster declares, and is disjoint from every local
  subnet and from every subnet of every endpoint of every other remote cluster in the datastore.\<close>

theorem accepted_subnets:
  assumes "fst (shouldSyncRemoteEndpoint d ep op) = Some obj" and "op \<noteq> OpDelete" and "dy_syncer d = Some store"
    and "s \<in> set (Subnets (ep_Spec ep))"
  shows "obj = ep \<and> valid_cidr s \<and>
    (\<exists>c\<in>set (ds_clusters store). cs_ClusterID (cl_Spec c) = ClusterID (ep_Spec ep) \<and>
       (\<exists>v\<in>set (declared_CIDRs c). cidr_addrs s \<subseteq> cidr_addrs v)) \<and>
    (\<forall>l\<in>set (Subnets (Spec (dy_localEndpoint d))). cidr_addrs s \<inter> cidr_addrs l = {}) \<and>
    (\<forall>e\<in>set (ds_endpoints store). ClusterID (ep_Spec e) \<noteq> ClusterID (ep_Spec ep) \<longrightarrow>
       ClusterID (ep_Spec e) \<noteq> cs_ClusterID (sc_Spec (dy_localCluster d)) \<longrightarrow>
       (\<forall>v\<in>set (Subnets (ep_Spec e)). cidr_addrs v \<inter> cidr_addrs s = {}))"
proof -
  from assms(4) have "Subnets (ep_Spec ep) \<noteq> []" by auto
  note a = accepted_cases [OF assms(1-3) this]
  have "valid_cidr s \<and> (\<exists>c\<in>set (ds_clusters store). cs_ClusterID (cl_Spec c) = ClusterID (ep_Spec ep) \<and>
       (\<exists>v\<in>set (declared_CIDRs c). cidr_addrs s \<subseteq> cidr_addrs v))"
    using a not_contained_False [OF _ assms(4)] by blast
  moreover have "\<forall>l\<in>set (Subnets (Spec (dy_localEndpoint d))). cidr_addrs s \<inter> cidr_addrs l = {}"
    using a overlaps_local_False assms(4) by blast
  ultimately show ?thesis
    using a conflicts_False [of _ "ep_Spec ep"] assms(4) by blast
qed

definition example_ds :: datastoreSyncer where
  "example_ds = \<lparr>
     dy_localCluster = \<lparr>sc_ID = ''east'', sc_Spec = \<lparr>cs_ClusterID = ''east'', cs_ColorCodes = [],
       cs_ServiceCIDR = [''10.1.0.0/17''], cs_ClusterCIDR = [''10.1.128.0/17''], cs_GlobalCIDR = []\<rparr>\<rparr>,
     dy_localEndpoint = NewLocal example_spec,
     dy_syncer = Some \<lparr>
       ds_clusters = [\<lparr>cl_Name = ''west'', cl_Spec = \<lparr>cs_ClusterID = ''west'', cs_ColorCodes = [],
         cs_ServiceCIDR = [''10.2.0.0/17''], cs_ClusterCIDR = [''10.2.128.0/17''], cs_GlobalCIDR = []\<rparr>\<rparr>],
       ds_endpoints = [example_endpoint\<lparr>ep_Name := ''north'', ep_Spec := example_spec\<lparr>ClusterID := ''north'',
         Subnets := [''10.3.0.0/16'']\<rparr>\<rparr>]\<rparr>\<rparr>"

definition example_west :: Endpoint where
  "example_west = example_endpoint\<lparr>ep_Name := ''west'', ep_Spec := example_spec\<lparr>ClusterID := ''west'',
     Subnets := [''10.2.0.0/17'', ''10.2.128.0/17'']\<rparr>\<rparr>"

theorem accepted_subnets_witness:
  "fst (shouldSyncRemoteEndpoint example_ds example_west OpCreate) = Some example_west \<and>
   cidr_addrs ''10.2.0.0/17'' \<inter> cidr_addrs ''10.1.0.0/16'' = {}"
proof
  show a: "fst (shouldSyncRemoteEndpoint example_ds example_west OpCreate) = Some example_west" by code_simp
  have s: "''10.2.0.0/17'' \<in> set (Subnets (ep_Spec example_west))" by (simp add: example_west_def)
  have o: "OpCreate \<noteq> OpDelete" by simp
  obtain store where store: "dy_syncer example_ds = Some store" by (simp add: example_ds_def)
  have "''10.1.0.0/16'' \<in> set (Subnets (Spec (dy_localEndpoint example_ds)))" by code_simp
  with accepted_subnets [OF a o store s] show "cidr_addrs ''10.2.0.0/17'' \<inter> cidr_addrs ''10.1.0.0/16'' = {}"
    by blast
qed

section \<open>The remote endpoints of the datastore\<close>

text \<open>
  The events of the local datastore: broker events, Clusters that are synced, and endpoints of the local cluster that
  are created, updated or deleted.
\<close>

definition is_local :: "datastoreSyncer \<Rightarrow> Endpoint \<Rightarrow> bool" where
  "is_local d e \<longleftrightarrow> ClusterID (ep_Spec e) = cs_ClusterID (sc_Spec (dy_localCluster d))"

inductive ds_step :: "datastoreSyncer \<Rightarrow> datastoreSyncer \<Rightarrow> bool" where
  broker: "ds_step d (broker_event ep op d)"
| clusters: "dy_syncer d = Some store \<Longrightarrow> ds_step d (d\<lparr>dy_syncer := Some (store\<lparr>ds_clusters := cs\<rparr>)\<rparr>)"
| own: "dy_syncer d = Some store \<Longrightarrow> \<forall>e\<in>set es. is_local d e \<or> e \<in> set (ds_endpoints store) \<Longrightarrow>
    ds_step d (d\<lparr>dy_syncer := Some (store\<lparr>ds_endpoints := es\<rparr>)\<rparr>)"

definition disjoint_subnets :: "string list \<Rightarrow> string list \<Rightarrow> bool" where
  "disjoint_subnets xs ys \<longleftrightarrow> (\<forall>x\<in>set xs. \<forall>y\<in>set ys. cidr_addrs x \<inter> cidr_addrs y = {})"

definition remotes :: "datastoreSyncer \<Rightarrow> Endpoint list" where
  "remotes d = (case dy_syncer d of None \<Rightarrow> [] | Some store \<Rightarrow> filter (Not \<circ> is_local d) (ds_endpoints store))"

definition all_disjoint :: "string list \<Rightarrow> Endpoint set \<Rightarrow> bool" where
  "all_disjoint own S \<longleftrightarrow> (\<forall>e\<in>S. disjoint_subnets (Subnets (ep_Spec e)) own \<and>
     (\<forall>e'\<in>S. ClusterID (ep_Spec e) \<noteq> ClusterID (ep_Spec e') \<longrightarrow>
        disjoint_subnets (Subnets (ep_Spec e)) (Subnets (ep_Spec e'))))"

definition ds_inv :: "datastoreSyncer \<Rightarrow> bool" where
  "ds_inv d \<longleftrightarrow> all_disjoint (Subnets (Spec (dy_localEndpoint d))) (set (remotes d))"

lemma disjoint_subnets_sym: "disjoint_subnets xs ys \<Longrightarrow> disjoint_subnets ys xs"
  by (auto simp: disjoint_subnets_def)

lemma all_disjoint_subset: "all_disjoint own S \<Longrightarrow> T \<subseteq> S \<Longrightarrow> all_disjoint own T"
  unfolding all_disjoint_def by (simp add: subset_eq)

lemma all_disjoint_insert:
  "all_disjoint own S \<Longrightarrow> disjoint_subnets (Subnets (ep_Spec ep)) own \<Longrightarrow>
   \<forall>e\<in>S. ClusterID (ep_Spec e) \<noteq> ClusterID (ep_Spec ep) \<longrightarrow> disjoint_subnets (Subnets (ep_Spec ep)) (Subnets (ep_Spec e)) \<Longrightarrow>
   all_disjoint own (insert ep S)"
  unfolding all_disjoint_def by (simp add: disjoint_subnets_sym)

lemma ds_inv_mono:
  assumes "ds_inv d" "set (remotes d') \<subseteq> set (remotes d)" "dy_localEndpoint d' = dy_localEndpoint d"
  shows "ds_inv d'"
  using assms by (simp add: ds_inv_def all_disjoint_subset)

lemma accepted_disjoint:
  assumes "fst (shouldSyncRemoteEndpoint d ep op) = Some obj" "op \<noteq> OpDelete" "dy_syncer d = Some store"
  shows "obj = ep \<and> disjoint_subnets (Subnets (ep_Spec ep)) (Subnets (Spec (dy_localEndpoint d))) \<and>
    (\<forall>e\<in>set (remotes d). ClusterID (ep_Spec e) \<noteq> ClusterID (ep_Spec ep) \<longrightarrow>
       disjoint_subnets (Subnets (ep_Spec ep)) (Subnets (ep_Spec e)))"
proof (cases "Subnets (ep_Spec ep) = []")
  case True
  with assms show ?thesis
    by (auto simp: disjoint_subnets_def shouldSyncRemoteEndpoint_def split: if_split_asm prod.split_asm bool.split_asm)
next
  case False
  note a = accepted_cases [OF assms this]
  then have "disjoint_subnets (Subnets (ep_Spec ep)) (Subnets (Spec (dy_localEndpoint d)))"
    using overlaps_local_False unfolding disjoint_subnets_def by blast
  moreover have "disjoint_subnets (Subnets (ep_Spec e)) (Subnets (ep_Spec ep))"
    if "e \<in> set (remotes d)" "ClusterID (ep_Spec e) \<noteq> ClusterID (ep_Spec ep)" for e
  proof -
    from that(1) assms(3) have "e \<in> set (ds_endpoints store)" "ClusterID (ep_Spec e) \<noteq> cs_ClusterID (sc_Spec (dy_localCluster d))"
      by (auto simp: remotes_def is_local_def)
    with conflicts_False [OF _ this(1) that(2) this(2)] a show ?thesis unfolding disjoint_subnets_def by blast
  qed
  ultimately show ?thesis using a disjoint_subnets_sym by blast
qed

lemma ds_step_inv:
  assumes "ds_step d d'" "ds_inv d"
  shows "ds_inv d'"
  using assms
proof (induction rule: ds_step.induct)
  case (broker d ep op)
  show ?case
  proof (cases "fst (shouldSyncRemoteEndpoint d ep op) = None \<or> dy_syncer d = None \<or> op = OpDelete")
    case True
    then have "set (remotes (broker_event ep op d)) \<subseteq> set (remotes d)" "dy_localEndpoint (broker_event ep op d) = dy_localEndpoint d"
      by (auto simp: broker_event_def remotes_def is_local_def Let_def shouldSyncRemoteEndpoint_def split: option.split)
    with broker show ?thesis by (rule ds_inv_mono)
  next
    case False
    then obtain obj store where o: "fst (shouldSyncRemoteEndpoint d ep op) = Some obj" "op \<noteq> OpDelete" "dy_syncer d = Some store"
      by auto
    note a = accepted_disjoint [OF this]
    have r: "set (remotes (broker_event ep op d)) \<subseteq> insert ep (set (remotes d))"
      "dy_localEndpoint (broker_event ep op d) = dy_localEndpoint d"
      using o a by (auto simp: broker_event_def remotes_def is_local_def Let_def)
    from a broker have "all_disjoint (Subnets (Spec (dy_localEndpoint d))) (insert ep (set (remotes d)))"
      by (auto simp: ds_inv_def intro: all_disjoint_insert)
    with r show ?thesis by (simp add: ds_inv_def all_disjoint_subset)
  qed
next
  case (clusters d store cs)
  then show ?case by (auto intro: ds_inv_mono simp: remotes_def is_local_def)
next
  case (own d store es)
  then have "set (remotes (d\<lparr>dy_syncer := Some (store\<lparr>ds_endpoints := es\<rparr>)\<rparr>)) \<subseteq> set (remotes d)"
    by (auto simp: remotes_def is_local_def)
  with own(3) show ?case by (rule ds_inv_mono) simp
qed

text \<open>C3: Whatever the broker and the Kubernetes API deliver, the subnets of the remote endpoints in the local datastore are
  disjoint from the local subnets, and those of different remote clusters are disjoint from each other, if they were
  at the start (in particular for an empty datastore).\<close>

theorem remote_subnets_disjoint:
  assumes "ds_step\<^sup>*\<^sup>* d d'" and "ds_inv d"
  shows "ds_inv d'"
  using assms by (induction rule: rtranclp_induct) (auto intro: ds_step_inv)

theorem remote_subnets_disjoint_witness:
  "ds_inv (broker_event example_west OpCreate (example_ds\<lparr>dy_syncer := Some \<lparr>ds_clusters = [], ds_endpoints = []\<rparr>\<rparr>))"
  by (rule remote_subnets_disjoint [of "example_ds\<lparr>dy_syncer := Some \<lparr>ds_clusters = [], ds_endpoints = []\<rparr>\<rparr>"])
    (auto simp: ds_inv_def all_disjoint_def remotes_def intro: ds_step.intros)

end
