(* ===== verification/PacketFilter.thy ===== *)
theory PacketFilter
  imports GoStd
begin

text \<open>
  \<open>pkg/packetfilter/packetfilter.go\<close> and \<open>adapter.go\<close>: rules and chains, the interface of a packet filter
  driver, and the adapter that puts rules at the beginning of a chain and makes the rules of a chain equal to a
  given list.

  The enumerations are \<open>uint32\<close> in Go and any value can be converted to them, so they are 32-bit words here.
  The locale \<open>chain_driver\<close> is what the adapter relies on of a driver: the rules of a chain are a list, and
  listing, appending, inserting and deleting act on it in the usual way. It is interpreted on the iptables and on
  the nftables driver.
\<close>

section \<open>Enumerations\<close>

named_theorems pf_consts \<open>the constants of the enumerations\<close>

definition unknown :: string where "unknown = ''???''"

type_synonym TableType = "32 word"

definition TableTypeFilter :: TableType where [pf_consts]: "TableTypeFilter = 0"
definition TableTypeRoute :: TableType where [pf_consts]: "TableTypeRoute = 1"
definition TableTypeNAT :: TableType where [pf_consts]: "TableTypeNAT = 2"

definition TableType_String :: "TableType \<Rightarrow> string" where
  "TableType_String t = (if t = TableTypeFilter then ''Filter'' else if t = TableTypeRoute then ''Route''
     else if t = TableTypeNAT then ''NAT'' else unknown)"

type_synonym RuleAction = "32 word"

definition RuleActionJump :: RuleAction where [pf_consts]: "RuleActionJump = 0"
definition RuleActionAccept :: RuleAction where [pf_consts]: "RuleActionAccept = 1"
definition RuleActionMss :: RuleAction where [pf_consts]: "RuleActionMss = 2"
definition RuleActionMark :: RuleAction where [pf_consts]: "RuleActionMark = 3"
definition RuleActionSNAT :: RuleAction where [pf_consts]: "RuleActionSNAT = 4"
definition RuleActionDNAT :: RuleAction where [pf_consts]: "RuleActionDNAT = 5"
definition RuleActionSelfSNAT :: RuleAction where [pf_consts]: "RuleActionSelfSNAT = 6"

definition RuleAction_String :: "RuleAction \<Rightarrow> string" where
  "RuleAction_String r = (if r = RuleActionJump then ''Jump'' else if r = RuleActionAccept then ''Accept''
     else if r = RuleActionMss then ''MSS'' else if r = RuleActionMark then ''Mark''
     else if r = RuleActionSNAT then ''SNAT'' else if r = RuleActionDNAT then ''DNAT''
     else if r = RuleActionSelfSNAT then ''SelfSNAT'' else unknown)"

type_synonym RuleProto = "32 word"

definition RuleProtoUndefined :: RuleProto where [pf_consts]: "RuleProtoUndefined = 0"
definition RuleProtoAll :: RuleProto where [pf_consts]: "RuleProtoAll = 1"
definition RuleProtoTCP :: RuleProto where [pf_consts]: "RuleProtoTCP = 2"
definition RuleProtoUDP :: RuleProto where [pf_consts]: "RuleProtoUDP = 3"
definition RuleProtoICMP :: RuleProto where [pf_consts]: "RuleProtoICMP = 4"

definition RuleProto_String :: "RuleProto \<Rightarrow> string" where
  "RuleProto_String r = (if r = RuleProtoUndefined then ''Undefined'' else if r = RuleProtoAll then ''All''
     else if r = RuleProtoTCP then ''TCP'' else if r = RuleProtoUDP then ''UDP''
     else if r = RuleProtoICMP then ''ICMP'' else unknown)"

type_synonym MssClampType = "32 word"

definition UndefinedMSS :: MssClampType where [pf_consts]: "UndefinedMSS = 0"
definition ToPMTU :: MssClampType where [pf_consts]: "ToPMTU = 1"
definition ToValue :: MssClampType where [pf_consts]: "ToValue = 2"

definition MssClampType_String :: "MssClampType \<Rightarrow> string" where
  "MssClampType_String m = (if m = UndefinedMSS then ''Undefined'' else if m = ToPMTU then ''ToPMTU''
     else if m = ToValue then ''ToValue'' else unknown)"

type_synonym ChainHook = "32 word"

definition ChainHookPrerouting :: ChainHook where [pf_consts]: "ChainHookPrerouting = 0"
definition ChainHookInput :: ChainHook where [pf_consts]: "ChainHookInput = 1"
definition ChainHookForward :: ChainHook where [pf_consts]: "ChainHookForward = 2"
definition ChainHookOutput :: ChainHook where [pf_consts]: "ChainHookOutput = 3"
definition ChainHookPostrouting :: ChainHook where [pf_consts]: "ChainHookPostrouting = 4"

definition ChainHook_String :: "ChainHook \<Rightarrow> string" where
  "ChainHook_String c = (if c = ChainHookPrerouting then ''PreRouting'' else if c = ChainHookInput then ''Input''
     else if c = ChainHookForward then ''Forward'' else if c = ChainHookOutput then ''Output''
     else if c = ChainHookPostrouting then ''PostRouting'' else unknown)"

type_synonym ChainPriority = "32 word"

definition ChainPriorityFirst :: ChainPriority where [pf_consts]: "ChainPriorityFirst = 0"
definition ChainPriorityMiddle :: ChainPriority where [pf_consts]: "ChainPriorityMiddle = 1"
definition ChainPriorityLast :: ChainPriority where [pf_consts]: "ChainPriorityLast = 2"

definition ChainPriority_String :: "ChainPriority \<Rightarrow> string" where
  "ChainPriority_String c = (if c = ChainPriorityFirst then ''First'' else if c = ChainPriorityMiddle then ''Middle''
     else if c = ChainPriorityLast then ''Last'' else unknown)"

type_synonym ChainType = "32 word"

definition ChainTypeFilter :: ChainType where [pf_consts]: "ChainTypeFilter = 0"
definition ChainTypeRoute :: ChainType where [pf_consts]: "ChainTypeRoute = 1"
definition ChainTypeNAT :: ChainType where [pf_consts]: "ChainTypeNAT = 2"

definition ChainType_String :: "ChainType \<Rightarrow> string" where
  "ChainType_String c = (if c = ChainTypeFilter then ''Filter'' else if c = ChainTypeRoute then ''Route''
     else if c = ChainTypeNAT then ''NAT'' else unknown)"

type_synonym ChainPolicy = "32 word"

definition ChainPolicyAccept :: ChainPolicy where [pf_consts]: "ChainPolicyAccept = 0"
definition ChainPolicyDrop :: ChainPolicy where [pf_consts]: "ChainPolicyDrop = 1"

definition ChainPolicy_String :: "ChainPolicy \<Rightarrow> string" where
  "ChainPolicy_String c = (if c = ChainPolicyAccept then ''Accept'' else if c = ChainPolicyDrop then ''Drop'' else unknown)"

section \<open>Rules and chains\<close>

record Rule =
  DestCIDR :: string
  SrcCIDR :: string
  SrcSetName :: string
  DestSetName :: string
  SnatCIDR :: string
  DnatCIDR :: string
  OutInterface :: string
  InInterface :: string
  TargetChain :: string
  MssValue :: string
  DPort :: string
  MarkValue :: string
  Action :: RuleAction
  Proto :: RuleProto
  ClampType :: MssClampType

record Chain =
  ch_Name :: string
  ch_Policy :: ChainPolicy

record ChainIPHook =
  ih_Name :: string
  ih_Type :: ChainType
  ih_Hook :: ChainHook
  ih_Priority :: ChainPriority
  ih_Policy :: ChainPolicy
  ih_JumpRule :: "Rule option"

text \<open>\<open>&packetfilter.Rule{}\<close>: every field has its zero value.\<close>

definition zero_rule :: Rule where
  "zero_rule = \<lparr>DestCIDR = [], SrcCIDR = [], SrcSetName = [], DestSetName = [], SnatCIDR = [], DnatCIDR = [],
     OutInterface = [], InInterface = [], TargetChain = [], MssValue = [], DPort = [], MarkValue = [],
     Action = 0, Proto = 0, ClampType = 0\<rparr>"

definition rule_field :: "string \<Rightarrow> string \<Rightarrow> string" where
  "rule_field label v = (if v \<noteq> [] then '', '' @ label @ '': '' @ v else [])"

definition Rule_String :: "Rule \<Rightarrow> string" where
  "Rule_String r = ''packetfilter.Rule{Action: '' @ RuleAction_String (Action r) @
     (if Proto r \<noteq> RuleProtoUndefined then '', Proto: '' @ RuleProto_String (Proto r) else []) @
     (if ClampType r \<noteq> UndefinedMSS then '', ClampType: '' @ MssClampType_String (ClampType r) else []) @
     rule_field ''SrcCIDR'' (SrcCIDR r) @ rule_field ''DestCIDR'' (DestCIDR r) @
     rule_field ''SnatCIDR'' (SnatCIDR r) @ rule_field ''DnatCIDR'' (DnatCIDR r) @
     rule_field ''SrcSetName'' (SrcSetName r) @ rule_field ''DestSetName'' (DestSetName r) @
     rule_field ''OutInterface'' (OutInterface r) @ rule_field ''InInterface'' (InInterface r) @
     rule_field ''DPort'' (DPort r) @ rule_field ''MarkValue'' (MarkValue r) @
     rule_field ''MssValue'' (MssValue r) @ rule_field ''TargetChain'' (TargetChain r) @ ''}''"

section \<open>Drivers\<close>

text \<open>The state \<open>'k\<close> is the packet filter of the kernel. Named sets are not part of the record.\<close>

record 'k pfDriver =
  pd_GetMSSClampTypes :: "TableType \<times> ChainType"
  pd_ChainExists :: "TableType \<Rightarrow> string \<Rightarrow> 'k \<Rightarrow> bool result"
  pd_CreateIPHookChainIfNotExists :: "ChainIPHook \<Rightarrow> 'k \<Rightarrow> 'k \<times> err option"
  pd_CreateChainIfNotExists :: "TableType \<Rightarrow> Chain \<Rightarrow> 'k \<Rightarrow> 'k \<times> err option"
  pd_DeleteIPHookChain :: "ChainIPHook \<Rightarrow> 'k \<Rightarrow> 'k \<times> err option"
  pd_DeleteChain :: "TableType \<Rightarrow> string \<Rightarrow> 'k \<Rightarrow> 'k \<times> err option"
  pd_ClearChain :: "TableType \<Rightarrow> string \<Rightarrow> 'k \<Rightarrow> 'k \<times> err option"
  pd_Delete :: "TableType \<Rightarrow> string \<Rightarrow> Rule \<Rightarrow> 'k \<Rightarrow> 'k \<times> err option"
  pd_AppendUnique :: "TableType \<Rightarrow> string \<Rightarrow> Rule \<Rightarrow> 'k \<Rightarrow> 'k \<times> err option"
  pd_List :: "TableType \<Rightarrow> string \<Rightarrow> 'k \<Rightarrow> Rule list result"
  pd_Append :: "TableType \<Rightarrow> string \<Rightarrow> Rule \<Rightarrow> 'k \<Rightarrow> 'k \<times> err option"
  pd_Insert :: "TableType \<Rightarrow> string \<Rightarrow> int \<Rightarrow> Rule \<Rightarrow> 'k \<Rightarrow> 'k \<times> err option"

text \<open>The constructor of drivers that is registered; a driver is made for one address family.\<close>

definition New_pf :: "('f \<Rightarrow> 'k pfDriver result) option \<Rightarrow> 'f \<Rightarrow> 'k pfDriver result" where
  "New_pf newDriverFn family = (case newDriverFn of
      None \<Rightarrow> Inl (Err ''no driver registered'')
    | Some f \<Rightarrow> wrap_res ''error creating packet filter Driver'' (f family))"

section \<open>The adapter\<close>

fun delete_times ::
  "'k pfDriver \<Rightarrow> TableType \<Rightarrow> string \<Rightarrow> Rule \<Rightarrow> nat \<Rightarrow> 'k \<Rightarrow> 'k \<times> err option" where
  "delete_times D table chain rule 0 k = (k, None)"
| "delete_times D table chain rule (Suc n) k =
     (case pd_Delete D table chain rule k of
        (k', Some e) \<Rightarrow> (k', Some e)
      | (k', None) \<Rightarrow> delete_times D table chain rule n k')"

text \<open>\<open>position\<close> counts from 1.\<close>

definition ensureRuleAtPosition ::
  "'k pfDriver \<Rightarrow> TableType \<Rightarrow> string \<Rightarrow> Rule list \<Rightarrow> nat \<Rightarrow> Rule \<Rightarrow> 'k \<Rightarrow> 'k \<times> err option" where
  "ensureRuleAtPosition D table chain existingRules position rule k =
     (let numOccurrences = count_list existingRules rule;
          isPresentAtRequiredPosition =
            (position - 1 < length existingRules \<and> existingRules ! (position - 1) = rule);
          deleted = (if numOccurrences > 1 \<or> \<not> isPresentAtRequiredPosition
                     then delete_times D table chain rule numOccurrences k else (k, None)) in
      case deleted of
        (k', Some e) \<Rightarrow> (k', Some e)
      | (k', None) \<Rightarrow>
          if numOccurrences = 1 \<and> isPresentAtRequiredPosition then (k', None)
          else pd_Insert D table chain (int position) rule k')"

fun ensure_rules ::
  "'k pfDriver \<Rightarrow> TableType \<Rightarrow> string \<Rightarrow> Rule list \<Rightarrow> nat \<Rightarrow> Rule list \<Rightarrow> 'k \<Rightarrow> 'k \<times> err option" where
  "ensure_rules D table chain existingRules i [] k = (k, None)"
| "ensure_rules D table chain existingRules i (rule # rules) k =
     (case ensureRuleAtPosition D table chain existingRules (i + 1) rule k of
        (k', Some e) \<Rightarrow> (k', Some e)
      | (k', None) \<Rightarrow> ensure_rules D table chain existingRules (i + 1) rules k')"

definition PrependUnique ::
  "'k pfDriver \<Rightarrow> TableType \<Rightarrow> string \<Rightarrow> Rule list \<Rightarrow> 'k \<Rightarrow> 'k \<times> err option" where
  "PrependUnique D table chain rules k =
     (case pd_List D table chain k of
        Inl e \<Rightarrow> (k, Some e)
      | Inr existingRules \<Rightarrow> ensure_rules D table chain existingRules 0 rules k)"

text \<open>The first loop of \<open>UpdateChainRules\<close>; the map of existing rules is a set of rules.\<close>

fun append_missing ::
  "'k pfDriver \<Rightarrow> TableType \<Rightarrow> string \<Rightarrow> Rule list \<Rightarrow> Rule list \<Rightarrow> 'k \<Rightarrow> ('k \<times> Rule list) \<times> err option" where
  "append_missing D table chain [] existing k = ((k, existing), None)"
| "append_missing D table chain (rule # rules) existing k =
     (if rule \<in> set existing then append_missing D table chain rules (removeAll rule existing) k
      else (case pd_Append D table chain rule k of
              (k', Some e) \<Rightarrow> ((k', existing), Some (Wrapped ''rule from table, chain'' e))
            | (k', None) \<Rightarrow> append_missing D table chain rules existing k'))"

text \<open>
  The second loop. Go iterates over a map in no particular order: \<open>order\<close> is the order of this iteration. Errors
  are only logged.
\<close>

fun delete_stale :: "'k pfDriver \<Rightarrow> TableType \<Rightarrow> string \<Rightarrow> Rule list \<Rightarrow> 'k \<Rightarrow> 'k" where
  "delete_stale D table chain [] k = k"
| "delete_stale D table chain (rule # rules) k =
     delete_stale D table chain rules (fst (pd_Delete D table chain rule k))"

definition UpdateChainRules ::
  "'k pfDriver \<Rightarrow> (Rule list \<Rightarrow> Rule list) \<Rightarrow> TableType \<Rightarrow> string \<Rightarrow> Rule list \<Rightarrow> 'k \<Rightarrow> 'k \<times> err option" where
  "UpdateChainRules D order table chain rules k =
     (case pd_List D table chain k of
        Inl e \<Rightarrow> (k, Some (Wrapped ''error listing the rules'' e))
      | Inr currentRules \<Rightarrow>
          (case append_missing D table chain rules (remdups currentRules) k of
             ((k', _), Some e) \<Rightarrow> (k', Some e)
           | ((k', stale), None) \<Rightarrow> (delete_stale D table chain (order stale) k', None)))"

section \<open>What the adapter relies on\<close>

locale chain_driver =
  fixes D :: "'k pfDriver"
    and inv :: "'k \<Rightarrow> bool"
    and chain :: "TableType \<Rightarrow> string \<Rightarrow> 'k \<Rightarrow> Rule list"
    and supported :: "Rule \<Rightarrow> bool"
  assumes List_ok: "inv k \<Longrightarrow> pd_List D t c k = Inr rs \<Longrightarrow> rs = chain t c k"
    and Append_ok: "inv k \<Longrightarrow> supported r \<Longrightarrow> pd_Append D t c r k = (k', None) \<Longrightarrow>
      inv k' \<and> chain t c k' = chain t c k @ [r] \<and> (\<forall>t' c'. c' \<noteq> c \<longrightarrow> chain t' c' k' = chain t' c' k)"
    and Insert_ok: "inv k \<Longrightarrow> supported r \<Longrightarrow> n \<le> length (chain t c k) \<Longrightarrow>
      pd_Insert D t c (int (Suc n)) r k = (k', None) \<Longrightarrow>
      inv k' \<and> chain t c k' = take n (chain t c k) @ r # drop n (chain t c k) \<and>
      (\<forall>t' c'. c' \<noteq> c \<longrightarrow> chain t' c' k' = chain t' c' k)"
    and Delete_ok: "inv k \<Longrightarrow> supported r \<Longrightarrow> pd_Delete D t c r k = (k', None) \<Longrightarrow>
      inv k' \<and> chain t c k' = remove1 r (chain t c k) \<and> (\<forall>t' c'. c' \<noteq> c \<longrightarrow> chain t' c' k' = chain t' c' k)"
    and Delete_failed: "inv k \<Longrightarrow> supported r \<Longrightarrow> pd_Delete D t c r k = (k', Some e) \<Longrightarrow>
      inv k' \<and> (\<forall>t' c'. chain t' c' k' = chain t' c' k)"
begin

lemma delete_times_ok:
  "inv k \<Longrightarrow> supported r \<Longrightarrow> delete_times D t c r n k = (k', None) \<Longrightarrow>
   inv k' \<and> chain t c k' = (remove1 r ^^ n) (chain t c k) \<and> (\<forall>t' c'. c' \<noteq> c \<longrightarrow> chain t' c' k' = chain t' c' k)"
proof (induction n arbitrary: k)
  case (Suc n)
  then obtain k1 where k1: "pd_Delete D t c r k = (k1, None)" "delete_times D t c r n k1 = (k', None)"
    by (auto split: prod.split_asm option.split_asm)
  from Delete_ok [OF Suc.prems(1,2) k1(1)] Suc.IH [OF _ Suc.prems(2) k1(2)] show ?case
    by (auto simp: funpow_swap1)
qed simp

lemma ensure_absent:
  assumes "inv k" "supported r" "r \<notin> set existing" "n \<le> length (chain t c k)"
    "ensureRuleAtPosition D t c existing (Suc n) r k = (k', None)"
  shows "inv k' \<and> chain t c k' = take n (chain t c k) @ r # drop n (chain t c k) \<and>
    (\<forall>t' c'. c' \<noteq> c \<longrightarrow> chain t' c' k' = chain t' c' k)"
proof -
  have "count_list existing r = 0" using assms(3) by (simp add: count_list_0_iff)
  moreover have "\<not> (n < length existing \<and> existing ! n = r)" using assms(3) nth_mem by auto
  ultimately have "pd_Insert D t c (int (Suc n)) r k = (k', None)"
    using assms(5) by (simp add: ensureRuleAtPosition_def)
  from Insert_ok [OF assms(1,2,4) this] show ?thesis .
qed

lemma ensure_first:
  assumes "inv k" "supported r" "ensureRuleAtPosition D t c (chain t c k) 1 r k = (k', None)"
  shows "inv k' \<and> chain t c k' = r # removeAll r (chain t c k) \<and>
    (\<forall>t' c'. c' \<noteq> c \<longrightarrow> chain t' c' k' = chain t' c' k)"
proof (cases "count_list (chain t c k) r = 1 \<and> 0 < length (chain t c k) \<and> chain t c k ! 0 = r")
  case True
  then obtain ys where ys: "chain t c k = r # ys" by (cases "chain t c k") auto
  with True have "r \<notin> set ys" by (simp add: count_list_0_iff)
  with True assms ys show ?thesis by (auto simp: ensureRuleAtPosition_def Let_def)
next
  case False
  let ?n = "count_list (chain t c k) r"
  have cond: "?n = 0 \<or> (1 < ?n \<or> \<not> (0 < length (chain t c k) \<and> chain t c k ! 0 = r))" using False by auto
  from assms(3) False obtain k1 where
      k1: "(if 1 < ?n \<or> \<not> (0 < length (chain t c k) \<and> chain t c k ! 0 = r)
            then delete_times D t c r ?n k else (k, None)) = (k1, None)"
    and ins: "pd_Insert D t c (int (Suc 0)) r k1 = (k', None)"
    unfolding ensureRuleAtPosition_def Let_def
    by (simp split: prod.split_asm option.split_asm if_split_asm)
  from cond k1 have "delete_times D t c r ?n k = (k1, None)" by (auto split: if_split_asm)
  note d = delete_times_ok [OF assms(1,2) this]
  have "filter (\<lambda>y. y \<noteq> r) xs = removeAll r xs" for xs by (induction xs) auto
  with d have c1: "chain t c k1 = removeAll r (chain t c k)" by (simp add: remove1_funpow_filter)
  from d have "inv k1" by blast
  from Insert_ok [OF this assms(2) _ ins] c1 d show ?thesis by auto
qed

text \<open>One rule: it is the first of the chain, once, and the other rules keep their order.\<close>

lemma PrependUnique_one:
  assumes "inv k" "supported r" "PrependUnique D t c [r] k = (k', None)"
  shows "inv k' \<and> chain t c k' = r # removeAll r (chain t c k) \<and>
    (\<forall>t' c'. c' \<noteq> c \<longrightarrow> chain t' c' k' = chain t' c' k)"
proof -
  from assms(3) obtain rs where rs: "pd_List D t c k = Inr rs" "ensureRuleAtPosition D t c rs 1 r k = (k', None)"
    by (auto simp: PrependUnique_def split: sum.split_asm prod.split_asm option.split_asm)
  have "rs = chain t c k" by (rule List_ok [OF assms(1) rs(1)])
  from ensure_first [OF assms(1,2) rs(2) [unfolded this]] show ?thesis .
qed

lemma ensure_rules_absent:
  assumes "set rules \<inter> set existing = {}" "\<forall>r\<in>set rules. supported r"
  shows "inv k \<Longrightarrow> chain t c k = pre @ rest \<Longrightarrow> ensure_rules D t c existing (length pre) rules k = (k', None) \<Longrightarrow>
    inv k' \<and> chain t c k' = pre @ rules @ rest"
  using assms
proof (induction rules arbitrary: k pre)
  case (Cons r rules)
  then obtain k1 where k1: "ensureRuleAtPosition D t c existing (Suc (length pre)) r k = (k1, None)"
      "ensure_rules D t c existing (Suc (length pre)) rules k1 = (k', None)"
    by (auto split: prod.split_asm option.split_asm)
  from Cons.prems have r: "supported r" "r \<notin> set existing" "length pre \<le> length (chain t c k)" by auto
  from ensure_absent [OF Cons.prems(1) r k1(1)] Cons.prems(2)
  have "inv k1" "chain t c k1 = (pre @ [r]) @ rest" by auto
  with Cons.IH [OF this] k1(2) Cons.prems(4,5) show ?case by simp
qed simp

text \<open>Rules that are not in the chain yet come first, in the order given.\<close>

lemma PrependUnique_fresh:
  assumes "inv k" "\<forall>r\<in>set rules. supported r" "set rules \<inter> set (chain t c k) = {}"
    "PrependUnique D t c rules k = (k', None)"
  shows "chain t c k' = rules @ chain t c k"
proof -
  from assms(4) obtain rs where rs: "pd_List D t c k = Inr rs" "ensure_rules D t c rs 0 rules k = (k', None)"
    by (auto simp: PrependUnique_def split: sum.split_asm)
  have "rs = chain t c k" by (rule List_ok [OF assms(1) rs(1)])
  with ensure_rules_absent [OF _ assms(2,1), of rs t c "[]" "chain t c k" k'] rs(2) assms(3) show ?thesis by simp
qed

text \<open>
  All rules are placed by the one listing made at the start, although each insertion shifts the rules behind it. A
  rule that was listed at its position stays where the insertion of an earlier rule moves it.
\<close>

lemma PrependUnique_stale:
  assumes "inv k" "supported a" "chain t c k = [x, b]" "a \<noteq> x" "a \<noteq> b" "x \<noteq> b"
    "PrependUnique D t c [a, b] k = (k', None)"
  shows "chain t c k' = [a, x, b]"
proof -
  from assms(7) obtain rs k1 where rs: "pd_List D t c k = Inr rs"
      "ensureRuleAtPosition D t c rs (Suc 0) a k = (k1, None)" "ensureRuleAtPosition D t c rs 2 b k1 = (k', None)"
    by (auto simp: PrependUnique_def numeral_2_eq_2 split: sum.split_asm prod.split_asm option.split_asm)
  have "rs = [x, b]" using List_ok [OF assms(1) rs(1)] assms(3) by simp
  with rs(3) assms(6) have "k' = k1" by (simp add: ensureRuleAtPosition_def)
  with ensure_absent [OF assms(1,2) _ _ rs(2)] \<open>rs = [x, b]\<close> assms(3-5) show ?thesis by simp
qed

lemma append_missing_ok:
  "inv k \<Longrightarrow> \<forall>r\<in>set rules. supported r \<Longrightarrow> append_missing D t c rules ex k = ((k', stale), None) \<Longrightarrow> distinct ex \<Longrightarrow>
   distinct rules \<Longrightarrow>
   inv k' \<and> chain t c k' = chain t c k @ filter (\<lambda>r. r \<notin> set ex) rules \<and> stale = filter (\<lambda>r. r \<notin> set rules) ex"
proof (induction rules arbitrary: ex k)
  case (Cons r rules)
  show ?case
  proof (cases "r \<in> set ex")
    case True
    have f: "filter (\<lambda>x. x \<notin> set (removeAll r ex)) rules = filter (\<lambda>x. x \<notin> set ex) rules"
      using Cons.prems(5) by (intro filter_cong) auto
    from True Cons.IH [of k "removeAll r ex"] Cons.prems f show ?thesis
      by (auto simp: removeAll_filter_not_eq intro!: filter_cong)
  next
    case False
    with Cons.prems obtain k1 where k1: "pd_Append D t c r k = (k1, None)"
        "append_missing D t c rules ex k1 = ((k', stale), None)"
      by (auto split: prod.split_asm option.split_asm)
    from Append_ok [OF Cons.prems(1) _ k1(1)] Cons.IH [OF _ _ k1(2)] Cons.prems False show ?thesis
      by (auto intro!: filter_cong)
  qed
qed simp

lemma delete_stale_keeps:
  "inv k \<Longrightarrow> \<forall>r\<in>set rs. supported r \<Longrightarrow> x \<notin> set rs \<Longrightarrow>
   inv (delete_stale D t c rs k) \<and> (x \<in> set (chain t c k) \<longrightarrow> x \<in> set (chain t c (delete_stale D t c rs k)))"
proof (induction rs arbitrary: k)
  case (Cons r rs)
  obtain k1 e where d: "pd_Delete D t c r k = (k1, e)" by fastforce
  have "inv k1 \<and> (x \<in> set (chain t c k) \<longrightarrow> x \<in> set (chain t c k1))"
    using Delete_ok [OF Cons.prems(1), of r t c k1] Delete_failed [OF Cons.prems(1), of r t c k1] Cons.prems d
    by (cases e) auto
  with Cons.IH [of k1] Cons.prems d show ?case by auto
qed simp

lemma delete_stale_all:
  assumes "\<And>r k. inv k \<Longrightarrow> r \<in> set (chain t c k) \<Longrightarrow> snd (pd_Delete D t c r k) = None"
  shows "inv k \<Longrightarrow> \<forall>r\<in>set rs. supported r \<Longrightarrow> distinct (chain t c k) \<Longrightarrow>
    chain t c (delete_stale D t c rs k) = filter (\<lambda>r. r \<notin> set rs) (chain t c k)"
proof (induction rs arbitrary: k)
  case (Cons r rs)
  obtain k1 e where d: "pd_Delete D t c r k = (k1, e)" by fastforce
  have r: "supported r" using Cons.prems(2) by simp
  have "inv k1 \<and> chain t c k1 = remove1 r (chain t c k)"
  proof (cases e)
    case None
    with Delete_ok [OF Cons.prems(1) r] d show ?thesis by blast
  next
    case (Some e')
    with assms [OF Cons.prems(1), of r] d have "r \<notin> set (chain t c k)" by auto
    with Delete_failed [OF Cons.prems(1) r] d Some show ?thesis by (simp add: remove1_idem)
  qed
  moreover have "filter P (remove1 r xs) = filter (\<lambda>x. x \<noteq> r \<and> P x) xs" if "distinct xs" for P xs
    using that by (induction xs) (auto intro!: filter_cong)
  ultimately show ?case using Cons.IH [of k1] Cons.prems d by simp
qed simp

lemma UpdateChainRules_parts:
  assumes "UpdateChainRules D order t c rules k = (k', None)"
  obtains rs k1 stale where "pd_List D t c k = Inr rs"
    "append_missing D t c rules (remdups rs) k = ((k1, stale), None)" "k' = delete_stale D t c (order stale) k1"
  using assms by (auto simp: UpdateChainRules_def split: sum.split_asm prod.split_asm option.split_asm)

text \<open>
  Without error every given rule is in the chain, whether stale rules could be deleted or not. If they could, the
  chain is the given rules: those that were there in their old order, then the new ones.
\<close>

lemma UpdateChainRules_ok:
  assumes k: "inv k" "\<forall>r\<in>set rules. supported r" "\<forall>r\<in>set (chain t c k). supported r"
    and d: "distinct (chain t c k)" "distinct rules"
    and order: "\<And>xs. set (order xs) = set xs"
    and u: "UpdateChainRules D order t c rules k = (k', None)"
  shows "set rules \<subseteq> set (chain t c k') \<and>
    ((\<forall>r k. inv k \<longrightarrow> r \<in> set (chain t c k) \<longrightarrow> snd (pd_Delete D t c r k) = None) \<longrightarrow>
     chain t c k' = filter (\<lambda>r. r \<in> set rules) (chain t c k) @ filter (\<lambda>r. r \<notin> set (chain t c k)) rules)"
proof -
  from u obtain rs k1 stale where l: "pd_List D t c k = Inr rs"
      and a: "append_missing D t c rules (remdups rs) k = ((k1, stale), None)"
      and k': "k' = delete_stale D t c (order stale) k1" by (rule UpdateChainRules_parts)
  have rs: "rs = chain t c k" by (rule List_ok [OF k(1) l])
  from append_missing_ok [OF k(1,2) a] d rs have k1: "inv k1"
      "chain t c k1 = chain t c k @ filter (\<lambda>r. r \<notin> set (chain t c k)) rules"
      "stale = filter (\<lambda>r. r \<notin> set rules) (chain t c k)"
    by (auto simp: distinct_remdups_id)
  from k1(3) order [of stale] k(3) have sup: "\<forall>r\<in>set (order stale). supported r"
    and st: "set (order stale) = set (chain t c k) - set rules" by auto
  have "x \<in> set (chain t c k')" if "x \<in> set rules" for x
    using delete_stale_keeps [OF k1(1) sup, of x] that k1(2) st unfolding k' by auto
  moreover have "chain t c k' = filter (\<lambda>r. r \<in> set rules) (chain t c k) @ filter (\<lambda>r. r \<notin> set (chain t c k)) rules"
    if del: "\<forall>r k. inv k \<longrightarrow> r \<in> set (chain t c k) \<longrightarrow> snd (pd_Delete D t c r k) = None"
  proof -
    have "distinct (chain t c k1)" using d k1(2) by auto
    with delete_stale_all [OF _ k1(1) sup] del have "chain t c k' = filter (\<lambda>r. r \<notin> set (order stale)) (chain t c k1)"
      unfolding k' by blast
    moreover have "filter (\<lambda>r. r \<notin> set (order stale)) (chain t c k) = filter (\<lambda>r. r \<in> set rules) (chain t c k)"
      "filter (\<lambda>r. r \<notin> set (order stale)) (filter (\<lambda>r. r \<notin> set (chain t c k)) rules) = filter (\<lambda>r. r \<notin> set (chain t c k)) rules"
      using st by (auto intro: filter_cong filter_True)
    ultimately show ?thesis by (simp only: k1(2) filter_append)
  qed
  ultimately show ?thesis by blast
qed

end

end
