(* ===== verification/IPTables.thy ===== *)
theory IPTables
  imports PacketFilter
begin

text \<open>
  \<open>pkg/packetfilter/iptables/iptables.go\<close>: rules as iptables rule specifications and back, and the iptables driver.

  The go-iptables library, which runs the iptables command, is the record \<open>ipt\<close>; its state \<open>'k\<close> is the packet
  filter of the kernel. \<open>ipt_ok\<close> says what the driver relies on: chains are lists of specifications, and
  \<open>iptables -S\<close> prints a specification that is in its own format (\<open>normal\<close>) as it was given.
\<close>

section \<open>Rule specifications\<close>

definition tableTypeToStr :: "TableType \<Rightarrow> string" where
  "tableTypeToStr t = (if t = TableTypeFilter then ''filter'' else if t = TableTypeRoute then ''mangle''
     else if t = TableTypeNAT then ''nat'' else [])"

definition ipHookChainTypeToTableType :: "ChainType \<Rightarrow> TableType" where
  "ipHookChainTypeToTableType t = (if t = ChainTypeFilter then TableTypeFilter
     else if t = ChainTypeRoute then TableTypeRoute else if t = ChainTypeNAT then TableTypeNAT else 0)"

definition chainHookToStr :: "ChainHook \<Rightarrow> string" where
  "chainHookToStr h = (if h = ChainHookPrerouting then ''PREROUTING'' else if h = ChainHookInput then ''INPUT''
     else if h = ChainHookForward then ''FORWARD'' else if h = ChainHookOutput then ''OUTPUT''
     else if h = ChainHookPostrouting then ''POSTROUTING'' else [])"

definition ruleActionToStr :: "RuleAction \<Rightarrow> string" where
  "ruleActionToStr a = (if a = RuleActionAccept then ''ACCEPT'' else if a = RuleActionMss then ''TCPMSS''
     else if a = RuleActionMark then ''MARK'' else if a = RuleActionSNAT then ''SNAT''
     else if a = RuleActionDNAT then ''DNAT'' else [])"

definition protoToRuleSpec :: "RuleProto \<Rightarrow> string list" where
  "protoToRuleSpec p = (if p = RuleProtoUDP then [''-p'', ''udp'', ''-m'', ''udp'']
     else if p = RuleProtoTCP then [''-p'', ''tcp'', ''-m'', ''tcp'']
     else if p = RuleProtoICMP then [''-p'', ''icmp''] else if p = RuleProtoAll then [''-p'', ''all''] else [])"

definition mssClampToRuleSpec :: "MssClampType \<Rightarrow> string \<Rightarrow> string list" where
  "mssClampToRuleSpec clampType mssValue =
     (if clampType = ToPMTU
      then [''--clamp-mss-to-pmtu'', ''-p'', ''tcp'', ''-m'', ''tcp'', ''--tcp-flags'', ''SYN,RST'', ''SYN'']
      else if clampType = ToValue
      then [''--set-mss'', mssValue, ''-p'', ''tcp'', ''-m'', ''tcp'', ''--tcp-flags'', ''SYN,RST'', ''SYN'']
      else [])"

text \<open>A flag with its value, left out when the value is empty.\<close>

definition flag :: "string \<Rightarrow> string \<Rightarrow> string list" where
  "flag f v = (if v \<noteq> [] then [f, v] else [])"

definition setToRuleSpec :: "string \<Rightarrow> string \<Rightarrow> string list" where
  "setToRuleSpec srcSetName destSetName =
     (if srcSetName \<noteq> [] then [''-m'', ''set'', ''--match-set'', srcSetName, ''src''] else []) @
     (if destSetName \<noteq> [] then [''-m'', ''set'', ''--match-set'', destSetName, ''dst''] else [])"

definition markToRuleSpec :: "string \<Rightarrow> string list" where
  "markToRuleSpec v = [''-m'', ''mark'', ''--mark'', v @ ''/'' @ v]"

definition ToRuleSpec :: "Rule \<Rightarrow> string list" where
  "ToRuleSpec rule = protoToRuleSpec (Proto rule) @ flag ''-s'' (SrcCIDR rule) @ flag ''-d'' (DestCIDR rule) @
     (if MarkValue rule \<noteq> [] \<and> Action rule \<noteq> RuleActionMark then markToRuleSpec (MarkValue rule) else []) @
     setToRuleSpec (SrcSetName rule) (DestSetName rule) @ flag ''-o'' (OutInterface rule) @
     flag ''-i'' (InInterface rule) @ flag ''--dport'' (DPort rule) @
     [''-j'', if Action rule = RuleActionJump then TargetChain rule else ruleActionToStr (Action rule)] @
     flag ''--to-source'' (SnatCIDR rule) @ flag ''--to-destination'' (DnatCIDR rule) @
     mssClampToRuleSpec (ClampType rule) (MssValue rule) @
     (if MarkValue rule \<noteq> [] \<and> Action rule = RuleActionMark
      then [''--set-mark'', MarkValue rule @ ''/'' @ MarkValue rule] else [])"

definition parseMark :: "string \<Rightarrow> string" where
  "parseMark s = (case cut (CHR ''/'') s of (before, _, found) \<Rightarrow> if found then before else [])"

definition parseAction :: "string \<Rightarrow> RuleAction" where
  "parseAction s = (if s = ''ACCEPT'' then RuleActionAccept else if s = ''TCPMSS'' then RuleActionMss
     else if s = ''MARK'' then RuleActionMark else if s = ''SNAT'' then RuleActionSNAT
     else if s = ''DNAT'' then RuleActionDNAT else RuleActionJump)"

definition parseProtocol :: "string \<Rightarrow> RuleProto" where
  "parseProtocol s = (if s = ''udp'' then RuleProtoUDP else if s = ''tcp'' then RuleProtoTCP
     else if s = ''icmp'' then RuleProtoICMP else if s = ''all'' then RuleProtoAll else RuleProtoUndefined)"

text \<open>
  The position \<open>i\<close> in the specification is the list of the terms behind it: a term is consumed by dropping it.
  When there is no next term the zero value is returned.
\<close>

definition parseNextTerm :: "'a \<Rightarrow> (string \<Rightarrow> 'a) \<Rightarrow> string list \<Rightarrow> 'a \<times> string list" where
  "parseNextTerm zero parse ts = (case ts of [] \<Rightarrow> (zero, []) | t # ts' \<Rightarrow> (parse t, ts'))"

definition parseRuleMatch :: "string list \<Rightarrow> Rule \<Rightarrow> Rule \<times> string list" where
  "parseRuleMatch ts rule = (case ts of
      [] \<Rightarrow> (rule, [])
    | m # rest \<Rightarrow>
        if m = ''mark'' then
          (if length rest \<ge> 2 \<and> rest ! 0 = ''--mark''
           then (rule\<lparr>MarkValue := parseMark (rest ! 1)\<rparr>, drop 2 rest) else (rule, rest))
        else if m = ''set'' then
          (if length rest \<ge> 3 \<and> rest ! 0 = ''--match-set''
           then (if rest ! 2 = ''src'' then rule\<lparr>SrcSetName := rest ! 1\<rparr>
                 else if rest ! 2 = ''dst'' then rule\<lparr>DestSetName := rest ! 1\<rparr> else rule, drop 3 rest)
           else (rule, rest))
        else (rule, rest))"

lemma parseNextTerm_length [termination_simp]: "length (snd (parseNextTerm z p ts)) \<le> length ts"
  by (simp add: parseNextTerm_def split: list.split)

lemma parseRuleMatch_length [termination_simp]: "length (snd (parseRuleMatch ts r)) \<le> length ts"
  by (auto simp: parseRuleMatch_def split: list.split)

fun spec_loop :: "string list \<Rightarrow> Rule \<Rightarrow> Rule" where
  "spec_loop [] rule = rule"
| "spec_loop (t # ts) rule =
     (let next_term = parseNextTerm [] (\<lambda>s. s) ts in
      if t = ''-p'' then
        (let n = parseNextTerm RuleProtoUndefined parseProtocol ts in spec_loop (snd n) (rule\<lparr>Proto := fst n\<rparr>))
      else if t = ''-s'' then spec_loop (snd next_term) (rule\<lparr>SrcCIDR := fst next_term\<rparr>)
      else if t = ''-d'' then spec_loop (snd next_term) (rule\<lparr>DestCIDR := fst next_term\<rparr>)
      else if t = ''-m'' then spec_loop (snd (parseRuleMatch ts rule)) (fst (parseRuleMatch ts rule))
      else if t = ''--to-destination'' then spec_loop (snd next_term) (rule\<lparr>DnatCIDR := fst next_term\<rparr>)
      else if t = ''--to-source'' then spec_loop (snd next_term) (rule\<lparr>SnatCIDR := fst next_term\<rparr>)
      else if t = ''-i'' then spec_loop (snd next_term) (rule\<lparr>InInterface := fst next_term\<rparr>)
      else if t = ''-o'' then spec_loop (snd next_term) (rule\<lparr>OutInterface := fst next_term\<rparr>)
      else if t = ''--dport'' then spec_loop (snd next_term) (rule\<lparr>DPort := fst next_term\<rparr>)
      else if t = ''--set-mark'' then
        (let n = parseNextTerm [] parseMark ts in spec_loop (snd n) (rule\<lparr>MarkValue := fst n\<rparr>))
      else if t = ''--clamp-mss-to-pmtu'' then spec_loop ts (rule\<lparr>ClampType := ToPMTU\<rparr>)
      else if t = ''--set-mss''
      then spec_loop (snd next_term) (rule\<lparr>MssValue := fst next_term, ClampType := ToValue\<rparr>)
      else if t = ''-j'' then
        (let n = parseNextTerm RuleActionJump parseAction ts;
             rule' = rule\<lparr>Action := fst n\<rparr> in
         spec_loop (snd n) (if fst n = RuleActionJump
           then rule'\<lparr>TargetChain := (case ts of [] \<Rightarrow> t | u # _ \<Rightarrow> u)\<rparr> else rule'))
      else spec_loop ts rule)"

definition FromRuleSpec :: "string list \<Rightarrow> Rule" where
  "FromRuleSpec spec =
     (let rule = spec_loop spec zero_rule in
      if Action rule = RuleActionMss then rule\<lparr>Proto := RuleProtoUndefined\<rparr> else rule)"

section \<open>The driver\<close>

record 'k ipt =
  ipt_ChainExists :: "string \<Rightarrow> string \<Rightarrow> 'k \<Rightarrow> bool result"
  ipt_NewChain :: "string \<Rightarrow> string \<Rightarrow> 'k \<Rightarrow> 'k \<times> err option"
  ipt_ClearChain :: "string \<Rightarrow> string \<Rightarrow> 'k \<Rightarrow> 'k \<times> err option"
  ipt_DeleteChain :: "string \<Rightarrow> string \<Rightarrow> 'k \<Rightarrow> 'k \<times> err option"
  ipt_List :: "string \<Rightarrow> string \<Rightarrow> 'k \<Rightarrow> string list result"
  ipt_Append :: "string \<Rightarrow> string \<Rightarrow> string list \<Rightarrow> 'k \<Rightarrow> 'k \<times> err option"
  ipt_AppendUnique :: "string \<Rightarrow> string \<Rightarrow> string list \<Rightarrow> 'k \<Rightarrow> 'k \<times> err option"
  ipt_Insert :: "string \<Rightarrow> string \<Rightarrow> int \<Rightarrow> string list \<Rightarrow> 'k \<Rightarrow> 'k \<times> err option"
  ipt_InsertUnique :: "string \<Rightarrow> string \<Rightarrow> int \<Rightarrow> string list \<Rightarrow> 'k \<Rightarrow> 'k \<times> err option"
  ipt_Delete :: "string \<Rightarrow> string \<Rightarrow> string list \<Rightarrow> 'k \<Rightarrow> 'k \<times> err option"
  ipt_IsNotExist :: "err \<Rightarrow> bool"

definition ChainExists :: "'k ipt \<Rightarrow> TableType \<Rightarrow> string \<Rightarrow> 'k \<Rightarrow> bool result" where
  "ChainExists I table chain k =
     wrap_res ''error checking ChainExists'' (ipt_ChainExists I (tableTypeToStr table) chain k)"

definition AppendUnique :: "'k ipt \<Rightarrow> TableType \<Rightarrow> string \<Rightarrow> Rule \<Rightarrow> 'k \<Rightarrow> 'k \<times> err option" where
  "AppendUnique I table chain rule k = (if Action rule = RuleActionSelfSNAT then (k, None)
     else apsnd (wrap ''AppendUnique failed'') (ipt_AppendUnique I (tableTypeToStr table) chain (ToRuleSpec rule) k))"

definition createChainIfNotExists :: "'k ipt \<Rightarrow> TableType \<Rightarrow> string \<Rightarrow> 'k \<Rightarrow> 'k \<times> err option" where
  "createChainIfNotExists I tableType chain k = (case ChainExists I tableType chain k of
      Inr True \<Rightarrow> (k, None)
    | Inl e \<Rightarrow> (k, Some e)
    | Inr False \<Rightarrow> apsnd (wrap ''error creating IP table chain'') (ipt_NewChain I (tableTypeToStr tableType) chain k))"

definition jump_rule :: "ChainIPHook \<Rightarrow> Rule" where
  "jump_rule chain = (case ih_JumpRule chain of
      Some r \<Rightarrow> r
    | None \<Rightarrow> zero_rule\<lparr>TargetChain := ih_Name chain, Action := RuleActionJump\<rparr>)"

definition CreateIPHookChainIfNotExists :: "'k ipt \<Rightarrow> ChainIPHook \<Rightarrow> 'k \<Rightarrow> 'k \<times> err option" where
  "CreateIPHookChainIfNotExists I chain k =
     (let tableType = ipHookChainTypeToTableType (ih_Type chain);
          hook = chainHookToStr (ih_Hook chain) in
      case createChainIfNotExists I tableType (ih_Name chain) k of
        (k1, Some e) \<Rightarrow> (k1, Some e)
      | (k1, None) \<Rightarrow>
          apsnd (wrap ''error creating IP hook chain'')
            (if ih_Priority chain = ChainPriorityFirst
             then ipt_InsertUnique I (tableTypeToStr tableType) hook 1 (ToRuleSpec (jump_rule chain)) k1
             else AppendUnique I tableType hook (jump_rule chain) k1))"

definition ipt_CreateChainIfNotExists :: "'k ipt \<Rightarrow> TableType \<Rightarrow> Chain \<Rightarrow> 'k \<Rightarrow> 'k \<times> err option" where
  "ipt_CreateChainIfNotExists I table chain k = createChainIfNotExists I table (ch_Name chain) k"

definition DeleteChain :: "'k ipt \<Rightarrow> TableType \<Rightarrow> string \<Rightarrow> 'k \<Rightarrow> 'k \<times> err option" where
  "DeleteChain I table chain k =
     apsnd (wrap ''error deleting chain'') (ipt_DeleteChain I (tableTypeToStr table) chain k)"

definition ClearChain :: "'k ipt \<Rightarrow> TableType \<Rightarrow> string \<Rightarrow> 'k \<Rightarrow> 'k \<times> err option" where
  "ClearChain I table chain k =
     apsnd (wrap ''error clearing chain'') (ipt_ClearChain I (tableTypeToStr table) chain k)"

definition Delete :: "'k ipt \<Rightarrow> TableType \<Rightarrow> string \<Rightarrow> Rule \<Rightarrow> 'k \<Rightarrow> 'k \<times> err option" where
  "Delete I table chain rule k = (if Action rule = RuleActionSelfSNAT then (k, None)
     else (case ipt_Delete I (tableTypeToStr table) chain (ToRuleSpec rule) k of
             (k', None) \<Rightarrow> (k', None)
           | (k', Some e) \<Rightarrow> (k', if ipt_IsNotExist I e then None else Some (Wrapped ''error deleting rule'' e))))"

definition DeleteIPHookChain :: "'k ipt \<Rightarrow> ChainIPHook \<Rightarrow> 'k \<Rightarrow> 'k \<times> err option" where
  "DeleteIPHookChain I chain k =
     (let tableType = ipHookChainTypeToTableType (ih_Type chain) in
      case Delete I tableType (chainHookToStr (ih_Hook chain)) (jump_rule chain) k of
        (k1, Some e) \<Rightarrow> (k1, Some (Wrapped ''error deleting IP hook chain'' e))
      | (k1, None) \<Rightarrow> DeleteChain I tableType (ih_Name chain) k1)"

text \<open>
  One line of \<open>iptables -S\<close>: None for a line that is skipped. Removing the two terms of an incomplete \<open>-A\<close>
  line would panic, \<open>Some (Inl _)\<close>; the command prints no such line.
\<close>

definition parse_line :: "string \<Rightarrow> (unit + Rule) option" where
  "parse_line line = (let ruleSpec = split_on (CHR '' '') line in
     if ruleSpec ! 0 = ''-N'' then None
     else if ruleSpec ! 0 = ''-A'' then
       (if length ruleSpec < 2 then Some (Inl ()) else Some (Inr (FromRuleSpec (drop 2 ruleSpec))))
     else Some (Inr (FromRuleSpec ruleSpec)))"

fun parse_lines :: "string list \<Rightarrow> Rule list result" where
  "parse_lines [] = Inr []"
| "parse_lines (line # lines) = (case parse_line line of
     None \<Rightarrow> parse_lines lines
   | Some (Inl _) \<Rightarrow> Inl (Sentinel ''panic'')
   | Some (Inr r) \<Rightarrow> (case parse_lines lines of Inl e \<Rightarrow> Inl e | Inr rs \<Rightarrow> Inr (r # rs)))"

definition List :: "'k ipt \<Rightarrow> TableType \<Rightarrow> string \<Rightarrow> 'k \<Rightarrow> Rule list result" where
  "List I table chain k = (case ipt_List I (tableTypeToStr table) chain k of
      Inl e \<Rightarrow> Inl (Wrapped ''error listing the rules'' e)
    | Inr existingRules \<Rightarrow> parse_lines existingRules)"

definition Insert :: "'k ipt \<Rightarrow> TableType \<Rightarrow> string \<Rightarrow> int \<Rightarrow> Rule \<Rightarrow> 'k \<Rightarrow> 'k \<times> err option" where
  "Insert I table chain pos rule k = (if Action rule = RuleActionSelfSNAT then (k, None)
     else apsnd (wrap ''Insert failed'') (ipt_Insert I (tableTypeToStr table) chain pos (ToRuleSpec rule) k))"

definition Append :: "'k ipt \<Rightarrow> TableType \<Rightarrow> string \<Rightarrow> Rule \<Rightarrow> 'k \<Rightarrow> 'k \<times> err option" where
  "Append I table chain rule k = (if Action rule = RuleActionSelfSNAT then (k, None)
     else apsnd (wrap ''Append failed'') (ipt_Append I (tableTypeToStr table) chain (ToRuleSpec rule) k))"

definition iptDriver :: "'k ipt \<Rightarrow> 'k pfDriver" where
  "iptDriver I = \<lparr>pd_GetMSSClampTypes = (TableTypeRoute, ChainTypeRoute), pd_ChainExists = ChainExists I,
     pd_CreateIPHookChainIfNotExists = CreateIPHookChainIfNotExists I,
     pd_CreateChainIfNotExists = ipt_CreateChainIfNotExists I, pd_DeleteIPHookChain = DeleteIPHookChain I,
     pd_DeleteChain = DeleteChain I, pd_ClearChain = ClearChain I, pd_Delete = Delete I,
     pd_AppendUnique = AppendUnique I, pd_List = List I, pd_Append = Append I, pd_Insert = Insert I\<rparr>"

section \<open>Parsing what was printed\<close>

text \<open>
  The rules that a specification can express: an unset MSS clamp has no value and a set one belongs to a TCPMSS rule,
  which has no protocol of its own; only a jump names a chain, which is not called like a target; a mark has no
  slash; the action and the protocol are supported by iptables.
\<close>

definition canonical :: "Rule \<Rightarrow> bool" where
  "canonical r \<longleftrightarrow>
     Action r \<in> set [RuleActionJump, RuleActionAccept, RuleActionMss, RuleActionMark, RuleActionSNAT, RuleActionDNAT] \<and>
     Proto r \<in> set [RuleProtoUndefined, RuleProtoAll, RuleProtoTCP, RuleProtoUDP, RuleProtoICMP] \<and>
     ClampType r \<in> set [UndefinedMSS, ToPMTU, ToValue] \<and>
     (ClampType r \<noteq> UndefinedMSS \<longrightarrow> Action r = RuleActionMss) \<and> (ClampType r \<noteq> ToValue \<longrightarrow> MssValue r = []) \<and>
     (Action r = RuleActionMss \<longrightarrow> Proto r = RuleProtoUndefined) \<and>
     (if Action r = RuleActionJump then parseAction (TargetChain r) = RuleActionJump else TargetChain r = []) \<and>
     CHR ''/'' \<notin> set (MarkValue r)"

lemmas term_simps = parseNextTerm_def parseRuleMatch_def Let_def

lemma spec_loop_proto:
  assumes "p \<in> set [RuleProtoUndefined, RuleProtoAll, RuleProtoTCP, RuleProtoUDP, RuleProtoICMP]" "Proto r = 0"
  shows "spec_loop (protoToRuleSpec p @ ts) r = spec_loop ts (r\<lparr>Proto := p\<rparr>)"
  using assms by (cases r) (auto simp: protoToRuleSpec_def parseProtocol_def term_simps pf_consts)

lemma spec_loop_flags:
  "SrcCIDR r = [] \<Longrightarrow> spec_loop (flag ''-s'' v @ ts) r = spec_loop ts (r\<lparr>SrcCIDR := v\<rparr>)"
  "DestCIDR r = [] \<Longrightarrow> spec_loop (flag ''-d'' v @ ts) r = spec_loop ts (r\<lparr>DestCIDR := v\<rparr>)"
  "OutInterface r = [] \<Longrightarrow> spec_loop (flag ''-o'' v @ ts) r = spec_loop ts (r\<lparr>OutInterface := v\<rparr>)"
  "InInterface r = [] \<Longrightarrow> spec_loop (flag ''-i'' v @ ts) r = spec_loop ts (r\<lparr>InInterface := v\<rparr>)"
  "DPort r = [] \<Longrightarrow> spec_loop (flag ''--dport'' v @ ts) r = spec_loop ts (r\<lparr>DPort := v\<rparr>)"
  "SnatCIDR r = [] \<Longrightarrow> spec_loop (flag ''--to-source'' v @ ts) r = spec_loop ts (r\<lparr>SnatCIDR := v\<rparr>)"
  "DnatCIDR r = [] \<Longrightarrow> spec_loop (flag ''--to-destination'' v @ ts) r = spec_loop ts (r\<lparr>DnatCIDR := v\<rparr>)"
  by (cases r; simp add: flag_def term_simps)+

lemma parseMark_slash: "CHR ''/'' \<notin> set v \<Longrightarrow> parseMark (v @ CHR ''/'' # v) = v"
  by (simp add: parseMark_def cut_append)

lemma spec_loop_sets:
  "SrcSetName r = [] \<Longrightarrow> DestSetName r = [] \<Longrightarrow>
   spec_loop (setToRuleSpec s d @ ts) r = spec_loop ts (r\<lparr>SrcSetName := s, DestSetName := d\<rparr>)"
  by (cases r) (simp add: setToRuleSpec_def term_simps)

lemma spec_loop_mark:
  "CHR ''/'' \<notin> set v \<Longrightarrow> MarkValue r = [] \<Longrightarrow>
   spec_loop ((if v \<noteq> [] \<and> b then markToRuleSpec v else []) @ ts) r = spec_loop ts (r\<lparr>MarkValue := if b then v else []\<rparr>)"
  by (cases r) (simp add: markToRuleSpec_def term_simps parseMark_slash)

lemma spec_loop_set_mark:
  "CHR ''/'' \<notin> set v \<Longrightarrow> MarkValue r = (if b then [] else v) \<Longrightarrow>
   spec_loop (if v \<noteq> [] \<and> b then [''--set-mark'', v @ ''/'' @ v] else []) r = r\<lparr>MarkValue := v\<rparr>"
  by (cases r) (simp add: term_simps parseMark_slash)

lemma spec_loop_target:
  assumes "TargetChain r = []"
    "a \<in> set [RuleActionJump, RuleActionAccept, RuleActionMss, RuleActionMark, RuleActionSNAT, RuleActionDNAT]"
    "if a = RuleActionJump then parseAction tc = RuleActionJump else tc = []"
  shows "spec_loop ([''-j'', if a = RuleActionJump then tc else ruleActionToStr a] @ ts) r =
    spec_loop ts (r\<lparr>Action := a, TargetChain := tc\<rparr>)"
proof -
  have "parseAction (ruleActionToStr a) = a" if "a \<noteq> RuleActionJump"
    using assms(2) that by (auto simp: parseAction_def ruleActionToStr_def pf_consts)
  with assms show ?thesis by (cases r) (auto simp: term_simps split: if_split_asm)
qed

lemma spec_loop_mss:
  assumes "ClampType r = 0" "MssValue r = []" "ct \<in> set [UndefinedMSS, ToPMTU, ToValue]" "ct \<noteq> ToValue \<longrightarrow> mv = []"
  shows "spec_loop (mssClampToRuleSpec ct mv @ ts) r =
    spec_loop ts (r\<lparr>ClampType := ct, MssValue := mv, Proto := if ct = UndefinedMSS then Proto r else RuleProtoTCP\<rparr>)"
  using assms by (cases r) (auto simp: mssClampToRuleSpec_def parseProtocol_def term_simps pf_consts)

lemma zero_rule_sel [simp]:
  "DestCIDR zero_rule = []" "SrcCIDR zero_rule = []" "SrcSetName zero_rule = []" "DestSetName zero_rule = []"
  "SnatCIDR zero_rule = []" "DnatCIDR zero_rule = []" "OutInterface zero_rule = []" "InInterface zero_rule = []"
  "TargetChain zero_rule = []" "MssValue zero_rule = []" "DPort zero_rule = []" "MarkValue zero_rule = []"
  "Action zero_rule = 0" "Proto zero_rule = 0" "ClampType zero_rule = 0"
  by (simp_all add: zero_rule_def)

lemma spec_loop_ToRuleSpec:
  assumes "canonical r"
  shows "spec_loop (ToRuleSpec r) zero_rule = r\<lparr>Proto := if ClampType r = UndefinedMSS then Proto r else RuleProtoTCP\<rparr>"
proof -
  note c = assms [unfolded canonical_def]
  have "spec_loop (ToRuleSpec r) zero_rule =
    zero_rule\<lparr>Proto := Proto r, SrcCIDR := SrcCIDR r, DestCIDR := DestCIDR r,
      MarkValue := if Action r \<noteq> RuleActionMark then MarkValue r else [], SrcSetName := SrcSetName r,
      DestSetName := DestSetName r, OutInterface := OutInterface r, InInterface := InInterface r, DPort := DPort r,
      Action := Action r, TargetChain := TargetChain r, SnatCIDR := SnatCIDR r, DnatCIDR := DnatCIDR r,
      ClampType := ClampType r, MssValue := MssValue r,
      Proto := if ClampType r = UndefinedMSS then Proto r else RuleProtoTCP, MarkValue := MarkValue r\<rparr>"
    unfolding ToRuleSpec_def
    apply (subst spec_loop_proto, use c in simp, simp)
    apply (subst spec_loop_flags(1), simp)
    apply (subst spec_loop_flags(2), simp)
    apply (subst spec_loop_mark, use c in simp, simp)
    apply (subst spec_loop_sets, simp, simp)
    apply (subst spec_loop_flags(3), simp)
    apply (subst spec_loop_flags(4), simp)
    apply (subst spec_loop_flags(5), simp)
    apply (subst spec_loop_target, simp, use c in simp, use c in simp)
    apply (subst spec_loop_flags(6), simp)
    apply (subst spec_loop_flags(7), simp)
    apply (subst spec_loop_mss, simp, simp, use c in simp, use c in simp)
    apply (subst spec_loop_set_mark, use c in simp, simp)
    apply simp
    done
  then show ?thesis by (cases r) (simp add: zero_rule_def)
qed

lemma FromRuleSpec_ToRuleSpec:
  assumes "canonical r"
  shows "FromRuleSpec (ToRuleSpec r) = r"
proof -
  have "Proto r = RuleProtoUndefined" "Action r = RuleActionMss" if "ClampType r \<noteq> UndefinedMSS"
    using assms that by (auto simp: canonical_def)
  moreover have "Proto r = RuleProtoUndefined" if "Action r = RuleActionMss" using assms that by (simp add: canonical_def)
  ultimately show ?thesis using spec_loop_ToRuleSpec [OF assms] by (cases r) (auto simp: FromRuleSpec_def Let_def)
qed

text \<open>C25: A rule that iptables can express is read back from its specification unchanged.\<close>

theorem rule_spec_roundtrip:
  assumes "canonical r"
  shows "FromRuleSpec (ToRuleSpec r) = r"
  by (rule FromRuleSpec_ToRuleSpec [OF assms])

definition example_rule :: Rule where
  "example_rule = zero_rule\<lparr>Proto := RuleProtoUDP, SrcCIDR := ''10.1.0.0/16'', DestSetName := ''SUBMARINER-REMOTECIDRS'',
     DPort := ''4800'', MarkValue := ''0xc0000'', Action := RuleActionJump, TargetChain := ''SUBMARINER-INPUT''\<rparr>"

theorem rule_spec_roundtrip_witness:
  "FromRuleSpec (ToRuleSpec example_rule) = example_rule \<and> length (ToRuleSpec example_rule) = 19"
proof
  have "canonical example_rule" by code_simp
  then show "FromRuleSpec (ToRuleSpec example_rule) = example_rule" by (rule rule_spec_roundtrip)
  show "length (ToRuleSpec example_rule) = 19" by code_simp
qed

section \<open>The driver implements chains of rules\<close>

text \<open>
  What the driver relies on. \<open>specs\<close> are the specifications in a chain and \<open>normal\<close> the ones iptables prints as
  they are. Deleting a specification that is not there is the error \<open>IsNotExist\<close>, and an error changes nothing.
\<close>

definition rule_line :: "string \<Rightarrow> string list \<Rightarrow> string" where
  "rule_line chain spec = join '' '' (''-A'' # chain # spec)"

definition only_chain ::
  "(string \<Rightarrow> string \<Rightarrow> 'k \<Rightarrow> string list list) \<Rightarrow> string \<Rightarrow> string \<Rightarrow> 'k \<Rightarrow> string list list \<Rightarrow> 'k \<Rightarrow> bool" where
  "only_chain specs t c k ss k' \<longleftrightarrow>
     specs t c k' = ss \<and> (\<forall>t' c'. (t', c') \<noteq> (t, c) \<longrightarrow> specs t' c' k' = specs t' c' k)"

definition ipt_ok :: "'k ipt \<Rightarrow> (string \<Rightarrow> string \<Rightarrow> 'k \<Rightarrow> string list list) \<Rightarrow> (string list \<Rightarrow> bool) \<Rightarrow> bool" where
  "ipt_ok I specs normal \<longleftrightarrow>
     (\<forall>t c k lines. ipt_List I t c k = Inr lines \<longrightarrow> (\<forall>s\<in>set (specs t c k). normal s) \<longrightarrow>
        CHR '' '' \<notin> set c \<and> lines = (''-N '' @ c) # map (rule_line c) (specs t c k)) \<and>
     (\<forall>t c s k k'. ipt_Append I t c s k = (k', None) \<longrightarrow> only_chain specs t c k (specs t c k @ [s]) k') \<and>
     (\<forall>t c n s k k'. ipt_Insert I t c (int (Suc n)) s k = (k', None) \<longrightarrow> n \<le> length (specs t c k) \<longrightarrow>
        only_chain specs t c k (take n (specs t c k) @ s # drop n (specs t c k)) k') \<and>
     (\<forall>t c s k k'. ipt_Delete I t c s k = (k', None) \<longrightarrow> only_chain specs t c k (remove1 s (specs t c k)) k') \<and>
     (\<forall>t c s k k' e. ipt_Delete I t c s k = (k', Some e) \<longrightarrow>
        (\<forall>t' c'. specs t' c' k' = specs t' c' k) \<and> (ipt_IsNotExist I e \<longrightarrow> s \<notin> set (specs t c k))) \<and>
     (\<forall>s. normal s \<longrightarrow> (\<forall>a\<in>set s. CHR '' '' \<notin> set a))"

text \<open>
  Every specification in the kernel is as iptables prints it, and none that is not ours reads back as a rule of ours:
  the driver compares rules, not specifications.
\<close>

definition ipt_supported :: "(string list \<Rightarrow> bool) \<Rightarrow> Rule \<Rightarrow> bool" where
  "ipt_supported normal r \<longleftrightarrow> canonical r \<and> normal (ToRuleSpec r)"

definition ipt_inv :: "(string \<Rightarrow> string \<Rightarrow> 'k \<Rightarrow> string list list) \<Rightarrow> (string list \<Rightarrow> bool) \<Rightarrow> 'k \<Rightarrow> bool" where
  "ipt_inv specs normal k \<longleftrightarrow> (\<forall>t c. \<forall>s\<in>set (specs t c k).
     normal s \<and> (\<forall>r. ipt_supported normal r \<longrightarrow> FromRuleSpec s = r \<longrightarrow> s = ToRuleSpec r))"

definition ipt_chain :: "(string \<Rightarrow> string \<Rightarrow> 'k \<Rightarrow> string list list) \<Rightarrow> TableType \<Rightarrow> string \<Rightarrow> 'k \<Rightarrow> Rule list" where
  "ipt_chain specs t c k = map FromRuleSpec (specs (tableTypeToStr t) c k)"

lemma ipt_okD:
  assumes "ipt_ok I specs normal"
  shows "ipt_List I t c k = Inr lines \<Longrightarrow> \<forall>s\<in>set (specs t c k). normal s \<Longrightarrow>
      CHR '' '' \<notin> set c \<and> lines = (''-N '' @ c) # map (rule_line c) (specs t c k)"
    and "ipt_Append I t c s k = (k', None) \<Longrightarrow> only_chain specs t c k (specs t c k @ [s]) k'"
    and "ipt_Insert I t c (int (Suc n)) s k = (k', None) \<Longrightarrow> n \<le> length (specs t c k) \<Longrightarrow>
      only_chain specs t c k (take n (specs t c k) @ s # drop n (specs t c k)) k'"
    and "ipt_Delete I t c s k = (k', None) \<Longrightarrow> only_chain specs t c k (remove1 s (specs t c k)) k'"
    and "ipt_Delete I t c s k = (k', Some e) \<Longrightarrow> specs t' c' k' = specs t' c' k"
    and "ipt_Delete I t c s k = (k', Some e) \<Longrightarrow> ipt_IsNotExist I e \<Longrightarrow> s \<notin> set (specs t c k)"
    and "normal s \<Longrightarrow> \<forall>a\<in>set s. CHR '' '' \<notin> set a"
  using assms unfolding ipt_ok_def by (simp_all del: of_nat_Suc)

lemma parse_rule_line:
  assumes "CHR '' '' \<notin> set c" "\<forall>a\<in>set s. CHR '' '' \<notin> set a"
  shows "parse_line (rule_line c s) = Some (Inr (FromRuleSpec s))"
proof -
  have "split_on (CHR '' '') (rule_line c s) = ''-A'' # c # s"
    unfolding rule_line_def using assms by (intro split_on_join) auto
  then show ?thesis by (simp add: parse_line_def)
qed

lemma parse_rule_lines:
  assumes "CHR '' '' \<notin> set c"
  shows "\<forall>s\<in>set ss. \<forall>a\<in>set s. CHR '' '' \<notin> set a \<Longrightarrow> parse_lines (map (rule_line c) ss) = Inr (map FromRuleSpec ss)"
  by (induction ss) (auto simp: parse_rule_line [OF assms])

lemma parse_new_line: "parse_line (''-N '' @ c) = None"
proof -
  have "split_on (CHR '' '') (''-N'' @ CHR '' '' # c) = ''-N'' # split_on (CHR '' '') c" by (rule split_on_append) simp
  then show ?thesis by (simp add: parse_line_def)
qed

lemma ipt_inv_chain:
  assumes "ipt_inv specs normal k" "ipt_supported normal r" "s \<in> set (specs t c k)"
  shows "FromRuleSpec s = r \<longleftrightarrow> s = ToRuleSpec r"
  using assms by (auto simp: ipt_inv_def ipt_supported_def FromRuleSpec_ToRuleSpec)

lemma ipt_inv_only:
  assumes "ipt_inv specs normal k" "only_chain specs t c k ss k'"
    "\<forall>s\<in>set ss. s \<in> set (specs t c k) \<or> (\<exists>r. ipt_supported normal r \<and> s = ToRuleSpec r)"
  shows "ipt_inv specs normal k'"
proof -
  have "normal s \<and> (\<forall>r. ipt_supported normal r \<longrightarrow> FromRuleSpec s = r \<longrightarrow> s = ToRuleSpec r)"
    if "s \<in> set (specs t' c' k')" for t' c' s
  proof (cases "(t', c') = (t, c)")
    case False
    with assms that show ?thesis by (auto simp: only_chain_def ipt_inv_def)
  next
    case True
    with assms(2) that have "s \<in> set ss" by (simp add: only_chain_def)
    with assms(3) consider "s \<in> set (specs t c k)" | r where "ipt_supported normal r" "s = ToRuleSpec r" by blast
    then show ?thesis
      using assms(1) by cases (auto simp: ipt_inv_def ipt_supported_def FromRuleSpec_ToRuleSpec)
  qed
  then show ?thesis by (simp add: ipt_inv_def)
qed

lemma map_remove1_spec:
  "\<forall>s\<in>set ss. f s = r \<longleftrightarrow> s = u \<Longrightarrow> map f (remove1 u ss) = remove1 r (map f ss)"
  by (induction ss) auto

lemma ipt_chain_only:
  assumes "only_chain specs (tableTypeToStr t) c k ss k'"
  shows "ipt_chain specs t c k' = map FromRuleSpec ss"
    "c' \<noteq> c \<Longrightarrow> ipt_chain specs t' c' k' = ipt_chain specs t' c' k"
  using assms by (auto simp: only_chain_def ipt_chain_def)

lemma supported_action: "ipt_supported normal r \<Longrightarrow> Action r \<noteq> RuleActionSelfSNAT"
  by (auto simp: ipt_supported_def canonical_def pf_consts)

text \<open>The iptables driver keeps the contract of the adapter.\<close>

lemma iptables_chain_driver:
  assumes ok: "ipt_ok I specs normal"
  shows "chain_driver (iptDriver I) (ipt_inv specs normal) (ipt_chain specs) (ipt_supported normal)"
proof
  fix k t c rs assume k: "ipt_inv specs normal k" and l: "pd_List (iptDriver I) t c k = Inr rs"
  have "\<forall>s\<in>set (specs (tableTypeToStr t) c k). normal s" using k by (auto simp: ipt_inv_def)
  moreover from this have "\<forall>s\<in>set (specs (tableTypeToStr t) c k). \<forall>a\<in>set s. CHR '' '' \<notin> set a"
    using ipt_okD(7) [OF ok] by blast
  moreover from l obtain lines where "ipt_List I (tableTypeToStr t) c k = Inr lines" "parse_lines lines = Inr rs"
    by (auto simp: iptDriver_def List_def split: sum.split_asm)
  moreover from calculation ipt_okD(1) [OF ok]
  have "lines = (''-N '' @ c) # map (rule_line c) (specs (tableTypeToStr t) c k)" "CHR '' '' \<notin> set c" by blast+
  ultimately show "rs = ipt_chain specs t c k"
    using parse_rule_lines by (simp add: parse_new_line ipt_chain_def del: append_Cons append_Nil)
next
  fix k r t c k' assume k: "ipt_inv specs normal k" and r: "ipt_supported normal r"
    and a: "pd_Append (iptDriver I) t c r k = (k', None)"
  from a supported_action [OF r] have "ipt_Append I (tableTypeToStr t) c (ToRuleSpec r) k = (k', None)"
    by (auto simp: iptDriver_def Append_def apsnd_def map_prod_def split: prod.split_asm)
  note o = ipt_okD(2) [OF ok this]
  from ipt_inv_only [OF k o] ipt_chain_only [OF o] r
  show "ipt_inv specs normal k' \<and> ipt_chain specs t c k' = ipt_chain specs t c k @ [r] \<and>
      (\<forall>t' c'. c' \<noteq> c \<longrightarrow> ipt_chain specs t' c' k' = ipt_chain specs t' c' k)"
    by (auto simp: ipt_chain_def ipt_supported_def FromRuleSpec_ToRuleSpec)
next
  fix k r n t c k' assume k: "ipt_inv specs normal k" and r: "ipt_supported normal r"
    and n: "n \<le> length (ipt_chain specs t c k)" and a: "pd_Insert (iptDriver I) t c (int (Suc n)) r k = (k', None)"
  from a supported_action [OF r] have "ipt_Insert I (tableTypeToStr t) c (int (Suc n)) (ToRuleSpec r) k = (k', None)"
    by (auto simp: iptDriver_def Insert_def apsnd_def map_prod_def split: prod.split_asm)
  from ipt_okD(3) [OF ok this] n have o: "only_chain specs (tableTypeToStr t) c k
      (take n (specs (tableTypeToStr t) c k) @ ToRuleSpec r # drop n (specs (tableTypeToStr t) c k)) k'"
    by (simp add: ipt_chain_def)
  from ipt_inv_only [OF k o] ipt_chain_only [OF o] r
  show "ipt_inv specs normal k' \<and>
      ipt_chain specs t c k' = take n (ipt_chain specs t c k) @ r # drop n (ipt_chain specs t c k) \<and>
      (\<forall>t' c'. c' \<noteq> c \<longrightarrow> ipt_chain specs t' c' k' = ipt_chain specs t' c' k)"
    by (auto simp: ipt_chain_def ipt_supported_def FromRuleSpec_ToRuleSpec take_map drop_map dest: in_set_takeD in_set_dropD)
next
  fix k r t c k' assume k: "ipt_inv specs normal k" and r: "ipt_supported normal r"
    and a: "pd_Delete (iptDriver I) t c r k = (k', None)"
  let ?ss = "specs (tableTypeToStr t) c k"
  obtain e where e: "ipt_Delete I (tableTypeToStr t) c (ToRuleSpec r) k = (k', e)" "e = None \<or> ipt_IsNotExist I (the e)"
    using a supported_action [OF r] by (auto simp: iptDriver_def Delete_def split: prod.split_asm option.split_asm if_split_asm)
  have o: "only_chain specs (tableTypeToStr t) c k (remove1 (ToRuleSpec r) ?ss) k'"
  proof (cases e)
    case None
    with e ipt_okD(4) [OF ok] show ?thesis by blast
  next
    case (Some e')
    with e ipt_okD(5,6) [OF ok] have "(\<forall>t' c'. specs t' c' k' = specs t' c' k) \<and> ToRuleSpec r \<notin> set ?ss" by auto
    then show ?thesis by (simp add: only_chain_def remove1_idem)
  qed
  have "\<forall>s\<in>set ?ss. FromRuleSpec s = r \<longleftrightarrow> s = ToRuleSpec r" using ipt_inv_chain [OF k r] by blast
  moreover have "ipt_inv specs normal k'" by (rule ipt_inv_only [OF k o]) (auto dest: notin_set_remove1)
  ultimately show "ipt_inv specs normal k' \<and> ipt_chain specs t c k' = remove1 r (ipt_chain specs t c k) \<and>
      (\<forall>t' c'. c' \<noteq> c \<longrightarrow> ipt_chain specs t' c' k' = ipt_chain specs t' c' k)"
    using map_remove1_spec ipt_chain_only [OF o] by (auto simp: ipt_chain_def)
next
  fix k r t c k' e assume k: "ipt_inv specs normal k" and r: "ipt_supported normal r"
    and a: "pd_Delete (iptDriver I) t c r k = (k', Some e)"
  then obtain e' where "ipt_Delete I (tableTypeToStr t) c (ToRuleSpec r) k = (k', Some e')"
    by (auto simp: iptDriver_def Delete_def split: prod.split_asm option.split_asm if_split_asm)
  from ipt_okD(5) [OF ok this] have "specs t' c' k' = specs t' c' k" for t' c' .
  with k show "ipt_inv specs normal k' \<and> (\<forall>t' c'. ipt_chain specs t' c' k' = ipt_chain specs t' c' k)"
    by (simp add: ipt_inv_def ipt_chain_def)
qed

text \<open>A kernel whose chains exist when they are in the map; it is an instance of the assumptions.\<close>

type_synonym ref_kernel = "string \<times> string \<Rightarrow> string list list option"

definition ref_update :: "(string list list \<Rightarrow> (string list list, err) sum) \<Rightarrow> string \<Rightarrow> string \<Rightarrow> ref_kernel \<Rightarrow> ref_kernel \<times> err option" where
  "ref_update f t c k = (case k (t, c) of
      None \<Rightarrow> (k, Some (Err ''No chain by that name''))
    | Some ss \<Rightarrow> (case f ss of Inl ss' \<Rightarrow> (k((t, c) \<mapsto> ss'), None) | Inr e \<Rightarrow> (k, Some e)))"

definition no_rule :: err where "no_rule = Err ''Bad rule (does a matching rule exist in that chain?)''"

definition ref_ipt :: "ref_kernel ipt" where
  "ref_ipt = \<lparr>ipt_ChainExists = (\<lambda>t c k. Inr (k (t, c) \<noteq> None)),
     ipt_NewChain = (\<lambda>t c k. (k((t, c) \<mapsto> []), None)),
     ipt_ClearChain = (\<lambda>t c k. (k((t, c) \<mapsto> []), None)),
     ipt_DeleteChain = (\<lambda>t c k. (k((t, c) := None), None)),
     ipt_List = (\<lambda>t c k. case k (t, c) of
        Some ss \<Rightarrow> if CHR '' '' \<in> set c then Inl (Err ''bad name'') else Inr ((''-N '' @ c) # map (rule_line c) ss)
      | None \<Rightarrow> Inl (Err ''No chain by that name'')),
     ipt_Append = (\<lambda>t c s. ref_update (\<lambda>ss. Inl (ss @ [s])) t c),
     ipt_AppendUnique = (\<lambda>t c s. ref_update (\<lambda>ss. Inl (if s \<in> set ss then ss else ss @ [s])) t c),
     ipt_Insert = (\<lambda>t c pos s. ref_update (\<lambda>ss. Inl (take (nat (pos - 1)) ss @ s # drop (nat (pos - 1)) ss)) t c),
     ipt_InsertUnique = (\<lambda>t c pos s. ref_update (\<lambda>ss. Inl (if s \<in> set ss then ss
        else take (nat (pos - 1)) ss @ s # drop (nat (pos - 1)) ss)) t c),
     ipt_Delete = (\<lambda>t c s. ref_update (\<lambda>ss. if s \<in> set ss then Inl (remove1 s ss) else Inr no_rule) t c),
     ipt_IsNotExist = (\<lambda>e. e = no_rule)\<rparr>"

definition ref_specs :: "string \<Rightarrow> string \<Rightarrow> ref_kernel \<Rightarrow> string list list" where
  "ref_specs t c k = (case k (t, c) of None \<Rightarrow> [] | Some ss \<Rightarrow> ss)"

definition no_spaces :: "string list \<Rightarrow> bool" where
  "no_spaces s \<longleftrightarrow> (\<forall>a\<in>set s. CHR '' '' \<notin> set a)"

lemma ref_update_ok:
  "ref_update f t c k = (k', None) \<Longrightarrow> \<exists>ss'. f (ref_specs t c k) = Inl ss' \<and> only_chain ref_specs t c k ss' k'"
  by (auto simp: ref_update_def ref_specs_def only_chain_def split: option.split_asm sum.split_asm)

lemma ref_update_error:
  "ref_update f t c k = (k', Some e) \<Longrightarrow> k' = k \<and> (e = Err ''No chain by that name'' \<or> f (ref_specs t c k) = Inr e)"
  by (auto simp: ref_update_def ref_specs_def split: option.split_asm sum.split_asm)

lemma ref_ipt_ok: "ipt_ok ref_ipt ref_specs no_spaces"
  unfolding ipt_ok_def
proof (intro conjI allI impI)
  fix t c k lines assume "ipt_List ref_ipt t c k = Inr lines"
  then show "CHR '' '' \<notin> set c" "lines = (''-N '' @ c) # map (rule_line c) (ref_specs t c k)"
    by (auto simp: ref_ipt_def ref_specs_def split: option.split_asm if_split_asm)
next
  fix t c s k k' assume "ipt_Append ref_ipt t c s k = (k', None)"
  then show "only_chain ref_specs t c k (ref_specs t c k @ [s]) k'"
    by (auto simp: ref_ipt_def dest: ref_update_ok)
next
  fix t c n s k k' assume "ipt_Insert ref_ipt t c (int (Suc n)) s k = (k', None)"
  then show "only_chain ref_specs t c k (take n (ref_specs t c k) @ s # drop n (ref_specs t c k)) k'"
    by (auto simp: ref_ipt_def dest: ref_update_ok)
next
  fix t c s k k' assume "ipt_Delete ref_ipt t c s k = (k', None)"
  then show "only_chain ref_specs t c k (remove1 s (ref_specs t c k)) k'"
    by (auto simp: ref_ipt_def dest: ref_update_ok split: if_split_asm)
next
  fix t c s k k' e t' c' assume "ipt_Delete ref_ipt t c s k = (k', Some e)"
  then show "ref_specs t' c' k' = ref_specs t' c' k" by (auto simp: ref_ipt_def dest: ref_update_error)
next
  fix t c s k k' e assume "ipt_Delete ref_ipt t c s k = (k', Some e)" "ipt_IsNotExist ref_ipt e"
  then show "s \<notin> set (ref_specs t c k)"
    by (auto simp: ref_ipt_def no_rule_def dest!: ref_update_error split: if_split_asm)
qed (simp add: no_spaces_def)

interpretation iptables: chain_driver "iptDriver ref_ipt" "ipt_inv ref_specs no_spaces" "ipt_chain ref_specs"
  "ipt_supported no_spaces"
  by (rule iptables_chain_driver [OF ref_ipt_ok])

section \<open>Placing rules through iptables\<close>

text \<open>Prepending one rule through the iptables driver makes it the first rule of the chain, exactly once, whatever the
  chain held before; the other rules keep their order and the other chains are untouched.\<close>

theorem iptables_prepend:
  assumes "ipt_ok I specs normal" and "ipt_inv specs normal k" and "ipt_supported normal r"
    and "PrependUnique (iptDriver I) t c [r] k = (k', None)"
  shows "ipt_inv specs normal k' \<and> ipt_chain specs t c k' = r # removeAll r (ipt_chain specs t c k) \<and>
    (\<forall>t' c'. c' \<noteq> c \<longrightarrow> ipt_chain specs t' c' k' = ipt_chain specs t' c' k)"
  by (rule chain_driver.PrependUnique_one [OF iptables_chain_driver [OF assms(1)] assms(2-4)])

definition jump_to :: "string \<Rightarrow> Rule" where
  "jump_to c = zero_rule\<lparr>Action := RuleActionJump, TargetChain := c\<rparr>"

definition example_kernel :: ref_kernel where
  "example_kernel = [(''nat'', ''EGRESS'') \<mapsto> map (\<lambda>c. ToRuleSpec (jump_to c)) [''KUBE'', ''PODS''],
     (''nat'', ''POST'') \<mapsto> map (\<lambda>c. ToRuleSpec (jump_to c)) [''KUBE'', ''EGRESS'', ''EGRESS'']]"

lemma jump_to_eq [simp]: "jump_to c = jump_to d \<longleftrightarrow> c = d"
  by (auto simp: jump_to_def zero_rule_def)

lemma ipt_inv_own:
  assumes "\<And>t c s. s \<in> set (specs t c k) \<Longrightarrow> \<exists>r. ipt_supported normal r \<and> s = ToRuleSpec r"
  shows "ipt_inv specs normal k"
proof -
  have "normal s \<and> (\<forall>r. ipt_supported normal r \<longrightarrow> FromRuleSpec s = r \<longrightarrow> s = ToRuleSpec r)"
    if "s \<in> set (specs t c k)" for t c s
    using assms [OF that] by (auto simp: ipt_supported_def FromRuleSpec_ToRuleSpec)
  then show ?thesis by (simp add: ipt_inv_def)
qed

lemma example_kernel_inv: "ipt_inv ref_specs no_spaces example_kernel"
proof (rule ipt_inv_own)
  fix t c s assume "s \<in> set (ref_specs t c example_kernel)"
  then have "\<exists>c\<in>set [''KUBE'', ''PODS'', ''EGRESS'']. s = ToRuleSpec (jump_to c)"
    by (auto simp: ref_specs_def example_kernel_def split: if_split_asm)
  moreover have "\<forall>c\<in>set [''KUBE'', ''PODS'', ''EGRESS'']. ipt_supported no_spaces (jump_to c)" by code_simp
  ultimately show "\<exists>r. ipt_supported no_spaces r \<and> s = ToRuleSpec r" by blast
qed

theorem iptables_prepend_witness:
  "ipt_chain ref_specs TableTypeNAT ''POST'' example_kernel = [jump_to ''KUBE'', jump_to ''EGRESS'', jump_to ''EGRESS''] \<and>
   ipt_chain ref_specs TableTypeNAT ''POST''
     (fst (PrependUnique (iptDriver ref_ipt) TableTypeNAT ''POST'' [jump_to ''EGRESS''] example_kernel)) =
     [jump_to ''EGRESS'', jump_to ''KUBE'']"
proof
  show c: "ipt_chain ref_specs TableTypeNAT ''POST'' example_kernel = [jump_to ''KUBE'', jump_to ''EGRESS'', jump_to ''EGRESS'']"
    by code_simp
  have s: "ipt_supported no_spaces (jump_to ''EGRESS'')" by code_simp
  let ?p = "PrependUnique (iptDriver ref_ipt) TableTypeNAT ''POST'' [jump_to ''EGRESS''] example_kernel"
  have "snd ?p = None" by code_simp
  then have p: "?p = (fst ?p, None)" by (metis prod.collapse)
  have "jump_to ''EGRESS'' \<noteq> jump_to ''KUBE''" by simp
  with iptables_prepend [OF ref_ipt_ok example_kernel_inv s p] c
  show "ipt_chain ref_specs TableTypeNAT ''POST'' (fst ?p) = [jump_to ''EGRESS'', jump_to ''KUBE'']" by simp
qed

text \<open>C30: Making the rules of a chain equal to a list of distinct rules through the iptables driver: without error every
  given rule is in the chain even if stale rules could not be deleted, and if deleting a rule of the chain does not fail the chain has exactly
  the given rules, those that were there in their old order before the new ones, whatever the order in which the stale
  ones are deleted. The chain is taken to be readable and to have no rule twice, as the driver leaves it.\<close>

theorem iptables_update_rules:
  assumes "ipt_ok I specs normal" and "ipt_inv specs normal k" and "\<forall>r\<in>set rules. ipt_supported normal r"
    and "\<forall>r\<in>set (ipt_chain specs t c k). ipt_supported normal r"
    and "distinct (ipt_chain specs t c k)" and "distinct rules" and "\<And>xs. set (order xs) = set xs"
    and "UpdateChainRules (iptDriver I) order t c rules k = (k', None)"
  shows "set rules \<subseteq> set (ipt_chain specs t c k') \<and>
    ((\<forall>r k. ipt_inv specs normal k \<longrightarrow> r \<in> set (ipt_chain specs t c k) \<longrightarrow>
        snd (pd_Delete (iptDriver I) t c r k) = None) \<longrightarrow>
     ipt_chain specs t c k' = filter (\<lambda>r. r \<in> set rules) (ipt_chain specs t c k) @
       filter (\<lambda>r. r \<notin> set (ipt_chain specs t c k)) rules)"
  by (rule chain_driver.UpdateChainRules_ok [OF iptables_chain_driver [OF assms(1)] assms(2-8)])

lemma ref_delete_ok:
  assumes "ipt_inv ref_specs no_spaces k" "r \<in> set (ipt_chain ref_specs t c k)"
  shows "snd (pd_Delete (iptDriver ref_ipt) t c r k) = None"
proof -
  from assms(2) have "k (tableTypeToStr t, c) \<noteq> None"
    unfolding ipt_chain_def ref_specs_def by (cases "k (tableTypeToStr t, c)") simp_all
  then show ?thesis
    by (auto simp: iptDriver_def Delete_def ref_ipt_def ref_update_def split: option.split prod.split sum.split)
qed

theorem iptables_update_rules_witness:
  "ipt_chain ref_specs TableTypeNAT ''EGRESS''
     (fst (UpdateChainRules (iptDriver ref_ipt) rev TableTypeNAT ''EGRESS'' [jump_to ''MORE'', jump_to ''PODS''] example_kernel)) =
   [jump_to ''PODS'', jump_to ''MORE'']"
proof -
  let ?r = "[jump_to ''MORE'', jump_to ''PODS'']"
  let ?u = "UpdateChainRules (iptDriver ref_ipt) rev TableTypeNAT ''EGRESS'' ?r example_kernel"
  have s: "\<forall>r\<in>set ?r. ipt_supported no_spaces r"
    "\<forall>r\<in>set (ipt_chain ref_specs TableTypeNAT ''EGRESS'' example_kernel). ipt_supported no_spaces r"
    "distinct (ipt_chain ref_specs TableTypeNAT ''EGRESS'' example_kernel)" "distinct ?r" by code_simp+
  have "snd ?u = None" by code_simp
  then have u: "?u = (fst ?u, None)" by (metis prod.collapse)
  have c: "ipt_chain ref_specs TableTypeNAT ''EGRESS'' example_kernel = [jump_to ''KUBE'', jump_to ''PODS'']" by code_simp
  from iptables_update_rules [OF ref_ipt_ok example_kernel_inv s set_rev u] ref_delete_ok show ?thesis by (simp add: c)
qed

text \<open>Several rules are not always prepended: with a foreign rule in front of the second one, and the first one missing,
  the second one stays behind the foreign rule, since its position was listed before the first one was inserted.\<close>

theorem prepend_several_misplaced:
  assumes "ipt_ok I specs normal" and "ipt_inv specs normal k" and "ipt_supported normal a"
    and "ipt_chain specs t c k = [x, b]" and "a \<noteq> x" and "a \<noteq> b" and "x \<noteq> b"
    and "PrependUnique (iptDriver I) t c [a, b] k = (k', None)"
  shows "ipt_chain specs t c k' = [a, x, b]"
  by (rule chain_driver.PrependUnique_stale [OF iptables_chain_driver [OF assms(1)] assms(2-8)])

theorem prepend_several_misplaced_witness:
  "ipt_chain ref_specs TableTypeNAT ''EGRESS''
     (fst (PrependUnique (iptDriver ref_ipt) TableTypeNAT ''EGRESS'' [jump_to ''MARKS'', jump_to ''PODS''] example_kernel)) =
   [jump_to ''MARKS'', jump_to ''KUBE'', jump_to ''PODS'']"
proof -
  let ?p = "PrependUnique (iptDriver ref_ipt) TableTypeNAT ''EGRESS'' [jump_to ''MARKS'', jump_to ''PODS''] example_kernel"
  have s: "ipt_supported no_spaces (jump_to ''MARKS'')" by code_simp
  have c: "ipt_chain ref_specs TableTypeNAT ''EGRESS'' example_kernel = [jump_to ''KUBE'', jump_to ''PODS'']" by code_simp
  have d: "jump_to ''MARKS'' \<noteq> jump_to ''KUBE''" "jump_to ''MARKS'' \<noteq> jump_to ''PODS''" "jump_to ''KUBE'' \<noteq> jump_to ''PODS''"
    by simp_all
  have "snd ?p = None" by code_simp
  then have p: "?p = (fst ?p, None)" by (metis prod.collapse)
  show ?thesis by (rule prepend_several_misplaced [OF ref_ipt_ok example_kernel_inv s c d p])
qed

end
