(* ===== verification/NFTables.thy ===== *)
theory NFTables
  imports PacketFilter "HOL-Library.Monad_Syntax"
begin

text \<open>
  \<open>pkg/packetfilter/nftables\<close>: rules as nftables rule specifications, the serialization of a rule in the comment of
  the nftables rule, and the nftables driver.

  The knftables library is the record \<open>nft\<close>: it lists chains and rules and runs transactions, each a list of
  operations that take effect together or not at all. Its state \<open>'k\<close> is the table of Submariner in the kernel.
\<close>

section \<open>Rule specifications\<close>

definition serializedVersion :: string where "serializedVersion = ''1.0''"
definition ipv6Family :: string where "ipv6Family = ''ip6''"

definition nft_ruleActionToStr :: "RuleAction \<Rightarrow> string list" where
  "nft_ruleActionToStr a = (if a = RuleActionAccept then [''accept'']
     else if a = RuleActionMss then [''tcp'', ''option'', ''maxseg'']
     else if a = RuleActionMark then [''meta'', ''mark''] else if a = RuleActionSNAT then [''snat'']
     else if a = RuleActionDNAT then [''dnat''] else if a = RuleActionJump then [''jump''] else [])"

definition addr_prefix :: "bool \<Rightarrow> string" where
  "addr_prefix isIPv6 = (if isIPv6 then ipv6Family else ''ip'')"

definition nft_protoToRuleSpec :: "RuleProto \<Rightarrow> string \<Rightarrow> bool \<Rightarrow> string list" where
  "nft_protoToRuleSpec proto dPort isIPv6 =
     (let addrFamily = addr_prefix isIPv6; protoKW = (if isIPv6 then ''nexthdr'' else ''protocol'') in
      if proto = RuleProtoUDP
      then [addrFamily, protoKW, ''udp''] @ (if dPort \<noteq> [] then [''udp'', ''dport'', dPort] else [])
      else if proto = RuleProtoTCP
      then [addrFamily, protoKW, ''tcp''] @ (if dPort \<noteq> [] then [''tcp'', ''dport'', dPort] else [])
      else if proto = RuleProtoICMP
      then [addrFamily, protoKW, if isIPv6 then ''icmpv6'' else ''icmp'']
      else [])"

definition nft_mssClampToRuleSpec :: "MssClampType \<Rightarrow> string \<Rightarrow> string list" where
  "nft_mssClampToRuleSpec clampType mssValue =
     (if clampType = ToPMTU then [''size'', ''set'', ''rt'', ''mtu'']
      else if clampType = ToValue then [''size'', ''set'', mssValue] else [])"

definition nft_setToRuleSpec :: "string \<Rightarrow> string \<Rightarrow> bool \<Rightarrow> string list" where
  "nft_setToRuleSpec srcSetName destSetName isIPv6 =
     (if srcSetName \<noteq> [] then [addr_prefix isIPv6, ''saddr'', ''@'' @ srcSetName] else []) @
     (if destSetName \<noteq> [] then [addr_prefix isIPv6, ''daddr'', ''@'' @ destSetName] else [])"

definition toNftRuleSpec :: "Rule \<Rightarrow> bool \<Rightarrow> string" where
  "toNftRuleSpec rule isIPv6 = (let setPrefix = addr_prefix isIPv6 in join '' '' (
     nft_protoToRuleSpec (Proto rule) (DPort rule) isIPv6 @
     (if SrcCIDR rule \<noteq> [] then [setPrefix, ''saddr'', SrcCIDR rule] else []) @
     (if DestCIDR rule \<noteq> [] then [setPrefix, ''daddr'', DestCIDR rule] else []) @
     (if MarkValue rule \<noteq> [] \<and> Action rule \<noteq> RuleActionMark
      then [''meta'', ''mark'', ''&'', MarkValue rule, ''=='', MarkValue rule] else []) @
     nft_setToRuleSpec (SrcSetName rule) (DestSetName rule) isIPv6 @
     (if OutInterface rule \<noteq> [] then [''oifname'', OutInterface rule] else []) @
     (if InInterface rule \<noteq> [] then [''iifname'', InInterface rule] else []) @
     (if Action rule = RuleActionMss then [''tcp'', ''flags'', ''syn / syn,rst''] else []) @
     [''counter''] @
     (if Action rule = RuleActionSelfSNAT then [''snat'', ''to'', setPrefix, ''saddr'']
      else nft_ruleActionToStr (Action rule)) @
     (if Action rule = RuleActionJump then [TargetChain rule] else []) @
     (if SnatCIDR rule \<noteq> [] then [''to'', SnatCIDR rule] else []) @
     (if DnatCIDR rule \<noteq> [] then [''to'', DnatCIDR rule] else []) @
     nft_mssClampToRuleSpec (ClampType rule) (MssValue rule) @
     (if MarkValue rule \<noteq> [] \<and> Action rule = RuleActionMark
      then [''set'', ''mark'', ''|'', MarkValue rule] else [])))"

section \<open>Serialization\<close>

definition writeString :: "string \<Rightarrow> string" where "writeString s = s @ '' ''"

definition writeUint32 :: "32 word \<Rightarrow> string" where "writeUint32 i = writeString (dec_of_nat (unat i))"

definition SerializeRule :: "Rule \<Rightarrow> string" where
  "SerializeRule rule = serializedVersion @
     writeUint32 (Action rule) @ writeUint32 (ClampType rule) @ writeUint32 (Proto rule) @
     writeString (SrcSetName rule) @ writeString (DestSetName rule) @ writeString (SrcCIDR rule) @
     writeString (DestCIDR rule) @ writeString (SnatCIDR rule) @ writeString (DnatCIDR rule) @
     writeString (OutInterface rule) @ writeString (InInterface rule) @ writeString (DPort rule) @
     writeString (TargetChain rule) @ writeString (MssValue rule) @ writeString (MarkValue rule)"

text \<open>Reading from the buffer gives the value and the rest of the buffer; None is a panic.\<close>

definition mustReadString :: "string \<Rightarrow> (string \<times> string) option" where
  "mustReadString buf = (case cut (CHR '' '') buf of (b, rest, found) \<Rightarrow> if found then Some (b, rest) else None)"

definition mustReadUint32 :: "string \<Rightarrow> (32 word \<times> string) option" where
  "mustReadUint32 buf = do {
     (s, rest) \<leftarrow> mustReadString buf;
     u \<leftarrow> parse_uint 32 s;
     Some (word_of_nat u, rest)
   }"

definition read_rule :: "string \<Rightarrow> Rule option" where
  "read_rule buf = do {
     (action, buf) \<leftarrow> mustReadUint32 buf;
     (clampType, buf) \<leftarrow> mustReadUint32 buf;
     (proto, buf) \<leftarrow> mustReadUint32 buf;
     (srcSetName, buf) \<leftarrow> mustReadString buf;
     (destSetName, buf) \<leftarrow> mustReadString buf;
     (srcCIDR, buf) \<leftarrow> mustReadString buf;
     (destCIDR, buf) \<leftarrow> mustReadString buf;
     (snatCIDR, buf) \<leftarrow> mustReadString buf;
     (dnatCIDR, buf) \<leftarrow> mustReadString buf;
     (outInterface, buf) \<leftarrow> mustReadString buf;
     (inInterface, buf) \<leftarrow> mustReadString buf;
     (dPort, buf) \<leftarrow> mustReadString buf;
     (targetChain, buf) \<leftarrow> mustReadString buf;
     (mssValue, buf) \<leftarrow> mustReadString buf;
     (markValue, buf) \<leftarrow> mustReadString buf;
     Some \<lparr>DestCIDR = destCIDR, SrcCIDR = srcCIDR, SrcSetName = srcSetName, DestSetName = destSetName,
       SnatCIDR = snatCIDR, DnatCIDR = dnatCIDR, OutInterface = outInterface, InInterface = inInterface,
       TargetChain = targetChain, MssValue = mssValue, DPort = dPort, MarkValue = markValue,
       Action = action, Proto = proto, ClampType = clampType\<rparr>
   }"

text \<open>
  The version is read into a buffer of three bytes; a shorter string leaves bytes zero, and the version does not
  match.
\<close>

definition DeserializeRule :: "string \<Rightarrow> Rule result" where
  "DeserializeRule s = (if s = [] then Inl (Err ''error deserializing rule'')
     else if take 3 s \<noteq> serializedVersion then Inl (Err ''unable to deserialize rule: invalid version'')
     else (case read_rule (drop 3 s) of None \<Rightarrow> Inl (Sentinel ''panic'') | Some r \<Rightarrow> Inr r))"

section \<open>The driver\<close>

record knftRule =
  kr_Chain :: string
  kr_Rule :: string
  kr_Comment :: "string option"
  kr_Index :: "int option"
  kr_Handle :: "int option"

record knftChain =
  kc_Name :: string
  kc_Type :: "string option"
  kc_Hook :: "string option"
  kc_Priority :: "string option"

datatype nftOp =
    TxAddTable string
  | TxFlushTable
  | TxDeleteTable
  | TxAddChain knftChain
  | TxFlushChain string
  | TxDeleteChain string
  | TxAddRule knftRule
  | TxInsertRule knftRule
  | TxDeleteRule string "int option"

record 'k nft =
  nft_ListChains :: "'k \<Rightarrow> string list result"
  nft_ListRules :: "string \<Rightarrow> 'k \<Rightarrow> knftRule list result"
  nft_Run :: "nftOp list \<Rightarrow> 'k \<Rightarrow> 'k \<times> err option"
  nft_IsNotFound :: "err \<Rightarrow> bool"

definition iphookChainTypeToNftablesType :: "ChainType \<Rightarrow> string" where
  "iphookChainTypeToNftablesType t = (if t = ChainTypeFilter then ''filter''
     else if t = ChainTypeRoute then ''route'' else if t = ChainTypeNAT then ''nat'' else [])"

definition iphookChainHookToNftablesHook :: "ChainHook \<Rightarrow> string" where
  "iphookChainHookToNftablesHook h = (if h = ChainHookPrerouting then ''prerouting''
     else if h = ChainHookInput then ''input'' else if h = ChainHookForward then ''forward''
     else if h = ChainHookOutput then ''output'' else if h = ChainHookPostrouting then ''postrouting'' else [])"

definition iphookChainTypeToNftablesBasicPriority :: "ChainType \<Rightarrow> string" where
  "iphookChainTypeToNftablesBasicPriority t = (if t = ChainTypeFilter then ''filter''
     else if t = ChainTypeRoute then ''mangle'' else if t = ChainTypeNAT then ''dstnat'' else [])"

definition nft_Uninstall :: "'k nft \<Rightarrow> 'k \<Rightarrow> 'k \<times> err option" where
  "nft_Uninstall N k = apsnd (wrap ''error CleanUp table'') (nft_Run N [TxFlushTable, TxDeleteTable] k)"

definition chainExists :: "'k nft \<Rightarrow> string \<Rightarrow> 'k \<Rightarrow> bool result" where
  "chainExists N chain k = (case nft_ListChains N k of
      Inl e \<Rightarrow> if \<not> nft_IsNotFound N e then Inl (Wrapped ''error listing chains'' e) else Inr False
    | Inr chainsList \<Rightarrow> Inr (chain \<in> set chainsList))"

definition newTransactionWithTable :: "nftOp list" where
  "newTransactionWithTable = [TxAddTable ''rules for submariner'']"

definition nft_CreateIPHookChainIfNotExists :: "'k nft \<Rightarrow> ChainIPHook \<Rightarrow> 'k \<Rightarrow> 'k \<times> err option" where
  "nft_CreateIPHookChainIfNotExists N chain k =
     (let chainPriority = iphookChainTypeToNftablesBasicPriority (ih_Type chain) @
            (if ih_Priority chain = ChainPriorityFirst then ''-10''
             else if ih_Priority chain = ChainPriorityMiddle then ''-5'' else []) in
      apsnd (wrap ''error creating IPHook Chain'') (nft_Run N (newTransactionWithTable @
        [TxAddChain \<lparr>kc_Name = ih_Name chain, kc_Type = Some (iphookChainTypeToNftablesType (ih_Type chain)),
           kc_Hook = Some (iphookChainHookToNftablesHook (ih_Hook chain)), kc_Priority = Some chainPriority\<rparr>]) k))"

definition nft_CreateChainIfNotExists :: "'k nft \<Rightarrow> Chain \<Rightarrow> 'k \<Rightarrow> 'k \<times> err option" where
  "nft_CreateChainIfNotExists N chain k =
     apsnd (wrap ''error creating chain'') (nft_Run N (newTransactionWithTable @
       [TxAddChain \<lparr>kc_Name = ch_Name chain, kc_Type = None, kc_Hook = None, kc_Priority = None\<rparr>]) k)"

text \<open>An error that says \<open>not found\<close> is no error when deleting.\<close>

definition ignore_not_found :: "'k nft \<Rightarrow> string \<Rightarrow> 'k \<times> err option \<Rightarrow> 'k \<times> err option" where
  "ignore_not_found N msg r = (case r of
      (k, Some e) \<Rightarrow> (k, if nft_IsNotFound N e then None else Some (Wrapped msg e))
    | (k, None) \<Rightarrow> (k, None))"

definition deleteChain :: "'k nft \<Rightarrow> string \<Rightarrow> 'k \<Rightarrow> 'k \<times> err option" where
  "deleteChain N chain k = ignore_not_found N ''error deleting chain'' (nft_Run N [TxDeleteChain chain] k)"

definition nft_ClearChain :: "'k nft \<Rightarrow> string \<Rightarrow> 'k \<Rightarrow> 'k \<times> err option" where
  "nft_ClearChain N chain k = ignore_not_found N ''error clearing chain'' (nft_Run N [TxFlushChain chain] k)"

definition comment_of :: "knftRule \<Rightarrow> string" where
  "comment_of kr = (case kr_Comment kr of None \<Rightarrow> [] | Some c \<Rightarrow> c)"

definition getNftablesRuleFromList :: "'k nft \<Rightarrow> string \<Rightarrow> Rule \<Rightarrow> 'k \<Rightarrow> knftRule option result" where
  "getNftablesRuleFromList N chain rule k = (case nft_ListRules N chain k of
      Inl e \<Rightarrow> Inl (Wrapped ''failed list rules'' e)
    | Inr existingRules \<Rightarrow> Inr (find (\<lambda>existingRule. SerializeRule rule = comment_of existingRule) existingRules))"

definition nft_Delete :: "'k nft \<Rightarrow> string \<Rightarrow> Rule \<Rightarrow> 'k \<Rightarrow> 'k \<times> err option" where
  "nft_Delete N chain rule k = (case getNftablesRuleFromList N chain rule k of
      Inl e \<Rightarrow> (k, Some (Wrapped ''error getting Nftables rules'' e))
    | Inr None \<Rightarrow> (k, None)
    | Inr (Some kRule) \<Rightarrow>
        ignore_not_found N ''error deleting rule'' (nft_Run N [TxDeleteRule chain (kr_Handle kRule)] k))"

text \<open>Rules without a comment are left out of the list.\<close>

fun deserialize_all :: "knftRule list \<Rightarrow> Rule list result" where
  "deserialize_all [] = Inr []"
| "deserialize_all (kr # krs) =
     (if comment_of kr \<noteq> [] then
        (case DeserializeRule (comment_of kr) of
           Inl e \<Rightarrow> Inl e
         | Inr r \<Rightarrow> (case deserialize_all krs of Inl e \<Rightarrow> Inl e | Inr rs \<Rightarrow> Inr (r # rs)))
      else deserialize_all krs)"

definition nft_List :: "'k nft \<Rightarrow> string \<Rightarrow> 'k \<Rightarrow> Rule list result" where
  "nft_List N chain k = (case nft_ListRules N chain k of
      Inl e \<Rightarrow> Inl (Wrapped ''failed to list rules'' e)
    | Inr existingRules \<Rightarrow> deserialize_all existingRules)"

definition insertRuleAtPosition :: "'k nft \<Rightarrow> bool \<Rightarrow> string \<Rightarrow> Rule \<Rightarrow> int \<Rightarrow> 'k \<Rightarrow> 'k \<times> err option" where
  "insertRuleAtPosition N isIPv6 chain rule pos k =
     (let knftRule = \<lparr>kr_Chain = chain, kr_Rule = toNftRuleSpec rule isIPv6, kr_Comment = Some (SerializeRule rule),
            kr_Index = (if pos > 1 then Some (pos - 2) else None), kr_Handle = None\<rparr> in
      apsnd (wrap ''error inserting rule'') (nft_Run N (newTransactionWithTable @
        [if pos = 1 then TxInsertRule knftRule else TxAddRule knftRule]) k))"

definition nft_AppendUnique :: "'k nft \<Rightarrow> bool \<Rightarrow> string \<Rightarrow> Rule \<Rightarrow> 'k \<Rightarrow> 'k \<times> err option" where
  "nft_AppendUnique N isIPv6 chain rule k = (case getNftablesRuleFromList N chain rule k of
      Inl e \<Rightarrow> (k, Some e)
    | Inr (Some _) \<Rightarrow> (k, None)
    | Inr None \<Rightarrow> insertRuleAtPosition N isIPv6 chain rule (-1) k)"

definition nftDriver :: "'k nft \<Rightarrow> bool \<Rightarrow> 'k pfDriver" where
  "nftDriver N isIPv6 = \<lparr>pd_GetMSSClampTypes = (TableTypeFilter, ChainTypeFilter),
     pd_ChainExists = (\<lambda>_. chainExists N),
     pd_CreateIPHookChainIfNotExists = nft_CreateIPHookChainIfNotExists N,
     pd_CreateChainIfNotExists = (\<lambda>_. nft_CreateChainIfNotExists N),
     pd_DeleteIPHookChain = (\<lambda>chain. deleteChain N (ih_Name chain)), pd_DeleteChain = (\<lambda>_. deleteChain N),
     pd_ClearChain = (\<lambda>_. nft_ClearChain N), pd_Delete = (\<lambda>_. nft_Delete N),
     pd_AppendUnique = (\<lambda>_. nft_AppendUnique N isIPv6), pd_List = (\<lambda>_. nft_List N),
     pd_Append = (\<lambda>_ chain rule. insertRuleAtPosition N isIPv6 chain rule (-1)),
     pd_Insert = (\<lambda>_ chain pos rule. insertRuleAtPosition N isIPv6 chain rule pos)\<rparr>"

section \<open>Reading what was written\<close>

definition clean_rule :: "Rule \<Rightarrow> bool" where
  "clean_rule r \<longleftrightarrow> list_all (\<lambda>s. CHR '' '' \<notin> set s) [DestCIDR r, SrcCIDR r, SrcSetName r, DestSetName r, SnatCIDR r,
     DnatCIDR r, OutInterface r, InInterface r, TargetChain r, MssValue r, DPort r, MarkValue r]"

lemma mustReadString_write: "CHR '' '' \<notin> set s \<Longrightarrow> mustReadString (writeString s @ rest) = Some (s, rest)"
  by (simp add: mustReadString_def writeString_def cut_append)

lemma mustReadUint32_write: "mustReadUint32 (writeUint32 i @ rest) = Some (i, rest)"
proof -
  have "unat i < 2 ^ LENGTH(32)" by (rule unsigned_less)
  then show ?thesis by (simp add: mustReadUint32_def writeUint32_def mustReadString_write)
qed

lemma read_last: "CHR '' '' \<notin> set s \<Longrightarrow> mustReadString (writeString s) = Some (s, [])"
  using mustReadString_write [of s "[]"] by simp

lemma DeserializeRule_Serialize:
  assumes "clean_rule r"
  shows "DeserializeRule (SerializeRule r) = Inr r"
proof -
  have "take 3 (SerializeRule r) = serializedVersion" "SerializeRule r \<noteq> []"
    by (simp_all add: SerializeRule_def serializedVersion_def)
  moreover have "read_rule (drop 3 (SerializeRule r)) = Some r"
    using assms unfolding clean_rule_def SerializeRule_def serializedVersion_def read_rule_def
    by (cases r) (simp add: mustReadString_write mustReadUint32_write read_last)
  ultimately show ?thesis by (simp add: DeserializeRule_def)
qed

lemma SerializeRule_inj: "clean_rule r \<Longrightarrow> clean_rule r' \<Longrightarrow> SerializeRule r = SerializeRule r' \<longleftrightarrow> r = r'"
  by (metis DeserializeRule_Serialize sum.inject(2))

text \<open>C31: A rule without spaces in its fields is read back from its serialization unchanged, whatever 32-bit values its
  enumerations have; a string of another version is rejected with an error.\<close>

theorem serialize_roundtrip:
  assumes "clean_rule r"
  shows "DeserializeRule (SerializeRule r) = Inr r \<and>
    (\<forall>s. take 3 s \<noteq> serializedVersion \<longrightarrow> (\<exists>m. DeserializeRule s = Inl (Err m)))"
  using DeserializeRule_Serialize [OF assms] by (auto simp: DeserializeRule_def)

theorem serialize_roundtrip_witness:
  "DeserializeRule (SerializeRule (zero_rule\<lparr>Action := 77, SrcCIDR := ''10.1.0.0/16'', MarkValue := ''0xc0000''\<rparr>)) =
   Inr (zero_rule\<lparr>Action := 77, SrcCIDR := ''10.1.0.0/16'', MarkValue := ''0xc0000''\<rparr>)"
proof -
  have "clean_rule (zero_rule\<lparr>Action := 77, SrcCIDR := ''10.1.0.0/16'', MarkValue := ''0xc0000''\<rparr>)" by code_simp
  from serialize_roundtrip [OF this] show ?thesis by (rule conjunct1)
qed

section \<open>The driver implements chains of rules\<close>

text \<open>
  What the driver relies on. \<open>rules\<close> are the handles and comments of a chain; a new rule gets a new handle. A rule
  is added at the end, or behind the one whose index is given, or inserted in front, and deleted by its handle;
  an error changes nothing.
\<close>

definition nft_only ::
  "(string \<Rightarrow> 'k \<Rightarrow> (int \<times> string) list) \<Rightarrow> string \<Rightarrow> 'k \<Rightarrow> (int \<times> string) list \<Rightarrow> 'k \<Rightarrow> bool" where
  "nft_only rules c k rs k' \<longleftrightarrow> rules c k' = rs \<and> (\<forall>c'. c' \<noteq> c \<longrightarrow> rules c' k' = rules c' k)"

definition nft_ok :: "'k nft \<Rightarrow> (string \<Rightarrow> 'k \<Rightarrow> (int \<times> string) list) \<Rightarrow> bool" where
  "nft_ok N rules \<longleftrightarrow>
     (\<forall>c k krs. nft_ListRules N c k = Inr krs \<longrightarrow> map (\<lambda>kr. (the (kr_Handle kr), comment_of kr)) krs = rules c k \<and>
        (\<forall>kr\<in>set krs. kr_Handle kr \<noteq> None)) \<and>
     (\<forall>t kr cm k k'. kr_Comment kr = Some cm \<longrightarrow> kr_Index kr = None \<longrightarrow> nft_Run N [TxAddTable t, TxAddRule kr] k = (k', None) \<longrightarrow>
        (\<exists>h. h \<notin> fst ` set (rules (kr_Chain kr) k) \<and> nft_only rules (kr_Chain kr) k (rules (kr_Chain kr) k @ [(h, cm)]) k')) \<and>
     (\<forall>t kr cm i k k'. kr_Comment kr = Some cm \<longrightarrow> kr_Index kr = Some (int i) \<longrightarrow> i < length (rules (kr_Chain kr) k) \<longrightarrow>
        nft_Run N [TxAddTable t, TxAddRule kr] k = (k', None) \<longrightarrow>
        (\<exists>h. h \<notin> fst ` set (rules (kr_Chain kr) k) \<and> nft_only rules (kr_Chain kr) k
           (take (Suc i) (rules (kr_Chain kr) k) @ (h, cm) # drop (Suc i) (rules (kr_Chain kr) k)) k')) \<and>
     (\<forall>t kr cm k k'. kr_Comment kr = Some cm \<longrightarrow> kr_Index kr = None \<longrightarrow> nft_Run N [TxAddTable t, TxInsertRule kr] k = (k', None) \<longrightarrow>
        (\<exists>h. h \<notin> fst ` set (rules (kr_Chain kr) k) \<and> nft_only rules (kr_Chain kr) k ((h, cm) # rules (kr_Chain kr) k) k')) \<and>
     (\<forall>c h k k'. nft_Run N [TxDeleteRule c (Some h)] k = (k', None) \<longrightarrow>
        nft_only rules c k (filter (\<lambda>r. fst r \<noteq> h) (rules c k)) k') \<and>
     (\<forall>ops k k' e. nft_Run N ops k = (k', Some e) \<longrightarrow> (\<forall>c. rules c k' = rules c k)) \<and>
     (\<forall>c h k k' e. nft_Run N [TxDeleteRule c (Some h)] k = (k', Some e) \<longrightarrow> nft_IsNotFound N e \<longrightarrow>
        h \<notin> fst ` set (rules c k))"

text \<open>The table is Submariner's own: every rule in it was serialized by the driver. The handles of a chain are distinct.\<close>

definition nft_inv :: "(string \<Rightarrow> 'k \<Rightarrow> (int \<times> string) list) \<Rightarrow> 'k \<Rightarrow> bool" where
  "nft_inv rules k \<longleftrightarrow> (\<forall>c. distinct (map fst (rules c k)) \<and>
     (\<forall>r\<in>set (rules c k). \<exists>rule. clean_rule rule \<and> snd r = SerializeRule rule))"

definition rule_of :: "string \<Rightarrow> Rule" where
  "rule_of comment = projr (DeserializeRule comment)"

definition nft_chain :: "(string \<Rightarrow> 'k \<Rightarrow> (int \<times> string) list) \<Rightarrow> TableType \<Rightarrow> string \<Rightarrow> 'k \<Rightarrow> Rule list" where
  "nft_chain rules t c k = map (rule_of \<circ> snd) (rules c k)"

lemma rule_of_Serialize [simp]: "clean_rule r \<Longrightarrow> rule_of (SerializeRule r) = r"
  by (simp add: rule_of_def DeserializeRule_Serialize)

lemma nft_inv_only:
  assumes "nft_inv rules k" "nft_only rules c k rs k'" "distinct (map fst rs)"
    "\<forall>r\<in>set rs. r \<in> set (rules c k) \<or> (\<exists>rule. clean_rule rule \<and> snd r = SerializeRule rule)"
  shows "nft_inv rules k'"
  unfolding nft_inv_def
proof (intro allI conjI ballI)
  fix c' r
  show "distinct (map fst (rules c' k'))"
    using assms by (cases "c' = c") (auto simp: nft_only_def nft_inv_def)
  show "\<exists>rule. clean_rule rule \<and> snd r = SerializeRule rule" if "r \<in> set (rules c' k')"
    using assms that by (cases "c' = c") (auto simp: nft_only_def nft_inv_def)
qed

lemma nft_chain_only:
  assumes "nft_only rules c k rs k'"
  shows "nft_chain rules t c k' = map (rule_of \<circ> snd) rs" "c' \<noteq> c \<Longrightarrow> nft_chain rules t' c' k' = nft_chain rules t' c' k"
  using assms by (auto simp: nft_only_def nft_chain_def)

lemma SerializeRule_nonempty [simp]: "SerializeRule r \<noteq> []"
  by (simp add: SerializeRule_def serializedVersion_def)

lemmas SerializeRule_nonempty' [simp] = SerializeRule_nonempty [symmetric]

lemma deserialize_all_ok:
  "\<forall>kr\<in>set krs. \<exists>r. clean_rule r \<and> comment_of kr = SerializeRule r \<Longrightarrow>
   deserialize_all krs = Inr (map (rule_of \<circ> comment_of) krs)"
  by (induction krs) (auto simp: DeserializeRule_Serialize)

lemma find_delete:
  assumes "distinct (map fst rs)" "find (\<lambda>r. snd r = cm) rs = Some x"
    "\<forall>r\<in>set rs. f (snd r) = u \<longleftrightarrow> snd r = cm"
  shows "map (f \<circ> snd) (filter (\<lambda>r. fst r \<noteq> fst x) rs) = remove1 u (map (f \<circ> snd) rs)"
  using assms
proof (induction rs)
  case (Cons r rs)
  show ?case
  proof (cases "snd r = cm")
    case True
    with Cons.prems have "x = r" "\<forall>y\<in>set rs. fst y \<noteq> fst r" by (auto simp: rev_image_eqI)
    then have "filter (\<lambda>y. fst y \<noteq> fst x) rs = rs" by (simp add: filter_id_conv)
    with True Cons.prems \<open>x = r\<close> show ?thesis by simp
  next
    case False
    with Cons.prems have "find (\<lambda>r. snd r = cm) rs = Some x" by simp
    then have "x \<in> set rs" by (auto simp: find_Some_iff)
    with Cons.prems(1) have "fst r \<noteq> fst x" by (metis distinct.simps(2) imageI list.set_map list.simps(9))
    moreover have "f (snd r) \<noteq> u" using False Cons.prems(3) by simp
    ultimately show ?thesis using False Cons by auto
  qed
qed simp

lemma nft_okD:
  assumes "nft_ok N rules"
  shows "nft_ListRules N c k = Inr krs \<Longrightarrow> map (\<lambda>kr. (the (kr_Handle kr), comment_of kr)) krs = rules c k"
    and "nft_ListRules N c k = Inr krs \<Longrightarrow> kr \<in> set krs \<Longrightarrow> kr_Handle kr \<noteq> None"
    and "nft_Run N [TxAddTable t, TxAddRule kr] k = (k', None) \<Longrightarrow> kr_Comment kr = Some cm \<Longrightarrow> kr_Index kr = None \<Longrightarrow>
      \<exists>h. h \<notin> fst ` set (rules (kr_Chain kr) k) \<and> nft_only rules (kr_Chain kr) k (rules (kr_Chain kr) k @ [(h, cm)]) k'"
    and "nft_Run N [TxAddTable t, TxAddRule kr] k = (k', None) \<Longrightarrow> kr_Comment kr = Some cm \<Longrightarrow>
      kr_Index kr = Some (int i) \<Longrightarrow> i < length (rules (kr_Chain kr) k) \<Longrightarrow>
      \<exists>h. h \<notin> fst ` set (rules (kr_Chain kr) k) \<and> nft_only rules (kr_Chain kr) k
        (take (Suc i) (rules (kr_Chain kr) k) @ (h, cm) # drop (Suc i) (rules (kr_Chain kr) k)) k'"
    and "nft_Run N [TxAddTable t, TxInsertRule kr] k = (k', None) \<Longrightarrow> kr_Comment kr = Some cm \<Longrightarrow> kr_Index kr = None \<Longrightarrow>
      \<exists>h. h \<notin> fst ` set (rules (kr_Chain kr) k) \<and> nft_only rules (kr_Chain kr) k ((h, cm) # rules (kr_Chain kr) k) k'"
    and "nft_Run N [TxDeleteRule c (Some h)] k = (k', None) \<Longrightarrow>
      nft_only rules c k (filter (\<lambda>r. fst r \<noteq> h) (rules c k)) k'"
  using assms unfolding nft_ok_def by simp_all

lemma nft_ok_error: "nft_ok N rules \<Longrightarrow> nft_Run N ops k = (k', Some e) \<Longrightarrow> rules c k' = rules c k"
  unfolding nft_ok_def by (elim conjE) meson

lemma nft_ok_not_found:
  "nft_ok N rules \<Longrightarrow> nft_Run N [TxDeleteRule c (Some h)] k = (k', Some e) \<Longrightarrow> nft_IsNotFound N e \<Longrightarrow>
   h \<notin> fst ` set (rules c k)"
  unfolding nft_ok_def by (elim conjE) meson

lemma distinct_fst_insert:
  assumes "distinct (map fst xs)" "h \<notin> fst ` set xs"
  shows "distinct (map fst (take n xs @ (h, x) # drop n xs))"
proof -
  have "distinct (map fst (take n xs) @ map fst (drop n xs))" by (metis assms(1) append_take_drop_id map_append)
  with assms(2) show ?thesis by (auto dest: in_set_takeD in_set_dropD)
qed

lemma nft_insert_ok:
  assumes ok: "nft_ok N rules" and "nft_inv rules k" "clean_rule r"
    and p: "pos = -1 \<and> n = length (rules c k) \<or> pos = int (Suc n) \<and> n \<le> length (rules c k)"
    and i: "insertRuleAtPosition N v6 c r pos k = (k', None)"
  shows "nft_inv rules k' \<and> nft_chain rules t c k' = take n (nft_chain rules t c k) @ r # drop n (nft_chain rules t c k) \<and>
    (\<forall>t' c'. c' \<noteq> c \<longrightarrow> nft_chain rules t' c' k' = nft_chain rules t' c' k)"
proof -
  let ?kr = "\<lparr>kr_Chain = c, kr_Rule = toNftRuleSpec r v6, kr_Comment = Some (SerializeRule r),
    kr_Index = (if pos > 1 then Some (pos - 2) else None), kr_Handle = None\<rparr>"
  have run: "nft_Run N [TxAddTable ''rules for submariner'', if pos = 1 then TxInsertRule ?kr else TxAddRule ?kr] k = (k', None)"
    using i by (auto simp: insertRuleAtPosition_def newTransactionWithTable_def Let_def apsnd_def map_prod_def split: prod.split_asm)
  have "\<exists>h. h \<notin> fst ` set (rules c k) \<and> nft_only rules c k (take n (rules c k) @ (h, SerializeRule r) # drop n (rules c k)) k'"
  proof -
    consider "pos = -1" "n = length (rules c k)" | "pos = 1" "n = 0"
      | m where "n = Suc m" "pos = int (Suc (Suc m))" "m < length (rules c k)" using p by (cases n) auto
    then show ?thesis
    proof cases
      case 1
      with run nft_okD(3) [OF ok, of _ ?kr k k'] show ?thesis by simp
    next
      case 2
      with run nft_okD(5) [OF ok, of _ ?kr k k'] show ?thesis by simp
    next
      case 3
      with run nft_okD(4) [OF ok, of _ ?kr k k' _ m] show ?thesis by simp
    qed
  qed
  then obtain h where h: "h \<notin> fst ` set (rules c k)"
    "nft_only rules c k (take n (rules c k) @ (h, SerializeRule r) # drop n (rules c k)) k'" by blast
  have "distinct (map fst (take n (rules c k) @ (h, SerializeRule r) # drop n (rules c k)))"
    by (rule distinct_fst_insert) (use assms(2) h(1) in \<open>simp_all add: nft_inv_def\<close>)
  then have "nft_inv rules k'"
    by (rule nft_inv_only [OF assms(2) h(2)]) (use assms(3) in \<open>auto dest: in_set_takeD in_set_dropD\<close>)
  with nft_chain_only [OF h(2)] assms(3) show ?thesis by (auto simp: nft_chain_def take_map drop_map)
qed

lemma nft_listed:
  assumes ok: "nft_ok N rules" and "nft_inv rules k" and l: "nft_ListRules N c k = Inr krs"
  shows "kr \<in> set krs \<Longrightarrow> \<exists>r. clean_rule r \<and> comment_of kr = SerializeRule r"
    "map (rule_of \<circ> comment_of) krs = nft_chain rules t c k"
proof -
  note m = nft_okD(1) [OF ok l]
  show "\<exists>r. clean_rule r \<and> comment_of kr = SerializeRule r" if "kr \<in> set krs"
  proof -
    from that have "(the (kr_Handle kr), comment_of kr) \<in> set (rules c k)" unfolding m [symmetric] by auto
    with assms(2) show ?thesis unfolding nft_inv_def by fastforce
  qed
  show "map (rule_of \<circ> comment_of) krs = nft_chain rules t c k" by (simp add: nft_chain_def m [symmetric])
qed

lemma nft_delete_ok:
  assumes ok: "nft_ok N rules" and inv: "nft_inv rules k" and r: "clean_rule r" and d: "nft_Delete N c r k = (k', None)"
  shows "nft_inv rules k' \<and> nft_chain rules t c k' = remove1 r (nft_chain rules t c k) \<and>
    (\<forall>t' c'. c' \<noteq> c \<longrightarrow> nft_chain rules t' c' k' = nft_chain rules t' c' k)"
proof -
  from d obtain krs where l: "nft_ListRules N c k = Inr krs"
    by (auto simp: nft_Delete_def getNftablesRuleFromList_def split: sum.split_asm)
  note m = nft_okD(1) [OF ok l]
  have f: "find (\<lambda>x. snd x = SerializeRule r) (rules c k) =
      map_option (\<lambda>kr. (the (kr_Handle kr), comment_of kr)) (find (\<lambda>kr. SerializeRule r = comment_of kr) krs)"
    unfolding m [symmetric] by (induction krs) auto
  have eq: "\<forall>x\<in>set (rules c k). rule_of (snd x) = r \<longleftrightarrow> snd x = SerializeRule r"
    using inv r unfolding nft_inv_def by fastforce
  show ?thesis
  proof (cases "find (\<lambda>kr. SerializeRule r = comment_of kr) krs")
    case None
    with f have "\<forall>x\<in>set (rules c k). snd x \<noteq> SerializeRule r" by (simp add: find_None_iff_all)
    with eq have "r \<notin> set (nft_chain rules t c k)" by (auto simp: nft_chain_def)
    moreover have "k' = k" using d l None by (simp add: nft_Delete_def getNftablesRuleFromList_def)
    ultimately show ?thesis using inv by (simp add: remove1_idem)
  next
    case (Some kr)
    then have "kr \<in> set krs" by (auto simp: find_Some_iff)
    with nft_okD(2) [OF ok l] obtain h where h: "kr_Handle kr = Some h" by blast
    with Some f have x: "find (\<lambda>x. snd x = SerializeRule r) (rules c k) = Some (h, comment_of kr)" by simp
    then have "h \<in> fst ` set (rules c k)" by (metis find_Some_iff fst_conv imageI nth_mem)
    with d l Some h nft_ok_not_found [OF ok] have run: "nft_Run N [TxDeleteRule c (Some h)] k = (k', None)"
      by (auto simp: nft_Delete_def getNftablesRuleFromList_def ignore_not_found_def
          split: prod.split_asm option.split_asm if_split_asm)
    note o = nft_okD(6) [OF ok run]
    have di: "distinct (map fst (rules c k))" using inv by (simp add: nft_inv_def)
    have "nft_inv rules k'" using di by (intro nft_inv_only [OF inv o]) (auto simp: distinct_map_filter)
    with find_delete [OF di x eq] nft_chain_only [OF o] show ?thesis by (auto simp: nft_chain_def)
  qed
qed

text \<open>The nftables driver keeps the contract of the adapter.\<close>

lemma nftables_chain_driver:
  assumes ok: "nft_ok N rules"
  shows "chain_driver (nftDriver N v6) (nft_inv rules) (nft_chain rules) clean_rule"
proof
  fix k t c rs assume k: "nft_inv rules k" and l: "pd_List (nftDriver N v6) t c k = Inr rs"
  from l obtain krs where krs: "nft_ListRules N c k = Inr krs" "deserialize_all krs = Inr rs"
    by (auto simp: nftDriver_def nft_List_def split: sum.split_asm)
  with nft_listed [OF ok k krs(1)] deserialize_all_ok [of krs] show "rs = nft_chain rules t c k" by auto
next
  fix k r t c k' assume "nft_inv rules k" "clean_rule r" "pd_Append (nftDriver N v6) t c r k = (k', None)"
  then show "nft_inv rules k' \<and> nft_chain rules t c k' = nft_chain rules t c k @ [r] \<and>
      (\<forall>t' c'. c' \<noteq> c \<longrightarrow> nft_chain rules t' c' k' = nft_chain rules t' c' k)"
    using nft_insert_ok [OF ok, of k r "- 1" "length (rules c k)" c v6 k' t] by (simp add: nftDriver_def nft_chain_def)
next
  fix k r n t c k' assume "nft_inv rules k" "clean_rule r" "n \<le> length (nft_chain rules t c k)"
    "pd_Insert (nftDriver N v6) t c (int (Suc n)) r k = (k', None)"
  then show "nft_inv rules k' \<and>
      nft_chain rules t c k' = take n (nft_chain rules t c k) @ r # drop n (nft_chain rules t c k) \<and>
      (\<forall>t' c'. c' \<noteq> c \<longrightarrow> nft_chain rules t' c' k' = nft_chain rules t' c' k)"
    using nft_insert_ok [OF ok, of k r "int (Suc n)" n c v6 k' t] by (simp add: nftDriver_def nft_chain_def)
next
  fix k r t c k' assume "nft_inv rules k" "clean_rule r" "pd_Delete (nftDriver N v6) t c r k = (k', None)"
  then show "nft_inv rules k' \<and> nft_chain rules t c k' = remove1 r (nft_chain rules t c k) \<and>
      (\<forall>t' c'. c' \<noteq> c \<longrightarrow> nft_chain rules t' c' k' = nft_chain rules t' c' k)"
    using nft_delete_ok [OF ok, of k r c k' t] by (simp add: nftDriver_def)
next
  fix k r t c k' e assume k: "nft_inv rules k" and d: "pd_Delete (nftDriver N v6) t c r k = (k', Some e)"
  have "rules c' k' = rules c' k" for c'
    using d nft_ok_error [OF ok]
    by (auto simp: nftDriver_def nft_Delete_def getNftablesRuleFromList_def ignore_not_found_def
        split: sum.split_asm option.split_asm prod.split_asm if_split_asm)
  with k show "nft_inv rules k' \<and> (\<forall>t' c'. nft_chain rules t' c' k' = nft_chain rules t' c' k)"
    by (simp add: nft_inv_def nft_chain_def)
qed

text \<open>A kernel table with transactions; it is an instance of the assumptions.\<close>

type_synonym ref_table = "string \<Rightarrow> (int \<times> string) list option"

definition fresh_handle :: "(int \<times> string) list \<Rightarrow> int" where
  "fresh_handle rs = foldr (\<lambda>r m. max (fst r) m) rs 0 + 1"

definition in_chain ::
  "string \<Rightarrow> ((int \<times> string) list \<Rightarrow> (int \<times> string) list option) \<Rightarrow> ref_table \<Rightarrow> ref_table option" where
  "in_chain c f k = do { rs \<leftarrow> k c; rs' \<leftarrow> f rs; Some (k(c \<mapsto> rs')) }"

fun ref_apply :: "nftOp \<Rightarrow> ref_table \<Rightarrow> ref_table option" where
  "ref_apply (TxAddTable _) k = Some k"
| "ref_apply TxFlushTable k = Some (\<lambda>c. map_option (\<lambda>_. []) (k c))"
| "ref_apply TxDeleteTable k = Some Map.empty"
| "ref_apply (TxAddChain kc) k = Some (if k (kc_Name kc) = None then k(kc_Name kc \<mapsto> []) else k)"
| "ref_apply (TxFlushChain c) k = in_chain c (\<lambda>_. Some []) k"
| "ref_apply (TxDeleteChain c) k = (if k c = None then None else Some (k(c := None)))"
| "ref_apply (TxAddRule kr) k = in_chain (kr_Chain kr) (\<lambda>rs. case kr_Index kr of
     None \<Rightarrow> Some (rs @ [(fresh_handle rs, comment_of kr)])
   | Some i \<Rightarrow> if 0 \<le> i \<and> nat i < length rs
       then Some (take (Suc (nat i)) rs @ (fresh_handle rs, comment_of kr) # drop (Suc (nat i)) rs) else None) k"
| "ref_apply (TxInsertRule kr) k = in_chain (kr_Chain kr) (\<lambda>rs. Some ((fresh_handle rs, comment_of kr) # rs)) k"
| "ref_apply (TxDeleteRule c h) k = in_chain c (\<lambda>rs. if h \<in> (Some \<circ> fst) ` set rs
     then Some (filter (\<lambda>r. Some (fst r) \<noteq> h) rs) else None) k"

fun ref_applies :: "nftOp list \<Rightarrow> ref_table \<Rightarrow> ref_table option" where
  "ref_applies [] k = Some k"
| "ref_applies (op # ops) k = do { k' \<leftarrow> ref_apply op k; ref_applies ops k' }"

definition nft_not_found :: err where "nft_not_found = Err ''No such file or directory''"

definition ref_nft :: "string list \<Rightarrow> ref_table nft" where
  "ref_nft names = \<lparr>nft_ListChains = (\<lambda>k. Inr (filter (\<lambda>c. k c \<noteq> None) names)),
     nft_ListRules = (\<lambda>c k. case k c of None \<Rightarrow> Inl nft_not_found
       | Some rs \<Rightarrow> Inr (map (\<lambda>(h, cm). \<lparr>kr_Chain = c, kr_Rule = [], kr_Comment = Some cm, kr_Index = None,
           kr_Handle = Some h\<rparr>) rs)),
     nft_Run = (\<lambda>ops k. case ref_applies ops k of None \<Rightarrow> (k, Some nft_not_found) | Some k' \<Rightarrow> (k', None)),
     nft_IsNotFound = (\<lambda>e. e = nft_not_found)\<rparr>"

definition ref_rules :: "string \<Rightarrow> ref_table \<Rightarrow> (int \<times> string) list" where
  "ref_rules c k = (case k c of None \<Rightarrow> [] | Some rs \<Rightarrow> rs)"

lemma fresh_handle: "fresh_handle rs \<notin> fst ` set rs"
proof -
  have "\<forall>r\<in>set rs. fst r \<le> foldr (\<lambda>r m. max (fst r) m) rs 0" by (induction rs) auto
  then show ?thesis by (force simp: fresh_handle_def)
qed

lemma in_chain_Some:
  "in_chain c f k = Some k' \<Longrightarrow> \<exists>rs'. f (ref_rules c k) = Some rs' \<and> nft_only ref_rules c k rs' k'"
  by (auto simp: in_chain_def nft_only_def ref_rules_def bind_eq_Some_conv)

lemma ref_run_single: "nft_Run (ref_nft names) [op] k = (k', None) \<Longrightarrow> ref_apply op k = Some k'"
  by (auto simp: ref_nft_def bind_eq_Some_conv split: option.split_asm)

lemma ref_run_table: "nft_Run (ref_nft names) [TxAddTable t, op] k = (k', None) \<Longrightarrow> ref_apply op k = Some k'"
  by (auto simp: ref_nft_def bind_eq_Some_conv split: option.split_asm)

lemma ref_nft_ok: "nft_ok (ref_nft names) ref_rules"
  unfolding nft_ok_def
proof (intro conjI allI impI)
  fix c k krs assume "nft_ListRules (ref_nft names) c k = Inr krs"
  then show "map (\<lambda>kr. (the (kr_Handle kr), comment_of kr)) krs = ref_rules c k" "\<forall>kr\<in>set krs. kr_Handle kr \<noteq> None"
    by (auto simp: ref_nft_def ref_rules_def comment_of_def comp_def split_beta split: option.split_asm)
next
  fix t kr cm k k'
  assume "kr_Comment kr = Some cm" "kr_Index kr = None" "nft_Run (ref_nft names) [TxAddTable t, TxAddRule kr] k = (k', None)"
  then show "\<exists>h. h \<notin> fst ` set (ref_rules (kr_Chain kr) k) \<and>
      nft_only ref_rules (kr_Chain kr) k (ref_rules (kr_Chain kr) k @ [(h, cm)]) k'"
    by (intro exI [of _ "fresh_handle (ref_rules (kr_Chain kr) k)"])
      (auto simp: fresh_handle comment_of_def dest!: ref_run_table in_chain_Some)
next
  fix t kr cm i k k'
  assume "kr_Comment kr = Some cm" "kr_Index kr = Some (int i)" "nft_Run (ref_nft names) [TxAddTable t, TxAddRule kr] k = (k', None)"
  then show "\<exists>h. h \<notin> fst ` set (ref_rules (kr_Chain kr) k) \<and> nft_only ref_rules (kr_Chain kr) k
      (take (Suc i) (ref_rules (kr_Chain kr) k) @ (h, cm) # drop (Suc i) (ref_rules (kr_Chain kr) k)) k'"
    by (intro exI [of _ "fresh_handle (ref_rules (kr_Chain kr) k)"])
      (auto simp: fresh_handle comment_of_def split: if_split_asm dest!: ref_run_table in_chain_Some)
next
  fix t kr cm k k'
  assume "kr_Comment kr = Some cm" "kr_Index kr = None" "nft_Run (ref_nft names) [TxAddTable t, TxInsertRule kr] k = (k', None)"
  then show "\<exists>h. h \<notin> fst ` set (ref_rules (kr_Chain kr) k) \<and>
      nft_only ref_rules (kr_Chain kr) k ((h, cm) # ref_rules (kr_Chain kr) k) k'"
    by (intro exI [of _ "fresh_handle (ref_rules (kr_Chain kr) k)"])
      (auto simp: fresh_handle comment_of_def dest!: ref_run_table in_chain_Some)
next
  fix c h k k' assume "nft_Run (ref_nft names) [TxDeleteRule c (Some h)] k = (k', None)"
  then show "nft_only ref_rules c k (filter (\<lambda>r. fst r \<noteq> h) (ref_rules c k)) k'"
    by (auto split: if_split_asm dest!: ref_run_single in_chain_Some)
next
  fix ops k k' e c assume "nft_Run (ref_nft names) ops k = (k', Some e)"
  then show "ref_rules c k' = ref_rules c k" by (auto simp: ref_nft_def split: option.split_asm)
next
  fix c h k k' e assume "nft_Run (ref_nft names) [TxDeleteRule c (Some h)] k = (k', Some e)"
  then show "h \<notin> fst ` set (ref_rules c k)"
    by (cases "k c") (force simp: ref_nft_def ref_rules_def in_chain_def split: if_split_asm)+
qed

interpretation nftables: chain_driver "nftDriver (ref_nft names) v6" "nft_inv ref_rules" "nft_chain ref_rules" clean_rule
  by (rule nftables_chain_driver [OF ref_nft_ok])

end
