(* ===== verification/ConnectionFile.thy ===== *)
theory ConnectionFile
  imports GoStd
begin

text \<open>
  \<open>pkg/cable/libreswan/connection_file.go\<close>: the file of connection stanzas that the libreswan driver keeps in
  certificate mode.

  The file system is the record \<open>confFile\<close>; \<open>cf_ReadFile\<close> gives None for a file that does not exist. \<open>strings.TrimSpace\<close>
  is modelled on the ASCII white space. A file is seen through its non-empty lines: \<open>stanza\<close> looks up the body of a
  connection, from its header to the next one.
\<close>

section \<open>Lines\<close>

definition NL :: char where "NL = CHR 0x0A"

definition is_space :: "char \<Rightarrow> bool" where
  "is_space c \<longleftrightarrow> c \<in> set [CHR 0x09, CHR 0x0A, CHR 0x0B, CHR 0x0C, CHR 0x0D, CHR '' '']"

definition trim_space :: "string \<Rightarrow> string" where
  "trim_space s = rev (dropWhile is_space (rev (dropWhile is_space s)))"

fun index_func :: "('a \<Rightarrow> bool) \<Rightarrow> 'a list \<Rightarrow> nat option" where
  "index_func P [] = None"
| "index_func P (x # xs) = (if P x then Some 0 else map_option Suc (index_func P xs))"

definition has_suffix :: "string \<Rightarrow> string \<Rightarrow> bool" where
  "has_suffix s t = has_prefix (rev s) (rev t)"

definition is_header :: "string \<Rightarrow> string \<Rightarrow> bool" where
  "is_header connName s \<longleftrightarrow> trim_space s = ''conn '' @ connName"

definition any_header :: "string \<Rightarrow> bool" where
  "any_header s \<longleftrightarrow> has_prefix (trim_space s) ''conn ''"

section \<open>The file\<close>

record 'k confFile =
  cf_ReadFile :: "'k \<Rightarrow> string option result"
  cf_WriteFile :: "string \<Rightarrow> 'k \<Rightarrow> 'k \<times> err option"
  cf_Remove :: "'k \<Rightarrow> 'k \<times> err option"
  cf_OpenAppend :: "'k \<Rightarrow> 'k \<times> err option"    \<comment> \<open>creates a missing file\<close>
  cf_WriteString :: "string \<Rightarrow> 'k \<Rightarrow> 'k \<times> err option"

definition file_lines :: "string \<Rightarrow> string list" where
  "file_lines data = filter (\<lambda>s. s \<noteq> []) (split_on NL data)"

definition RemoveConnectionStanza :: "'k confFile \<Rightarrow> string \<Rightarrow> 'k \<Rightarrow> 'k \<times> err option" where
  "RemoveConnectionStanza F connName k = (case cf_ReadFile F k of
      Inl e \<Rightarrow> (k, Some (Wrapped ''error reading file'' e))
    | Inr None \<Rightarrow> (k, None)
    | Inr (Some data) \<Rightarrow>
        (let lines = file_lines data in
         case index_func (is_header connName) lines of
           None \<Rightarrow> (k, None)
         | Some start \<Rightarrow>
             (let end' = (case index_func any_header (drop (start + 1) lines) of
                            None \<Rightarrow> length lines | Some e \<Rightarrow> e + start + 1);
                  lines' = take start lines @ drop end' lines in
              if lines' = [] then apsnd (wrap ''error removing file'') (cf_Remove F k)
              else apsnd (wrap ''error writing file'') (cf_WriteFile F (join [NL] lines' @ [NL]) k))))"

definition AppendConnectionStanza :: "'k confFile \<Rightarrow> string \<Rightarrow> string \<Rightarrow> 'k \<Rightarrow> 'k \<times> err option" where
  "AppendConnectionStanza F stanza connName k = (case RemoveConnectionStanza F connName k of
      (k1, Some e) \<Rightarrow> (k1, Some e)
    | (k1, None) \<Rightarrow>
        (case cf_OpenAppend F k1 of
           (k2, Some e) \<Rightarrow> (k2, Some (Wrapped ''error opening file'' e))
         | (k2, None) \<Rightarrow>
             apsnd (wrap ''error writing to file'')
               (cf_WriteString F (if has_suffix stanza [NL] then stanza else stanza @ [NL]) k2)))"

section \<open>Looking up a stanza\<close>

text \<open>What the file system does; \<open>content\<close> is the text of the file, None when there is no file.\<close>

definition conf_ok :: "'k confFile \<Rightarrow> ('k \<Rightarrow> string option) \<Rightarrow> bool" where
  "conf_ok F content \<longleftrightarrow>
     (\<forall>k r. cf_ReadFile F k = Inr r \<longrightarrow> content k = r) \<and>
     (\<forall>k k' s. cf_WriteFile F s k = (k', None) \<longrightarrow> content k' = Some s) \<and>
     (\<forall>k k'. cf_Remove F k = (k', None) \<longrightarrow> content k' = None) \<and>
     (\<forall>k k'. cf_OpenAppend F k = (k', None) \<longrightarrow> content k' = Some (case content k of None \<Rightarrow> [] | Some d \<Rightarrow> d)) \<and>
     (\<forall>k k' s d. cf_WriteString F s k = (k', None) \<longrightarrow> content k = Some d \<longrightarrow> content k' = Some (d @ s))"

definition conf_lines :: "('k \<Rightarrow> string option) \<Rightarrow> 'k \<Rightarrow> string list" where
  "conf_lines content k = (case content k of None \<Rightarrow> [] | Some d \<Rightarrow> file_lines d)"

fun stanza :: "string \<Rightarrow> string list \<Rightarrow> string list option" where
  "stanza n [] = None"
| "stanza n (l # ls) = (if is_header n l then Some (takeWhile (\<lambda>s. \<not> any_header s) ls) else stanza n ls)"

text \<open>The file is empty or ends with a newline, and every connection has at most one header.\<close>

definition conf_inv :: "('k \<Rightarrow> string option) \<Rightarrow> 'k \<Rightarrow> bool" where
  "conf_inv content k \<longleftrightarrow> (case content k of None \<Rightarrow> True | Some d \<Rightarrow> d = [] \<or> last d = NL) \<and>
     distinct (map trim_space (filter any_header (conf_lines content k)))"

text \<open>The lines without the stanza of a connection.\<close>

definition without :: "string \<Rightarrow> string list \<Rightarrow> string list" where
  "without n ls = takeWhile (\<lambda>s. \<not> is_header n s) ls @
     dropWhile (\<lambda>s. \<not> any_header s) (tl (dropWhile (\<lambda>s. \<not> is_header n s) ls))"

lemma is_header_any: "is_header n s \<Longrightarrow> any_header s"
proof -
  have "has_prefix (''conn '' @ n) ''conn ''" by (rule has_prefix_append)
  then show "is_header n s \<Longrightarrow> any_header s" by (simp only: is_header_def any_header_def)
qed

lemma is_header_unique: "is_header n s \<Longrightarrow> is_header m s \<Longrightarrow> n = m"
  by (simp add: is_header_def)

lemma index_func_while:
  "index_func P xs = (if \<exists>x\<in>set xs. P x then Some (length (takeWhile (\<lambda>x. \<not> P x) xs)) else None)"
  by (induction xs) auto

lemma take_index: "take (length (takeWhile P xs)) xs = takeWhile P xs"
  by (induction xs) auto

lemma removed_lines:
  assumes "index_func (is_header n) lines = Some start"
  shows "take start lines @ drop (case index_func any_header (drop (start + 1) lines) of
     None \<Rightarrow> length lines | Some e \<Rightarrow> e + start + 1) lines = without n lines"
proof -
  let ?P = "\<lambda>s. \<not> is_header n s" and ?rest = "drop (start + 1) lines"
  from assms have start: "start = length (takeWhile ?P lines)" "\<exists>x\<in>set lines. is_header n x"
    by (auto simp: index_func_while split: if_split_asm)
  have rest: "tl (dropWhile ?P lines) = ?rest" by (simp add: dropWhile_eq_drop start(1) tl_drop drop_Suc)
  have "drop (case index_func any_header ?rest of None \<Rightarrow> length lines | Some e \<Rightarrow> e + start + 1) lines =
      dropWhile (\<lambda>s. \<not> any_header s) ?rest"
  proof (cases "\<exists>x\<in>set ?rest. any_header x")
    case True
    moreover have "dropWhile (\<lambda>s. \<not> any_header s) ?rest = drop (length (takeWhile (\<lambda>s. \<not> any_header s) ?rest)) ?rest"
      by (rule dropWhile_eq_drop)
    ultimately show ?thesis by (simp add: index_func_while add.commute)
  next
    case False
    then have d: "dropWhile (\<lambda>s. \<not> any_header s) ?rest = []" by (simp add: dropWhile_eq_Nil_conv)
    from False have "index_func any_header ?rest = None" by (auto simp: index_func_while)
    then show ?thesis unfolding d by simp
  qed
  then show ?thesis by (simp add: without_def rest start(1) take_index)
qed

lemma takeWhile_dropWhile_Nil: "takeWhile P (dropWhile P xs) = []"
  by (induction xs) auto

lemma without_Cons:
  "without n (l # ls) = (if is_header n l then dropWhile (\<lambda>s. \<not> any_header s) ls else l # without n ls)"
  by (simp add: without_def)

lemma without_Nil [simp]: "without n [] = []"
  by (simp add: without_def)

lemma body_without: "takeWhile (\<lambda>s. \<not> any_header s) (without n ls) = takeWhile (\<lambda>s. \<not> any_header s) ls"
  by (induction ls) (auto simp: without_Cons is_header_any takeWhile_dropWhile_Nil)

lemma stanza_dropWhile: "stanza m (dropWhile (\<lambda>s. \<not> any_header s) ls) = stanza m ls"
  by (induction ls) (auto simp: is_header_any)

lemma stanza_without_other: "m \<noteq> n \<Longrightarrow> stanza m (without n ls) = stanza m ls"
  by (induction ls) (auto simp: without_Cons body_without stanza_dropWhile dest: is_header_unique)

lemma stanza_None: "stanza n ls = None \<longleftrightarrow> (\<forall>s\<in>set ls. \<not> is_header n s)"
  by (induction ls) auto

definition unique_headers :: "string list \<Rightarrow> bool" where
  "unique_headers ls \<longleftrightarrow> distinct (map trim_space (filter any_header ls))"

lemma unique_headers_Cons:
  "unique_headers (l # ls) \<longleftrightarrow> unique_headers ls \<and> (any_header l \<longrightarrow> (\<forall>s\<in>set ls. any_header s \<longrightarrow> trim_space s \<noteq> trim_space l))"
  by (simp add: unique_headers_def image_iff) metis

lemma unique_headers_dropWhile: "unique_headers ls \<Longrightarrow> unique_headers (dropWhile P ls)"
  by (induction ls) (auto simp: unique_headers_Cons)

lemma set_without: "set (without n ls) \<subseteq> set ls"
  by (induction ls) (auto simp: without_Cons dest: set_dropWhileD)

lemma unique_headers_without: "unique_headers ls \<Longrightarrow> unique_headers (without n ls)"
proof (induction ls)
  case (Cons l ls)
  then show ?case using set_without [of n ls]
    by (auto simp: without_Cons unique_headers_Cons unique_headers_dropWhile)
qed simp

lemma without_gone: "unique_headers ls \<Longrightarrow> s \<in> set (without n ls) \<Longrightarrow> \<not> is_header n s"
proof (induction ls)
  case (Cons l ls)
  show ?case
  proof (cases "is_header n l")
    case True
    with Cons.prems have "s \<in> set ls" by (auto simp: without_Cons dest: set_dropWhileD)
    with Cons.prems(1) True show ?thesis
      using is_header_any [of n l] is_header_any [of n s] by (auto simp: unique_headers_Cons is_header_def)
  next
    case False
    with Cons show ?thesis by (auto simp: without_Cons unique_headers_Cons)
  qed
qed simp

lemma without_absent: "\<forall>s\<in>set ls. \<not> is_header n s \<Longrightarrow> without n ls = ls"
  by (induction ls) (auto simp: without_Cons)

section \<open>Lines of a file\<close>

lemma file_lines_elem: "l \<in> set (file_lines d) \<Longrightarrow> l \<noteq> [] \<and> NL \<notin> set l"
  using split_on_elem by (auto simp: file_lines_def)

lemma file_lines_append: "d = [] \<or> last d = NL \<Longrightarrow> file_lines (d @ s) = file_lines d @ file_lines s"
proof (cases d rule: rev_cases)
  case (snoc d' c)
  moreover assume "d = [] \<or> last d = NL"
  ultimately show ?thesis by (simp add: file_lines_def split_on_append_gen)
qed (simp add: file_lines_def)

lemma file_lines_join:
  assumes "ls \<noteq> []" "\<forall>l\<in>set ls. l \<noteq> [] \<and> NL \<notin> set l"
  shows "file_lines (join [NL] ls @ [NL]) = ls"
proof -
  have "split_on NL (join [NL] ls) = ls" using assms by (intro split_on_join) auto
  with assms show ?thesis by (simp add: file_lines_def split_on_append_gen)
qed

section \<open>Removing and appending\<close>

lemma conf_okD:
  assumes "conf_ok F content"
  shows "cf_ReadFile F k = Inr r \<Longrightarrow> content k = r" "cf_WriteFile F s k = (k', None) \<Longrightarrow> content k' = Some s"
    "cf_Remove F k = (k', None) \<Longrightarrow> content k' = None"
    "cf_OpenAppend F k = (k', None) \<Longrightarrow> content k' = Some (case content k of None \<Rightarrow> [] | Some d \<Rightarrow> d)"
    "cf_WriteString F s k = (k', None) \<Longrightarrow> content k = Some d \<Longrightarrow> content k' = Some (d @ s)"
  using assms unfolding conf_ok_def by simp_all

lemma conf_inv_alt:
  "conf_inv content k \<longleftrightarrow> (case content k of None \<Rightarrow> True | Some d \<Rightarrow> d = [] \<or> last d = NL) \<and>
     unique_headers (conf_lines content k)"
  by (simp add: conf_inv_def unique_headers_def)

lemma RemoveConnectionStanza_ok:
  assumes ok: "conf_ok F content" and inv: "conf_inv content k" and r: "RemoveConnectionStanza F n k = (k', None)"
  shows "conf_inv content k' \<and> conf_lines content k' = without n (conf_lines content k)"
proof -
  note un = unique_headers_without [of "conf_lines content k" n]
  from r obtain res where read: "cf_ReadFile F k = Inr res"
    by (auto simp: RemoveConnectionStanza_def split: sum.split_asm)
  note c = conf_okD(1) [OF ok read]
  show ?thesis
  proof (cases res)
    case None
    with r read c inv show ?thesis by (simp add: RemoveConnectionStanza_def conf_lines_def without_def)
  next
    case (Some data)
    with c have ls: "conf_lines content k = file_lines data" by (simp add: conf_lines_def)
    show ?thesis
    proof (cases "index_func (is_header n) (file_lines data)")
      case None
      then have "\<forall>s\<in>set (file_lines data). \<not> is_header n s" by (auto simp: index_func_while split: if_split_asm)
      with None Some r read c inv show ?thesis
        by (simp add: RemoveConnectionStanza_def conf_lines_def without_absent)
    next
      case (Some start)
      note rl = removed_lines [OF this]
      let ?w = "without n (file_lines data)"
      have "(if ?w = [] then apsnd (wrap ''error removing file'') (cf_Remove F k)
          else apsnd (wrap ''error writing file'') (cf_WriteFile F (join [NL] ?w @ [NL]) k)) = (k', None)"
        using r read \<open>res = Some data\<close> Some unfolding RemoveConnectionStanza_def Let_def
        by (simp only: sum.case option.case rl)
      then have "if ?w = [] then cf_Remove F k = (k', None) else cf_WriteFile F (join [NL] ?w @ [NL]) k = (k', None)"
        by (auto simp: apsnd_def map_prod_def split: prod.split_asm if_split_asm)
      then have "content k' = (if ?w = [] then None else Some (join [NL] ?w @ [NL]))"
        using conf_okD(2,3) [OF ok] by (cases "?w = []") simp_all
      moreover have "file_lines (join [NL] ?w @ [NL]) = ?w" if "?w \<noteq> []"
        using that file_lines_elem set_without [of n "file_lines data"] by (intro file_lines_join) blast+
      ultimately show ?thesis
        using un inv unfolding conf_inv_alt ls by (auto simp: conf_lines_def)
    qed
  qed
qed

text \<open>A stanza: its header, and a body without headers.\<close>

definition stanza_text :: "string \<Rightarrow> string list \<Rightarrow> string \<Rightarrow> bool" where
  "stanza_text n body s \<longleftrightarrow> (\<exists>h. file_lines s = h # body \<and> is_header n h) \<and> (\<forall>l\<in>set body. \<not> any_header l)"

lemma stanza_append:
  assumes "is_header n h" "\<forall>l\<in>set body. \<not> any_header l"
  shows "\<forall>l\<in>set ls. \<not> is_header n l \<Longrightarrow> stanza m (ls @ h # body) = (if m = n then Some body else stanza m ls)"
proof (induction ls)
  case Nil
  have "stanza m body = None" using assms(2) is_header_any stanza_None by blast
  moreover have "m = n \<longleftrightarrow> is_header m h" using assms(1) is_header_unique by blast
  moreover have "takeWhile (\<lambda>s. \<not> any_header s) body = body" using assms(2) by (simp add: takeWhile_eq_all_conv)
  ultimately show ?case by simp
next
  case (Cons l ls)
  have "takeWhile (\<lambda>s. \<not> any_header s) (ls @ h # body) = takeWhile (\<lambda>s. \<not> any_header s) ls"
    using is_header_any [OF assms(1)] by (induction ls) auto
  with Cons show ?case by auto
qed

lemma unique_headers_append:
  assumes "is_header n h" "\<forall>l\<in>set body. \<not> any_header l" "\<And>l. l \<in> set ls \<Longrightarrow> \<not> is_header n l" "unique_headers ls"
  shows "unique_headers (ls @ h # body)"
proof -
  have "filter any_header body = []" using assms(2) by (simp add: filter_empty_conv)
  moreover have "trim_space h \<notin> trim_space ` set ls" using assms(1,3) unfolding is_header_def by (metis imageE)
  ultimately show ?thesis using assms(4) is_header_any [OF assms(1)] by (auto simp: unique_headers_def)
qed

lemma has_suffix_NL: "has_suffix s [NL] \<longleftrightarrow> s \<noteq> [] \<and> last s = NL"
  by (cases s rule: rev_cases) (auto simp: has_suffix_def)

lemma file_lines_snoc: "file_lines (s @ [NL]) = file_lines s"
  by (simp add: file_lines_def split_on_append_gen)

lemma AppendConnectionStanza_ok:
  assumes ok: "conf_ok F content" and inv: "conf_inv content k" and st: "stanza_text n body s"
    and a: "AppendConnectionStanza F s n k = (k', None)"
  shows "conf_inv content k' \<and>
    stanza m (conf_lines content k') = (if m = n then Some body else stanza m (conf_lines content k))"
proof -
  let ?s = "if has_suffix s [NL] then s else s @ [NL]"
  from a obtain k1 k2 where k1: "RemoveConnectionStanza F n k = (k1, None)" and k2: "cf_OpenAppend F k1 = (k2, None)"
    and k': "cf_WriteString F ?s k2 = (k', None)"
    by (auto simp: AppendConnectionStanza_def apsnd_def map_prod_def split: prod.split_asm option.split_asm)
  note r = RemoveConnectionStanza_ok [OF ok inv k1]
  define d where "d = (case content k1 of None \<Rightarrow> [] | Some d \<Rightarrow> d)"
  have c2: "content k2 = Some d" using conf_okD(4) [OF ok k2] by (simp add: d_def)
  have c': "content k' = Some (d @ ?s)" by (rule conf_okD(5) [OF ok k' c2])
  have d: "d = [] \<or> last d = NL" "file_lines d = conf_lines content k1"
    using r by (auto simp: d_def conf_inv_def conf_lines_def file_lines_def split: option.split)
  have s: "last ?s = NL" "file_lines ?s = file_lines s" "?s \<noteq> []"
    by (auto simp: has_suffix_NL file_lines_snoc)
  from st obtain h where h: "file_lines s = h # body" "is_header n h" "\<forall>l\<in>set body. \<not> any_header l"
    by (auto simp: stanza_text_def)
  have ls: "conf_lines content k' = without n (conf_lines content k) @ h # body"
    using file_lines_append [OF d(1), of ?s] s(2) h(1) d(2) r by (simp add: conf_lines_def c')
  have un: "unique_headers (conf_lines content k)" using inv by (simp add: conf_inv_alt)
  note gone = without_gone [OF un, of _ n]
  have "unique_headers (conf_lines content k')"
    unfolding ls by (rule unique_headers_append [OF h(2,3) gone unique_headers_without [OF un]])
  moreover have "last (d @ ?s) = NL" using s by simp
  ultimately have "conf_inv content k'" by (simp add: conf_inv_alt c')
  moreover have "stanza m (conf_lines content k') = (if m = n then Some body else stanza m (conf_lines content k))"
    unfolding ls using stanza_append [OF h(2,3)] gone stanza_without_other by simp
  ultimately show ?thesis by blast
qed

text \<open>C32: The connection file is a map from connection names to stanzas: appending a stanza replaces the one of that name
  and removing deletes it, both leave the stanzas of all other connections as they are, and the file stays one with at
  most one stanza for each name, ending with a newline.\<close>

theorem connection_stanzas:
  assumes "conf_ok F content" and "conf_inv content k"
  shows "(stanza_text n body s \<longrightarrow> AppendConnectionStanza F s n k = (k1, None) \<longrightarrow>
      conf_inv content k1 \<and> (\<forall>m. stanza m (conf_lines content k1) =
        (if m = n then Some body else stanza m (conf_lines content k)))) \<and>
    (RemoveConnectionStanza F n k = (k2, None) \<longrightarrow>
      conf_inv content k2 \<and> (\<forall>m. stanza m (conf_lines content k2) =
        (if m = n then None else stanza m (conf_lines content k))))"
proof -
  have un: "unique_headers (conf_lines content k)" using assms(2) by (simp add: conf_inv_alt)
  then have "stanza n (without n (conf_lines content k)) = None" using without_gone stanza_None by blast
  then show ?thesis
    using AppendConnectionStanza_ok [OF assms] RemoveConnectionStanza_ok [OF assms, of n k2] stanza_without_other by auto
qed

text \<open>A file system with one file; it is an instance of the assumptions.\<close>

definition ref_file :: "string option confFile" where
  "ref_file = \<lparr>cf_ReadFile = Inr, cf_WriteFile = (\<lambda>s _. (Some s, None)), cf_Remove = (\<lambda>_. (None, None)),
     cf_OpenAppend = (\<lambda>k. (Some (case k of None \<Rightarrow> [] | Some d \<Rightarrow> d), None)),
     cf_WriteString = (\<lambda>s k. (map_option (\<lambda>d. d @ s) k, None))\<rparr>"

lemma ref_file_ok: "conf_ok ref_file (\<lambda>k. k)"
  by (simp add: conf_ok_def ref_file_def)

definition lines_text :: "string list \<Rightarrow> string" where
  "lines_text ls = concat (map (\<lambda>l. l @ [NL]) ls)"

definition example_file :: "string option" where
  "example_file = Some (lines_text [''conn a-v4-0-0'', ''  left=10.0.0.1'', ''conn b-v4-0-0'', ''  left=10.0.0.2''])"

theorem connection_stanzas_witness:
  "map (\<lambda>n. stanza n (conf_lines (\<lambda>k. k) (fst (AppendConnectionStanza ref_file
       (lines_text [''conn a-v4-0-0'', ''  left=10.0.0.9'']) ''a-v4-0-0'' example_file)))) [''a-v4-0-0'', ''b-v4-0-0''] =
   [Some [''  left=10.0.0.9''], Some [''  left=10.0.0.2'']]"
proof -
  let ?s = "lines_text [''conn a-v4-0-0'', ''  left=10.0.0.9'']"
  let ?a = "AppendConnectionStanza ref_file ?s ''a-v4-0-0'' example_file"
  have i: "conf_inv (\<lambda>k. k) example_file" by code_simp
  have "file_lines ?s = [''conn a-v4-0-0'', ''  left=10.0.0.9'']" "is_header ''a-v4-0-0'' ''conn a-v4-0-0''"
    "\<not> any_header ''  left=10.0.0.9''" by code_simp+
  then have st: "stanza_text ''a-v4-0-0'' [''  left=10.0.0.9''] ?s" by (simp add: stanza_text_def)
  have "snd ?a = None" by code_simp
  then have a: "?a = (fst ?a, None)" by (metis prod.collapse)
  have b: "stanza ''b-v4-0-0'' (conf_lines (\<lambda>k. k) example_file) = Some [''  left=10.0.0.2'']" by code_simp
  from connection_stanzas [OF ref_file_ok i, of "''a-v4-0-0''" "[''  left=10.0.0.9'']" ?s "fst ?a"] st a b show ?thesis
    by simp
qed

end
