(* ===== verification/Libreswan.thy ===== *)
theory Libreswan
  imports CableDriver LocalEndpoint ConnectionFile
begin

text \<open>
  \<open>pkg/cable/libreswan\<close> (\<open>libreswan.go\<close>, \<open>preferred_server.go\<close>, \<open>certificate_auth_mode.go\<close>) and \<open>pkg/cable/psk\<close>: the
  libreswan cable driver, with pre-shared keys and with certificates.

  The host is the record \<open>ipsecHost\<close>: the commands \<open>ipsec whack\<close> and \<open>ipsec auto\<close>, the files under \<open>/etc/ipsec.d\<close>, the
  start of the Pluto daemon and the issuing of certificates, all on a state \<open>'k\<close> that is part of the driver's state. The
  two regular expressions of the source are written out as functions on a line. Metrics are left out. A panic, and the
  end of the process by \<open>FatalError\<close>, are error values.
\<close>

section \<open>Pre-shared keys\<close>

text \<open>\<open>base64.StdEncoding\<close>.\<close>

definition b64_char :: "nat \<Rightarrow> char" where
  "b64_char n = (if n < 26 then char_of (65 + n) else if n < 52 then char_of (71 + n)
     else if n < 62 then char_of (n - 4) else if n = 62 then CHR ''+'' else CHR ''/'')"

fun base64 :: "string \<Rightarrow> string" where
  "base64 [] = []"
| "base64 [a] = (let n = of_char a * 65536 in [b64_char (n div 262144), b64_char (n div 4096 mod 64), CHR ''='', CHR ''=''])"
| "base64 [a, b] = (let n = of_char a * 65536 + of_char b * 256 in
     [b64_char (n div 262144), b64_char (n div 4096 mod 64), b64_char (n div 64 mod 64), CHR ''=''])"
| "base64 (a # b # c # s) = (let n = of_char a * 65536 + of_char b * 256 + of_char c in
     [b64_char (n div 262144), b64_char (n div 4096 mod 64), b64_char (n div 64 mod 64), b64_char (n mod 64)] @ base64 s)"

definition Resolve :: "(string \<Rightarrow> string result) \<Rightarrow> string \<Rightarrow> string \<Rightarrow> string \<Rightarrow> string result" where
  "Resolve readFile psk pskSecret rootDir =
     (if pskSecret = [] then Inr psk
      else (case readFile (rootDir @ ''/var/run/secrets/submariner.io/'' @ pskSecret @ ''/psk'') of
              Inl e \<Rightarrow> Inl (Wrapped ''error reading secret'' e)
            | Inr pskBytes \<Rightarrow> Inr (base64 pskBytes)))"

section \<open>State\<close>

definition AuthModePSK :: string where "AuthModePSK = ''psk''"
definition AuthModeCert :: string where "AuthModeCert = ''cert''"
definition dpdDelay :: int where "dpdDelay = 30"
definition certModeReconcileThreshold :: nat where "certModeReconcileThreshold = 3"
definition ClientCertName :: string where "ClientCertName = ''subm-client-cert''"

record 'k ipsecHost =
  ih_file :: "'k confFile"
  ih_whack :: "string list \<Rightarrow> 'k \<Rightarrow> 'k \<times> err option"            \<comment> \<open>one run of \<open>ipsec whack\<close>\<close>
  ih_trafficstatus :: "'k \<Rightarrow> string list result"                  \<comment> \<open>the lines printed\<close>
  ih_status :: "'k \<Rightarrow> string list result"
  ih_auto_add :: "string \<Rightarrow> 'k \<Rightarrow> 'k \<times> err option"
  ih_startPluto :: "string list \<Rightarrow> string \<Rightarrow> 'k \<Rightarrow> 'k \<times> err option"   \<comment> \<open>arguments and log file\<close>
  ih_waitForControlSocket :: "'k \<Rightarrow> 'k \<times> err option"
  ih_writeSecrets :: "string \<Rightarrow> 'k \<Rightarrow> 'k \<times> err option"
  ih_Issue :: "string \<Rightarrow> string list \<Rightarrow> 'k \<Rightarrow> 'k \<times> err option"
  ih_cleanupCertificates :: "'k \<Rightarrow> 'k"
  ih_isExitError :: "err \<Rightarrow> bool"

text \<open>\<open>missedRefreshes\<close> is allocated in certificate mode only, which is the only mode that writes to it.\<close>

record 'k libreswan =
  ls_localEndpoint :: EndpointSpec
  ls_connections :: "Connection list"
  ls_secretKey :: string
  ls_logFile :: string
  ls_ipSecNATTPort :: string
  ls_defaultNATTPort :: int
  ls_debug :: bool
  ls_forceUDPEncapsulation :: bool
  ls_plutoStarted :: bool
  ls_authMode :: string
  ls_certificateHandler :: bool        \<comment> \<open>not nil\<close>
  ls_missedRefreshes :: "string \<rightharpoonup> nat"
  ls_host :: 'k

record ipSecSpec =
  sp_Debug :: bool
  sp_ForceEncaps :: bool
  sp_PSK :: string
  sp_PSKSecret :: string
  sp_LogFile :: string
  sp_NATTPort :: string
  sp_AuthMode :: string

section \<open>Validation\<close>

definition cable_name_char :: "char \<Rightarrow> bool" where
  "cable_name_char c \<longleftrightarrow> (let n = (of_char c :: nat) in
     97 \<le> n \<and> n \<le> 122 \<or> 65 \<le> n \<and> n \<le> 90 \<or> 48 \<le> n \<and> n \<le> 57 \<or> c = CHR ''.'' \<or> c = CHR ''_'' \<or> c = CHR ''-'')"

definition validateCableName :: "string \<Rightarrow> err option" where
  "validateCableName cableName =
     (if cableName = [] then Some (Err ''cable name is empty'')
      else if \<not> (length cableName \<le> 200 \<and> list_all cable_name_char cableName)
      then Some (Err ''cable name contains invalid characters'') else None)"

definition validateEndpointInputs :: "EndpointSpec \<Rightarrow> string \<Rightarrow> string \<Rightarrow> err option" where
  "validateEndpointInputs endpoint localIP remoteIP =
     (case validateCableName (CableName endpoint) of
        Some e \<Rightarrow> Some e
      | None \<Rightarrow>
          if \<exists>s\<in>set (Subnets endpoint). ParseCIDR s = None
          then Some (Wrapped ''invalid CIDR'' (Sentinel ''ParseError''))
          else if ParseIP remoteIP = None then Some (Err ''invalid IP address'')
          else if ParseIP localIP = None then Some (Err ''invalid IP address'')
          else None)"

section \<open>Operation modes\<close>

datatype operationMode = operationModeBidirectional | operationModeServer | operationModeClient

text \<open>Go compares strings by their bytes.\<close>

fun string_less :: "string \<Rightarrow> string \<Rightarrow> bool" where
  "string_less s [] = False"
| "string_less [] (d # t) = True"
| "string_less (c # s) (d # t) =
     ((of_char c :: nat) < of_char d \<or> c = d \<and> string_less s t)"

definition calculateOperationMode :: "EndpointSpec \<Rightarrow> EndpointSpec \<Rightarrow> operationMode" where
  "calculateOperationMode localEndpoint remoteEndpoint =
     (let leftPreferred = fst (GetBackendBool localEndpoint PreferredServerConfig False);
          rightPreferred = fst (GetBackendBool remoteEndpoint PreferredServerConfig False) in
      if \<not> leftPreferred \<and> \<not> rightPreferred then operationModeBidirectional
      else if leftPreferred \<and> \<not> rightPreferred then operationModeServer
      else if rightPreferred \<and> \<not> leftPreferred then operationModeClient
      else if string_less (CableName remoteEndpoint) (CableName localEndpoint) then operationModeServer
      else operationModeClient)"

fun operationMode_String :: "operationMode \<Rightarrow> string" where
  "operationMode_String operationModeBidirectional = ''bi-directional''"
| "operationMode_String operationModeServer = ''server''"
| "operationMode_String operationModeClient = ''client''"

text \<open>The environment variable and the time of day are arguments.\<close>

definition processPreferredServerConfig ::
  "libs \<Rightarrow> 'c endpointClient \<Rightarrow> string \<Rightarrow> int \<Rightarrow> LocalEp \<Rightarrow> 'c \<Rightarrow> (LocalEp \<times> 'c) \<times> err option" where
  "processPreferredServerConfig L C env now localEndpoint c =
     (let configured = cfg_get (BackendConfig (Spec localEndpoint)) PreferredServerConfig;
          preferredServerStr = (if configured \<noteq> [] then configured else if env \<noteq> [] then env else ''false'') in
      case parse_bool preferredServerStr of
        None \<Rightarrow> ((localEndpoint, c), Some (Wrapped ''error parsing CE_IPSEC_PREFERREDSERVER'' (Sentinel ''NumError'')))
      | Some preferredServer \<Rightarrow>
          apsnd (wrap ''error updating local endpoint'') (Update L C (\<lambda>existing. existing\<lparr>BackendConfig :=
            (let m = fmupd PreferredServerConfig preferredServerStr (BackendConfig existing) in
             if preferredServer then fmupd (PreferredServerConfig @ ''-timestamp'') (dec_of_int now) m else m)\<rparr>)
            localEndpoint c))"

section \<open>Creation\<close>

text \<open>\<open>envSpec\<close> is what envconfig reads from the environment, \<open>k\<close> the state of the host.\<close>

definition NewLibreswan ::
  "libs \<Rightarrow> 'c endpointClient \<Rightarrow> (string \<Rightarrow> string result) \<Rightarrow> string \<Rightarrow> ipSecSpec result \<Rightarrow> string \<Rightarrow> int \<Rightarrow> 'k \<Rightarrow>
   LocalEp \<Rightarrow> 'c \<Rightarrow> (LocalEp \<times> 'c) \<times> 'k libreswan result" where
  "NewLibreswan L C readFile rootDir envSpec envPreferred now k localEndpoint c = (case envSpec of
      Inl e \<Rightarrow> ((localEndpoint, c), Inl (Wrapped ''error processing environment config'' e))
    | Inr s \<Rightarrow>
        if sp_AuthMode s \<noteq> AuthModePSK \<and> sp_AuthMode s \<noteq> AuthModeCert
        then ((localEndpoint, c), Inl (Err ''invalid authentication mode''))
        else (case parse_uint 16 (sp_NATTPort s) of
            None \<Rightarrow> ((localEndpoint, c),
              Inl (Wrapped ''error parsing CE_IPSEC_NATTPORT environment variable'' (Sentinel ''NumError'')))
          | Some port \<Rightarrow>
              (case GetBackendPort (Spec localEndpoint) UDPPortConfig (int port) of
                 (_, Some e) \<Rightarrow> ((localEndpoint, c), Inl (Wrapped ''error parsing udp-port from local endpoint'' e))
               | (nattPort, None) \<Rightarrow>
                   (case processPreferredServerConfig L C envPreferred now localEndpoint c of
                      ((l, c'), Some e) \<Rightarrow> ((l, c'), Inl e)
                    | ((l, c'), None) \<Rightarrow>
                        ((l, c'), case (if sp_AuthMode s = AuthModePSK
                                        then Resolve readFile (sp_PSK s) (sp_PSKSecret s) rootDir else Inr []) of
                            Inl e \<Rightarrow> Inl e
                          | Inr encodedPsk \<Rightarrow> Inr
                              \<lparr>ls_localEndpoint = Spec l, ls_connections = [], ls_secretKey = encodedPsk,
                               ls_logFile = sp_LogFile s, ls_ipSecNATTPort = dec_of_int nattPort,
                               ls_defaultNATTPort = int port, ls_debug = sp_Debug s,
                               ls_forceUDPEncapsulation = sp_ForceEncaps s, ls_plutoStarted = False,
                               ls_authMode = sp_AuthMode s, ls_certificateHandler = False,
                               ls_missedRefreshes = Map.empty, ls_host = k\<rparr>)))))"

definition ls_Init :: "'k ipsecHost \<Rightarrow> 'k libreswan \<Rightarrow> 'k libreswan \<times> err option" where
  "ls_Init H i =
     (if ls_authMode i = AuthModePSK then
        (case ih_writeSecrets H (''%any %any : PSK '' @ CHR 0x22 # ls_secretKey i @ [CHR 0x22, NL]) (ls_host i) of
           (k, e) \<Rightarrow> (i\<lparr>ls_host := k\<rparr>, wrap ''error writing the secrets file'' e))
      else if ls_authMode i = AuthModeCert then
        (case ih_Issue H (''libreswan-'' @ Hostname (ls_localEndpoint i))
                (PrivateIPs (ls_localEndpoint i) @ PublicIPs (ls_localEndpoint i)) (ls_host i) of
           (k, e) \<Rightarrow> (i\<lparr>ls_plutoStarted := True, ls_missedRefreshes := Map.empty, ls_certificateHandler := True,
                        ls_host := k\<rparr>, wrap ''unable to issue certificate'' e))
      else (i, None))"

section \<open>Traffic status\<close>

text \<open>A greedy \<open>.*\<close> before \<open>f\<close>: the last position at which \<open>f\<close> matches.\<close>

fun last_match :: "(string \<Rightarrow> 'a option) \<Rightarrow> string \<Rightarrow> 'a option" where
  "last_match f [] = f []"
| "last_match f (x # xs) = (case last_match f xs of Some a \<Rightarrow> Some a | None \<Rightarrow> f (x # xs))"

definition bytes_at :: "string \<Rightarrow> (string \<times> string) option" where
  "bytes_at s = (if \<not> has_prefix s ''inBytes='' then None
     else let inBytes = takeWhile is_digit (drop 8 s); r = dropWhile is_digit (drop 8 s);
              outBytes = takeWhile is_digit (drop 11 r) in
          if inBytes \<noteq> [] \<and> has_prefix r '', outBytes='' \<and> outBytes \<noteq> [] then Some (inBytes, outBytes) else None)"

text \<open>The name ends with the family and the indexes of the two subnets, each 0 or 1.\<close>

definition status_name :: "string \<Rightarrow> bool" where
  "status_name n \<longleftrightarrow> length n > 7 \<and> (let t = drop (length n - 7) n in
     t ! 0 = CHR ''-'' \<and> t ! 1 = CHR ''v'' \<and> t ! 2 \<in> set ''46'' \<and> t ! 3 = CHR ''-'' \<and> t ! 4 \<in> set ''01'' \<and>
     t ! 5 = CHR ''-'' \<and> t ! 6 \<in> set ''01'')"

definition name_at :: "string \<Rightarrow> (string \<times> string \<times> string) option" where
  "name_at s = (if \<not> has_prefix s [CHR '' '', CHR 0x22] then None
     else let n = takeWhile (\<lambda>c. c \<noteq> CHR 0x22) (drop 2 s); r = dropWhile (\<lambda>c. c \<noteq> CHR 0x22) (drop 2 s);
              r' = dropWhile (\<lambda>c. c \<noteq> CHR '','') (tl r) in
          if r \<noteq> [] \<and> status_name n \<and> has_prefix r' '', ''
          then map_option (\<lambda>b. (n, b)) (last_match bytes_at (drop 2 r')) else None)"

definition TrafficStatusRE :: "string \<Rightarrow> (string \<times> string \<times> string) option" where
  "TrafficStatusRE line = last_match name_at line"

definition add_bytes :: "string \<Rightarrow> string \<Rightarrow> (string \<rightharpoonup> int) \<Rightarrow> (string \<rightharpoonup> int)" where
  "add_bytes n s m = (let old = (case m n of None \<Rightarrow> 0 | Some v \<Rightarrow> v) in
     m(n \<mapsto> (case parse_int 64 s of None \<Rightarrow> old | Some v \<Rightarrow> wrap64 (old + v))))"

definition add_line :: "(string \<rightharpoonup> int) \<times> (string \<rightharpoonup> int) \<Rightarrow> string \<Rightarrow> (string \<rightharpoonup> int) \<times> (string \<rightharpoonup> int)" where
  "add_line = (\<lambda>(rx, tx) line. case TrafficStatusRE line of
      None \<Rightarrow> (rx, tx)
    | Some (n, inBytes, outBytes) \<Rightarrow> (add_bytes n inBytes rx, add_bytes n outBytes tx))"

definition retrieveActiveConnectionStats :: "'k ipsecHost \<Rightarrow> 'k \<Rightarrow> ((string \<rightharpoonup> int) \<times> (string \<rightharpoonup> int)) result" where
  "retrieveActiveConnectionStats H k = (case ih_trafficstatus H k of
      Inl e \<Rightarrow> Inl e
    | Inr lines \<Rightarrow> Inr (foldl add_line (Map.empty, Map.empty) lines))"

definition toConnectionName :: "string \<Rightarrow> IPFamily \<Rightarrow> nat \<Rightarrow> nat \<Rightarrow> string" where
  "toConnectionName cableName family lsi rsi =
     cableName @ ''-v'' @ family_str family @ ''-'' @ dec_of_nat lsi @ ''-'' @ dec_of_nat rsi"

text \<open>The names of a cable with so many local and remote subnets, in the order of the two loops.\<close>

definition connection_names :: "string \<Rightarrow> IPFamily \<Rightarrow> nat \<Rightarrow> nat \<Rightarrow> string list" where
  "connection_names cableName family n m =
     concat (map (\<lambda>lsi. map (\<lambda>rsi. toConnectionName cableName family lsi rsi) [0..<m]) [0..<n])"

text \<open>The status of one connection and its bytes; None is a panic on an unparseable subnet.\<close>

definition refresh_connection ::
  "libs \<Rightarrow> (string \<rightharpoonup> int) \<Rightarrow> (string \<rightharpoonup> int) \<Rightarrow> (IPFamily \<Rightarrow> string list) \<Rightarrow> Connection \<Rightarrow> (Connection \<times> int \<times> int) option" where
  "refresh_connection L activeRx activeTx localSubnetsByFamily c =
     (let family = GetFamily L c in
      map_option (\<lambda>remoteSubnets.
        let names = filter (\<lambda>n. activeRx n \<noteq> None \<or> activeTx n \<noteq> None)
              (connection_names (CableName (conn_Endpoint c)) family (length (localSubnetsByFamily family)) (length remoteSubnets));
            total = (\<lambda>m. foldl (\<lambda>s n. wrap64 (s + (case m n of None \<Rightarrow> 0 | Some v \<Rightarrow> v))) 0 names) in
        (c\<lparr>Status := if names \<noteq> [] then Connected else Connecting\<rparr>, total activeRx, total activeTx))
        (ExtractSubnetsExcludingIP L (GetPrivateIP L family (conn_Endpoint c)) (conn_Endpoint c)))"

fun refresh_loop ::
  "libs \<Rightarrow> (string \<rightharpoonup> int) \<Rightarrow> (string \<rightharpoonup> int) \<Rightarrow> (IPFamily \<Rightarrow> string list) \<Rightarrow> Connection list \<Rightarrow> Connection list option" where
  "refresh_loop L rx tx local' [] = Some []"
| "refresh_loop L rx tx local' (c # cs) = (case refresh_connection L rx tx local' c of
     None \<Rightarrow> None
   | Some (c', _) \<Rightarrow> map_option (\<lambda>cs'. c' # cs') (refresh_loop L rx tx local' cs))"

section \<open>Commands\<close>

text \<open>A command is tried three times.\<close>

fun whack_retry :: "'k ipsecHost \<Rightarrow> string list \<Rightarrow> nat \<Rightarrow> err option \<Rightarrow> 'k \<Rightarrow> 'k \<times> err option" where
  "whack_retry H args 0 err k = (k, err)"
| "whack_retry H args (Suc n) err k = (case ih_whack H args k of
     (k', None) \<Rightarrow> (k', None)
   | (k', Some e) \<Rightarrow> whack_retry H args n (Some e) k')"

definition whack :: "'k ipsecHost \<Rightarrow> string list \<Rightarrow> 'k \<Rightarrow> 'k \<times> err option" where
  "whack H args k = apsnd (wrap ''error whacking'') (whack_retry H args 3 None k)"

fun whack_all :: "'k ipsecHost \<Rightarrow> string list list \<Rightarrow> 'k \<Rightarrow> 'k \<times> err option" where
  "whack_all H [] k = (k, None)"
| "whack_all H (args # rest) k = (case whack H args k of
     (k', Some e) \<Rightarrow> (k', Some e)
   | (k', None) \<Rightarrow> whack_all H rest k')"

definition encaps_args :: "'k libreswan \<Rightarrow> bool \<Rightarrow> string list" where
  "encaps_args i useNAT = [''--psk'', ''--encrypt'',
     if useNAT \<or> ls_forceUDPEncapsulation i then ''--encaps=yes'' else ''--encaps=auto'']"

fun ipFamilyArgs :: "IPFamily \<Rightarrow> string" where
  "ipFamilyArgs IPv4 = ''--ipv4''"
| "ipFamilyArgs IPv6 = ''--ipv6''"
| "ipFamilyArgs IPFamilyUnknown = []"

definition dpd_args :: "string list" where
  "dpd_args = [''--dpdaction=hold'', ''--dpddelay'', dec_of_int dpdDelay]"

definition initiate_args :: "string \<Rightarrow> string list list" where
  "initiate_args connectionName =
     [[''--route'', ''--name'', connectionName], [''--initiate'', ''--asynchronous'', ''--name'', connectionName]]"

definition bidirectional_args ::
  "libs \<Rightarrow> 'k libreswan \<Rightarrow> string \<Rightarrow> NATEndpointInfo \<Rightarrow> string \<Rightarrow> string \<Rightarrow> int \<Rightarrow> string list" where
  "bidirectional_args L i connectionName info leftSubnet rightSubnet rightNATTPort =
     (let localIP = GetPrivateIP L (ni_UseFamily info) (ls_localEndpoint i) in
      encaps_args i (ni_UseNAT info) @ [''--name'', connectionName, ipFamilyArgs (ni_UseFamily info),
        ''--id'', localIP, ''--host'', localIP, ''--client'', leftSubnet, ''--ikeport'', ls_ipSecNATTPort i,
        ''--to'', ''--id'', GetPrivateIP L (ni_UseFamily info) (ep_Spec (ni_Endpoint info)),
        ''--host'', ni_UseIP info, ''--client'', rightSubnet, ''--ikeport'', dec_of_int rightNATTPort] @ dpd_args)"

definition bidirectionalConnectToEndpoint ::
  "libs \<Rightarrow> 'k ipsecHost \<Rightarrow> 'k libreswan \<Rightarrow> string \<Rightarrow> NATEndpointInfo \<Rightarrow> string \<Rightarrow> string \<Rightarrow> int \<Rightarrow> 'k \<Rightarrow> 'k \<times> err option" where
  "bidirectionalConnectToEndpoint L H i connectionName info leftSubnet rightSubnet rightNATTPort k =
     whack_all H (bidirectional_args L i connectionName info leftSubnet rightSubnet rightNATTPort #
       initiate_args connectionName) k"

definition toEndpointIdentifier :: "string \<Rightarrow> nat \<Rightarrow> nat \<Rightarrow> string" where
  "toEndpointIdentifier ip lsi rsi = ''@'' @ ip @ ''-'' @ dec_of_nat lsi @ ''-'' @ dec_of_nat rsi"

definition server_args ::
  "libs \<Rightarrow> 'k libreswan \<Rightarrow> string \<Rightarrow> NATEndpointInfo \<Rightarrow> string \<Rightarrow> string \<Rightarrow> nat \<Rightarrow> nat \<Rightarrow> string list" where
  "server_args L i connectionName info leftSubnet rightSubnet lsi rsi =
     (let localIP = GetPrivateIP L (ni_UseFamily info) (ls_localEndpoint i);
          remoteIP = GetPrivateIP L (ni_UseFamily info) (ep_Spec (ni_Endpoint info)) in
      encaps_args i (ni_UseNAT info) @ [''--name'', connectionName, ipFamilyArgs (ni_UseFamily info),
        ''--id'', toEndpointIdentifier localIP lsi rsi, ''--host'', localIP, ''--client'', leftSubnet,
        ''--ikeport'', ls_ipSecNATTPort i,
        ''--to'', ''--id'', toEndpointIdentifier remoteIP rsi lsi, ''--host'', ''%any'', ''--client'', rightSubnet] @ dpd_args)"

definition serverConnectToEndpoint ::
  "libs \<Rightarrow> 'k ipsecHost \<Rightarrow> 'k libreswan \<Rightarrow> string \<Rightarrow> NATEndpointInfo \<Rightarrow> string \<Rightarrow> string \<Rightarrow> nat \<Rightarrow> nat \<Rightarrow> 'k \<Rightarrow> 'k \<times> err option" where
  "serverConnectToEndpoint L H i connectionName info leftSubnet rightSubnet lsi rsi k =
     whack_all H [server_args L i connectionName info leftSubnet rightSubnet lsi rsi] k"

definition client_args ::
  "libs \<Rightarrow> 'k libreswan \<Rightarrow> string \<Rightarrow> NATEndpointInfo \<Rightarrow> string \<Rightarrow> string \<Rightarrow> int \<Rightarrow> nat \<Rightarrow> nat \<Rightarrow> string list" where
  "client_args L i connectionName info leftSubnet rightSubnet rightNATTPort lsi rsi =
     (let localIP = GetPrivateIP L (ni_UseFamily info) (ls_localEndpoint i);
          remoteIP = GetPrivateIP L (ni_UseFamily info) (ep_Spec (ni_Endpoint info)) in
      encaps_args i (ni_UseNAT info) @ [''--name'', connectionName, ipFamilyArgs (ni_UseFamily info),
        ''--id'', toEndpointIdentifier localIP lsi rsi, ''--host'', localIP, ''--client'', leftSubnet,
        ''--to'', ''--id'', toEndpointIdentifier remoteIP rsi lsi, ''--host'', ni_UseIP info, ''--client'', rightSubnet,
        ''--ikeport'', dec_of_int rightNATTPort] @ dpd_args)"

definition clientConnectToEndpoint ::
  "libs \<Rightarrow> 'k ipsecHost \<Rightarrow> 'k libreswan \<Rightarrow> string \<Rightarrow> NATEndpointInfo \<Rightarrow> string \<Rightarrow> string \<Rightarrow> int \<Rightarrow> nat \<Rightarrow> nat \<Rightarrow> 'k \<Rightarrow>
   'k \<times> err option" where
  "clientConnectToEndpoint L H i connectionName info leftSubnet rightSubnet rightNATTPort lsi rsi k =
     whack_all H (client_args L i connectionName info leftSubnet rightSubnet rightNATTPort lsi rsi #
       initiate_args connectionName) k"

section \<open>Certificates\<close>

text \<open>The two loops over the subnets: indexes and subnets of both sides.\<close>

definition subnet_pairs :: "string list \<Rightarrow> string list \<Rightarrow> (nat \<times> nat \<times> string \<times> string) list" where
  "subnet_pairs leftSubnets rightSubnets = concat (map (\<lambda>(lsi, leftSubnet).
     map (\<lambda>(rsi, rightSubnet). (lsi, rsi, leftSubnet, rightSubnet)) (enumerate 0 rightSubnets)) (enumerate 0 leftSubnets))"

definition cert_stanza :: "string \<Rightarrow> string \<Rightarrow> string \<Rightarrow> string \<Rightarrow> string \<Rightarrow> bool \<Rightarrow> string" where
  "cert_stanza connName left right leftSubnet rightSubnet encapsulation = join [NL] (
     [''conn '' @ connName, ''    left='' @ left, ''    leftid=%fromcert'', ''    leftcert='' @ ClientCertName,
      ''    leftrsasigkey=%cert'', ''    leftsubnet='' @ leftSubnet, ''    leftmodecfgclient=false'',
      ''    right='' @ right, ''    rightid=%fromcert'', ''    rightsubnet='' @ rightSubnet] @
     (if encapsulation then [''    encapsulation=yes''] else []) @
     [''    auto=add'', ''    ikev2=insist'', ''    authby=rsasig'', ''    type=tunnel''])"

definition install_cert_connection ::
  "libs \<Rightarrow> 'k ipsecHost \<Rightarrow> 'k libreswan \<Rightarrow> EndpointSpec \<Rightarrow> string \<Rightarrow> IPFamily \<Rightarrow> bool \<Rightarrow> string \<Rightarrow> string \<Rightarrow> string \<Rightarrow> 'k \<Rightarrow>
   'k \<times> err option" where
  "install_cert_connection L H i endpoint useIP useFamily useNAT connName leftSubnet rightSubnet k =
     (let left = GetPrivateIP L useFamily (ls_localEndpoint i);
          conf = cert_stanza connName left useIP leftSubnet rightSubnet (useNAT \<or> ls_forceUDPEncapsulation i) in
      case AppendConnectionStanza (ih_file H) conf connName k of
        (k1, Some e) \<Rightarrow> (k1, Some (Wrapped ''failed to append connection stanza'' e))
      | (k1, None) \<Rightarrow>
          (case ih_auto_add H connName k1 of
             (k2, Some e) \<Rightarrow> (k2, Some (Wrapped ''failed to add connection with ipsec auto --add'' e))
           | (k2, None) \<Rightarrow>
               if calculateOperationMode (ls_localEndpoint i) endpoint = operationModeServer then (k2, None)
               else apsnd (wrap ''failed to bring up connection with whack'')
                 (ih_whack H [''--name'', connName, ''--asynchronous'', ''--initiate''] k2)))"

fun install_cert_loop ::
  "libs \<Rightarrow> 'k ipsecHost \<Rightarrow> 'k libreswan \<Rightarrow> EndpointSpec \<Rightarrow> string \<Rightarrow> IPFamily \<Rightarrow> bool \<Rightarrow> string list option \<Rightarrow>
   (nat \<times> nat \<times> string \<times> string) list \<Rightarrow> 'k \<Rightarrow> 'k \<times> err option" where
  "install_cert_loop L H i endpoint useIP useFamily useNAT onlyConns [] k = (k, None)"
| "install_cert_loop L H i endpoint useIP useFamily useNAT onlyConns ((lsi, rsi, leftSubnet, rightSubnet) # pairs) k =
     (let connName = toConnectionName (CableName endpoint) useFamily lsi rsi in
      if onlyConns \<noteq> None \<and> connName \<notin> set (the onlyConns)
      then install_cert_loop L H i endpoint useIP useFamily useNAT onlyConns pairs k
      else (case install_cert_connection L H i endpoint useIP useFamily useNAT connName leftSubnet rightSubnet k of
              (k', Some e) \<Rightarrow> (k', Some e)
            | (k', None) \<Rightarrow> install_cert_loop L H i endpoint useIP useFamily useNAT onlyConns pairs k'))"

definition installCertModeConnections ::
  "libs \<Rightarrow> 'k ipsecHost \<Rightarrow> 'k libreswan \<Rightarrow> EndpointSpec \<Rightarrow> string \<Rightarrow> IPFamily \<Rightarrow> bool \<Rightarrow> string list option \<Rightarrow> 'k \<Rightarrow>
   'k \<times> err option" where
  "installCertModeConnections L H i endpoint useIP useFamily useNAT onlyConns k =
     (case validateEndpointInputs endpoint (GetPrivateIP L useFamily (ls_localEndpoint i)) useIP of
        Some e \<Rightarrow> (k, Some e)
      | None \<Rightarrow>
          (case (ExtractSubnetsExcludingIP L useIP (ls_localEndpoint i), ExtractSubnetsExcludingIP L useIP endpoint) of
             (Some leftSubnets, Some rightSubnets) \<Rightarrow>
               install_cert_loop L H i endpoint useIP useFamily useNAT onlyConns (subnet_pairs leftSubnets rightSubnets) k
           | _ \<Rightarrow> (k, Some go_must)))"

definition new_connection :: "NATEndpointInfo \<Rightarrow> Connection" where
  "new_connection info = \<lparr>Status = Connected, StatusMessage = [], conn_Endpoint = ep_Spec (ni_Endpoint info),
     UsingIP = ni_UseIP info, UsingNAT = ni_UseNAT info, LatencyRTT = None\<rparr>"

definition connectToEndpointCertMode ::
  "libs \<Rightarrow> 'k ipsecHost \<Rightarrow> NATEndpointInfo \<Rightarrow> 'k libreswan \<Rightarrow> 'k libreswan \<times> string \<times> err option" where
  "connectToEndpointCertMode L H info i =
     (case installCertModeConnections L H i (ep_Spec (ni_Endpoint info)) (ni_UseIP info) (ni_UseFamily info)
             (ni_UseNAT info) None (ls_host i) of
        (k, Some e) \<Rightarrow> (i\<lparr>ls_host := k\<rparr>, [], Some e)
      | (k, None) \<Rightarrow> (i\<lparr>ls_host := k, ls_connections := ls_connections i @ [new_connection info]\<rparr>, ni_UseIP info, None))"

definition disconnectCertMode :: "'k ipsecHost \<Rightarrow> string \<Rightarrow> 'k \<Rightarrow> 'k \<times> err option" where
  "disconnectCertMode H connectionName k =
     apsnd (wrap ''failed to remove connection stanza'') (RemoveConnectionStanza (ih_file H) connectionName k)"

text \<open>A line of \<open>whack --status\<close>, with or without a status code, that starts with a quoted name and a colon.\<close>

definition LoadedConnectionRE :: "string \<Rightarrow> string option" where
  "LoadedConnectionRE line =
     (let s = (if length line \<ge> 4 \<and> list_all is_digit (take 3 line) \<and> line ! 3 = CHR '' '' then drop 4 line else line);
          n = takeWhile (\<lambda>c. c \<noteq> CHR 0x22) (tl s) in
      if s \<noteq> [] \<and> hd s = CHR 0x22 \<and> n \<noteq> [] \<and> has_prefix (drop (length n) (tl s)) [CHR 0x22, CHR '':''] then Some n else None)"

definition retrieveLoadedConnections :: "'k ipsecHost \<Rightarrow> 'k \<Rightarrow> string list result" where
  "retrieveLoadedConnections H k = (case ih_status H k of
      Inl e \<Rightarrow> Inl e
    | Inr lines \<Rightarrow> Inr (List.map_filter LoadedConnectionRE lines))"

definition missedRefreshesKey :: "string \<Rightarrow> IPFamily \<Rightarrow> string" where
  "missedRefreshesKey cableName family = cableName @ ''-v'' @ family_str family"

text \<open>The counters after one refresh, and the connections that have reached the threshold.\<close>

fun count_missed :: "libs \<Rightarrow> Connection list \<Rightarrow> (string \<rightharpoonup> nat) \<Rightarrow> (string \<rightharpoonup> nat) \<times> Connection list" where
  "count_missed L [] m = (m, [])"
| "count_missed L (c # cs) m =
     (let key = missedRefreshesKey (CableName (conn_Endpoint c)) (GetFamily L c);
          n = (case m key of None \<Rightarrow> 0 | Some n \<Rightarrow> n) + 1 in
      if Status c = Connected then count_missed L cs (m(key := None))
      else if n \<ge> certModeReconcileThreshold then apsnd (\<lambda>stale. c # stale) (count_missed L cs (m(key := None)))
      else count_missed L cs (m(key \<mapsto> n)))"

definition missing_names :: "libs \<Rightarrow> EndpointSpec \<Rightarrow> string list \<Rightarrow> Connection \<Rightarrow> string list option" where
  "missing_names L localEndpoint loaded c =
     (case (ExtractSubnetsExcludingIP L (UsingIP c) localEndpoint, ExtractSubnetsExcludingIP L (UsingIP c) (conn_Endpoint c)) of
        (Some localSubnets, Some remoteSubnets) \<Rightarrow>
          Some (filter (\<lambda>n. n \<notin> set loaded) (connection_names (CableName (conn_Endpoint c)) (GetFamily L c)
            (length localSubnets) (length remoteSubnets)))
      | _ \<Rightarrow> None)"

text \<open>An error of a re-installation is only logged.\<close>

fun reinstall ::
  "libs \<Rightarrow> 'k ipsecHost \<Rightarrow> 'k libreswan \<Rightarrow> string list \<Rightarrow> Connection list \<Rightarrow> 'k \<Rightarrow> 'k \<times> err option" where
  "reinstall L H i loaded [] k = (k, None)"
| "reinstall L H i loaded (c # cs) k = (case missing_names L (ls_localEndpoint i) loaded c of
     None \<Rightarrow> (k, Some go_must)
   | Some missing \<Rightarrow>
       if missing = [] then reinstall L H i loaded cs k
       else reinstall L H i loaded cs (fst (installCertModeConnections L H i (conn_Endpoint c) (UsingIP c) (GetFamily L c)
         (UsingNAT c) (Some missing) k)))"

definition reconcileCertModeConnections :: "libs \<Rightarrow> 'k ipsecHost \<Rightarrow> 'k libreswan \<Rightarrow> 'k libreswan \<times> err option" where
  "reconcileCertModeConnections L H i =
     (case count_missed L (ls_connections i) (ls_missedRefreshes i) of (m, stale) \<Rightarrow>
        (let i1 = i\<lparr>ls_missedRefreshes := m\<rparr> in
         if stale = [] then (i1, None)
         else (case retrieveLoadedConnections H (ls_host i1) of
             Inl _ \<Rightarrow> (i1, None)
           | Inr loaded \<Rightarrow> (case reinstall L H i1 loaded stale (ls_host i1) of (k, e) \<Rightarrow> (i1\<lparr>ls_host := k\<rparr>, e)))))"

section \<open>The driver\<close>

definition refreshConnectionStatus :: "libs \<Rightarrow> 'k ipsecHost \<Rightarrow> 'k libreswan \<Rightarrow> 'k libreswan \<times> err option" where
  "refreshConnectionStatus L H i = (case retrieveActiveConnectionStats H (ls_host i) of
      Inl e \<Rightarrow> (i, Some e)
    | Inr (rx, tx) \<Rightarrow>
        (let subnets = (\<lambda>f. ExtractSubnetsExcludingIP L (GetPrivateIP L f (ls_localEndpoint i)) (ls_localEndpoint i)) in
         case (subnets IPv4, subnets IPv6) of
           (Some v4, Some v6) \<Rightarrow>
             (case refresh_loop L rx tx (\<lambda>f. case f of IPv4 \<Rightarrow> v4 | IPv6 \<Rightarrow> v6 | IPFamilyUnknown \<Rightarrow> []) (ls_connections i) of
                None \<Rightarrow> (i, Some go_must)
              | Some cs \<Rightarrow>
                  (let i1 = i\<lparr>ls_connections := cs\<rparr> in
                   if ls_authMode i = AuthModeCert then reconcileCertModeConnections L H i1 else (i1, None)))
         | _ \<Rightarrow> (i, Some go_must)))"

definition ls_GetActiveConnections :: "'k libreswan \<Rightarrow> Connection list result" where
  "ls_GetActiveConnections i = Inr (ls_connections i)"

definition ls_GetConnections :: "libs \<Rightarrow> 'k ipsecHost \<Rightarrow> 'k libreswan \<Rightarrow> 'k libreswan \<times> Connection list result" where
  "ls_GetConnections L H i =
     (if \<not> ls_plutoStarted i then (i, Inr [])
      else (case refreshConnectionStatus L H i of
              (i', Some e) \<Rightarrow> (i', Inl e)
            | (i', None) \<Rightarrow> (i', Inr (ls_connections i'))))"

definition runPluto :: "'k ipsecHost \<Rightarrow> 'k libreswan \<Rightarrow> 'k libreswan \<times> err option" where
  "runPluto H i = (case ih_startPluto H (if ls_debug i then [''--stderrlog''] else []) (ls_logFile i) (ls_host i) of
      (k, Some e) \<Rightarrow> (i\<lparr>ls_host := k\<rparr>, Some (Wrapped ''error starting the Pluto process'' e))
    | (k, None) \<Rightarrow>
        (case ih_waitForControlSocket H k of
           (k1, Some e) \<Rightarrow> (i\<lparr>ls_host := k1\<rparr>, Some (Wrapped ''timed out waiting for the control socket'' e))
         | (k1, None) \<Rightarrow>
             if ls_debug i then (case whack H [''--debug'', ''base''] k1 of (k2, e) \<Rightarrow> (i\<lparr>ls_host := k2\<rparr>, e))
             else (i\<lparr>ls_host := k1\<rparr>, None)))"

definition ensure_pluto :: "'k ipsecHost \<Rightarrow> 'k libreswan \<Rightarrow> 'k libreswan \<times> err option" where
  "ensure_pluto H i = (if ls_plutoStarted i then (i, None)
     else (case runPluto H i of
             (i', Some e) \<Rightarrow> (i', Some (Wrapped ''Error running Pluto'' e))
           | (i', None) \<Rightarrow> (i'\<lparr>ls_plutoStarted := True\<rparr>, None)))"

definition connect_pair ::
  "libs \<Rightarrow> 'k ipsecHost \<Rightarrow> 'k libreswan \<Rightarrow> NATEndpointInfo \<Rightarrow> int \<Rightarrow> nat \<times> nat \<times> string \<times> string \<Rightarrow> 'k \<Rightarrow> 'k \<times> err option" where
  "connect_pair L H i info rightNATTPort = (\<lambda>(lsi, rsi, leftSubnet, rightSubnet).
     let spec = ep_Spec (ni_Endpoint info);
         connectionName = toConnectionName (CableName spec) (ni_UseFamily info) lsi rsi in
     case calculateOperationMode (ls_localEndpoint i) spec of
       operationModeBidirectional \<Rightarrow>
         bidirectionalConnectToEndpoint L H i connectionName info leftSubnet rightSubnet rightNATTPort
     | operationModeServer \<Rightarrow> serverConnectToEndpoint L H i connectionName info leftSubnet rightSubnet lsi rsi
     | operationModeClient \<Rightarrow>
         clientConnectToEndpoint L H i connectionName info leftSubnet rightSubnet rightNATTPort lsi rsi)"

fun connect_pairs ::
  "libs \<Rightarrow> 'k ipsecHost \<Rightarrow> 'k libreswan \<Rightarrow> NATEndpointInfo \<Rightarrow> int \<Rightarrow> (nat \<times> nat \<times> string \<times> string) list \<Rightarrow> 'k \<Rightarrow>
   'k \<times> err option" where
  "connect_pairs L H i info rightNATTPort [] k = (k, None)"
| "connect_pairs L H i info rightNATTPort (p # pairs) k = (case connect_pair L H i info rightNATTPort p k of
     (k', Some e) \<Rightarrow> (k', Some e)
   | (k', None) \<Rightarrow> connect_pairs L H i info rightNATTPort pairs k')"

definition connectToEndpointPSKMode ::
  "libs \<Rightarrow> 'k ipsecHost \<Rightarrow> NATEndpointInfo \<Rightarrow> 'k libreswan \<Rightarrow> 'k libreswan \<times> string \<times> err option" where
  "connectToEndpointPSKMode L H info i0 = (case ensure_pluto H i0 of
      (i, Some e) \<Rightarrow> (i, [], Some e)
    | (i, None) \<Rightarrow>
        (let spec = ep_Spec (ni_Endpoint info) in
         case validateEndpointInputs spec (GetPrivateIP L (ni_UseFamily info) (ls_localEndpoint i)) (ni_UseIP info) of
           Some e \<Rightarrow> (i, [], Some e)
         | None \<Rightarrow>
             (let rightNATTPort = fst (GetBackendPort spec UDPPortConfig (ls_defaultNATTPort i)) in
              case (ExtractSubnetsExcludingIP L (ni_UseIP info) (ls_localEndpoint i),
                    ExtractSubnetsExcludingIP L (ni_UseIP info) spec) of
                (Some leftSubnets, Some rightSubnets) \<Rightarrow>
                  (case whack H [''--listen''] (ls_host i) of
                     (k, Some e) \<Rightarrow> (i\<lparr>ls_host := k\<rparr>, [], Some (Wrapped ''error listening'' e))
                   | (k, None) \<Rightarrow>
                       (case connect_pairs L H i info rightNATTPort (subnet_pairs leftSubnets rightSubnets) k of
                          (k', Some e) \<Rightarrow> (i\<lparr>ls_host := k'\<rparr>, [], Some e)
                        | (k', None) \<Rightarrow>
                            (i\<lparr>ls_host := k', ls_connections := ls_connections i @ [new_connection info]\<rparr>,
                             ni_UseIP info, None)))
              | _ \<Rightarrow> (i, [], Some go_must))))"

definition ls_ConnectToEndpoint ::
  "libs \<Rightarrow> 'k ipsecHost \<Rightarrow> NATEndpointInfo \<Rightarrow> 'k libreswan \<Rightarrow> 'k libreswan \<times> string \<times> err option" where
  "ls_ConnectToEndpoint L H info i =
     (if ls_authMode i = AuthModeCert then connectToEndpointCertMode L H info i else connectToEndpointPSKMode L H info i)"

text \<open>\<open>errors.As\<close> with an \<open>exec.ExitError\<close>.\<close>

fun is_exit_error :: "'k ipsecHost \<Rightarrow> err \<Rightarrow> bool" where
  "is_exit_error H (Wrapped m e) \<longleftrightarrow> ih_isExitError H (Wrapped m e) \<or> is_exit_error H e"
| "is_exit_error H e \<longleftrightarrow> ih_isExitError H e"

definition disconnectPSKMode :: "'k ipsecHost \<Rightarrow> string \<Rightarrow> 'k \<Rightarrow> 'k \<times> err option" where
  "disconnectPSKMode H connectionName k = (case whack H [''--delete'', ''--name'', connectionName] k of
      (k', None) \<Rightarrow> (k', None)
    | (k', Some e) \<Rightarrow> (k', if is_exit_error H e then None else Some (Wrapped ''error deleting a connection'' e)))"

fun disconnect_names :: "('k \<Rightarrow> 'k \<times> err option) list \<Rightarrow> 'k \<Rightarrow> 'k \<times> err option" where
  "disconnect_names [] k = (k, None)"
| "disconnect_names (f # fs) k = (case f k of (k', Some e) \<Rightarrow> (k', Some e) | (k', None) \<Rightarrow> disconnect_names fs k')"

fun ls_removeConnectionForEndpoint :: "libs \<Rightarrow> Connection list \<Rightarrow> EndpointSpec \<Rightarrow> IPFamily \<Rightarrow> Connection list" where
  "ls_removeConnectionForEndpoint L [] endpoint family = []"
| "ls_removeConnectionForEndpoint L (c # cs) endpoint family =
     (if CableName (conn_Endpoint c) = CableName endpoint \<and> GetFamily L c = family then cs
      else c # ls_removeConnectionForEndpoint L cs endpoint family)"

definition ls_DisconnectFromEndpoint ::
  "libs \<Rightarrow> 'k ipsecHost \<Rightarrow> EndpointSpec \<Rightarrow> IPFamily \<Rightarrow> 'k libreswan \<Rightarrow> 'k libreswan \<times> err option" where
  "ls_DisconnectFromEndpoint L H endpoint family i =
     (case (ExtractSubnetsExcludingIP L (GetPrivateIP L family (ls_localEndpoint i)) (ls_localEndpoint i),
            ExtractSubnetsExcludingIP L (GetPrivateIP L family endpoint) endpoint) of
        (Some leftSubnets, Some rightSubnets) \<Rightarrow>
          (let names = connection_names (CableName endpoint) family (length leftSubnets) (length rightSubnets);
               disconnect = (if ls_authMode i = AuthModeCert then disconnectCertMode H else disconnectPSKMode H) in
           case disconnect_names (map disconnect names) (ls_host i) of
             (k, Some e) \<Rightarrow> (i\<lparr>ls_host := k\<rparr>, Some e)
           | (k, None) \<Rightarrow>
               (let i1 = i\<lparr>ls_host := k, ls_connections := ls_removeConnectionForEndpoint L (ls_connections i) endpoint family\<rparr> in
                (if ls_authMode i = AuthModeCert
                 then i1\<lparr>ls_missedRefreshes := (ls_missedRefreshes i1)(missedRefreshesKey (CableName endpoint) family := None)\<rparr>
                 else i1, None)))
      | _ \<Rightarrow> (i, Some go_must))"

text \<open>Errors of the removal of the file are ignored.\<close>

definition ls_Cleanup :: "'k ipsecHost \<Rightarrow> 'k libreswan \<Rightarrow> 'k libreswan \<times> err option" where
  "ls_Cleanup H i =
     (let k = (if ls_certificateHandler i then ih_cleanupCertificates H (ls_host i) else ls_host i) in
      (i\<lparr>ls_host := fst (cf_Remove (ih_file H) k)\<rparr>, None))"

definition libreswanDriver :: "libs \<Rightarrow> 'k ipsecHost \<Rightarrow> 'k libreswan Driver" where
  "libreswanDriver L H = \<lparr>drv_Name = ''libreswan'', drv_Init = ls_Init H,
     drv_GetActiveConnections = ls_GetActiveConnections, drv_GetConnections = ls_GetConnections L H,
     drv_ConnectToEndpoint = ls_ConnectToEndpoint L H, drv_DisconnectFromEndpoint = ls_DisconnectFromEndpoint L H,
     drv_Cleanup = ls_Cleanup H\<rparr>"

text \<open>The constructor as the registry has it, on a local endpoint object that is its own; the resource is written through
  the client.\<close>

definition create_libreswan ::
  "libs \<Rightarrow> 'c endpointClient \<Rightarrow> (string \<Rightarrow> string result) \<Rightarrow> string \<Rightarrow> ipSecSpec result \<Rightarrow> string \<Rightarrow> int \<Rightarrow> 'k \<Rightarrow> 'c \<Rightarrow>
   'k libreswan DriverCreateFunc" where
  "create_libreswan L C readFile rootDir envSpec envPreferred now k c spec cluster =
     snd (NewLibreswan L C readFile rootDir envSpec envPreferred now k (NewLocal spec) c)"

end
