(* ===== verification/LibreswanProps.thy ===== *)
theory LibreswanProps
  imports Libreswan CableEngineProps
begin

text \<open>
  Properties of the libreswan driver: it is a \<open>cable_driver\<close>, so that what the cable engine promises holds with it; the
  two ends of a connection agree on roles, identifiers and subnets; what is connected is deleted again; the status of a
  connection follows the traffic status of Pluto; in certificate mode dropped connections are re-installed.
\<close>

section \<open>The driver is a cable driver\<close>

definition ls_inv :: "libs \<Rightarrow> string \<Rightarrow> 'k libreswan \<Rightarrow> bool" where
  "ls_inv L localID i \<longleftrightarrow> libs_ok L \<and> ClusterID (ls_localEndpoint i) = localID \<and>
     distinct (map (conn_key L) (ls_connections i))"

lemma ls_removeConnection_filter:
  "distinct (map (conn_key L) cs) \<Longrightarrow>
   ls_removeConnectionForEndpoint L cs spec family = filter (\<lambda>c. conn_key L c \<noteq> (CableName spec, family)) cs"
proof (induction cs)
  case (Cons c cs)
  then show ?case
    by (auto simp: conn_key_def image_iff intro!: filter_True [symmetric])
qed simp

lemma runPluto_frame [frame_simps]:
  "runPluto H i = (i', e) \<Longrightarrow> ls_connections i' = ls_connections i \<and> ls_localEndpoint i' = ls_localEndpoint i"
  by (auto simp: runPluto_def split: prod.split_asm option.split_asm if_split_asm)

lemma ensure_pluto_frame [frame_simps]:
  "ensure_pluto H i = (i', e) \<Longrightarrow> ls_connections i' = ls_connections i \<and> ls_localEndpoint i' = ls_localEndpoint i"
  by (auto simp: ensure_pluto_def dest!: runPluto_frame split: prod.split_asm option.split_asm if_split_asm)

lemma validated_address: "validateEndpointInputs spec localIP remoteIP = None \<Longrightarrow> ParseIP remoteIP \<noteq> None \<and> ParseIP localIP \<noteq> None"
  by (auto simp: validateEndpointInputs_def split: option.split_asm if_split_asm)

lemma ls_connect_cases:
  assumes "ls_ConnectToEndpoint L H info i = (i', ip, e)"
  shows "ls_localEndpoint i' = ls_localEndpoint i \<and>
    (if e = None then ParseIP (ni_UseIP info) \<noteq> None \<and> ls_connections i' = ls_connections i @ [new_connection info]
     else ls_connections i' = ls_connections i)"
proof (cases "ls_authMode i = AuthModeCert")
  case True
  with assms show ?thesis
    by (auto simp: ls_ConnectToEndpoint_def connectToEndpointCertMode_def installCertModeConnections_def
        dest: validated_address split: prod.split_asm option.split_asm)
next
  case False
  obtain i1 e1 where p: "ensure_pluto H i = (i1, e1)" by fastforce
  note fr = ensure_pluto_frame [OF p]
  define v where "v = validateEndpointInputs (ep_Spec (ni_Endpoint info))
    (GetPrivateIP L (ni_UseFamily info) (ls_localEndpoint i)) (ni_UseIP info)"
  then have "v = None \<Longrightarrow> ParseIP (ni_UseIP info) \<noteq> None" using validated_address by metis
  moreover have "v = None \<or> (i1, [], v) = (i', ip, e) \<or> e1 \<noteq> None"
    using assms False p fr
    by (auto simp: ls_ConnectToEndpoint_def connectToEndpointPSKMode_def v_def split: option.split_asm)
  ultimately show ?thesis using assms False p fr
    by (cases v) (auto simp: ls_ConnectToEndpoint_def connectToEndpointPSKMode_def Let_def v_def [symmetric]
        split: prod.split_asm option.split_asm)
qed

lemma ls_disconnect_cases:
  assumes "ls_DisconnectFromEndpoint L H spec family i = (i', e)"
  shows "ls_localEndpoint i' = ls_localEndpoint i \<and>
    ls_connections i' = (if e = None then ls_removeConnectionForEndpoint L (ls_connections i) spec family else ls_connections i)"
  using assms by (auto simp: ls_DisconnectFromEndpoint_def Let_def split: prod.split_asm option.split_asm if_split_asm)

lemma refresh_loop_map:
  "refresh_loop L rx tx local' cs = Some cs' \<Longrightarrow>
   cs' = map (\<lambda>c. case refresh_connection L rx tx local' c of None \<Rightarrow> c | Some (c', _) \<Rightarrow> c') cs"
  by (induction cs arbitrary: cs') (auto split: option.split_asm)

lemma refresh_connection_status:
  "(case refresh_connection L rx tx local' c of None \<Rightarrow> c | Some (c', _) \<Rightarrow> c') =
   c\<lparr>Status := Status (case refresh_connection L rx tx local' c of None \<Rightarrow> c | Some (c', _) \<Rightarrow> c')\<rparr>"
  by (auto simp: refresh_connection_def Let_def split: option.split)

lemma reconcile_frame [frame_simps]:
  "reconcileCertModeConnections L H i = (i', e) \<Longrightarrow>
   ls_connections i' = ls_connections i \<and> ls_localEndpoint i' = ls_localEndpoint i"
  by (auto simp: reconcileCertModeConnections_def Let_def split: prod.split_asm if_split_asm sum.split_asm)

lemma ls_GetConnections_cases:
  assumes "ls_GetConnections L H i = (i', r)"
  obtains f where "ls_localEndpoint i' = ls_localEndpoint i" "ls_connections i' = map f (ls_connections i)"
    "\<forall>c. f c = c\<lparr>Status := Status (f c)\<rparr>"
proof -
  consider "i' = i" | cs rx tx local' where "refresh_loop L rx tx local' (ls_connections i) = Some cs"
      "ls_connections i' = cs" "ls_localEndpoint i' = ls_localEndpoint i"
    using assms
    by (auto simp: ls_GetConnections_def refreshConnectionStatus_def Let_def dest!: reconcile_frame
        split: if_split_asm prod.split_asm option.split_asm sum.split_asm)
  then show thesis
  proof cases
    case 1
    then show thesis by (intro that [of "\<lambda>c. c"]) simp_all
  next
    case 2
    show thesis
      by (rule that [OF 2(3), unfolded 2(2), OF refresh_loop_map [OF 2(1)]]) (intro allI refresh_connection_status)
  qed
qed

lemma ls_connect_inv:
  assumes "ls_inv L localID i" "ls_ConnectToEndpoint L H info i = (i', ip, None)"
    "(CableName (ep_Spec (ni_Endpoint info)), IPFamilyOfString L (ni_UseIP info)) \<notin> conn_key L ` set (ls_connections i)"
  shows "ls_inv L localID i' \<and> ls_connections i' = ls_connections i @ [new_connection info]"
proof -
  have "conn_key L (new_connection info) = (CableName (ep_Spec (ni_Endpoint info)), IPFamilyOfString L (ni_UseIP info))"
    by (simp add: conn_key_def new_connection_def GetFamily_def)
  with ls_connect_cases [OF assms(2)] assms(1,3) show ?thesis by (auto simp: ls_inv_def)
qed

interpretation libreswan: cable_driver L "libreswanDriver L H" "ls_inv L localID" localID for L H localID
proof unfold_locales
  fix i :: "'a libreswan"
  show "\<exists>cs. drv_GetActiveConnections (libreswanDriver L H) i = Inr cs"
    by (simp add: libreswanDriver_def ls_GetActiveConnections_def)
next
  fix i i' :: "'a libreswan" and cs info ip
  assume i: "ls_inv L localID i" and cs: "drv_GetActiveConnections (libreswanDriver L H) i = Inr cs"
    and c: "drv_ConnectToEndpoint (libreswanDriver L H) info i = (i', ip, None)"
    and new: "(CableName (ep_Spec (ni_Endpoint info)), IPFamilyOfString L (ni_UseIP info)) \<notin> conn_key L ` set cs"
  have "ls_ConnectToEndpoint L H info i = (i', ip, None)" using c by (simp add: libreswanDriver_def)
  from ls_connect_inv [OF i this] cs new
  show "ls_inv L localID i' \<and> (\<exists>c cs'. drv_GetActiveConnections (libreswanDriver L H) i' = Inr cs' \<and>
      conn_of info c \<and> set cs' = insert c (set cs))"
    by (intro conjI exI [of _ "new_connection info"] exI [of _ "cs @ [new_connection info]"])
      (simp_all add: libreswanDriver_def ls_GetActiveConnections_def conn_of_def new_connection_def)
next
  fix i i' :: "'a libreswan" and info ip
  assume i: "ls_inv L localID i" and "drv_ConnectToEndpoint (libreswanDriver L H) info i = (i', ip, None)"
  then have "ls_ConnectToEndpoint L H info i = (i', ip, None)" by (simp add: libreswanDriver_def)
  from ls_connect_cases [OF this] parsed_family [of L "ni_UseIP info"] i
  show "ni_UseIP info \<noteq> [] \<and> IPFamilyOfString L (ni_UseIP info) \<noteq> IPFamilyUnknown"
    by (simp add: ls_inv_def)
next
  fix i i' :: "'a libreswan" and cs info ip e
  assume i: "ls_inv L localID i" and cs: "drv_GetActiveConnections (libreswanDriver L H) i = Inr cs"
    and "drv_ConnectToEndpoint (libreswanDriver L H) info i = (i', ip, Some e)"
  then have "ls_ConnectToEndpoint L H info i = (i', ip, Some e)" by (simp add: libreswanDriver_def)
  from ls_connect_cases [OF this] i cs
  show "ls_inv L localID i' \<and> (\<exists>cs'. drv_GetActiveConnections (libreswanDriver L H) i' = Inr cs' \<and> set cs' = set cs)"
    by (simp add: libreswanDriver_def ls_GetActiveConnections_def ls_inv_def)
next
  fix i i' :: "'a libreswan" and cs spec family
  assume i: "ls_inv L localID i" and cs: "drv_GetActiveConnections (libreswanDriver L H) i = Inr cs"
    and "drv_DisconnectFromEndpoint (libreswanDriver L H) spec family i = (i', None)"
  then have "ls_DisconnectFromEndpoint L H spec family i = (i', None)" by (simp add: libreswanDriver_def)
  from ls_disconnect_cases [OF this] i cs ls_removeConnection_filter [of L "ls_connections i" spec family]
  show "ls_inv L localID i' \<and> (\<exists>cs'. drv_GetActiveConnections (libreswanDriver L H) i' = Inr cs' \<and>
      set cs' = {c \<in> set cs. conn_key L c \<noteq> (CableName spec, family)})"
    by (auto simp: libreswanDriver_def ls_GetActiveConnections_def ls_inv_def distinct_map_filter)
next
  fix i i' :: "'a libreswan" and cs spec family e
  assume i: "ls_inv L localID i" and cs: "drv_GetActiveConnections (libreswanDriver L H) i = Inr cs"
    and "drv_DisconnectFromEndpoint (libreswanDriver L H) spec family i = (i', Some e)"
  then have "ls_DisconnectFromEndpoint L H spec family i = (i', Some e)" by (simp add: libreswanDriver_def)
  from ls_disconnect_cases [OF this] i cs
  show "ls_inv L localID i' \<and> (\<exists>cs'. drv_GetActiveConnections (libreswanDriver L H) i' = Inr cs' \<and> set cs' = set cs)"
    by (simp add: libreswanDriver_def ls_GetActiveConnections_def ls_inv_def)
next
  fix i i' :: "'a libreswan" and cs r
  assume i: "ls_inv L localID i" and cs: "drv_GetActiveConnections (libreswanDriver L H) i = Inr cs"
    and "drv_GetConnections (libreswanDriver L H) i = (i', r)"
  then have "ls_GetConnections L H i = (i', r)" by (simp add: libreswanDriver_def)
  then obtain f where f: "ls_localEndpoint i' = ls_localEndpoint i" "ls_connections i' = map f (ls_connections i)"
    "\<forall>c. f c = c\<lparr>Status := Status (f c)\<rparr>" by (rule ls_GetConnections_cases)
  have "conn_key L (f c) = conn_key L c" for c
    by (subst spec [OF f(3)]) (simp add: conn_key_def GetFamily_def)
  then have "map (conn_key L) (ls_connections i') = map (conn_key L) (ls_connections i)" by (simp add: f(2))
  then have "ls_inv L localID i'" using i f(1) unfolding ls_inv_def by simp
  moreover have "drv_GetActiveConnections (libreswanDriver L H) i' = Inr (map f cs)"
    using cs f(2) by (simp add: libreswanDriver_def ls_GetActiveConnections_def)
  ultimately show "ls_inv L localID i' \<and> (\<exists>f cs'. drv_GetActiveConnections (libreswanDriver L H) i' = Inr cs' \<and>
      set cs' = f ` set cs \<and> (\<forall>c. f c = c\<lparr>Status := Status (f c)\<rparr>))"
    using f(3) by (intro conjI exI [of _ f] exI [of _ "map f cs"]) simp_all
qed

text \<open>The registry with the libreswan driver, as its \<open>init\<close> function leaves it.\<close>

definition libreswan_drivers ::
  "libs \<Rightarrow> 'c endpointClient \<Rightarrow> (string \<Rightarrow> string result) \<Rightarrow> string \<Rightarrow> ipSecSpec result \<Rightarrow> string \<Rightarrow> int \<Rightarrow> 'k \<Rightarrow> 'c \<Rightarrow>
   'k libreswan drivers" where
  "libreswan_drivers L C readFile rootDir envSpec envPreferred now k c =
     [''libreswan'' \<mapsto> create_libreswan L C readFile rootDir envSpec envPreferred now k c]"

lemma NewLibreswan_ok:
  assumes "snd (NewLibreswan L C readFile rootDir envSpec env now k (NewLocal spec) c) = Inr i"
  shows "ls_connections i = [] \<and> ClusterID (ls_localEndpoint i) = ClusterID spec"
  using assms
  by (auto simp: NewLibreswan_def processPreferredServerConfig_def Update_def NewLocal_def Spec_def Let_def apsnd_def map_prod_def
      split: sum.split_asm if_split_asm option.split_asm prod.split_asm)

lemma ls_Init_frame [frame_simps]:
  "ls_Init H i = (i', e) \<Longrightarrow> ls_connections i' = ls_connections i \<and> ls_localEndpoint i' = ls_localEndpoint i"
  by (auto simp: ls_Init_def split: if_split_asm prod.split_asm)

interpretation libreswan: engine_driver L "libreswanDriver L H" "ls_inv L localID" localID
  "libreswan_drivers L C readFile rootDir envSpec env now k c" for L H localID C readFile rootDir envSpec env now k c
proof unfold_locales
  fix spec cluster and i :: "'a libreswan"
  assume "NewDriver (libreswan_drivers L C readFile rootDir envSpec env now k c) spec cluster = Inr i"
    and "libs_ok L" "ClusterID spec = localID"
  moreover from this(1) have "snd (NewLibreswan L C readFile rootDir envSpec env now k (NewLocal spec) c) = Inr i"
    by (auto simp: NewDriver_def libreswan_drivers_def create_libreswan_def split: option.split_asm if_split_asm)
  ultimately show "ls_inv L localID i \<and> drv_GetActiveConnections (libreswanDriver L H) i = Inr []"
    using NewLibreswan_ok [of L C readFile rootDir envSpec env now k spec c i]
    by (simp add: ls_inv_def libreswanDriver_def ls_GetActiveConnections_def)
next
  fix i i' :: "'a libreswan" and e
  assume i: "ls_inv L localID i" and "drv_GetActiveConnections (libreswanDriver L H) i = Inr []"
    and "drv_Init (libreswanDriver L H) i = (i', e)"
  then show "ls_inv L localID i' \<and> drv_GetActiveConnections (libreswanDriver L H) i' = Inr []"
    using ls_Init_frame [of H i i' e] by (auto simp: ls_inv_def libreswanDriver_def ls_GetActiveConnections_def)
qed

lemma libreswan_act [simp]: "libreswan.act L H i = set (ls_connections i)"
  by (rule libreswan.act_eq) (simp add: libreswanDriver_def ls_GetActiveConnections_def)

section \<open>The engine with the libreswan driver\<close>

text \<open>C6: In every run of the cable engine with NAT discovery and the libreswan driver, with pre-shared keys or with
  certificates and whatever the host answers, at most one connection belongs to each remote cluster and IP family, none
  to the local cluster, and the list that the driver keeps has no duplicates.\<close>

theorem libreswan_run_inv:
  assumes "libs_ok L"
    and "engine_reachable L T (libreswanDriver L H) (libreswan_drivers L C readFile rootDir envSpec env now k c) owner localID e"
    and "en_driver e = Some i"
  shows "inj_on (cluster_family L) (set (ls_connections i)) \<and> distinct (ls_connections i) \<and>
    (\<forall>x\<in>set (ls_connections i). ClusterID (conn_Endpoint x) \<noteq> localID)"
  using libreswan.engine_reachable_inv [OF assms(2,1)] assms(3)
  by (auto simp: engine_inv_def conns_ok_def ls_inv_def distinct_map)

text \<open>
  A host, for the witnesses: the names of the connections loaded in Pluto and the text of the connection file. Every
  loaded connection has traffic.
\<close>

type_synonym ref_ipsec = "string list \<times> string option"

fun arg_after :: "string \<Rightarrow> string list \<Rightarrow> string" where
  "arg_after f (x # y # ys) = (if x = f then y else arg_after f (y # ys))"
| "arg_after f _ = []"

definition ref_whack :: "string list \<Rightarrow> ref_ipsec \<Rightarrow> ref_ipsec \<times> err option" where
  "ref_whack args k = (let n = arg_after ''--name'' args in
     if hd args = ''--psk'' then ((List.insert n (fst k), snd k), None)
     else if hd args = ''--delete'' then ((removeAll n (fst k), snd k), None)
     else (k, None))"

definition ref_host :: "ref_ipsec ipsecHost" where
  "ref_host = \<lparr>ih_file = \<lparr>cf_ReadFile = (\<lambda>k. Inr (snd k)), cf_WriteFile = (\<lambda>s k. ((fst k, Some s), None)),
       cf_Remove = (\<lambda>k. ((fst k, None), None)),
       cf_OpenAppend = (\<lambda>k. ((fst k, Some (case snd k of None \<Rightarrow> [] | Some d \<Rightarrow> d)), None)),
       cf_WriteString = (\<lambda>s k. ((fst k, map_option (\<lambda>d. d @ s) (snd k)), None))\<rparr>,
     ih_whack = ref_whack,
     ih_trafficstatus = (\<lambda>k. Inr (map (\<lambda>n. ''006 #1: '' @ CHR 0x22 # n @ CHR 0x22 #
       '', inBytes=10, outBytes=20'') (fst k))),
     ih_status = (\<lambda>k. Inr (map (\<lambda>n. CHR 0x22 # n @ [CHR 0x22, CHR '':'']) (fst k))),
     ih_auto_add = (\<lambda>n k. ((List.insert n (fst k), snd k), None)),
     ih_startPluto = (\<lambda>_ _ k. (k, None)), ih_waitForControlSocket = (\<lambda>k. (k, None)),
     ih_writeSecrets = (\<lambda>_ k. (k, None)), ih_Issue = (\<lambda>_ _ k. (k, None)), ih_cleanupCertificates = (\<lambda>k. k),
     ih_isExitError = (\<lambda>_. False)\<rparr>"

definition ref_spec :: "string \<Rightarrow> ipSecSpec" where
  "ref_spec mode = \<lparr>sp_Debug = False, sp_ForceEncaps = False, sp_PSK = ''secret'', sp_PSKSecret = [], sp_LogFile = [],
     sp_NATTPort = ''4500'', sp_AuthMode = mode\<rparr>"

definition ref_client :: "unit endpointClient" where
  "ref_client = \<lparr>ec_MustUpdate = (\<lambda>ep f k. (k, Inr (f (ep_Spec ep)))), ec_CreateOrUpdate = (\<lambda>_ k. (k, None))\<rparr>"

definition ls_drivers :: "string \<Rightarrow> ref_ipsec libreswan drivers" where
  "ls_drivers mode = libreswan_drivers ref_libs ref_client (\<lambda>_. Inl (Err ''no file'')) [] (Inr (ref_spec mode)) [] 0 ([], None) ()"

definition ls_run1 :: "ref_ipsec libreswan engine" where
  "ls_run1 = fst (StartEngine (libreswanDriver ref_libs ref_host) (ls_drivers AuthModePSK)
     (SetupNATDiscovery example_nd (NewEngine vx_cluster (vx_local\<lparr>Backend := ''libreswan''\<rparr>))))"

definition ls_run2 :: "ref_ipsec libreswan engine" where
  "ls_run2 = fst (InstallCable ref_libs init_timeouts 5 (west 100) IPv4 ls_run1)"

definition ls_run3 :: "ref_ipsec libreswan engine" where
  "ls_run3 = (case en_nat ls_run2 of None \<Rightarrow> ls_run2 | Some nd \<Rightarrow> (case nd_ready nd of [] \<Rightarrow> ls_run2
     | info # rest \<Rightarrow> fst (installCableWithNATInfo ref_libs (libreswanDriver ref_libs ref_host) info
         (ls_run2\<lparr>en_nat := Some (nd\<lparr>nd_ready := rest\<rparr>)\<rparr>))))"

abbreviation ls_reachable :: "ref_ipsec libreswan engine \<Rightarrow> bool" where
  "ls_reachable e \<equiv> engine_reachable ref_libs init_timeouts (libreswanDriver ref_libs ref_host) (ls_drivers AuthModePSK)
     example_owner ''east'' e"

lemma ls_run3_reachable: "ls_reachable ls_run3"
proof -
  have "ls_reachable (NewEngine vx_cluster (vx_local\<lparr>Backend := ''libreswan''\<rparr>))"
    by (rule engine_reachable.new) (simp_all add: vx_cluster_def vx_local_def example_spec_def)
  then have "ls_reachable (SetupNATDiscovery example_nd (NewEngine vx_cluster (vx_local\<lparr>Backend := ''libreswan''\<rparr>)))"
    using engine_step.attach [OF example_nd_new] by (rule engine_reachable.step)
  then have "ls_reachable ls_run1"
    unfolding ls_run1_def using engine_step.start by (rule engine_reachable.step)
  then have r2: "ls_reachable ls_run2"
    unfolding ls_run2_def using engine_step.install [OF example_ep_named] by (rule engine_reachable.step)
  have "\<not> Option.is_none (en_nat ls_run2)" by code_simp
  then obtain nd where nd: "en_nat ls_run2 = Some nd" by (cases "en_nat ls_run2") simp_all
  have "map_option (\<lambda>nd. nd_ready nd = []) (en_nat ls_run2) = Some False" by code_simp
  then obtain info rest where ready: "nd_ready nd = info # rest" by (cases "nd_ready nd") (simp_all add: nd)
  from engine_reachable.step [OF r2 engine_step.consume [OF nd ready]] show ?thesis
    by (simp add: ls_run3_def nd ready)
qed

theorem libreswan_run_inv_witness:
  "\<exists>i. en_driver ls_run3 = Some i \<and> distinct (ls_connections i) \<and> map UsingIP (ls_connections i) = [''10.0.0.2''] \<and>
     fst (ls_host i) = [''submariner-cable-west-10-0-0-2-v4-0-0'']"
proof -
  have h: "map_option (\<lambda>i. (map UsingIP (ls_connections i), fst (ls_host i))) (en_driver ls_run3) =
      Some ([''10.0.0.2''], [''submariner-cable-west-10-0-0-2-v4-0-0''])" by code_simp
  then obtain i where i: "en_driver ls_run3 = Some i" by (cases "en_driver ls_run3") simp_all
  from libreswan_run_inv [OF ref_libs_ok ls_run3_reachable [unfolded ls_drivers_def] i] h i show ?thesis by auto
qed

section \<open>Both ends of a connection\<close>

text \<open>The arguments of the command that loads a connection.\<close>

definition pair_args ::
  "libs \<Rightarrow> 'k libreswan \<Rightarrow> NATEndpointInfo \<Rightarrow> int \<Rightarrow> nat \<times> nat \<times> string \<times> string \<Rightarrow> string list" where
  "pair_args L i info port = (\<lambda>(lsi, rsi, leftSubnet, rightSubnet).
     let spec = ep_Spec (ni_Endpoint info); n = toConnectionName (CableName spec) (ni_UseFamily info) lsi rsi in
     case calculateOperationMode (ls_localEndpoint i) spec of
       operationModeBidirectional \<Rightarrow> bidirectional_args L i n info leftSubnet rightSubnet port
     | operationModeServer \<Rightarrow> server_args L i n info leftSubnet rightSubnet lsi rsi
     | operationModeClient \<Rightarrow> client_args L i n info leftSubnet rightSubnet port lsi rsi)"

lemma connect_pair_args:
  "connect_pair L H i info port (lsi, rsi, s, t) k =
   (let spec = ep_Spec (ni_Endpoint info) in
    whack_all H (pair_args L i info port (lsi, rsi, s, t) #
      (if calculateOperationMode (ls_localEndpoint i) spec = operationModeServer then []
       else initiate_args (toConnectionName (CableName spec) (ni_UseFamily info) lsi rsi))) k)"
  by (simp add: connect_pair_def pair_args_def bidirectionalConnectToEndpoint_def serverConnectToEndpoint_def
      clientConnectToEndpoint_def Let_def split: operationMode.split)

text \<open>The command loads a connection between the subnets \<open>s\<close> and \<open>t\<close>, this end with the identifier \<open>a\<close> and the other
  with \<open>b\<close>.\<close>

definition describes :: "string list \<Rightarrow> string \<Rightarrow> string \<Rightarrow> string \<Rightarrow> string \<Rightarrow> bool" where
  "describes args a s b t \<longleftrightarrow> (\<exists>enc n fam h h' post port.
     args = [''--psk'', ''--encrypt'', enc, ''--name'', n, fam, ''--id'', a, ''--host'', h, ''--client'', s,
       ''--to'', ''--id'', b, ''--host'', h', ''--client'', t] @ post \<or>
     args = [''--psk'', ''--encrypt'', enc, ''--name'', n, fam, ''--id'', a, ''--host'', h, ''--client'', s, ''--ikeport'', port,
       ''--to'', ''--id'', b, ''--host'', h', ''--client'', t] @ post)"

definition end_id :: "libs \<Rightarrow> operationMode \<Rightarrow> IPFamily \<Rightarrow> EndpointSpec \<Rightarrow> nat \<Rightarrow> nat \<Rightarrow> string" where
  "end_id L mode f spec lsi rsi = (if mode = operationModeBidirectional then GetPrivateIP L f spec
     else toEndpointIdentifier (GetPrivateIP L f spec) lsi rsi)"

lemma pair_args_describes:
  fixes i :: "'k libreswan"
  defines "mode \<equiv> \<lambda>i info. calculateOperationMode (ls_localEndpoint i) (ep_Spec (ni_Endpoint info))"
  shows "describes (pair_args L i info port (lsi, rsi, s, t))
    (end_id L (mode i info) (ni_UseFamily info) (ls_localEndpoint i) lsi rsi) s
    (end_id L (mode i info) (ni_UseFamily info) (ep_Spec (ni_Endpoint info)) rsi lsi) t"
  by (cases "mode i info")
    (simp_all add: mode_def describes_def pair_args_def end_id_def Let_def encaps_args_def dpd_args_def bidirectional_args_def
      server_args_def client_args_def)

lemma string_less_irrefl: "\<not> string_less s s"
  by (induction s) auto

lemma string_less_total: "s \<noteq> t \<Longrightarrow> string_less s t \<or> string_less t s"
proof (induction s t rule: string_less.induct)
  case (3 c s d t)
  have "(of_char c :: nat) = of_char d \<longleftrightarrow> c = d" by (simp add: of_char_eq_iff)
  with 3 show ?case by auto
qed (auto elim: string_less.elims simp: neq_Nil_conv)

lemma string_less_asym: "string_less s t \<Longrightarrow> \<not> string_less t s"
  by (induction s t rule: string_less.induct) auto

lemma modes_complementary:
  assumes "CableName a \<noteq> CableName b"
  shows "(calculateOperationMode a b, calculateOperationMode b a) \<in>
    {(operationModeBidirectional, operationModeBidirectional), (operationModeServer, operationModeClient),
     (operationModeClient, operationModeServer)}"
  using string_less_total [OF assms] string_less_asym [of "CableName a" "CableName b"]
    string_less_asym [of "CableName b" "CableName a"]
  by (auto simp: calculateOperationMode_def Let_def)

text \<open>Among the commands is the one that starts the negotiation of a connection.\<close>

definition initiates :: "string \<Rightarrow> string list list \<Rightarrow> bool" where
  "initiates n cmds \<longleftrightarrow> [''--initiate'', ''--asynchronous'', ''--name'', n] \<in> set cmds"

definition pair_cmds ::
  "libs \<Rightarrow> 'k libreswan \<Rightarrow> NATEndpointInfo \<Rightarrow> int \<Rightarrow> nat \<times> nat \<times> string \<times> string \<Rightarrow> string list list" where
  "pair_cmds L i info port p = (let spec = ep_Spec (ni_Endpoint info) in pair_args L i info port p #
     (if calculateOperationMode (ls_localEndpoint i) spec = operationModeServer then []
      else initiate_args (toConnectionName (CableName spec) (ni_UseFamily info) (fst p) (fst (snd p)))))"

lemma connect_pair_cmds: "connect_pair L H i info port p k = whack_all H (pair_cmds L i info port p) k"
  by (cases p) (simp add: connect_pair_args pair_cmds_def Let_def)

lemma pair_cmds_initiates:
  "initiates (toConnectionName (CableName (ep_Spec (ni_Endpoint info))) (ni_UseFamily info) lsi rsi) (pair_cmds L i info port (lsi, rsi, s, t)) \<longleftrightarrow>
   calculateOperationMode (ls_localEndpoint i) (ep_Spec (ni_Endpoint info)) \<noteq> operationModeServer"
proof -
  have "[''--initiate'', x, y, z] \<noteq> pair_args L i info port (lsi, rsi, s, t)" for x y z
    using pair_args_describes [of L i info port lsi rsi s t] by (auto simp: describes_def)
  then show ?thesis by (auto simp: initiates_def pair_cmds_def initiate_args_def Let_def)
qed

text \<open>C20: The gateways at the two ends of a cable run matching commands for a pair of subnets: both are bidirectional, or one is the server
  and the other the client; the first command of each end loads a connection in which its identifier and subnet are the ones the other end
  expects of its peer; an end that is not the server then initiates the connection, so at least one of them does.\<close>

theorem libreswan_ends_agree:
  assumes "CableName (ls_localEndpoint i) \<noteq> CableName (ls_localEndpoint j)"
    and "ep_Spec (ni_Endpoint to_j) = ls_localEndpoint j" and "ep_Spec (ni_Endpoint to_i) = ls_localEndpoint i"
    and "ni_UseFamily to_i = ni_UseFamily to_j"
  shows "(calculateOperationMode (ls_localEndpoint i) (ls_localEndpoint j),
      calculateOperationMode (ls_localEndpoint j) (ls_localEndpoint i)) \<in>
      {(operationModeBidirectional, operationModeBidirectional), (operationModeServer, operationModeClient),
       (operationModeClient, operationModeServer)} \<and>
    (\<exists>a b ci cj. (\<forall>H k. connect_pair L H i to_j port_j (m, n, s, t) k = whack_all H ci k) \<and>
       (\<forall>H k. connect_pair L H j to_i port_i (n, m, t, s) k = whack_all H cj k) \<and>
       describes (hd ci) a s b t \<and> describes (hd cj) b t a s \<and>
       (initiates (toConnectionName (CableName (ls_localEndpoint j)) (ni_UseFamily to_j) m n) ci \<longleftrightarrow>
          calculateOperationMode (ls_localEndpoint i) (ls_localEndpoint j) \<noteq> operationModeServer) \<and>
       (initiates (toConnectionName (CableName (ls_localEndpoint j)) (ni_UseFamily to_j) m n) ci \<or>
        initiates (toConnectionName (CableName (ls_localEndpoint i)) (ni_UseFamily to_i) n m) cj))"
proof -
  note mc = modes_complementary [OF assms(1)]
  let ?ci = "pair_cmds L i to_j port_j (m, n, s, t)" and ?cj = "pair_cmds L j to_i port_i (n, m, t, s)"
  have hd: "hd ?ci = pair_args L i to_j port_j (m, n, s, t)" "hd ?cj = pair_args L j to_i port_i (n, m, t, s)"
    by (simp_all add: pair_cmds_def Let_def)
  have "\<exists>a b. describes (hd ?ci) a s b t \<and> describes (hd ?cj) b t a s"
    using pair_args_describes [of L i to_j port_j m n s t] pair_args_describes [of L j to_i port_i n m t s] mc
    unfolding hd assms(2-4) by (intro exI conjI) (assumption, auto simp: end_id_def)
  then obtain a b where ab: "describes (hd ?ci) a s b t" "describes (hd ?cj) b t a s" by blast
  note ini = pair_cmds_initiates [of to_j m n L i port_j s t, unfolded assms(2)] pair_cmds_initiates [of to_i n m L j port_i t s, unfolded assms(3)]
  have one: "initiates (toConnectionName (CableName (ls_localEndpoint j)) (ni_UseFamily to_j) m n) ?ci \<or>
      initiates (toConnectionName (CableName (ls_localEndpoint i)) (ni_UseFamily to_i) n m) ?cj"
    using mc unfolding ini by auto
  show ?thesis
    by (intro conjI exI [of _ a] exI [of _ b] exI [of _ ?ci] exI [of _ ?cj] allI connect_pair_cmds mc ab ini(1) one)
qed

definition ls_gateway :: "EndpointSpec \<Rightarrow> ref_ipsec libreswan" where
  "ls_gateway spec = \<lparr>ls_localEndpoint = spec, ls_connections = [], ls_secretKey = [], ls_logFile = [],
     ls_ipSecNATTPort = ''4500'', ls_defaultNATTPort = 4500, ls_debug = False, ls_forceUDPEncapsulation = False,
     ls_plutoStarted = True, ls_authMode = AuthModePSK, ls_certificateHandler = False, ls_missedRefreshes = Map.empty,
     ls_host = ([], None)\<rparr>"

definition ls_east :: EndpointSpec where
  "ls_east = vx_local\<lparr>Subnets := [''10.1.0.0/16''], PrivateIPs := [''10.0.0.1''], BackendConfig := fmupd PreferredServerConfig ''true'' fmempty\<rparr>"

definition info_for :: "EndpointSpec \<Rightarrow> string \<Rightarrow> NATEndpointInfo" where
  "info_for spec ip = \<lparr>ni_Endpoint = (west 1)\<lparr>ep_Spec := spec\<rparr>, ni_UseNAT = False, ni_UseIP = ip, ni_UseFamily = IPv4\<rparr>"

theorem libreswan_ends_agree_witness:
  "calculateOperationMode ls_east (ep_Spec (west 1)) = operationModeServer \<and>
   calculateOperationMode (ep_Spec (west 1)) ls_east = operationModeClient \<and>
   (\<exists>a b ci cj. (\<forall>H k. connect_pair ref_libs H (ls_gateway (ep_Spec (west 1))) (info_for ls_east ''10.0.0.1'') 4500
        (1, 0, ''10.2.0.0/16'', ''10.1.0.0/16'') k = whack_all H cj k) \<and>
      describes (hd ci) a ''10.1.0.0/16'' b ''10.2.0.0/16'' \<and> describes (hd cj) b ''10.2.0.0/16'' a ''10.1.0.0/16'' \<and>
      initiates (toConnectionName (CableName ls_east) IPv4 1 0) cj)"
proof -
  have n: "CableName (ls_localEndpoint (ls_gateway ls_east)) \<noteq> CableName (ls_localEndpoint (ls_gateway (ep_Spec (west 1))))"
    by code_simp
  have m: "calculateOperationMode ls_east (ep_Spec (west 1)) = operationModeServer"
    "calculateOperationMode (ep_Spec (west 1)) ls_east = operationModeClient" by code_simp+
  have l: "ls_localEndpoint (ls_gateway spec) = spec" "ep_Spec (ni_Endpoint (info_for spec ip)) = spec"
    "ni_UseFamily (info_for spec ip) = IPv4" for spec ip
    by (simp_all add: ls_gateway_def info_for_def)
  from libreswan_ends_agree [OF n, of "info_for (ep_Spec (west 1)) ''10.0.0.2''" "info_for ls_east ''10.0.0.1''" ref_libs 4500
      0 1 "''10.1.0.0/16''" "''10.2.0.0/16''" 4500] m
  show ?thesis by (simp add: l) blast
qed

section \<open>Loading and deleting connections\<close>

text \<open>
  What the driver relies on of \<open>whack\<close>; \<open>loaded\<close> are the names of the connections in Pluto. A command that fails has its
  effect or none.
\<close>

definition whack_ok :: "'k ipsecHost \<Rightarrow> ('k \<Rightarrow> string set) \<Rightarrow> bool" where
  "whack_ok H loaded \<longleftrightarrow>
     (\<forall>args k k' e. hd args = ''--psk'' \<longrightarrow> ih_whack H args k = (k', e) \<longrightarrow>
        loaded k' = insert (arg_after ''--name'' args) (loaded k) \<or> e \<noteq> None \<and> loaded k' = loaded k) \<and>
     (\<forall>n k k' e. ih_whack H [''--delete'', ''--name'', n] k = (k', e) \<longrightarrow>
        loaded k' = loaded k - {n} \<or> e \<noteq> None \<and> loaded k' = loaded k) \<and>
     (\<forall>args k k' e. hd args \<in> set [''--listen'', ''--route'', ''--initiate''] \<longrightarrow> ih_whack H args k = (k', e) \<longrightarrow>
        loaded k' = loaded k)"

lemma whack_effect:
  assumes step: "\<And>k k' e. ih_whack H args k = (k', e) \<Longrightarrow> loaded k' = g (loaded k) \<or> e \<noteq> None \<and> loaded k' = loaded k"
    and g: "\<And>S. g (g S) = g S" and w: "whack H args k = (k', None)"
  shows "loaded k' = g (loaded k)"
proof -
  have retry: "whack_retry H args n err k = (k', None) \<Longrightarrow> err \<noteq> None \<or> n \<noteq> 0 \<Longrightarrow> loaded k' = g (loaded k)" for n err k
  proof (induction n arbitrary: err k)
    case (Suc n)
    obtain k1 e where k1: "ih_whack H args k = (k1, e)" by fastforce
    show ?case
    proof (cases e)
      case None
      with Suc.prems k1 step [OF k1] show ?thesis by simp
    next
      case (Some e')
      with Suc.prems k1 have "whack_retry H args n (Some e') k1 = (k', None)" by simp
      from Suc.IH [OF this] step [OF k1] g show ?thesis by auto
    qed
  qed simp
  from w have "whack_retry H args 3 None k = (k', None)"
    by (cases "whack_retry H args 3 None k") (simp add: whack_def)
  then show ?thesis by (rule retry) simp
qed

lemma whack_add:
  "whack_ok H loaded \<Longrightarrow> hd args = ''--psk'' \<Longrightarrow> whack H args k = (k', None) \<Longrightarrow>
   loaded k' = insert (arg_after ''--name'' args) (loaded k)"
  by (rule whack_effect [of H args loaded "insert (arg_after ''--name'' args)"]) (auto simp: whack_ok_def)

lemma whack_delete:
  "whack_ok H loaded \<Longrightarrow> whack H [''--delete'', ''--name'', n] k = (k', None) \<Longrightarrow> loaded k' = loaded k - {n}"
  by (rule whack_effect [of H "[''--delete'', ''--name'', n]" loaded "\<lambda>S. S - {n}"]) (auto simp: whack_ok_def)

lemma whack_other:
  assumes "whack_ok H loaded" "hd args \<in> set [''--listen'', ''--route'', ''--initiate'']" "whack H args k = (k', None)"
  shows "loaded k' = loaded k"
  by (rule whack_effect [of H args loaded "\<lambda>S. S", OF _ _ assms(3)]) (use assms(1,2) in \<open>auto simp: whack_ok_def\<close>)

lemma pair_args_name:
  "hd (pair_args L i info port (lsi, rsi, s, t)) = ''--psk'' \<and>
   arg_after ''--name'' (pair_args L i info port (lsi, rsi, s, t)) =
     toConnectionName (CableName (ep_Spec (ni_Endpoint info))) (ni_UseFamily info) lsi rsi"
  by (simp add: pair_args_def Let_def encaps_args_def bidirectional_args_def server_args_def client_args_def
      split: operationMode.split)

lemma initiate_args_other: "\<forall>args\<in>set (initiate_args n). hd args \<in> set [''--listen'', ''--route'', ''--initiate'']"
  by (simp add: initiate_args_def)

lemma connect_pair_loads:
  assumes ok: "whack_ok H loaded" and c: "connect_pair L H i info port (lsi, rsi, s, t) k = (k', None)"
  shows "loaded k' = insert (toConnectionName (CableName (ep_Spec (ni_Endpoint info))) (ni_UseFamily info) lsi rsi) (loaded k)"
proof -
  let ?args = "pair_args L i info port (lsi, rsi, s, t)"
  define rest where "rest = (if calculateOperationMode (ls_localEndpoint i) (ep_Spec (ni_Endpoint info)) = operationModeServer
    then [] else initiate_args (toConnectionName (CableName (ep_Spec (ni_Endpoint info))) (ni_UseFamily info) lsi rsi))"
  have rest: "\<forall>args\<in>set rest. hd args \<in> set [''--listen'', ''--route'', ''--initiate'']"
    using initiate_args_other by (simp add: rest_def)
  have "whack_all H (?args # rest) k = (k', None)" using c by (simp only: connect_pair_args Let_def rest_def)
  then obtain k1 where k1: "whack H ?args k = (k1, None)" "whack_all H rest k1 = (k', None)"
    by (auto split: prod.split_asm option.split_asm)
  have "loaded k' = loaded k1"
    using k1(2) rest
  proof (induction rest arbitrary: k1)
    case (Cons a rest)
    then obtain k2 where k2: "whack H a k1 = (k2, None)" "whack_all H rest k2 = (k', None)"
      by (auto split: prod.split_asm option.split_asm)
    from whack_other [OF ok _ k2(1)] Cons.IH [OF k2(2)] Cons.prems(2) show ?case by simp
  qed simp
  with whack_add [OF ok _ k1(1)] pair_args_name [of L i info port lsi rsi s t] show ?thesis by simp
qed

lemma map_enumerate_fst: "map (\<lambda>(n, x). f n) (enumerate m xs) = map f [m..<m + length xs]"
  by (induction xs arbitrary: m) (auto simp: upt_rec)

lemma subnet_pairs_names:
  "map (\<lambda>(lsi, rsi, s, t). toConnectionName cable f lsi rsi) (subnet_pairs left right) =
   connection_names cable f (length left) (length right)"
proof -
  have "map (\<lambda>(lsi, rsi, s, t). toConnectionName cable f lsi rsi) (subnet_pairs left right) =
      concat (map (\<lambda>(lsi, s). map (\<lambda>(rsi, t). toConnectionName cable f lsi rsi) (enumerate 0 right)) (enumerate 0 left))"
    by (simp add: subnet_pairs_def map_concat comp_def case_prod_unfold)
  also have "\<dots> = connection_names cable f (length left) (length right)"
    using map_enumerate_fst [of "\<lambda>lsi. map (\<lambda>(rsi, t). toConnectionName cable f lsi rsi) (enumerate 0 right)" 0 left]
    by (simp add: connection_names_def map_enumerate_fst)
  finally show ?thesis .
qed

lemma connect_pairs_load:
  "whack_ok H loaded \<Longrightarrow> connect_pairs L H i info port ps k = (k', None) \<Longrightarrow>
   loaded k' = loaded k \<union> set (map (\<lambda>(lsi, rsi, s, t).
     toConnectionName (CableName (ep_Spec (ni_Endpoint info))) (ni_UseFamily info) lsi rsi) ps)"
proof (induction ps arbitrary: k)
  case (Cons p ps)
  obtain lsi rsi s t where p: "p = (lsi, rsi, s, t)" by (cases p)
  from Cons.prems(2) obtain k1 where k1: "connect_pair L H i info port p k = (k1, None)"
      "connect_pairs L H i info port ps k1 = (k', None)"
    by (auto split: prod.split_asm option.split_asm)
  from connect_pair_loads [OF Cons.prems(1) k1(1) [unfolded p]] Cons.IH [OF Cons.prems(1) k1(2)] show ?case
    by (simp add: p)
qed simp

lemma psk_connect_loads:
  assumes ok: "whack_ok H loaded" and i: "ls_authMode i = AuthModePSK" "ls_plutoStarted i"
    and c: "ls_ConnectToEndpoint L H info i = (i', ip, None)"
  obtains left right where "ExtractSubnetsExcludingIP L (ni_UseIP info) (ls_localEndpoint i) = Some left"
    "ExtractSubnetsExcludingIP L (ni_UseIP info) (ep_Spec (ni_Endpoint info)) = Some right"
    "loaded (ls_host i') = loaded (ls_host i) \<union>
       set (connection_names (CableName (ep_Spec (ni_Endpoint info))) (ni_UseFamily info) (length left) (length right))"
    "ls_localEndpoint i' = ls_localEndpoint i" "ls_authMode i' = ls_authMode i"
proof -
  have "AuthModePSK \<noteq> AuthModeCert" by (simp add: AuthModePSK_def AuthModeCert_def)
  with i c obtain left right port k1 k2 where
      sub: "ExtractSubnetsExcludingIP L (ni_UseIP info) (ls_localEndpoint i) = Some left"
        "ExtractSubnetsExcludingIP L (ni_UseIP info) (ep_Spec (ni_Endpoint info)) = Some right"
      and listen: "whack H [''--listen''] (ls_host i) = (k1, None)"
      and pairs: "connect_pairs L H i info port (subnet_pairs left right) k1 = (k2, None)"
      and i': "i' = i\<lparr>ls_host := k2, ls_connections := ls_connections i @ [new_connection info]\<rparr>"
    by (auto simp: ls_ConnectToEndpoint_def connectToEndpointPSKMode_def ensure_pluto_def Let_def
        split: option.split_asm prod.split_asm)
  from connect_pairs_load [OF ok pairs] whack_other [OF ok _ listen]
  have "loaded k2 = loaded (ls_host i) \<union>
      set (connection_names (CableName (ep_Spec (ni_Endpoint info))) (ni_UseFamily info) (length left) (length right))"
    by (simp only: subnet_pairs_names) simp
  with sub i' show thesis by (intro that) simp_all
qed

lemma disconnect_names_unload:
  assumes ok: "whack_ok H loaded" and del: "\<And>n k. snd (ih_whack H [''--delete'', ''--name'', n] k) = None"
  shows "disconnect_names (map (disconnectPSKMode H) ns) k = (k', None) \<Longrightarrow> loaded k' = loaded k - set ns"
proof (induction ns arbitrary: k)
  case (Cons n ns)
  obtain k1 where "ih_whack H [''--delete'', ''--name'', n] k = (k1, None)" using del by (metis prod.collapse)
  then have k1: "whack H [''--delete'', ''--name'', n] k = (k1, None)" by (simp add: whack_def numeral_3_eq_3)
  then have "disconnectPSKMode H n k = (k1, None)" by (simp add: disconnectPSKMode_def)
  with Cons.prems have "disconnect_names (map (disconnectPSKMode H) ns) k1 = (k', None)" by simp
  from Cons.IH [OF this] whack_delete [OF ok k1] show ?case by auto
qed simp

text \<open>With pre-shared keys, connecting loads into Pluto one connection for each pair of subnets of the family, under its
  own name, and leaves the others loaded; disconnecting deletes exactly these, provided that the address the cable uses
  and the private address leave out the same subnets and that Pluto does not refuse to delete.\<close>

theorem psk_connect_disconnect:
  assumes "whack_ok H loaded" and "ls_authMode i = AuthModePSK" and "ls_plutoStarted i"
    and "ls_ConnectToEndpoint L H info i = (i1, ip, None)"
    and "ls_DisconnectFromEndpoint L H (ep_Spec (ni_Endpoint info)) (ni_UseFamily info) i1 = (i2, None)"
    and "\<forall>spec\<in>{ls_localEndpoint i, ep_Spec (ni_Endpoint info)}. ExtractSubnetsExcludingIP L (ni_UseIP info) spec =
      ExtractSubnetsExcludingIP L (GetPrivateIP L (ni_UseFamily info) spec) spec"
    and "\<And>n k. snd (ih_whack H [''--delete'', ''--name'', n] k) = None"
  shows "\<exists>left right. ExtractSubnetsExcludingIP L (ni_UseIP info) (ls_localEndpoint i) = Some left \<and>
    ExtractSubnetsExcludingIP L (ni_UseIP info) (ep_Spec (ni_Endpoint info)) = Some right \<and>
    (let names = set (connection_names (CableName (ep_Spec (ni_Endpoint info))) (ni_UseFamily info) (length left) (length right)) in
     loaded (ls_host i1) = loaded (ls_host i) \<union> names \<and> loaded (ls_host i2) = loaded (ls_host i) - names)"
proof -
  from assms(1-4) obtain left right where
      sub: "ExtractSubnetsExcludingIP L (ni_UseIP info) (ls_localEndpoint i) = Some left"
        "ExtractSubnetsExcludingIP L (ni_UseIP info) (ep_Spec (ni_Endpoint info)) = Some right"
      and l: "loaded (ls_host i1) = loaded (ls_host i) \<union>
        set (connection_names (CableName (ep_Spec (ni_Endpoint info))) (ni_UseFamily info) (length left) (length right))"
      and i1: "ls_localEndpoint i1 = ls_localEndpoint i" "ls_authMode i1 = ls_authMode i"
    by (rule psk_connect_loads)
  have "AuthModePSK \<noteq> AuthModeCert" by (simp add: AuthModePSK_def AuthModeCert_def)
  with i1 assms(2) have "disconnect_names (map (disconnectPSKMode H) (connection_names (CableName (ep_Spec (ni_Endpoint info)))
      (ni_UseFamily info) (length left) (length right))) (ls_host i1) = (ls_host i2, None)"
    using assms(5,6) sub by (auto simp: ls_DisconnectFromEndpoint_def Let_def split: prod.split_asm option.split_asm)
  from disconnect_names_unload [OF assms(1,7) this] l sub show ?thesis by (auto simp: Let_def)
qed

lemma ref_whack_ok: "whack_ok ref_host (\<lambda>k. set (fst k))"
  by (auto simp: whack_ok_def ref_host_def ref_whack_def Let_def)

theorem psk_connect_disconnect_witness:
  "fst (ls_host (fst (ls_ConnectToEndpoint ref_libs ref_host (info_for (ep_Spec (west 1)) ''10.0.0.2'') (ls_gateway ls_east)))) =
     [''submariner-cable-west-10-0-0-2-v4-0-0''] \<and>
   fst (ls_host (fst (ls_DisconnectFromEndpoint ref_libs ref_host (ep_Spec (west 1)) IPv4
     (fst (ls_ConnectToEndpoint ref_libs ref_host (info_for (ep_Spec (west 1)) ''10.0.0.2'') (ls_gateway ls_east)))))) = []"
proof -
  let ?info = "info_for (ep_Spec (west 1)) ''10.0.0.2''" and ?i = "ls_gateway ls_east"
  let ?c = "ls_ConnectToEndpoint ref_libs ref_host ?info ?i"
  let ?d = "ls_DisconnectFromEndpoint ref_libs ref_host (ep_Spec (west 1)) IPv4 (fst ?c)"
  have i: "ls_authMode ?i = AuthModePSK" "ls_plutoStarted ?i" by (simp_all add: ls_gateway_def)
  have f: "ep_Spec (ni_Endpoint ?info) = ep_Spec (west 1)" "ni_UseFamily ?info = IPv4" by (simp_all add: info_for_def)
  have "snd (snd ?c) = None" by code_simp
  then have c: "?c = (fst ?c, fst (snd ?c), None)" by (metis prod.collapse)
  have "snd ?d = None" by code_simp
  then have d: "ls_DisconnectFromEndpoint ref_libs ref_host (ep_Spec (ni_Endpoint ?info)) (ni_UseFamily ?info) (fst ?c) = (fst ?d, None)"
    unfolding f by (metis prod.collapse)
  have e: "\<forall>spec\<in>{ls_localEndpoint ?i, ep_Spec (ni_Endpoint ?info)}. ExtractSubnetsExcludingIP ref_libs (ni_UseIP ?info) spec =
      ExtractSubnetsExcludingIP ref_libs (GetPrivateIP ref_libs (ni_UseFamily ?info) spec) spec" by code_simp
  have del: "snd (ih_whack ref_host [''--delete'', ''--name'', n] k) = None" for n k
    by (simp add: ref_host_def ref_whack_def)
  have "set (fst (ls_host (fst ?d))) = {}"
    using psk_connect_disconnect [OF ref_whack_ok i c d e del] by (auto simp: ls_gateway_def Let_def)
  moreover have "fst (ls_host (fst ?c)) = [''submariner-cable-west-10-0-0-2-v4-0-0'']" by code_simp
  ultimately show ?thesis by simp
qed

section \<open>Status\<close>

definition reported :: "string list \<Rightarrow> string \<Rightarrow> bool" where
  "reported lines n \<longleftrightarrow> (\<exists>line\<in>set lines. \<exists>b. TrafficStatusRE line = Some (n, b))"

lemma add_line_dom:
  assumes "add_line (rx, tx) line = (rx', tx')"
  shows "rx' n \<noteq> None \<longleftrightarrow> rx n \<noteq> None \<or> (\<exists>b. TrafficStatusRE line = Some (n, b))"
    and "tx' n \<noteq> None \<longleftrightarrow> tx n \<noteq> None \<or> (\<exists>b. TrafficStatusRE line = Some (n, b))"
  using assms by (auto simp: add_line_def add_bytes_def Let_def split: option.split_asm if_split_asm)

lemma stats_dom:
  "foldl add_line (rx, tx) lines = (rx', tx') \<Longrightarrow>
   (rx' n \<noteq> None \<or> tx' n \<noteq> None) \<longleftrightarrow> (rx n \<noteq> None \<or> tx n \<noteq> None \<or> reported lines n)"
proof (induction lines arbitrary: rx tx)
  case (Cons line lines)
  obtain rx1 tx1 where a: "add_line (rx, tx) line = (rx1, tx1)" by fastforce
  with Cons.prems have "foldl add_line (rx1, tx1) lines = (rx', tx')" by simp
  from Cons.IH [OF this] add_line_dom [OF a] show ?case by (auto simp: reported_def)
qed (simp add: reported_def)

lemma connection_names_set:
  "n \<in> set (connection_names cable f a b) \<longleftrightarrow> (\<exists>lsi<a. \<exists>rsi<b. n = toConnectionName cable f lsi rsi)"
  by (fastforce simp: connection_names_def)

lemma ex_connection_names:
  "(\<exists>n\<in>set (connection_names cable f a b). P n) \<longleftrightarrow> (\<exists>lsi<a. \<exists>rsi<b. P (toConnectionName cable f lsi rsi))"
  by (simp only: Bex_def connection_names_set) blast

text \<open>The subnets of an endpoint that a status refresh counts.\<close>

definition counted :: "libs \<Rightarrow> IPFamily \<Rightarrow> EndpointSpec \<Rightarrow> nat" where
  "counted L f spec = (case ExtractSubnetsExcludingIP L (GetPrivateIP L f spec) spec of None \<Rightarrow> 0 | Some ss \<Rightarrow> length ss)"

text \<open>After the connections were listed without error, each connection is there with the same endpoint and address, and is
  connected if Pluto reports traffic under the name of one of its pairs of subnets, otherwise connecting.\<close>

theorem status_follows_traffic:
  assumes "ls_plutoStarted i" and "ls_GetConnections L H i = (i', Inr cs)"
    and "ih_trafficstatus H (ls_host i) = Inr lines" and "\<forall>c\<in>set (ls_connections i). GetFamily L c \<noteq> IPFamilyUnknown"
  shows "cs = map (\<lambda>c. c\<lparr>Status :=
     if \<exists>lsi<counted L (GetFamily L c) (ls_localEndpoint i). \<exists>rsi<counted L (GetFamily L c) (conn_Endpoint c).
          reported lines (toConnectionName (CableName (conn_Endpoint c)) (GetFamily L c) lsi rsi)
     then Connected else Connecting\<rparr>) (ls_connections i)"
proof -
  obtain rx tx where stats: "foldl add_line (Map.empty, Map.empty) lines = (rx, tx)" by fastforce
  from assms(1-3) stats obtain v4 v6 where
      v4: "ExtractSubnetsExcludingIP L (GetPrivateIP L IPv4 (ls_localEndpoint i)) (ls_localEndpoint i) = Some v4"
      and v6: "ExtractSubnetsExcludingIP L (GetPrivateIP L IPv6 (ls_localEndpoint i)) (ls_localEndpoint i) = Some v6"
      and loop: "refresh_loop L rx tx (\<lambda>f. case f of IPv4 \<Rightarrow> v4 | IPv6 \<Rightarrow> v6 | IPFamilyUnknown \<Rightarrow> []) (ls_connections i) = Some cs"
    by (auto simp: ls_GetConnections_def refreshConnectionStatus_def retrieveActiveConnectionStats_def Let_def
        dest!: reconcile_frame split: option.split_asm prod.split_asm if_split_asm)
  define loc where "loc = (\<lambda>f. case f of IPv4 \<Rightarrow> v4 | IPv6 \<Rightarrow> v6 | IPFamilyUnknown \<Rightarrow> [])"
  have dom: "(rx n \<noteq> None \<or> tx n \<noteq> None) \<longleftrightarrow> reported lines n" for n using stats_dom [OF stats] by simp
  have len: "length (loc f) = counted L f (ls_localEndpoint i)" if "f \<noteq> IPFamilyUnknown" for f
    using that v4 v6 by (cases f) (simp_all add: loc_def counted_def)
  have one: "c' = c\<lparr>Status := if \<exists>lsi<counted L (GetFamily L c) (ls_localEndpoint i). \<exists>rsi<counted L (GetFamily L c) (conn_Endpoint c).
          reported lines (toConnectionName (CableName (conn_Endpoint c)) (GetFamily L c) lsi rsi) then Connected else Connecting\<rparr>"
    if r: "refresh_connection L rx tx loc c = Some (c', b)" and f: "GetFamily L c \<noteq> IPFamilyUnknown" for c c' b
  proof -
    from r obtain ss where ss: "ExtractSubnetsExcludingIP L (GetPrivateIP L (GetFamily L c) (conn_Endpoint c)) (conn_Endpoint c) = Some ss"
      by (auto simp: refresh_connection_def Let_def)
    let ?names = "filter (\<lambda>n. rx n \<noteq> None \<or> tx n \<noteq> None)
      (connection_names (CableName (conn_Endpoint c)) (GetFamily L c) (length (loc (GetFamily L c))) (length ss))"
    have "?names \<noteq> [] \<longleftrightarrow> (\<exists>n\<in>set (connection_names (CableName (conn_Endpoint c)) (GetFamily L c) (length (loc (GetFamily L c))) (length ss)).
        reported lines n)"
      unfolding dom by (simp add: filter_empty_conv)
    then have "?names \<noteq> [] \<longleftrightarrow> (\<exists>lsi<counted L (GetFamily L c) (ls_localEndpoint i). \<exists>rsi<counted L (GetFamily L c) (conn_Endpoint c).
        reported lines (toConnectionName (CableName (conn_Endpoint c)) (GetFamily L c) lsi rsi))"
      unfolding len [OF f] ex_connection_names by (simp only: counted_def ss option.case)
    moreover have "c' = c\<lparr>Status := if ?names \<noteq> [] then Connected else Connecting\<rparr>"
      using r ss by (simp add: refresh_connection_def Let_def)
    ultimately show ?thesis by (simp only:)
  qed
  have "refresh_loop L rx tx loc xs = Some ys \<Longrightarrow> \<forall>c\<in>set xs. GetFamily L c \<noteq> IPFamilyUnknown \<Longrightarrow>
    ys = map (\<lambda>c. c\<lparr>Status := if \<exists>lsi<counted L (GetFamily L c) (ls_localEndpoint i). \<exists>rsi<counted L (GetFamily L c) (conn_Endpoint c).
          reported lines (toConnectionName (CableName (conn_Endpoint c)) (GetFamily L c) lsi rsi) then Connected else Connecting\<rparr>) xs"
    for xs ys
  proof (induction xs arbitrary: ys)
    case (Cons c xs)
    from Cons.prems(1) obtain c' b ys' where c: "refresh_connection L rx tx loc c = Some (c', b)"
        "refresh_loop L rx tx loc xs = Some ys'" "ys = c' # ys'"
      by (auto split: option.split_asm)
    from Cons.IH [OF c(2)] Cons.prems(2) one [OF c(1)] c(3) show ?case by simp
  qed simp
  from this [OF loop [folded loc_def] assms(4)] show ?thesis .
qed

definition ls_linked :: "ref_ipsec libreswan" where
  "ls_linked = fst (ls_ConnectToEndpoint ref_libs ref_host (info_for (ep_Spec (west 1)) ''10.0.0.2'') (ls_gateway ls_east))"

lemma ls_linked:
  "ls_connections ls_linked = [new_connection (info_for (ep_Spec (west 1)) ''10.0.0.2'')]"
  "ls_plutoStarted ls_linked" "ls_authMode ls_linked = AuthModePSK" "ls_localEndpoint ls_linked = ls_east"
  "fst (ls_host ls_linked) = [''submariner-cable-west-10-0-0-2-v4-0-0'']"
proof -
  let ?info = "info_for (ep_Spec (west 1)) ''10.0.0.2''"
  let ?c = "ls_ConnectToEndpoint ref_libs ref_host ?info (ls_gateway ls_east)"
  have h: "(snd (snd ?c), ls_plutoStarted (fst ?c), fst (ls_host (fst ?c))) =
      (None, True, [''submariner-cable-west-10-0-0-2-v4-0-0''])" by code_simp
  then have c: "?c = (ls_linked, fst (snd ?c), None)" by (metis fst_conv ls_linked_def prod.collapse)
  have i: "ls_authMode (ls_gateway ls_east) = AuthModePSK" "ls_plutoStarted (ls_gateway ls_east)"
    "ls_connections (ls_gateway ls_east) = []" "ls_localEndpoint (ls_gateway ls_east) = ls_east"
    by (simp_all add: ls_gateway_def)
  from ls_connect_cases [OF c] i
  show "ls_connections ls_linked = [new_connection ?info]" "ls_localEndpoint ls_linked = ls_east" by simp_all
  show "ls_plutoStarted ls_linked" "fst (ls_host ls_linked) = [''submariner-cable-west-10-0-0-2-v4-0-0'']"
    using h by (simp_all add: ls_linked_def)
  show "ls_authMode ls_linked = AuthModePSK" using psk_connect_loads [OF ref_whack_ok i(1,2) c] i(1) by metis
qed

theorem status_follows_traffic_witness:
  "\<exists>i' cs. ls_GetConnections ref_libs ref_host ls_linked = (i', Inr cs) \<and> map Status cs = [Connected] \<and>
     map UsingIP cs = [''10.0.0.2'']"
proof -
  let ?c = "new_connection (info_for (ep_Spec (west 1)) ''10.0.0.2'')"
  let ?line = "''006 #1: '' @ CHR 0x22 # ''submariner-cable-west-10-0-0-2-v4-0-0'' @ CHR 0x22 # '', inBytes=10, outBytes=20''"
  have t: "ih_trafficstatus ref_host (ls_host ls_linked) = Inr [?line]" by (simp add: ref_host_def ls_linked)
  have e: "\<not> Option.is_none (ExtractSubnetsExcludingIP ref_libs (GetPrivateIP ref_libs IPv4 ls_east) ls_east)"
    "\<not> Option.is_none (ExtractSubnetsExcludingIP ref_libs (GetPrivateIP ref_libs IPv6 ls_east) ls_east)"
    "\<not> Option.is_none (ExtractSubnetsExcludingIP ref_libs (GetPrivateIP ref_libs (GetFamily ref_libs ?c) (conn_Endpoint ?c)) (conn_Endpoint ?c))"
    by code_simp+
  have "AuthModePSK \<noteq> AuthModeCert" by (simp add: AuthModePSK_def AuthModeCert_def)
  with e t have "\<exists>i' cs. ls_GetConnections ref_libs ref_host ls_linked = (i', Inr cs)"
    by (auto simp: ls_GetConnections_def refreshConnectionStatus_def retrieveActiveConnectionStats_def ls_linked
        refresh_connection_def Let_def split: option.split prod.split)
  then obtain i' cs where g: "ls_GetConnections ref_libs ref_host ls_linked = (i', Inr cs)" by blast
  have f: "\<forall>c\<in>set (ls_connections ls_linked). GetFamily ref_libs c \<noteq> IPFamilyUnknown" by code_simp
  have n: "counted ref_libs (GetFamily ref_libs ?c) ls_east > 0" "counted ref_libs (GetFamily ref_libs ?c) (conn_Endpoint ?c) > 0"
    "toConnectionName (CableName (conn_Endpoint ?c)) (GetFamily ref_libs ?c) 0 0 = ''submariner-cable-west-10-0-0-2-v4-0-0''"
    "UsingIP ?c = ''10.0.0.2''" by code_simp+
  have "TrafficStatusRE ?line = Some (''submariner-cable-west-10-0-0-2-v4-0-0'', ''10'', ''20'')" by code_simp
  then have "reported [?line] (toConnectionName (CableName (conn_Endpoint ?c)) (GetFamily ref_libs ?c) 0 0)"
    unfolding n(3) reported_def by (intro bexI exI) (assumption, simp)
  with n(1,2) have ex: "\<exists>lsi<counted ref_libs (GetFamily ref_libs ?c) (ls_localEndpoint ls_linked).
      \<exists>rsi<counted ref_libs (GetFamily ref_libs ?c) (conn_Endpoint ?c).
        reported [?line] (toConnectionName (CableName (conn_Endpoint ?c)) (GetFamily ref_libs ?c) lsi rsi)"
    unfolding ls_linked(4) by blast
  have "cs = [?c\<lparr>Status := Connected\<rparr>]"
    using status_follows_traffic [OF ls_linked(2) g t f] unfolding ls_linked(1) list.map if_P [OF ex] .
  then have "map Status cs = [Connected] \<and> map UsingIP cs = [''10.0.0.2'']" using n(4) by simp
  then show ?thesis by (intro exI conjI) (rule g, simp_all)
qed

lemma first_sep:
  assumes "a @ x # c = b @ x # d" "x \<notin> set a" "x \<notin> set b" shows "a = b \<and> c = d"
  using assms
proof (induction a arbitrary: b)
  case Nil
  then show ?case by (cases b) auto
next
  case (Cons y a)
  then show ?case by (cases b) auto
qed

lemma last_dash:
  assumes "u @ CHR ''-'' # x = v @ CHR ''-'' # y" "CHR ''-'' \<notin> set x" "CHR ''-'' \<notin> set y"
  shows "u = v \<and> x = y"
proof -
  have "rev x @ CHR ''-'' # rev u = rev y @ CHR ''-'' # rev v" using arg_cong [OF assms(1), of rev] by simp
  from first_sep [OF this] assms(2,3) show ?thesis by simp
qed

lemma dec_no_dash: "CHR ''-'' \<notin> set (dec_of_nat n)"
proof
  assume "CHR ''-'' \<in> set (dec_of_nat n)"
  moreover have "\<forall>c\<in>set (dec_of_nat n). is_digit c" using dec_of_nat_digits by (simp add: list_all_iff)
  ultimately have "is_digit (CHR ''-'')" by blast
  then show False by (simp add: is_digit_def)
qed

lemma status_name_indexes:
  assumes "status_name (toConnectionName cable f lsi rsi)"
  shows "lsi < 2 \<and> rsi < 2"
proof -
  let ?n = "toConnectionName cable f lsi rsi"
  define t where "t = drop (length ?n - 7) ?n"
  have len: "length t = 7" using assms by (simp add: status_name_def t_def)
  have digits: "t ! 3 = CHR ''-''" "t ! 4 \<in> set ''01''" "t ! 5 = CHR ''-''" "t ! 6 \<in> set ''01''"
    using assms unfolding status_name_def Let_def t_def [symmetric] by blast+
  have t: "t = take 4 t @ [t ! 4, CHR ''-'', t ! 6]"
    using len digits(3) by (intro nth_equalityI) (auto simp: nth_append less_Suc_eq numeral_eq_Suc)
  have t3: "take 4 t = take 3 t @ [CHR ''-'']" using len digits(1) by (simp add: take_Suc_conv_app_nth numeral_eq_Suc)
  define u where "u = take (length ?n - 7) ?n @ take 3 t"
  have "?n = take (length ?n - 7) ?n @ t" unfolding t_def by simp
  also have "\<dots> = take (length ?n - 7) ?n @ take 4 t @ [t ! 4, CHR ''-'', t ! 6]" by (rule arg_cong [OF t])
  also have "\<dots> = (u @ [CHR ''-'', t ! 4]) @ CHR ''-'' # [t ! 6]" by (simp only: t3 u_def append_assoc append_Cons append_Nil)
  finally have n: "(cable @ ''-v'' @ family_str f @ ''-'' @ dec_of_nat lsi) @ CHR ''-'' # dec_of_nat rsi =
      (u @ [CHR ''-'', t ! 4]) @ CHR ''-'' # [t ! 6]"
    by (simp add: toConnectionName_def)
  have no_dash: "CHR ''-'' \<notin> set [t ! 6]" "CHR ''-'' \<notin> set [t ! 4]" using digits(2,4) by auto
  note r = last_dash [OF n dec_no_dash no_dash(1)]
  have "(cable @ ''-v'' @ family_str f) @ CHR ''-'' # dec_of_nat lsi = u @ CHR ''-'' # [t ! 4]" using conjunct1 [OF r] by simp
  note l = last_dash [OF this dec_no_dash no_dash(2)]
  have v: "digit_val c < 2" if "c \<in> set ''01''" for c using that by (auto simp: digit_val_def)
  have "dec_val [t ! 4] < 2" "dec_val [t ! 6] < 2" using v [OF digits(2)] v [OF digits(4)] by simp_all
  then show ?thesis using dec_val_of_nat [of lsi] dec_val_of_nat [of rsi] l r by simp
qed

lemma last_match_Some: "last_match f s = Some a \<Longrightarrow> \<exists>t. f t = Some a"
  by (induction s) (auto split: option.split_asm)

lemma TrafficStatusRE_name: "TrafficStatusRE line = Some (n, b) \<Longrightarrow> status_name n"
  by (auto simp: TrafficStatusRE_def name_at_def Let_def dest!: last_match_Some split: if_split_asm)

text \<open>Traffic between subnets beyond the second of either side is never seen, whatever Pluto prints: the pattern for the
  traffic status accepts only the indexes 0 and 1. A cable whose only established pair is such a one stays connecting.\<close>

theorem third_subnet_not_seen:
  assumes "2 \<le> lsi \<or> 2 \<le> rsi"
  shows "TrafficStatusRE line \<noteq> Some (toConnectionName cable f lsi rsi, b)"
  using TrafficStatusRE_name [of line "toConnectionName cable f lsi rsi" b] status_name_indexes [of cable f lsi rsi] assms
  by auto

theorem third_subnet_not_seen_witness:
  "TrafficStatusRE (''006 #1: '' @ CHR 0x22 # toConnectionName ''cable'' IPv4 2 0 @ CHR 0x22 #
     '', inBytes=10, outBytes=20'') \<noteq> Some (toConnectionName ''cable'' IPv4 2 0, ''10'', ''20'') \<and>
   TrafficStatusRE (''006 #1: '' @ CHR 0x22 # toConnectionName ''cable'' IPv4 1 0 @ CHR 0x22 #
     '', inBytes=10, outBytes=20'') = Some (toConnectionName ''cable'' IPv4 1 0, ''10'', ''20'')"
proof
  show "TrafficStatusRE (''006 #1: '' @ CHR 0x22 # toConnectionName ''cable'' IPv4 2 0 @ CHR 0x22 #
     '', inBytes=10, outBytes=20'') \<noteq> Some (toConnectionName ''cable'' IPv4 2 0, ''10'', ''20'')"
    by (rule third_subnet_not_seen) simp
  show "TrafficStatusRE (''006 #1: '' @ CHR 0x22 # toConnectionName ''cable'' IPv4 1 0 @ CHR 0x22 #
     '', inBytes=10, outBytes=20'') = Some (toConnectionName ''cable'' IPv4 1 0, ''10'', ''20'')"
    by code_simp
qed

end
