(* ===== verification/LibreswanCert.thy ===== *)
theory LibreswanCert
  imports LibreswanProps
begin

text \<open>
  The libreswan driver with certificates: what it writes to the connection file, that the validated inputs cannot break
  out of their stanza, and when it queries Pluto for connections that were dropped.
\<close>

section \<open>Characters of addresses\<close>

definition addr_char :: "char \<Rightarrow> bool" where
  "addr_char c \<longleftrightarrow> hex_val c \<noteq> None \<or> c = CHR ''.'' \<or> c = CHR '':'' \<or> c = CHR ''/''"

lemma addr_char_plain: "addr_char c \<Longrightarrow> c \<noteq> NL \<and> \<not> is_space c"
  by (auto simp: addr_char_def hex_val_def NL_def is_space_def Let_def split: if_split_asm)

lemma is_digit_addr: "is_digit c \<Longrightarrow> addr_char c"
  by (simp add: is_digit_def addr_char_def hex_val_def Let_def)

lemma split_on_cover: "d \<in> set s \<Longrightarrow> d = c \<or> (\<exists>w\<in>set (split_on c s). d \<in> set w)"
proof (induction s)
  case (Cons x s)
  then show ?case by (cases "split_on c s") (auto split: if_split_asm)
qed simp

lemma parse_ipv4_chars:
  assumes "parse_ipv4 s = Some w" "c \<in> set s"
  shows "addr_char c"
proof -
  from assms(1) obtain a b d e where "map parse_octet (split_on (CHR ''.'') s) = [Some a, Some b, Some d, Some e]"
    by (auto simp: parse_ipv4_def split: list.split_asm option.split_asm)
  then have "\<forall>x\<in>set (map parse_octet (split_on (CHR ''.'') s)). x \<noteq> None" by simp
  then have "\<forall>v\<in>set (split_on (CHR ''.'') s). \<forall>c\<in>set v. is_digit c"
    by (auto simp: parse_octet_def list_all_iff split: if_split_asm)
  with split_on_cover [OF assms(2), of "CHR ''.''"] is_digit_addr show ?thesis by (auto simp: addr_char_def)
qed

lemma hex_run_set: "hex_run s = (ds, r) \<Longrightarrow> c \<in> set s \<Longrightarrow> hex_val c \<noteq> None \<or> c \<in> set r"
  by (induction s arbitrary: ds r) (auto split: option.split_asm prod.split_asm)

lemma v6_groups_chars: "v6_groups room s gs ell = Some p \<Longrightarrow> c \<in> set s \<Longrightarrow> addr_char c"
proof (induction room arbitrary: s gs ell)
  case (Suc room)
  obtain ds r where hr: "hex_run s = (ds, r)" by fastforce
  show ?case
  proof (cases "r \<noteq> [] \<and> hd r = CHR ''.''")
    case True
    with Suc.prems(1) hr obtain w where "parse_ipv4 s = Some w" by (auto split: if_split_asm option.split_asm)
    then show ?thesis using parse_ipv4_chars Suc.prems(2) by blast
  next
    case False
    show ?thesis
    proof (cases "hex_val c = None")
      case True
      with hex_run_set [OF hr Suc.prems(2)] obtain d r1 where r: "r = d # r1" "c \<in> set (d # r1)" by (cases r) auto
      let ?gs = "foldl (\<lambda>a d. 16 * a + d) 0 ds # gs"
      from Suc.prems(1) hr False r have "d = CHR '':''" and rec: "hd r1 = CHR '':'' \<and> tl r1 = [] \<or>
          hd r1 = CHR '':'' \<and> v6_groups room (tl r1) ?gs (Some (length ?gs)) = Some p \<or>
          hd r1 \<noteq> CHR '':'' \<and> v6_groups room r1 ?gs ell = Some p" and "r1 \<noteq> []"
        by (auto simp: Let_def split: if_split_asm)
      have "c = CHR '':'' \<or> addr_char c"
      proof (cases "c = d \<or> c = hd r1")
        case True
        with \<open>d = CHR '':''\<close> rec r(2) \<open>r1 \<noteq> []\<close> Suc.IH [of r1] show ?thesis by (metis hd_in_set)
      next
        case False
        with r(2) have "c \<in> set r1" "c \<in> set (tl r1)" by (cases r1; simp)+
        with rec Suc.IH show ?thesis by (metis empty_iff list.set(1))
      qed
      then show ?thesis by (auto simp: addr_char_def)
    qed (simp add: addr_char_def)
  qed
qed (auto split: if_split_asm)

lemma ParseIP_chars:
  assumes "ParseIP s = Some a" "c \<in> set s"
  shows "addr_char c"
proof -
  from assms(1) obtain d ds where d: "filter (\<lambda>c. c = CHR ''.'' \<or> c = CHR '':'' \<or> c = CHR ''%'') s = d # ds"
    by (auto simp: ParseIP_def parse_addr_def split: list.split_asm)
  show ?thesis
  proof (cases "d = CHR ''.''")
    case True
    with assms(1) d obtain w where "parse_ipv4 s = Some w" by (auto simp: ParseIP_def parse_addr_def split: if_split_asm)
    then show ?thesis using parse_ipv4_chars assms(2) by blast
  next
    case False
    with assms(1) d obtain w where w: "parse_ipv6 s = Some w" by (auto simp: ParseIP_def parse_addr_def split: if_split_asm)
    define t where "t = (if has_prefix s ''::'' then drop 2 s else s)"
    have "c = CHR '':'' \<or> c \<in> set t"
      using assms(2) by (cases s; cases "tl s") (auto simp: t_def)
    moreover have "c \<in> set t \<Longrightarrow> addr_char c"
      using w v6_groups_chars by (auto simp: parse_ipv6_def Let_def t_def bind_eq_Some_conv split: if_split_asm)
    ultimately show ?thesis by (auto simp: addr_char_def)
  qed
qed

lemma hex_of_nat_chars: "c \<in> set (hex_of_nat n) \<Longrightarrow> addr_char c"
proof (induction n rule: hex_of_nat.induct)
  case (1 n)
  have digit: "addr_char (char_of (if k < 10 then 48 + k else 87 + k))" if "k < 16" for k :: nat
  proof -
    have "k \<in> set [0..<16]" using that by simp
    moreover have "\<forall>k\<in>set [0..<16]. addr_char (char_of (if k < 10 then 48 + k else 87 + k :: nat))" by code_simp
    ultimately show ?thesis by blast
  qed
  show ?case
  proof (cases "n < 16")
    case True
    with 1(2) digit show ?thesis by (subst (asm) hex_of_nat.simps) (auto simp: Let_def)
  next
    case False
    then have "hex_of_nat n = hex_of_nat (n div 16) @ [char_of (if n mod 16 < 10 then 48 + n mod 16 else 87 + n mod 16)]"
      by (subst hex_of_nat.simps) (simp add: Let_def)
    with 1 False digit [of "n mod 16"] show ?thesis by auto
  qed
qed

lemma dec_of_nat_chars: "c \<in> set (dec_of_nat n) \<Longrightarrow> addr_char c"
  using dec_of_nat_digits [of n] is_digit_addr by (auto simp: list_all_iff)

lemma join_chars: "c \<in> set (join sep ws) \<Longrightarrow> c \<in> set sep \<or> (\<exists>w\<in>set ws. c \<in> set w)"
  by (induction sep ws rule: join.induct) auto

lemma ipnet_String_chars: "c \<in> set (ipnet_String n) \<Longrightarrow> addr_char c"
proof -
  have sep: "addr_char (CHR '':'')" "addr_char (CHR ''.'')" by (simp_all add: addr_char_def)
  have ip: "addr_char c" if "c \<in> set (ip_String a)" for a
    using that sep
    by (auto simp: ip_String_def Let_def split: ip.split_asm prod.split_asm if_split_asm
        dest!: join_chars in_set_takeD in_set_dropD dest: dec_of_nat_chars hex_of_nat_chars)
  assume "c \<in> set (ipnet_String n)"
  then show ?thesis
    using ip dec_of_nat_chars by (auto simp: ipnet_String_def addr_char_def [of "CHR ''/''"] split: ip.split_asm)
qed

lemma extracted_chars:
  "ExtractSubnetsExcludingIP L ip spec = Some ss \<Longrightarrow> s \<in> set ss \<Longrightarrow> c \<in> set s \<Longrightarrow> addr_char c"
  using ipnet_String_chars by (auto simp: ExtractSubnetsExcludingIP_def Let_def)

section \<open>Stanzas\<close>

definition cert_body :: "string \<Rightarrow> string \<Rightarrow> string \<Rightarrow> string \<Rightarrow> bool \<Rightarrow> string list" where
  "cert_body left right leftSubnet rightSubnet encapsulation =
     [''    left='' @ left, ''    leftid=%fromcert'', ''    leftcert='' @ ClientCertName,
      ''    leftrsasigkey=%cert'', ''    leftsubnet='' @ leftSubnet, ''    leftmodecfgclient=false'',
      ''    right='' @ right, ''    rightid=%fromcert'', ''    rightsubnet='' @ rightSubnet] @
     (if encapsulation then [''    encapsulation=yes''] else []) @
     [''    auto=add'', ''    ikev2=insist'', ''    authby=rsasig'', ''    type=tunnel'']"

lemma cert_stanza_body:
  "cert_stanza n left right s t enc = join [NL] ((''conn '' @ n) # cert_body left right s t enc)"
  by (simp add: cert_stanza_def cert_body_def)

lemma trim_space_keeps: "\<not> is_space c \<Longrightarrow> \<exists>u. trim_space (''    '' @ c # t) = c # u"
proof -
  assume c: "\<not> is_space c"
  have "is_space (CHR '' '')" by (simp add: is_space_def)
  with c have "trim_space (''    '' @ c # t) = rev (dropWhile is_space (rev t @ [c]))" by (simp add: trim_space_def)
  moreover have "rev (dropWhile is_space (rev t @ [c])) = c # rev (dropWhile is_space (rev t))"
    using c by (induction "rev t" arbitrary: t) (auto simp: dropWhile_append)
  ultimately show ?thesis by simp
qed

lemma indented_no_header: "\<not> is_space c \<Longrightarrow> c \<noteq> CHR ''c'' \<Longrightarrow> \<not> any_header (''    '' @ c # t)"
  using trim_space_keeps [of c t] by (auto simp: any_header_def)

lemma header_of_name:
  assumes "n \<noteq> []" "\<not> is_space (last n)"
  shows "is_header n (''conn '' @ n)"
proof -
  obtain m c where n: "n = m @ [c]" using assms(1) by (cases n rule: rev_cases) auto
  have "\<not> is_space (CHR ''c'')" by (simp add: is_space_def)
  with assms n show ?thesis by (simp add: is_header_def trim_space_def)
qed

lemma cert_stanza_text:
  assumes n: "n \<noteq> []" "\<not> is_space (last n)" "NL \<notin> set n"
    and nl: "NL \<notin> set left" "NL \<notin> set right" "NL \<notin> set s" "NL \<notin> set t"
  shows "stanza_text n (cert_body left right s t enc) (cert_stanza n left right s t enc)"
proof -
  let ?ls = "(''conn '' @ n) # cert_body left right s t enc"
  have plain: "\<forall>l\<in>set ?ls. l \<noteq> [] \<and> NL \<notin> set l"
    using n nl by (auto simp: cert_body_def ClientCertName_def NL_def)
  then have "split_on NL (join [NL] ?ls) = ?ls" by (intro split_on_join) auto
  moreover have "filter (\<lambda>s. s \<noteq> []) ?ls = ?ls" using plain by (intro filter_True) blast
  ultimately have "file_lines (cert_stanza n left right s t enc) = ?ls" by (simp add: file_lines_def cert_stanza_body)
  moreover have "\<forall>l\<in>set (cert_body left right s t enc). \<exists>c u. l = ''    '' @ c # u \<and> c \<in> set ''lreait''"
    by (auto simp: cert_body_def)
  then have "\<forall>l\<in>set (cert_body left right s t enc). \<not> any_header l"
    using indented_no_header by (fastforce simp: is_space_def)
  ultimately show ?thesis using header_of_name [OF n(1,2)] by (auto simp: stanza_text_def)
qed

section \<open>Connection names\<close>

lemma toConnectionName_inj:
  assumes "toConnectionName cable f a b = toConnectionName cable f a' b'"
  shows "a = a' \<and> b = b'"
proof -
  have "(cable @ ''-v'' @ family_str f @ ''-'' @ dec_of_nat a) @ CHR ''-'' # dec_of_nat b =
      (cable @ ''-v'' @ family_str f @ ''-'' @ dec_of_nat a') @ CHR ''-'' # dec_of_nat b'"
    using assms by (simp add: toConnectionName_def)
  from last_dash [OF this dec_no_dash dec_no_dash] have "dec_of_nat a = dec_of_nat a'" "dec_of_nat b = dec_of_nat b'"
    by simp_all
  then show ?thesis by (metis dec_val_of_nat)
qed

lemma connection_names_distinct: "distinct (connection_names cable f n m)"
proof (induction n)
  case (Suc n)
  have "connection_names cable f (Suc n) m =
      connection_names cable f n m @ map (\<lambda>rsi. toConnectionName cable f n rsi) [0..<m]"
    by (simp add: connection_names_def)
  moreover have "distinct (map (\<lambda>rsi. toConnectionName cable f n rsi) [0..<m])"
    using toConnectionName_inj by (auto simp: distinct_map inj_on_def)
  ultimately show ?case using Suc.IH toConnectionName_inj by (fastforce simp: connection_names_set)
qed (simp add: connection_names_def)

lemma connection_name_plain:
  assumes "validateCableName cable = None" and "n = toConnectionName cable f lsi rsi"
  shows "n \<noteq> []" "\<not> is_space (last n)" "NL \<notin> set n"
proof -
  have "list_all cable_name_char cable" using assms(1) by (auto simp: validateCableName_def split: if_split_asm)
  then have "NL \<notin> set cable" by (auto simp: list_all_iff cable_name_char_def NL_def)
  moreover have "NL \<notin> set (family_str f)" by (cases f) (simp_all add: NL_def)
  moreover have "NL \<notin> set (dec_of_nat k)" for k using dec_of_nat_chars addr_char_plain by blast
  ultimately show "NL \<notin> set n" by (simp add: assms(2) toConnectionName_def NL_def)
  show "n \<noteq> []" by (simp add: assms(2) toConnectionName_def)
  have ne: "dec_of_nat rsi \<noteq> []" by (subst dec_of_nat.simps) simp
  then have "last n = last (dec_of_nat rsi)" by (simp add: assms(2) toConnectionName_def)
  moreover have "last (dec_of_nat rsi) \<in> set (dec_of_nat rsi)" using ne by simp
  ultimately show "\<not> is_space (last n)" using dec_of_nat_chars addr_char_plain by metis
qed

section \<open>Installing and removing stanzas\<close>

text \<open>
  What the driver relies on of the other commands: they do not write the connection file.
\<close>

definition commands_keep :: "'k ipsecHost \<Rightarrow> ('k \<Rightarrow> string option) \<Rightarrow> bool" where
  "commands_keep H content \<longleftrightarrow> (\<forall>n k. content (fst (ih_auto_add H n k)) = content k) \<and>
     (\<forall>args k. content (fst (ih_whack H args k)) = content k)"

lemma commands_keepD:
  "commands_keep H content \<Longrightarrow> ih_auto_add H n k = (k', e) \<Longrightarrow> content k' = content k"
  "commands_keep H content \<Longrightarrow> ih_whack H args k = (k', e) \<Longrightarrow> content k' = content k"
  unfolding commands_keep_def by (metis fst_conv)+

lemma conf_cong:
  "content k' = content k \<Longrightarrow> conf_lines content k' = conf_lines content k"
  "content k' = content k \<Longrightarrow> conf_inv content k' \<longleftrightarrow> conf_inv content k"
  by (simp_all add: conf_lines_def conf_inv_def)

text \<open>The inputs of the stanzas of an endpoint have passed the validation.\<close>

definition plain_pairs :: "(nat \<times> nat \<times> string \<times> string) list \<Rightarrow> bool" where
  "plain_pairs ps \<longleftrightarrow> (\<forall>(lsi, rsi, s, t)\<in>set ps. NL \<notin> set s \<and> NL \<notin> set t)"

definition pair_name :: "EndpointSpec \<Rightarrow> IPFamily \<Rightarrow> nat \<times> nat \<times> string \<times> string \<Rightarrow> string" where
  "pair_name endpoint f = (\<lambda>(lsi, rsi, s, t). toConnectionName (CableName endpoint) f lsi rsi)"

definition pair_body :: "libs \<Rightarrow> 'k libreswan \<Rightarrow> string \<Rightarrow> IPFamily \<Rightarrow> bool \<Rightarrow> nat \<times> nat \<times> string \<times> string \<Rightarrow> string list" where
  "pair_body L i useIP f useNAT = (\<lambda>(lsi, rsi, s, t).
     cert_body (GetPrivateIP L f (ls_localEndpoint i)) useIP s t (useNAT \<or> ls_forceUDPEncapsulation i))"

lemma validated_plain:
  assumes "validateEndpointInputs spec localIP remoteIP = None"
  shows "validateCableName (CableName spec) = None \<and> NL \<notin> set localIP \<and> NL \<notin> set remoteIP"
proof -
  have "validateCableName (CableName spec) = None"
    using assms by (auto simp: validateEndpointInputs_def split: option.split_asm)
  moreover from validated_address [OF assms] obtain a b where "ParseIP remoteIP = Some a" "ParseIP localIP = Some b" by blast
  ultimately show ?thesis using ParseIP_chars addr_char_plain by blast
qed

lemma subnet_pairs_elem: "(lsi, rsi, s, t) \<in> set (subnet_pairs left right) \<Longrightarrow> s \<in> set left \<and> t \<in> set right"
  by (auto simp: subnet_pairs_def in_set_enumerate_eq)

lemma extracted_pairs_plain:
  assumes "ExtractSubnetsExcludingIP L ip spec = Some left" "ExtractSubnetsExcludingIP L ip spec' = Some right"
  shows "plain_pairs (subnet_pairs left right)"
  using extracted_chars [OF assms(1)] extracted_chars [OF assms(2)] addr_char_plain
  by (fastforce simp: plain_pairs_def dest: subnet_pairs_elem)

lemma install_cert_connection_stanza:
  assumes ok: "conf_ok (ih_file H) content" "commands_keep H content" and inv: "conf_inv content k"
    and v: "validateEndpointInputs endpoint (GetPrivateIP L f (ls_localEndpoint i)) useIP = None"
    and nl: "NL \<notin> set s" "NL \<notin> set t" and n: "n = toConnectionName (CableName endpoint) f lsi rsi"
    and c: "install_cert_connection L H i endpoint useIP f useNAT n s t k = (k', None)"
  shows "conf_inv content k' \<and> stanza m (conf_lines content k') =
    (if m = n then Some (pair_body L i useIP f useNAT (lsi, rsi, s, t)) else stanza m (conf_lines content k))"
proof -
  let ?conf = "cert_stanza n (GetPrivateIP L f (ls_localEndpoint i)) useIP s t (useNAT \<or> ls_forceUDPEncapsulation i)"
  from c obtain k1 k2 e where k1: "AppendConnectionStanza (ih_file H) ?conf n k = (k1, None)"
      and k2: "ih_auto_add H n k1 = (k2, e)" and k': "k' = k2 \<or> (\<exists>args e'. ih_whack H args k2 = (k', e'))"
    by (auto simp: install_cert_connection_def Let_def apsnd_def map_prod_def split: prod.split_asm option.split_asm if_split_asm)
  have "content k' = content k1" using k' commands_keepD [OF ok(2)] k2 by metis
  note cong = conf_cong [of content k' k1, OF this]
  note vp = validated_plain [OF v]
  have "stanza_text n (pair_body L i useIP f useNAT (lsi, rsi, s, t)) ?conf"
    unfolding pair_body_def using vp nl connection_name_plain [OF _ n] by (auto intro!: cert_stanza_text)
  from AppendConnectionStanza_ok [OF ok(1) inv this k1] show ?thesis unfolding cong .
qed

lemma install_cert_loop_stanzas:
  assumes ok: "conf_ok (ih_file H) content" "commands_keep H content"
    and v: "validateEndpointInputs endpoint (GetPrivateIP L f (ls_localEndpoint i)) useIP = None"
  shows "install_cert_loop L H i endpoint useIP f useNAT only ps k = (k', None) \<Longrightarrow> conf_inv content k \<Longrightarrow>
    plain_pairs ps \<Longrightarrow> distinct (map (pair_name endpoint f) ps) \<Longrightarrow>
    conf_inv content k' \<and>
    (\<forall>p\<in>set ps. only = None \<or> pair_name endpoint f p \<in> set (the only) \<longrightarrow>
       stanza (pair_name endpoint f p) (conf_lines content k') = Some (pair_body L i useIP f useNAT p)) \<and>
    (\<forall>m. m \<notin> pair_name endpoint f ` set ps \<or> only \<noteq> None \<and> m \<notin> set (the only) \<longrightarrow>
       stanza m (conf_lines content k') = stanza m (conf_lines content k))"
proof (induction ps arbitrary: k)
  case (Cons p ps)
  obtain lsi rsi s t where p: "p = (lsi, rsi, s, t)" by (cases p)
  define n where "n = toConnectionName (CableName endpoint) f lsi rsi"
  have pn: "pair_name endpoint f p = n" by (simp add: p n_def pair_name_def)
  have nl: "NL \<notin> set s" "NL \<notin> set t" and pl: "plain_pairs ps"
    using Cons.prems(3) by (auto simp: plain_pairs_def p)
  from Cons.prems(4) pn have fresh: "n \<notin> pair_name endpoint f ` set ps" "distinct (map (pair_name endpoint f) ps)" by auto
  show ?case
  proof (cases "only \<noteq> None \<and> n \<notin> set (the only)")
    case True
    with Cons.prems(1) have "install_cert_loop L H i endpoint useIP f useNAT only ps k = (k', None)"
      by (simp add: p n_def [symmetric] Let_def)
    from Cons.IH [OF this Cons.prems(2) pl fresh(2)] True pn show ?thesis by auto
  next
    case False
    with Cons.prems(1) obtain k1 where k1: "install_cert_connection L H i endpoint useIP f useNAT n s t k = (k1, None)"
        "install_cert_loop L H i endpoint useIP f useNAT only ps k1 = (k', None)"
      by (auto simp: p n_def [symmetric] Let_def split: prod.split_asm option.split_asm)
    note one = install_cert_connection_stanza [OF ok Cons.prems(2) v nl n_def k1(1), folded p]
    note rest = Cons.IH [OF k1(2) conjunct1 [OF one] pl fresh(2)]
    from rest fresh(1) have "stanza n (conf_lines content k') = stanza n (conf_lines content k1)" by blast
    with one rest pn False show ?thesis by auto
  qed
qed simp

lemma cert_connect_stanzas:
  assumes ok: "conf_ok (ih_file H) content" "commands_keep H content" and inv: "conf_inv content (ls_host i)"
    and i: "ls_authMode i = AuthModeCert" and c: "ls_ConnectToEndpoint L H info i = (i', ip, None)"
    and spec: "spec = ep_Spec (ni_Endpoint info)" and f: "f = ni_UseFamily info"
  obtains left right where "ExtractSubnetsExcludingIP L (ni_UseIP info) (ls_localEndpoint i) = Some left"
    "ExtractSubnetsExcludingIP L (ni_UseIP info) spec = Some right"
    "ls_localEndpoint i' = ls_localEndpoint i" "ls_authMode i' = ls_authMode i" "conf_inv content (ls_host i')"
    "\<forall>p\<in>set (subnet_pairs left right). stanza (pair_name spec f p) (conf_lines content (ls_host i')) =
       Some (pair_body L i (ni_UseIP info) f (ni_UseNAT info) p)"
    "\<forall>m. m \<notin> set (connection_names (CableName spec) f (length left) (length right)) \<longrightarrow>
       stanza m (conf_lines content (ls_host i')) = stanza m (conf_lines content (ls_host i))"
proof -
  from c i obtain left right k where v: "validateEndpointInputs spec (GetPrivateIP L f (ls_localEndpoint i)) (ni_UseIP info) = None"
      and sub: "ExtractSubnetsExcludingIP L (ni_UseIP info) (ls_localEndpoint i) = Some left"
        "ExtractSubnetsExcludingIP L (ni_UseIP info) spec = Some right"
      and k: "install_cert_loop L H i spec (ni_UseIP info) f (ni_UseNAT info) None (subnet_pairs left right) (ls_host i) = (k, None)"
      and i': "i' = i\<lparr>ls_host := k, ls_connections := ls_connections i @ [new_connection info]\<rparr>"
    by (auto simp: ls_ConnectToEndpoint_def connectToEndpointCertMode_def installCertModeConnections_def spec f
        split: prod.split_asm option.split_asm)
  have names: "map (pair_name spec f) (subnet_pairs left right) =
      connection_names (CableName spec) f (length left) (length right)"
    unfolding pair_name_def by (rule subnet_pairs_names)
  then have "pair_name spec f ` set (subnet_pairs left right) =
      set (connection_names (CableName spec) f (length left) (length right))" by (metis set_map)
  with install_cert_loop_stanzas [OF ok v k inv extracted_pairs_plain [OF sub]] names connection_names_distinct
  show thesis by (intro that [OF sub]) (simp_all add: i')
qed

lemma disconnectCertMode_None: "disconnectCertMode H n k = (k', None) \<longleftrightarrow> RemoveConnectionStanza (ih_file H) n k = (k', None)"
  by (cases "RemoveConnectionStanza (ih_file H) n k") (simp add: disconnectCertMode_def)

lemma disconnect_names_stanzas:
  assumes ok: "conf_ok (ih_file H) content"
  shows "disconnect_names (map (disconnectCertMode H) ns) k = (k', None) \<Longrightarrow> conf_inv content k \<Longrightarrow>
    conf_inv content k' \<and> (\<forall>m. stanza m (conf_lines content k') = (if m \<in> set ns then None else stanza m (conf_lines content k)))"
proof (induction ns arbitrary: k)
  case (Cons n ns)
  from Cons.prems(1) obtain k1 where k1: "RemoveConnectionStanza (ih_file H) n k = (k1, None)"
      "disconnect_names (map (disconnectCertMode H) ns) k1 = (k', None)"
    by (auto simp: disconnectCertMode_None split: prod.split_asm option.split_asm)
  from RemoveConnectionStanza_ok [OF ok Cons.prems(2) k1(1)] have "conf_inv content k1"
    "conf_lines content k1 = without n (conf_lines content k)" by simp_all
  moreover have "stanza n (without n (conf_lines content k)) = None"
    using without_gone Cons.prems(2) stanza_None unfolding conf_inv_alt by blast
  ultimately show ?case using Cons.IH [OF k1(2)] stanza_without_other by simp
qed simp

text \<open>C16: With certificates, connecting writes for each pair of subnets of the family its stanza, with the addresses and
  subnets of the pair and nothing else in it (no input can add lines or stanzas of its own), and leaves every other
  stanza of the file as it is; disconnecting removes exactly these stanzas, provided that the address the cable uses and
  the private address leave out the same subnets.\<close>

theorem cert_connect_disconnect:
  assumes "conf_ok (ih_file H) content" and "commands_keep H content" and "conf_inv content (ls_host i)"
    and "ls_authMode i = AuthModeCert" and "ls_ConnectToEndpoint L H info i = (i1, ip, None)"
    and "spec = ep_Spec (ni_Endpoint info)" and "f = ni_UseFamily info"
    and "ls_DisconnectFromEndpoint L H spec f i1 = (i2, None)"
    and "\<forall>sp\<in>{ls_localEndpoint i, spec}. ExtractSubnetsExcludingIP L (ni_UseIP info) sp =
      ExtractSubnetsExcludingIP L (GetPrivateIP L f sp) sp"
  shows "\<exists>left right. ExtractSubnetsExcludingIP L (ni_UseIP info) (ls_localEndpoint i) = Some left \<and>
    ExtractSubnetsExcludingIP L (ni_UseIP info) spec = Some right \<and>
    (\<forall>p\<in>set (subnet_pairs left right). stanza (pair_name spec f p) (conf_lines content (ls_host i1)) =
       Some (pair_body L i (ni_UseIP info) f (ni_UseNAT info) p)) \<and>
    (\<forall>m. if m \<in> set (connection_names (CableName spec) f (length left) (length right))
       then stanza m (conf_lines content (ls_host i2)) = None
       else stanza m (conf_lines content (ls_host i1)) = stanza m (conf_lines content (ls_host i)) \<and>
         stanza m (conf_lines content (ls_host i2)) = stanza m (conf_lines content (ls_host i)))"
proof -
  from assms(1-7) obtain left right where
      sub: "ExtractSubnetsExcludingIP L (ni_UseIP info) (ls_localEndpoint i) = Some left"
        "ExtractSubnetsExcludingIP L (ni_UseIP info) spec = Some right"
      and i1: "ls_localEndpoint i1 = ls_localEndpoint i" "ls_authMode i1 = ls_authMode i"
      and inv: "conf_inv content (ls_host i1)"
      and st: "\<forall>p\<in>set (subnet_pairs left right). stanza (pair_name spec f p) (conf_lines content (ls_host i1)) =
        Some (pair_body L i (ni_UseIP info) f (ni_UseNAT info) p)"
      and other: "\<forall>m. m \<notin> set (connection_names (CableName spec) f (length left) (length right)) \<longrightarrow>
        stanza m (conf_lines content (ls_host i1)) = stanza m (conf_lines content (ls_host i))"
    by (rule cert_connect_stanzas)
  have "disconnect_names (map (disconnectCertMode H) (connection_names (CableName spec) f (length left) (length right)))
      (ls_host i1) = (ls_host i2, None)"
    using assms(4,8,9) i1 sub by (auto simp: ls_DisconnectFromEndpoint_def Let_def split: prod.split_asm option.split_asm)
  from disconnect_names_stanzas [OF assms(1) this inv] sub st other show ?thesis by auto
qed

lemma ref_host_conf: "conf_ok (ih_file ref_host) snd" "commands_keep ref_host snd"
  by (simp_all add: conf_ok_def commands_keep_def ref_host_def ref_whack_def Let_def)

definition cert_gateway :: "ref_ipsec libreswan" where
  "cert_gateway = (ls_gateway ls_east)\<lparr>ls_authMode := AuthModeCert, ls_host := ([], example_file)\<rparr>"

definition west_pair :: "nat \<times> nat \<times> string \<times> string" where
  "west_pair = (0, 0, ''10.1.0.0/16'', ''10.2.0.0/16'')"

theorem cert_connect_disconnect_witness:
  "stanza ''submariner-cable-west-10-0-0-2-v4-0-0'' (conf_lines snd (ls_host (fst
     (ls_ConnectToEndpoint ref_libs ref_host (info_for (ep_Spec (west 1)) ''10.0.0.2'') cert_gateway)))) =
   Some [''    left=10.0.0.1'', ''    leftid=%fromcert'', ''    leftcert=subm-client-cert'', ''    leftrsasigkey=%cert'',
     ''    leftsubnet=10.1.0.0/16'', ''    leftmodecfgclient=false'', ''    right=10.0.0.2'', ''    rightid=%fromcert'',
     ''    rightsubnet=10.2.0.0/16'', ''    auto=add'', ''    ikev2=insist'', ''    authby=rsasig'', ''    type=tunnel'']"
proof -
  let ?info = "info_for (ep_Spec (west 1)) ''10.0.0.2''" and ?i = cert_gateway
  let ?c = "ls_ConnectToEndpoint ref_libs ref_host ?info ?i"
  let ?d = "ls_DisconnectFromEndpoint ref_libs ref_host (ep_Spec (west 1)) IPv4 (fst ?c)"
  have i: "ls_authMode ?i = AuthModeCert" by (simp add: cert_gateway_def)
  have inv: "conf_inv snd (ls_host ?i)" by code_simp
  have f: "ep_Spec (west 1) = ep_Spec (ni_Endpoint ?info)" "IPv4 = ni_UseFamily ?info" by (simp_all add: info_for_def)
  have "snd (snd ?c) = None" by code_simp
  then have c: "?c = (fst ?c, fst (snd ?c), None)" by (metis prod.collapse)
  have "snd ?d = None" by code_simp
  then have d: "?d = (fst ?d, None)" by (metis prod.collapse)
  have e: "\<forall>sp\<in>{ls_localEndpoint ?i, ep_Spec (west 1)}. ExtractSubnetsExcludingIP ref_libs (ni_UseIP ?info) sp =
      ExtractSubnetsExcludingIP ref_libs (GetPrivateIP ref_libs IPv4 sp) sp" by code_simp
  have s: "ExtractSubnetsExcludingIP ref_libs (ni_UseIP ?info) (ls_localEndpoint ?i) = Some [''10.1.0.0/16'']"
    "ExtractSubnetsExcludingIP ref_libs (ni_UseIP ?info) (ep_Spec (west 1)) = Some [''10.2.0.0/16'']"
    "subnet_pairs [''10.1.0.0/16''] [''10.2.0.0/16''] = [west_pair]" by code_simp+
  have b: "pair_name (ep_Spec (west 1)) IPv4 west_pair = ''submariner-cable-west-10-0-0-2-v4-0-0''"
    "pair_body ref_libs ?i (ni_UseIP ?info) IPv4 (ni_UseNAT ?info) west_pair =
      [''    left=10.0.0.1'', ''    leftid=%fromcert'', ''    leftcert=subm-client-cert'', ''    leftrsasigkey=%cert'',
     ''    leftsubnet=10.1.0.0/16'', ''    leftmodecfgclient=false'', ''    right=10.0.0.2'', ''    rightid=%fromcert'',
     ''    rightsubnet=10.2.0.0/16'', ''    auto=add'', ''    ikev2=insist'', ''    authby=rsasig'', ''    type=tunnel'']"
    by code_simp+
  from cert_connect_disconnect [OF ref_host_conf inv i c f d e]
  have "stanza (pair_name (ep_Spec (west 1)) IPv4 west_pair) (conf_lines snd (ls_host (fst ?c))) =
      Some (pair_body ref_libs ?i (ni_UseIP ?info) IPv4 (ni_UseNAT ?info) west_pair)"
    unfolding s by (auto simp: s(3))
  then show ?thesis unfolding b .
qed

section \<open>Connections without security associations\<close>

definition refresh_key :: "libs \<Rightarrow> Connection \<Rightarrow> string" where
  "refresh_key L c = missedRefreshesKey (CableName (conn_Endpoint c)) (GetFamily L c)"

definition misses :: "(string \<rightharpoonup> nat) \<Rightarrow> string \<Rightarrow> nat" where
  "misses m key = (case m key of None \<Rightarrow> 0 | Some n \<Rightarrow> n)"

text \<open>A connection is due when this refresh is the third in a row without a security association.\<close>

definition due :: "libs \<Rightarrow> (string \<rightharpoonup> nat) \<Rightarrow> Connection \<Rightarrow> bool" where
  "due L m c \<longleftrightarrow> Status c \<noteq> Connected \<and> misses m (refresh_key L c) \<ge> 2"

lemma family_str_no_dash: "CHR ''-'' \<notin> set (CHR ''v'' # family_str f)"
  by (cases f) simp_all

lemma refresh_key_inj: "refresh_key L c = refresh_key L d \<longleftrightarrow> conn_key L c = conn_key L d"
proof
  assume "refresh_key L c = refresh_key L d"
  then have "CableName (conn_Endpoint c) @ CHR ''-'' # (CHR ''v'' # family_str (GetFamily L c)) =
      CableName (conn_Endpoint d) @ CHR ''-'' # (CHR ''v'' # family_str (GetFamily L d))"
    by (simp add: refresh_key_def missedRefreshesKey_def)
  from last_dash [OF this family_str_no_dash family_str_no_dash] show "conn_key L c = conn_key L d"
    by (auto simp: conn_key_def dest: family_str_inj)
qed (simp add: conn_key_def refresh_key_def)

lemma count_missed_Cons:
  "count_missed L (c # cs) m =
     (let m1 = m(refresh_key L c := if Status c = Connected \<or> due L m c then None else Some (misses m (refresh_key L c) + 1)) in
      apsnd (\<lambda>stale. if due L m c then c # stale else stale) (count_missed L cs m1))"
proof -
  have [simp]: "apsnd (\<lambda>stale. stale) p = p" for p :: "'a \<times> 'b" by (cases p) simp
  show ?thesis by (simp add: due_def misses_def refresh_key_def certModeReconcileThreshold_def Let_def)
qed

lemma count_missed_spec:
  "count_missed L cs m = (m', stale) \<Longrightarrow> distinct (map (conn_key L) cs) \<Longrightarrow>
   stale = filter (due L m) cs \<and>
   (\<forall>c\<in>set cs. misses m' (refresh_key L c) =
      (if Status c = Connected \<or> due L m c then 0 else misses m (refresh_key L c) + 1)) \<and>
   (\<forall>key. key \<notin> refresh_key L ` set cs \<longrightarrow> m' key = m key)"
proof (induction cs arbitrary: m m' stale)
  case (Cons c cs)
  define m1 where "m1 = m(refresh_key L c := if Status c = Connected \<or> due L m c then None else Some (misses m (refresh_key L c) + 1))"
  obtain stale1 where r: "count_missed L cs m1 = (m', stale1)" "stale = (if due L m c then c # stale1 else stale1)"
    using Cons.prems(1) unfolding count_missed_Cons m1_def [symmetric] Let_def
    by (cases "count_missed L cs m1") simp
  have other: "refresh_key L d \<noteq> refresh_key L c" if "d \<in> set cs" for d
    using that Cons.prems(2) unfolding refresh_key_inj by (auto simp: image_iff)
  then have same: "misses m1 (refresh_key L d) = misses m (refresh_key L d)" "due L m1 d = due L m d" if "d \<in> set cs" for d
    using that by (auto simp: m1_def misses_def due_def)
  have key: "refresh_key L c \<notin> refresh_key L ` set cs" using other by (metis imageE)
  from Cons.prems(2) have dist: "distinct (map (conn_key L) cs)" by simp
  note ih = Cons.IH [OF r(1) dist]
  have "filter (due L m1) cs = filter (due L m) cs" using same by (intro filter_cong) auto
  moreover have "misses m' (refresh_key L c) = (if Status c = Connected \<or> due L m c then 0 else misses m (refresh_key L c) + 1)"
    using ih key by (auto simp: m1_def misses_def)
  moreover have "m1 key' = m key'" if "key' \<noteq> refresh_key L c" for key' using that by (simp add: m1_def)
  ultimately show ?case using ih r(2) same by simp
qed simp

section \<open>Re-installing dropped connections\<close>

definition plain_name :: "string \<Rightarrow> bool" where
  "plain_name n \<longleftrightarrow> n \<noteq> [] \<and> CHR 0x22 \<notin> set n"

lemma connection_name_plain_name:
  assumes "validateCableName cable = None"
  shows "plain_name (toConnectionName cable f lsi rsi)"
proof -
  have "list_all cable_name_char cable" using assms by (auto simp: validateCableName_def split: if_split_asm)
  then have "CHR 0x22 \<notin> set cable" by (auto simp: list_all_iff cable_name_char_def)
  moreover have "CHR 0x22 \<notin> set (family_str f)" by (cases f) simp_all
  moreover have "\<not> addr_char (CHR 0x22)" by (simp add: addr_char_def hex_val_def Let_def)
  then have "CHR 0x22 \<notin> set (dec_of_nat k)" for k using dec_of_nat_chars by blast
  ultimately show ?thesis by (simp add: plain_name_def toConnectionName_def)
qed

text \<open>
  A daemon that works: \<open>ipsec auto --add\<close> loads a connection, \<open>--status\<close> lists the loaded ones, initiating one and
  writing the file leave them loaded, and none of these fails.
\<close>

definition pluto_works :: "'k ipsecHost \<Rightarrow> ('k \<Rightarrow> string set) \<Rightarrow> bool" where
  "pluto_works H loaded \<longleftrightarrow>
     (\<forall>n k. plain_name n \<longrightarrow> (\<exists>k'. ih_auto_add H n k = (k', None) \<and> loaded k' = insert n (loaded k))) \<and>
     (\<forall>n k. \<exists>k'. ih_whack H [''--name'', n, ''--asynchronous'', ''--initiate''] k = (k', None) \<and> loaded k' = loaded k) \<and>
     (\<forall>k. \<exists>lines. ih_status H k = Inr lines \<and> set (List.map_filter LoadedConnectionRE lines) = loaded k) \<and>
     (\<forall>k. \<exists>r. cf_ReadFile (ih_file H) k = Inr r) \<and>
     (\<forall>s k. \<exists>k'. cf_WriteFile (ih_file H) s k = (k', None) \<and> loaded k' = loaded k) \<and>
     (\<forall>k. \<exists>k'. cf_Remove (ih_file H) k = (k', None) \<and> loaded k' = loaded k) \<and>
     (\<forall>k. \<exists>k'. cf_OpenAppend (ih_file H) k = (k', None) \<and> loaded k' = loaded k) \<and>
     (\<forall>s k. \<exists>k'. cf_WriteString (ih_file H) s k = (k', None) \<and> loaded k' = loaded k)"

lemma pluto_worksD:
  assumes "pluto_works H loaded"
  shows "plain_name n \<Longrightarrow> \<exists>k'. ih_auto_add H n k = (k', None) \<and> loaded k' = insert n (loaded k)"
    "\<exists>k'. ih_whack H [''--name'', n, ''--asynchronous'', ''--initiate''] k = (k', None) \<and> loaded k' = loaded k"
    "\<exists>lines. ih_status H k = Inr lines \<and> set (List.map_filter LoadedConnectionRE lines) = loaded k"
    "\<exists>r. cf_ReadFile (ih_file H) k = Inr r"
    "\<exists>k'. cf_WriteFile (ih_file H) s k = (k', None) \<and> loaded k' = loaded k"
    "\<exists>k'. cf_Remove (ih_file H) k = (k', None) \<and> loaded k' = loaded k"
    "\<exists>k'. cf_OpenAppend (ih_file H) k = (k', None) \<and> loaded k' = loaded k"
    "\<exists>k'. cf_WriteString (ih_file H) s k = (k', None) \<and> loaded k' = loaded k"
  using assms unfolding pluto_works_def by blast+

lemma remove_stanza_works:
  assumes "pluto_works H loaded"
  shows "\<exists>k'. RemoveConnectionStanza (ih_file H) n k = (k', None) \<and> loaded k' = loaded k"
proof -
  note w = pluto_worksD [OF assms]
  obtain r where r: "cf_ReadFile (ih_file H) k = Inr r" using w(4) by blast
  obtain k1 where k1: "cf_Remove (ih_file H) k = (k1, None)" "loaded k1 = loaded k" using w(6) by blast
  have wr: "\<exists>k'. cf_WriteFile (ih_file H) s k = (k', None) \<and> loaded k' = loaded k" for s by (rule w(5))
  show ?thesis
  proof (cases r)
    case (Some data)
    show ?thesis
    proof (cases "index_func (is_header n) (file_lines data)")
      case (Some start)
      let ?w = "without n (file_lines data)"
      obtain k2 where "cf_WriteFile (ih_file H) (join [NL] ?w @ [NL]) k = (k2, None)" "loaded k2 = loaded k"
        using wr by blast
      with r k1 \<open>r = Some data\<close> Some removed_lines [OF Some] show ?thesis
        by (cases "?w = []") (simp_all add: RemoveConnectionStanza_def Let_def)
    next
      case None
      with r \<open>r = Some data\<close> show ?thesis by (simp add: RemoveConnectionStanza_def)
    qed
  next
    case None
    with r show ?thesis by (simp add: RemoveConnectionStanza_def)
  qed
qed

lemma append_stanza_works:
  assumes "pluto_works H loaded"
  shows "\<exists>k'. AppendConnectionStanza (ih_file H) s n k = (k', None) \<and> loaded k' = loaded k"
proof -
  obtain k1 where "RemoveConnectionStanza (ih_file H) n k = (k1, None)" "loaded k1 = loaded k"
    using remove_stanza_works [OF assms] by blast
  moreover obtain k2 where "cf_OpenAppend (ih_file H) k1 = (k2, None)" "loaded k2 = loaded k1"
    using pluto_worksD(7) [OF assms] by blast
  moreover obtain k3 where "cf_WriteString (ih_file H) (if has_suffix s [NL] then s else s @ [NL]) k2 = (k3, None)" "loaded k3 = loaded k2"
    using pluto_worksD(8) [OF assms] by blast
  ultimately show ?thesis by (simp add: AppendConnectionStanza_def)
qed

lemma install_cert_connection_works:
  assumes "pluto_works H loaded" "plain_name n"
  shows "\<exists>k'. install_cert_connection L H i endpoint useIP f useNAT n s t k = (k', None) \<and> loaded k' = insert n (loaded k)"
proof -
  let ?conf = "cert_stanza n (GetPrivateIP L f (ls_localEndpoint i)) useIP s t (useNAT \<or> ls_forceUDPEncapsulation i)"
  obtain k1 where "AppendConnectionStanza (ih_file H) ?conf n k = (k1, None)" "loaded k1 = loaded k"
    using append_stanza_works [OF assms(1)] by blast
  moreover obtain k2 where "ih_auto_add H n k1 = (k2, None)" "loaded k2 = insert n (loaded k1)"
    using pluto_worksD(1) [OF assms] by blast
  moreover obtain k3 where "ih_whack H [''--name'', n, ''--asynchronous'', ''--initiate''] k2 = (k3, None)" "loaded k3 = loaded k2"
    using pluto_worksD(2) [OF assms(1)] by blast
  ultimately show ?thesis by (simp add: install_cert_connection_def Let_def)
qed

lemma install_cert_loop_works:
  assumes "pluto_works H loaded" "validateCableName (CableName endpoint) = None"
  shows "\<exists>k'. install_cert_loop L H i endpoint useIP f useNAT only ps k = (k', None) \<and>
    loaded k' = loaded k \<union> {n \<in> pair_name endpoint f ` set ps. only = None \<or> n \<in> set (the only)}"
proof (induction ps arbitrary: k)
  case (Cons p ps)
  obtain lsi rsi s t where p: "p = (lsi, rsi, s, t)" by (cases p)
  define n where "n = toConnectionName (CableName endpoint) f lsi rsi"
  have pn: "pair_name endpoint f p = n" by (simp add: p n_def pair_name_def)
  show ?case
  proof (cases "only \<noteq> None \<and> n \<notin> set (the only)")
    case True
    with Cons.IH [of k] pn show ?thesis by (auto simp: p n_def [symmetric] Let_def)
  next
    case False
    obtain k1 where "install_cert_connection L H i endpoint useIP f useNAT n s t k = (k1, None)" "loaded k1 = insert n (loaded k)"
      using install_cert_connection_works [OF assms(1)] connection_name_plain_name [OF assms(2)] unfolding n_def by blast
    with False Cons.IH [of k1] pn show ?thesis by (auto simp: p n_def [symmetric] Let_def)
  qed
qed simp

text \<open>
  The names of the connections that a connection of the driver stands for, one for each pair of a local and a remote subnet, which are
  numbered from 0: \<open>cable-v4-0-0\<close>, \<open>cable-v4-0-1\<close> and so on. \<open>inputs_ok\<close>: the inputs it was installed with.
\<close>

definition names_of :: "libs \<Rightarrow> EndpointSpec \<Rightarrow> Connection \<Rightarrow> string set" where
  "names_of L localEndpoint c =
     (case (ExtractSubnetsExcludingIP L (UsingIP c) localEndpoint, ExtractSubnetsExcludingIP L (UsingIP c) (conn_Endpoint c)) of
        (Some left, Some right) \<Rightarrow> (\<lambda>(l, r). CableName (conn_Endpoint c) @ ''-v'' @ family_str (GetFamily L c) @ ''-'' @ dec_of_nat l @
          ''-'' @ dec_of_nat r) ` ({..<length left} \<times> {..<length right})
      | _ \<Rightarrow> {})"

definition inputs_ok :: "libs \<Rightarrow> EndpointSpec \<Rightarrow> Connection \<Rightarrow> bool" where
  "inputs_ok L localEndpoint c \<longleftrightarrow>
     validateEndpointInputs (conn_Endpoint c) (GetPrivateIP L (GetFamily L c) localEndpoint) (UsingIP c) = None"

lemma connection_names_indexes:
  "set (connection_names cable f m n) =
    (\<lambda>(l, r). cable @ ''-v'' @ family_str f @ ''-'' @ dec_of_nat l @ ''-'' @ dec_of_nat r) ` ({..<m} \<times> {..<n})"
  by (auto simp: connection_names_def toConnectionName_def)

lemma missing_names_loaded:
  "missing_names L le ns c = Some missing \<Longrightarrow> set missing = names_of L le c - set ns"
  by (auto simp: missing_names_def names_of_def connection_names_indexes split: option.split_asm)

lemma reinstall_one:
  assumes w: "pluto_works H loaded" and v: "inputs_ok L (ls_localEndpoint i) c"
    and m: "missing_names L (ls_localEndpoint i) ns c = Some missing"
  shows "loaded (fst (installCertModeConnections L H i (conn_Endpoint c) (UsingIP c) (GetFamily L c) (UsingNAT c) (Some missing) k)) =
    loaded k \<union> set missing"
proof -
  from m obtain left right where sub: "ExtractSubnetsExcludingIP L (UsingIP c) (ls_localEndpoint i) = Some left"
      "ExtractSubnetsExcludingIP L (UsingIP c) (conn_Endpoint c) = Some right"
      and names: "set missing \<subseteq> set (connection_names (CableName (conn_Endpoint c)) (GetFamily L c) (length left) (length right))"
    by (auto simp: missing_names_def split: option.split_asm)
  have "pair_name (conn_Endpoint c) (GetFamily L c) ` set (subnet_pairs left right) =
      set (connection_names (CableName (conn_Endpoint c)) (GetFamily L c) (length left) (length right))"
    unfolding pair_name_def using subnet_pairs_names by (metis set_map)
  moreover have "validateCableName (CableName (conn_Endpoint c)) = None"
    using v validated_plain by (simp add: inputs_ok_def)
  ultimately show ?thesis
    using install_cert_loop_works [OF w, of "conn_Endpoint c" L i "UsingIP c" "GetFamily L c" "UsingNAT c" "Some missing"
      "subnet_pairs left right" k] v sub names by (auto simp: installCertModeConnections_def inputs_ok_def)
qed

lemma reinstall_works:
  assumes w: "pluto_works H loaded"
  shows "reinstall L H i ns cs k = (k', None) \<Longrightarrow> \<forall>c\<in>set cs. inputs_ok L (ls_localEndpoint i) c \<Longrightarrow>
    set ns \<subseteq> loaded k \<Longrightarrow> loaded k' = loaded k \<union> (\<Union>c\<in>set cs. names_of L (ls_localEndpoint i) c)"
proof (induction cs arbitrary: k)
  case (Cons c cs)
  from Cons.prems(1) obtain missing where m: "missing_names L (ls_localEndpoint i) ns c = Some missing"
    by (auto split: option.split_asm)
  define k1 where "k1 = (if missing = [] then k else
    fst (installCertModeConnections L H i (conn_Endpoint c) (UsingIP c) (GetFamily L c) (UsingNAT c) (Some missing) k))"
  from Cons.prems(1) m have r: "reinstall L H i ns cs k1 = (k', None)" by (simp add: k1_def split: if_split_asm)
  have "loaded k1 = loaded k \<union> set missing"
    using reinstall_one [OF w _ m] Cons.prems(2) by (simp add: k1_def)
  with Cons.prems(3) missing_names_loaded [OF m] have k1: "loaded k1 = loaded k \<union> names_of L (ls_localEndpoint i) c" by blast
  with Cons.IH [OF r] Cons.prems(2,3) show ?case by auto
qed simp

lemma ls_GetConnections_cert:
  assumes "ls_plutoStarted i" "ls_authMode i = AuthModeCert" "ls_GetConnections L H i = (i', Inr cs)"
  obtains i1 where "ls_connections i1 = cs" "ls_localEndpoint i1 = ls_localEndpoint i" "ls_host i1 = ls_host i"
    "ls_missedRefreshes i1 = ls_missedRefreshes i" "reconcileCertModeConnections L H i1 = (i', None)"
    "map (conn_key L) cs = map (conn_key L) (ls_connections i)"
proof -
  from assms obtain cs' rx tx loc where r: "refresh_loop L rx tx loc (ls_connections i) = Some cs'"
      "reconcileCertModeConnections L H (i\<lparr>ls_connections := cs'\<rparr>) = (i', None)" "cs = ls_connections i'"
    by (auto simp: ls_GetConnections_def refreshConnectionStatus_def Let_def
        split: sum.split_asm prod.split_asm option.split_asm)
  have key: "conn_key L (c\<lparr>Status := x\<rparr>) = conn_key L c" for c x by (simp add: conn_key_def GetFamily_def)
  have "map (conn_key L) cs' = map (conn_key L) (ls_connections i)"
    unfolding refresh_loop_map [OF r(1)] by (simp add: comp_def, subst refresh_connection_status, simp add: key)
  with r reconcile_frame [OF r(2)] show thesis by (intro that [of "i\<lparr>ls_connections := cs'\<rparr>"]) simp_all
qed

text \<open>C19: A daemon shared with the host may lose connections. Listing the connections in certificate mode restores them: all
  pairs of subnets of a connection that has no security association for the third refresh in a row are loaded
  afterwards, nothing that was loaded is lost and nothing else is loaded, provided that the daemon works and the
  connections were made from valid inputs. The count of the connection starts again.\<close>

theorem dropped_connections_restored:
  assumes "pluto_works H loaded" and "ls_plutoStarted i" and "ls_authMode i = AuthModeCert"
    and "distinct (map (conn_key L) (ls_connections i))" and "ls_GetConnections L H i = (i', Inr cs)"
    and "\<forall>c\<in>set cs. inputs_ok L (ls_localEndpoint i) c"
  shows "loaded (ls_host i') = loaded (ls_host i) \<union>
      (\<Union>c\<in>{c \<in> set cs. due L (ls_missedRefreshes i) c}. names_of L (ls_localEndpoint i) c) \<and>
    (\<forall>c\<in>set cs. misses (ls_missedRefreshes i') (refresh_key L c) =
      (if Status c = Connected \<or> due L (ls_missedRefreshes i) c then 0
       else misses (ls_missedRefreshes i) (refresh_key L c) + 1))"
proof -
  from assms(2,3,5) obtain i1 where i1: "ls_connections i1 = cs" "ls_localEndpoint i1 = ls_localEndpoint i"
      "ls_host i1 = ls_host i" "ls_missedRefreshes i1 = ls_missedRefreshes i"
    and rec: "reconcileCertModeConnections L H i1 = (i', None)"
    and key: "map (conn_key L) cs = map (conn_key L) (ls_connections i)"
    by (rule ls_GetConnections_cert)
  obtain m stale where m: "count_missed L cs (ls_missedRefreshes i) = (m, stale)" by fastforce
  note spec = count_missed_spec [OF m assms(4) [folded key]]
  obtain lines where st: "ih_status H (ls_host i) = Inr lines" "set (List.map_filter LoadedConnectionRE lines) = loaded (ls_host i)"
    using pluto_worksD(3) [OF assms(1)] by blast
  let ?i2 = "i1\<lparr>ls_missedRefreshes := m\<rparr>"
  have "loaded (ls_host i') = loaded (ls_host i) \<union> (\<Union>c\<in>set stale. names_of L (ls_localEndpoint i) c) \<and> ls_missedRefreshes i' = m"
  proof (cases "stale = []")
    case True
    with rec m i1 show ?thesis by (simp add: reconcileCertModeConnections_def) auto
  next
    case False
    with rec m i1 st obtain k where k: "reinstall L H ?i2 (List.map_filter LoadedConnectionRE lines) stale (ls_host i) = (k, None)"
        "i' = ?i2\<lparr>ls_host := k\<rparr>"
      by (auto simp: reconcileCertModeConnections_def retrieveLoadedConnections_def Let_def split: prod.split_asm)
    have "\<forall>c\<in>set stale. inputs_ok L (ls_localEndpoint ?i2) c" using assms(6) spec i1(2) by simp
    from reinstall_works [OF assms(1) k(1) this] st(2) k(2) i1(2) show ?thesis by simp
  qed
  with spec show ?thesis by simp
qed

definition cert_linked :: "ref_ipsec libreswan" where
  "cert_linked = (ls_gateway ls_east)\<lparr>ls_authMode := AuthModeCert,
     ls_connections := [(new_connection (info_for (ep_Spec (west 1)) ''10.0.0.2''))\<lparr>Status := Connecting\<rparr>],
     ls_missedRefreshes := [''submariner-cable-west-10-0-0-2-v4'' \<mapsto> 2]\<rparr>"

definition cert_host :: "ref_ipsec ipsecHost" where
  "cert_host = ref_host\<lparr>ih_status := \<lambda>k. Inr (map (\<lambda>n. CHR 0x22 # n @ [CHR 0x22, CHR '':'']) (filter plain_name (fst k)))\<rparr>"

lemma LoadedConnectionRE_plain: "plain_name n \<Longrightarrow> LoadedConnectionRE (CHR 0x22 # n @ [CHR 0x22, CHR '':'']) = Some n"
proof -
  assume n: "plain_name n"
  then have "takeWhile (\<lambda>c. c \<noteq> CHR 0x22) (n @ [CHR 0x22, CHR '':'']) = n"
    by (subst takeWhile_append2) (auto simp: plain_name_def)
  moreover have "\<not> is_digit (CHR 0x22)" by (simp add: is_digit_def)
  ultimately show ?thesis using n by (simp add: LoadedConnectionRE_def Let_def plain_name_def)
qed

lemma map_filter_plain:
  "\<forall>n\<in>set ns. plain_name n \<Longrightarrow> List.map_filter LoadedConnectionRE (map (\<lambda>n. CHR 0x22 # n @ [CHR 0x22, CHR '':'']) ns) = ns"
proof (induction ns)
  case (Cons n ns)
  then show ?case using LoadedConnectionRE_plain [of n] by (simp add: map_filter_simps)
qed (simp add: map_filter_simps)

lemma cert_host_works: "pluto_works cert_host (\<lambda>k. set (filter plain_name (fst k)))"
proof -
  have "set (List.map_filter LoadedConnectionRE (map (\<lambda>n. CHR 0x22 # n @ [CHR 0x22, CHR '':'']) (filter plain_name ns))) =
      {n \<in> set ns. plain_name n}" for ns
    by (subst map_filter_plain) auto
  then show ?thesis by (auto simp: pluto_works_def cert_host_def ref_host_def ref_whack_def)
qed

theorem dropped_connections_restored_witness:
  "\<exists>i' cs. ls_GetConnections ref_libs cert_host cert_linked = (i', Inr cs) \<and>
     ''submariner-cable-west-10-0-0-2-v4-0-0'' \<in> set (fst (ls_host i'))"
proof -
  let ?g = "ls_GetConnections ref_libs cert_host cert_linked"
  have "(case snd ?g of Inl _ \<Rightarrow> False | Inr cs \<Rightarrow> list_all (inputs_ok ref_libs (ls_localEndpoint cert_linked)) cs \<and>
      (\<exists>c\<in>set cs. due ref_libs (ls_missedRefreshes cert_linked) c \<and>
        ''submariner-cable-west-10-0-0-2-v4-0-0'' \<in> names_of ref_libs (ls_localEndpoint cert_linked) c))" by code_simp
  then obtain cs c where cs: "snd ?g = Inr cs" and ok: "\<forall>c\<in>set cs. inputs_ok ref_libs (ls_localEndpoint cert_linked) c"
    and c: "c \<in> set cs" "due ref_libs (ls_missedRefreshes cert_linked) c"
      "''submariner-cable-west-10-0-0-2-v4-0-0'' \<in> names_of ref_libs (ls_localEndpoint cert_linked) c"
    by (cases "snd ?g") (auto simp: list_all_iff)
  have i: "ls_plutoStarted cert_linked" "ls_authMode cert_linked = AuthModeCert"
    "distinct (map (conn_key ref_libs) (ls_connections cert_linked))" by code_simp+
  have g: "?g = (fst ?g, Inr cs)" using cs by (metis prod.collapse)
  from dropped_connections_restored [OF cert_host_works i(1-3) g ok] c
  have "''submariner-cable-west-10-0-0-2-v4-0-0'' \<in> set (fst (ls_host (fst ?g)))" by auto
  with g show ?thesis by blast
qed

section \<open>Disconnecting leaves the connections loaded\<close>

lemma disconnectCertMode_loaded:
  assumes "\<And>s k. loaded (fst (cf_WriteFile (ih_file H) s k)) = loaded k" "\<And>k. loaded (fst (cf_Remove (ih_file H) k)) = loaded k"
  shows "loaded (fst (disconnectCertMode H n k)) = loaded k"
  using assms by (simp add: disconnectCertMode_def RemoveConnectionStanza_def Let_def split: sum.split option.split)

lemma disconnect_names_loaded:
  assumes "\<And>n k. loaded (fst (f n k)) = loaded k"
  shows "loaded (fst (disconnect_names (map f ns) k)) = loaded k"
proof (induction ns arbitrary: k)
  case (Cons n ns)
  then show ?case using assms [of n k] by (cases "f n k") (auto split: option.split)
qed simp

text \<open>In certificate mode, disconnecting only edits the connection file: whatever was loaded in the daemon stays loaded,
  the connections of the endpoint included, because nothing deletes them there.\<close>

theorem cert_disconnect_stays_loaded:
  assumes "\<And>s k. loaded (fst (cf_WriteFile (ih_file H) s k)) = loaded k" and "\<And>k. loaded (fst (cf_Remove (ih_file H) k)) = loaded k"
    and "ls_authMode i = AuthModeCert"
  shows "loaded (ls_host (fst (ls_DisconnectFromEndpoint L H spec f i))) = loaded (ls_host i)"
proof -
  have "loaded (fst (disconnect_names (map (disconnectCertMode H) ns) k)) = loaded k" for ns k
    by (rule disconnect_names_loaded) (rule disconnectCertMode_loaded [of loaded, OF assms(1,2)])
  then have "disconnect_names (map (disconnectCertMode H) ns) (ls_host i) = (k, e) \<Longrightarrow> loaded k = loaded (ls_host i)" for ns k e
    by (metis fst_conv)
  with assms(3) show ?thesis
    by (auto simp: ls_DisconnectFromEndpoint_def Let_def split: option.split prod.split)
qed

definition cert_up :: "ref_ipsec libreswan" where
  "cert_up = cert_linked\<lparr>ls_host := ([''submariner-cable-west-10-0-0-2-v4-0-0''], None)\<rparr>"

theorem cert_disconnect_stays_loaded_witness:
  "fst (ls_host (fst (ls_DisconnectFromEndpoint ref_libs ref_host (ep_Spec (west 1)) IPv4 cert_up))) =
     [''submariner-cable-west-10-0-0-2-v4-0-0''] \<and>
   ls_connections (fst (ls_DisconnectFromEndpoint ref_libs ref_host (ep_Spec (west 1)) IPv4 cert_up)) = []"
proof -
  have "ls_authMode cert_up = AuthModeCert" by (simp add: cert_up_def cert_linked_def)
  moreover have "fst (fst (cf_WriteFile (ih_file ref_host) s k)) = fst k" "fst (fst (cf_Remove (ih_file ref_host) k)) = fst k" for s k
    by (simp_all add: ref_host_def)
  ultimately have "fst (ls_host (fst (ls_DisconnectFromEndpoint ref_libs ref_host (ep_Spec (west 1)) IPv4 cert_up))) =
      fst (ls_host cert_up)" by (intro cert_disconnect_stays_loaded [of fst])
  moreover have "length (ls_connections (fst (ls_DisconnectFromEndpoint ref_libs ref_host (ep_Spec (west 1)) IPv4 cert_up))) = 0"
    by code_simp
  ultimately show ?thesis by (simp add: cert_up_def)
qed

end
