(* ===== verification/AwgOptions.thy ===== *)
theory AwgOptions
  imports Libreswan "HOL-Library.Disjoint_Sets"
begin

text \<open>
  \<open>pkg/cable/amneziawg/options.go\<close>, \<open>obfuscation.go\<close> and \<open>pkg/cable/options.go\<close>: the options of the AmneziaWG driver, their defaults and
  their validation.

  An option is bound to a field of the device configuration or to the keepalive of the driver. The fields are the record \<open>optDest\<close>: the
  configuration as a map from option names, in which an absent entry is the nil pointer. The errors of the configuration are returned as
  the list that the code joins; the empty list is success. The options are an association list with distinct keys, in the order
  in which Go iterates over the map. White space is ASCII.
\<close>

section \<open>Options\<close>

datatype optVal = OptInt int | OptString string | OptDuration int

record optDest =
  od_cfg :: "string \<rightharpoonup> optVal"
  od_keepAlive :: int

record cableDriverOption =
  co_key :: string
  co_def :: string
  co_parse :: "string \<Rightarrow> string \<Rightarrow> optVal result"
  co_store :: "optVal \<Rightarrow> optDest \<Rightarrow> optDest"

definition cfg_store :: "string \<Rightarrow> optVal \<Rightarrow> optDest \<Rightarrow> optDest" where
  "cfg_store key v d = d\<lparr>od_cfg := (od_cfg d)(key \<mapsto> v)\<rparr>"

definition cfg_option :: "string \<Rightarrow> string \<Rightarrow> (string \<Rightarrow> string \<Rightarrow> optVal result) \<Rightarrow> cableDriverOption" where
  "cfg_option key def parse = \<lparr>co_key = key, co_def = def, co_parse = parse, co_store = cfg_store key\<rparr>"

definition opt_set :: "cableDriverOption \<Rightarrow> string \<Rightarrow> optDest \<Rightarrow> optDest \<times> err option" where
  "opt_set opt value d = (case co_parse opt (co_key opt) value of
      Inl e \<Rightarrow> (d, Some e) | Inr v \<Rightarrow> (co_store opt v d, None))"

definition invalid_option :: err where "invalid_option = Err ''invalid AmneziaWG option''"

definition parsePositiveInt :: "string \<Rightarrow> string \<Rightarrow> optVal result" where
  "parsePositiveInt key value = (case parse_int 64 value of
      None \<Rightarrow> Inl invalid_option
    | Some n \<Rightarrow> if n \<le> 0 then Inl invalid_option else Inr (OptInt n))"

definition parseNonNegativeInt :: "string \<Rightarrow> string \<Rightarrow> optVal result" where
  "parseNonNegativeInt key value = (case parse_int 64 value of
      None \<Rightarrow> Inl invalid_option
    | Some n \<Rightarrow> if n < 0 then Inl invalid_option else Inr (OptInt n))"

definition maxKeepAliveSeconds :: int where "maxKeepAliveSeconds = 65535"

definition parseKeepAliveSeconds :: "string \<Rightarrow> string \<Rightarrow> optVal result" where
  "parseKeepAliveSeconds key value = (case parse_int 64 value of
      None \<Rightarrow> Inl invalid_option
    | Some sec \<Rightarrow> if sec < 0 \<or> sec > maxKeepAliveSeconds then Inl invalid_option else Inr (OptDuration (sec * 10 ^ 9)))"

section \<open>Headers\<close>

record headerRange =
  hr_start :: nat
  hr_end :: nat

definition parseHeaderRange :: "string \<Rightarrow> headerRange result" where
  "parseHeaderRange value =
     (let parts = split_on (CHR ''-'') value in
      if length parts < 1 \<or> length parts > 2 then Inl (Err ''expected uint32 or min-max range'')
      else (case parse_uint 32 (parts ! 0) of
          None \<Rightarrow> Inl (Wrapped ''invalid range start'' (Sentinel ''NumError''))
        | Some start \<Rightarrow>
            (case (if length parts = 2 then parse_uint 32 (parts ! 1) else Some start) of
               None \<Rightarrow> Inl (Wrapped ''invalid range end'' (Sentinel ''NumError''))
             | Some end' \<Rightarrow>
                 if end' < start then Inl (Err ''range start must be <= end'')
                 else Inr \<lparr>hr_start = start, hr_end = end'\<rparr>)))"

definition parseHeader :: "string \<Rightarrow> string \<Rightarrow> optVal result" where
  "parseHeader key value = (case parseHeaderRange value of
      Inl e \<Rightarrow> Inl (Wrapped ''invalid AmneziaWG option'' e) | Inr _ \<Rightarrow> Inr (OptString value))"

section \<open>Packets before the handshake\<close>

definition trim_prefix :: "string \<Rightarrow> string \<Rightarrow> string" where
  "trim_prefix s p = (if has_prefix s p then drop (length p) s else s)"

text \<open>\<open>strings.Fields\<close>.\<close>

fun fields_from :: "string \<Rightarrow> string \<Rightarrow> string list" where
  "fields_from w [] = (if w = [] then [] else [w])"
| "fields_from w (c # cs) = (if is_space c then (if w = [] then [] else [w]) @ fields_from [] cs else fields_from (w @ [c]) cs)"

definition Fields :: "string \<Rightarrow> string list" where
  "Fields s = fields_from [] s"

definition validateInitPacketTag :: "string \<Rightarrow> string \<Rightarrow> err option" where
  "validateInitPacketTag name param =
     (if name = ''b'' then
        (let hexStr = trim_prefix (trim_prefix param ''0x'') ''0X'' in
         if hexStr = [] then Some (Err ''tag <b> requires hex bytes'')
         else if length hexStr mod 2 \<noteq> 0 then Some (Err ''tag <b> hex must have even length'')
         else if \<not> list_all (\<lambda>c. hex_val c \<noteq> None) hexStr then Some (Wrapped ''tag <b> invalid hex'' (Sentinel ''InvalidByteError''))
         else None)
      else if name \<in> {''r'', ''rc'', ''rd''} then
        (case parse_int 64 param of
           None \<Rightarrow> Some (Wrapped ''tag requires an integer size'' (Sentinel ''NumError''))
         | Some n \<Rightarrow> if n < 0 then Some (Err ''tag size must be >= 0'') else None)
      else if name \<in> {''t'', ''d'', ''ds'', ''dz''} then None
      else Some (Err ''unknown tag''))"

lemma cut_length [termination_simp]: "cut c s = (b, a, True) \<Longrightarrow> length a < length s"
proof (induction s arbitrary: b)
  case (Cons x s)
  then show ?case by (cases "cut c s") (auto split: if_splits simp: less_SucI)
qed simp

text \<open>One round of the loop of \<open>validateInitPacketSpec\<close>: None at its end, otherwise an error or the text after the tag.\<close>

definition init_packet_tag :: "string \<Rightarrow> (err + string) option" where
  "init_packet_tag remaining = (case cut (CHR ''<'') remaining of
      (_, _, False) \<Rightarrow> None
    | (_, rest, True) \<Rightarrow> Some (case cut (CHR ''>'') rest of
        (_, _, False) \<Rightarrow> Inl (Err ''missing enclosing >'')
      | (tag, rest', True) \<Rightarrow>
          (case Fields tag of
             [] \<Rightarrow> Inl (Err ''empty tag'')
           | name # params \<Rightarrow>
               (case validateInitPacketTag name (case params of [] \<Rightarrow> [] | param # _ \<Rightarrow> param) of
                  Some e \<Rightarrow> Inl e | None \<Rightarrow> Inr rest'))))"

lemma init_packet_tag_length [termination_simp]: "init_packet_tag s = Some (Inr s') \<Longrightarrow> length s' < length s"
  by (auto simp: init_packet_tag_def split: prod.splits bool.splits list.splits option.splits dest!: cut_length)

fun init_packet_loop :: "nat \<Rightarrow> string \<Rightarrow> nat result" where
  "init_packet_loop tagCount remaining = (case init_packet_tag remaining of
      None \<Rightarrow> Inr tagCount
    | Some (Inl e) \<Rightarrow> Inl e
    | Some (Inr remaining') \<Rightarrow> init_packet_loop (tagCount + 1) remaining')"

declare init_packet_loop.simps [simp del]

definition validateInitPacketSpec :: "string \<Rightarrow> err option" where
  "validateInitPacketSpec s = (case init_packet_loop 0 s of
      Inl e \<Rightarrow> Some e
    | Inr tagCount \<Rightarrow> if tagCount = 0 then Some (Err ''expected one or more <tag ...> values'') else None)"

definition parseInitPacket :: "string \<Rightarrow> string \<Rightarrow> optVal result" where
  "parseInitPacket key value = (case validateInitPacketSpec value of
      Some e \<Rightarrow> Inl (Wrapped ''invalid AmneziaWG option'' e) | None \<Rightarrow> Inr (OptString value))"

section \<open>The tables\<close>

definition obfuscationOptionTable :: "cableDriverOption list" where
  "obfuscationOptionTable =
     [cfg_option ''jc'' ''7'' parsePositiveInt,
      cfg_option ''jmin'' ''80'' parsePositiveInt,
      cfg_option ''jmax'' ''200'' parsePositiveInt,
      cfg_option ''s1'' ''45'' parseNonNegativeInt,
      cfg_option ''s2'' ''60'' parseNonNegativeInt,
      cfg_option ''s3'' ''35'' parseNonNegativeInt,
      cfg_option ''s4'' ''12'' parseNonNegativeInt,
      cfg_option ''h1'' ''200000000-280000000'' parseHeader,
      cfg_option ''h2'' ''400000000-480000000'' parseHeader,
      cfg_option ''h3'' ''600000000-680000000'' parseHeader,
      cfg_option ''h4'' ''800000000-880000000'' parseHeader,
      cfg_option ''i1'' ''<r 40>'' parseInitPacket,
      cfg_option ''i2'' ''<r 25>'' parseInitPacket,
      cfg_option ''i3'' ''<r 20>'' parseInitPacket,
      cfg_option ''i4'' ''<r 15>'' parseInitPacket,
      cfg_option ''i5'' ''<r 15>'' parseInitPacket]"

fun keepalive_store :: "optVal \<Rightarrow> optDest \<Rightarrow> optDest" where
  "keepalive_store (OptDuration t) d = d\<lparr>od_keepAlive := t\<rparr>"
| "keepalive_store _ d = d"

definition driverOptionTable :: "cableDriverOption list" where
  "driverOptionTable = [\<lparr>co_key = ''keepalive'', co_def = ''10'', co_parse = parseKeepAliveSeconds, co_store = keepalive_store\<rparr>]"

definition cableDriverOptionTable :: "cableDriverOption list" where
  "cableDriverOptionTable = obfuscationOptionTable @ driverOptionTable"

text \<open>
  \<open>optionValue\<close> reads the field of an option back; every key that is read is in the table with the type that is asked for, so the
  lookup only tells whether the field is nil.
\<close>

definition optionValue :: "optDest \<Rightarrow> string \<Rightarrow> optVal option" where
  "optionValue d key = od_cfg d key"

section \<open>Validation and application\<close>

fun named_ranges :: "optDest \<Rightarrow> string list \<Rightarrow> err list \<times> (string \<times> headerRange) list" where
  "named_ranges d [] = ([], [])"
| "named_ranges d (key # keys) =
     (let (errs, headers) = named_ranges d keys in
      case optionValue d key of
        Some (OptString val) \<Rightarrow>
          (case parseHeaderRange val of
             Inl e \<Rightarrow> (Wrapped ''invalid AmneziaWG option'' e # errs, headers)
           | Inr r \<Rightarrow> (errs, (key, r) # headers))
      | _ \<Rightarrow> (errs, headers))"

definition ranges_overlap :: "headerRange \<Rightarrow> headerRange \<Rightarrow> bool" where
  "ranges_overlap l r \<longleftrightarrow> hr_start l \<le> hr_end r \<and> hr_start r \<le> hr_end l"

fun overlap_errors :: "(string \<times> headerRange) list \<Rightarrow> err list" where
  "overlap_errors [] = []"
| "overlap_errors (left # headers) =
     map (\<lambda>right. Err (fst left @ '' overlaps '' @ fst right)) (filter (\<lambda>right. ranges_overlap (snd left) (snd right)) headers)
     @ overlap_errors headers"

definition jitter_errors :: "optDest \<Rightarrow> err list" where
  "jitter_errors d = (case (optionValue d ''jmin'', optionValue d ''jmax'') of
      (Some (OptInt jmin), Some (OptInt jmax)) \<Rightarrow> if jmin > jmax then [Err ''jmin must be <= jmax''] else []
    | _ \<Rightarrow> [])"

definition validateObfuscationOptions :: "optDest \<Rightarrow> err list" where
  "validateObfuscationOptions d =
     (let (errs, headers) = named_ranges d [''h1'', ''h2'', ''h3'', ''h4''] in
      jitter_errors d @ errs @ overlap_errors headers)"

fun insert_string :: "string \<Rightarrow> string list \<Rightarrow> string list" where
  "insert_string s [] = [s]"
| "insert_string s (t # ts) = (if string_less t s then t # insert_string s ts else s # t # ts)"

definition sort_strings :: "string list \<Rightarrow> string list" where
  "sort_strings ss = foldr insert_string ss []"

definition option_or_default :: "(string \<times> string) list \<Rightarrow> cableDriverOption \<Rightarrow> string" where
  "option_or_default options opt = (case map_of options (co_key opt) of
      Some v \<Rightarrow> if v \<noteq> [] then v else co_def opt | None \<Rightarrow> co_def opt)"

fun apply_options :: "(string \<times> string) list \<Rightarrow> cableDriverOption list \<Rightarrow> optDest \<Rightarrow> optDest \<times> err list" where
  "apply_options options [] d = (d, [])"
| "apply_options options (opt # table) d = (case opt_set opt (option_or_default options opt) d of
     (d', Some e) \<Rightarrow> apsnd (Cons e) (apply_options options table d')
   | (d', None) \<Rightarrow> apply_options options table d')"

definition applyCableDriverOptionsMap :: "(string \<times> string) list \<Rightarrow> optDest \<Rightarrow> optDest \<times> err list" where
  "applyCableDriverOptionsMap options d =
     (let known = map co_key cableDriverOptionTable;
          unknown = sort_strings (filter (\<lambda>key. key \<notin> set known) (map fst options));
          (d', errs) = apply_options options cableDriverOptionTable d in
      (d', map (\<lambda>key. Err (''unknown AmneziaWG option '' @ key)) unknown @ errs @ validateObfuscationOptions d'))"

text \<open>The environment variable is an argument, and so is the JSON parser.\<close>

definition GetDriverOptions :: "(string \<Rightarrow> (string \<times> string) list result) \<Rightarrow> string \<Rightarrow> (string \<times> string) list result" where
  "GetDriverOptions unmarshal raw =
     (if raw = [] then Inr []
      else (case unmarshal raw of
          Inl e \<Rightarrow> Inl (Wrapped ''error parsing SUBMARINER_CABLEDRIVEROPTIONS'' e) | Inr options \<Rightarrow> Inr options))"

definition join_errors :: "err list \<Rightarrow> err option" where
  "join_errors errs = (case errs of [] \<Rightarrow> None | e # _ \<Rightarrow> Some (Wrapped ''joined'' e))"

definition applyCableDriverOptions ::
  "(string \<Rightarrow> (string \<times> string) list result) \<Rightarrow> string \<Rightarrow> optDest \<Rightarrow> optDest \<times> err option" where
  "applyCableDriverOptions unmarshal raw d = (case GetDriverOptions unmarshal raw of
      Inl e \<Rightarrow> (d, Some (Wrapped ''error reading cable driver options'' e))
    | Inr options \<Rightarrow> apsnd join_errors (applyCableDriverOptionsMap options d))"

section \<open>What is accepted\<close>

lemma opt_set_Inr:
  "co_parse opt (co_key opt) value = Inr v \<Longrightarrow> opt_set opt value d = (co_store opt v d, None)"
  by (simp add: opt_set_def)

lemma apply_options_errors:
  "snd (apply_options options table d) = [] \<longleftrightarrow>
   (\<forall>opt\<in>set table. \<exists>v. co_parse opt (co_key opt) (option_or_default options opt) = Inr v)"
  by (induction table arbitrary: d) (auto simp: opt_set_def split: sum.splits prod.splits)

lemma apply_options_fold:
  "\<forall>opt\<in>set table. co_parse opt (co_key opt) (option_or_default options opt) = Inr (g opt) \<Longrightarrow>
   apply_options options table d = (fold (\<lambda>opt. co_store opt (g opt)) table d, [])"
  by (induction table arbitrary: d) (auto simp: opt_set_Inr)

lemma sort_strings_Nil [simp]: "sort_strings ss = [] \<longleftrightarrow> ss = []"
proof -
  have "insert_string s ts \<noteq> []" for s ts by (induction ts) auto
  then show ?thesis by (cases ss) (auto simp: sort_strings_def)
qed

text \<open>The addresses of a header range, and the value that an option has under the given options.\<close>

definition header_set :: "string \<Rightarrow> nat set" where
  "header_set value = {h. \<exists>r. parseHeaderRange value = Inr r \<and> hr_start r \<le> h \<and> h \<le> hr_end r}"

definition opt_value :: "(string \<times> string) list \<Rightarrow> string \<Rightarrow> string" where
  "opt_value options key = (case find (\<lambda>opt. co_key opt = key) cableDriverOptionTable of
      None \<Rightarrow> [] | Some opt \<Rightarrow> option_or_default options opt)"

lemma header_set_overlap:
  assumes "parseHeaderRange v = Inr r" "parseHeaderRange v' = Inr r'"
  shows "ranges_overlap r r' \<longleftrightarrow> header_set v \<inter> header_set v' \<noteq> {}"
proof -
  have le: "hr_start r \<le> hr_end r" "hr_start r' \<le> hr_end r'"
    using assms by (auto simp: parseHeaderRange_def Let_def split: if_splits option.splits)
  have "header_set v = {hr_start r..hr_end r}" "header_set v' = {hr_start r'..hr_end r'}"
    using assms by (auto simp: header_set_def)
  then have "header_set v \<inter> header_set v' = {max (hr_start r) (hr_start r')..min (hr_end r) (hr_end r')}"
    by auto
  then show ?thesis using le by (auto simp: ranges_overlap_def)
qed

lemma overlap_errors_Nil:
  "overlap_errors hs = [] \<longleftrightarrow> sorted_wrt (\<lambda>l r. \<not> ranges_overlap (snd l) (snd r)) hs"
  by (induction hs) (auto simp: filter_empty_conv)

lemma named_ranges_ok:
  assumes "\<forall>key\<in>set keys. optionValue d key = Some (OptString (val key)) \<and> parseHeaderRange (val key) = Inr (rng key)"
  shows "named_ranges d keys = ([], map (\<lambda>key. (key, rng key)) keys)"
  using assms by (induction keys) (simp_all add: Let_def)

text \<open>Valid options are stored in their fields.\<close>

lemmas option_table_defs = cableDriverOptionTable_def obfuscationOptionTable_def driverOptionTable_def cfg_option_def

lemma parse_kinds:
  "parsePositiveInt key value = Inr v \<Longrightarrow> \<exists>n. v = OptInt n \<and> parse_int 64 value = Some n \<and> 0 < n"
  "parseHeader key value = Inr v \<Longrightarrow> v = OptString value \<and> (\<exists>r. parseHeaderRange value = Inr r)"
  by (auto simp: parsePositiveInt_def parseHeader_def split: option.splits if_splits sum.splits)

lemma cfg_store_cfg [simp]: "od_cfg (cfg_store key v d) = (od_cfg d)(key \<mapsto> v)"
  by (simp add: cfg_store_def)

lemma fold_store_other:
  "\<forall>opt\<in>set table. co_store opt = cfg_store (co_key opt) \<Longrightarrow> key \<notin> co_key ` set table \<Longrightarrow>
   od_cfg (fold (\<lambda>opt. co_store opt (g opt)) table d) key = od_cfg d key"
  by (induction table arbitrary: d) auto

lemma fold_store:
  "\<forall>opt\<in>set table. co_store opt = cfg_store (co_key opt) \<Longrightarrow> distinct (map co_key table) \<Longrightarrow> opt \<in> set table \<Longrightarrow>
   od_cfg (fold (\<lambda>opt. co_store opt (g opt)) table d) (co_key opt) = Some (g opt)"
proof (induction table arbitrary: d)
  case (Cons o' table)
  then show ?case
    by (cases "opt = o'") (auto simp: fold_store_other image_iff)
qed simp

lemma obfuscation_stores: "\<forall>opt\<in>set obfuscationOptionTable. co_store opt = cfg_store (co_key opt)"
  by (simp add: obfuscationOptionTable_def cfg_option_def)

lemma obfuscation_distinct: "distinct (map co_key obfuscationOptionTable)"
  by (simp add: obfuscationOptionTable_def cfg_option_def)

lemma applied_fields:
  assumes "\<forall>opt\<in>set cableDriverOptionTable. co_parse opt (co_key opt) (option_or_default options opt) = Inr (g opt)"
    and "opt \<in> set obfuscationOptionTable"
  shows "od_cfg (fst (apply_options options cableDriverOptionTable d)) (co_key opt) = Some (g opt)"
proof -
  let ?d = "fold (\<lambda>opt. co_store opt (g opt)) obfuscationOptionTable d"
  have "od_cfg ?d (co_key opt) = Some (g opt)"
    using fold_store [OF obfuscation_stores obfuscation_distinct assms(2)] .
  moreover have "od_cfg (keepalive_store v e) = od_cfg e" for v e by (cases v) auto
  ultimately show ?thesis
    using apply_options_fold [OF assms(1)] by (simp add: cableDriverOptionTable_def driverOptionTable_def)
qed

lemma applied_keepalive:
  assumes "\<forall>opt\<in>set cableDriverOptionTable. co_parse opt (co_key opt) (option_or_default options opt) = Inr (g opt)"
    and "opt \<in> set driverOptionTable" "g opt = OptDuration t"
  shows "od_keepAlive (fst (apply_options options cableDriverOptionTable d)) = t"
  using assms(2,3) apply_options_fold [OF assms(1)] by (auto simp: cableDriverOptionTable_def driverOptionTable_def)

text \<open>The validation of values that have been parsed is the condition on the values.\<close>

definition header_keys :: "string list" where "header_keys = [''h1'', ''h2'', ''h3'', ''h4'']"

lemma find_distinct:
  "distinct (map f xs) \<Longrightarrow> x \<in> set xs \<Longrightarrow> find (\<lambda>y. f y = f x) xs = Some x"
  by (induction xs) (auto simp: image_iff)

lemma table_distinct: "distinct (map co_key cableDriverOptionTable)"
  by (simp add: option_table_defs)

lemma opt_value_of:
  "opt \<in> set cableDriverOptionTable \<Longrightarrow> opt_value options (co_key opt) = option_or_default options opt"
  by (simp add: opt_value_def find_distinct [OF table_distinct])

lemma header_option:
  assumes "key \<in> set header_keys"
  shows "\<exists>opt\<in>set obfuscationOptionTable. co_key opt = key \<and> co_parse opt = parseHeader"
  using assms by (auto simp: header_keys_def obfuscationOptionTable_def cfg_option_def)

lemma sorted_wrt_disjoint:
  "distinct ks \<Longrightarrow> sorted_wrt (\<lambda>k k'. A k \<inter> A k' = {}) ks \<longleftrightarrow> disjoint_family_on A (set ks)"
proof (induction ks)
  case (Cons k ks)
  then show ?case by (simp add: disjoint_family_on_insert) blast
qed (simp add: disjoint_family_on_def)

lemma sorted_wrt_headers:
  assumes "\<And>key. key \<in> set header_keys \<Longrightarrow> parseHeaderRange (val key) = Inr (rng key)"
  shows "sorted_wrt (\<lambda>l r. \<not> ranges_overlap (snd l) (snd r)) (map (\<lambda>key. (key, rng key)) header_keys) \<longleftrightarrow>
    disjoint_family_on (\<lambda>key. header_set (val key)) (set header_keys)"
proof -
  have "ranges_overlap (rng k) (rng k') \<longleftrightarrow> header_set (val k) \<inter> header_set (val k') \<noteq> {}"
    if "k \<in> set header_keys" "k' \<in> set header_keys" for k k'
    using assms that by (intro header_set_overlap) auto
  then have "sorted_wrt (\<lambda>l r. \<not> ranges_overlap (snd l) (snd r)) (map (\<lambda>key. (key, rng key)) header_keys) \<longleftrightarrow>
      sorted_wrt (\<lambda>k k'. header_set (val k) \<inter> header_set (val k') = {}) header_keys"
    by (simp add: header_keys_def)
  also have "\<dots> \<longleftrightarrow> disjoint_family_on (\<lambda>key. header_set (val key)) (set header_keys)"
    by (rule sorted_wrt_disjoint) (simp add: header_keys_def)
  finally show ?thesis .
qed

lemma validate_parsed:
  fixes d :: optDest
  assumes g: "\<forall>opt\<in>set cableDriverOptionTable. co_parse opt (co_key opt) (option_or_default options opt) = Inr (g opt)"
  defines "d' \<equiv> fst (apply_options options cableDriverOptionTable d)"
  shows "validateObfuscationOptions d' = [] \<longleftrightarrow>
     (\<exists>jmin jmax. parse_int 64 (opt_value options ''jmin'') = Some jmin \<and>
        parse_int 64 (opt_value options ''jmax'') = Some jmax \<and> jmin \<le> jmax) \<and>
     disjoint_family_on (\<lambda>key. header_set (opt_value options key)) (set header_keys)"
proof -
  have field: "od_cfg d' (co_key opt) = Some (g opt)" if "opt \<in> set obfuscationOptionTable" for opt
    unfolding d'_def using applied_fields [OF g that] .
  have parsed: "co_parse opt (co_key opt) (opt_value options (co_key opt)) = Inr (g opt)"
    if "opt \<in> set obfuscationOptionTable" for opt
    using g that opt_value_of [of opt options] unfolding cableDriverOptionTable_def by auto
  have int: "\<exists>n. od_cfg d' (co_key opt) = Some (OptInt n) \<and> parse_int 64 (opt_value options (co_key opt)) = Some n"
    if "opt \<in> set obfuscationOptionTable" "co_parse opt = parsePositiveInt" for opt
    using parse_kinds(1) [of "co_key opt"] parsed [OF that(1)] field [OF that(1)] that(2) by fastforce
  obtain jmin where jmin: "od_cfg d' ''jmin'' = Some (OptInt jmin)" "parse_int 64 (opt_value options ''jmin'') = Some jmin"
    using int [of "cfg_option ''jmin'' ''80'' parsePositiveInt"] by (auto simp: cfg_option_def obfuscationOptionTable_def)
  obtain jmax where jmax: "od_cfg d' ''jmax'' = Some (OptInt jmax)" "parse_int 64 (opt_value options ''jmax'') = Some jmax"
    using int [of "cfg_option ''jmax'' ''200'' parsePositiveInt"] by (auto simp: cfg_option_def obfuscationOptionTable_def)
  have "\<exists>r. od_cfg d' key = Some (OptString (opt_value options key)) \<and> parseHeaderRange (opt_value options key) = Inr r"
    if key: "key \<in> set header_keys" for key
  proof -
    obtain opt where opt: "opt \<in> set obfuscationOptionTable" "co_key opt = key" "co_parse opt = parseHeader"
      using header_option [OF key] by blast
    have "parseHeader key (opt_value options key) = Inr (g opt)"
      using parsed [OF opt(1)] opt(2,3) by simp
    from parse_kinds(2) [OF this] field [OF opt(1)] opt(2) show ?thesis by auto
  qed
  then obtain rng where rng: "\<forall>key\<in>set header_keys.
      optionValue d' key = Some (OptString (opt_value options key)) \<and> parseHeaderRange (opt_value options key) = Inr (rng key)"
    unfolding optionValue_def by metis
  have "validateObfuscationOptions d' = [] \<longleftrightarrow> jmin \<le> jmax \<and>
      disjoint_family_on (\<lambda>key. header_set (opt_value options key)) (set header_keys)"
    using jmin jmax named_ranges_ok [OF rng] sorted_wrt_headers [of "opt_value options" rng] rng
    by (auto simp: validateObfuscationOptions_def jitter_errors_def optionValue_def overlap_errors_Nil header_keys_def)
  then show ?thesis using jmin jmax by auto
qed

lemma options_errors:
  "snd (applyCableDriverOptionsMap options d) = [] \<longleftrightarrow>
     fst ` set options \<subseteq> co_key ` set cableDriverOptionTable \<and>
     (\<forall>opt\<in>set cableDriverOptionTable. \<exists>v. co_parse opt (co_key opt) (option_or_default options opt) = Inr v) \<and>
     (\<exists>jmin jmax. parse_int 64 (opt_value options ''jmin'') = Some jmin \<and>
        parse_int 64 (opt_value options ''jmax'') = Some jmax \<and> jmin \<le> jmax) \<and>
     disjoint_family_on (\<lambda>key. header_set (opt_value options key)) (set header_keys)"
proof -
  let ?A = "apply_options options cableDriverOptionTable d"
  let ?parsed = "\<forall>opt\<in>set cableDriverOptionTable. \<exists>v. co_parse opt (co_key opt) (option_or_default options opt) = Inr v"
  have errs: "snd (applyCableDriverOptionsMap options d) = [] \<longleftrightarrow>
      fst ` set options \<subseteq> co_key ` set cableDriverOptionTable \<and> ?parsed \<and> validateObfuscationOptions (fst ?A) = []"
    using apply_options_errors [of options cableDriverOptionTable d]
    by (auto simp: applyCableDriverOptionsMap_def Let_def filter_empty_conv image_subset_iff split: prod.split)
  show ?thesis
  proof (cases ?parsed)
    case True
    then obtain g where "\<forall>opt\<in>set cableDriverOptionTable. co_parse opt (co_key opt) (option_or_default options opt) = Inr (g opt)"
      by metis
    then show ?thesis using True errs validate_parsed [of options g d] by blast
  next
    case False
    then show ?thesis using errs by blast
  qed
qed

lemma options_fields:
  assumes "snd (applyCableDriverOptionsMap options d) = []" "opt \<in> set obfuscationOptionTable"
  shows "\<exists>v. co_parse opt (co_key opt) (option_or_default options opt) = Inr v \<and>
    od_cfg (fst (applyCableDriverOptionsMap options d)) (co_key opt) = Some v"
proof -
  obtain g where g: "\<forall>opt\<in>set cableDriverOptionTable. co_parse opt (co_key opt) (option_or_default options opt) = Inr (g opt)"
    using assms(1) unfolding options_errors by metis
  have "opt \<in> set cableDriverOptionTable" using assms(2) by (simp add: cableDriverOptionTable_def)
  moreover have "fst (applyCableDriverOptionsMap options d) = fst (apply_options options cableDriverOptionTable d)"
    by (simp add: applyCableDriverOptionsMap_def Let_def split: prod.split)
  ultimately show ?thesis using g applied_fields [OF g assms(2), of d] by auto
qed

text \<open>C33: The options are accepted if and only if each is known, each value can be parsed, jmin is at most jmax and the
  header ranges are disjoint sets of numbers. What is accepted is what the fields of the configuration hold.\<close>

theorem options_accepted:
  "(snd (applyCableDriverOptionsMap options d) = [] \<longleftrightarrow>
     fst ` set options \<subseteq> co_key ` set cableDriverOptionTable \<and>
     (\<forall>opt\<in>set cableDriverOptionTable. \<exists>v. co_parse opt (co_key opt) (option_or_default options opt) = Inr v) \<and>
     (\<exists>jmin jmax. parse_int 64 (opt_value options ''jmin'') = Some jmin \<and>
        parse_int 64 (opt_value options ''jmax'') = Some jmax \<and> jmin \<le> jmax) \<and>
     disjoint_family_on (\<lambda>key. header_set (opt_value options key)) {''h1'', ''h2'', ''h3'', ''h4''}) \<and>
   (snd (applyCableDriverOptionsMap options d) = [] \<longrightarrow>
     (\<forall>opt\<in>set obfuscationOptionTable. \<exists>v. co_parse opt (co_key opt) (option_or_default options opt) = Inr v \<and>
        od_cfg (fst (applyCableDriverOptionsMap options d)) (co_key opt) = Some v))"
  using options_errors [of options d] options_fields [of options d] by (simp add: header_keys_def)

definition no_options :: optDest where
  "no_options = \<lparr>od_cfg = Map.empty, od_keepAlive = 0\<rparr>"

lemmas parse_num_defs = parse_int_def parse_uint_def dec_val_def digit_val_def is_digit_def

lemma parsed_numbers [simp]:
  "parse_int 64 ''7'' = Some 7" "parse_int 64 ''80'' = Some 80" "parse_int 64 ''200'' = Some 200" "parse_int 64 ''45'' = Some 45"
  "parse_int 64 ''60'' = Some 60" "parse_int 64 ''35'' = Some 35" "parse_int 64 ''12'' = Some 12" "parse_int 64 ''10'' = Some 10"
  "parse_int 64 ''40'' = Some 40" "parse_int 64 ''25'' = Some 25" "parse_int 64 ''20'' = Some 20" "parse_int 64 ''15'' = Some 15"
  by (simp_all add: parse_num_defs)

lemma parsed_headers [simp]:
  "parseHeaderRange ''200000000-280000000'' = Inr \<lparr>hr_start = 200000000, hr_end = 280000000\<rparr>"
  "parseHeaderRange ''400000000-480000000'' = Inr \<lparr>hr_start = 400000000, hr_end = 480000000\<rparr>"
  "parseHeaderRange ''600000000-680000000'' = Inr \<lparr>hr_start = 600000000, hr_end = 680000000\<rparr>"
  "parseHeaderRange ''800000000-880000000'' = Inr \<lparr>hr_start = 800000000, hr_end = 880000000\<rparr>"
  "parseHeaderRange ''5'' = Inr \<lparr>hr_start = 5, hr_end = 5\<rparr>"
  "parseHeaderRange ''5-400000000'' = Inr \<lparr>hr_start = 5, hr_end = 400000000\<rparr>"
  by (simp_all add: parseHeaderRange_def parse_num_defs)

lemma random_packets [simp]:
  "parseInitPacket key ''<r 40>'' = Inr (OptString ''<r 40>'')" "parseInitPacket key ''<r 25>'' = Inr (OptString ''<r 25>'')"
  "parseInitPacket key ''<r 20>'' = Inr (OptString ''<r 20>'')" "parseInitPacket key ''<r 15>'' = Inr (OptString ''<r 15>'')"
  by (simp_all add: parseInitPacket_def validateInitPacketSpec_def init_packet_loop.simps init_packet_tag_def
      validateInitPacketTag_def Fields_def is_space_def)

text \<open>One header is overridden, and jmin is raised to the default of jmax.\<close>

definition some_options :: "(string \<times> string) list" where
  "some_options = [(''h1'', ''5''), (''jmin'', ''200'')]"

lemma some_options_parsed:
  "\<forall>opt\<in>set cableDriverOptionTable. \<exists>v. co_parse opt (co_key opt) (option_or_default some_options opt) = Inr v"
  by (simp add: option_table_defs option_or_default_def some_options_def parsePositiveInt_def parseNonNegativeInt_def
      parseKeepAliveSeconds_def maxKeepAliveSeconds_def parseHeader_def)

lemma some_option_values:
  "opt_value some_options ''jmin'' = ''200''" "opt_value some_options ''jmax'' = ''200''"
  "opt_value some_options ''h1'' = ''5''" "opt_value some_options ''h2'' = ''400000000-480000000''"
  "opt_value some_options ''h3'' = ''600000000-680000000''" "opt_value some_options ''h4'' = ''800000000-880000000''"
  by (simp_all add: opt_value_def option_table_defs option_or_default_def some_options_def)

lemma some_options_disjoint:
  "disjoint_family_on (\<lambda>key. header_set (opt_value some_options key)) {''h1'', ''h2'', ''h3'', ''h4''}"
proof -
  let ?rng = "\<lambda>key. projr (parseHeaderRange (opt_value some_options key))"
  have "parseHeaderRange (opt_value some_options key) = Inr (?rng key)" if "key \<in> set header_keys" for key
    using that some_option_values by (auto simp: header_keys_def)
  from sorted_wrt_headers [of "opt_value some_options" ?rng, OF this] show ?thesis
    by (simp add: header_keys_def some_option_values ranges_overlap_def)
qed

lemma some_options_known: "fst ` set some_options \<subseteq> co_key ` set cableDriverOptionTable"
  by (simp add: some_options_def option_table_defs)

lemmas some_options_valid = some_options_known some_options_parsed some_options_disjoint

lemma some_options_ok: "snd (applyCableDriverOptionsMap some_options no_options) = []"
  unfolding options_errors using some_options_valid some_option_values by (simp add: header_keys_def)

theorem options_accepted_witness:
  "snd (applyCableDriverOptionsMap some_options no_options) = [] \<and>
   od_cfg (fst (applyCableDriverOptionsMap some_options no_options)) ''h1'' = Some (OptString ''5'')"
proof -
  let ?h1 = "cfg_option ''h1'' ''200000000-280000000'' parseHeader"
  have ok: "snd (applyCableDriverOptionsMap some_options no_options) = []"
    using options_accepted [of some_options no_options] some_options_valid some_option_values by simp
  have "?h1 \<in> set obfuscationOptionTable" by (simp add: obfuscationOptionTable_def)
  moreover have "co_parse ?h1 (co_key ?h1) (option_or_default some_options ?h1) = Inr (OptString ''5'')"
    by (simp add: cfg_option_def option_or_default_def some_options_def parseHeader_def)
  ultimately have "od_cfg (fst (applyCableDriverOptionsMap some_options no_options)) (co_key ?h1) = Some (OptString ''5'')"
    using options_accepted [of some_options no_options] ok by fastforce
  then show ?thesis using ok by (simp add: cfg_option_def)
qed

end
