(* ===== verification/WireGuard.thy ===== *)
theory WireGuard
  imports AwgOptions
begin

text \<open>
  \<open>pkg/cable/wireguard\<close> and \<open>pkg/cable/amneziawg\<close>: \<open>driver.go\<close> and \<open>getconnections.go\<close>. The two drivers are near copies of each other. A
  remote cluster is a peer of the device, known by the public key that its endpoint publishes.

  The device, its client library and the network links are the parameter \<open>wgLibs\<close> on the host \<open>'k\<close>; keys are their
  printed form. Times are in nanoseconds and an argument of the operations that read the clock. The connections are a map from cluster ids;
  the association list is in the order in which Go iterates, which only matters when two clusters publish the
  same key. The numbers in status messages, log messages and metrics are left out.
\<close>

section \<open>The device\<close>

record wgPeer =
  wp_PublicKey :: string
  wp_PresharedKey :: string
  wp_Endpoint :: "ip \<times> int"
  wp_AllowedIPs :: "ipnet list"
  wp_TransmitBytes :: int
  wp_ReceiveBytes :: int
  wp_LastHandshakeTime :: "int option"    \<comment> \<open>None is the zero time\<close>

record wgDevice =
  wd_PublicKey :: string
  wd_ListenPort :: int
  wd_Peers :: "wgPeer list"

record peerConfig =
  pc_PublicKey :: string
  pc_Remove :: bool
  pc_PresharedKey :: string
  pc_Endpoint :: "(ip \<times> int) option"
  pc_KeepAlive :: int
  pc_ReplaceAllowedIPs :: bool
  pc_AllowedIPs :: "ipnet list"

text \<open>The other fields of a configuration are those that the options of AmneziaWG set.\<close>

record wgConfig =
  wc_PrivateKey :: "string option"
  wc_ListenPort :: "int option"
  wc_ReplacePeers :: bool
  wc_Peers :: "peerConfig list"
  wc_Params :: "string \<rightharpoonup> optVal"

record 'k wgLibs =
  wg_ConfigureDevice :: "string \<Rightarrow> wgConfig \<Rightarrow> 'k \<Rightarrow> 'k \<times> err option"
  wg_Device :: "string \<Rightarrow> 'k \<Rightarrow> wgDevice result"
  wg_NewClient :: "'k \<Rightarrow> 'k \<times> err option"
  wg_CloseClient :: "'k \<Rightarrow> 'k"
  wg_ParseKey :: "string \<Rightarrow> string result"
  wg_ZeroKey :: string
  wg_GeneratePrivateKey :: "'k \<Rightarrow> 'k \<times> string result"
  wg_PublicKeyOf :: "string \<Rightarrow> string"
  wg_genPsk :: "string \<Rightarrow> string result"
  wg_InterfaceByName :: "string \<Rightarrow> 'k \<Rightarrow> err option"
  wg_LinkByName :: "string \<Rightarrow> 'k \<Rightarrow> err option"       \<comment> \<open>None: the link is there\<close>
  wg_IsLinkNotFound :: "err \<Rightarrow> bool"
  wg_LinkDel :: "string \<Rightarrow> 'k \<Rightarrow> 'k \<times> err option"
  wg_LinkAdd :: "string \<Rightarrow> 'k \<Rightarrow> 'k \<times> err option"
  wg_LinkSetUp :: "string \<Rightarrow> 'k \<Rightarrow> 'k \<times> err option"
  wg_StartUserspace :: "string \<Rightarrow> 'k \<Rightarrow> 'k \<times> err option"
  wg_CloseUserspace :: "'k \<Rightarrow> 'k"

definition DefaultDeviceName :: string where "DefaultDeviceName = ''submariner''"
definition PublicKey :: string where "PublicKey = ''publicKey''"
definition receiveBytes :: string where "receiveBytes = ''ReceiveBytes''"
definition transmitBytes :: string where "transmitBytes = ''TransmitBytes''"
definition lastChecked :: string where "lastChecked = ''LastChecked''"
definition KeepAliveInterval :: int where "KeepAliveInterval = 10 * 10 ^ 9"
definition StatusPollInterval :: int where "StatusPollInterval = 10 * 10 ^ 9"
definition HandshakeTimeout :: int where "HandshakeTimeout = 130 * 10 ^ 9"

definition milliseconds :: "int \<Rightarrow> int" where
  "milliseconds d = d div 10 ^ 6"

record 'k wireguard =
  wg_localEndpoint :: EndpointSpec
  wg_connections :: "(string \<times> Connection) list"
  wg_NATTPort :: int
  wg_psk :: string
  wg_keepAlive :: int
  wg_userspace :: bool
  wg_host :: 'k

definition conn_put :: "string \<Rightarrow> Connection \<Rightarrow> (string \<times> Connection) list \<Rightarrow> (string \<times> Connection) list" where
  "conn_put cid c cs = (cid, c) # filter (\<lambda>x. fst x \<noteq> cid) cs"

definition conn_del :: "string \<Rightarrow> (string \<times> Connection) list \<Rightarrow> (string \<times> Connection) list" where
  "conn_del cid cs = filter (\<lambda>x. fst x \<noteq> cid) cs"

section \<open>Shared by both drivers\<close>

text \<open>The key and an error; without a key it is the zero key.\<close>

definition keyFromSpec :: "'k wgLibs \<Rightarrow> EndpointSpec \<Rightarrow> string \<times> err option" where
  "keyFromSpec W ep = (case fmlookup (BackendConfig ep) PublicKey of
      None \<Rightarrow> (wg_ZeroKey W, Some (Err ''endpoint is missing public key''))
    | Some s \<Rightarrow> (case wg_ParseKey W s of
        Inl e \<Rightarrow> (wg_ZeroKey W, Some (Wrapped ''failed to parse public key'' e))
      | Inr key \<Rightarrow> (key, None)))"

definition peer_config :: "wgConfig \<Rightarrow> peerConfig \<Rightarrow> wgConfig" where
  "peer_config c p = c\<lparr>wc_Peers := [p]\<rparr>"

definition zero_config :: wgConfig where
  "zero_config = \<lparr>wc_PrivateKey = None, wc_ListenPort = None, wc_ReplacePeers = False, wc_Peers = [], wc_Params = Map.empty\<rparr>"

definition remove_config :: "string \<Rightarrow> peerConfig" where
  "remove_config key = \<lparr>pc_PublicKey = key, pc_Remove = True, pc_PresharedKey = [], pc_Endpoint = None, pc_KeepAlive = 0,
     pc_ReplaceAllowedIPs = False, pc_AllowedIPs = []\<rparr>"

definition removePeer :: "'k wgLibs \<Rightarrow> string \<Rightarrow> 'k \<Rightarrow> 'k \<times> err option" where
  "removePeer W key k = apsnd (wrap ''failed to remove WireGuard peer'')
     (wg_ConfigureDevice W DefaultDeviceName (peer_config zero_config (remove_config key)) k)"

definition peerByKey :: "'k wgLibs \<Rightarrow> string \<Rightarrow> 'k \<Rightarrow> wgPeer result" where
  "peerByKey W key k = (case wg_Device W DefaultDeviceName k of
      Inl e \<Rightarrow> Inl (Wrapped ''failed to find device'' e)
    | Inr d \<Rightarrow> (case find (\<lambda>p. wp_PublicKey p = key) (wd_Peers d) of
        None \<Rightarrow> Inl (Err ''peer not found for key'') | Some p \<Rightarrow> Inr p))"

definition verifyNewPeer :: "'k wgLibs \<Rightarrow> peerConfig \<Rightarrow> 'k \<Rightarrow> err option" where
  "verifyNewPeer W cfg k = (case peerByKey W (pc_PublicKey cfg) k of
      Inl e \<Rightarrow> Some e
    | Inr p \<Rightarrow>
        if wp_PresharedKey p \<noteq> pc_PresharedKey cfg then Some (Err ''peer PresharedKey does not match configured value'')
        else if Some (wp_Endpoint p) \<noteq> pc_Endpoint cfg then Some (Err ''peer Endpoint does not match configured'')
        else if map ipnet_String (wp_AllowedIPs p) \<noteq> map ipnet_String (pc_AllowedIPs cfg)
        then Some (Err ''peer AllowedIPs does not match configured'')
        else None)"

definition keyMismatch :: "'k wgLibs \<Rightarrow> string \<Rightarrow> string \<Rightarrow> 'k wireguard \<Rightarrow> bool" where
  "keyMismatch W cid key w = (case map_of (wg_connections w) cid of
      None \<Rightarrow> True | Some c \<Rightarrow> fst (keyFromSpec W (conn_Endpoint c)) \<noteq> key)"

text \<open>The difference to the value of the last check, which is kept in the backend configuration of the connection.\<close>

definition set_backend :: "string \<Rightarrow> string \<Rightarrow> Connection \<Rightarrow> Connection" where
  "set_backend key v c = c\<lparr>conn_Endpoint := (conn_Endpoint c)\<lparr>BackendConfig := fmupd key v (BackendConfig (conn_Endpoint c))\<rparr>\<rparr>"

definition peerTrafficDelta :: "Connection \<Rightarrow> string \<Rightarrow> int \<Rightarrow> Connection \<times> int" where
  "peerTrafficDelta c key newVal =
     (case Option.bind (fmlookup (BackendConfig (conn_Endpoint c)) key) (parse_int 64) of
        Some i \<Rightarrow> (c, wrap64 (newVal - i))
      | None \<Rightarrow> (set_backend key (dec_of_int newVal) c, 0))"

definition savePeerTraffic :: "int \<Rightarrow> int \<Rightarrow> int \<Rightarrow> Connection \<Rightarrow> Connection" where
  "savePeerTraffic lc tx rx c = set_backend receiveBytes (dec_of_int rx)
     (set_backend transmitBytes (dec_of_int tx) (set_backend lastChecked (dec_of_int lc) c))"

text \<open>\<open>pollMS\<close> is the time before which nothing is checked, \<open>trafficMS\<close> the time in which traffic is expected.\<close>

definition update_connection :: "int \<Rightarrow> int \<Rightarrow> int \<Rightarrow> wgPeer \<Rightarrow> Connection \<Rightarrow> Connection" where
  "update_connection pollMS trafficMS now p c =
     (let (c1, lc) = peerTrafficDelta c lastChecked (milliseconds now) in
      if lc < pollMS then c1
      else (let (c2, tx) = peerTrafficDelta c1 transmitBytes (wp_TransmitBytes p);
                (c3, rx) = peerTrafficDelta c2 receiveBytes (wp_ReceiveBytes p) in
            case wp_LastHandshakeTime p of
              None \<Rightarrow>
                if lc > milliseconds HandshakeTimeout then SetStatus ConnectionError ''no initial handshake'' c3
                else if tx > 0 \<or> rx > 0 then SetStatus Connecting ''no initial handshake yet'' c3
                else c3
            | Some handshake \<Rightarrow>
                if tx > 0 \<or> rx > 0
                then savePeerTraffic (milliseconds now) (wp_TransmitBytes p) (wp_ReceiveBytes p) (SetStatus Connected ''Rx, Tx'' c3)
                else if now - handshake > HandshakeTimeout then SetStatus ConnectionError ''no handshake'' c3
                else if lc < 2 * trafficMS then c3
                else SetStatus ConnectionError ''no bytes sent or received'' c3))"

definition updateConnectionForPeer :: "int \<Rightarrow> wgPeer \<Rightarrow> Connection \<Rightarrow> Connection" where
  "updateConnectionForPeer = update_connection (milliseconds KeepAliveInterval + 2) (milliseconds KeepAliveInterval + 2)"

definition awg_updateConnectionForPeer :: "int \<Rightarrow> int \<Rightarrow> wgPeer \<Rightarrow> Connection \<Rightarrow> Connection" where
  "awg_updateConnectionForPeer keepAlive = update_connection (milliseconds StatusPollInterval + 2)
     (milliseconds (if keepAlive \<le> 0 then StatusPollInterval else keepAlive) + 2)"

text \<open>\<open>upd\<close> is the update of the driver.\<close>

definition updatePeerStatus ::
  "'k wgLibs \<Rightarrow> (wgPeer \<Rightarrow> Connection \<Rightarrow> Connection) \<Rightarrow> string \<Rightarrow> 'k \<Rightarrow> Connection \<Rightarrow> Connection" where
  "updatePeerStatus W upd key k c = (case peerByKey W key k of
      Inl e \<Rightarrow> SetStatus ConnectionError ''cannot fetch status for peer'' c
    | Inr p \<Rightarrow> upd p c)"

fun connectionByKey :: "'k wgLibs \<Rightarrow> string \<Rightarrow> (string \<times> Connection) list \<Rightarrow> (string \<times> Connection) option" where
  "connectionByKey W key [] = None"
| "connectionByKey W key ((cid, c) # cs) =
     (if key = fst (keyFromSpec W (conn_Endpoint c)) then Some (cid, c) else connectionByKey W key cs)"

text \<open>The update of a connection in place.\<close>

definition conn_set :: "string \<Rightarrow> Connection \<Rightarrow> (string \<times> Connection) list \<Rightarrow> (string \<times> Connection) list" where
  "conn_set cid c cs = map (\<lambda>x. if fst x = cid then (cid, c) else x) cs"

fun connections_loop ::
  "'k wgLibs \<Rightarrow> (wgPeer \<Rightarrow> Connection \<Rightarrow> Connection) \<Rightarrow> wgPeer list \<Rightarrow> 'k wireguard \<Rightarrow> 'k wireguard \<times> Connection list" where
  "connections_loop W upd [] w = (w, [])"
| "connections_loop W upd (p # ps) w = (case connectionByKey W (wp_PublicKey p) (wg_connections w) of
     None \<Rightarrow> connections_loop W upd ps (w\<lparr>wg_host := fst (removePeer W (wp_PublicKey p) (wg_host w))\<rparr>)
   | Some (cid, c) \<Rightarrow>
       (let c' = upd p c in
        apsnd (\<lambda>cs. c' # cs) (connections_loop W upd ps (w\<lparr>wg_connections := conn_set cid c' (wg_connections w)\<rparr>))))"

definition get_connections ::
  "'k wgLibs \<Rightarrow> (wgPeer \<Rightarrow> Connection \<Rightarrow> Connection) \<Rightarrow> 'k wireguard \<Rightarrow> 'k wireguard \<times> Connection list result" where
  "get_connections W upd w = (case wg_Device W DefaultDeviceName (wg_host w) of
      Inl e \<Rightarrow> (w, Inl (Wrapped ''failed to find device'' e))
    | Inr d \<Rightarrow> apsnd Inr (connections_loop W upd (wd_Peers d) w))"

definition wg_GetConnections :: "'k wgLibs \<Rightarrow> int \<Rightarrow> 'k wireguard \<Rightarrow> 'k wireguard \<times> Connection list result" where
  "wg_GetConnections W now = get_connections W (updateConnectionForPeer now)"

definition awg_GetConnections :: "'k wgLibs \<Rightarrow> int \<Rightarrow> 'k wireguard \<Rightarrow> 'k wireguard \<times> Connection list result" where
  "awg_GetConnections W now w = get_connections W (awg_updateConnectionForPeer (wg_keepAlive w) now) w"

text \<open>No active connections, so that the engine does not look for duplicates.\<close>

definition wg_GetActiveConnections :: "'k wireguard \<Rightarrow> Connection list result" where
  "wg_GetActiveConnections w = Inr []"

section \<open>Connecting\<close>

definition add_config :: "string \<Rightarrow> string \<Rightarrow> ip \<Rightarrow> int \<Rightarrow> int \<Rightarrow> ipnet list \<Rightarrow> peerConfig" where
  "add_config key psk remoteIP port keepAlive allowedIPs = \<lparr>pc_PublicKey = key, pc_Remove = False, pc_PresharedKey = psk,
     pc_Endpoint = Some (remoteIP, port), pc_KeepAlive = keepAlive, pc_ReplaceAllowedIPs = True, pc_AllowedIPs = allowedIPs\<rparr>"

text \<open>
  The start of both: the address and the subnets of the endpoint are parsed (a subnet that cannot be parsed is a panic), and its key.
\<close>

definition parse_remote :: "libs \<Rightarrow> 'k wgLibs \<Rightarrow> NATEndpointInfo \<Rightarrow> (ip \<times> ipnet list \<times> string) result" where
  "parse_remote L W info = (case ParseIP (ni_UseIP info) of
      None \<Rightarrow> Inl (Err ''failed to parse remote IP'')
    | Some remoteIP \<Rightarrow> (case ParseSubnets L (ni_UseFamily info) (ep_Spec (ni_Endpoint info)) of
        None \<Rightarrow> Inl go_panic
      | Some allowedIPs \<Rightarrow> (case keyFromSpec W (ep_Spec (ni_Endpoint info)) of
          (_, Some e) \<Rightarrow> Inl (Wrapped ''failed to obtain public key for endpoint'' e)
        | (remoteKey, None) \<Rightarrow> Inr (remoteIP, allowedIPs, remoteKey))))"

text \<open>
  The old connection of the cluster: Inl if it has the same key, otherwise its peer and the connection are removed.
\<close>

definition replace_old ::
  "'k wgLibs \<Rightarrow> (wgPeer \<Rightarrow> Connection \<Rightarrow> Connection) \<Rightarrow> string \<Rightarrow> string \<Rightarrow> 'k wireguard \<Rightarrow> 'k wireguard + 'k wireguard" where
  "replace_old W upd cid remoteKey w = (case map_of (wg_connections w) cid of
      None \<Rightarrow> Inr w
    | Some oldCon \<Rightarrow>
        (case keyFromSpec W (conn_Endpoint oldCon) of
           (oldKey, None) \<Rightarrow>
             if oldKey = remoteKey
             then Inl (w\<lparr>wg_connections := conn_set cid (updatePeerStatus W upd oldKey (wg_host w) oldCon) (wg_connections w)\<rparr>)
             else Inr (w\<lparr>wg_host := fst (removePeer W oldKey (wg_host w)), wg_connections := conn_del cid (wg_connections w)\<rparr>)
         | (_, Some _) \<Rightarrow> Inr (w\<lparr>wg_connections := conn_del cid (wg_connections w)\<rparr>)))"

definition wg_connection :: "NATEndpointInfo \<Rightarrow> Connection" where
  "wg_connection info = SetStatus Connecting ''Connection has been created but not yet started''
     (NewConnection (ep_Spec (ni_Endpoint info)) (ni_UseIP info) (ni_UseNAT info))"

text \<open>The result of the verification is only logged by the first driver.\<close>

definition wg_ConnectToEndpoint ::
  "libs \<Rightarrow> 'k wgLibs \<Rightarrow> int \<Rightarrow> NATEndpointInfo \<Rightarrow> 'k wireguard \<Rightarrow> 'k wireguard \<times> string \<times> err option" where
  "wg_ConnectToEndpoint L W now info w = (case parse_remote L W info of
      Inl e \<Rightarrow> (w, [], Some e)
    | Inr (remoteIP, allowedIPs, remoteKey) \<Rightarrow>
        (let spec = ep_Spec (ni_Endpoint info); cid = ClusterID spec in
         case replace_old W (updateConnectionForPeer now) cid remoteKey w of
           Inl w1 \<Rightarrow> (w1, ni_UseIP info, None)
         | Inr w1 \<Rightarrow>
             (let w2 = w1\<lparr>wg_connections := conn_put cid (wg_connection info) (wg_connections w1)\<rparr>;
                  port = fst (GetBackendPort spec UDPPortConfig (wg_NATTPort w));
                  peerCfg = add_config remoteKey (wg_psk w) remoteIP port KeepAliveInterval allowedIPs in
              case wg_ConfigureDevice W DefaultDeviceName (peer_config zero_config peerCfg) (wg_host w2) of
                (k, Some e) \<Rightarrow> (w2\<lparr>wg_host := k\<rparr>, [], Some (Wrapped ''failed to configure peer'' e))
              | (k, None) \<Rightarrow> (w2\<lparr>wg_host := k\<rparr>, ni_UseIP info, None))))"

definition awg_ConnectToEndpoint ::
  "libs \<Rightarrow> 'k wgLibs \<Rightarrow> int \<Rightarrow> NATEndpointInfo \<Rightarrow> 'k wireguard \<Rightarrow> 'k wireguard \<times> string \<times> err option" where
  "awg_ConnectToEndpoint L W now info w = (case parse_remote L W info of
      Inl e \<Rightarrow> (w, [], Some e)
    | Inr (remoteIP, allowedIPs, remoteKey) \<Rightarrow>
        (let spec = ep_Spec (ni_Endpoint info); cid = ClusterID spec in
         case replace_old W (awg_updateConnectionForPeer (wg_keepAlive w) now) cid remoteKey w of
           Inl w1 \<Rightarrow> (w1, ni_UseIP info, None)
         | Inr w1 \<Rightarrow>
             (let port = fst (GetBackendPort spec UDPPortConfig (wg_NATTPort w));
                  peerCfg = add_config remoteKey (wg_psk w) remoteIP port (wg_keepAlive w) allowedIPs in
              case wg_ConfigureDevice W DefaultDeviceName (peer_config zero_config peerCfg) (wg_host w1) of
                (k, Some e) \<Rightarrow> (w1\<lparr>wg_host := k\<rparr>, [], Some (Wrapped ''failed to configure peer'' e))
              | (k, None) \<Rightarrow>
                  (case verifyNewPeer W peerCfg k of
                     Some e \<Rightarrow> (w1\<lparr>wg_host := fst (removePeer W remoteKey k)\<rparr>, [], Some (Wrapped ''failed to verify peer configuration'' e))
                   | None \<Rightarrow> (w1\<lparr>wg_host := k, wg_connections := conn_put cid (wg_connection info) (wg_connections w1)\<rparr>,
                       ni_UseIP info, None)))))"

definition wg_DisconnectFromEndpoint ::
  "'k wgLibs \<Rightarrow> EndpointSpec \<Rightarrow> IPFamily \<Rightarrow> 'k wireguard \<Rightarrow> 'k wireguard \<times> err option" where
  "wg_DisconnectFromEndpoint W spec family w = (case keyFromSpec W spec of
      (_, Some e) \<Rightarrow> (w, Some (Wrapped ''failed to parse peer public key'' e))
    | (remoteKey, None) \<Rightarrow>
        (let w1 = w\<lparr>wg_host := fst (removePeer W remoteKey (wg_host w))\<rparr> in
         if keyMismatch W (ClusterID spec) remoteKey w1 then (w1, None)
         else (w1\<lparr>wg_connections := conn_del (ClusterID spec) (wg_connections w1)\<rparr>, None)))"

section \<open>Creation\<close>

record wgSpec =
  wsp_PSK :: string
  wsp_PSKSecret :: string
  wsp_NATTPort :: int

definition InterfaceNameConfig :: string where "InterfaceNameConfig = ''interface-name''"

text \<open>Create the link, after an existing one has been deleted. It is always named \<open>DefaultDeviceName\<close>.\<close>

definition setWGLink :: "'k wgLibs \<Rightarrow> 'k \<Rightarrow> 'k \<times> err option" where
  "setWGLink W k =
     (case (if wg_LinkByName W DefaultDeviceName k = None then wg_LinkDel W DefaultDeviceName k else (k, None)) of
        (k1, Some e) \<Rightarrow> (k1, Some (Wrapped ''failed to delete existing WireGuard device'' e))
      | (k1, None) \<Rightarrow> apsnd (wrap ''failed to add WireGuard device'') (wg_LinkAdd W DefaultDeviceName k1))"

text \<open>The state of the userspace device is returned with the error.\<close>

definition setupDevice :: "'k wgLibs \<Rightarrow> 'k \<Rightarrow> 'k \<times> bool \<times> err option" where
  "setupDevice W k =
     (case (case wg_LinkByName W DefaultDeviceName k of
              None \<Rightarrow> apsnd (wrap ''failed to delete existing AmneziaWG device'') (wg_LinkDel W DefaultDeviceName k)
            | Some e \<Rightarrow> if \<not> wg_IsLinkNotFound W e then (k, Some (Wrapped ''error checking for existing AmneziaWG device'' e))
                        else (k, None)) of
        (k1, Some e) \<Rightarrow> (k1, False, Some e)
      | (k1, None) \<Rightarrow>
          (case wg_StartUserspace W DefaultDeviceName k1 of
             (k2, Some e) \<Rightarrow> (k2, False, Some e)
           | (k2, None) \<Rightarrow> (k2, True, wrap ''failed to find AmneziaWG link'' (wg_LinkByName W DefaultDeviceName k2))))"

definition wg_Cleanup :: "'k wgLibs \<Rightarrow> 'k \<Rightarrow> 'k \<times> err option" where
  "wg_Cleanup W k = (case wg_LinkByName W DefaultDeviceName k of
      Some e \<Rightarrow> if wg_IsLinkNotFound W e then (k, None) else (k, Some (Wrapped ''error retrieving the wireguard interface'' e))
    | None \<Rightarrow> apsnd (wrap ''failed to delete existing WireGuard device'') (wg_LinkDel W DefaultDeviceName k))"

text \<open>The userspace device is closed first; \<open>amneziawgDriver.Cleanup\<close> only calls this.\<close>

definition cleanupDevice :: "'k wgLibs \<Rightarrow> bool \<Rightarrow> 'k \<Rightarrow> 'k \<times> err option" where
  "cleanupDevice W userspace k = wg_Cleanup W (if userspace then wg_CloseUserspace W k else k)"

definition awg_Cleanup :: "'k wgLibs \<Rightarrow> 'k wireguard \<Rightarrow> 'k wireguard \<times> err option" where
  "awg_Cleanup W a = (case cleanupDevice W (wg_userspace a) (wg_host a) of
      (k, e) \<Rightarrow> (a\<lparr>wg_host := k, wg_userspace := False\<rparr>, e))"

definition set_public_key :: "string \<Rightarrow> EndpointSpec \<Rightarrow> EndpointSpec" where
  "set_public_key pub existing = existing\<lparr>BackendConfig :=
     fmupd InterfaceNameConfig DefaultDeviceName (fmupd PublicKey pub (BackendConfig existing))\<rparr>"

text \<open>
  The keys, the configuration of the device and the publication of the public key. The fields of the configuration that options set are
  \<open>params\<close>, together with the error of setting them.
\<close>

definition configure_new ::
  "libs \<Rightarrow> 'k wgLibs \<Rightarrow> 'k endpointClient \<Rightarrow> string \<Rightarrow> int \<Rightarrow> (string \<rightharpoonup> optVal) \<times> err option \<Rightarrow> LocalEp \<Rightarrow> 'k \<Rightarrow>
   (LocalEp \<times> 'k) \<times> string result" where
  "configure_new L W C resolvedPSK nattPort params l k = (case wg_genPsk W resolvedPSK of
      Inl e \<Rightarrow> ((l, k), Inl (Wrapped ''error generating pre-shared key'' e))
    | Inr psKey \<Rightarrow> (case wg_GeneratePrivateKey W k of
        (k1, Inl e) \<Rightarrow> ((l, k1), Inl (Wrapped ''error generating private key'' e))
      | (k1, Inr priv) \<Rightarrow> (case GetBackendPort (Spec l) UDPPortConfig nattPort of
          (_, Some e) \<Rightarrow> ((l, k1), Inl (Wrapped ''error parsing udp-port from local endpoint'' e))
        | (port, None) \<Rightarrow> (case params of
            (_, Some e) \<Rightarrow> ((l, k1), Inl (Wrapped ''error applying AmneziaWG cable driver options'' e))
          | (ps, None) \<Rightarrow>
              (case wg_ConfigureDevice W DefaultDeviceName
                  \<lparr>wc_PrivateKey = Some priv, wc_ListenPort = Some port, wc_ReplacePeers = True, wc_Peers = [], wc_Params = ps\<rparr> k1 of
                 (k2, Some e) \<Rightarrow> ((l, k2), Inl (Wrapped ''failed to configure WireGuard device'' e))
               | (k2, None) \<Rightarrow> (case Update L C (set_public_key (wg_PublicKeyOf W priv)) l k2 of
                   ((l', k3), Some e) \<Rightarrow> ((l', k3), Inl (Wrapped ''error updating local endpoint'' e))
                 | ((l', k3), None) \<Rightarrow> ((l', k3), Inr psKey)))))))"

text \<open>The checks that come before anything is changed: the key that is shared by all clusters.\<close>

definition resolve_psk :: "(string \<Rightarrow> string result) \<Rightarrow> wgSpec result \<Rightarrow> (wgSpec \<times> string) result" where
  "resolve_psk readFile envSpec = (case envSpec of
      Inl e \<Rightarrow> Inl (Wrapped ''error processing environment config'' e)
    | Inr s \<Rightarrow> (case Resolve readFile (wsp_PSK s) (wsp_PSKSecret s) [] of
        Inl e \<Rightarrow> Inl e
      | Inr resolvedPSK \<Rightarrow>
          if resolvedPSK = [] \<or> resolvedPSK = ''default psk''
          then Inl (Err ''CE_IPSEC_PSK must be set to a strong random value'')
          else Inr (s, resolvedPSK)))"

definition wg_NewDriver ::
  "libs \<Rightarrow> 'k wgLibs \<Rightarrow> 'k endpointClient \<Rightarrow> (string \<Rightarrow> string result) \<Rightarrow> wgSpec result \<Rightarrow> LocalEp \<Rightarrow> 'k \<Rightarrow>
   (LocalEp \<times> 'k) \<times> 'k wireguard result" where
  "wg_NewDriver L W C readFile envSpec l k = (case resolve_psk readFile envSpec of
      Inl e \<Rightarrow> ((l, k), Inl e)
    | Inr (s, resolvedPSK) \<Rightarrow> (case setWGLink W k of
        (k1, Some e) \<Rightarrow> ((l, k1), Inl (Wrapped ''failed to setup WireGuard link'' e))
      | (k1, None) \<Rightarrow> (case wg_NewClient W k1 of
          (k2, Some e) \<Rightarrow> ((l, k2), Inl (Wrapped ''failed to open wgctl client'' e))
        | (k2, None) \<Rightarrow> (case configure_new L W C resolvedPSK (wsp_NATTPort s) (Map.empty, None) l k2 of
            ((l', k3), Inl e) \<Rightarrow> ((l', wg_CloseClient W k3), Inl e)
          | ((l', k3), Inr psKey) \<Rightarrow> ((l', k3), Inr
              \<lparr>wg_localEndpoint = Spec l', wg_connections = [], wg_NATTPort = wsp_NATTPort s, wg_psk = psKey,
               wg_keepAlive = KeepAliveInterval, wg_userspace = False, wg_host = k3\<rparr>)))))"

text \<open>Here a failure also removes the device. The options are read from the environment, \<open>raw\<close>.\<close>

definition awg_NewDriver ::
  "libs \<Rightarrow> 'k wgLibs \<Rightarrow> 'k endpointClient \<Rightarrow> (string \<Rightarrow> string result) \<Rightarrow> (string \<Rightarrow> (string \<times> string) list result) \<Rightarrow> string \<Rightarrow>
   wgSpec result \<Rightarrow> LocalEp \<Rightarrow> 'k \<Rightarrow> (LocalEp \<times> 'k) \<times> 'k wireguard result" where
  "awg_NewDriver L W C readFile unmarshal raw envSpec l k = (case resolve_psk readFile envSpec of
      Inl e \<Rightarrow> ((l, k), Inl e)
    | Inr (s, resolvedPSK) \<Rightarrow> (case setupDevice W k of
        (k1, us, Some e) \<Rightarrow> ((l, fst (cleanupDevice W us k1)), Inl (Wrapped ''failed to setup AmneziaWG device'' e))
      | (k1, us, None) \<Rightarrow> (case wg_NewClient W k1 of
          (k2, Some e) \<Rightarrow> ((l, fst (cleanupDevice W us k2)), Inl (Wrapped ''failed to open awgctrl client'' e))
        | (k2, None) \<Rightarrow>
            (let (d, err) = applyCableDriverOptions unmarshal raw \<lparr>od_cfg = Map.empty, od_keepAlive = 0\<rparr> in
             case configure_new L W C resolvedPSK (wsp_NATTPort s) (od_cfg d, err) l k2 of
               ((l', k3), Inl e) \<Rightarrow> ((l', fst (cleanupDevice W us (wg_CloseClient W k3))), Inl e)
             | ((l', k3), Inr psKey) \<Rightarrow> ((l', k3), Inr
                 \<lparr>wg_localEndpoint = Spec l', wg_connections = [], wg_NATTPort = wsp_NATTPort s, wg_psk = psKey,
                  wg_keepAlive = od_keepAlive d, wg_userspace = us, wg_host = k3\<rparr>)))))"

text \<open>The same in both drivers.\<close>

definition wg_Init :: "'k wgLibs \<Rightarrow> 'k wireguard \<Rightarrow> 'k wireguard \<times> err option" where
  "wg_Init W w = (case wg_InterfaceByName W DefaultDeviceName (wg_host w) of
      Some e \<Rightarrow> (w, Some (Wrapped ''cannot get wireguard link by name'' e))
    | None \<Rightarrow> (case wg_Device W DefaultDeviceName (wg_host w) of
        Inl e \<Rightarrow> (w, Some (Wrapped ''wgctrl cannot find WireGuard device'' e))
      | Inr d \<Rightarrow>
          if fst (keyFromSpec W (wg_localEndpoint w)) \<noteq> wd_PublicKey d
          then (w, Some (Err ''endpoint public key is different from device key''))
          else (case wg_LinkSetUp W DefaultDeviceName (wg_host w) of
              (k, e) \<Rightarrow> (w\<lparr>wg_host := k\<rparr>, wrap ''failed to bring up WireGuard device'' e))))"

end
