(* ===== verification/WireGuardProps.thy ===== *)
theory WireGuardProps
  imports WireGuard
begin

text \<open>
  What the WireGuard and AmneziaWG drivers promise: the peers of the device and the recorded connections, connecting, and the status of a
  connection. What the two drivers share is proved once in the locale \<open>peer_update\<close>, for the way in which each updates the
  status of a connection.
\<close>

section \<open>Connections and peers\<close>

definition conn_key :: "'k wgLibs \<Rightarrow> Connection \<Rightarrow> string" where
  "conn_key W c = fst (keyFromSpec W (conn_Endpoint c))"

definition conn_keys :: "'k wgLibs \<Rightarrow> (string \<times> Connection) list \<Rightarrow> string set" where
  "conn_keys W cs = (\<lambda>x. conn_key W (snd x)) ` set cs"

text \<open>
  One connection for each cluster, with a key of that cluster: \<open>owner\<close> is the cluster that published a key.
\<close>

definition conns_ok :: "'k wgLibs \<Rightarrow> (string \<Rightarrow> string) \<Rightarrow> (string \<times> Connection) list \<Rightarrow> bool" where
  "conns_ok W owner cs \<longleftrightarrow> distinct (map fst cs) \<and>
     (\<forall>(cid, c) \<in> set cs. snd (keyFromSpec W (conn_Endpoint c)) = None \<and> owner (conn_key W c) = cid)"

text \<open>
  What is used of the device: \<open>keys\<close> are the keys of its peers. They can be listed and removed. Adding a peer may fail and then
  changes nothing; a configuration that replaces the peers by none leaves none; setting the link up keeps them.
\<close>

definition wg_device_ok :: "'k wgLibs \<Rightarrow> ('k \<Rightarrow> string set) \<Rightarrow> bool" where
  "wg_device_ok W keys \<longleftrightarrow>
     (\<forall>k. \<exists>d. wg_Device W DefaultDeviceName k = Inr d \<and> wp_PublicKey ` set (wd_Peers d) = keys k) \<and>
     (\<forall>key k. \<exists>k'. wg_ConfigureDevice W DefaultDeviceName (peer_config zero_config (remove_config key)) k = (k', None) \<and>
        keys k' = keys k - {key}) \<and>
     (\<forall>p k k' e. \<not> pc_Remove p \<longrightarrow> wg_ConfigureDevice W DefaultDeviceName (peer_config zero_config p) k = (k', e) \<longrightarrow>
        keys k' = (if e = None then insert (pc_PublicKey p) (keys k) else keys k)) \<and>
     (\<forall>cfg k k'. wc_ReplacePeers cfg \<longrightarrow> wc_Peers cfg = [] \<longrightarrow> wg_ConfigureDevice W DefaultDeviceName cfg k = (k', None) \<longrightarrow>
        keys k' = {}) \<and>
     (\<forall>k. keys (fst (wg_LinkSetUp W DefaultDeviceName k)) = keys k)"

lemma device_peers: "wg_device_ok W keys \<Longrightarrow> \<exists>d. wg_Device W DefaultDeviceName k = Inr d \<and> wp_PublicKey ` set (wd_Peers d) = keys k"
  by (auto simp: wg_device_ok_def)

lemma removePeer_keys:
  "wg_device_ok W keys \<Longrightarrow> keys (fst (removePeer W key k)) = keys k - {key}"
  unfolding wg_device_ok_def removePeer_def by (metis fst_apsnd fst_conv)

lemma add_peer_keys:
  "wg_device_ok W keys \<Longrightarrow>
   wg_ConfigureDevice W DefaultDeviceName (peer_config zero_config (add_config key psk ip port ka subnets)) k = (k', e) \<Longrightarrow>
   keys k' = (if e = None then insert key (keys k) else keys k)"
  unfolding wg_device_ok_def by (metis (no_types, lifting) add_config_def peerConfig.select_convs(1,2))

lemma reset_keys:
  "wg_device_ok W keys \<Longrightarrow> wc_ReplacePeers cfg \<Longrightarrow> wc_Peers cfg = [] \<Longrightarrow>
   wg_ConfigureDevice W DefaultDeviceName cfg k = (k', None) \<Longrightarrow> keys k' = {}"
  unfolding wg_device_ok_def by blast

lemma LinkSetUp_keys: "wg_device_ok W keys \<Longrightarrow> keys (fst (wg_LinkSetUp W DefaultDeviceName k)) = keys k"
  by (simp add: wg_device_ok_def)

lemma conns_okD:
  "conns_ok W owner cs \<Longrightarrow> (cid, c) \<in> set cs \<Longrightarrow> owner (conn_key W c) = cid"
  "conns_ok W owner cs \<Longrightarrow> (cid, c) \<in> set cs \<Longrightarrow> keyFromSpec W (conn_Endpoint c) = (conn_key W c, None)"
  "conns_ok W owner cs \<Longrightarrow> map_of cs cid = Some c \<longleftrightarrow> (cid, c) \<in> set cs"
  by (auto simp: conns_ok_def conn_key_def prod_eq_iff)

lemma keys_of_cluster:
  assumes "conns_ok W owner cs"
  shows "k \<in> conn_keys W cs \<and> owner k = cid \<longleftrightarrow> (\<exists>c. map_of cs cid = Some c \<and> k = conn_key W c)"
  using conns_okD(1,3) [OF assms] by (force simp: conn_keys_def)

lemma conns_ok_filter [simp]: "conns_ok W owner cs \<Longrightarrow> conns_ok W owner (filter P cs)"
  by (auto simp: conns_ok_def distinct_map_filter)

lemma conn_del_ok: "conns_ok W owner cs \<Longrightarrow> conns_ok W owner (conn_del cid cs)"
  by (simp add: conn_del_def)

text \<open>The keys after a deletion are those of the other clusters.\<close>

lemma conn_del_keys:
  assumes "conns_ok W owner cs"
  shows "conn_keys W (conn_del cid cs) = {key \<in> conn_keys W cs. owner key \<noteq> cid}"
  using conns_okD(1) [OF assms] by (fastforce simp: conn_keys_def conn_del_def)

lemma conn_put_ok:
  assumes "conns_ok W owner cs" "keyFromSpec W (conn_Endpoint c) = (key, None)" "owner key = cid"
  shows "conns_ok W owner (conn_put cid c cs)"
    and "conn_keys W (conn_put cid c cs) = insert key (conn_keys W (conn_del cid cs))"
  using assms by (auto simp: conns_ok_def conn_put_def conn_del_def conn_keys_def conn_key_def distinct_map_filter)

lemma conn_set_ok:
  assumes "conns_ok W owner cs" "(cid, c) \<in> set cs" "keyFromSpec W (conn_Endpoint c') = keyFromSpec W (conn_Endpoint c)"
  shows "conns_ok W owner (conn_set cid c' cs) \<and> conn_keys W (conn_set cid c' cs) = conn_keys W cs"
proof -
  have fst: "map fst (conn_set cid c' cs) = map fst cs" by (auto simp: conn_set_def)
  have uniq: "c'' = c" if "(cid, c'') \<in> set cs" for c''
    using conns_okD(3) [OF assms(1)] assms(2) that by (metis option.inject)
  have elem: "x = (cid, c') \<or> x \<in> set cs" if "x \<in> set (conn_set cid c' cs)" for x
    using that by (auto simp: conn_set_def)
  have key: "conn_key W c' = conn_key W c" using assms(3) by (simp add: conn_key_def)
  have "snd (keyFromSpec W (conn_Endpoint c'')) = None \<and> owner (conn_key W c'') = cid''"
    if "(cid'', c'') \<in> set (conn_set cid c' cs)" for cid'' c''
    using elem [OF that] assms(2,3) key conns_okD(1,2) [OF assms(1)] by auto
  then have "conns_ok W owner (conn_set cid c' cs)"
    unfolding conns_ok_def fst using assms(1) by (auto simp: conns_ok_def)
  moreover have "conn_keys W (conn_set cid c' cs) = conn_keys W cs"
    unfolding conn_keys_def conn_set_def set_map image_image using key uniq by (intro image_cong) auto
  ultimately show ?thesis ..
qed

lemma connectionByKey_Some:
  "connectionByKey W key cs = Some (cid, c) \<Longrightarrow> (cid, c) \<in> set cs \<and> key = conn_key W c"
  by (induction W key cs rule: connectionByKey.induct) (auto simp: conn_key_def split: if_splits)

lemma connectionByKey_None: "connectionByKey W key cs = None \<longleftrightarrow> key \<notin> conn_keys W cs"
  by (induction W key cs rule: connectionByKey.induct) (auto simp: conn_keys_def conn_key_def)

section \<open>What both drivers share\<close>

text \<open>An update of the status of a connection that keeps its key.\<close>

locale peer_update =
  fixes W :: "'k wgLibs" and upd :: "wgPeer \<Rightarrow> Connection \<Rightarrow> Connection"
  assumes upd_key: "keyFromSpec W (conn_Endpoint (upd p c)) = keyFromSpec W (conn_Endpoint c)"
begin

lemma updatePeerStatus_key:
  "keyFromSpec W (conn_Endpoint (updatePeerStatus W upd key k c)) = keyFromSpec W (conn_Endpoint c)"
  by (auto simp: updatePeerStatus_def SetStatus_def upd_key split: sum.split)

text \<open>
  The listing removes the peers without a connection and returns the connections of the others, in the order of the peers.
\<close>

lemma loop:
  assumes dev: "wg_device_ok W keys" and "conns_ok W owner (wg_connections w)"
    and "connections_loop W upd ps w = (w', cs)"
  shows "conns_ok W owner (wg_connections w') \<and> conn_keys W (wg_connections w') = conn_keys W (wg_connections w) \<and>
    keys (wg_host w') = keys (wg_host w) - (wp_PublicKey ` set ps - conn_keys W (wg_connections w)) \<and>
    map (conn_key W) cs = filter (\<lambda>key. key \<in> conn_keys W (wg_connections w)) (map wp_PublicKey ps)"
  using assms(2,3)
proof (induction ps arbitrary: w w' cs)
  case (Cons p ps)
  show ?case
  proof (cases "connectionByKey W (wp_PublicKey p) (wg_connections w)")
    case None
    let ?w = "w\<lparr>wg_host := fst (removePeer W (wp_PublicKey p) (wg_host w))\<rparr>"
    have "wp_PublicKey p \<notin> conn_keys W (wg_connections w)" using None by (simp add: connectionByKey_None)
    moreover have "connections_loop W upd ps ?w = (w', cs)" using Cons.prems(2) None by simp
    moreover note Cons.IH [OF _ this]
    ultimately show ?thesis using Cons.prems(1) removePeer_keys [OF dev] by auto
  next
    case (Some x)
    obtain cid c where x: "x = (cid, c)" by (cases x)
    note c = connectionByKey_Some [OF Some [unfolded x]]
    let ?w = "w\<lparr>wg_connections := conn_set cid (upd p c) (wg_connections w)\<rparr>"
    have ok: "conns_ok W owner (wg_connections ?w) \<and> conn_keys W (wg_connections ?w) = conn_keys W (wg_connections w)"
      using conn_set_ok [OF Cons.prems(1), of cid c "upd p c"] c upd_key by simp
    obtain cs' where cs': "connections_loop W upd ps ?w = (w', cs')" "cs = upd p c # cs'"
      using Cons.prems(2) Some x by (auto simp: Let_def apsnd_def map_prod_def split: prod.splits)
    have "conn_key W (upd p c) = wp_PublicKey p" using c upd_key by (simp add: conn_key_def)
    moreover have "wp_PublicKey p \<in> conn_keys W (wg_connections w)"
      using c by (force simp: conn_keys_def)
    ultimately show ?thesis using Cons.IH [OF _ cs'(1)] ok cs'(2) by auto
  qed
qed simp

lemma get_connections_heals:
  assumes "wg_device_ok W keys" "conns_ok W owner (wg_connections w)"
    and "get_connections W upd w = (w', r)"
  shows "\<exists>cs. r = Inr cs \<and> conns_ok W owner (wg_connections w') \<and>
    conn_keys W (wg_connections w') = conn_keys W (wg_connections w) \<and>
    keys (wg_host w') = keys (wg_host w) \<inter> conn_keys W (wg_connections w) \<and>
    conn_key W ` set cs = keys (wg_host w')"
proof -
  obtain d where d: "wg_Device W DefaultDeviceName (wg_host w) = Inr d" "wp_PublicKey ` set (wd_Peers d) = keys (wg_host w)"
    using device_peers [OF assms(1)] by blast
  obtain cs where cs: "connections_loop W upd (wd_Peers d) w = (w', cs)" "r = Inr cs"
    using assms(3) d(1) by (auto simp: get_connections_def apsnd_def map_prod_def split: prod.splits)
  note l = loop [OF assms(1,2) cs(1)]
  then have "conn_key W ` set cs = set (filter (\<lambda>key. key \<in> conn_keys W (wg_connections w)) (map wp_PublicKey (wd_Peers d)))"
    by (metis set_map)
  with l d(2) cs(2) show ?thesis by auto
qed

text \<open>The old connection of a cluster is only replaced when the key is another one.\<close>

lemma replace_old_same:
  assumes "map_of (wg_connections w) cid = Some c" "keyFromSpec W (conn_Endpoint c) = (key, None)"
  shows "\<exists>w'. replace_old W upd cid key w = Inl w' \<and> wg_host w' = wg_host w"
  using assms by (simp add: replace_old_def)

lemma replace_old_Inl:
  assumes "conns_ok W owner (wg_connections w)" "replace_old W upd cid key w = Inl w'"
  shows "conns_ok W owner (wg_connections w') \<and> conn_keys W (wg_connections w') = conn_keys W (wg_connections w) \<and>
    wg_host w' = wg_host w \<and> key \<in> conn_keys W (wg_connections w)"
proof -
  obtain c where c: "(cid, c) \<in> set (wg_connections w)" "conn_key W c = key"
    "w' = w\<lparr>wg_connections := conn_set cid (updatePeerStatus W upd key (wg_host w) c) (wg_connections w)\<rparr>"
    using assms conns_okD(3) [OF assms(1)]
    by (auto simp: replace_old_def conn_key_def split: option.splits prod.splits if_splits)
  have "key \<in> conn_keys W (wg_connections w)" using c by (force simp: conn_keys_def)
  with conn_set_ok [OF assms(1) c(1) updatePeerStatus_key] c(3) show ?thesis by simp
qed

lemma replace_old_Inr:
  assumes "wg_device_ok W keys" "conns_ok W owner (wg_connections w)" "owner key = cid"
    and "replace_old W upd cid key w = Inr w'"
  shows "wg_connections w' = conn_del cid (wg_connections w) \<and> key \<notin> conn_keys W (wg_connections w) \<and>
    wg_psk w' = wg_psk w \<and> wg_NATTPort w' = wg_NATTPort w \<and>
    keys (wg_host w') = keys (wg_host w) - {k. k \<in> conn_keys W (wg_connections w) \<and> owner k = cid}"
proof -
  note of_cid = keys_of_cluster [OF assms(2), of _ cid]
  show ?thesis
  proof (cases "map_of (wg_connections w) cid")
    case None
    then have "conn_del cid (wg_connections w) = wg_connections w"
      by (auto simp: conn_del_def map_of_eq_None_iff filter_id_conv)
    then show ?thesis using assms(4) None of_cid assms(3) by (auto simp: replace_old_def)
  next
    case (Some c)
    then have key: "keyFromSpec W (conn_Endpoint c) = (conn_key W c, None)"
      using conns_okD(2,3) [OF assms(2)] by blast
    then have ne: "conn_key W c \<noteq> key" using assms(4) Some by (auto simp: replace_old_def)
    then have w': "w' = w\<lparr>wg_host := fst (removePeer W (conn_key W c) (wg_host w)), wg_connections := conn_del cid (wg_connections w)\<rparr>"
      using assms(4) Some key by (simp add: replace_old_def)
    have "{k. k \<in> conn_keys W (wg_connections w) \<and> owner k = cid} = {conn_key W c}"
      using of_cid Some by auto
    then show ?thesis using w' removePeer_keys [OF assms(1)] ne of_cid [of key] assms(3) Some by auto
  qed
qed

end

section \<open>The updates of the two drivers\<close>

lemma keyFromSpec_cong:
  "fmlookup (BackendConfig s) PublicKey = fmlookup (BackendConfig s') PublicKey \<Longrightarrow> keyFromSpec W s = keyFromSpec W s'"
  by (simp add: keyFromSpec_def)

lemma set_backend_key:
  "key \<noteq> PublicKey \<Longrightarrow> keyFromSpec W (conn_Endpoint (set_backend key v c)) = keyFromSpec W (conn_Endpoint c)"
  by (rule keyFromSpec_cong) (simp add: set_backend_def)

lemma SetStatus_key [simp]: "conn_Endpoint (SetStatus st msg c) = conn_Endpoint c"
  by (simp add: SetStatus_def)

lemma traffic_keys: "lastChecked \<noteq> PublicKey" "transmitBytes \<noteq> PublicKey" "receiveBytes \<noteq> PublicKey"
  by (simp_all add: lastChecked_def transmitBytes_def receiveBytes_def PublicKey_def)

lemma peerTrafficDelta_key:
  "key \<noteq> PublicKey \<Longrightarrow> peerTrafficDelta c key n = (c', x) \<Longrightarrow> keyFromSpec W (conn_Endpoint c') = keyFromSpec W (conn_Endpoint c)"
  by (auto simp: peerTrafficDelta_def set_backend_key split: option.splits)

lemma update_connection_key:
  "keyFromSpec W (conn_Endpoint (update_connection pollMS trafficMS now p c)) = keyFromSpec W (conn_Endpoint c)"
proof -
  obtain c1 lc where 1: "peerTrafficDelta c lastChecked (milliseconds now) = (c1, lc)" by fastforce
  obtain c2 tx where 2: "peerTrafficDelta c1 transmitBytes (wp_TransmitBytes p) = (c2, tx)" by fastforce
  obtain c3 rx where 3: "peerTrafficDelta c2 receiveBytes (wp_ReceiveBytes p) = (c3, rx)" by fastforce
  have "keyFromSpec W (conn_Endpoint c3) = keyFromSpec W (conn_Endpoint c)"
    "keyFromSpec W (conn_Endpoint c1) = keyFromSpec W (conn_Endpoint c)"
    using peerTrafficDelta_key traffic_keys 1 2 3 by metis+
  then show ?thesis
    by (simp add: update_connection_def 1 2 3 savePeerTraffic_def set_backend_key traffic_keys split: option.split)
qed

interpretation wg_upd: peer_update W "updateConnectionForPeer now" for W :: "'k wgLibs" and now
  by unfold_locales (simp add: updateConnectionForPeer_def update_connection_key)

interpretation awg_upd: peer_update W "awg_updateConnectionForPeer keepAlive now" for W :: "'k wgLibs" and keepAlive now
  by unfold_locales (simp add: awg_updateConnectionForPeer_def update_connection_key)

section \<open>Runs\<close>

text \<open>An endpoint whose key, if it has one, is a key of its cluster.\<close>

definition owned :: "'k wgLibs \<Rightarrow> (string \<Rightarrow> string) \<Rightarrow> EndpointSpec \<Rightarrow> bool" where
  "owned W owner spec \<longleftrightarrow> (snd (keyFromSpec W spec) = None \<longrightarrow> owner (fst (keyFromSpec W spec)) = ClusterID spec)"

text \<open>The states of a driver between its creation and the end: any sequence of calls, with errors of the device.\<close>

inductive wg_run for W :: "'k wgLibs" and owner :: "string \<Rightarrow> string"
  and connect :: "int \<Rightarrow> NATEndpointInfo \<Rightarrow> 'k wireguard \<Rightarrow> 'k wireguard \<times> string \<times> err option"
  and listing :: "int \<Rightarrow> 'k wireguard \<Rightarrow> 'k wireguard \<times> Connection list result" and w0 :: "'k wireguard" where
  wg_run_new: "wg_run W owner connect listing w0 w0"
| wg_run_init: "wg_run W owner connect listing w0 w \<Longrightarrow> wg_Init W w = (w', e) \<Longrightarrow> wg_run W owner connect listing w0 w'"
| wg_run_connect: "wg_run W owner connect listing w0 w \<Longrightarrow> owned W owner (ep_Spec (ni_Endpoint info)) \<Longrightarrow>
    connect now info w = (w', ip, e) \<Longrightarrow> wg_run W owner connect listing w0 w'"
| wg_run_disconnect: "wg_run W owner connect listing w0 w \<Longrightarrow> owned W owner spec \<Longrightarrow>
    wg_DisconnectFromEndpoint W spec family w = (w', e) \<Longrightarrow> wg_run W owner connect listing w0 w'"
| wg_run_listing: "wg_run W owner connect listing w0 w \<Longrightarrow> listing now w = (w', r) \<Longrightarrow> wg_run W owner connect listing w0 w'"

lemma parse_remote_key:
  "parse_remote L W info = Inr (ip, subnets, key) \<Longrightarrow> keyFromSpec W (ep_Spec (ni_Endpoint info)) = (key, None)"
  by (auto simp: parse_remote_def split: option.splits prod.splits)

lemma wg_connection_key [simp]: "conn_Endpoint (wg_connection info) = ep_Spec (ni_Endpoint info)"
  by (simp add: wg_connection_def SetStatus_def NewConnection_def)

lemma Init_host:
  "wg_Init W w = (w', e) \<Longrightarrow> w' = w \<or> w' = w\<lparr>wg_host := fst (wg_LinkSetUp W DefaultDeviceName (wg_host w))\<rparr>"
  by (auto simp: wg_Init_def split: option.splits sum.splits if_split_asm prod.splits)

lemma init_keys:
  assumes "wg_device_ok W keys" "wg_Init W w = (w', e)"
  shows "wg_connections w' = wg_connections w \<and> keys (wg_host w') = keys (wg_host w)"
  using Init_host [OF assms(2)] LinkSetUp_keys [OF assms(1)] by auto

text \<open>Disconnecting removes the peer, and the connection if it has the same key.\<close>

lemma disconnect_keys:
  assumes "wg_device_ok W keys" "conns_ok W owner (wg_connections w)" "owned W owner spec"
    and "wg_DisconnectFromEndpoint W spec family w = (w', e)"
  shows "conns_ok W owner (wg_connections w') \<and>
    (case keyFromSpec W spec of
       (_, Some _) \<Rightarrow> w' = w \<and> e \<noteq> None
     | (key, None) \<Rightarrow> e = None \<and> keys (wg_host w') = keys (wg_host w) - {key} \<and>
         conn_keys W (wg_connections w') = conn_keys W (wg_connections w) - {key})"
proof (cases "keyFromSpec W spec")
  case (Pair key err)
  show ?thesis
  proof (cases err)
    case (Some a)
    then show ?thesis using Pair assms(2,4) by (auto simp: wg_DisconnectFromEndpoint_def)
  next
    case None
    then have own: "owner key = ClusterID spec" using assms(3) Pair by (simp add: owned_def)
    note of_cid = keys_of_cluster [OF assms(2), of _ "ClusterID spec"]
    let ?w1 = "w\<lparr>wg_host := fst (removePeer W key (wg_host w))\<rparr>"
    have mis: "keyMismatch W (ClusterID spec) key ?w1 \<longleftrightarrow> key \<notin> conn_keys W (wg_connections w)"
    proof -
      have "keyMismatch W (ClusterID spec) key ?w1 \<longleftrightarrow>
          \<not> (\<exists>c. map_of (wg_connections w) (ClusterID spec) = Some c \<and> key = conn_key W c)"
        by (auto simp: keyMismatch_def conn_key_def split: option.split)
      then show ?thesis unfolding of_cid [symmetric] using own by simp
    qed
    have w': "w' = (if key \<in> conn_keys W (wg_connections w)
        then ?w1\<lparr>wg_connections := conn_del (ClusterID spec) (wg_connections w)\<rparr> else ?w1) \<and> e = None"
      using assms(4) Pair None mis by (auto simp: wg_DisconnectFromEndpoint_def Let_def split: if_splits)
    have "{k \<in> conn_keys W (wg_connections w). owner k \<noteq> ClusterID spec} = conn_keys W (wg_connections w) - {key}"
      if "key \<in> conn_keys W (wg_connections w)"
      using that of_cid own by (auto simp: set_eq_iff) (metis option.inject)+
    then show ?thesis
      using w' Pair None conn_del_keys [OF assms(2)] conn_del_ok [OF assms(2)] removePeer_keys [OF assms(1)] assms(2) by auto
  qed
qed

text \<open>The end of a connect: the peer has been added, or the attempt failed.\<close>

lemma awg_connect_keys:
  assumes dev: "wg_device_ok W keys" and ok: "conns_ok W owner (wg_connections w)"
    and eq: "keys (wg_host w) = conn_keys W (wg_connections w)" and own: "owned W owner (ep_Spec (ni_Endpoint info))"
    and con: "awg_ConnectToEndpoint L W now info w = (w', ip, e)"
  shows "conns_ok W owner (wg_connections w') \<and> keys (wg_host w') = conn_keys W (wg_connections w')"
proof (cases "parse_remote L W info")
  case (Inl a)
  then show ?thesis using con ok eq by (simp add: awg_ConnectToEndpoint_def)
next
  case (Inr r)
  obtain rip subnets key where r: "parse_remote L W info = Inr (rip, subnets, key)" using Inr by (cases r) auto
  let ?cid = "ClusterID (ep_Spec (ni_Endpoint info))" and ?upd = "awg_updateConnectionForPeer (wg_keepAlive w) now"
  note key = parse_remote_key [OF r]
  have owner: "owner key = ?cid" using own key by (simp add: owned_def)
  show ?thesis
  proof (cases "replace_old W ?upd ?cid key w")
    case (Inl w1)
    then have "w' = w1" using con r by (simp add: awg_ConnectToEndpoint_def)
    with awg_upd.replace_old_Inl [OF ok Inl] ok eq show ?thesis by simp
  next
    case (Inr w1)
    note w1 = awg_upd.replace_old_Inr [OF dev ok owner Inr]
    have ok1: "conns_ok W owner (wg_connections w1)" using w1 conn_del_ok [OF ok] by simp
    have eq1: "keys (wg_host w1) = conn_keys W (wg_connections w1)" "key \<notin> keys (wg_host w1)"
      using w1 conn_del_keys [OF ok] eq by auto
    have del: "conn_del ?cid (wg_connections w1) = wg_connections w1" using w1 by (simp add: conn_del_def)
    let ?cfg = "add_config key (wg_psk w) rip (fst (GetBackendPort (ep_Spec (ni_Endpoint info)) UDPPortConfig (wg_NATTPort w)))
      (wg_keepAlive w) subnets"
    obtain k ce where k: "wg_ConfigureDevice W DefaultDeviceName (peer_config zero_config ?cfg) (wg_host w1) = (k, ce)"
      by fastforce
    note kk = add_peer_keys [OF dev k]
    have put: "conns_ok W owner (conn_put ?cid (wg_connection info) (wg_connections w1))"
      "conn_keys W (conn_put ?cid (wg_connection info) (wg_connections w1)) = insert key (conn_keys W (wg_connections w1))"
      using conn_put_ok [OF ok1, of "wg_connection info" key ?cid] key owner del by auto
    show ?thesis
    proof (cases ce)
      case None
      then show ?thesis
        using con r Inr k kk eq1 ok1 put removePeer_keys [OF dev, of key k]
        by (auto simp: awg_ConnectToEndpoint_def Let_def split: option.splits)
    next
      case (Some a)
      then show ?thesis using con r Inr k kk eq1 ok1 by (auto simp: awg_ConnectToEndpoint_def Let_def)
    qed
  qed
qed

lemma wg_connect_keys:
  assumes dev: "wg_device_ok W keys" and ok: "conns_ok W owner (wg_connections w)"
    and sub: "keys (wg_host w) \<subseteq> conn_keys W (wg_connections w)" and own: "owned W owner (ep_Spec (ni_Endpoint info))"
    and con: "wg_ConnectToEndpoint L W now info w = (w', ip, e)"
  shows "conns_ok W owner (wg_connections w') \<and> keys (wg_host w') \<subseteq> conn_keys W (wg_connections w')"
proof (cases "parse_remote L W info")
  case (Inl a)
  then show ?thesis using con ok sub by (simp add: wg_ConnectToEndpoint_def)
next
  case (Inr r)
  obtain rip subnets key where r: "parse_remote L W info = Inr (rip, subnets, key)" using Inr by (cases r) auto
  let ?cid = "ClusterID (ep_Spec (ni_Endpoint info))" and ?upd = "updateConnectionForPeer now"
  note key = parse_remote_key [OF r]
  have owner: "owner key = ?cid" using own key by (simp add: owned_def)
  show ?thesis
  proof (cases "replace_old W ?upd ?cid key w")
    case (Inl w1)
    then have "w' = w1" using con r by (simp add: wg_ConnectToEndpoint_def)
    with wg_upd.replace_old_Inl [OF ok Inl] ok sub show ?thesis by simp
  next
    case (Inr w1)
    note w1 = wg_upd.replace_old_Inr [OF dev ok owner Inr]
    have ok1: "conns_ok W owner (wg_connections w1)" using w1 conn_del_ok [OF ok] by simp
    have sub1: "keys (wg_host w1) \<subseteq> conn_keys W (wg_connections w1)"
      using w1 conn_del_keys [OF ok] sub by auto
    have del: "conn_del ?cid (wg_connections w1) = wg_connections w1" using w1 by (simp add: conn_del_def)
    have put: "conns_ok W owner (conn_put ?cid (wg_connection info) (wg_connections w1))"
      "conn_keys W (conn_put ?cid (wg_connection info) (wg_connections w1)) = insert key (conn_keys W (wg_connections w1))"
      using conn_put_ok [OF ok1, of "wg_connection info" key ?cid] key owner del by auto
    show ?thesis
      using con r Inr put sub1 add_peer_keys [OF dev]
      by (auto simp: wg_ConnectToEndpoint_def Let_def split: prod.splits option.splits if_splits)
  qed
qed

text \<open>
  A relation between the peers and the connections holds in a run if connecting and listing keep it.
\<close>

lemma run_keys:
  assumes dev: "wg_device_ok W keys" and minus: "\<And>A B k. rel A B \<Longrightarrow> rel (A - {k}) (B - {k})"
    and connect: "\<And>w info now w' ip e. conns_ok W owner (wg_connections w) \<Longrightarrow>
      rel (keys (wg_host w)) (conn_keys W (wg_connections w)) \<Longrightarrow> owned W owner (ep_Spec (ni_Endpoint info)) \<Longrightarrow>
      connect now info w = (w', ip, e) \<Longrightarrow>
      conns_ok W owner (wg_connections w') \<and> rel (keys (wg_host w')) (conn_keys W (wg_connections w'))"
    and listing: "\<And>w now w' r. conns_ok W owner (wg_connections w) \<Longrightarrow>
      rel (keys (wg_host w)) (conn_keys W (wg_connections w)) \<Longrightarrow> listing now w = (w', r) \<Longrightarrow>
      conns_ok W owner (wg_connections w') \<and> rel (keys (wg_host w')) (conn_keys W (wg_connections w'))"
    and "conns_ok W owner (wg_connections w0)" "rel (keys (wg_host w0)) (conn_keys W (wg_connections w0))"
    and run: "wg_run W owner connect listing w0 w"
  shows "conns_ok W owner (wg_connections w) \<and> rel (keys (wg_host w)) (conn_keys W (wg_connections w))"
  using run
proof (induction rule: wg_run.induct)
  case wg_run_new
  show ?case using assms(5,6) ..
next
  case (wg_run_init w w' e)
  then show ?case using init_keys [OF dev wg_run_init.hyps(2)] by simp
next
  case (wg_run_connect w info now w' ip e)
  then show ?case using connect by blast
next
  case (wg_run_disconnect w spec family w' e)
  then show ?case using disconnect_keys [OF dev _ wg_run_disconnect.hyps(2,3)] minus by (auto split: prod.splits option.splits)
next
  case (wg_run_listing w now w' r)
  then show ?case using listing by blast
qed

text \<open>A new driver has no peers; publishing the endpoint does not touch the device.\<close>

lemma Update_keys:
  assumes "\<And>ep f k. keys (fst (ec_MustUpdate C ep f k)) = keys k" "Update L C f l k = ((l', k'), e)"
  shows "keys k' = keys k"
proof -
  have "keys k' = keys k" if "ec_MustUpdate C ep f k = (k', r)" for ep r using assms(1) [of ep f k] that by simp
  then show ?thesis using assms(2) by (auto simp: Update_def split: if_splits option.splits prod.splits sum.splits)
qed

lemma configure_new_keys:
  assumes dev: "wg_device_ok W keys" and "\<And>ep f k. keys (fst (ec_MustUpdate C ep f k)) = keys k"
    and "configure_new L W C psk port params l k = ((l', k'), Inr psKey)"
  shows "keys k' = {}"
proof -
  obtain k1 cfg k2 f where "wg_ConfigureDevice W DefaultDeviceName cfg k1 = (k2, None)" "wc_ReplacePeers cfg" "wc_Peers cfg = []"
    "Update L C f l k2 = ((l', k'), None)"
    using assms(3) by (auto simp: configure_new_def split: sum.splits prod.splits option.splits)
  with reset_keys [OF dev] Update_keys [where keys = keys, OF assms(2)] show ?thesis by metis
qed

lemma awg_new_keys:
  assumes "wg_device_ok W keys" "\<And>ep f k. keys (fst (ec_MustUpdate C ep f k)) = keys k"
    and "awg_NewDriver L W C readFile unmarshal raw envSpec l k = ((l', k'), Inr w)"
  shows "keys (wg_host w) = {} \<and> wg_connections w = []"
  using assms(3) configure_new_keys [where keys = keys, OF assms(1,2)]
  by (auto simp: awg_NewDriver_def Let_def split: sum.splits prod.splits option.splits)

lemma wg_new_keys:
  assumes "wg_device_ok W keys" "\<And>ep f k. keys (fst (ec_MustUpdate C ep f k)) = keys k"
    and "wg_NewDriver L W C readFile envSpec l k = ((l', k'), Inr w)"
  shows "keys (wg_host w) = {} \<and> wg_connections w = []"
  using assms(3) configure_new_keys [where keys = keys, OF assms(1,2)]
  by (auto simp: wg_NewDriver_def split: sum.splits prod.splits option.splits)

lemma conns_ok_Nil [simp]: "conns_ok W owner []"
  by (simp add: conns_ok_def)

lemma awg_listing_keys:
  assumes "wg_device_ok W keys" "conns_ok W owner (wg_connections w)" "keys (wg_host w) = conn_keys W (wg_connections w)"
    and "awg_GetConnections W now w = (w', r)"
  shows "conns_ok W owner (wg_connections w') \<and> keys (wg_host w') = conn_keys W (wg_connections w')"
  using awg_upd.get_connections_heals [OF assms(1,2) assms(4) [unfolded awg_GetConnections_def]] assms(3) by auto

lemma wg_listing_keys:
  assumes "wg_device_ok W keys" "conns_ok W owner (wg_connections w)" "keys (wg_host w) \<subseteq> conn_keys W (wg_connections w)"
    and "wg_GetConnections W now w = (w', r)"
  shows "conns_ok W owner (wg_connections w') \<and> keys (wg_host w') \<subseteq> conn_keys W (wg_connections w')"
  using wg_upd.get_connections_heals [OF assms(1,2) assms(4) [unfolded wg_GetConnections_def]] assms(3) by auto

lemma awg_run_keys:
  assumes dev: "wg_device_ok W keys" and "keys (wg_host a0) = {}" "wg_connections a0 = []"
    and run: "wg_run W owner (awg_ConnectToEndpoint L W) (awg_GetConnections W) a0 a"
  shows "conns_ok W owner (wg_connections a) \<and> keys (wg_host a) = conn_keys W (wg_connections a)"
  by (rule run_keys [where rel = "(=)", OF dev _ awg_connect_keys [OF dev] awg_listing_keys [OF dev] _ _ run])
    (use assms(2,3) in \<open>simp_all add: conn_keys_def\<close>)

lemma wg_run_keys:
  assumes dev: "wg_device_ok W keys" and "keys (wg_host w0) = {}" "wg_connections w0 = []"
    and run: "wg_run W owner (wg_ConnectToEndpoint L W) (wg_GetConnections W) w0 w"
  shows "conns_ok W owner (wg_connections w) \<and> keys (wg_host w) \<subseteq> conn_keys W (wg_connections w)"
  by (rule run_keys [where rel = "(\<subseteq>)", OF dev _ wg_connect_keys [OF dev] wg_listing_keys [OF dev] _ _ run])
    (use assms(2,3) in \<open>auto simp add: conn_keys_def\<close>)

text \<open>C7: The peers of the device are those of the recorded connections: in every run of the AmneziaWG driver exactly, in every run of
  the WireGuard driver at most, although adding a peer may fail; and each cluster has one connection. Removing and listing peers is
  taken to succeed, and a public key to belong to one cluster.\<close>

theorem peers_recorded:
  assumes "wg_device_ok W keys" "\<And>ep f k. keys (fst (ec_MustUpdate C ep f k)) = keys k"
    and awg: "awg_NewDriver L W C readFile unmarshal raw envSpec l k = ((l', k'), Inr a0)"
      "wg_run W owner (awg_ConnectToEndpoint L W) (awg_GetConnections W) a0 a"
    and wg: "wg_NewDriver L W C readFile envSpec l k = ((l'', k''), Inr w0)"
      "wg_run W owner (wg_ConnectToEndpoint L W) (wg_GetConnections W) w0 w"
  shows "keys (wg_host a) = conn_keys W (wg_connections a) \<and> distinct (map fst (wg_connections a)) \<and>
    keys (wg_host w) \<subseteq> conn_keys W (wg_connections w) \<and> distinct (map fst (wg_connections w))"
proof -
  note a0 = awg_new_keys [where keys = keys, OF assms(1,2) awg(1)]
  note w0 = wg_new_keys [where keys = keys, OF assms(1,2) wg(1)]
  show ?thesis
    using awg_run_keys [OF assms(1) _ _ awg(2)] wg_run_keys [OF assms(1) _ _ wg(2)] a0 w0 by (simp add: conns_ok_def)
qed

section \<open>Connecting\<close>

lemma map_of_conn_set: "map_of cs cid = Some c \<Longrightarrow> map_of (conn_set cid c' cs) cid = Some c'"
  by (induction cs) (auto simp: conn_set_def split: if_splits)

lemma map_of_conn_put [simp]: "map_of (conn_put cid c cs) cid = Some c"
  by (simp add: conn_put_def)

lemma replace_old_cases:
  obtains (Known) c where "map_of (wg_connections w) cid = Some c" "keyFromSpec W (conn_Endpoint c) = (key, None)"
      "replace_old W upd cid key w =
        Inl (w\<lparr>wg_connections := conn_set cid (updatePeerStatus W upd key (wg_host w) c) (wg_connections w)\<rparr>)"
  | (Other) w1 where "replace_old W upd cid key w = Inr w1" "set (wg_connections w1) \<subseteq> set (wg_connections w)"
proof (cases "map_of (wg_connections w) cid")
  case None
  then show ?thesis using Other by (simp add: replace_old_def)
next
  case (Some c)
  show ?thesis
  proof (cases "keyFromSpec W (conn_Endpoint c) = (key, None)")
    case True
    then show ?thesis using Known Some by (simp add: replace_old_def)
  next
    case False
    then have "\<exists>w1. replace_old W upd cid key w = Inr w1 \<and> set (wg_connections w1) \<subseteq> set (wg_connections w)"
      using Some by (auto simp: replace_old_def conn_del_def split: prod.splits option.splits)
    then show ?thesis using Other by blast
  qed
qed

text \<open>A peer that passed the verification.\<close>

lemma verified_peer:
  assumes "verifyNewPeer W cfg k = None"
  shows "\<exists>d p. wg_Device W DefaultDeviceName k = Inr d \<and> p \<in> set (wd_Peers d) \<and> wp_PublicKey p = pc_PublicKey cfg \<and>
    wp_PresharedKey p = pc_PresharedKey cfg \<and> Some (wp_Endpoint p) = pc_Endpoint cfg \<and>
    map ipnet_String (wp_AllowedIPs p) = map ipnet_String (pc_AllowedIPs cfg)"
  using assms
  by (auto simp: verifyNewPeer_def peerByKey_def find_Some_iff split: sum.splits option.splits if_splits dest: nth_mem)

text \<open>Connecting with the AmneziaWG driver. If it fails, nothing new is recorded. If it succeeds, the cluster is recorded with
  the key of the endpoint, and unless that key was recorded before, the device has been verified to have the peer
  with this key, the pre-shared key, the address and the port of the endpoint and its subnets of the family.\<close>

theorem awg_connect_verified:
  "case awg_ConnectToEndpoint L W now info w of
     (w', ip, Some e) \<Rightarrow> set (wg_connections w') \<subseteq> set (wg_connections w)
   | (w', ip, None) \<Rightarrow>
       ip = ni_UseIP info \<and>
       (\<exists>remoteIP subnets key c.
          ParseIP (ni_UseIP info) = Some remoteIP \<and>
          ParseSubnets L (ni_UseFamily info) (ep_Spec (ni_Endpoint info)) = Some subnets \<and>
          keyFromSpec W (ep_Spec (ni_Endpoint info)) = (key, None) \<and>
          map_of (wg_connections w') (ClusterID (ep_Spec (ni_Endpoint info))) = Some c \<and>
          keyFromSpec W (conn_Endpoint c) = (key, None) \<and>
          ((\<exists>old. map_of (wg_connections w) (ClusterID (ep_Spec (ni_Endpoint info))) = Some old \<and>
              keyFromSpec W (conn_Endpoint old) = (key, None)) \<or>
           (\<exists>d p. wg_Device W DefaultDeviceName (wg_host w') = Inr d \<and> p \<in> set (wd_Peers d) \<and> wp_PublicKey p = key \<and>
              wp_PresharedKey p = wg_psk w \<and>
              wp_Endpoint p = (remoteIP, fst (GetBackendPort (ep_Spec (ni_Endpoint info)) UDPPortConfig (wg_NATTPort w))) \<and>
              map ipnet_String (wp_AllowedIPs p) = map ipnet_String subnets)))"
proof (cases "parse_remote L W info")
  case (Inl a)
  then show ?thesis by (simp add: awg_ConnectToEndpoint_def)
next
  case (Inr r)
  obtain rip subnets key where r: "parse_remote L W info = Inr (rip, subnets, key)" using Inr by (cases r) auto
  have parsed: "ParseIP (ni_UseIP info) = Some rip" "ParseSubnets L (ni_UseFamily info) (ep_Spec (ni_Endpoint info)) = Some subnets"
    "keyFromSpec W (ep_Spec (ni_Endpoint info)) = (key, None)"
    using r by (auto simp: parse_remote_def split: option.splits prod.splits)
  let ?cid = "ClusterID (ep_Spec (ni_Endpoint info))"
  let ?cfg = "add_config key (wg_psk w) rip (fst (GetBackendPort (ep_Spec (ni_Endpoint info)) UDPPortConfig (wg_NATTPort w)))
    (wg_keepAlive w) subnets"
  show ?thesis
  proof (cases rule: replace_old_cases [of w ?cid W key "awg_updateConnectionForPeer (wg_keepAlive w) now"])
    case (Known c)
    then show ?thesis
      using r parsed map_of_conn_set [OF Known(1)]
      by (simp add: awg_ConnectToEndpoint_def awg_upd.updatePeerStatus_key)
  next
    case (Other w1)
    obtain k ce where k: "wg_ConfigureDevice W DefaultDeviceName (peer_config zero_config ?cfg) (wg_host w1) = (k, ce)" by fastforce
    show ?thesis
    proof (cases "ce = None \<and> verifyNewPeer W ?cfg k = None")
      case True
      then show ?thesis using r parsed Other(1) k verified_peer [of W ?cfg k]
        by (auto simp: awg_ConnectToEndpoint_def Let_def add_config_def)
    next
      case False
      then show ?thesis using r Other k
        by (auto simp: awg_ConnectToEndpoint_def Let_def split: option.splits)
    qed
  qed
qed

text \<open>C38: Once the WireGuard driver has tried to connect an endpoint, every later attempt, for either family, leaves the device as it
  is and reports success, even if the first one failed to configure the peer.\<close>

theorem known_peer_not_configured:
  assumes "parse_remote L W info = Inr r" "wg_ConnectToEndpoint L W now info w = (w1, ip, e)"
    and "ep_Spec (ni_Endpoint info') = ep_Spec (ni_Endpoint info)" "parse_remote L W info' = Inr r'"
  shows "\<exists>w2. wg_ConnectToEndpoint L W now' info' w1 = (w2, ni_UseIP info', None) \<and> wg_host w2 = wg_host w1"
proof -
  let ?cid = "ClusterID (ep_Spec (ni_Endpoint info))"
  obtain rip subnets key where r: "r = (rip, subnets, key)" by (cases r)
  note key = parse_remote_key [OF assms(1) [unfolded r]]
  obtain rip' subnets' where r': "r' = (rip', subnets', key)"
    using parse_remote_key [of L W info'] assms(3,4) key by (cases r') auto
  have "\<exists>c. map_of (wg_connections w1) ?cid = Some c \<and> keyFromSpec W (conn_Endpoint c) = (key, None)"
  proof (cases rule: replace_old_cases [of w ?cid W key "updateConnectionForPeer now"])
    case (Known c)
    then show ?thesis
      using assms(1,2) r map_of_conn_set [OF Known(1)]
      by (auto simp: wg_ConnectToEndpoint_def wg_upd.updatePeerStatus_key)
  next
    case (Other w0)
    then show ?thesis
      using assms(1,2) r key by (auto simp: wg_ConnectToEndpoint_def Let_def split: prod.splits option.splits)
  qed
  then obtain c where c: "map_of (wg_connections w1) ?cid = Some c" "keyFromSpec W (conn_Endpoint c) = (key, None)" by blast
  from wg_upd.replace_old_same [OF this, of now'] assms(3,4) r' show ?thesis by (auto simp: wg_ConnectToEndpoint_def)
qed

section \<open>The status of a connection\<close>

text \<open>The values of the last check with traffic that a connection remembers: the time in milliseconds and the two counters.\<close>

definition checked :: "int \<Rightarrow> int \<Rightarrow> int \<Rightarrow> Connection \<Rightarrow> bool" where
  "checked t tx rx c \<longleftrightarrow>
     fmlookup (BackendConfig (conn_Endpoint c)) lastChecked = Some (dec_of_int t) \<and>
     fmlookup (BackendConfig (conn_Endpoint c)) transmitBytes = Some (dec_of_int tx) \<and>
     fmlookup (BackendConfig (conn_Endpoint c)) receiveBytes = Some (dec_of_int rx) \<and>
     {t, tx, rx} \<subseteq> {0..<2 ^ 63}"

lemma traffic_keys_differ: "lastChecked \<noteq> transmitBytes" "lastChecked \<noteq> receiveBytes" "transmitBytes \<noteq> receiveBytes"
  by (simp_all add: lastChecked_def transmitBytes_def receiveBytes_def)

lemma checked_SetStatus [simp]: "checked t tx rx (SetStatus st msg c) = checked t tx rx c"
  by (simp add: checked_def)

lemma checked_save: "{t, tx, rx} \<subseteq> {0..<2 ^ 63} \<Longrightarrow> checked t tx rx (savePeerTraffic t tx rx c)"
  using traffic_keys_differ by (simp add: checked_def savePeerTraffic_def set_backend_def)

lemma delta_checked:
  "fmlookup (BackendConfig (conn_Endpoint c)) key = Some (dec_of_int v) \<Longrightarrow> 0 \<le> v \<Longrightarrow> v < 2 ^ 63 \<Longrightarrow> 0 \<le> n \<Longrightarrow> n < 2 ^ 63 \<Longrightarrow>
   peerTrafficDelta c key n = (c, n - v)"
  by (simp add: peerTrafficDelta_def parse_int_dec_of_int wrap64_id)

text \<open>A peer whose counters and the clock are in range; \<open>now\<close> is in nanoseconds.\<close>

definition in_range :: "int \<Rightarrow> wgPeer \<Rightarrow> bool" where
  "in_range now p \<longleftrightarrow> {now, wp_TransmitBytes p, wp_ReceiveBytes p} \<subseteq> {0..<2 ^ 63}"

lemma update_checked:
  assumes "checked t tx rx c" "in_range now p"
  shows "update_connection pollMS trafficMS now p c =
    (let lc = milliseconds now - t; moved = wp_TransmitBytes p > tx \<or> wp_ReceiveBytes p > rx in
     if lc < pollMS then c
     else case wp_LastHandshakeTime p of
       None \<Rightarrow> if lc > milliseconds HandshakeTimeout then SetStatus ConnectionError ''no initial handshake'' c
               else if moved then SetStatus Connecting ''no initial handshake yet'' c else c
     | Some handshake \<Rightarrow>
         if moved then savePeerTraffic (milliseconds now) (wp_TransmitBytes p) (wp_ReceiveBytes p) (SetStatus Connected ''Rx, Tx'' c)
         else if now - handshake > HandshakeTimeout then SetStatus ConnectionError ''no handshake'' c
         else if lc < 2 * trafficMS then c
         else SetStatus ConnectionError ''no bytes sent or received'' c)"
proof -
  have "0 \<le> milliseconds now" "milliseconds now < 2 ^ 63"
    using assms(2) by (auto simp: in_range_def milliseconds_def)
  then have "peerTrafficDelta c lastChecked (milliseconds now) = (c, milliseconds now - t)"
    "peerTrafficDelta c transmitBytes (wp_TransmitBytes p) = (c, wp_TransmitBytes p - tx)"
    "peerTrafficDelta c receiveBytes (wp_ReceiveBytes p) = (c, wp_ReceiveBytes p - rx)"
    using assms by (auto intro!: delta_checked simp: checked_def in_range_def)
  then show ?thesis by (simp add: update_connection_def Let_def split: option.split)
qed

text \<open>A peer without traffic since the last check.\<close>

definition silent :: "int \<Rightarrow> int \<Rightarrow> int \<times> wgPeer \<Rightarrow> bool" where
  "silent tx rx poll \<longleftrightarrow> in_range (fst poll) (snd poll) \<and> wp_TransmitBytes (snd poll) = tx \<and> wp_ReceiveBytes (snd poll) = rx"

definition polled :: "int \<Rightarrow> int \<Rightarrow> (int \<times> wgPeer) list \<Rightarrow> Connection \<Rightarrow> Connection" where
  "polled pollMS trafficMS polls = fold (\<lambda>(now, p). update_connection pollMS trafficMS now p) polls"

lemma silent_step:
  assumes "checked t tx rx c" "silent tx rx (now, p)"
  shows "checked t tx rx (update_connection pollMS trafficMS now p c)"
  using assms update_checked [OF assms(1), of now p] by (auto simp: silent_def Let_def split: option.split)

lemma silent_polls:
  "checked t tx rx c \<Longrightarrow> \<forall>poll\<in>set polls. silent tx rx poll \<Longrightarrow> checked t tx rx (polled pollMS trafficMS polls c)"
proof (induction polls arbitrary: c)
  case (Cons poll polls)
  then show ?case using silent_step [OF Cons.prems(1)] by (cases poll) (simp add: polled_def)
qed (simp add: polled_def)

text \<open>The WireGuard driver is the AmneziaWG driver with a keepalive of ten seconds.\<close>

lemma wg_is_awg: "updateConnectionForPeer = awg_updateConnectionForPeer KeepAliveInterval"
  by (simp add: fun_eq_iff updateConnectionForPeer_def awg_updateConnectionForPeer_def KeepAliveInterval_def StatusPollInterval_def)

definition awg_polled :: "int \<Rightarrow> (int \<times> wgPeer) list \<Rightarrow> Connection \<Rightarrow> Connection" where
  "awg_polled keepAlive polls = fold (\<lambda>(now, p). awg_updateConnectionForPeer keepAlive now p) polls"

text \<open>The time in milliseconds in which a peer with a handshake has to show traffic.\<close>

definition silence_limit :: "int \<Rightarrow> int" where
  "silence_limit keepAlive = 2 * (milliseconds (if keepAlive \<le> 0 then StatusPollInterval else keepAlive) + 2)"

lemma awg_update_checked:
  assumes "checked t tx rx c" "in_range now p"
  shows "awg_updateConnectionForPeer keepAlive now p c =
    (let lc = milliseconds now - t; moved = wp_TransmitBytes p > tx \<or> wp_ReceiveBytes p > rx in
     if lc < 10002 then c
     else case wp_LastHandshakeTime p of
       None \<Rightarrow> if lc > 130000 then SetStatus ConnectionError ''no initial handshake'' c
               else if moved then SetStatus Connecting ''no initial handshake yet'' c else c
     | Some handshake \<Rightarrow>
         if moved then savePeerTraffic (milliseconds now) (wp_TransmitBytes p) (wp_ReceiveBytes p) (SetStatus Connected ''Rx, Tx'' c)
         else if now - handshake > HandshakeTimeout then SetStatus ConnectionError ''no handshake'' c
         else if lc < silence_limit keepAlive then c
         else SetStatus ConnectionError ''no bytes sent or received'' c)"
proof -
  have "milliseconds StatusPollInterval = 10000" "milliseconds HandshakeTimeout = 130000"
    by (simp_all add: milliseconds_def StatusPollInterval_def HandshakeTimeout_def)
  then show ?thesis
    unfolding awg_updateConnectionForPeer_def update_checked [OF assms] silence_limit_def Let_def by simp
qed

lemma checked_range: "in_range now p \<Longrightarrow> {milliseconds now, wp_TransmitBytes p, wp_ReceiveBytes p} \<subseteq> {0..<2 ^ 63}"
  by (auto simp: in_range_def milliseconds_def)

lemma savePeerTraffic_Status [simp]: "Status (savePeerTraffic t tx rx c) = Status c"
  by (simp add: savePeerTraffic_def set_backend_def)

lemma silent_awg_polls:
  "checked t tx rx c \<Longrightarrow> \<forall>poll\<in>set polls. silent tx rx poll \<Longrightarrow> checked t tx rx (awg_polled keepAlive polls c)"
  unfolding awg_polled_def awg_updateConnectionForPeer_def using silent_polls unfolding polled_def by blast

text \<open>The status of a connection follows its peer. Let the driver remember the time and the counters of a check, and poll the
  peer any number of times without traffic. At a further poll later than the poll interval: if the counters
  have grown and there has been a handshake, the connection is connected and the new values are remembered; if they have not
  and twice the keepalive has passed, or 130 seconds without a first handshake, it is in error. Before the poll interval has passed nothing changes. The
  WireGuard driver is the case of a keepalive of ten seconds.\<close>

theorem status_follows_peer:
  assumes "checked t tx rx c" "\<forall>poll\<in>set polls. silent tx rx poll" "in_range now p"
  shows "updateConnectionForPeer = awg_updateConnectionForPeer KeepAliveInterval \<and>
    (let c1 = awg_polled keepAlive polls c; c2 = awg_updateConnectionForPeer keepAlive now p c1; lc = milliseconds now - t;
         moved = wp_TransmitBytes p > tx \<or> wp_ReceiveBytes p > rx in
     (lc < 10002 \<longrightarrow> c2 = c1) \<and>
     (lc \<ge> 10002 \<and> moved \<and> wp_LastHandshakeTime p \<noteq> None \<longrightarrow>
        Status c2 = Connected \<and> checked (milliseconds now) (wp_TransmitBytes p) (wp_ReceiveBytes p) c2) \<and>
     (lc \<ge> 10002 \<and> lc \<ge> silence_limit keepAlive \<and> \<not> moved \<and> wp_LastHandshakeTime p \<noteq> None \<longrightarrow> Status c2 = ConnectionError) \<and>
     (lc > 130000 \<and> wp_LastHandshakeTime p = None \<longrightarrow> Status c2 = ConnectionError))"
proof -
  note ch = silent_awg_polls [OF assms(1,2), of keepAlive]
  note upd = awg_update_checked [OF ch assms(3), of keepAlive]
  show ?thesis
    unfolding Let_def upd using checked_save [OF checked_range [OF assms(3)]]
    by (auto simp: wg_is_awg SetStatus_def)
qed

section \<open>A reference device\<close>

text \<open>The state of the host is the list of peers.\<close>

definition peer_of :: "peerConfig \<Rightarrow> wgPeer" where
  "peer_of p = \<lparr>wp_PublicKey = pc_PublicKey p, wp_PresharedKey = pc_PresharedKey p,
     wp_Endpoint = (case pc_Endpoint p of None \<Rightarrow> (IP4 0, 0) | Some e \<Rightarrow> e), wp_AllowedIPs = pc_AllowedIPs p,
     wp_TransmitBytes = 0, wp_ReceiveBytes = 0, wp_LastHandshakeTime = None\<rparr>"

definition ref_apply :: "peerConfig \<Rightarrow> wgPeer list \<Rightarrow> wgPeer list" where
  "ref_apply p ps = (if pc_Remove p then [] else [peer_of p]) @ filter (\<lambda>q. wp_PublicKey q \<noteq> pc_PublicKey p) ps"

definition ref_wg :: "wgPeer list wgLibs" where
  "ref_wg = \<lparr>
     wg_ConfigureDevice = (\<lambda>_ cfg k. (fold ref_apply (wc_Peers cfg) (if wc_ReplacePeers cfg then [] else k), None)),
     wg_Device = (\<lambda>_ k. Inr \<lparr>wd_PublicKey = ''public'', wd_ListenPort = 4500, wd_Peers = k\<rparr>),
     wg_NewClient = (\<lambda>k. (k, None)), wg_CloseClient = (\<lambda>k. k),
     wg_ParseKey = (\<lambda>s. if s = [] then Inl (Err ''key'') else Inr s), wg_ZeroKey = [],
     wg_GeneratePrivateKey = (\<lambda>k. (k, Inr ''private'')), wg_PublicKeyOf = (\<lambda>_. ''public''), wg_genPsk = (\<lambda>s. Inr s),
     wg_InterfaceByName = (\<lambda>_ _. None), wg_LinkByName = (\<lambda>_ _. None), wg_IsLinkNotFound = (\<lambda>_. True),
     wg_LinkDel = (\<lambda>_ k. (k, None)), wg_LinkAdd = (\<lambda>_ k. (k, None)), wg_LinkSetUp = (\<lambda>_ k. (k, None)),
     wg_StartUserspace = (\<lambda>_ k. (k, None)), wg_CloseUserspace = (\<lambda>k. k)\<rparr>"

definition ref_keys :: "wgPeer list \<Rightarrow> string set" where
  "ref_keys ps = wp_PublicKey ` set ps"

lemma ref_wg_ok: "wg_device_ok ref_wg ref_keys"
  by (auto simp: wg_device_ok_def ref_wg_def ref_keys_def ref_apply_def peer_config_def zero_config_def remove_config_def peer_of_def)

text \<open>A device that cannot be configured.\<close>

definition broken_wg :: "wgPeer list wgLibs" where
  "broken_wg = ref_wg\<lparr>wg_ConfigureDevice := (\<lambda>_ _ k. (k, Some (Err ''no such device'')))\<rparr>"

definition wg_client :: "wgPeer list endpointClient" where
  "wg_client = \<lparr>ec_MustUpdate = (\<lambda>ep f k. (k, Inr (f (ep_Spec ep)))), ec_CreateOrUpdate = (\<lambda>_ k. (k, None))\<rparr>"

definition wg_env :: wgSpec where
  "wg_env = \<lparr>wsp_PSK = ''secret'', wsp_PSKSecret = [], wsp_NATTPort = 4500\<rparr>"

definition wg_local :: EndpointSpec where
  "wg_local = example_spec\<lparr>BackendConfig := fmempty\<rparr>"

definition new_wg :: "int \<Rightarrow> bool \<Rightarrow> wgPeer list wireguard" where
  "new_wg ka us = \<lparr>wg_localEndpoint = set_public_key ''public'' wg_local, wg_connections = [], wg_NATTPort = 4500,
     wg_psk = ''secret'', wg_keepAlive = ka, wg_userspace = us, wg_host = []\<rparr>"

definition awg_keepalive :: int where
  "awg_keepalive = od_keepAlive (fst (applyCableDriverOptionsMap some_options no_options))"

lemmas new_eval = resolve_psk_def Resolve_def wg_env_def ref_wg_def configure_new_def Update_def NewLocal_def
  Spec_def GetBackendPort_def cfg_get_def new_wg_def wg_local_def ref_apply_def

lemma awg_new: "\<exists>l k. awg_NewDriver ref_libs ref_wg wg_client (\<lambda>_. Inl (Err [])) (\<lambda>_. Inr some_options) ''{}'' (Inr wg_env)
    (NewLocal wg_local) [] = ((l, k), Inr (new_wg awg_keepalive True))"
proof -
  obtain d where d: "applyCableDriverOptionsMap some_options no_options = (d, [])"
    using some_options_ok by (metis prod.collapse)
  then have "applyCableDriverOptions (\<lambda>_. Inr some_options) ''{}'' \<lparr>od_cfg = Map.empty, od_keepAlive = 0\<rparr> = (d, None)"
    by (simp add: applyCableDriverOptions_def GetDriverOptions_def join_errors_def no_options_def)
  then show ?thesis using d by (simp add: awg_NewDriver_def setupDevice_def new_eval awg_keepalive_def)
qed

lemma wg_new: "\<exists>l k. wg_NewDriver ref_libs ref_wg wg_client (\<lambda>_. Inl (Err [])) (Inr wg_env) (NewLocal wg_local) [] =
    ((l, k), Inr (new_wg KeepAliveInterval False))"
  by (simp add: wg_NewDriver_def setWGLink_def new_eval)

definition wg_remote :: "IPFamily \<Rightarrow> string \<Rightarrow> NATEndpointInfo" where
  "wg_remote family ip = \<lparr>ni_Endpoint = example_endpoint\<lparr>ep_Spec := example_spec\<lparr>ClusterID := ''west'',
     Subnets := [''10.2.0.0/16'', ''fd02::/64''], BackendConfig := fmupd PublicKey ''west-key'' fmempty\<rparr>\<rparr>,
     ni_UseNAT = False, ni_UseIP = ip, ni_UseFamily = family\<rparr>"

lemma wg_remote_parsed:
  "\<exists>ip subnets. parse_remote ref_libs ref_wg (wg_remote IPv4 ''10.0.0.2'') = Inr (ip, subnets, ''west-key'')"
  "\<exists>ip subnets. parse_remote ref_libs broken_wg (wg_remote IPv4 ''10.0.0.2'') = Inr (ip, subnets, ''west-key'')"
  "\<exists>ip subnets. parse_remote ref_libs broken_wg (wg_remote IPv6 ''fd00::2'') = Inr (ip, subnets, ''west-key'')"
proof -
  have "ParseIP ''10.0.0.2'' \<noteq> None" "ParseIP ''fd00::2'' \<noteq> None" by code_simp+
  moreover have "ParseSubnets ref_libs IPv4 (ep_Spec (ni_Endpoint (wg_remote IPv4 ''10.0.0.2''))) \<noteq> None"
    "ParseSubnets ref_libs IPv6 (ep_Spec (ni_Endpoint (wg_remote IPv6 ''fd00::2''))) \<noteq> None" by code_simp+
  ultimately show "\<exists>ip subnets. parse_remote ref_libs ref_wg (wg_remote IPv4 ''10.0.0.2'') = Inr (ip, subnets, ''west-key'')"
    "\<exists>ip subnets. parse_remote ref_libs broken_wg (wg_remote IPv4 ''10.0.0.2'') = Inr (ip, subnets, ''west-key'')"
    "\<exists>ip subnets. parse_remote ref_libs broken_wg (wg_remote IPv6 ''fd00::2'') = Inr (ip, subnets, ''west-key'')"
    by (auto simp: parse_remote_def wg_remote_def keyFromSpec_def ref_wg_def broken_wg_def)
qed

lemmas connect_eval = replace_old_def new_wg_def peer_config_def zero_config_def ref_apply_def
  add_config_def peer_of_def conn_put_def conn_keys_def conn_key_def keyFromSpec_def

definition awg_connected :: "wgPeer list wireguard" where
  "awg_connected = fst (awg_ConnectToEndpoint ref_libs ref_wg 5 (wg_remote IPv4 ''10.0.0.2'') (new_wg awg_keepalive True))"

definition wg_connected :: "wgPeer list wireguard" where
  "wg_connected = fst (wg_ConnectToEndpoint ref_libs ref_wg 5 (wg_remote IPv4 ''10.0.0.2'') (new_wg KeepAliveInterval False))"

lemma awg_connected_keys: "conn_keys ref_wg (wg_connections awg_connected) = {''west-key''}"
  using wg_remote_parsed(1)
  by (auto simp: awg_connected_def awg_ConnectToEndpoint_def Let_def verifyNewPeer_def peerByKey_def connect_eval ref_wg_def)
    (auto simp: wg_remote_def)

lemma wg_connected_keys: "conn_keys ref_wg (wg_connections wg_connected) = {''west-key''}"
  using wg_remote_parsed(1)
  by (auto simp: wg_connected_def wg_ConnectToEndpoint_def Let_def connect_eval ref_wg_def)
    (auto simp: wg_remote_def)

lemma wg_remote_owned: "owned ref_wg (\<lambda>_. ''west'') (ep_Spec (ni_Endpoint (wg_remote family ip)))"
  by (simp add: owned_def wg_remote_def)

theorem peers_recorded_witness:
  "ref_keys (wg_host awg_connected) = {''west-key''} \<and> ref_keys (wg_host wg_connected) \<subseteq> {''west-key''}"
proof -
  obtain l k where new: "awg_NewDriver ref_libs ref_wg wg_client (\<lambda>_. Inl (Err [])) (\<lambda>_. Inr some_options) ''{}'' (Inr wg_env)
      (NewLocal wg_local) [] = ((l, k), Inr (new_wg awg_keepalive True))" using awg_new by blast
  obtain l' k' where new': "wg_NewDriver ref_libs ref_wg wg_client (\<lambda>_. Inl (Err [])) (Inr wg_env) (NewLocal wg_local) [] =
      ((l', k'), Inr (new_wg KeepAliveInterval False))" using wg_new by blast
  have run: "wg_run ref_wg (\<lambda>_. ''west'') (awg_ConnectToEndpoint ref_libs ref_wg) (awg_GetConnections ref_wg)
      (new_wg awg_keepalive True) awg_connected"
    by (rule wg_run_connect [OF wg_run_new wg_remote_owned]) (unfold awg_connected_def, rule prod_eqI, simp, rule prod_eqI, simp_all)
  have run': "wg_run ref_wg (\<lambda>_. ''west'') (wg_ConnectToEndpoint ref_libs ref_wg) (wg_GetConnections ref_wg)
      (new_wg KeepAliveInterval False) wg_connected"
    by (rule wg_run_connect [OF wg_run_new wg_remote_owned]) (unfold wg_connected_def, rule prod_eqI, simp, rule prod_eqI, simp_all)
  have client: "ref_keys (fst (ec_MustUpdate wg_client ep f k)) = ref_keys k" for ep f k by (simp add: wg_client_def)
  from peers_recorded [where keys = ref_keys, OF ref_wg_ok client new run new' run'] show ?thesis
    by (simp add: awg_connected_keys wg_connected_keys)
qed

definition wg_failed :: "wgPeer list wireguard" where
  "wg_failed = fst (wg_ConnectToEndpoint ref_libs broken_wg 5 (wg_remote IPv4 ''10.0.0.2'') (new_wg KeepAliveInterval False))"

theorem known_peer_not_configured_witness:
  "snd (snd (wg_ConnectToEndpoint ref_libs broken_wg 5 (wg_remote IPv4 ''10.0.0.2'') (new_wg KeepAliveInterval False))) \<noteq> None \<and>
   snd (snd (wg_ConnectToEndpoint ref_libs broken_wg 6 (wg_remote IPv4 ''10.0.0.2'') wg_failed)) = None \<and>
   wg_host (fst (wg_ConnectToEndpoint ref_libs broken_wg 6 (wg_remote IPv6 ''fd00::2'') wg_failed)) = []"
proof -
  let ?i4 = "wg_remote IPv4 ''10.0.0.2''" and ?i6 = "wg_remote IPv6 ''fd00::2''"
  obtain ip subnets ip' subnets' where p: "parse_remote ref_libs broken_wg ?i4 = Inr (ip, subnets, ''west-key'')"
    "parse_remote ref_libs broken_wg ?i6 = Inr (ip', subnets', ''west-key'')" using wg_remote_parsed(2,3) by blast
  obtain x e where c: "wg_ConnectToEndpoint ref_libs broken_wg 5 ?i4 (new_wg KeepAliveInterval False) = (wg_failed, x, e)"
    unfolding wg_failed_def by (metis prod.collapse)
  have s: "ep_Spec (ni_Endpoint ?i6) = ep_Spec (ni_Endpoint ?i4)" by (simp add: wg_remote_def)
  have "e \<noteq> None"
    using c p(1) by (auto simp: wg_ConnectToEndpoint_def Let_def broken_wg_def replace_old_def new_wg_def)
  moreover have "wg_host wg_failed = []"
    using p(1) by (simp add: wg_failed_def wg_ConnectToEndpoint_def Let_def broken_wg_def replace_old_def new_wg_def)
  moreover note c
  ultimately show ?thesis
    using known_peer_not_configured [OF p(1) c refl p(1), of 6] known_peer_not_configured [OF p(1) c s p(2), of 6] by auto
qed

text \<open>A connection that had traffic at 50 seconds, one poll without traffic, and the next one.\<close>

definition checked_connection :: Connection where
  "checked_connection = savePeerTraffic 50000 100 200 (wg_connection (wg_remote IPv4 ''10.0.0.2''))"

definition example_peer :: wgPeer where
  "example_peer = \<lparr>wp_PublicKey = ''west-key'', wp_PresharedKey = ''secret'', wp_Endpoint = (IP4 0, 4500), wp_AllowedIPs = [],
     wp_TransmitBytes = 100, wp_ReceiveBytes = 200, wp_LastHandshakeTime = Some (40 * 10 ^ 9)\<rparr>"

theorem status_follows_peer_witness:
  "Status (awg_updateConnectionForPeer KeepAliveInterval (71 * 10 ^ 9) example_peer
     (awg_polled KeepAliveInterval [(61 * 10 ^ 9, example_peer)] checked_connection)) = ConnectionError \<and>
   Status (awg_updateConnectionForPeer KeepAliveInterval (71 * 10 ^ 9) (example_peer\<lparr>wp_ReceiveBytes := 300\<rparr>)
     (awg_polled KeepAliveInterval [(61 * 10 ^ 9, example_peer)] checked_connection)) = Connected"
proof -
  have c: "checked 50000 100 200 checked_connection"
    unfolding checked_connection_def by (rule checked_save) simp
  have s: "\<forall>poll\<in>set [(61 * 10 ^ 9, example_peer)]. silent 100 200 poll"
    by (simp add: silent_def in_range_def example_peer_def)
  have r: "in_range (71 * 10 ^ 9) example_peer" "in_range (71 * 10 ^ 9) (example_peer\<lparr>wp_ReceiveBytes := 300\<rparr>)"
    by (simp_all add: in_range_def example_peer_def)
  have l: "milliseconds (71 * 10 ^ 9) - 50000 = 21000" "silence_limit KeepAliveInterval = 20004"
    by (simp_all add: milliseconds_def silence_limit_def KeepAliveInterval_def)
  from status_follows_peer [OF c s r(1), of KeepAliveInterval, THEN conjunct2]
    status_follows_peer [OF c s r(2), of KeepAliveInterval, THEN conjunct2]
  show ?thesis unfolding Let_def l by (simp add: example_peer_def)
qed

end
