(* ===== verification/GlobalnetFilter.thy ===== *)
theory GlobalnetFilter
  imports PacketFilter
begin

text \<open>
  \<open>pkg/globalnet/controllers/packetfilter/iface.go\<close> and \<open>pkg/globalnet/chains\<close>: the NAT rules of Globalnet. Egress rules
  translate the source of marked traffic to a global address, ingress rules translate a global address to the address
  behind it.

  The locale \<open>nat_driver\<close> adds to \<open>chain_driver\<close> what Globalnet relies on of \<open>AppendUnique\<close>; a rule that was added can be
  found in its chain and is gone after it was removed, and no other chain is touched.
\<close>

section \<open>Chains\<close>

definition SmGlobalnetIngress :: string where "SmGlobalnetIngress = ''SUBMARINER-GN-INGRESS''"
definition SmGlobalnetEgress :: string where "SmGlobalnetEgress = ''SUBMARINER-GN-EGRESS''"
definition SmGlobalnetMark :: string where "SmGlobalnetMark = ''SUBMARINER-GN-MARK''"
definition SmGlobalnetEgressForPods :: string where "SmGlobalnetEgressForPods = ''SM-GN-EGRESS-PODS''"
definition SmGlobalnetEgressForHeadlessSvcPods :: string where
  "SmGlobalnetEgressForHeadlessSvcPods = ''SM-GN-EGRESS-HDLS-PODS''"
definition SmGlobalnetEgressForHeadlessSvcEPs :: string where
  "SmGlobalnetEgressForHeadlessSvcEPs = ''SM-GN-EGRESS-HDLS-EPS''"
definition SmGlobalnetEgressForNamespace :: string where "SmGlobalnetEgressForNamespace = ''SM-GN-EGRESS-NS''"
definition SmGlobalnetEgressForCluster :: string where "SmGlobalnetEgressForCluster = ''SM-GN-EGRESS-CLUSTER''"

lemmas gn_chains = SmGlobalnetIngress_def SmGlobalnetEgress_def SmGlobalnetMark_def SmGlobalnetEgressForPods_def
  SmGlobalnetEgressForHeadlessSvcPods_def SmGlobalnetEgressForHeadlessSvcEPs_def SmGlobalnetEgressForNamespace_def
  SmGlobalnetEgressForCluster_def

definition NewGlobalnetIngress :: ChainIPHook where
  "NewGlobalnetIngress = \<lparr>ih_Name = SmGlobalnetIngress, ih_Type = ChainTypeNAT, ih_Hook = ChainHookPrerouting,
     ih_Priority = ChainPriorityFirst, ih_Policy = 0, ih_JumpRule = None\<rparr>"

section \<open>The interface\<close>

type_synonym gnTarget = string

definition PodTarget :: gnTarget where "PodTarget = ''Pod''"
definition EndpointsTarget :: gnTarget where "EndpointsTarget = ''Endpoints''"

definition deleteNATRule :: "'k pfDriver \<Rightarrow> string \<Rightarrow> Rule \<Rightarrow> 'k \<Rightarrow> 'k \<times> err option" where
  "deleteNATRule D chain rule k = apsnd (wrap ''error deleting packetfilter rule'') (pd_Delete D TableTypeNAT chain rule k)"

definition appendNATRule :: "'k pfDriver \<Rightarrow> string \<Rightarrow> Rule \<Rightarrow> 'k \<Rightarrow> 'k \<times> err option" where
  "appendNATRule D chain rule k = apsnd (wrap ''unable to append rule'') (pd_AppendUnique D TableTypeNAT chain rule k)"

text \<open>The rules: source translation of the marked traffic of a subnet or address, and of a named set; destination translation.\<close>

definition snat_rule :: "string \<Rightarrow> string \<Rightarrow> string \<Rightarrow> Rule" where
  "snat_rule src snatIP mark = zero_rule\<lparr>Proto := RuleProtoAll, SrcCIDR := src, MarkValue := mark, SnatCIDR := snatIP,
     Action := RuleActionSNAT\<rparr>"

definition set_snat_rule :: "string \<Rightarrow> string \<Rightarrow> string \<Rightarrow> Rule" where
  "set_snat_rule setName snatIP mark = zero_rule\<lparr>Proto := RuleProtoAll, SrcSetName := setName, SnatCIDR := snatIP,
     MarkValue := mark, Action := RuleActionSNAT\<rparr>"

definition dnat_rule :: "string \<Rightarrow> string \<Rightarrow> Rule" where
  "dnat_rule globalIP ip = zero_rule\<lparr>DestCIDR := globalIP, DnatCIDR := ip, Action := RuleActionDNAT\<rparr>"

definition AddClusterEgressRules :: "'k pfDriver \<Rightarrow> string \<Rightarrow> string \<Rightarrow> string \<Rightarrow> 'k \<Rightarrow> 'k \<times> err option" where
  "AddClusterEgressRules D subnet snatIP mark = appendNATRule D SmGlobalnetEgressForCluster (snat_rule subnet snatIP mark)"

definition RemoveClusterEgressRules :: "'k pfDriver \<Rightarrow> string \<Rightarrow> string \<Rightarrow> string \<Rightarrow> 'k \<Rightarrow> 'k \<times> err option" where
  "RemoveClusterEgressRules D subnet snatIP mark = deleteNATRule D SmGlobalnetEgressForCluster (snat_rule subnet snatIP mark)"

definition AddIngressRulesForHeadlessSvc :: "'k pfDriver \<Rightarrow> string \<Rightarrow> string \<Rightarrow> gnTarget \<Rightarrow> 'k \<Rightarrow> 'k \<times> err option" where
  "AddIngressRulesForHeadlessSvc D globalIP ip targetType k =
     (if globalIP = [] \<or> ip = [] then (k, Some (Err ''globalIP or IP cannot be empty''))
      else appendNATRule D SmGlobalnetIngress (dnat_rule globalIP ip) k)"

definition RemoveIngressRulesForHeadlessSvc :: "'k pfDriver \<Rightarrow> string \<Rightarrow> string \<Rightarrow> gnTarget \<Rightarrow> 'k \<Rightarrow> 'k \<times> err option" where
  "RemoveIngressRulesForHeadlessSvc D globalIP ip targetType k =
     (if globalIP = [] \<or> ip = [] then (k, Some (Err ''globalIP or IP cannot be empty''))
      else deleteNATRule D SmGlobalnetIngress (dnat_rule globalIP ip) k)"

definition AddIngressRulesForHealthCheck :: "'k pfDriver \<Rightarrow> string \<Rightarrow> string \<Rightarrow> 'k \<Rightarrow> 'k \<times> err option" where
  "AddIngressRulesForHealthCheck D cniIfaceIP globalIP =
     appendNATRule D SmGlobalnetIngress ((dnat_rule globalIP cniIfaceIP)\<lparr>Proto := RuleProtoICMP\<rparr>)"

definition RemoveIngressRulesForHealthCheck :: "'k pfDriver \<Rightarrow> string \<Rightarrow> string \<Rightarrow> 'k \<Rightarrow> 'k \<times> err option" where
  "RemoveIngressRulesForHealthCheck D cniIfaceIP globalIP =
     deleteNATRule D SmGlobalnetIngress ((dnat_rule globalIP cniIfaceIP)\<lparr>Proto := RuleProtoICMP\<rparr>)"

text \<open>The chain variable is empty for any other target type.\<close>

definition headless_chain :: "gnTarget \<Rightarrow> string" where
  "headless_chain targetType = (if targetType = PodTarget then SmGlobalnetEgressForHeadlessSvcPods
     else if targetType = EndpointsTarget then SmGlobalnetEgressForHeadlessSvcEPs else [])"

definition AddEgressRulesForHeadlessSvc ::
  "'k pfDriver \<Rightarrow> string \<Rightarrow> string \<Rightarrow> string \<Rightarrow> string \<Rightarrow> gnTarget \<Rightarrow> 'k \<Rightarrow> 'k \<times> err option" where
  "AddEgressRulesForHeadlessSvc D key sourceIP snatIP mark targetType k =
     apsnd (wrap ''error appending packetfilter rule'')
       (pd_AppendUnique D TableTypeNAT (headless_chain targetType) (snat_rule sourceIP snatIP mark) k)"

definition RemoveEgressRulesForHeadlessSvc ::
  "'k pfDriver \<Rightarrow> string \<Rightarrow> string \<Rightarrow> string \<Rightarrow> string \<Rightarrow> gnTarget \<Rightarrow> 'k \<Rightarrow> 'k \<times> err option" where
  "RemoveEgressRulesForHeadlessSvc D key sourceIP snatIP mark targetType =
     deleteNATRule D (headless_chain targetType) (snat_rule sourceIP snatIP mark)"

definition AddEgressRulesForPods :: "'k pfDriver \<Rightarrow> string \<Rightarrow> string \<Rightarrow> string \<Rightarrow> string \<Rightarrow> 'k \<Rightarrow> 'k \<times> err option" where
  "AddEgressRulesForPods D key namedSetName snatIP mark k = apsnd (wrap ''error appending rule'')
     (pd_AppendUnique D TableTypeNAT SmGlobalnetEgressForPods (set_snat_rule namedSetName snatIP mark) k)"

definition RemoveEgressRulesForPods :: "'k pfDriver \<Rightarrow> string \<Rightarrow> string \<Rightarrow> string \<Rightarrow> string \<Rightarrow> 'k \<Rightarrow> 'k \<times> err option" where
  "RemoveEgressRulesForPods D key namedSetName snatIP mark k = apsnd (wrap ''error  rule'')
     (pd_Delete D TableTypeNAT SmGlobalnetEgressForPods (set_snat_rule namedSetName snatIP mark) k)"

definition AddEgressRulesForNamespace :: "'k pfDriver \<Rightarrow> string \<Rightarrow> string \<Rightarrow> string \<Rightarrow> string \<Rightarrow> 'k \<Rightarrow> 'k \<times> err option" where
  "AddEgressRulesForNamespace D namespace namedSetName snatIP mark k = apsnd (wrap ''error appending rule'')
     (pd_AppendUnique D TableTypeNAT SmGlobalnetEgressForNamespace (set_snat_rule namedSetName snatIP mark) k)"

definition RemoveEgressRulesForNamespace :: "'k pfDriver \<Rightarrow> string \<Rightarrow> string \<Rightarrow> string \<Rightarrow> string \<Rightarrow> 'k \<Rightarrow> 'k \<times> err option" where
  "RemoveEgressRulesForNamespace D namespace namedSetName snatIP mark k = apsnd (wrap ''error  rule'')
     (pd_Delete D TableTypeNAT SmGlobalnetEgressForNamespace (set_snat_rule namedSetName snatIP mark) k)"

definition FlushNatChain :: "'k pfDriver \<Rightarrow> string \<Rightarrow> 'k \<Rightarrow> 'k \<times> err option" where
  "FlushNatChain D chainName k = apsnd (wrap ''error flushing packetfilter rules'') (pd_ClearChain D TableTypeNAT chainName k)"

definition DeleteNatChain :: "'k pfDriver \<Rightarrow> string \<Rightarrow> 'k \<Rightarrow> 'k \<times> err option" where
  "DeleteNatChain D chainName k = apsnd (wrap ''error deleting packetfilter chain'') (pd_DeleteChain D TableTypeNAT chainName k)"

section \<open>What Globalnet relies on\<close>

locale nat_driver = chain_driver +
  assumes AppendUnique_ok: "inv k \<Longrightarrow> supported r \<Longrightarrow> pd_AppendUnique D t c r k = (k', None) \<Longrightarrow>
      inv k' \<and> chain t c k' = (if r \<in> set (chain t c k) then chain t c k else chain t c k @ [r]) \<and>
      (\<forall>t' c'. c' \<noteq> c \<longrightarrow> chain t' c' k' = chain t' c' k)"
begin

lemma appendNATRule_ok:
  assumes "inv k" "supported r" "appendNATRule D c r k = (k', None)"
  shows "inv k' \<and> r \<in> set (chain TableTypeNAT c k') \<and>
    set (chain TableTypeNAT c k') = insert r (set (chain TableTypeNAT c k)) \<and>
    (\<forall>t' c'. c' \<noteq> c \<longrightarrow> chain t' c' k' = chain t' c' k)"
proof -
  from assms(3) have "pd_AppendUnique D TableTypeNAT c r k = (k', None)"
    by (cases "pd_AppendUnique D TableTypeNAT c r k") (simp add: appendNATRule_def)
  from AppendUnique_ok [OF assms(1,2) this] show ?thesis by auto
qed

lemma deleteNATRule_ok:
  assumes "inv k" "supported r" "deleteNATRule D c r k = (k', None)"
  shows "inv k' \<and> chain TableTypeNAT c k' = remove1 r (chain TableTypeNAT c k) \<and>
    (\<forall>t' c'. c' \<noteq> c \<longrightarrow> chain t' c' k' = chain t' c' k)"
proof -
  from assms(3) have "pd_Delete D TableTypeNAT c r k = (k', None)"
    by (cases "pd_Delete D TableTypeNAT c r k") (simp add: deleteNATRule_def)
  from Delete_ok [OF assms(1,2) this] show ?thesis by blast
qed

end

end
