(* ===== verification/GlobalEgress.thy ===== *)
theory GlobalEgress
  imports GlobalnetFilter
begin

text \<open>
  \<open>pkg/globalnet/controllers\<close>: \<open>base_controllers.go\<close>, \<open>global_egressip_controller.go\<close>, \<open>egress_pod_watcher.go\<close> and
  \<open>cluster_egressip_controller.go\<close>. A GlobalEgressIP asks for global addresses for the pods of a namespace, the
  ClusterGlobalEgressIP for those of the whole cluster; the controllers allocate the addresses from the pool of the
  cluster, program the translation and record the addresses in the status of the object.

  The pool (\<open>admiral/pkg/ipam\<close>), named sets, the start of a pod watcher, the hash and the functions of \<open>apimachinery\<close> are
  parameters, in the record \<open>gnLibs\<close>; the host \<open>'k\<close> is the packet filter of the kernel and the API server. Log messages, metrics
  and the texts of conditions are left out. A dereference of a nil pointer is None. Before a status is
  changed the code copies it, and the copy shares the array of the conditions; whether \<open>DeepEqual\<close> on the copy and the
  changed status sees a difference is a parameter.
\<close>

section \<open>Parameters and objects\<close>

record 'p ipPool =
  ip_Allocate :: "int \<Rightarrow> 'p \<Rightarrow> 'p \<times> string list result"
  ip_Release :: "string list \<Rightarrow> 'p \<Rightarrow> 'p \<times> err option"
  ip_Reserve :: "string list \<Rightarrow> 'p \<Rightarrow> 'p \<times> err option"

record 'k namedSets =
  ns_Create :: "string \<Rightarrow> bool \<Rightarrow> 'k \<Rightarrow> 'k \<times> err option"
  ns_Destroy :: "string \<Rightarrow> 'k \<Rightarrow> 'k \<times> err option"
  ns_AddEntry :: "string \<Rightarrow> string \<Rightarrow> bool \<Rightarrow> 'k \<Rightarrow> 'k \<times> err option"
  ns_DelEntry :: "string \<Rightarrow> string \<Rightarrow> 'k \<Rightarrow> 'k \<times> err option"

record Condition =
  cond_Type :: string
  cond_Status :: bool
  cond_Reason :: string

record GlobalEgressIPStatus =
  ges_Conditions :: "Condition list"
  ges_AllocatedIPs :: "string list"

text \<open>A label selector is a string.\<close>

record GlobalEgressIP =
  ge_Namespace :: string
  ge_Name :: string
  ge_NumberOfIPs :: "int option"
  ge_PodSelector :: "string option"
  ge_Status :: GlobalEgressIPStatus

record ClusterGlobalEgressIP =
  cge_Name :: string
  cge_NumberOfIPs :: "int option"
  cge_Status :: GlobalEgressIPStatus

record ('p, 'k) gnLibs =
  gl_pool :: "'p ipPool"
  gl_pf :: "'k pfDriver"
  gl_sets :: "'k namedSets"
  gl_sha256 :: "string \<Rightarrow> string"
  gl_key :: "string \<Rightarrow> string \<Rightarrow> string"                    \<comment> \<open>\<open>MetaNamespaceKeyFunc\<close>: namespace and name\<close>
  gl_SetStatusCondition :: "Condition \<Rightarrow> Condition list \<Rightarrow> Condition list"
  gl_startWatcher :: "string \<Rightarrow> string \<Rightarrow> string \<Rightarrow> string option \<Rightarrow> 'k \<Rightarrow> 'k \<times> err option"
    \<comment> \<open>name, namespace, named set, selector\<close>
  gl_statusEqual :: "GlobalEgressIPStatus \<Rightarrow> GlobalEgressIPStatus \<Rightarrow> bool"

definition GlobalEgressIPAllocated :: string where "GlobalEgressIPAllocated = ''Allocated''"
definition GlobalEgressIPUpdated :: string where "GlobalEgressIPUpdated = ''Updated''"
definition globalNetIPTableMark :: string where "globalNetIPTableMark = ''0xC0000''"
definition IPSetPrefix :: string where "IPSetPrefix = ''SM-GN-''"
definition maxRequeues :: int where "maxRequeues = 20"
definition ClusterGlobalEgressIPName :: string where "ClusterGlobalEgressIPName = ''cluster-egress.submariner.io''"
definition DefaultNumberOfClusterEgressIPs :: int where "DefaultNumberOfClusterEgressIPs = 8"

datatype gnOp = OpCreate | OpUpdate | OpDelete

record egressPodWatcher =
  pw_namedSet :: string
  pw_podSelector :: "string option"
  pw_allocatedIPs :: "string list"

record ('p, 'k) gnState =
  gn_pool :: 'p
  gn_host :: 'k
  gn_podWatchers :: "string \<rightharpoonup> egressPodWatcher"

definition set_cond :: "('p, 'k) gnLibs \<Rightarrow> string \<Rightarrow> bool \<Rightarrow> string \<Rightarrow> GlobalEgressIPStatus \<Rightarrow> GlobalEgressIPStatus" where
  "set_cond G typ st reason status = status\<lparr>ges_Conditions := gl_SetStatusCondition G
     \<lparr>cond_Type = typ, cond_Status = st, cond_Reason = reason\<rparr> (ges_Conditions status)\<rparr>"

section \<open>Shared by the controllers\<close>

text \<open>
  The search for the last condition from the end; it stops before index 0. The index runs down from \<open>i\<close>.
\<close>

fun last_allocated :: "Condition list \<Rightarrow> nat \<Rightarrow> int" where
  "last_allocated conds 0 = -1"
| "last_allocated conds (Suc i) =
     (if cond_Type (conds ! Suc i) = GlobalEgressIPAllocated then int (Suc i) else last_allocated conds i)"

text \<open>The second loop; a deletion keeps the index and lowers the bound.\<close>

function trim_loop :: "nat \<Rightarrow> int \<Rightarrow> Condition list \<Rightarrow> Condition list" where
  "trim_loop i lst conds =
     (if int i < lst
      then (if cond_Type (conds ! i) = GlobalEgressIPAllocated
            then trim_loop i (lst - 1) (take i conds @ drop (i + 1) conds)
            else trim_loop (i + 1) lst conds)
      else conds)"
  by pat_completeness auto
termination by (relation "measure (\<lambda>(i, lst, conds). nat (lst - int i))") auto

declare trim_loop.simps [simp del]

definition trimAllocatedStatusCondition :: "Condition list \<Rightarrow> Condition list" where
  "trimAllocatedStatusCondition conditions =
     trim_loop 0 (last_allocated conditions (length conditions - 1)) conditions"

definition getTargetSNATIPaddress :: "string list \<Rightarrow> string" where
  "getTargetSNATIPaddress allocIPs =
     (if length allocIPs = 1 then hd allocIPs else hd allocIPs @ ''-'' @ last allocIPs)"

definition shouldRequeue :: "int \<Rightarrow> bool" where
  "shouldRequeue numRequeues \<longleftrightarrow> numRequeues < maxRequeues"

text \<open>The result is whether the object has to be processed again.\<close>

definition flushRulesAndReleaseIPs ::
  "('p, 'k) gnLibs \<Rightarrow> int \<Rightarrow> (string list \<Rightarrow> 'k \<Rightarrow> 'k \<times> err option) \<Rightarrow> string list \<Rightarrow> ('p, 'k) gnState \<Rightarrow>
   ('p, 'k) gnState \<times> bool" where
  "flushRulesAndReleaseIPs G numRequeues flushRules allocatedIPs s =
     (if allocatedIPs = [] then (s, False)
      else (case flushRules allocatedIPs (gn_host s) of (k, e) \<Rightarrow>
        (let s1 = s\<lparr>gn_host := k\<rparr> in
         if e \<noteq> None \<and> shouldRequeue numRequeues then (s1, True)
         else (s1\<lparr>gn_pool := fst (ip_Release (gl_pool G) allocatedIPs (gn_pool s))\<rparr>, False))))"

text \<open>
  At the start of a controller: \<open>clear\<close> removes the addresses from the status and sets the condition, \<open>distribute\<close> writes
  the object to the API server.
\<close>

definition reserveAllocatedIPs ::
  "('p, 'k) gnLibs \<Rightarrow> ('o \<Rightarrow> 'k \<Rightarrow> 'k \<times> err option) \<Rightarrow> ('o \<Rightarrow> string list) \<Rightarrow> ('o \<Rightarrow> 'o) \<Rightarrow>
   (string list \<Rightarrow> 'k \<Rightarrow> 'k \<times> err option) \<Rightarrow> 'o \<Rightarrow> ('p, 'k) gnState \<Rightarrow> ('p, 'k) gnState \<times> 'o \<times> err option" where
  "reserveAllocatedIPs G distribute allocated clear postReserve obj s =
     (let reservedIPs = allocated obj in
      case ip_Reserve (gl_pool G) reservedIPs (gn_pool s) of
        (p, Some e) \<Rightarrow>
          (case distribute (clear obj) (gn_host s) of (k, e') \<Rightarrow> (s\<lparr>gn_pool := p, gn_host := k\<rparr>, clear obj, e'))
      | (p, None) \<Rightarrow>
          (let s1 = s\<lparr>gn_pool := p\<rparr> in
           if reservedIPs = [] then (s1, obj, None)
           else (case postReserve reservedIPs (gn_host s1) of (k, e) \<Rightarrow> (s1\<lparr>gn_host := k\<rparr>, obj, e))))"

definition checkStatusChanged ::
  "('p, 'k) gnLibs \<Rightarrow> GlobalEgressIPStatus \<Rightarrow> GlobalEgressIPStatus \<Rightarrow> 'o \<Rightarrow> 'o option" where
  "checkStatusChanged G oldStatus newStatus retObj = (if gl_statusEqual G oldStatus newStatus then None else Some retObj)"

text \<open>\<open>base32.StdEncoding\<close>, on whole bytes.\<close>

definition byte_bits :: "char \<Rightarrow> bool list" where
  "byte_bits c = map (\<lambda>i. odd (of_char c div 2 ^ (7 - i) :: nat)) [0..<8]"

definition b32_char :: "bool list \<Rightarrow> char" where
  "b32_char bs = (let n = foldl (\<lambda>a b. 2 * a + (if b then 1 else 0)) (0::nat) bs in
     if n < 26 then char_of (65 + n) else char_of (24 + n))"

function b32_groups :: "bool list \<Rightarrow> string" where
  "b32_groups bs = (if bs = [] then []
     else b32_char (take 5 (bs @ replicate 4 False)) # b32_groups (drop 5 bs))"
  by pat_completeness auto
termination by (relation "measure length") auto

declare b32_groups.simps [simp del]

definition base32 :: "string \<Rightarrow> string" where
  "base32 s = (let t = b32_groups (concat (map byte_bits s)) in t @ replicate ((8 - length t mod 8) mod 8) (CHR ''=''))"

definition getIPSetName :: "('p, 'k) gnLibs \<Rightarrow> string \<Rightarrow> string" where
  "getIPSetName G key = IPSetPrefix @ take 25 (base32 (gl_sha256 G key))"

section \<open>Egress addresses of a namespace\<close>

definition programGlobalEgressRules ::
  "('p, 'k) gnLibs \<Rightarrow> string \<Rightarrow> string list \<Rightarrow> string option \<Rightarrow> string \<Rightarrow> 'k \<Rightarrow> 'k \<times> err option" where
  "programGlobalEgressRules G key allocatedIPs podSelector namedSet k =
     (case ns_Create (gl_sets G) namedSet True k of
        (k1, Some e) \<Rightarrow> (k1, Some (Wrapped ''error creating the IP set chain'' e))
      | (k1, None) \<Rightarrow>
          (let snatIP = getTargetSNATIPaddress allocatedIPs in
           if podSelector \<noteq> None
           then (case AddEgressRulesForPods (gl_pf G) key namedSet snatIP globalNetIPTableMark k1 of
                   (k2, Some e) \<Rightarrow> (fst (RemoveEgressRulesForPods (gl_pf G) key namedSet snatIP globalNetIPTableMark k2), Some e)
                 | (k2, None) \<Rightarrow> (k2, None))
           else (case AddEgressRulesForNamespace (gl_pf G) key namedSet snatIP globalNetIPTableMark k1 of
                   (k2, Some e) \<Rightarrow> (fst (RemoveEgressRulesForNamespace (gl_pf G) key namedSet snatIP globalNetIPTableMark k2), Some e)
                 | (k2, None) \<Rightarrow> (k2, None))))"

definition flush_egress_rules ::
  "('p, 'k) gnLibs \<Rightarrow> string \<Rightarrow> string \<Rightarrow> string option \<Rightarrow> string list \<Rightarrow> 'k \<Rightarrow> 'k \<times> err option" where
  "flush_egress_rules G key namedSetName podSelector allocatedIPs =
     (if podSelector \<noteq> None
      then RemoveEgressRulesForPods (gl_pf G) key namedSetName (getTargetSNATIPaddress allocatedIPs) globalNetIPTableMark
      else RemoveEgressRulesForNamespace (gl_pf G) key namedSetName (getTargetSNATIPaddress allocatedIPs) globalNetIPTableMark)"

definition flushGlobalEgressRulesAndReleaseIPs ::
  "('p, 'k) gnLibs \<Rightarrow> string \<Rightarrow> string \<Rightarrow> int \<Rightarrow> GlobalEgressIP \<Rightarrow> ('p, 'k) gnState \<Rightarrow> ('p, 'k) gnState \<times> bool" where
  "flushGlobalEgressRulesAndReleaseIPs G key namedSetName numRequeues ge s =
     flushRulesAndReleaseIPs G numRequeues (flush_egress_rules G key namedSetName (ge_PodSelector ge))
       (ges_AllocatedIPs (ge_Status ge)) s"

definition ge_allocateGlobalIPs ::
  "('p, 'k) gnLibs \<Rightarrow> string \<Rightarrow> int \<Rightarrow> string \<Rightarrow> GlobalEgressIP \<Rightarrow> ('p, 'k) gnState \<Rightarrow>
   ('p, 'k) gnState \<times> GlobalEgressIP \<times> bool" where
  "ge_allocateGlobalIPs G key numberOfIPs namedSet ge s =
     (let status = ge_Status ge; failed = set_cond G GlobalEgressIPAllocated False in
      if numberOfIPs = 0
      then (s, ge\<lparr>ge_Status := failed ''ZeroInput'' (status\<lparr>ges_AllocatedIPs := []\<rparr>)\<rparr>, False)
      else if numberOfIPs = int (length (ges_AllocatedIPs status)) then (s, ge, False)
      else (let status1 = status\<lparr>ges_AllocatedIPs := []\<rparr> in
            case ip_Allocate (gl_pool G) numberOfIPs (gn_pool s) of
              (p, Inl e) \<Rightarrow> (s\<lparr>gn_pool := p\<rparr>, ge\<lparr>ge_Status := failed ''IPPoolAllocationFailed'' status1\<rparr>, True)
            | (p, Inr allocatedIPs) \<Rightarrow>
                (case programGlobalEgressRules G key allocatedIPs (ge_PodSelector ge) namedSet (gn_host s) of
                   (k, Some e) \<Rightarrow>
                     (s\<lparr>gn_pool := fst (ip_Release (gl_pool G) allocatedIPs p), gn_host := k\<rparr>,
                      ge\<lparr>ge_Status := failed ''ProgramIPTableRulesFailed'' status1\<rparr>, True)
                 | (k, None) \<Rightarrow>
                     (s\<lparr>gn_pool := p, gn_host := k\<rparr>,
                      ge\<lparr>ge_Status := (set_cond G GlobalEgressIPAllocated True ''Success'' status1)
                        \<lparr>ges_AllocatedIPs := allocatedIPs\<rparr>\<rparr>, False))))"

text \<open>False is a watcher that could not be started.\<close>

definition createPodWatcher ::
  "('p, 'k) gnLibs \<Rightarrow> string \<Rightarrow> string \<Rightarrow> int \<Rightarrow> GlobalEgressIP \<Rightarrow> ('p, 'k) gnState \<Rightarrow>
   ('p, 'k) gnState \<times> GlobalEgressIP \<times> bool" where
  "createPodWatcher G key namedSet numberOfIPs ge s =
     (case gn_podWatchers s key of
        Some prev \<Rightarrow>
          (s, if pw_podSelector prev \<noteq> ge_PodSelector ge
              then ge\<lparr>ge_Status := set_cond G GlobalEgressIPUpdated False ''PodSelectorUpdateNotSupported'' (ge_Status ge)\<rparr>
              else ge, True)
      | None \<Rightarrow>
          if numberOfIPs = 0 then (s, ge, True)
          else (case gl_startWatcher G key (ge_Namespace ge) namedSet (ge_PodSelector ge) (gn_host s) of
                  (k, Some e) \<Rightarrow> (s\<lparr>gn_host := k\<rparr>, ge, False)
                | (k, None) \<Rightarrow>
                    (s\<lparr>gn_host := k, gn_podWatchers := (gn_podWatchers s)(key \<mapsto>
                       \<lparr>pw_namedSet = namedSet, pw_podSelector = ge_PodSelector ge,
                        pw_allocatedIPs = ges_AllocatedIPs (ge_Status ge)\<rparr>)\<rparr>, ge, True)))"

definition ge_onCreateOrUpdate ::
  "('p, 'k) gnLibs \<Rightarrow> string \<Rightarrow> int \<Rightarrow> GlobalEgressIP \<Rightarrow> int \<Rightarrow> ('p, 'k) gnState \<Rightarrow>
   ('p, 'k) gnState \<times> GlobalEgressIP \<times> bool" where
  "ge_onCreateOrUpdate G key numberOfIPs ge numRequeues s =
     (let namedSet = getIPSetName G key;
          (s1, requeue) = (if numberOfIPs \<noteq> int (length (ges_AllocatedIPs (ge_Status ge)))
            then flushGlobalEgressRulesAndReleaseIPs G key namedSet numRequeues ge s else (s, False)) in
      if requeue then (s1, ge, True)
      else (case ge_allocateGlobalIPs G key numberOfIPs namedSet ge s1 of
              (s2, ge2, True) \<Rightarrow> (s2, ge2, True)
            | (s2, ge2, False) \<Rightarrow>
                (case createPodWatcher G key namedSet numberOfIPs ge2 s2 of (s3, ge3, ok) \<Rightarrow> (s3, ge3, \<not> ok))))"

definition ge_validate :: "('p, 'k) gnLibs \<Rightarrow> int \<Rightarrow> GlobalEgressIP \<Rightarrow> GlobalEgressIP \<times> bool" where
  "ge_validate G numberOfIPs ge =
     (if numberOfIPs < 0
      then (ge\<lparr>ge_Status := set_cond G GlobalEgressIPAllocated False ''InvalidInput'' (ge_Status ge)\<rparr>, False)
      else (ge, True))"

definition ge_onDelete ::
  "('p, 'k) gnLibs \<Rightarrow> int \<Rightarrow> GlobalEgressIP \<Rightarrow> ('p, 'k) gnState \<Rightarrow> (('p, 'k) gnState \<times> bool) option" where
  "ge_onDelete G numRequeues ge s =
     (let key = gl_key G (ge_Namespace ge) (ge_Name ge); podWatcher = gn_podWatchers s key;
          s1 = s\<lparr>gn_podWatchers := (gn_podWatchers s)(key := None)\<rparr>;
          namedSet = getIPSetName G key;
          finish = (\<lambda>ge'. case flushGlobalEgressRulesAndReleaseIPs G key namedSet numRequeues ge' s1 of
              (s2, True) \<Rightarrow> (s2, True)
            | (s2, False) \<Rightarrow>
                (case ns_Destroy (gl_sets G) namedSet (gn_host s2) of (k, e) \<Rightarrow>
                   (s2\<lparr>gn_host := k\<rparr>, e \<noteq> None \<and> shouldRequeue numRequeues))) in
      if ges_AllocatedIPs (ge_Status ge) = []
      then (case podWatcher of
              None \<Rightarrow> None
            | Some pw \<Rightarrow> Some (finish (if pw_allocatedIPs pw \<noteq> []
                then ge\<lparr>ge_Status := (ge_Status ge)\<lparr>ges_AllocatedIPs := pw_allocatedIPs pw\<rparr>\<rparr> else ge)))
      else Some (finish ge))"

text \<open>The object to write back, if its status changed, and whether it has to be processed again.\<close>

definition ge_process ::
  "('p, 'k) gnLibs \<Rightarrow> GlobalEgressIP \<Rightarrow> int \<Rightarrow> gnOp \<Rightarrow> ('p, 'k) gnState \<Rightarrow>
   (('p, 'k) gnState \<times> GlobalEgressIP option \<times> bool) option" where
  "ge_process G ge numRequeues op s =
     (let numberOfIPs = (case ge_NumberOfIPs ge of None \<Rightarrow> 1 | Some n \<Rightarrow> n);
          key = gl_key G (ge_Namespace ge) (ge_Name ge) in
      case op of
        OpDelete \<Rightarrow> map_option (\<lambda>(s', requeue). (s', None, requeue)) (ge_onDelete G numRequeues ge s)
      | _ \<Rightarrow>
          (let prevStatus = ge_Status ge;
               ge1 = ge\<lparr>ge_Status := prevStatus\<lparr>ges_Conditions := trimAllocatedStatusCondition (ges_Conditions prevStatus)\<rparr>\<rparr>;
               (ge2, valid) = ge_validate G numberOfIPs ge1;
               (s', ge3, requeue) = (if valid then ge_onCreateOrUpdate G key numberOfIPs ge2 numRequeues s else (s, ge2, False)) in
           Some (s', checkStatusChanged G prevStatus (ge_Status ge3) ge3, requeue)))"

text \<open>The start of the controller: the addresses in the status of the existing objects are reserved and programmed again.\<close>

definition clear_allocatedIPs :: "('p, 'k) gnLibs \<Rightarrow> GlobalEgressIPStatus \<Rightarrow> GlobalEgressIPStatus" where
  "clear_allocatedIPs G status =
     set_cond G GlobalEgressIPAllocated False ''ReserveAllocatedIPsFailed'' (status\<lparr>ges_AllocatedIPs := []\<rparr>)"

fun reserve_egress ::
  "('p, 'k) gnLibs \<Rightarrow> (GlobalEgressIP \<Rightarrow> 'k \<Rightarrow> 'k \<times> err option) \<Rightarrow> GlobalEgressIP list \<Rightarrow> ('p, 'k) gnState \<Rightarrow>
   ('p, 'k) gnState \<times> GlobalEgressIP list \<times> err option" where
  "reserve_egress G distribute [] s = (s, [], None)"
| "reserve_egress G distribute (ge # ges) s =
     (let key = gl_key G (ge_Namespace ge) (ge_Name ge) in
      case reserveAllocatedIPs G distribute (\<lambda>ge. ges_AllocatedIPs (ge_Status ge))
             (\<lambda>ge. ge\<lparr>ge_Status := clear_allocatedIPs G (ge_Status ge)\<rparr>)
             (\<lambda>ips. programGlobalEgressRules G key ips (ge_PodSelector ge) (getIPSetName G key)) ge s of
        (s1, ge1, Some e) \<Rightarrow> (s1, ge1 # ges, Some e)
      | (s1, ge1, None) \<Rightarrow> (case reserve_egress G distribute ges s1 of (s2, ges2, e) \<Rightarrow> (s2, ge1 # ges2, e)))"

section \<open>The pods of an egress address\<close>

text \<open>The events of a pod watcher; a pod is given by its address, and \<open>isIPv4\<close> is \<open>IsIPv4String\<close>.\<close>

definition pod_onCreateOrUpdate ::
  "('p, 'k) gnLibs \<Rightarrow> (string \<Rightarrow> bool) \<Rightarrow> egressPodWatcher \<Rightarrow> string \<Rightarrow> 'k \<Rightarrow> 'k \<times> bool" where
  "pod_onCreateOrUpdate G isIPv4 w podIP k =
     (if \<not> isIPv4 podIP then (k, False)
      else (case ns_AddEntry (gl_sets G) (pw_namedSet w) podIP True k of (k', e) \<Rightarrow> (k', e \<noteq> None)))"

definition pod_onDelete :: "('p, 'k) gnLibs \<Rightarrow> egressPodWatcher \<Rightarrow> string \<Rightarrow> 'k \<Rightarrow> 'k \<times> bool" where
  "pod_onDelete G w podIP k = (case ns_DelEntry (gl_sets G) (pw_namedSet w) podIP k of (k', e) \<Rightarrow> (k', e \<noteq> None))"

definition arePodsEquivalent :: "string \<Rightarrow> string \<Rightarrow> bool" where
  "arePodsEquivalent oldPodIP newPodIP \<longleftrightarrow> oldPodIP = newPodIP"

section \<open>Egress addresses of the cluster\<close>

text \<open>\<open>DeepEqual\<close> and the rest of the state are those of the other controller.\<close>

fun deleteClusterGlobalEgressRules ::
  "('p, 'k) gnLibs \<Rightarrow> string list \<Rightarrow> string \<Rightarrow> 'k \<Rightarrow> 'k \<times> err option" where
  "deleteClusterGlobalEgressRules G [] snatIP k = (k, None)"
| "deleteClusterGlobalEgressRules G (srcIP # srcIPList) snatIP k =
     (case RemoveClusterEgressRules (gl_pf G) srcIP snatIP globalNetIPTableMark k of
        (k1, Some e) \<Rightarrow> (k1, Some e)
      | (k1, None) \<Rightarrow> deleteClusterGlobalEgressRules G srcIPList snatIP k1)"

text \<open>\<open>egressRulesProgrammed\<close> has the length of the subnets from the start; the entries not yet set are empty.\<close>

fun program_cluster_loop ::
  "('p, 'k) gnLibs \<Rightarrow> string \<Rightarrow> nat \<Rightarrow> string list \<Rightarrow> string list \<Rightarrow> 'k \<Rightarrow> 'k \<times> err option" where
  "program_cluster_loop G snatIP i egressRulesProgrammed [] k = (k, None)"
| "program_cluster_loop G snatIP i egressRulesProgrammed (srcIP # srcIPs) k =
     (case AddClusterEgressRules (gl_pf G) srcIP snatIP globalNetIPTableMark k of
        (k1, Some e) \<Rightarrow> (fst (deleteClusterGlobalEgressRules G egressRulesProgrammed snatIP k1), Some e)
      | (k1, None) \<Rightarrow> program_cluster_loop G snatIP (i + 1) (egressRulesProgrammed[i := srcIP]) srcIPs k1)"

definition programClusterGlobalEgressRules ::
  "('p, 'k) gnLibs \<Rightarrow> string list \<Rightarrow> string list \<Rightarrow> 'k \<Rightarrow> 'k \<times> err option" where
  "programClusterGlobalEgressRules G localSubnets allocatedIPs k =
     program_cluster_loop G (getTargetSNATIPaddress allocatedIPs) 0 (replicate (length localSubnets) []) localSubnets k"

definition flushClusterGlobalEgressRules ::
  "('p, 'k) gnLibs \<Rightarrow> string list \<Rightarrow> string list \<Rightarrow> 'k \<Rightarrow> 'k \<times> err option" where
  "flushClusterGlobalEgressRules G localSubnets allocatedIPs k =
     deleteClusterGlobalEgressRules G localSubnets (getTargetSNATIPaddress allocatedIPs) k"

definition cge_validate :: "('p, 'k) gnLibs \<Rightarrow> int \<Rightarrow> ClusterGlobalEgressIP \<Rightarrow> ClusterGlobalEgressIP \<times> bool" where
  "cge_validate G numberOfIPs cge =
     (let failed = (\<lambda>reason. cge\<lparr>cge_Status := set_cond G GlobalEgressIPAllocated False reason (cge_Status cge)\<rparr>) in
      if cge_Name cge \<noteq> ClusterGlobalEgressIPName then (failed ''InvalidInstance'', False)
      else if numberOfIPs < 0 then (failed ''InvalidInput'', False)
      else if numberOfIPs = 0 then (failed ''ZeroInput'', True)
      else (cge, True))"

definition cge_allocateGlobalIPs ::
  "('p, 'k) gnLibs \<Rightarrow> string list \<Rightarrow> int \<Rightarrow> GlobalEgressIPStatus \<Rightarrow> ('p, 'k) gnState \<Rightarrow>
   ('p, 'k) gnState \<times> GlobalEgressIPStatus \<times> bool" where
  "cge_allocateGlobalIPs G localSubnets numberOfIPs status s =
     (let status1 = status\<lparr>ges_AllocatedIPs := []\<rparr>; failed = set_cond G GlobalEgressIPAllocated False in
      if numberOfIPs = 0 then (s, status1, False)
      else (case ip_Allocate (gl_pool G) numberOfIPs (gn_pool s) of
              (p, Inl e) \<Rightarrow> (s\<lparr>gn_pool := p\<rparr>, failed ''IPPoolAllocationFailed'' status1, True)
            | (p, Inr allocatedIPs) \<Rightarrow>
                (case programClusterGlobalEgressRules G localSubnets allocatedIPs (gn_host s) of
                   (k, Some e) \<Rightarrow>
                     (s\<lparr>gn_pool := fst (ip_Release (gl_pool G) allocatedIPs p), gn_host := k\<rparr>,
                      failed ''ProgramIPTableRulesFailed'' status1, True)
                 | (k, None) \<Rightarrow>
                     (s\<lparr>gn_pool := p, gn_host := k\<rparr>,
                      (set_cond G GlobalEgressIPAllocated True ''Success'' status1)\<lparr>ges_AllocatedIPs := allocatedIPs\<rparr>, False))))"

definition cge_onCreateOrUpdate ::
  "('p, 'k) gnLibs \<Rightarrow> string list \<Rightarrow> int \<Rightarrow> GlobalEgressIPStatus \<Rightarrow> int \<Rightarrow> ('p, 'k) gnState \<Rightarrow>
   ('p, 'k) gnState \<times> GlobalEgressIPStatus \<times> bool" where
  "cge_onCreateOrUpdate G localSubnets numberOfIPs status numRequeues s =
     (if numberOfIPs = int (length (ges_AllocatedIPs status)) then (s, status, False)
      else (case flushRulesAndReleaseIPs G numRequeues (flushClusterGlobalEgressRules G localSubnets) (ges_AllocatedIPs status) s of
              (s1, True) \<Rightarrow> (s1, status, True)
            | (s1, False) \<Rightarrow> cge_allocateGlobalIPs G localSubnets numberOfIPs status s1))"

definition cge_process ::
  "('p, 'k) gnLibs \<Rightarrow> string list \<Rightarrow> ClusterGlobalEgressIP \<Rightarrow> int \<Rightarrow> gnOp \<Rightarrow> ('p, 'k) gnState \<Rightarrow>
   ('p, 'k) gnState \<times> ClusterGlobalEgressIP option \<times> bool" where
  "cge_process G localSubnets cge numRequeues op s =
     (let numberOfIPs = (case cge_NumberOfIPs cge of None \<Rightarrow> 1 | Some n \<Rightarrow> n) in
      case op of
        OpDelete \<Rightarrow>
          (case flushRulesAndReleaseIPs G numRequeues (flushClusterGlobalEgressRules G localSubnets)
                  (ges_AllocatedIPs (cge_Status cge)) s of (s', requeue) \<Rightarrow> (s', None, requeue))
      | _ \<Rightarrow>
          (let prevStatus = cge_Status cge;
               cge1 = cge\<lparr>cge_Status := prevStatus\<lparr>ges_Conditions := trimAllocatedStatusCondition (ges_Conditions prevStatus)\<rparr>\<rparr>;
               (cge2, valid) = cge_validate G numberOfIPs cge1 in
           if \<not> valid then (s, checkStatusChanged G prevStatus (cge_Status cge2) cge2, False)
           else (case cge_onCreateOrUpdate G localSubnets numberOfIPs (cge_Status cge2) numRequeues s of
                   (s', status, requeue) \<Rightarrow>
                     (s', checkStatusChanged G prevStatus status (cge2\<lparr>cge_Status := status\<rparr>), requeue))))"

text \<open>
  The start of the controller: the object with the well-known name is created when there is none, otherwise its
  addresses are reserved. \<open>get\<close> and \<open>create\<close> are the client; None is an object that is not found.
\<close>

definition default_cluster_egress :: ClusterGlobalEgressIP where
  "default_cluster_egress = \<lparr>cge_Name = ClusterGlobalEgressIPName, cge_NumberOfIPs = Some DefaultNumberOfClusterEgressIPs,
     cge_Status = \<lparr>ges_Conditions = [], ges_AllocatedIPs = []\<rparr>\<rparr>"

definition reserve_cluster_egress ::
  "('p, 'k) gnLibs \<Rightarrow> string list \<Rightarrow> (ClusterGlobalEgressIP \<Rightarrow> 'k \<Rightarrow> 'k \<times> err option) \<Rightarrow>
   (string \<Rightarrow> 'k \<Rightarrow> ClusterGlobalEgressIP option result) \<Rightarrow> (ClusterGlobalEgressIP \<Rightarrow> 'k \<Rightarrow> 'k \<times> err option) \<Rightarrow>
   ('p, 'k) gnState \<Rightarrow> ('p, 'k) gnState \<times> ClusterGlobalEgressIP option \<times> err option" where
  "reserve_cluster_egress G localSubnets distribute get create s =
     (case get (cge_Name default_cluster_egress) (gn_host s) of
        Inl e \<Rightarrow> (s, None, Some (Wrapped ''error retrieving ClusterGlobalEgressIP resource'' e))
      | Inr None \<Rightarrow>
          (case create default_cluster_egress (gn_host s) of (k, e) \<Rightarrow>
             (s\<lparr>gn_host := k\<rparr>, None, wrap ''error creating ClusterGlobalEgressIP resource'' e))
      | Inr (Some cge) \<Rightarrow>
          (case reserveAllocatedIPs G distribute (\<lambda>cge. ges_AllocatedIPs (cge_Status cge))
                  (\<lambda>cge. cge\<lparr>cge_Status := clear_allocatedIPs G (cge_Status cge)\<rparr>)
                  (programClusterGlobalEgressRules G localSubnets) cge s of (s', cge', e) \<Rightarrow> (s', Some cge', e)))"

section \<open>Trimming the conditions\<close>

text \<open>
  The reference: of the conditions with a property only the last is kept, and all others are kept.
\<close>

fun keep_last :: "('a \<Rightarrow> bool) \<Rightarrow> 'a list \<Rightarrow> 'a list" where
  "keep_last P [] = []"
| "keep_last P (x # xs) = (if P x \<and> (\<exists>y\<in>set xs. P y) then keep_last P xs else x # keep_last P xs)"

lemma keep_last_none: "\<forall>y\<in>set xs. \<not> P y \<Longrightarrow> keep_last P xs = xs"
  by (induction xs) auto

lemma keep_last_append: "P y \<Longrightarrow> \<forall>z\<in>set ys. \<not> P z \<Longrightarrow> keep_last P (xs @ y # ys) = filter (\<lambda>x. \<not> P x) xs @ y # ys"
  by (induction xs) (auto simp: keep_last_none)

lemma trim_loop_split:
  "trim_loop (length pre) (int (length pre + length mid)) (pre @ mid @ post) =
     pre @ filter (\<lambda>c. cond_Type c \<noteq> GlobalEgressIPAllocated) mid @ post"
proof (induction mid arbitrary: pre)
  case Nil
  show ?case by (simp add: trim_loop.simps)
next
  case (Cons c mid)
  show ?case
  proof (cases "cond_Type c = GlobalEgressIPAllocated")
    case True
    then show ?thesis using Cons [of pre] by (subst trim_loop.simps) (simp add: add.commute)
  next
    case False
    then show ?thesis using Cons [of "pre @ [c]"] by (subst trim_loop.simps) simp
  qed
qed

lemma last_allocated_spec:
  assumes "i < length conds \<or> i = 0"
  shows "(last_allocated conds i = -1 \<and> (\<forall>j. 0 < j \<and> j \<le> i \<longrightarrow> cond_Type (conds ! j) \<noteq> GlobalEgressIPAllocated)) \<or>
    (\<exists>l. last_allocated conds i = int l \<and> 0 < l \<and> l \<le> i \<and> cond_Type (conds ! l) = GlobalEgressIPAllocated \<and>
      (\<forall>j. l < j \<and> j \<le> i \<longrightarrow> cond_Type (conds ! j) \<noteq> GlobalEgressIPAllocated))"
  using assms
proof (induction i)
  case (Suc i)
  from Suc.prems have "i < length conds \<or> i = 0" by auto
  note IH = Suc.IH [OF this]
  show ?case
  proof (cases "cond_Type (conds ! Suc i) = GlobalEgressIPAllocated")
    case True
    then show ?thesis by (auto intro!: exI [of _ "Suc i"])
  next
    case False
    with IH show ?thesis by (simp add: le_Suc_eq) blast
  qed
qed simp

text \<open>The trimming of the conditions ends and keeps, of the conditions of type Allocated, only the last one, and every other condition in order.\<close>

theorem trim_keeps_last_allocated:
  "trimAllocatedStatusCondition conditions = keep_last (\<lambda>c. cond_Type c = GlobalEgressIPAllocated) conditions"
proof (cases conditions)
  case (Cons c cs)
  let ?P = "\<lambda>c. cond_Type c = GlobalEgressIPAllocated"
  from last_allocated_spec [of "length cs" conditions] Cons consider
    (none) "last_allocated conditions (length cs) = -1" "\<forall>j. 0 < j \<and> j \<le> length cs \<longrightarrow> \<not> ?P (conditions ! j)"
  | (found) l where "last_allocated conditions (length cs) = int l" "0 < l" "l \<le> length cs" "?P (conditions ! l)"
      "\<forall>j. l < j \<and> j \<le> length cs \<longrightarrow> \<not> ?P (conditions ! j)"
    by auto
  then show ?thesis
  proof cases
    case none
    then have "\<not> ?P (cs ! i)" if "i < length cs" for i
      using that none(2) [rule_format, of "Suc i"] Cons by simp
    then have "\<forall>y\<in>set cs. \<not> ?P y" by (auto simp: in_set_conv_nth)
    then show ?thesis using none Cons by (simp add: trimAllocatedStatusCondition_def trim_loop.simps keep_last_none)
  next
    case found
    define pre post where "pre = take l conditions" and "post = drop (Suc l) conditions"
    have len: "length conditions = Suc (length cs)" using Cons by simp
    have split: "conditions = pre @ conditions ! l # post"
      unfolding pre_def post_def using found(3) len by (simp add: id_take_nth_drop)
    have "length pre = l" unfolding pre_def using found(3) len by simp
    have "\<forall>y\<in>set post. \<not> ?P y"
      unfolding post_def using found(5) len by (auto simp: in_set_conv_nth)
    then have "keep_last ?P conditions = filter (\<lambda>c. \<not> ?P c) pre @ conditions ! l # post"
      using keep_last_append [where P = ?P and y = "conditions ! l" and ys = post and xs = pre] found(4) split by simp
    moreover have "trim_loop 0 (int l) conditions = filter (\<lambda>c. \<not> ?P c) pre @ conditions ! l # post"
      using trim_loop_split [of "[]" pre "conditions ! l # post"] split \<open>length pre = l\<close> by simp
    ultimately show ?thesis using found(1) len by (simp add: trimAllocatedStatusCondition_def)
  qed
qed (simp add: trimAllocatedStatusCondition_def trim_loop.simps)

end
