(* ===== verification/GlobalIngress.thy ===== *)
theory GlobalIngress
  imports GlobalEgress
begin

text \<open>
  \<open>pkg/globalnet/controllers\<close>: \<open>global_ingressip_controller.go\<close>, \<open>gateway_controller.go\<close> and the controllers that turn
  exported services, their pods and their endpoints into GlobalIngressIP objects. A GlobalIngressIP gives a global
  address to a service, by an internal service with that external address, or to a pod or endpoint behind a headless
  service, by translation rules; the gateway gets one for health checks.

  The API server is the record \<open>serviceAPI\<close> of functions on the host, with the documented meaning of not found as None.
  A dereference of a nil reference is None.
\<close>

section \<open>Objects and the API server\<close>

definition ClusterIPService :: string where "ClusterIPService = ''ClusterIPService''"
definition HeadlessServicePod :: string where "HeadlessServicePod = ''HeadlessServicePod''"
definition HeadlessServiceEndpoints :: string where "HeadlessServiceEndpoints = ''HeadlessServiceEndpoints''"
definition headlessSvcPodIP :: string where "headlessSvcPodIP = ''submariner.io/headless-svc-pod-ip''"
definition headlessSvcEndpointsIP :: string where "headlessSvcEndpointsIP = ''submariner.io/headless-svc-endpoints-ip''"
definition ServiceRefLabel :: string where "ServiceRefLabel = ''submariner.io/serviceRef''"
definition InternalServicePrefix :: string where "InternalServicePrefix = ''submariner-''"
definition InternalServiceLabel :: string where "InternalServiceLabel = ''submariner.io/exportedServiceRef''"
definition InternalServiceFinalizer :: string where "InternalServiceFinalizer = ''submariner.io/globalnet-internal-service''"

record GlobalIngressIP =
  gi_Namespace :: string
  gi_Name :: string
  gi_Labels :: "string \<rightharpoonup> string"
  gi_Annotations :: "string \<rightharpoonup> string"
  gi_Target :: string
  gi_ServiceRef :: "string option"
  gi_PodRef :: "string option"
  gi_Conditions :: "Condition list"
  gi_AllocatedIP :: string

text \<open>A new object; the fields not given have their zero value.\<close>

definition new_ingress :: "string \<Rightarrow> string \<Rightarrow> GlobalIngressIP" where
  "new_ingress namespace name = \<lparr>gi_Namespace = namespace, gi_Name = name, gi_Labels = Map.empty, gi_Annotations = Map.empty,
     gi_Target = [], gi_ServiceRef = None, gi_PodRef = None, gi_Conditions = [], gi_AllocatedIP = []\<rparr>"

record Service =
  sv_Namespace :: string
  sv_Name :: string
  sv_Labels :: "string \<rightharpoonup> string"
  sv_Finalizers :: "string list"
  sv_Type :: string
  sv_ClusterIP :: string
  sv_Ports :: "string list"
  sv_Selector :: "(string \<times> string) list"
  sv_ExternalIPs :: "string list"
  sv_IPFamilies :: "string list"
  sv_SingleStack :: bool
  sv_PublishNotReadyAddresses :: bool

record 'k serviceAPI =
  sa_Get :: "string \<Rightarrow> string \<Rightarrow> 'k \<Rightarrow> Service option result"      \<comment> \<open>namespace and name\<close>
  sa_CreateOrUpdate :: "Service \<Rightarrow> 'k \<Rightarrow> 'k \<times> err option"
  sa_RemoveFinalizer :: "Service \<Rightarrow> string \<Rightarrow> 'k \<Rightarrow> 'k \<times> err option"
  sa_Delete :: "string \<Rightarrow> string \<Rightarrow> 'k \<Rightarrow> 'k \<times> err option"
  sa_IsNotFound :: "err \<Rightarrow> bool"
  sa_GetIngressIP :: "string \<Rightarrow> string \<Rightarrow> 'k \<Rightarrow> GlobalIngressIP result"
  sa_ingressEqual :: "GlobalIngressIP \<Rightarrow> GlobalIngressIP \<Rightarrow> bool"   \<comment> \<open>of the statuses, as in \<open>checkStatusChanged\<close>\<close>

definition getService :: "'k serviceAPI \<Rightarrow> string \<Rightarrow> string \<Rightarrow> 'k \<Rightarrow> Service option result" where
  "getService A name namespace k = (case sa_Get A namespace name k of
      Inl e \<Rightarrow> Inl (Wrapped ''error retrieving Service'' e) | Inr s \<Rightarrow> Inr s)"

definition deleteService :: "'k serviceAPI \<Rightarrow> string \<Rightarrow> string \<Rightarrow> 'k \<Rightarrow> 'k \<times> err option" where
  "deleteService A namespace name k = (case sa_Delete A namespace name k of
      (k', None) \<Rightarrow> (k', None)
    | (k', Some e) \<Rightarrow> (k', if sa_IsNotFound A e then None else Some (Wrapped ''error deleting Service'' e)))"

definition GetInternalSvcName :: "('p, 'k) gnLibs \<Rightarrow> string \<Rightarrow> string" where
  "GetInternalSvcName G name = to_lower (InternalServicePrefix @ take 32 (base32 (gl_sha256 G name)))"

section \<open>Ingress addresses\<close>

definition createOrUpdateInternalService ::
  "('p, 'k) gnLibs \<Rightarrow> 'k serviceAPI \<Rightarrow> Service \<Rightarrow> string \<Rightarrow> 'k \<Rightarrow> 'k \<times> err option" where
  "createOrUpdateInternalService G A from extIP k = sa_CreateOrUpdate A
     \<lparr>sv_Namespace = sv_Namespace from, sv_Name = GetInternalSvcName G (sv_Name from),
      sv_Labels = [InternalServiceLabel \<mapsto> sv_Name from], sv_Finalizers = [InternalServiceFinalizer], sv_Type = [],
      sv_ClusterIP = [], sv_Ports = sv_Ports from, sv_Selector = sv_Selector from, sv_ExternalIPs = [extIP],
      sv_IPFamilies = [], sv_SingleStack = True, sv_PublishNotReadyAddresses = sv_PublishNotReadyAddresses from\<rparr> k"

definition set_icond :: "('p, 'k) gnLibs \<Rightarrow> bool \<Rightarrow> string \<Rightarrow> GlobalIngressIP \<Rightarrow> GlobalIngressIP" where
  "set_icond G st reason gi = gi\<lparr>gi_Conditions := gl_SetStatusCondition G
     \<lparr>cond_Type = GlobalEgressIPAllocated, cond_Status = st, cond_Reason = reason\<rparr> (gi_Conditions gi)\<rparr>"

text \<open>The annotation key and the target type; both are empty for an unknown target.\<close>

definition headless_target :: "string \<Rightarrow> string \<times> gnTarget" where
  "headless_target target = (if target = HeadlessServicePod then (headlessSvcPodIP, PodTarget)
     else if target = HeadlessServiceEndpoints then (headlessSvcEndpointsIP, EndpointsTarget) else ([], []))"

definition annotation :: "GlobalIngressIP \<Rightarrow> string \<Rightarrow> string" where
  "annotation gi key = (case gi_Annotations gi key of None \<Rightarrow> [] | Some v \<Rightarrow> v)"

definition gi_onUpdate ::
  "('p, 'k) gnLibs \<Rightarrow> 'k serviceAPI \<Rightarrow> GlobalIngressIP \<Rightarrow> ('p, 'k) gnState \<Rightarrow> (('p, 'k) gnState \<times> bool) option" where
  "gi_onUpdate G A gi s =
     (if gi_Target gi \<noteq> ClusterIPService then Some (s, False)
      else (case gi_ServiceRef gi of
              None \<Rightarrow> None
            | Some ref \<Rightarrow> Some
                (case getService A ref (gi_Namespace gi) (gn_host s) of
                   Inl e \<Rightarrow> (s, False)
                 | Inr None \<Rightarrow> (s, False)
                 | Inr (Some service) \<Rightarrow>
                     (case createOrUpdateInternalService G A service (gi_AllocatedIP gi) (gn_host s) of
                        (k, e) \<Rightarrow> (s\<lparr>gn_host := k\<rparr>, e \<noteq> None)))))"

text \<open>Programming the two rules of a headless target; the ingress rule is removed when the egress rule fails.\<close>

definition program_headless ::
  "('p, 'k) gnLibs \<Rightarrow> string \<Rightarrow> string \<Rightarrow> string \<Rightarrow> gnTarget \<Rightarrow> 'k \<Rightarrow> 'k \<times> err option" where
  "program_headless G key globalIP target tType k =
     (case AddIngressRulesForHeadlessSvc (gl_pf G) globalIP target tType k of
        (k1, Some e) \<Rightarrow> (k1, Some (Wrapped ''Error programming ingress rules'' e))
      | (k1, None) \<Rightarrow>
          (case AddEgressRulesForHeadlessSvc (gl_pf G) key target globalIP globalNetIPTableMark tType k1 of
             (k2, Some e) \<Rightarrow> (fst (RemoveIngressRulesForHeadlessSvc (gl_pf G) globalIP target tType k2),
                Some (Wrapped ''Error programming egress rules'' e))
           | (k2, None) \<Rightarrow> (k2, None)))"

definition gi_onCreate ::
  "('p, 'k) gnLibs \<Rightarrow> 'k serviceAPI \<Rightarrow> GlobalIngressIP \<Rightarrow> ('p, 'k) gnState \<Rightarrow>
   (('p, 'k) gnState \<times> GlobalIngressIP \<times> bool) option" where
  "gi_onCreate G A gi s =
     (if gi_AllocatedIP gi \<noteq> [] then map_option (\<lambda>(s', requeue). (s', gi, requeue)) (gi_onUpdate G A gi s)
      else (let key = gl_key G (gi_Namespace gi) (gi_Name gi) in
        case ip_Allocate (gl_pool G) 1 (gn_pool s) of
          (p, Inl e) \<Rightarrow> Some (s\<lparr>gn_pool := p\<rparr>, set_icond G False ''IPPoolAllocationFailed'' gi, True)
        | (p, Inr ips) \<Rightarrow>
            (let s1 = s\<lparr>gn_pool := p\<rparr>; released = s\<lparr>gn_pool := fst (ip_Release (gl_pool G) ips p)\<rparr>;
                 done' = (\<lambda>k. Some (s1\<lparr>gn_host := k\<rparr>, set_icond G True ''Success'' (gi\<lparr>gi_AllocatedIP := hd ips\<rparr>), False)) in
             if gi_Target gi = ClusterIPService
             then (case gi_ServiceRef gi of
                     None \<Rightarrow> None
                   | Some ref \<Rightarrow>
                       (case getService A ref (gi_Namespace gi) (gn_host s1) of
                          Inr (Some service) \<Rightarrow>
                            (case createOrUpdateInternalService G A service (hd ips) (gn_host s1) of
                               (k, Some e) \<Rightarrow> Some (released\<lparr>gn_host := k\<rparr>, set_icond G False ''InternalServiceCreationFailed'' gi, False)
                             | (k, None) \<Rightarrow> done' k)
                        | _ \<Rightarrow> Some (released, gi, False)))
             else (let (annotationKey, tType) = headless_target (gi_Target gi); target = annotation gi annotationKey in
                   if target = [] then Some (released, gi, True)
                   else (case program_headless G key (hd ips) target tType (gn_host s1) of
                           (k, Some e) \<Rightarrow> Some (released\<lparr>gn_host := k\<rparr>, set_icond G False ''ProgramIPTableRulesFailed'' gi, True)
                         | (k, None) \<Rightarrow> done' k)))))"

definition remove_headless ::
  "('p, 'k) gnLibs \<Rightarrow> string \<Rightarrow> GlobalIngressIP \<Rightarrow> string list \<Rightarrow> 'k \<Rightarrow> 'k \<times> err option" where
  "remove_headless G key gi allocatedIPs k =
     (let (annotationKey, tType) = headless_target (gi_Target gi);
          target = (if annotationKey = [] then [] else annotation gi annotationKey) in
      if target = [] then (k, None)
      else (case RemoveIngressRulesForHeadlessSvc (gl_pf G) (gi_AllocatedIP gi) target tType k of
              (k1, Some e) \<Rightarrow> (k1, Some e)
            | (k1, None) \<Rightarrow>
                RemoveEgressRulesForHeadlessSvc (gl_pf G) key target (gi_AllocatedIP gi) globalNetIPTableMark tType k1))"

definition gi_onDelete ::
  "('p, 'k) gnLibs \<Rightarrow> 'k serviceAPI \<Rightarrow> GlobalIngressIP \<Rightarrow> int \<Rightarrow> ('p, 'k) gnState \<Rightarrow> (('p, 'k) gnState \<times> bool) option" where
  "gi_onDelete G A gi numRequeues s =
     (if gi_AllocatedIP gi = [] then Some (s, False)
      else if gi_Target gi = ClusterIPService
      then (case gi_ServiceRef gi of
              None \<Rightarrow> None
            | Some ref \<Rightarrow> Some
                (let intSvcName = GetInternalSvcName G ref;
                     release = (\<lambda>k. (s\<lparr>gn_host := k, gn_pool := fst (ip_Release (gl_pool G) [gi_AllocatedIP gi] (gn_pool s))\<rparr>, False)) in
                 case getService A intSvcName (gi_Namespace gi) (gn_host s) of
                   Inl e \<Rightarrow> (s, shouldRequeue numRequeues)
                 | Inr None \<Rightarrow> release (gn_host s)
                 | Inr (Some intSvc) \<Rightarrow>
                     (case sa_RemoveFinalizer A intSvc InternalServiceFinalizer (gn_host s) of
                        (k1, Some e) \<Rightarrow> (s\<lparr>gn_host := k1\<rparr>, True)
                      | (k1, None) \<Rightarrow>
                          (case deleteService A (gi_Namespace gi) intSvcName k1 of
                             (k2, Some e) \<Rightarrow> (s\<lparr>gn_host := k2\<rparr>, True)
                           | (k2, None) \<Rightarrow> release k2))))
      else Some (flushRulesAndReleaseIPs G numRequeues
             (remove_headless G (gl_key G (gi_Namespace gi) (gi_Name gi)) gi) [gi_AllocatedIP gi] s))"

text \<open>\<open>getTargetReference\<close>, which the log message evaluates.\<close>

definition getTargetReference :: "GlobalIngressIP \<Rightarrow> string option" where
  "getTargetReference gi = (if gi_Target gi = ClusterIPService then gi_ServiceRef gi
     else if gi_Target gi = HeadlessServicePod then gi_PodRef gi else Some [])"

definition gi_process ::
  "('p, 'k) gnLibs \<Rightarrow> 'k serviceAPI \<Rightarrow> GlobalIngressIP \<Rightarrow> int \<Rightarrow> gnOp \<Rightarrow> ('p, 'k) gnState \<Rightarrow>
   (('p, 'k) gnState \<times> GlobalIngressIP option \<times> bool) option" where
  "gi_process G A from numRequeues op s =
     (if getTargetReference from = None then None
      else (case op of
        OpCreate \<Rightarrow>
          (case sa_GetIngressIP A (gi_Namespace from) (gi_Name from) (gn_host s) of
             Inl e \<Rightarrow> Some (s, None, True)
           | Inr gi \<Rightarrow> map_option (\<lambda>(s', gi', requeue). (s', if sa_ingressEqual A gi gi' then None else Some gi', requeue))
               (gi_onCreate G A (gi\<lparr>gi_Conditions := trimAllocatedStatusCondition (gi_Conditions gi)\<rparr>) s))
      | OpDelete \<Rightarrow> map_option (\<lambda>(s', requeue). (s', None, requeue)) (gi_onDelete G A from numRequeues s)
      | OpUpdate \<Rightarrow> Some (s, None, False)))"

definition ensureInternalServiceExists ::
  "('p, 'k) gnLibs \<Rightarrow> 'k serviceAPI \<Rightarrow> GlobalIngressIP \<Rightarrow> string \<Rightarrow> 'k \<Rightarrow> 'k \<times> err option" where
  "ensureInternalServiceExists G A gi ref k =
     (let internalSvc = GetInternalSvcName G ref in
      case getService A internalSvc (gi_Namespace gi) k of
        Inl e \<Rightarrow> (k, Some (Wrapped ''error retrieving Globalnet ExternalIP service'' e))
      | Inr None \<Rightarrow> (k, None)
      | Inr (Some service) \<Rightarrow>
          if sv_ExternalIPs service = [] \<or> hd (sv_ExternalIPs service) \<noteq> gi_AllocatedIP gi
          then (case sa_RemoveFinalizer A service InternalServiceFinalizer k of
                  (k1, Some e) \<Rightarrow> (k1, Some (Wrapped ''error while removing the finalizer'' e))
                | (k1, None) \<Rightarrow> deleteService A (gi_Namespace gi) internalSvc k1)
          else (k, None))"

text \<open>The addresses of the existing objects, when the controller starts.\<close>

definition post_reserve_ingress ::
  "('p, 'k) gnLibs \<Rightarrow> 'k serviceAPI \<Rightarrow> GlobalIngressIP \<Rightarrow> string list \<Rightarrow> 'k \<Rightarrow> 'k \<times> err option" where
  "post_reserve_ingress G A gi reservedIPs k =
     (if gi_Target gi = ClusterIPService
      then (case gi_ServiceRef gi of
              None \<Rightarrow> (k, Some (Sentinel ''nil pointer''))
            | Some ref \<Rightarrow> ensureInternalServiceExists G A gi ref k)
      else if gi_Target gi = HeadlessServicePod \<or> gi_Target gi = HeadlessServiceEndpoints
      then (let (annotationKey, tType) = headless_target (gi_Target gi); target = annotation gi annotationKey in
            case AddIngressRulesForHeadlessSvc (gl_pf G) (hd reservedIPs) target tType k of
              (k1, Some e) \<Rightarrow> (k1, Some e)
            | (k1, None) \<Rightarrow> AddEgressRulesForHeadlessSvc (gl_pf G) (gl_key G (gi_Namespace gi) (gi_Name gi)) target
                (hd reservedIPs) globalNetIPTableMark tType k1)
      else (k, None))"

fun reserve_ingress ::
  "('p, 'k) gnLibs \<Rightarrow> 'k serviceAPI \<Rightarrow> (GlobalIngressIP \<Rightarrow> 'k \<Rightarrow> 'k \<times> err option) \<Rightarrow> GlobalIngressIP list \<Rightarrow>
   ('p, 'k) gnState \<Rightarrow> ('p, 'k) gnState \<times> GlobalIngressIP list \<times> err option" where
  "reserve_ingress G A distribute [] s = (s, [], None)"
| "reserve_ingress G A distribute (gi # gis) s =
     (case reserveAllocatedIPs G distribute (\<lambda>gi. if gi_AllocatedIP gi = [] then [] else [gi_AllocatedIP gi])
             (\<lambda>gi. set_icond G False ''ReserveAllocatedIPsFailed'' (gi\<lparr>gi_AllocatedIP := []\<rparr>))
             (post_reserve_ingress G A gi) gi s of
        (s1, gi1, Some e) \<Rightarrow> (s1, gi1 # gis, Some e)
      | (s1, gi1, None) \<Rightarrow> (case reserve_ingress G A distribute gis s1 of (s2, gis2, e) \<Rightarrow> (s2, gi1 # gis2, e)))"

section \<open>The address of the gateway\<close>

definition SmGlobalIP :: string where "SmGlobalIP = ''submariner.io/globalIp''"

text \<open>A Gateway object: its name and annotations; an absent annotation reads as empty.\<close>

record gnGateway =
  gg_Name :: string
  gg_Annotations :: "string \<rightharpoonup> string"

definition gg_globalIP :: "gnGateway \<Rightarrow> string" where
  "gg_globalIP gw = (case gg_Annotations gw SmGlobalIP of None \<Rightarrow> [] | Some v \<Rightarrow> v)"

definition updateGlobalIPAnnotation :: "gnGateway \<Rightarrow> string \<Rightarrow> gnGateway" where
  "updateGlobalIPAnnotation gw globalIP =
     gw\<lparr>gg_Annotations := (gg_Annotations gw)(SmGlobalIP := if globalIP = [] then None else Some globalIP)\<rparr>"

definition allocateIP ::
  "('p, 'k) gnLibs \<Rightarrow> string \<Rightarrow> gnGateway \<Rightarrow> ('p, 'k) gnState \<Rightarrow> ('p, 'k) gnState \<times> gnGateway option \<times> bool" where
  "allocateIP G cniIP gw s =
     (if cniIP = [] \<or> gg_globalIP gw \<noteq> [] then (s, None, False)
      else (case ip_Allocate (gl_pool G) 1 (gn_pool s) of
              (p, Inl e) \<Rightarrow> (s\<lparr>gn_pool := p\<rparr>, None, True)
            | (p, Inr ips) \<Rightarrow>
                (case AddIngressRulesForHealthCheck (gl_pf G) cniIP (hd ips) (gn_host s) of
                   (k, Some e) \<Rightarrow> (s\<lparr>gn_pool := fst (ip_Release (gl_pool G) [hd ips] p), gn_host := k\<rparr>, None, True)
                 | (k, None) \<Rightarrow> (s\<lparr>gn_pool := p, gn_host := k\<rparr>, Some (updateGlobalIPAnnotation gw (hd ips)), False))))"

definition gw_process ::
  "('p, 'k) gnLibs \<Rightarrow> string \<Rightarrow> string \<Rightarrow> gnGateway \<Rightarrow> gnOp \<Rightarrow> ('p, 'k) gnState \<Rightarrow>
   ('p, 'k) gnState \<times> gnGateway option \<times> bool" where
  "gw_process G hostName cniIP gw op s =
     (if op = OpDelete
      then (if gg_globalIP gw \<noteq> []
            then (s\<lparr>gn_pool := fst (ip_Release (gl_pool G) [gg_globalIP gw] (gn_pool s))\<rparr>, None, False) else (s, None, False))
      else if gg_Name gw \<noteq> hostName then (s, None, False)
      else allocateIP G cniIP gw s)"

definition reserveAllocatedIP ::
  "('p, 'k) gnLibs \<Rightarrow> (gnGateway \<Rightarrow> 'k \<Rightarrow> 'k \<times> err option) \<Rightarrow> string \<Rightarrow> string \<Rightarrow> gnGateway \<Rightarrow> ('p, 'k) gnState \<Rightarrow>
   ('p, 'k) gnState \<times> gnGateway \<times> err option" where
  "reserveAllocatedIP G distribute hostName cniIP gw s =
     (let ip = gg_globalIP gw in
      if ip = [] \<or> cniIP = [] then (s, gw, None)
      else (let (s1, err) = (case ip_Reserve (gl_pool G) [ip] (gn_pool s) of
                (p, Some e) \<Rightarrow> (s\<lparr>gn_pool := p\<rparr>, Some e)
              | (p, None) \<Rightarrow>
                  if gg_Name gw \<noteq> hostName then (s\<lparr>gn_pool := p\<rparr>, None)
                  else (case AddIngressRulesForHealthCheck (gl_pf G) cniIP ip (gn_host s) of
                          (k, Some e) \<Rightarrow> (s\<lparr>gn_pool := fst (ip_Release (gl_pool G) [ip] p), gn_host := k\<rparr>, Some e)
                        | (k, None) \<Rightarrow> (s\<lparr>gn_pool := p, gn_host := k\<rparr>, None))) in
            if err = None then (s1, gw, None)
            else if gg_Name gw \<noteq> hostName then (s1, gw, None)
            else (let k = fst (RemoveIngressRulesForHealthCheck (gl_pf G) cniIP ip (gn_host s1));
                      gw' = updateGlobalIPAnnotation gw [] in
                  case distribute gw' k of (k', e) \<Rightarrow>
                    (s1\<lparr>gn_host := k'\<rparr>, gw', wrap ''error updating the Gateway global IP annotation'' e))))"

text \<open>The addresses of all gateways are reserved when the controller is created.\<close>

fun reserve_gateways ::
  "('p, 'k) gnLibs \<Rightarrow> (gnGateway \<Rightarrow> 'k \<Rightarrow> 'k \<times> err option) \<Rightarrow> string \<Rightarrow> string \<Rightarrow> gnGateway list \<Rightarrow> ('p, 'k) gnState \<Rightarrow>
   ('p, 'k) gnState \<times> gnGateway list \<times> err option" where
  "reserve_gateways G distribute hostName cniIP [] s = (s, [], None)"
| "reserve_gateways G distribute hostName cniIP (gw # gws) s =
     (case reserveAllocatedIP G distribute hostName cniIP gw s of
        (s1, gw1, Some e) \<Rightarrow> (s1, gw1 # gws, Some e)
      | (s1, gw1, None) \<Rightarrow> (case reserve_gateways G distribute hostName cniIP gws s1 of (s2, gws2, e) \<Rightarrow> (s2, gw1 # gws2, e)))"

end
