(* ===== verification/GlobalAddresses.thy ===== *)
theory GlobalAddresses
  imports GlobalIngress
begin

text \<open>
  Who owns a global address. The controllers of Globalnet share one pool; each object records its addresses in its status
  or annotation. Every handler is shown to be a transaction of one object on the pool (\<open>addr_step\<close>): the new addresses of the object
  are allocated and were not in use by others, and no address of others is released. A step relation over the stored
  objects gives the invariant that no two objects have an address in common.

  The hypotheses on the pool, \<open>pool_ok\<close>, state what \<open>admiral/pkg/ipam\<close> documents, with \<open>alloc\<close> the addresses in use:
  an allocation gives as many unused addresses as asked for, a reservation fails unless all addresses are free, and
  a release, even one that fails, only frees addresses it was given.
\<close>

section \<open>The pool\<close>

definition pool_ok :: "'p ipPool \<Rightarrow> ('p \<Rightarrow> string set) \<Rightarrow> bool" where
  "pool_ok P alloc \<longleftrightarrow>
     (\<forall>n p p' ips. 0 < n \<longrightarrow> ip_Allocate P n p = (p', Inr ips) \<longrightarrow>
        int (length ips) = n \<and> set ips \<inter> alloc p = {} \<and> alloc p' = alloc p \<union> set ips) \<and>
     (\<forall>n p p' e. ip_Allocate P n p = (p', Inl e) \<longrightarrow> alloc p' = alloc p) \<and>
     (\<forall>ips p. alloc p - set ips \<subseteq> alloc (fst (ip_Release P ips p)) \<and> alloc (fst (ip_Release P ips p)) \<subseteq> alloc p) \<and>
     (\<forall>ips p p'. ip_Reserve P ips p = (p', None) \<longrightarrow> set ips \<inter> alloc p = {} \<and> alloc p' = alloc p \<union> set ips) \<and>
     (\<forall>ips p p' e. ip_Reserve P ips p = (p', Some e) \<longrightarrow> alloc p' = alloc p)"

lemma pool_Allocate:
  "pool_ok P alloc \<Longrightarrow> 0 < n \<Longrightarrow> ip_Allocate P n p = (p', Inr ips) \<Longrightarrow>
     int (length ips) = n \<and> set ips \<inter> alloc p = {} \<and> alloc p' = alloc p \<union> set ips"
  unfolding pool_ok_def by (drule conjunct1) (simp only: simp_thms)

lemma pool_Allocate_fail: "pool_ok P alloc \<Longrightarrow> ip_Allocate P n p = (p', Inl e) \<Longrightarrow> alloc p' = alloc p"
  unfolding pool_ok_def by blast

lemma pool_Release:
  "pool_ok P alloc \<Longrightarrow> alloc p - set ips \<subseteq> alloc (fst (ip_Release P ips p)) \<and> alloc (fst (ip_Release P ips p)) \<subseteq> alloc p"
  unfolding pool_ok_def by blast

lemma pool_Reserve:
  "pool_ok P alloc \<Longrightarrow> ip_Reserve P ips p = (p', None) \<Longrightarrow> set ips \<inter> alloc p = {} \<and> alloc p' = alloc p \<union> set ips"
  unfolding pool_ok_def by blast

lemma pool_Reserve_fail: "pool_ok P alloc \<Longrightarrow> ip_Reserve P ips p = (p', Some e) \<Longrightarrow> alloc p' = alloc p"
  unfolding pool_ok_def by blast

section \<open>Transactions of one object\<close>

text \<open>
  \<open>A\<close> and \<open>A'\<close> are the addresses of the object before and after, \<open>a\<close> and \<open>a'\<close> those in use.
\<close>

definition addr_step :: "string set \<Rightarrow> string set \<Rightarrow> string set \<Rightarrow> string set \<Rightarrow> bool" where
  "addr_step A a A' a' \<longleftrightarrow> (A \<subseteq> a \<longrightarrow> A' \<subseteq> a' \<and> A' \<inter> (a - A) = {} \<and> a - A \<subseteq> a')"

lemma addr_step_refl [simp, intro]: "addr_step A a A a"
  by (auto simp: addr_step_def)

lemma addr_step_drop: "a - A \<subseteq> a' \<Longrightarrow> addr_step A a {} a'"
  by (simp add: addr_step_def)

lemma addr_step_trans: "addr_step A a A' a' \<Longrightarrow> addr_step A' a' A'' a'' \<Longrightarrow> addr_step A a A'' a''"
  unfolding addr_step_def by blast

lemma pool_allocates: "pool_ok P alloc \<Longrightarrow> 0 < n \<Longrightarrow> ip_Allocate P n p = (p', Inr ips) \<Longrightarrow>
  addr_step {} (alloc p) (set ips) (alloc p')"
  using pool_Allocate [of P alloc n p p' ips] unfolding addr_step_def by blast

lemma pool_releases: "pool_ok P alloc \<Longrightarrow> addr_step (set ips) (alloc p) {} (alloc (fst (ip_Release P ips p)))"
  using pool_Release [of P alloc p ips] unfolding addr_step_def by blast

text \<open>An allocation that is given back.\<close>

lemma pool_gives_back:
  assumes "pool_ok P alloc" "0 < n" "ip_Allocate P n p = (p', Inr ips)"
  shows "addr_step {} (alloc p) {} (alloc (fst (ip_Release P ips p')))"
  using pool_allocates [OF assms] pool_releases [OF assms(1)] by (rule addr_step_trans)

section \<open>The controllers\<close>

abbreviation ge_ips :: "GlobalEgressIP \<Rightarrow> string set" where
  "ge_ips ge \<equiv> set (ges_AllocatedIPs (ge_Status ge))"

abbreviation cge_ips :: "ClusterGlobalEgressIP \<Rightarrow> string set" where
  "cge_ips cge \<equiv> set (ges_AllocatedIPs (cge_Status cge))"

definition gi_ips :: "GlobalIngressIP \<Rightarrow> string set" where
  "gi_ips gi = (if gi_AllocatedIP gi = [] then {} else {gi_AllocatedIP gi})"

definition gg_ips :: "gnGateway \<Rightarrow> string set" where
  "gg_ips gw = (if gg_globalIP gw = [] then {} else {gg_globalIP gw})"

lemma set_cond_ips [simp]: "ges_AllocatedIPs (set_cond G t st r status) = ges_AllocatedIPs status"
  by (simp add: set_cond_def)

lemma flush_addr:
  assumes "flushRulesAndReleaseIPs G n flush ips s = (s', requeue)" "pool_ok (gl_pool G) alloc"
  shows "if requeue then gn_pool s' = gn_pool s else addr_step (set ips) (alloc (gn_pool s)) {} (alloc (gn_pool s'))"
  using assms pool_releases [OF assms(2), of ips "gn_pool s"]
  by (auto simp: flushRulesAndReleaseIPs_def Let_def split: prod.splits if_splits)

lemma ge_allocate_addr:
  assumes "ge_allocateGlobalIPs G key n namedSet ge s = (s', ge', requeue)" "pool_ok (gl_pool G) alloc"
    "0 \<le> n" "n \<noteq> int (length (ges_AllocatedIPs (ge_Status ge)))"
  shows "addr_step {} (alloc (gn_pool s)) (ge_ips ge') (alloc (gn_pool s'))"
proof (cases "n = 0")
  case False
  with assms(3) have n: "0 < n" by simp
  show ?thesis
  proof (cases "ip_Allocate (gl_pool G) n (gn_pool s)")
    case (Pair p r)
    show ?thesis
    proof (cases r)
      case (Inl e)
      with Pair pool_Allocate_fail [OF assms(2)] assms(1,4) False show ?thesis
        by (auto simp: ge_allocateGlobalIPs_def Let_def)
    next
      case (Inr ips)
      with Pair have *: "ip_Allocate (gl_pool G) n (gn_pool s) = (p, Inr ips)" by simp
      show ?thesis using assms(1,4) False * pool_allocates [OF assms(2) n *] pool_gives_back [OF assms(2) n *]
        by (auto simp: ge_allocateGlobalIPs_def Let_def split: prod.splits option.splits)
    qed
  qed
qed (use assms(1) in \<open>auto simp: ge_allocateGlobalIPs_def Let_def\<close>)

lemma createPodWatcher_addr:
  "createPodWatcher G key namedSet n ge s = (s', ge', ok) \<Longrightarrow> gn_pool s' = gn_pool s \<and>
     ges_AllocatedIPs (ge_Status ge') = ges_AllocatedIPs (ge_Status ge)"
  by (auto simp: createPodWatcher_def split: option.splits prod.splits if_splits)

lemma ge_onCreateOrUpdate_addr:
  assumes "ge_onCreateOrUpdate G key n ge r s = (s', ge', requeue)" "pool_ok (gl_pool G) alloc" "0 \<le> n"
  shows "addr_step (ge_ips ge) (alloc (gn_pool s)) (ge_ips ge') (alloc (gn_pool s'))"
proof -
  obtain s1 rq where flush: "(if n \<noteq> int (length (ges_AllocatedIPs (ge_Status ge)))
      then flushGlobalEgressRulesAndReleaseIPs G key (getIPSetName G key) r ge s else (s, False)) = (s1, rq)" by fastforce
  obtain s2 ge2 rq2 where alc: "ge_allocateGlobalIPs G key n (getIPSetName G key) ge s1 = (s2, ge2, rq2)"
    by (cases "ge_allocateGlobalIPs G key n (getIPSetName G key) ge s1") auto
  obtain s3 ge3 ok where watch: "createPodWatcher G key (getIPSetName G key) n ge2 s2 = (s3, ge3, ok)"
    by (cases "createPodWatcher G key (getIPSetName G key) n ge2 s2") auto
  have res: "(s', ge') = (if rq then (s1, ge) else if rq2 then (s2, ge2) else (s3, ge3))"
    using assms(1) unfolding ge_onCreateOrUpdate_def Let_def by (auto simp: flush alc watch split: if_splits bool.splits)
  have end_eq: "gn_pool s3 = gn_pool s2" "ges_AllocatedIPs (ge_Status ge3) = ges_AllocatedIPs (ge_Status ge2)"
    using createPodWatcher_addr [OF watch] by auto
  show ?thesis
  proof (cases "n = int (length (ges_AllocatedIPs (ge_Status ge)))")
    case True
    then have "s1 = s" "\<not> rq" using flush by auto
    moreover have "s2 = s" "ge_ips ge2 = ge_ips ge"
      using alc True \<open>s1 = s\<close> by (auto simp: ge_allocateGlobalIPs_def Let_def split: if_splits)
    ultimately show ?thesis using res end_eq by (simp split: if_splits)
  next
    case False
    note fl = flush_addr [OF flush [unfolded flushGlobalEgressRulesAndReleaseIPs_def, simplified if_P [OF False]] assms(2)]
    show ?thesis
    proof (cases rq)
      case False
      with fl have "addr_step (ge_ips ge) (alloc (gn_pool s)) {} (alloc (gn_pool s1))" by simp
      from addr_step_trans [OF this ge_allocate_addr [OF alc assms(2,3) \<open>n \<noteq> _\<close>]]
      show ?thesis using res False end_eq by (simp split: if_splits)
    qed (use fl res in simp)
  qed
qed

text \<open>
  What an object is after it was processed: the syncer writes the result, if there is one. \<open>DeepEqual\<close> of two statuses
  implies that they have the same addresses (\<open>deep_equal\<close>).
\<close>

definition stored :: "'o \<Rightarrow> 'o option \<Rightarrow> 'o" where
  "stored obj result = (case result of None \<Rightarrow> obj | Some obj' \<Rightarrow> obj')"

definition deep_equal :: "('p, 'k) gnLibs \<Rightarrow> 'k serviceAPI \<Rightarrow> bool" where
  "deep_equal G A \<longleftrightarrow> (\<forall>st st'. gl_statusEqual G st st' \<longrightarrow> ges_AllocatedIPs st = ges_AllocatedIPs st') \<and>
     (\<forall>gi gi'. sa_ingressEqual A gi gi' \<longrightarrow> gi_AllocatedIP gi = gi_AllocatedIP gi')"

lemma stored_status:
  assumes "deep_equal G A" "f obj = ges_AllocatedIPs st" "f obj' = ges_AllocatedIPs st'"
  shows "f (stored obj (checkStatusChanged G st st' obj')) = f obj'"
  using assms by (auto simp: stored_def checkStatusChanged_def deep_equal_def)

lemma ge_process_addr:
  assumes "ge_process G ge r op s = Some (s', result, requeue)" "op \<noteq> OpDelete"
    "pool_ok (gl_pool G) alloc" "deep_equal G A"
  shows "addr_step (ge_ips ge) (alloc (gn_pool s)) (ge_ips (stored ge result)) (alloc (gn_pool s'))"
proof -
  define n where "n = (case ge_NumberOfIPs ge of None \<Rightarrow> 1 | Some n \<Rightarrow> n)"
  define key where "key = gl_key G (ge_Namespace ge) (ge_Name ge)"
  define ge1 where "ge1 = ge\<lparr>ge_Status := (ge_Status ge)\<lparr>ges_Conditions :=
    trimAllocatedStatusCondition (ges_Conditions (ge_Status ge))\<rparr>\<rparr>"
  obtain ge2 valid where v: "ge_validate G n ge1 = (ge2, valid)" by fastforce
  obtain s3 ge3 rq where c: "(if valid then ge_onCreateOrUpdate G key n ge2 r s else (s, ge2, False)) = (s3, ge3, rq)"
    by (cases "if valid then ge_onCreateOrUpdate G key n ge2 r s else (s, ge2, False)") auto
  have res: "s' = s3 \<and> result = checkStatusChanged G (ge_Status ge) (ge_Status ge3) ge3"
    using assms(1,2) v c unfolding ge_process_def n_def [symmetric] key_def [symmetric] ge1_def
    by (cases op) (simp_all add: Let_def)
  have ge2: "ges_AllocatedIPs (ge_Status ge2) = ges_AllocatedIPs (ge_Status ge)" and valid: "valid \<Longrightarrow> 0 \<le> n"
    using v by (auto simp: ge_validate_def ge1_def split: if_splits)
  have "addr_step (ge_ips ge2) (alloc (gn_pool s)) (ge_ips ge3) (alloc (gn_pool s3))"
    using c ge_onCreateOrUpdate_addr [OF _ assms(3)] valid by (cases valid) auto
  then show ?thesis
    using res ge2 stored_status [OF assms(4), where f = "\<lambda>ge. ges_AllocatedIPs (ge_Status ge)" and obj = ge and
        st = "ge_Status ge" and st' = "ge_Status ge3" and obj' = ge3] by simp
qed

text \<open>
  The deletion of a GlobalEgressIP releases the addresses of its status, or those of its pod watcher when there are none, once the
  rules are removed. It is processed again when the rules cannot be removed, and also when the named set cannot be destroyed;
  in the second case the addresses have been released.
\<close>

definition deletion_releases :: "('p, 'k) gnLibs \<Rightarrow> GlobalEgressIP \<Rightarrow> ('p, 'k) gnState \<Rightarrow> string list" where
  "deletion_releases G ge s = (if ges_AllocatedIPs (ge_Status ge) \<noteq> [] then ges_AllocatedIPs (ge_Status ge)
     else (case gn_podWatchers s (gl_key G (ge_Namespace ge) (ge_Name ge)) of None \<Rightarrow> [] | Some pw \<Rightarrow> pw_allocatedIPs pw))"

definition rules_removed :: "('p, 'k) gnLibs \<Rightarrow> int \<Rightarrow> GlobalEgressIP \<Rightarrow> ('p, 'k) gnState \<Rightarrow> bool" where
  "rules_removed G r ge s \<longleftrightarrow> (let key = gl_key G (ge_Namespace ge) (ge_Name ge) in
     \<not> snd (flushGlobalEgressRulesAndReleaseIPs G key (getIPSetName G key) r
       (ge\<lparr>ge_Status := (ge_Status ge)\<lparr>ges_AllocatedIPs := deletion_releases G ge s\<rparr>\<rparr>)
       (s\<lparr>gn_podWatchers := (gn_podWatchers s)(key := None)\<rparr>)))"

lemma flush_releases:
  assumes "flushRulesAndReleaseIPs G n flush ips s = (s', requeue)" "pool_ok (gl_pool G) alloc"
  shows "if requeue then gn_pool s' = gn_pool s
    else alloc (gn_pool s) - set ips \<subseteq> alloc (gn_pool s') \<and> alloc (gn_pool s') \<subseteq> alloc (gn_pool s)"
  using assms pool_Release [OF assms(2), of "gn_pool s" ips]
  by (auto simp: flushRulesAndReleaseIPs_def Let_def split: prod.splits if_splits)

lemma ge_delete_pool:
  assumes "ge_process G ge r OpDelete s = Some (s', result, requeue)" "pool_ok (gl_pool G) alloc"
  shows "if rules_removed G r ge s
    then alloc (gn_pool s) - set (deletion_releases G ge s) \<subseteq> alloc (gn_pool s') \<and> alloc (gn_pool s') \<subseteq> alloc (gn_pool s)
    else requeue \<and> gn_pool s' = gn_pool s"
proof -
  define key where "key = gl_key G (ge_Namespace ge) (ge_Name ge)"
  define s1 where "s1 = s\<lparr>gn_podWatchers := (gn_podWatchers s)(key := None)\<rparr>"
  define ge1 where "ge1 = ge\<lparr>ge_Status := (ge_Status ge)\<lparr>ges_AllocatedIPs := deletion_releases G ge s\<rparr>\<rparr>"
  have same: "ge\<lparr>ge_Status := (ge_Status ge)\<lparr>ges_AllocatedIPs := ips\<rparr>\<rparr> = ge" if "ges_AllocatedIPs (ge_Status ge) = ips" for ips
    using that by (cases ge; cases "ge_Status ge") simp
  obtain s2 rq where f: "flushGlobalEgressRulesAndReleaseIPs G key (getIPSetName G key) r ge1 s1 = (s2, rq)" by fastforce
  have "ge_onDelete G r ge s = None \<or> ge_onDelete G r ge s = Some (if rq then (s2, True)
      else (case ns_Destroy (gl_sets G) (getIPSetName G key) (gn_host s2) of (k, e) \<Rightarrow> (s2\<lparr>gn_host := k\<rparr>, e \<noteq> None \<and> shouldRequeue r)))"
  proof (cases "ges_AllocatedIPs (ge_Status ge) = []")
    case True
    show ?thesis
    proof (cases "gn_podWatchers s key")
      case (Some pw)
      with True have "ge1 = (if pw_allocatedIPs pw \<noteq> [] then ge\<lparr>ge_Status := (ge_Status ge)\<lparr>ges_AllocatedIPs := pw_allocatedIPs pw\<rparr>\<rparr> else ge)"
        using same [of "[]"] by (simp add: ge1_def deletion_releases_def key_def)
      with True Some f show ?thesis
        unfolding ge_onDelete_def Let_def key_def [symmetric] s1_def [symmetric] by (cases rq) simp_all
    qed (simp add: ge_onDelete_def True key_def Let_def)
  next
    case False
    then have "ge1 = ge" using same by (simp add: ge1_def deletion_releases_def)
    with False f show ?thesis
      unfolding ge_onDelete_def Let_def key_def [symmetric] s1_def [symmetric] by (cases rq) simp_all
  qed
  then have "gn_pool s' = gn_pool s2 \<and> (rq \<longrightarrow> requeue)"
    using assms(1) by (auto simp: ge_process_def Let_def split: if_splits option.splits prod.splits)
  moreover have "rules_removed G r ge s \<longleftrightarrow> \<not> rq"
    using f by (simp add: rules_removed_def Let_def key_def [symmetric] s1_def [symmetric] ge1_def [symmetric])
  ultimately show ?thesis
    using flush_releases [OF f [unfolded flushGlobalEgressRulesAndReleaseIPs_def] assms(2)] by (auto simp: s1_def ge1_def split: if_splits)
qed

lemma cge_allocate_addr:
  assumes "cge_allocateGlobalIPs G subnets n status s = (s', status', requeue)" "pool_ok (gl_pool G) alloc" "0 \<le> n"
  shows "addr_step {} (alloc (gn_pool s)) (set (ges_AllocatedIPs status')) (alloc (gn_pool s'))"
proof (cases "n = 0")
  case False
  with assms(3) have n: "0 < n" by simp
  obtain p r where *: "ip_Allocate (gl_pool G) n (gn_pool s) = (p, r)" by fastforce
  show ?thesis
  proof (cases r)
    case (Inl e)
    with * pool_Allocate_fail [OF assms(2)] assms(1) False show ?thesis
      by (auto simp: cge_allocateGlobalIPs_def Let_def)
  next
    case (Inr ips)
    with * have "ip_Allocate (gl_pool G) n (gn_pool s) = (p, Inr ips)" by simp
    note * = this pool_allocates [OF assms(2) n this] pool_gives_back [OF assms(2) n this]
    show ?thesis using assms(1) False * by (auto simp: cge_allocateGlobalIPs_def Let_def split: prod.splits option.splits)
  qed
qed (use assms(1) in \<open>auto simp: cge_allocateGlobalIPs_def Let_def\<close>)

lemma cge_onCreateOrUpdate_addr:
  assumes "cge_onCreateOrUpdate G subnets n status r s = (s', status', requeue)" "pool_ok (gl_pool G) alloc" "0 \<le> n"
  shows "addr_step (set (ges_AllocatedIPs status)) (alloc (gn_pool s)) (set (ges_AllocatedIPs status')) (alloc (gn_pool s'))"
proof (cases "n = int (length (ges_AllocatedIPs status))")
  case False
  obtain s1 rq where f: "flushRulesAndReleaseIPs G r (flushClusterGlobalEgressRules G subnets) (ges_AllocatedIPs status) s = (s1, rq)"
    by fastforce
  note fl = flush_addr [OF f assms(2)]
  show ?thesis
  proof (cases rq)
    case True
    with f fl assms(1) False show ?thesis by (auto simp: cge_onCreateOrUpdate_def)
  next
    case rq: False
    with f assms(1) False have "cge_allocateGlobalIPs G subnets n status s1 = (s', status', requeue)"
      by (simp add: cge_onCreateOrUpdate_def)
    from addr_step_trans [OF _ cge_allocate_addr [OF this assms(2,3)]] fl rq show ?thesis by simp
  qed
qed (use assms(1) in \<open>auto simp: cge_onCreateOrUpdate_def\<close>)

lemma cge_process_addr:
  assumes "cge_process G subnets cge r op s = (s', result, requeue)" "op \<noteq> OpDelete"
    "pool_ok (gl_pool G) alloc" "deep_equal G A"
  shows "addr_step (cge_ips cge) (alloc (gn_pool s)) (cge_ips (stored cge result)) (alloc (gn_pool s'))"
proof -
  define n where "n = (case cge_NumberOfIPs cge of None \<Rightarrow> 1 | Some n \<Rightarrow> n)"
  define cge1 where "cge1 = cge\<lparr>cge_Status := (cge_Status cge)\<lparr>ges_Conditions :=
    trimAllocatedStatusCondition (ges_Conditions (cge_Status cge))\<rparr>\<rparr>"
  obtain cge2 valid where v: "cge_validate G n cge1 = (cge2, valid)" by fastforce
  obtain s3 status rq where c: "(if valid then cge_onCreateOrUpdate G subnets n (cge_Status cge2) r s
      else (s, cge_Status cge2, False)) = (s3, status, rq)"
    by (cases "if valid then cge_onCreateOrUpdate G subnets n (cge_Status cge2) r s else (s, cge_Status cge2, False)") auto
  have res: "s' = s3 \<and> result = checkStatusChanged G (cge_Status cge) status (cge2\<lparr>cge_Status := status\<rparr>)"
    using assms(1,2) v c unfolding cge_process_def n_def [symmetric] cge1_def
    by (cases op) (auto simp: Let_def split: if_splits)
  have cge2: "ges_AllocatedIPs (cge_Status cge2) = ges_AllocatedIPs (cge_Status cge)" and valid: "valid \<Longrightarrow> 0 \<le> n"
    using v by (auto simp: cge_validate_def cge1_def Let_def split: if_splits)
  have "addr_step (cge_ips cge2) (alloc (gn_pool s)) (set (ges_AllocatedIPs status)) (alloc (gn_pool s3))"
    using c cge_onCreateOrUpdate_addr [OF _ assms(3)] valid by (cases valid) auto
  then show ?thesis
    using res cge2 stored_status [OF assms(4), where f = "\<lambda>cge. ges_AllocatedIPs (cge_Status cge)" and obj = cge and
        st = "cge_Status cge" and st' = status and obj' = "cge2\<lparr>cge_Status := status\<rparr>"] by simp
qed

lemma cge_delete_addr:
  assumes "cge_process G subnets cge r OpDelete s = (s', result, requeue)" "pool_ok (gl_pool G) alloc"
  shows "addr_step (cge_ips cge) (alloc (gn_pool s)) (if requeue then cge_ips cge else {}) (alloc (gn_pool s'))"
  using assms(1) flush_addr [OF _ assms(2)] unfolding cge_process_def by (auto simp: Let_def split: prod.splits if_splits)

lemma addr_step_mono: "addr_step A a A' a' \<Longrightarrow> B \<subseteq> A' \<Longrightarrow> addr_step A a B a'"
  unfolding addr_step_def by blast

lemma set_icond_ip [simp]: "gi_AllocatedIP (set_icond G st r gi) = gi_AllocatedIP gi"
  by (simp add: set_icond_def)

lemma gi_ips_cong: "gi_AllocatedIP gi = gi_AllocatedIP gi' \<Longrightarrow> gi_ips gi = gi_ips gi'"
  by (simp add: gi_ips_def)

lemma gi_onUpdate_pool: "gi_onUpdate G A gi s = Some (s', requeue) \<Longrightarrow> gn_pool s' = gn_pool s"
  by (auto simp: gi_onUpdate_def split: if_splits option.splits sum.splits prod.splits)

text \<open>What comes of an allocation: the address is in the status, or it is given back.\<close>

lemma gi_onCreate_cases:
  assumes "gi_onCreate G A gi s = Some (s', gi', requeue)" "gi_AllocatedIP gi = []"
  obtains e where "ip_Allocate (gl_pool G) 1 (gn_pool s) = (gn_pool s', Inl e)" "gi_AllocatedIP gi' = []"
  | p ips where "ip_Allocate (gl_pool G) 1 (gn_pool s) = (p, Inr ips)" "gn_pool s' = p" "gi_AllocatedIP gi' = hd ips"
  | p ips where "ip_Allocate (gl_pool G) 1 (gn_pool s) = (p, Inr ips)" "gn_pool s' = fst (ip_Release (gl_pool G) ips p)"
      "gi_AllocatedIP gi' = []"
proof -
  obtain p r where alc: "ip_Allocate (gl_pool G) 1 (gn_pool s) = (p, r)" by fastforce
  show thesis
  proof (cases r)
    case (Inl e)
    with alc assms show thesis by (intro that(1) [of e]) (auto simp: gi_onCreate_def Let_def)
  next
    case (Inr ips)
    with alc have alc: "ip_Allocate (gl_pool G) 1 (gn_pool s) = (p, Inr ips)" by simp
    have "gn_pool s' = p \<and> gi_AllocatedIP gi' = hd ips \<or>
          gn_pool s' = fst (ip_Release (gl_pool G) ips p) \<and> gi_AllocatedIP gi' = []"
      using assms alc unfolding gi_onCreate_def Let_def
      by (auto split: if_splits option.splits sum.splits prod.splits)
    with that(2,3) alc show thesis by blast
  qed
qed

lemma gi_onCreate_addr:
  assumes "gi_onCreate G A gi s = Some (s', gi', requeue)" "pool_ok (gl_pool G) alloc"
  shows "addr_step (gi_ips gi) (alloc (gn_pool s)) (gi_ips gi') (alloc (gn_pool s'))"
proof (cases "gi_AllocatedIP gi = []")
  case True
  then have empty: "gi_ips gi = {}" by (simp add: gi_ips_def)
  have one: "(0::int) < 1" by simp
  from assms(1) True show ?thesis
  proof (cases rule: gi_onCreate_cases)
    case (1 e)
    with pool_Allocate_fail [OF assms(2) 1(1)] empty show ?thesis by (simp add: gi_ips_def)
  next
    case (2 p ips)
    from pool_Allocate [OF assms(2) one 2(1)] obtain ip where "ips = [ip]"
      by (auto simp: length_Suc_conv)
    then have "gi_ips gi' \<subseteq> set ips" using 2(3) by (auto simp: gi_ips_def)
    with addr_step_mono [OF pool_allocates [OF assms(2) one 2(1)]] 2(2) empty show ?thesis by simp
  next
    case (3 p ips)
    with pool_gives_back [OF assms(2) one 3(1)] empty show ?thesis by (simp add: gi_ips_def)
  qed
next
  case False
  with assms(1) gi_onUpdate_pool [of G A gi s] show ?thesis by (fastforce simp: gi_onCreate_def)
qed

lemma gi_onDelete_addr:
  assumes "gi_onDelete G A gi r s = Some (s', requeue)" "pool_ok (gl_pool G) alloc"
  shows "addr_step (gi_ips gi) (alloc (gn_pool s)) (if requeue then gi_ips gi else {}) (alloc (gn_pool s'))"
proof (cases "gi_AllocatedIP gi = []")
  case False
  then have ips: "gi_ips gi = set [gi_AllocatedIP gi]" by (simp add: gi_ips_def)
  show ?thesis
  proof (cases "gi_Target gi = ClusterIPService")
    case True
    have "gn_pool s' = fst (ip_Release (gl_pool G) [gi_AllocatedIP gi] (gn_pool s)) \<or>
          gn_pool s' = gn_pool s"
      using assms(1) False True unfolding gi_onDelete_def Let_def
      by (auto split: if_splits option.splits sum.splits prod.splits)
    then show ?thesis
    proof
      assume *: "gn_pool s' = fst (ip_Release (gl_pool G) [gi_AllocatedIP gi] (gn_pool s))"
      have "\<not> requeue \<or> gn_pool s' = gn_pool s"
        using assms(1) False True unfolding gi_onDelete_def Let_def
        by (auto split: if_splits option.splits sum.splits prod.splits)
      with * show ?thesis using pool_releases [OF assms(2), of "[gi_AllocatedIP gi]" "gn_pool s"] ips by auto
    next
      assume "gn_pool s' = gn_pool s"
      then show ?thesis by (auto intro: addr_step_mono [OF addr_step_refl])
    qed
  next
    case F: False
    from assms(1) False F have "flushRulesAndReleaseIPs G r (remove_headless G (gl_key G (gi_Namespace gi) (gi_Name gi)) gi)
        [gi_AllocatedIP gi] s = (s', requeue)" by (simp add: gi_onDelete_def)
    from flush_addr [OF this assms(2)] ips show ?thesis by (auto split: if_splits)
  qed
qed (use assms(1) in \<open>auto simp: gi_onDelete_def gi_ips_def\<close>)

lemma gi_process_addr:
  assumes "gi_process G A gi r op s = Some (s', result, requeue)" "op \<noteq> OpDelete"
    "sa_GetIngressIP A (gi_Namespace gi) (gi_Name gi) (gn_host s) \<in> {Inr gi} \<union> range Inl"
    "pool_ok (gl_pool G) alloc" "deep_equal G A"
  shows "addr_step (gi_ips gi) (alloc (gn_pool s)) (gi_ips (stored gi result)) (alloc (gn_pool s'))"
proof (cases op)
  case OpCreate
  show ?thesis
  proof (cases "sa_GetIngressIP A (gi_Namespace gi) (gi_Name gi) (gn_host s)")
    case (Inl e)
    with OpCreate assms(1) show ?thesis by (auto simp: gi_process_def stored_def split: if_splits)
  next
    case (Inr gi0)
    with assms(3) have get: "sa_GetIngressIP A (gi_Namespace gi) (gi_Name gi) (gn_host s) = Inr gi" by auto
    define gi1 where "gi1 = gi\<lparr>gi_Conditions := trimAllocatedStatusCondition (gi_Conditions gi)\<rparr>"
    from assms(1) OpCreate get obtain gi' where c: "gi_onCreate G A gi1 s = Some (s', gi', requeue)"
        and res: "result = (if sa_ingressEqual A gi gi' then None else Some gi')"
      by (auto simp: gi_process_def gi1_def split: if_splits)
    have "gi_ips gi1 = gi_ips gi" by (simp add: gi1_def gi_ips_def)
    moreover have "gi_ips (stored gi result) = gi_ips gi'"
      using res assms(5) gi_ips_cong [of gi gi'] by (simp add: stored_def deep_equal_def)
    ultimately show ?thesis using gi_onCreate_addr [OF c assms(4)] by simp
  qed
qed (use assms(1,2) in \<open>auto simp: gi_process_def stored_def split: if_splits\<close>)

lemma gi_process_delete: "gi_process G A gi r OpDelete s = Some (s', result, requeue) \<Longrightarrow>
  gi_onDelete G A gi r s = Some (s', requeue)"
  by (auto simp: gi_process_def split: if_splits)

lemma updated_globalIP [simp]: "gg_globalIP (updateGlobalIPAnnotation gw ip) = ip"
  by (auto simp: gg_globalIP_def updateGlobalIPAnnotation_def)

lemma allocateIP_addr:
  assumes "allocateIP G cniIP gw s = (s', result, requeue)" "pool_ok (gl_pool G) alloc"
  shows "addr_step (gg_ips gw) (alloc (gn_pool s)) (gg_ips (stored gw result)) (alloc (gn_pool s'))"
proof (cases "cniIP = [] \<or> gg_globalIP gw \<noteq> []")
  case False
  then have empty: "gg_ips gw = {}" by (simp add: gg_ips_def)
  have one: "(0::int) < 1" by simp
  obtain p r where alc: "ip_Allocate (gl_pool G) 1 (gn_pool s) = (p, r)" by fastforce
  show ?thesis
  proof (cases r)
    case (Inl e)
    with alc assms(1) False pool_Allocate_fail [OF assms(2)] empty show ?thesis
      by (auto simp: allocateIP_def stored_def)
  next
    case (Inr ips)
    with alc have alc: "ip_Allocate (gl_pool G) 1 (gn_pool s) = (p, Inr ips)" by simp
    from pool_Allocate [OF assms(2) one alc] obtain ip where "ips = [ip]" by (auto simp: length_Suc_conv)
    with assms(1) False alc empty pool_gives_back [OF assms(2) one alc]
        addr_step_mono [OF pool_allocates [OF assms(2) one alc], of "{}"] pool_allocates [OF assms(2) one alc]
    show ?thesis by (auto simp: allocateIP_def stored_def gg_ips_def split: prod.splits option.splits)
  qed
qed (use assms(1) in \<open>auto simp: allocateIP_def stored_def\<close>)

lemma gw_process_addr:
  assumes "gw_process G hostName cniIP gw op s = (s', result, requeue)" "op \<noteq> OpDelete" "pool_ok (gl_pool G) alloc"
  shows "addr_step (gg_ips gw) (alloc (gn_pool s)) (gg_ips (stored gw result)) (alloc (gn_pool s'))"
  using assms(1,2) allocateIP_addr [OF _ assms(3)] by (auto simp: gw_process_def stored_def split: if_splits)

lemma gw_delete_addr:
  assumes "gw_process G hostName cniIP gw OpDelete s = (s', result, requeue)" "pool_ok (gl_pool G) alloc"
  shows "addr_step (gg_ips gw) (alloc (gn_pool s)) {} (alloc (gn_pool s'))"
  using assms(1) pool_releases [OF assms(2), of "[gg_globalIP gw]" "gn_pool s"]
  by (auto simp: gw_process_def gg_ips_def split: if_splits)

section \<open>Runs\<close>

text \<open>
  The objects of the cluster, by key, and the controllers with the pool. An object that is being deleted stays until its deletion
  was processed; \<open>sys_flushed\<close> has the keys of the GlobalEgressIPs whose addresses have been released while their deletion is to be
  processed again. Such an object has no addresses any more; a new one may take its place. \<open>sys_foreign\<close> is not part of the program: it
  records that a deletion released an address of another object. A step is a change of the specification of an object by a user, or the processing of an object by its
  controller, whose result is written before the object is processed again. A nil-pointer panic ends the process and
  gives no step.
\<close>

datatype owner = EgressOwner string | ClusterOwner | IngressOwner string | GatewayOwner string

record ('p, 'k) gnSystem =
  sys_state :: "('p, 'k) gnState"
  sys_egress :: "string \<rightharpoonup> GlobalEgressIP"
  sys_flushed :: "string set"
  sys_foreign :: bool
  sys_cluster :: "ClusterGlobalEgressIP option"
  sys_ingress :: "string \<rightharpoonup> GlobalIngressIP"
  sys_gateway :: "string \<rightharpoonup> gnGateway"

fun owned :: "('p, 'k) gnSystem \<Rightarrow> owner \<Rightarrow> string set" where
  "owned S (EgressOwner key) = (case sys_egress S key of None \<Rightarrow> {} | Some ge \<Rightarrow> if key \<in> sys_flushed S then {} else ge_ips ge)"
| "owned S ClusterOwner = (case sys_cluster S of None \<Rightarrow> {} | Some cge \<Rightarrow> cge_ips cge)"
| "owned S (IngressOwner key) = (case sys_ingress S key of None \<Rightarrow> {} | Some gi \<Rightarrow> gi_ips gi)"
| "owned S (GatewayOwner name) = (case sys_gateway S name of None \<Rightarrow> {} | Some gw \<Rightarrow> gg_ips gw)"

text \<open>\<open>unless_done\<close>: a deletion that has to be processed again keeps its object.\<close>

definition unless_done :: "bool \<Rightarrow> 'o \<Rightarrow> 'o option" where
  "unless_done requeue obj = (if requeue then Some obj else None)"

text \<open>
  A deletion that releases an address of another object. It can only be that of an object without addresses, which takes those of
  its pod watcher, or one that is processed again after its addresses were released.
\<close>

definition releases_foreign :: "('p, 'k) gnLibs \<Rightarrow> ('p, 'k) gnSystem \<Rightarrow> string \<Rightarrow> bool" where
  "releases_foreign G S key \<longleftrightarrow> (case sys_egress S key of None \<Rightarrow> False
     | Some ge \<Rightarrow> (ges_AllocatedIPs (ge_Status ge) = [] \<or> key \<in> sys_flushed S) \<and>
         (\<exists>ow. ow \<noteq> EgressOwner key \<and> set (deletion_releases G ge (sys_state S)) \<inter> owned S ow \<noteq> {}))"

inductive gn_step :: "('p, 'k) gnLibs \<Rightarrow> 'k serviceAPI \<Rightarrow> string list \<Rightarrow> string \<Rightarrow> string \<Rightarrow>
    ('p, 'k) gnSystem \<Rightarrow> ('p, 'k) gnSystem \<Rightarrow> bool" for G A subnets hostName cniIP where
  egress_edited: "ges_AllocatedIPs (ge_Status ge) = (case sys_egress S key of None \<Rightarrow> []
      | Some ge0 \<Rightarrow> if key \<in> sys_flushed S then [] else ges_AllocatedIPs (ge_Status ge0)) \<Longrightarrow>
    gn_step G A subnets hostName cniIP S
      (S\<lparr>sys_egress := (sys_egress S)(key \<mapsto> ge), sys_flushed := sys_flushed S - {key}\<rparr>)"
| egress_processed: "sys_egress S key = Some ge \<Longrightarrow> op \<noteq> OpDelete \<Longrightarrow> key \<notin> sys_flushed S \<Longrightarrow>
    ge_process G ge r op (sys_state S) = Some (s', result, requeue) \<Longrightarrow>
    gn_step G A subnets hostName cniIP S (S\<lparr>sys_state := s', sys_egress := (sys_egress S)(key \<mapsto> stored ge result)\<rparr>)"
| egress_deleted: "sys_egress S key = Some ge \<Longrightarrow>
    ge_process G ge r OpDelete (sys_state S) = Some (s', result, requeue) \<Longrightarrow>
    gn_step G A subnets hostName cniIP S
      (S\<lparr>sys_state := s', sys_egress := (sys_egress S)(key := unless_done requeue ge),
         sys_flushed := (if \<not> requeue then sys_flushed S - {key}
           else if rules_removed G r ge (sys_state S) then insert key (sys_flushed S) else sys_flushed S),
         sys_foreign := sys_foreign S \<or> releases_foreign G S key\<rparr>)"
| cluster_edited: "ges_AllocatedIPs (cge_Status cge) =
      (case sys_cluster S of None \<Rightarrow> [] | Some cge0 \<Rightarrow> ges_AllocatedIPs (cge_Status cge0)) \<Longrightarrow>
    gn_step G A subnets hostName cniIP S (S\<lparr>sys_cluster := Some cge\<rparr>)"
| cluster_processed: "sys_cluster S = Some cge \<Longrightarrow> op \<noteq> OpDelete \<Longrightarrow>
    cge_process G subnets cge r op (sys_state S) = (s', result, requeue) \<Longrightarrow>
    gn_step G A subnets hostName cniIP S (S\<lparr>sys_state := s', sys_cluster := Some (stored cge result)\<rparr>)"
| cluster_deleted: "sys_cluster S = Some cge \<Longrightarrow>
    cge_process G subnets cge r OpDelete (sys_state S) = (s', result, requeue) \<Longrightarrow>
    gn_step G A subnets hostName cniIP S (S\<lparr>sys_state := s', sys_cluster := unless_done requeue cge\<rparr>)"
| ingress_created: "sys_ingress S key = None \<Longrightarrow> gi_AllocatedIP gi = [] \<Longrightarrow>
    gn_step G A subnets hostName cniIP S (S\<lparr>sys_ingress := (sys_ingress S)(key \<mapsto> gi)\<rparr>)"
| ingress_processed: "sys_ingress S key = Some gi \<Longrightarrow> op \<noteq> OpDelete \<Longrightarrow>
    sa_GetIngressIP A (gi_Namespace gi) (gi_Name gi) (gn_host (sys_state S)) \<in> {Inr gi} \<union> range Inl \<Longrightarrow>
    gi_process G A gi r op (sys_state S) = Some (s', result, requeue) \<Longrightarrow>
    gn_step G A subnets hostName cniIP S (S\<lparr>sys_state := s', sys_ingress := (sys_ingress S)(key \<mapsto> stored gi result)\<rparr>)"
| ingress_deleted: "sys_ingress S key = Some gi \<Longrightarrow>
    gi_process G A gi r OpDelete (sys_state S) = Some (s', result, requeue) \<Longrightarrow>
    gn_step G A subnets hostName cniIP S (S\<lparr>sys_state := s', sys_ingress := (sys_ingress S)(key := unless_done requeue gi)\<rparr>)"
| gateway_created: "sys_gateway S name = None \<Longrightarrow> gg_globalIP gw = [] \<Longrightarrow>
    gn_step G A subnets hostName cniIP S (S\<lparr>sys_gateway := (sys_gateway S)(name \<mapsto> gw)\<rparr>)"
| gateway_processed: "sys_gateway S name = Some gw \<Longrightarrow> op \<noteq> OpDelete \<Longrightarrow>
    gw_process G hostName cniIP gw op (sys_state S) = (s', result, requeue) \<Longrightarrow>
    gn_step G A subnets hostName cniIP S (S\<lparr>sys_state := s', sys_gateway := (sys_gateway S)(name \<mapsto> stored gw result)\<rparr>)"
| gateway_deleted: "sys_gateway S name = Some gw \<Longrightarrow>
    gw_process G hostName cniIP gw OpDelete (sys_state S) = (s', result, requeue) \<Longrightarrow>
    gn_step G A subnets hostName cniIP S (S\<lparr>sys_state := s', sys_gateway := (sys_gateway S)(name := None)\<rparr>)"

definition addresses_inv :: "('p \<Rightarrow> string set) \<Rightarrow> ('p, 'k) gnSystem \<Rightarrow> bool" where
  "addresses_inv alloc S \<longleftrightarrow> (\<forall>o1. owned S o1 \<subseteq> alloc (gn_pool (sys_state S))) \<and>
     (\<forall>o1 o2. o1 \<noteq> o2 \<longrightarrow> owned S o1 \<inter> owned S o2 = {})"

text \<open>A transaction of one owner keeps the invariant.\<close>

lemma addr_step_inv:
  assumes inv: "addresses_inv alloc S"
    and step: "addr_step (owned S ow) (alloc (gn_pool (sys_state S))) (owned S' ow) (alloc (gn_pool (sys_state S')))"
    and frame: "\<And>o2. o2 \<noteq> ow \<Longrightarrow> owned S' o2 = owned S o2"
  shows "addresses_inv alloc S'"
proof -
  have sub: "owned S o1 \<subseteq> alloc (gn_pool (sys_state S))" for o1 using inv unfolding addresses_inv_def by blast
  have dis: "owned S o1 \<inter> owned S o2 = {}" if "o1 \<noteq> o2" for o1 o2 using inv that unfolding addresses_inv_def by blast
  from step sub have new: "owned S' ow \<subseteq> alloc (gn_pool (sys_state S'))"
    "owned S' ow \<inter> (alloc (gn_pool (sys_state S)) - owned S ow) = {}"
    "alloc (gn_pool (sys_state S)) - owned S ow \<subseteq> alloc (gn_pool (sys_state S'))"
    unfolding addr_step_def by auto
  have other: "owned S o2 \<subseteq> alloc (gn_pool (sys_state S)) - owned S ow" if "o2 \<noteq> ow" for o2
    using sub [of o2] dis [OF that] by blast
  show ?thesis
    unfolding addresses_inv_def
  proof (intro conjI allI impI)
    fix o1
    show "owned S' o1 \<subseteq> alloc (gn_pool (sys_state S'))"
    proof (cases "o1 = ow")
      case False
      then show ?thesis using frame [OF False] other [OF False] new(3) by simp
    qed (simp add: new(1))
  next
    fix o1 o2 :: owner
    assume ne: "o1 \<noteq> o2"
    consider "o1 = ow" "o2 \<noteq> ow" | "o2 = ow" "o1 \<noteq> ow" | "o1 \<noteq> ow" "o2 \<noteq> ow" using ne by blast
    then show "owned S' o1 \<inter> owned S' o2 = {}"
    proof cases
      case 1
      then show ?thesis using frame [OF 1(2)] other [OF 1(2)] new(2) by auto
    next
      case 2
      then show ?thesis using frame [OF 2(2)] other [OF 2(2)] new(2) by auto
    next
      case 3
      then show ?thesis using frame [OF 3(1)] frame [OF 3(2)] dis [OF ne] by simp
    qed
  qed
qed

lemma owned_frame:
  "ow \<noteq> EgressOwner key \<Longrightarrow> F - {key} = sys_flushed S - {key} \<Longrightarrow>
    owned (S\<lparr>sys_state := s', sys_egress := (sys_egress S)(key := x), sys_flushed := F\<rparr>) ow = owned S ow"
  "owned (S\<lparr>sys_foreign := b\<rparr>) ow = owned S ow"
  "ow \<noteq> ClusterOwner \<Longrightarrow> owned (S\<lparr>sys_state := s', sys_cluster := y\<rparr>) ow = owned S ow"
  "ow \<noteq> IngressOwner key \<Longrightarrow> owned (S\<lparr>sys_state := s', sys_ingress := (sys_ingress S)(key := z)\<rparr>) ow = owned S ow"
  "ow \<noteq> GatewayOwner key \<Longrightarrow> owned (S\<lparr>sys_state := s', sys_gateway := (sys_gateway S)(key := w)\<rparr>) ow = owned S ow"
  by (cases ow; auto split: option.split)+

text \<open>A release that touches nobody's addresses.\<close>

lemma release_inv:
  assumes inv: "addresses_inv alloc S" and own: "owned S' ow = {}" and frame: "\<And>o2. o2 \<noteq> ow \<Longrightarrow> owned S' o2 = owned S o2"
    and pool: "alloc (gn_pool (sys_state S)) - R \<subseteq> alloc (gn_pool (sys_state S'))"
    and foreign: "\<And>o2. o2 \<noteq> ow \<Longrightarrow> R \<inter> owned S o2 = {}"
  shows "addresses_inv alloc S'"
  unfolding addresses_inv_def
proof (intro conjI allI impI)
  fix o1 :: owner
  have "owned S o1 \<subseteq> alloc (gn_pool (sys_state S))" using inv by (simp add: addresses_inv_def)
  then show "owned S' o1 \<subseteq> alloc (gn_pool (sys_state S'))"
    using own frame [of o1] foreign [of o1] pool by (cases "o1 = ow") auto
next
  fix o1 o2 :: owner
  assume "o1 \<noteq> o2"
  then show "owned S' o1 \<inter> owned S' o2 = {}"
    using inv own frame [of o1] frame [of o2] unfolding addresses_inv_def by (cases "o1 = ow"; cases "o2 = ow") auto
qed

lemma egress_deleted_inv:
  assumes inv: "addresses_inv alloc S" and ge: "sys_egress S key = Some ge" and pool: "pool_ok (gl_pool G) alloc"
    and del: "ge_process G ge r OpDelete (sys_state S) = Some (s', result, requeue)" and no: "\<not> releases_foreign G S key"
    and S': "S' = S\<lparr>sys_state := s', sys_egress := (sys_egress S)(key := unless_done requeue ge),
         sys_flushed := (if \<not> requeue then sys_flushed S - {key}
           else if rules_removed G r ge (sys_state S) then insert key (sys_flushed S) else sys_flushed S), sys_foreign := b\<rparr>"
  shows "addresses_inv alloc S'"
proof -
  let ?R = "set (deletion_releases G ge (sys_state S))"
  note p = ge_delete_pool [OF del pool]
  have frame: "owned S' o2 = owned S o2" if "o2 \<noteq> EgressOwner key" for o2
    unfolding S' owned_frame(2) by (rule owned_frame(1) [OF that]) auto
  show ?thesis
  proof (cases "rules_removed G r ge (sys_state S)")
    case False
    with p have "requeue" "gn_pool s' = gn_pool (sys_state S)" by simp_all
    moreover from this False have "owned S' (EgressOwner key) = owned S (EgressOwner key)"
      by (simp add: S' ge unless_done_def)
    ultimately show ?thesis
      by (intro addr_step_inv [OF inv, where ow = "EgressOwner key"] frame) (simp_all add: S')
  next
    case True
    have own: "owned S' (EgressOwner key) = {}" using True by (simp add: S' unless_done_def)
    have rel: "alloc (gn_pool (sys_state S)) - ?R \<subseteq> alloc (gn_pool (sys_state S'))" using p True by (simp add: S')
    have "?R \<inter> owned S o2 = {}" if "o2 \<noteq> EgressOwner key" for o2
    proof (cases "ges_AllocatedIPs (ge_Status ge) = [] \<or> key \<in> sys_flushed S")
      case True
      with no ge that show ?thesis by (auto simp: releases_foreign_def)
    next
      case False
      then have "?R = owned S (EgressOwner key)" using ge by (simp add: deletion_releases_def)
      with inv that show ?thesis unfolding addresses_inv_def by metis
    qed
    from release_inv [OF inv own frame rel this] show ?thesis .
  qed
qed

lemma gn_step_inv:
  assumes "gn_step G A subnets hostName cniIP S S'" "addresses_inv alloc S"
    "pool_ok (gl_pool G) alloc" "deep_equal G A"
  shows "sys_foreign S' \<or> addresses_inv alloc S'"
  using assms(1)
proof cases
  case (egress_edited ge key)
  let ?S = "S\<lparr>sys_state := sys_state S, sys_egress := (sys_egress S)(key \<mapsto> ge), sys_flushed := sys_flushed S - {key}\<rparr>"
  have "owned ?S ow = owned S ow" if "ow \<noteq> EgressOwner key" for ow by (rule owned_frame(1) [OF that]) auto
  then have "addresses_inv alloc ?S"
    by (rule addr_step_inv [OF assms(2), where ow = "EgressOwner key", rotated]) (auto simp: egress_edited(2) split: option.splits)
  then show ?thesis using egress_edited(1) by simp
next
  case (egress_processed key ge op r s' result requeue)
  let ?S = "S\<lparr>sys_state := s', sys_egress := (sys_egress S)(key \<mapsto> stored ge result), sys_flushed := sys_flushed S\<rparr>"
  have "owned ?S ow = owned S ow" if "ow \<noteq> EgressOwner key" for ow by (rule owned_frame(1) [OF that]) auto
  moreover have "addr_step (owned S (EgressOwner key)) (alloc (gn_pool (sys_state S))) (owned ?S (EgressOwner key)) (alloc (gn_pool (sys_state ?S)))"
    using ge_process_addr [OF egress_processed(5,3) assms(3,4)] egress_processed(2,4) by simp
  ultimately have "addresses_inv alloc ?S" using addr_step_inv [OF assms(2)] by blast
  then show ?thesis using egress_processed(1) by simp
next
  case (egress_deleted key ge r s' result requeue)
  show ?thesis
  proof (cases "releases_foreign G S key")
    case False
    from egress_deleted_inv [OF assms(2) egress_deleted(2) assms(3) egress_deleted(3) False egress_deleted(1)] show ?thesis by simp
  qed (simp add: egress_deleted(1))
next
  case (cluster_edited cge)
  have "addresses_inv alloc (S\<lparr>sys_state := sys_state S, sys_cluster := Some cge\<rparr>)"
    by (rule addr_step_inv [OF assms(2), where ow = ClusterOwner, OF _ owned_frame(3)])
      (simp_all add: cluster_edited(2) split: option.splits)
  then show ?thesis using cluster_edited(1) by simp
next
  case (cluster_processed cge op r s' result requeue)
  show ?thesis unfolding cluster_processed(1)
    by (rule disjI2, rule addr_step_inv [OF assms(2), where ow = ClusterOwner, OF _ owned_frame(3)])
      (simp_all add: cluster_processed(2) cge_process_addr [OF cluster_processed(4,3) assms(3,4)])
next
  case (cluster_deleted cge r s' result requeue)
  show ?thesis unfolding cluster_deleted(1)
    by (rule disjI2, rule addr_step_inv [OF assms(2), where ow = ClusterOwner, OF _ owned_frame(3)])
      (use cge_delete_addr [OF cluster_deleted(3) assms(3)] in
        \<open>simp_all add: cluster_deleted(2) unless_done_def split: if_splits\<close>)
next
  case (ingress_created key gi)
  have "addresses_inv alloc (S\<lparr>sys_state := sys_state S, sys_ingress := (sys_ingress S)(key \<mapsto> gi)\<rparr>)"
    by (rule addr_step_inv [OF assms(2), where ow = "IngressOwner key", OF _ owned_frame(4)])
      (simp_all add: ingress_created(2,3) gi_ips_def)
  then show ?thesis using ingress_created(1) by simp
next
  case (ingress_processed key gi op r s' result requeue)
  show ?thesis unfolding ingress_processed(1)
    by (rule disjI2, rule addr_step_inv [OF assms(2), where ow = "IngressOwner key", OF _ owned_frame(4)])
      (simp_all add: ingress_processed(2) gi_process_addr [OF ingress_processed(5,3,4) assms(3,4)])
next
  case (ingress_deleted key gi r s' result requeue)
  show ?thesis unfolding ingress_deleted(1)
    by (rule disjI2, rule addr_step_inv [OF assms(2), where ow = "IngressOwner key", OF _ owned_frame(4)])
      (use gi_onDelete_addr [OF gi_process_delete [OF ingress_deleted(3)] assms(3)] in
        \<open>simp_all add: ingress_deleted(2) unless_done_def split: if_splits\<close>)
next
  case (gateway_created name gw)
  have "addresses_inv alloc (S\<lparr>sys_state := sys_state S, sys_gateway := (sys_gateway S)(name \<mapsto> gw)\<rparr>)"
    by (rule addr_step_inv [OF assms(2), where ow = "GatewayOwner name", OF _ owned_frame(5)])
      (simp_all add: gateway_created(2,3) gg_ips_def)
  then show ?thesis using gateway_created(1) by simp
next
  case (gateway_processed name gw op s' result requeue)
  show ?thesis unfolding gateway_processed(1)
    by (rule disjI2, rule addr_step_inv [OF assms(2), where ow = "GatewayOwner name", OF _ owned_frame(5)])
      (simp_all add: gateway_processed(2) gw_process_addr [OF gateway_processed(4,3) assms(3)])
next
  case (gateway_deleted name gw s' result requeue)
  show ?thesis unfolding gateway_deleted(1)
    by (rule disjI2, rule addr_step_inv [OF assms(2), where ow = "GatewayOwner name", OF _ owned_frame(5)])
      (use gw_delete_addr [OF gateway_deleted(3) assms(3)] in \<open>simp_all add: gateway_deleted(2)\<close>)
qed

lemma gn_step_foreign: "gn_step G A subnets hostName cniIP S S' \<Longrightarrow> sys_foreign S \<Longrightarrow> sys_foreign S'"
  by (erule gn_step.cases) simp_all

lemma gn_steps_inv:
  assumes "(gn_step G A subnets hostName cniIP)\<^sup>*\<^sup>* S S'" "addresses_inv alloc S" "pool_ok (gl_pool G) alloc" "deep_equal G A"
  shows "sys_foreign S' \<or> addresses_inv alloc S'"
  using assms(1)
  by (induction rule: rtranclp_induct) (use assms(2) gn_step_inv [OF _ _ assms(3,4)] gn_step_foreign in blast)+

section \<open>An instance of the parameters\<close>

text \<open>
  A pool whose state lists the addresses in use, named sets and a start of watchers that succeed, and the condition list of
  \<open>apimachinery\<close>: a condition replaces the one of its type.
\<close>

definition ref_pool :: "string list \<Rightarrow> string list ipPool" where
  "ref_pool ips = \<lparr>ip_Allocate = (\<lambda>n used.
       let free = filter (\<lambda>ip. ip \<notin> set used) ips in
       if int (length free) < n then (used, Inl (Err ''insufficient IPs available for allocation''))
       else (used @ take (nat n) free, Inr (take (nat n) free))),
     ip_Release = (\<lambda>ips used. (filter (\<lambda>ip. ip \<notin> set ips) used, None)),
     ip_Reserve = (\<lambda>ips used. if list_ex (\<lambda>ip. ip \<in> set used) ips then (used, Some (Err ''already allocated''))
       else (used @ ips, None))\<rparr>"

lemma ref_pool_ok: "pool_ok (ref_pool ips) set"
  unfolding pool_ok_def ref_pool_def
  by (auto simp: Let_def list_ex_iff dest: in_set_takeD split: if_splits)

definition ref_sets :: "'k namedSets" where
  "ref_sets = \<lparr>ns_Create = (\<lambda>_ _ k. (k, None)), ns_Destroy = (\<lambda>_ k. (k, None)), ns_AddEntry = (\<lambda>_ _ _ k. (k, None)),
     ns_DelEntry = (\<lambda>_ _ k. (k, None))\<rparr>"

fun ref_condition :: "Condition \<Rightarrow> Condition list \<Rightarrow> Condition list" where
  "ref_condition c [] = [c]"
| "ref_condition c (d # ds) = (if cond_Type d = cond_Type c then c # ds else d # ref_condition c ds)"

definition ref_libs :: "'k pfDriver \<Rightarrow> string list \<Rightarrow> (string list, 'k) gnLibs" where
  "ref_libs D ips = \<lparr>gl_pool = ref_pool ips, gl_pf = D, gl_sets = ref_sets, gl_sha256 = (\<lambda>s. s),
     gl_key = (\<lambda>ns n. ns @ ''/'' @ n), gl_SetStatusCondition = ref_condition, gl_startWatcher = (\<lambda>_ _ _ _ k. (k, None)),
     gl_statusEqual = (=)\<rparr>"

lemma ref_libs_simps [simp]: "gl_pool (ref_libs D ips) = ref_pool ips"
  by (simp_all add: ref_libs_def)

end
