(* ===== verification/GlobalnetNat.thy ===== *)
theory GlobalnetNat
  imports GlobalAddresses IPTables NFTables
begin

text \<open>
  The translation rules that the Globalnet controllers program and remove, through any driver with the contract
  \<open>nat_driver\<close>, and the two drivers as its interpretations. Programming the rules of an object and removing them leaves every chain
  as it was. A named set, and the packet filter's chains, do not depend on each other (\<open>sets_frame\<close>).
\<close>

definition egress_chain :: "string option \<Rightarrow> string" where
  "egress_chain podSelector = (if podSelector \<noteq> None then SmGlobalnetEgressForPods else SmGlobalnetEgressForNamespace)"

definition egress_rule :: "string \<Rightarrow> string list \<Rightarrow> Rule" where
  "egress_rule namedSet allocatedIPs = set_snat_rule namedSet (getTargetSNATIPaddress allocatedIPs) globalNetIPTableMark"

definition sets_frame :: "'k namedSets \<Rightarrow> ('k \<Rightarrow> bool) \<Rightarrow> (TableType \<Rightarrow> string \<Rightarrow> 'k \<Rightarrow> Rule list) \<Rightarrow> bool" where
  "sets_frame N ok chain \<longleftrightarrow> (\<forall>name b k. ok k \<longrightarrow> ok (fst (ns_Create N name b k)) \<and>
     (\<forall>t c. chain t c (fst (ns_Create N name b k)) = chain t c k))"

lemma apsnd_wrap_None [simp]: "apsnd (wrap m) x = (k', None) \<longleftrightarrow> x = (k', None)"
  by (cases x) simp

context nat_driver
begin

text \<open>A rule that was added and then removed.\<close>

lemma added_removed:
  assumes "inv k" "supported r" "r \<notin> set (chain t c k)"
    "pd_AppendUnique D t c r k = (k1, None)" "pd_Delete D t c r k1 = (k2, None)"
  shows "inv k2 \<and> chain t c k2 = chain t c k \<and> (\<forall>t' c'. c' \<noteq> c \<longrightarrow> chain t' c' k2 = chain t' c' k)"
proof -
  note a = AppendUnique_ok [OF assms(1,2,4)]
  from Delete_ok [OF _ assms(2,5)] a show ?thesis using assms(3) by (auto simp: remove1_append)
qed

lemma egress_programmed:
  assumes "inv k" "supported (egress_rule set' ips)" "sets_frame (gl_sets G) inv chain" "gl_pf G = D"
    "programGlobalEgressRules G key ips sel set' k = (k', None)"
  obtains k1 where "inv k1" "\<forall>t c. chain t c k1 = chain t c k"
    "pd_AppendUnique D TableTypeNAT (egress_chain sel) (egress_rule set' ips) k1 = (k', None)"
proof -
  obtain k1 where c: "ns_Create (gl_sets G) set' True k = (k1, None)"
    using assms(5) by (auto simp: programGlobalEgressRules_def split: prod.splits option.splits)
  with assms(1,3) have "inv k1" "\<forall>t c. chain t c k1 = chain t c k" unfolding sets_frame_def by (metis fst_conv)+
  moreover have "pd_AppendUnique D TableTypeNAT (egress_chain sel) (egress_rule set' ips) k1 = (k', None)"
    using assms(4,5) c by (auto simp: programGlobalEgressRules_def AddEgressRulesForPods_def AddEgressRulesForNamespace_def
        egress_chain_def egress_rule_def Let_def split: prod.splits option.splits if_splits)
  ultimately show thesis by (rule that)
qed

lemma egress_flushed:
  assumes "gl_pf G = D" "flush_egress_rules G key set' sel ips k = (k', None)"
  shows "pd_Delete D TableTypeNAT (egress_chain sel) (egress_rule set' ips) k = (k', None)"
  using assms by (auto simp: flush_egress_rules_def RemoveEgressRulesForPods_def RemoveEgressRulesForNamespace_def
      egress_chain_def egress_rule_def split: if_splits)

lemma egress_round_trip:
  assumes "inv k" "supported (egress_rule set' ips)" "sets_frame (gl_sets G) inv chain" "gl_pf G = D"
    "egress_rule set' ips \<notin> set (chain TableTypeNAT (egress_chain sel) k)"
    "programGlobalEgressRules G key ips sel set' k = (k1, None)"
    "flush_egress_rules G key set' sel ips k1 = (k2, None)"
  shows "egress_rule set' ips \<in> set (chain TableTypeNAT (egress_chain sel) k1) \<and>
    chain TableTypeNAT c k2 = chain TableTypeNAT c k"
proof -
  obtain k0 where k0: "inv k0" "\<forall>t c. chain t c k0 = chain t c k"
    "pd_AppendUnique D TableTypeNAT (egress_chain sel) (egress_rule set' ips) k0 = (k1, None)"
    by (rule egress_programmed [OF assms(1-4,6)])
  have "egress_rule set' ips \<in> set (chain TableTypeNAT (egress_chain sel) k1)"
    using AppendUnique_ok [OF k0(1) assms(2) k0(3)] by auto
  moreover have "chain TableTypeNAT c k2 = chain TableTypeNAT c k"
    using added_removed [OF k0(1) assms(2) _ k0(3) egress_flushed [OF assms(4,7)]] assms(5) k0(2)
    by (cases "c = egress_chain sel") auto
  ultimately show ?thesis ..
qed

lemma headless_round_trip:
  assumes "inv k" "gl_pf G = D" "headless_target (gi_Target gi) = (akey, tType)" "akey \<noteq> []"
    "supported (dnat_rule ip target)" "supported (snat_rule target ip globalNetIPTableMark)"
    "dnat_rule ip target \<notin> set (chain TableTypeNAT SmGlobalnetIngress k)"
    "snat_rule target ip globalNetIPTableMark \<notin> set (chain TableTypeNAT (headless_chain tType) k)"
    "annotation gi akey = target" "target \<noteq> []" "gi_AllocatedIP gi = ip" "ip \<noteq> []"
    "program_headless G key ip target tType k = (k1, None)" "remove_headless G key gi ips k1 = (k2, None)"
  shows "dnat_rule ip target \<in> set (chain TableTypeNAT SmGlobalnetIngress k1) \<and>
    snat_rule target ip globalNetIPTableMark \<in> set (chain TableTypeNAT (headless_chain tType) k1) \<and>
    chain TableTypeNAT c k2 = chain TableTypeNAT c k"
proof -
  let ?d = "dnat_rule ip target" and ?r = "snat_rule target ip globalNetIPTableMark"
  let ?c = SmGlobalnetIngress and ?e = "headless_chain tType"
  have ne: "?c \<noteq> ?e" by (auto simp: headless_chain_def gn_chains)
  from assms(2,13,10,12) obtain a1 where p: "pd_AppendUnique D TableTypeNAT ?c ?d k = (a1, None)"
      "pd_AppendUnique D TableTypeNAT ?e ?r a1 = (k1, None)"
    by (auto simp: program_headless_def AddIngressRulesForHeadlessSvc_def AddEgressRulesForHeadlessSvc_def appendNATRule_def
        split: prod.splits option.splits)
  from assms(2-4,9-12,14) obtain b1 where d: "pd_Delete D TableTypeNAT ?c ?d k1 = (b1, None)"
      "pd_Delete D TableTypeNAT ?e ?r b1 = (k2, None)"
    by (auto simp: remove_headless_def RemoveIngressRulesForHeadlessSvc_def RemoveEgressRulesForHeadlessSvc_def
        deleteNATRule_def Let_def split: prod.splits option.splits)
  note s1 = AppendUnique_ok [OF assms(1,5) p(1)]
  then have s2: "inv k1" "chain TableTypeNAT ?e k1 = chain TableTypeNAT ?e k @ [?r]"
      "\<forall>c'. c' \<noteq> ?e \<longrightarrow> chain TableTypeNAT c' k1 = chain TableTypeNAT c' a1"
    using AppendUnique_ok [OF _ assms(6) p(2)] assms(8) ne by auto
  note s3 = Delete_ok [OF s2(1) assms(5) d(1)]
  then have s4: "chain TableTypeNAT ?e k2 = remove1 ?r (chain TableTypeNAT ?e b1)"
      "\<forall>c'. c' \<noteq> ?e \<longrightarrow> chain TableTypeNAT c' k2 = chain TableTypeNAT c' b1"
    using Delete_ok [OF _ assms(6) d(2)] by auto
  have "chain TableTypeNAT c k2 = chain TableTypeNAT c k"
  proof (cases "c = ?e")
    case True
    with s4(1) s3 s2(2) ne assms(8) show ?thesis by (simp add: remove1_append)
  next
    case False
    with s4(2) s3 s2(3) s1 ne assms(7) show ?thesis by (cases "c = ?c") (auto simp: remove1_append)
  qed
  moreover have "?d \<in> set (chain TableTypeNAT ?c k1)" using s1 s2(3) ne by auto
  ultimately show ?thesis using s2(2) by simp
qed

end

section \<open>The drivers\<close>

lemma nft_append_unique_ok:
  assumes ok: "nft_ok N rules" and inv: "nft_inv rules k" and r: "clean_rule r"
    and a: "nft_AppendUnique N v6 c r k = (k', None)"
  shows "nft_inv rules k' \<and>
    nft_chain rules t c k' = (if r \<in> set (nft_chain rules t c k) then nft_chain rules t c k else nft_chain rules t c k @ [r]) \<and>
    (\<forall>t' c'. c' \<noteq> c \<longrightarrow> nft_chain rules t' c' k' = nft_chain rules t' c' k)"
proof -
  from a obtain krs where l: "nft_ListRules N c k = Inr krs"
    by (auto simp: nft_AppendUnique_def getNftablesRuleFromList_def split: sum.split_asm)
  note listed = nft_listed [OF ok inv l]
  have eq: "rule_of (comment_of kr) = r \<longleftrightarrow> SerializeRule r = comment_of kr" if "kr \<in> set krs" for kr
    using listed(1) [OF that] r by (metis rule_of_Serialize)
  have present: "r \<in> set (nft_chain rules t c k) \<longleftrightarrow> (\<exists>kr\<in>set krs. SerializeRule r = comment_of kr)"
    unfolding listed(2) [where t = t, symmetric] set_map image_iff o_apply using eq by metis
  show ?thesis
  proof (cases "find (\<lambda>kr. SerializeRule r = comment_of kr) krs")
    case None
    then have "r \<notin> set (nft_chain rules t c k)" using present by (simp add: find_None_iff)
    moreover from a l None have "insertRuleAtPosition N v6 c r (- 1) k = (k', None)"
      by (simp add: nft_AppendUnique_def getNftablesRuleFromList_def)
    from nft_insert_ok [OF ok inv r _ this, of "length (rules c k)" t]
    have "nft_inv rules k' \<and> nft_chain rules t c k' = nft_chain rules t c k @ [r] \<and>
        (\<forall>t' c'. c' \<noteq> c \<longrightarrow> nft_chain rules t' c' k' = nft_chain rules t' c' k)" by (simp add: nft_chain_def)
    ultimately show ?thesis by simp
  next
    case (Some kr)
    then have "r \<in> set (nft_chain rules t c k)" using present by (auto simp: find_Some_iff)
    moreover have "k' = k" using a l Some by (simp add: nft_AppendUnique_def getNftablesRuleFromList_def)
    ultimately show ?thesis using inv by simp
  qed
qed

lemma nftables_nat_driver:
  assumes ok: "nft_ok N rules"
  shows "nat_driver (nftDriver N v6) (nft_inv rules) (nft_chain rules) clean_rule"
proof (intro nat_driver.intro nftables_chain_driver [OF ok] nat_driver_axioms.intro)
  fix k r t c k' assume "nft_inv rules k" "clean_rule r" "pd_AppendUnique (nftDriver N v6) t c r k = (k', None)"
  then show "nft_inv rules k' \<and>
      nft_chain rules t c k' = (if r \<in> set (nft_chain rules t c k) then nft_chain rules t c k else nft_chain rules t c k @ [r]) \<and>
      (\<forall>t' c'. c' \<noteq> c \<longrightarrow> nft_chain rules t' c' k' = nft_chain rules t' c' k)"
    using nft_append_unique_ok [OF ok] by (simp add: nftDriver_def)
qed

interpretation nft_nat: nat_driver "nftDriver (ref_nft names) v6" "nft_inv ref_rules" "nft_chain ref_rules" clean_rule
  by (rule nftables_nat_driver [OF ref_nft_ok])

text \<open>\<open>iptables\<close> appends a rule specification unless the chain has it.\<close>

definition ipt_appends :: "'k ipt \<Rightarrow> (string \<Rightarrow> string \<Rightarrow> 'k \<Rightarrow> string list list) \<Rightarrow> bool" where
  "ipt_appends I specs \<longleftrightarrow> (\<forall>t c s k k'. ipt_AppendUnique I t c s k = (k', None) \<longrightarrow>
     only_chain specs t c k (if s \<in> set (specs t c k) then specs t c k else specs t c k @ [s]) k')"

lemma iptables_nat_driver:
  assumes ok: "ipt_ok I specs normal" and ap: "ipt_appends I specs"
  shows "nat_driver (iptDriver I) (ipt_inv specs normal) (ipt_chain specs) (ipt_supported normal)"
proof (intro nat_driver.intro iptables_chain_driver [OF ok] nat_driver_axioms.intro)
  fix k r t c k' assume k: "ipt_inv specs normal k" and r: "ipt_supported normal r"
    and a: "pd_AppendUnique (iptDriver I) t c r k = (k', None)"
  let ?ss = "specs (tableTypeToStr t) c k"
  from a supported_action [OF r] have "ipt_AppendUnique I (tableTypeToStr t) c (ToRuleSpec r) k = (k', None)"
    by (auto simp: iptDriver_def AppendUnique_def apsnd_def map_prod_def split: prod.split_asm)
  with ap have o: "only_chain specs (tableTypeToStr t) c k (if ToRuleSpec r \<in> set ?ss then ?ss else ?ss @ [ToRuleSpec r]) k'"
    unfolding ipt_appends_def by blast
  have "r \<in> set (ipt_chain specs t c k) \<longleftrightarrow> ToRuleSpec r \<in> set ?ss"
    unfolding ipt_chain_def set_map image_iff using ipt_inv_chain [OF k r] by metis
  moreover have "FromRuleSpec (ToRuleSpec r) = r" using r by (simp add: ipt_supported_def FromRuleSpec_ToRuleSpec)
  moreover have "ipt_inv specs normal k'" by (rule ipt_inv_only [OF k o]) (use r in auto)
  ultimately show "ipt_inv specs normal k' \<and>
      ipt_chain specs t c k' = (if r \<in> set (ipt_chain specs t c k) then ipt_chain specs t c k else ipt_chain specs t c k @ [r]) \<and>
      (\<forall>t' c'. c' \<noteq> c \<longrightarrow> ipt_chain specs t' c' k' = ipt_chain specs t' c' k)"
    using ipt_chain_only [OF o] by (auto simp: ipt_chain_def)
qed

lemma ref_ipt_appends: "ipt_appends ref_ipt ref_specs"
  unfolding ipt_appends_def by (auto simp: ref_ipt_def dest: ref_update_ok)

interpretation ipt_nat: nat_driver "iptDriver ref_ipt" "ipt_inv ref_specs no_spaces" "ipt_chain ref_specs" "ipt_supported no_spaces"
  by (rule iptables_nat_driver [OF ref_ipt_ok ref_ipt_appends])

section \<open>Round trips\<close>

text \<open>C22: Through the nftables driver, programming the egress rules of an object puts the translation of its named set to its
  addresses into the chain for its kind of selector, and removing the rules leaves every chain as it was before. The rule is
  taken to be new to the chain.\<close>

theorem egress_rules_round_trip:
  assumes "nft_ok N rules" and "nft_inv rules k" and "clean_rule (egress_rule namedSet ips)"
    and "sets_frame (gl_sets G) (nft_inv rules) (nft_chain rules)" and "gl_pf G = nftDriver N v6"
    and "egress_rule namedSet ips \<notin> set (nft_chain rules TableTypeNAT (egress_chain sel) k)"
    and "programGlobalEgressRules G key ips sel namedSet k = (k1, None)"
    and "flush_egress_rules G key namedSet sel ips k1 = (k2, None)"
  shows "egress_rule namedSet ips \<in> set (nft_chain rules TableTypeNAT (egress_chain sel) k1) \<and>
    nft_chain rules TableTypeNAT c k2 = nft_chain rules TableTypeNAT c k"
  by (rule nat_driver.egress_round_trip [OF nftables_nat_driver [OF assms(1)] assms(2-8)])

definition egress_table :: ref_table where
  "egress_table = [SmGlobalnetEgressForPods \<mapsto> [(4, SerializeRule (egress_rule ''SM-GN-A'' [''242.0.0.9'']))],
     SmGlobalnetIngress \<mapsto> [], SmGlobalnetEgressForHeadlessSvcPods \<mapsto> [], SmGlobalnetEgressForNamespace \<mapsto> []]"

definition nft_libs :: "(string list, ref_table) gnLibs" where
  "nft_libs = ref_libs (nftDriver (ref_nft []) False) [''242.0.0.1'', ''242.0.0.2'', ''242.0.0.3'']"

lemma nft_libs_frame: "sets_frame (gl_sets nft_libs) (nft_inv rules) (nft_chain rules)" "gl_pf nft_libs = nftDriver (ref_nft []) False"
  by (simp_all add: nft_libs_def ref_libs_def ref_sets_def sets_frame_def)

lemma egress_table_inv: "nft_inv ref_rules egress_table"
proof -
  have "clean_rule (egress_rule ''SM-GN-A'' [''242.0.0.9''])" by code_simp
  then show ?thesis by (auto simp: nft_inv_def ref_rules_def egress_table_def)
qed

theorem egress_rules_round_trip_witness:
  "let ips = [''242.0.0.1'', ''242.0.0.2''];
       k1 = fst (programGlobalEgressRules nft_libs ''ns/e'' ips (Some ''app=x'') ''SM-GN-B'' egress_table);
       k2 = fst (flush_egress_rules nft_libs ''ns/e'' ''SM-GN-B'' (Some ''app=x'') ips k1) in
   egress_rule ''SM-GN-B'' ips \<in> set (nft_chain ref_rules TableTypeNAT SmGlobalnetEgressForPods k1) \<and>
   nft_chain ref_rules TableTypeNAT SmGlobalnetEgressForPods k2 = [egress_rule ''SM-GN-A'' [''242.0.0.9'']]"
proof -
  let ?ips = "[''242.0.0.1'', ''242.0.0.2'']" and ?sel = "Some ''app=x''"
  let ?p = "programGlobalEgressRules nft_libs ''ns/e'' ?ips ?sel ''SM-GN-B'' egress_table"
  let ?f = "flush_egress_rules nft_libs ''ns/e'' ''SM-GN-B'' ?sel ?ips (fst ?p)"
  have c: "clean_rule (egress_rule ''SM-GN-B'' ?ips)"
    "egress_rule ''SM-GN-B'' ?ips \<notin> set (nft_chain ref_rules TableTypeNAT (egress_chain ?sel) egress_table)" by code_simp+
  have "snd ?p = None" "snd ?f = None" by code_simp+
  then have pf: "?p = (fst ?p, None)" "?f = (fst ?f, None)" by (metis prod.collapse)+
  have e: "nft_chain ref_rules TableTypeNAT SmGlobalnetEgressForPods egress_table = [egress_rule ''SM-GN-A'' [''242.0.0.9'']]"
    by code_simp
  from egress_rules_round_trip [OF ref_nft_ok egress_table_inv c(1) nft_libs_frame c(2) pf, of SmGlobalnetEgressForPods] e
  show ?thesis by (simp add: Let_def egress_chain_def)
qed

text \<open>The same for an ingress address of a headless service: programming it puts the translation to the pod or endpoint and the
  translation of its traffic into their chains, and removing them leaves every chain as it was before.\<close>

theorem headless_rules_round_trip:
  assumes "nft_ok N rules" and "nft_inv rules k" and "gl_pf G = nftDriver N v6"
    and "headless_target (gi_Target gi) = (akey, tType)" and "akey \<noteq> []"
    and "clean_rule (dnat_rule ip target)" and "clean_rule (snat_rule target ip globalNetIPTableMark)"
    and "dnat_rule ip target \<notin> set (nft_chain rules TableTypeNAT SmGlobalnetIngress k)"
    and "snat_rule target ip globalNetIPTableMark \<notin> set (nft_chain rules TableTypeNAT (headless_chain tType) k)"
    and "annotation gi akey = target" and "target \<noteq> []" and "gi_AllocatedIP gi = ip" and "ip \<noteq> []"
    and "program_headless G key ip target tType k = (k1, None)" and "remove_headless G key gi [ip] k1 = (k2, None)"
  shows "dnat_rule ip target \<in> set (nft_chain rules TableTypeNAT SmGlobalnetIngress k1) \<and>
    snat_rule target ip globalNetIPTableMark \<in> set (nft_chain rules TableTypeNAT (headless_chain tType) k1) \<and>
    nft_chain rules TableTypeNAT c k2 = nft_chain rules TableTypeNAT c k"
  by (rule nat_driver.headless_round_trip [OF nftables_nat_driver [OF assms(1)] assms(2-15)])

definition pod_ingress :: GlobalIngressIP where
  "pod_ingress = (new_ingress ''ns'' ''pod-web-0'')\<lparr>gi_Target := HeadlessServicePod, gi_PodRef := Some ''web-0'',
     gi_Annotations := [headlessSvcPodIP \<mapsto> ''10.1.0.7''], gi_AllocatedIP := ''242.0.0.1''\<rparr>"

theorem headless_rules_round_trip_witness:
  "let k1 = fst (program_headless nft_libs ''ns/pod-web-0'' ''242.0.0.1'' ''10.1.0.7'' PodTarget egress_table);
       k2 = fst (remove_headless nft_libs ''ns/pod-web-0'' pod_ingress [''242.0.0.1''] k1) in
   dnat_rule ''242.0.0.1'' ''10.1.0.7'' \<in> set (nft_chain ref_rules TableTypeNAT SmGlobalnetIngress k1) \<and>
   nft_chain ref_rules TableTypeNAT SmGlobalnetIngress k2 = []"
proof -
  let ?p = "program_headless nft_libs ''ns/pod-web-0'' ''242.0.0.1'' ''10.1.0.7'' PodTarget egress_table"
  let ?f = "remove_headless nft_libs ''ns/pod-web-0'' pod_ingress [''242.0.0.1''] (fst ?p)"
  have c: "headless_target (gi_Target pod_ingress) = (headlessSvcPodIP, PodTarget)" "headlessSvcPodIP \<noteq> []"
    "clean_rule (dnat_rule ''242.0.0.1'' ''10.1.0.7'')"
    "clean_rule (snat_rule ''10.1.0.7'' ''242.0.0.1'' globalNetIPTableMark)"
    "dnat_rule ''242.0.0.1'' ''10.1.0.7'' \<notin> set (nft_chain ref_rules TableTypeNAT SmGlobalnetIngress egress_table)"
    "snat_rule ''10.1.0.7'' ''242.0.0.1'' globalNetIPTableMark \<notin>
      set (nft_chain ref_rules TableTypeNAT (headless_chain PodTarget) egress_table)"
    "annotation pod_ingress headlessSvcPodIP = ''10.1.0.7''" "''10.1.0.7'' \<noteq> []"
    "gi_AllocatedIP pod_ingress = ''242.0.0.1''" "''242.0.0.1'' \<noteq> []" by code_simp+
  have "snd ?p = None" "snd ?f = None" by code_simp+
  then have pf: "?p = (fst ?p, None)" "?f = (fst ?f, None)" by (metis prod.collapse)+
  have e: "nft_chain ref_rules TableTypeNAT SmGlobalnetIngress egress_table = []" by code_simp
  from headless_rules_round_trip [OF ref_nft_ok egress_table_inv nft_libs_frame(2) c pf, of SmGlobalnetIngress] e
  show ?thesis by (simp add: Let_def)
qed

end
