(* ===== verification/GlobalnetProps.thy ===== *)
theory GlobalnetProps
  imports GlobalnetNat
begin

text \<open>
  Properties of the Globalnet controllers that allocate addresses: no two objects share a global address, in every run and
  after a restart; and two ways in which the deletion of a GlobalEgressIP goes wrong.
\<close>

section \<open>A small cluster\<close>

definition ref_services :: "'k serviceAPI" where
  "ref_services = \<lparr>sa_Get = (\<lambda>_ _ _. Inr None), sa_CreateOrUpdate = (\<lambda>_ k. (k, None)), sa_RemoveFinalizer = (\<lambda>_ _ k. (k, None)),
     sa_Delete = (\<lambda>_ _ k. (k, None)), sa_IsNotFound = (\<lambda>_. False), sa_GetIngressIP = (\<lambda>_ _ _. Inl (Err ''unavailable'')),
     sa_ingressEqual = (\<lambda>gi gi'. gi_AllocatedIP gi = gi_AllocatedIP gi' \<and> gi_Conditions gi = gi_Conditions gi')\<rparr>"

lemma nft_libs_ok: "pool_ok (gl_pool nft_libs) set" "deep_equal nft_libs ref_services"
  by (simp_all add: nft_libs_def ref_pool_ok deep_equal_def ref_services_def) (simp add: ref_libs_def)

definition new_egress :: "string \<Rightarrow> int \<Rightarrow> string list \<Rightarrow> GlobalEgressIP" where
  "new_egress name n ips = \<lparr>ge_Namespace = ''ns'', ge_Name = name, ge_NumberOfIPs = Some n, ge_PodSelector = None,
     ge_Status = \<lparr>ges_Conditions = [], ges_AllocatedIPs = ips\<rparr>\<rparr>"

definition idle_state :: "(string list, ref_table) gnState" where
  "idle_state = \<lparr>gn_pool = [], gn_host = egress_table, gn_podWatchers = Map.empty\<rparr>"

section \<open>No address has two owners\<close>







section \<open>After a restart\<close>

lemma reserve_addr:
  assumes "reserveAllocatedIPs G distribute allocated clear post obj s = (s', obj', e)" "pool_ok (gl_pool G) alloc"
    "allocated (clear obj) = []"
  shows "alloc (gn_pool s) \<subseteq> alloc (gn_pool s') \<and> set (allocated obj') \<subseteq> alloc (gn_pool s') \<and>
    set (allocated obj') \<inter> alloc (gn_pool s) = {}"
proof (cases "ip_Reserve (gl_pool G) (allocated obj) (gn_pool s)")
  case (Pair p r)
  show ?thesis
  proof (cases r)
    case None
    with Pair have "ip_Reserve (gl_pool G) (allocated obj) (gn_pool s) = (p, None)" by simp
    from pool_Reserve [OF assms(2) this] assms(1) Pair None show ?thesis
      by (auto simp: reserveAllocatedIPs_def Let_def split: if_splits prod.splits)
  next
    case (Some err)
    with Pair have "ip_Reserve (gl_pool G) (allocated obj) (gn_pool s) = (p, Some err)" by simp
    from pool_Reserve_fail [OF assms(2) this] assms(1,3) Pair Some show ?thesis
      by (auto simp: reserveAllocatedIPs_def Let_def split: prod.splits)
  qed
qed

definition reserved_apart :: "('o \<Rightarrow> string set) \<Rightarrow> 'o list \<Rightarrow> string set \<Rightarrow> string set \<Rightarrow> bool" where
  "reserved_apart ips objs a a' \<longleftrightarrow> a \<subseteq> a' \<and> sorted_wrt (\<lambda>x y. ips x \<inter> ips y = {}) objs \<and>
     (\<forall>x\<in>set objs. ips x \<subseteq> a' \<and> ips x \<inter> a = {})"

lemma reserved_apart_append:
  assumes "reserved_apart ips xs a a1" "reserved_apart ips ys a1 a2"
  shows "reserved_apart ips (xs @ ys) a a2"
proof -
  have "ips x \<inter> ips y = {}" if "x \<in> set xs" "y \<in> set ys" for x y
  proof -
    have "ips x \<subseteq> a1" "ips y \<inter> a1 = {}" using assms that unfolding reserved_apart_def by simp_all
    then show ?thesis by blast
  qed
  moreover have "ips x \<subseteq> a2 \<and> ips x \<inter> a = {}" if "x \<in> set xs \<union> set ys" for x
  proof -
    have "a \<subseteq> a1" "a1 \<subseteq> a2" using assms unfolding reserved_apart_def by simp_all
    moreover have "ips x \<subseteq> a1 \<and> ips x \<inter> a = {} \<or> ips x \<subseteq> a2 \<and> ips x \<inter> a1 = {}"
      using assms that unfolding reserved_apart_def by auto
    ultimately show ?thesis by blast
  qed
  moreover have "a \<subseteq> a2" using assms unfolding reserved_apart_def by auto
  ultimately show ?thesis using assms unfolding reserved_apart_def by (simp add: sorted_wrt_append)
qed

lemma reserved_apart_single: "reserved_apart ips [x] a a' \<longleftrightarrow> a \<subseteq> a' \<and> ips x \<subseteq> a' \<and> ips x \<inter> a = {}"
  by (auto simp: reserved_apart_def)

lemma reserved_apart_Cons:
  assumes "a \<subseteq> a1" "ips x \<subseteq> a1" "ips x \<inter> a = {}" "reserved_apart ips xs a1 a2"
  shows "reserved_apart ips (x # xs) a a2"
  using reserved_apart_append [of ips "[x]" a a1 xs a2] assms by (simp add: reserved_apart_single)

lemma reserved_apart_map: "reserved_apart id (map f xs) a a' = reserved_apart f xs a a'"
  by (simp add: reserved_apart_def sorted_wrt_map)

lemma reserve_egress_addr:
  assumes "reserve_egress G distribute ges s = (s', ges', None)" "pool_ok (gl_pool G) alloc"
  shows "reserved_apart ge_ips ges' (alloc (gn_pool s)) (alloc (gn_pool s'))"
  using assms(1)
proof (induction ges arbitrary: s ges')
  case (Cons ge ges)
  let ?key = "gl_key G (ge_Namespace ge) (ge_Name ge)"
  obtain s1 ge1 e where r: "reserveAllocatedIPs G distribute (\<lambda>ge. ges_AllocatedIPs (ge_Status ge))
      (\<lambda>ge. ge\<lparr>ge_Status := clear_allocatedIPs G (ge_Status ge)\<rparr>)
      (\<lambda>ips. programGlobalEgressRules G ?key ips (ge_PodSelector ge) (getIPSetName G ?key)) ge s = (s1, ge1, e)"
    by (rule prod_cases3)
  with Cons.prems obtain ges2 where "e = None" and rest: "reserve_egress G distribute ges s1 = (s', ges2, None)" "ges' = ge1 # ges2"
    by (cases e) (auto simp: Let_def split: prod.splits)
  note step = reserve_addr [OF r assms(2)]
  show ?case unfolding rest(2)
    by (rule reserved_apart_Cons [OF _ _ _ Cons.IH [OF rest(1)]]) (use step in \<open>auto simp: clear_allocatedIPs_def\<close>)
qed (simp add: reserved_apart_def)

lemma reserve_ingress_addr:
  assumes "reserve_ingress G A distribute gis s = (s', gis', None)" "pool_ok (gl_pool G) alloc"
  shows "reserved_apart gi_ips gis' (alloc (gn_pool s)) (alloc (gn_pool s'))"
  using assms(1)
proof (induction gis arbitrary: s gis')
  case (Cons gi gis)
  obtain s1 gi1 e where r: "reserveAllocatedIPs G distribute (\<lambda>gi. if gi_AllocatedIP gi = [] then [] else [gi_AllocatedIP gi])
      (\<lambda>gi. set_icond G False ''ReserveAllocatedIPsFailed'' (gi\<lparr>gi_AllocatedIP := []\<rparr>))
      (post_reserve_ingress G A gi) gi s = (s1, gi1, e)"
    by (rule prod_cases3)
  with Cons.prems obtain gis2 where "e = None" and rest: "reserve_ingress G A distribute gis s1 = (s', gis2, None)" "gis' = gi1 # gis2"
    by (cases e) (auto simp: Let_def split: prod.splits)
  note step = reserve_addr [OF r assms(2)]
  show ?case unfolding rest(2)
    by (rule reserved_apart_Cons [OF _ _ _ Cons.IH [OF rest(1)]]) (use step in \<open>auto simp: gi_ips_def\<close>)
qed (simp add: reserved_apart_def)

lemma reserve_cluster_addr:
  assumes "reserve_cluster_egress G subnets distribute get create s = (s', cge, e)" "pool_ok (gl_pool G) alloc"
  shows "alloc (gn_pool s) \<subseteq> alloc (gn_pool s') \<and>
    (\<forall>c. cge = Some c \<longrightarrow> cge_ips c \<subseteq> alloc (gn_pool s') \<and> cge_ips c \<inter> alloc (gn_pool s) = {})"
proof -
  consider "cge = None" "gn_pool s' = gn_pool s"
    | cge0 cge' where "cge = Some cge'" "reserveAllocatedIPs G distribute (\<lambda>cge. ges_AllocatedIPs (cge_Status cge))
        (\<lambda>cge. cge\<lparr>cge_Status := clear_allocatedIPs G (cge_Status cge)\<rparr>)
        (programClusterGlobalEgressRules G subnets) cge0 s = (s', cge', e)"
    using assms(1) by (auto simp: reserve_cluster_egress_def split: sum.splits option.splits prod.splits)
  then show ?thesis
  proof cases
    case 2
    from reserve_addr [OF 2(2) assms(2)] 2(1) show ?thesis by (simp add: clear_allocatedIPs_def)
  qed simp
qed

text \<open>C10: When the controllers are started again with the stored objects, whatever these contain, each kind of object is processed
  in turn; when this succeeds, the addresses that the ClusterGlobalEgressIP, the GlobalEgressIPs and the GlobalIngressIPs
  are left with are allocated in the pool, and no two objects have an address in common.\<close>

theorem restart_addresses_disjoint:
  assumes "pool_ok (gl_pool G) alloc"
    and "reserve_cluster_egress G subnets distc get create s = (s1, Some cge, None)"
    and "reserve_egress G diste ges s1 = (s2, ges', None)"
    and "reserve_ingress G A disti gis s2 = (s3, gis', None)"
  shows "reserved_apart id (cge_ips cge # map ge_ips ges' @ map gi_ips gis') (alloc (gn_pool s)) (alloc (gn_pool s3))"
proof -
  note c = reserve_cluster_addr [OF assms(2,1)]
  from reserve_egress_addr [OF assms(3,1)] reserve_ingress_addr [OF assms(4,1)]
  have "reserved_apart id (map ge_ips ges' @ map gi_ips gis') (alloc (gn_pool s1)) (alloc (gn_pool s3))"
    by (intro reserved_apart_append) (simp_all add: reserved_apart_map)
  then show ?thesis by (rule reserved_apart_Cons [rotated 3]) (use c in simp_all)
qed

definition written :: "'o \<Rightarrow> 'k \<Rightarrow> 'k \<times> err option" where
  "written _ k = (k, None)"

text \<open>Two GlobalEgressIPs with the same address: the second one loses it.\<close>

theorem restart_addresses_disjoint_witness:
  "let found = default_cluster_egress\<lparr>cge_Status := \<lparr>ges_Conditions = [], ges_AllocatedIPs = [''242.0.0.1'']\<rparr>\<rparr>;
       c = reserve_cluster_egress nft_libs [] written (\<lambda>_ _. Inr (Some found)) written idle_state;
       e = reserve_egress nft_libs written [new_egress ''a'' 1 [''242.0.0.2''], new_egress ''b'' 1 [''242.0.0.2'']] (fst c);
       i = reserve_ingress nft_libs ref_services written [pod_ingress\<lparr>gi_AllocatedIP := ''242.0.0.3''\<rparr>] (fst e) in
   map (\<lambda>ge. ges_AllocatedIPs (ge_Status ge)) (fst (snd e)) = [[''242.0.0.2''], []] \<and>
   reserved_apart id (cge_ips (the (fst (snd c))) # map ge_ips (fst (snd e)) @ map gi_ips (fst (snd i))) {} (set (gn_pool (fst i)))"
proof -
  let ?found = "default_cluster_egress\<lparr>cge_Status := \<lparr>ges_Conditions = [], ges_AllocatedIPs = [''242.0.0.1'']\<rparr>\<rparr>"
  let ?c = "reserve_cluster_egress nft_libs [] written (\<lambda>_ _. Inr (Some ?found)) written idle_state"
  let ?e = "reserve_egress nft_libs written [new_egress ''a'' 1 [''242.0.0.2''], new_egress ''b'' 1 [''242.0.0.2'']] (fst ?c)"
  let ?i = "reserve_ingress nft_libs ref_services written [pod_ingress\<lparr>gi_AllocatedIP := ''242.0.0.3''\<rparr>] (fst ?e)"
  have "snd (snd ?c) = None" "fst (snd ?c) = Some (the (fst (snd ?c)))" "snd (snd ?e) = None" "snd (snd ?i) = None"
    by code_simp+
  then have "?c = (fst ?c, Some (the (fst (snd ?c))), None)" "?e = (fst ?e, fst (snd ?e), None)" "?i = (fst ?i, fst (snd ?i), None)"
    by (metis prod.collapse)+
  from restart_addresses_disjoint [OF nft_libs_ok(1) this]
  have "reserved_apart id (cge_ips (the (fst (snd ?c))) # map ge_ips (fst (snd ?e)) @ map gi_ips (fst (snd ?i)))
    (set (gn_pool idle_state)) (set (gn_pool (fst ?i)))" .
  moreover have "set (gn_pool idle_state) = {}" by (simp add: idle_state_def)
  moreover have "map (\<lambda>ge. ges_AllocatedIPs (ge_Status ge)) (fst (snd ?e)) = [[''242.0.0.2''], []]" by code_simp
  ultimately show ?thesis by (simp only: Let_def)
qed

section \<open>Deletions that go wrong\<close>

text \<open>C36: A GlobalEgressIP whose status has no addresses any more is deleted with the addresses its pod watcher remembers from its
  start: they are released, whoever owns them now.\<close>

theorem stale_addresses_released:
  assumes "ges_AllocatedIPs (ge_Status ge) = []"
    and "gn_podWatchers s (gl_key G (ge_Namespace ge) (ge_Name ge)) = Some pw" and "pw_allocatedIPs pw = ips" and "ips \<noteq> []"
    and "snd (flush_egress_rules G (gl_key G (ge_Namespace ge) (ge_Name ge))
      (getIPSetName G (gl_key G (ge_Namespace ge) (ge_Name ge))) (ge_PodSelector ge) ips (gn_host s)) = None"
  shows "\<exists>s' requeue. ge_onDelete G numRequeues ge s = Some (s', requeue) \<and>
    gn_pool s' = fst (ip_Release (gl_pool G) ips (gn_pool s))"
  using assms by (auto simp: ge_onDelete_def Let_def flushGlobalEgressRulesAndReleaseIPs_def flushRulesAndReleaseIPs_def
      split: prod.splits)

definition step_egress :: "GlobalEgressIP \<Rightarrow> (string list, ref_table) gnState \<Rightarrow> (string list, ref_table) gnState \<times> GlobalEgressIP" where
  "step_egress ge s = (case ge_process nft_libs ge 0 OpUpdate s of
      None \<Rightarrow> (s, ge) | Some (s', result, _) \<Rightarrow> (s', stored ge result))"

text \<open>
  \<open>a\<close> gets the first address, is changed to have none, \<open>b\<close> gets the same address, \<open>a\<close> is deleted: the address of \<open>b\<close> is free.
\<close>

definition stale_run :: "(string list, ref_table) gnState \<times> GlobalEgressIP \<times> GlobalEgressIP" where
  "stale_run = (let (s1, a1) = step_egress (new_egress ''a'' 1 []) idle_state;
       (s2, a2) = step_egress (a1\<lparr>ge_NumberOfIPs := Some 0\<rparr>) s1;
       (s3, b) = step_egress (new_egress ''b'' 1 []) s2 in (s3, a2, b))"

theorem stale_addresses_released_witness:
  "case stale_run of (s, a, b) \<Rightarrow> ges_AllocatedIPs (ge_Status b) = [''242.0.0.1''] \<and> gn_pool s = [''242.0.0.1''] \<and>
     map_option (\<lambda>r. gn_pool (fst r)) (ge_onDelete nft_libs 0 a s) = Some []"
proof -
  obtain s a b where run: "stale_run = (s, a, b)" by (rule prod_cases3)
  let ?key = "gl_key nft_libs (ge_Namespace a) (ge_Name a)"
  have "case stale_run of (s, a, b) \<Rightarrow> ges_AllocatedIPs (ge_Status a) = [] \<and>
      map_option pw_allocatedIPs (gn_podWatchers s (gl_key nft_libs (ge_Namespace a) (ge_Name a))) = Some [''242.0.0.1''] \<and>
      snd (flush_egress_rules nft_libs (gl_key nft_libs (ge_Namespace a) (ge_Name a))
        (getIPSetName nft_libs (gl_key nft_libs (ge_Namespace a) (ge_Name a))) (ge_PodSelector a) [''242.0.0.1''] (gn_host s)) = None \<and>
      ges_AllocatedIPs (ge_Status b) = [''242.0.0.1''] \<and> gn_pool s = [''242.0.0.1'']" by code_simp
  then obtain pw where pw: "ges_AllocatedIPs (ge_Status a) = []" "gn_podWatchers s ?key = Some pw" "pw_allocatedIPs pw = [''242.0.0.1'']"
      "snd (flush_egress_rules nft_libs ?key (getIPSetName nft_libs ?key) (ge_PodSelector a) [''242.0.0.1''] (gn_host s)) = None"
      "ges_AllocatedIPs (ge_Status b) = [''242.0.0.1'']" "gn_pool s = [''242.0.0.1'']"
    unfolding run by (auto simp: map_option_eq_Some)
  from stale_addresses_released [OF pw(1-3) _ pw(4), of 0] obtain s' rq where
    "ge_onDelete nft_libs 0 a s = Some (s', rq)" "gn_pool s' = fst (ip_Release (gl_pool nft_libs) [''242.0.0.1''] (gn_pool s))" by auto
  then show ?thesis using pw(5,6) by (simp add: run nft_libs_def ref_pool_def)
qed

text \<open>A GlobalEgressIP that asks for no addresses is accepted, but its deletion is a nil-pointer panic: there is no pod watcher
  that could remember addresses.\<close>

theorem zero_addresses_delete_panics:
  assumes "ge_NumberOfIPs ge = Some 0" and "ges_AllocatedIPs (ge_Status ge) = []"
    and "gn_podWatchers s (gl_key G (ge_Namespace ge) (ge_Name ge)) = None"
  shows "\<exists>result. ge_process G ge r OpCreate s = Some (s, result, False) \<and>
    ge_process G (stored ge result) r' OpDelete s = None"
proof -
  let ?ge1 = "ge\<lparr>ge_Status := (ge_Status ge)\<lparr>ges_Conditions := trimAllocatedStatusCondition (ges_Conditions (ge_Status ge))\<rparr>\<rparr>"
  let ?ge2 = "?ge1\<lparr>ge_Status := set_cond G GlobalEgressIPAllocated False ''ZeroInput'' ((ge_Status ?ge1)\<lparr>ges_AllocatedIPs := []\<rparr>)\<rparr>"
  let ?result = "checkStatusChanged G (ge_Status ge) (ge_Status ?ge2) ?ge2"
  have "ge_process G ge r OpCreate s = Some (s, ?result, False)"
    using assms(1-3) by (simp add: ge_process_def ge_validate_def ge_onCreateOrUpdate_def ge_allocateGlobalIPs_def
        createPodWatcher_def Let_def)
  moreover have "ge_Namespace (stored ge ?result) = ge_Namespace ge" "ge_Name (stored ge ?result) = ge_Name ge"
    "ges_AllocatedIPs (ge_Status (stored ge ?result)) = []"
    using assms(2) by (auto simp: stored_def checkStatusChanged_def)
  then have "ge_process G (stored ge ?result) r' OpDelete s = None"
    using assms(3) by (simp add: ge_process_def ge_onDelete_def)
  ultimately show ?thesis by blast
qed

theorem zero_addresses_delete_panics_witness:
  "\<exists>result. ge_process nft_libs (new_egress ''a'' 0 []) 0 OpCreate idle_state = Some (idle_state, result, False) \<and>
    ge_process nft_libs (stored (new_egress ''a'' 0 []) result) 0 OpDelete idle_state = None"
  by (rule zero_addresses_delete_panics) (simp_all add: new_egress_def idle_state_def)

end
