(* ===== verification/GlobalServices.thy ===== *)
theory GlobalServices
  imports GlobalIngress
begin

text \<open>
  \<open>pkg/globalnet/controllers\<close>: \<open>service_export_controller.go\<close>, \<open>service_controller.go\<close>, \<open>ingress_pod_controller(s).go\<close>,
  \<open>endpoints_controller.go\<close>, \<open>service_export_endpoints_controllers.go\<close> and \<open>ingress_endpoints_controller(s).go\<close>: which
  GlobalIngressIP objects exist for an exported service. A service with an address gets one of its own name, a headless
  service gets one for each of its pods, or for each address of its endpoints when it selects no pods.

  The parameters are the API server (\<open>exportAPI\<close>) and the start of a controller for one service, which may fail. A resource syncer hands the
  result of \<open>process\<close> to the API server; this is library code.
\<close>

section \<open>Pods of a headless service\<close>

record gnPod =
  pod_Namespace :: string
  pod_Name :: string
  pod_IP :: string
  pod_Phase :: string

record ingressPodController =
  ipc_svcName :: string
  ipc_namespace :: string
  ipc_publishNotReadyAddresses :: bool
  ipc_ingressIPMap :: "string set"

definition new_ingressPodController :: "Service \<Rightarrow> ingressPodController" where
  "new_ingressPodController svc = \<lparr>ipc_svcName = sv_Name svc, ipc_namespace = sv_Namespace svc,
     ipc_publishNotReadyAddresses = sv_PublishNotReadyAddresses svc, ipc_ingressIPMap = {}\<rparr>"

text \<open>\<open>%.59s\<close> cuts the name after 59 characters. \<open>isIPv4\<close> is \<open>IsIPv4String\<close>.\<close>

definition pod_ingress_name :: "string \<Rightarrow> string" where
  "pod_ingress_name podName = ''pod-'' @ take 59 podName"

definition ipc_process ::
  "(string \<Rightarrow> bool) \<Rightarrow> ingressPodController \<Rightarrow> gnPod \<Rightarrow> gnOp \<Rightarrow> ingressPodController \<times> GlobalIngressIP option \<times> bool" where
  "ipc_process isIPv4 c pod op =
     (let gi = (new_ingress (pod_Namespace pod) (pod_ingress_name (pod_Name pod)))\<lparr>gi_Labels := [ServiceRefLabel \<mapsto> ipc_svcName c]\<rparr> in
      if op = OpDelete then (c\<lparr>ipc_ingressIPMap := ipc_ingressIPMap c - {gi_Name gi}\<rparr>, Some gi, False)
      else if gi_Name gi \<in> ipc_ingressIPMap c \<or> \<not> isIPv4 (pod_IP pod) \<or>
              (\<not> ipc_publishNotReadyAddresses c \<and> pod_Phase pod \<noteq> ''Running'')
      then (c, None, False)
      else (c\<lparr>ipc_ingressIPMap := insert (gi_Name gi) (ipc_ingressIPMap c)\<rparr>,
            Some (gi\<lparr>gi_Annotations := [headlessSvcPodIP \<mapsto> pod_IP pod], gi_Target := HeadlessServicePod,
              gi_ServiceRef := Some (ipc_svcName c), gi_PodRef := Some (pod_Name pod)\<rparr>), False))"

definition arePodsEqual :: "gnPod \<Rightarrow> gnPod \<Rightarrow> bool" where
  "arePodsEqual p q \<longleftrightarrow> pod_Phase p = pod_Phase q \<and> pod_IP p = pod_IP q"

section \<open>Endpoints\<close>

text \<open>The addresses of an Endpoints object, one list for each subset.\<close>

record gnEndpoints =
  eps_Namespace :: string
  eps_Name :: string
  eps_Labels :: "string \<rightharpoonup> string"
  eps_Subsets :: "string list list"

definition EndpointClonedFrom :: string where "EndpointClonedFrom = ''endpoints.submariner.io/cloned-from''"

definition eps_onCreateOrUpdate :: "('p, 'k) gnLibs \<Rightarrow> gnEndpoints \<Rightarrow> gnEndpoints" where
  "eps_onCreateOrUpdate G ep =
     (if eps_Labels ep EndpointClonedFrom \<noteq> None then ep
      else \<lparr>eps_Namespace = eps_Namespace ep, eps_Name = GetInternalSvcName G (eps_Name ep),
            eps_Labels = [EndpointClonedFrom \<mapsto> eps_Name ep], eps_Subsets = eps_Subsets ep\<rparr>)"

definition eps_onDelete :: "('p, 'k) gnLibs \<Rightarrow> gnEndpoints \<Rightarrow> gnEndpoints" where
  "eps_onDelete G ep = \<lparr>eps_Namespace = eps_Namespace ep, eps_Name = GetInternalSvcName G (eps_Name ep),
     eps_Labels = Map.empty, eps_Subsets = []\<rparr>"

definition eps_process :: "('p, 'k) gnLibs \<Rightarrow> gnEndpoints \<Rightarrow> gnOp \<Rightarrow> gnEndpoints \<times> bool" where
  "eps_process G ep op = (if op = OpDelete then (eps_onDelete G ep, False) else (eps_onCreateOrUpdate G ep, False))"

definition areEndpointsEqual :: "gnEndpoints \<Rightarrow> gnEndpoints \<Rightarrow> bool" where
  "areEndpointsEqual ep ep' \<longleftrightarrow> eps_Subsets ep = eps_Subsets ep'"

section \<open>The API server\<close>

record 'k exportAPI =
  ea_ListIngressIPs :: "string \<Rightarrow> string \<Rightarrow> 'k \<Rightarrow> GlobalIngressIP list result"   \<comment> \<open>namespace and service label\<close>
  ea_CreateIngressIP :: "GlobalIngressIP \<Rightarrow> 'k \<Rightarrow> 'k \<times> err option"
  ea_DeleteIngressIP :: "string \<Rightarrow> string \<Rightarrow> 'k \<Rightarrow> 'k \<times> err option"            \<comment> \<open>namespace and name\<close>
  ea_DeleteCollection :: "string \<Rightarrow> string \<Rightarrow> 'k \<Rightarrow> 'k \<times> err option"           \<comment> \<open>namespace and service label\<close>
  ea_ListEndpoints :: "'k \<Rightarrow> gnEndpoints list result"
  ea_DeleteEndpoints :: "string \<Rightarrow> string \<Rightarrow> 'k \<Rightarrow> 'k \<times> err option"
  ea_IsNotFound :: "err \<Rightarrow> bool"
  ea_startPods :: "Service \<Rightarrow> 'k \<Rightarrow> 'k \<times> err option"
  ea_startEndpoints :: "string \<Rightarrow> string \<Rightarrow> 'k \<Rightarrow> 'k \<times> err option"
  ea_startIngressEndpoints :: "Service \<Rightarrow> 'k \<Rightarrow> 'k \<times> err option"

definition deleteEndpoints :: "'k exportAPI \<Rightarrow> string \<Rightarrow> string \<Rightarrow> 'k \<Rightarrow> 'k \<times> err option" where
  "deleteEndpoints E namespace name k = (case ea_DeleteEndpoints E namespace name k of
      (k', None) \<Rightarrow> (k', None)
    | (k', Some e) \<Rightarrow> (k', if ea_IsNotFound E e then None else Some (Wrapped ''error deleting Endpoints'' e)))"

text \<open>Endpoints that were cloned from one that is gone are deleted at the start.\<close>

definition has_original :: "gnEndpoints list \<Rightarrow> gnEndpoints \<Rightarrow> string \<Rightarrow> bool" where
  "has_original eps ep origEp \<longleftrightarrow> (\<exists>ep'\<in>set eps. eps_Namespace ep = eps_Namespace ep' \<and> origEp = eps_Name ep')"

fun delete_clones :: "'k exportAPI \<Rightarrow> gnEndpoints list \<Rightarrow> gnEndpoints list \<Rightarrow> 'k \<Rightarrow> 'k \<times> err option" where
  "delete_clones E items [] k = (k, None)"
| "delete_clones E items (ep # eps) k = (case eps_Labels ep EndpointClonedFrom of
     None \<Rightarrow> delete_clones E items eps k
   | Some origEp \<Rightarrow>
       if has_original items ep origEp then delete_clones E items eps k
       else (case deleteEndpoints E (eps_Namespace ep) (eps_Name ep) k of
               (k', Some e) \<Rightarrow> (k', Some (Wrapped ''error deleting cloned Endpoints without original'' e))
             | (k', None) \<Rightarrow> delete_clones E items eps k'))"

definition ensureClonedHasOriginal :: "'k exportAPI \<Rightarrow> 'k \<Rightarrow> 'k \<times> err option" where
  "ensureClonedHasOriginal E k = (case ea_ListEndpoints E k of
      Inl e \<Rightarrow> (k, Some (Wrapped ''error listing the resources'' e))
    | Inr items \<Rightarrow> delete_clones E items items k)"

section \<open>Endpoints of a headless service\<close>

definition newIngressIP :: "string \<Rightarrow> string \<Rightarrow> string \<Rightarrow> GlobalIngressIP" where
  "newIngressIP name namespace epIP =
     (new_ingress namespace (''ep-'' @ take 44 name @ ''-'' @ take 15 epIP))\<lparr>gi_Labels := [ServiceRefLabel \<mapsto> name]\<rparr>"

definition endpoint_ingress :: "string \<Rightarrow> gnEndpoints \<Rightarrow> string \<Rightarrow> GlobalIngressIP" where
  "endpoint_ingress svcName eps epIP = (newIngressIP (eps_Name eps) (eps_Namespace eps) epIP)
     \<lparr>gi_Annotations := [headlessSvcEndpointsIP \<mapsto> epIP], gi_Target := HeadlessServiceEndpoints, gi_ServiceRef := Some svcName\<rparr>"

definition used_ips :: "(string \<Rightarrow> bool) \<Rightarrow> gnEndpoints \<Rightarrow> string set" where
  "used_ips isIPv4 eps = set (filter isIPv4 (concat (eps_Subsets eps)))"

text \<open>Objects of addresses that are gone are deleted; the result has the addresses that have no object yet.\<close>

fun delete_unused :: "'k exportAPI \<Rightarrow> GlobalIngressIP list \<Rightarrow> string set \<Rightarrow> 'k \<Rightarrow> ('k \<times> string set) \<times> err option" where
  "delete_unused E [] usedEpIPs k = ((k, usedEpIPs), None)"
| "delete_unused E (gi # gis) usedEpIPs k =
     (if (case gi_Annotations gi headlessSvcEndpointsIP of None \<Rightarrow> False | Some epIP \<Rightarrow> epIP \<in> usedEpIPs)
      then delete_unused E gis (usedEpIPs - {the (gi_Annotations gi headlessSvcEndpointsIP)}) k
      else (case ea_DeleteIngressIP E (gi_Namespace gi) (gi_Name gi) k of
              (k', Some e) \<Rightarrow> ((k', usedEpIPs), Some e)
            | (k', None) \<Rightarrow> delete_unused E gis usedEpIPs k'))"

fun create_new :: "'k exportAPI \<Rightarrow> (string \<Rightarrow> GlobalIngressIP) \<Rightarrow> string list \<Rightarrow> 'k \<Rightarrow> 'k \<times> err option" where
  "create_new E mk [] k = (k, None)"
| "create_new E mk (epIP # epIPs) k = (case ea_CreateIngressIP E (mk epIP) k of
     (k', Some e) \<Rightarrow> (k', Some e)
   | (k', None) \<Rightarrow> create_new E mk epIPs k')"

text \<open>Go iterates over the map of addresses in no particular order: \<open>order\<close> lists a set in the order of the iteration.\<close>

definition iec_onCreateOrUpdate ::
  "'k exportAPI \<Rightarrow> (string \<Rightarrow> bool) \<Rightarrow> (string set \<Rightarrow> string list) \<Rightarrow> string \<Rightarrow> gnEndpoints \<Rightarrow> 'k \<Rightarrow> 'k \<times> bool" where
  "iec_onCreateOrUpdate E isIPv4 order svcName eps k =
     (case ea_ListIngressIPs E (eps_Namespace eps) (eps_Name eps) k of
        Inl e \<Rightarrow> (k, True)
      | Inr existing \<Rightarrow>
          (case delete_unused E existing (used_ips isIPv4 eps) k of
             ((k1, usedEpIPs), Some e) \<Rightarrow> (k1, True)
           | ((k1, usedEpIPs), None) \<Rightarrow>
               (case create_new E (endpoint_ingress svcName eps) (order usedEpIPs) k1 of (k2, e) \<Rightarrow> (k2, e \<noteq> None))))"

definition iec_onDelete :: "'k exportAPI \<Rightarrow> gnEndpoints \<Rightarrow> 'k \<Rightarrow> 'k \<times> bool" where
  "iec_onDelete E eps k = (case ea_DeleteCollection E (eps_Namespace eps) (eps_Name eps) k of (k', e) \<Rightarrow> (k', e \<noteq> None))"

definition iec_process ::
  "'k exportAPI \<Rightarrow> (string \<Rightarrow> bool) \<Rightarrow> (string set \<Rightarrow> string list) \<Rightarrow> string \<Rightarrow> gnEndpoints \<Rightarrow> gnOp \<Rightarrow> 'k \<Rightarrow> 'k \<times> bool" where
  "iec_process E isIPv4 order svcName eps op k =
     (if op = OpDelete then iec_onDelete E eps k else iec_onCreateOrUpdate E isIPv4 order svcName eps k)"

section \<open>Controllers for one service each\<close>

record 'k exportCtl =
  ec_pods :: "string \<rightharpoonup> ingressPodController"
  ec_endpoints :: "string \<rightharpoonup> string \<times> string"
  ec_ingressEndpoints :: "string \<rightharpoonup> string \<times> string"
  ec_host :: 'k

definition ctl_key :: "string \<Rightarrow> string \<Rightarrow> string" where
  "ctl_key n ns = ns @ ''/'' @ n"

definition pods_start :: "'k exportAPI \<Rightarrow> Service \<Rightarrow> 'k exportCtl \<Rightarrow> 'k exportCtl \<times> err option" where
  "pods_start E service c =
     (let key = ctl_key (sv_Name service) (sv_Namespace service) in
      if ec_pods c key \<noteq> None then (c, None)
      else (case ea_startPods E service (ec_host c) of
              (k, Some e) \<Rightarrow> (c\<lparr>ec_host := k\<rparr>, Some e)
            | (k, None) \<Rightarrow> (c\<lparr>ec_host := k, ec_pods := (ec_pods c)(key \<mapsto> new_ingressPodController service)\<rparr>, None)))"

text \<open>An error of the deletion is only logged.\<close>

definition pods_stopAndCleanup :: "'k exportAPI \<Rightarrow> string \<Rightarrow> string \<Rightarrow> 'k exportCtl \<Rightarrow> 'k exportCtl" where
  "pods_stopAndCleanup E serviceName serviceNamespace c =
     c\<lparr>ec_pods := (ec_pods c)(ctl_key serviceName serviceNamespace := None),
       ec_host := fst (ea_DeleteCollection E serviceNamespace serviceName (ec_host c))\<rparr>"

definition endpoints_start :: "'k exportAPI \<Rightarrow> string \<Rightarrow> string \<Rightarrow> 'k exportCtl \<Rightarrow> 'k exportCtl \<times> err option" where
  "endpoints_start E name namespace c =
     (let key = ctl_key name namespace in
      if ec_endpoints c key \<noteq> None then (c, None)
      else (case ea_startEndpoints E name namespace (ec_host c) of
              (k, Some e) \<Rightarrow> (c\<lparr>ec_host := k\<rparr>, Some e)
            | (k, None) \<Rightarrow> (c\<lparr>ec_host := k, ec_endpoints := (ec_endpoints c)(key \<mapsto> (name, namespace))\<rparr>, None)))"

definition endpoints_stopAndCleanup :: "string \<Rightarrow> string \<Rightarrow> 'k exportCtl \<Rightarrow> 'k exportCtl" where
  "endpoints_stopAndCleanup seName seNamespace c =
     c\<lparr>ec_endpoints := (ec_endpoints c)(ctl_key seName seNamespace := None)\<rparr>"

definition ingressEndpoints_start :: "'k exportAPI \<Rightarrow> Service \<Rightarrow> 'k exportCtl \<Rightarrow> 'k exportCtl \<times> err option" where
  "ingressEndpoints_start E service c =
     (let key = ctl_key (sv_Name service) (sv_Namespace service) in
      if ec_ingressEndpoints c key \<noteq> None then (c, None)
      else (case ea_startIngressEndpoints E service (ec_host c) of
              (k, Some e) \<Rightarrow> (c\<lparr>ec_host := k\<rparr>, Some e)
            | (k, None) \<Rightarrow> (c\<lparr>ec_host := k, ec_ingressEndpoints := (ec_ingressEndpoints c)(key \<mapsto>
                (sv_Name service, sv_Namespace service))\<rparr>, None)))"

definition ingressEndpoints_stopAndCleanup :: "'k exportAPI \<Rightarrow> string \<Rightarrow> string \<Rightarrow> 'k exportCtl \<Rightarrow> 'k exportCtl" where
  "ingressEndpoints_stopAndCleanup E serviceName serviceNamespace c =
     c\<lparr>ec_ingressEndpoints := (ec_ingressEndpoints c)(ctl_key serviceName serviceNamespace := None),
       ec_host := fst (ea_DeleteCollection E serviceNamespace serviceName (ec_host c))\<rparr>"

definition stopAll :: "'k exportCtl \<Rightarrow> 'k exportCtl" where
  "stopAll c = c\<lparr>ec_pods := Map.empty, ec_endpoints := Map.empty, ec_ingressEndpoints := Map.empty\<rparr>"

section \<open>Exported services\<close>

definition ServiceTypeClusterIP :: string where "ServiceTypeClusterIP = ''ClusterIP''"
definition ClusterIPNone :: string where "ClusterIPNone = ''None''"
definition IPv4Protocol :: string where "IPv4Protocol = ''IPv4''"

text \<open>A ServiceExport is given by its name and namespace.\<close>

definition se_onCreate ::
  "'k serviceAPI \<Rightarrow> 'k exportAPI \<Rightarrow> string \<Rightarrow> string \<Rightarrow> 'k exportCtl \<Rightarrow> 'k exportCtl \<times> GlobalIngressIP option \<times> bool" where
  "se_onCreate A E name namespace c =
     (case getService A name namespace (ec_host c) of
        Inr (Some service) \<Rightarrow>
          (let headless = (sv_ClusterIP service = ClusterIPNone); no_selector = (sv_Selector service = []) in
           if sv_Type service \<noteq> ServiceTypeClusterIP then (c, None, False)
           else (case (if no_selector \<and> \<not> headless then endpoints_start E name namespace c else (c, None)) of
                   (c1, Some e) \<Rightarrow> (c1, None, True)
                 | (c1, None) \<Rightarrow>
                     if headless
                     then (case (if no_selector then ingressEndpoints_start E service c1 else pods_start E service c1) of
                             (c2, e) \<Rightarrow> (c2, None, e \<noteq> None))
                     else if IPv4Protocol \<notin> set (sv_IPFamilies service) then (c1, None, False)
                     else (c1, Some ((new_ingress namespace name)\<lparr>gi_Target := ClusterIPService, gi_ServiceRef := Some name\<rparr>), False)))
      | _ \<Rightarrow> (c, None, True))"

definition se_onDelete :: "'k exportAPI \<Rightarrow> string \<Rightarrow> string \<Rightarrow> 'k exportCtl \<Rightarrow> 'k exportCtl \<times> GlobalIngressIP option \<times> bool" where
  "se_onDelete E name namespace c =
     (ingressEndpoints_stopAndCleanup E name namespace (endpoints_stopAndCleanup name namespace
        (pods_stopAndCleanup E name namespace c)), Some (new_ingress namespace name), False)"

definition se_process ::
  "'k serviceAPI \<Rightarrow> 'k exportAPI \<Rightarrow> string \<Rightarrow> string \<Rightarrow> gnOp \<Rightarrow> 'k exportCtl \<Rightarrow> 'k exportCtl \<times> GlobalIngressIP option \<times> bool" where
  "se_process A E name namespace op c = (case op of
      OpCreate \<Rightarrow> se_onCreate A E name namespace c
    | OpDelete \<Rightarrow> se_onDelete E name namespace c
    | OpUpdate \<Rightarrow> (c, None, False))"

text \<open>The objects whose processing the service controller asks for: a ServiceExport or a GlobalIngressIP, by name and namespace.\<close>

datatype requeued = RequeueServiceExport string string | RequeueIngressIP string string

definition svc_process ::
  "'k exportAPI \<Rightarrow> Service \<Rightarrow> gnOp \<Rightarrow> 'k exportCtl \<Rightarrow> ('k exportCtl \<times> requeued list) \<times> GlobalIngressIP option \<times> bool" where
  "svc_process E service op c =
     (if sv_Type service \<noteq> ServiceTypeClusterIP then ((c, []), None, False)
      else (case op of
        OpCreate \<Rightarrow> ((c, [RequeueServiceExport (sv_Name service) (sv_Namespace service)]), None, False)
      | OpUpdate \<Rightarrow> ((c, [RequeueIngressIP (sv_Name service) (sv_Namespace service)]), None, False)
      | OpDelete \<Rightarrow>
          (let c' = pods_stopAndCleanup E (sv_Name service) (sv_Namespace service) c in
           if sv_ClusterIP service = ClusterIPNone then ((c', []), None, False)
           else ((c', []), Some (new_ingress (sv_Namespace service) (sv_Name service)), False))))"

section \<open>Reconciliation\<close>

text \<open>
  The objects that a syncer takes as deleted if they do not exist any more: they are computed from the GlobalIngressIPs that a
  selector lists. An error of the list is logged and gives no objects.
\<close>

definition reconcile :: "'o list result \<Rightarrow> ('o \<Rightarrow> 'r option) \<Rightarrow> 'r list" where
  "reconcile objList transform = (case objList of Inl e \<Rightarrow> [] | Inr items \<Rightarrow> List.map_filter transform items)"

text \<open>A name and a namespace stand for an object that has only these.\<close>

definition se_reconcile :: "GlobalIngressIP list result \<Rightarrow> (string \<times> string) list" where
  "se_reconcile ingressIPs = reconcile ingressIPs (\<lambda>gi. map_option (\<lambda>name. (name, gi_Namespace gi)) (gi_ServiceRef gi))"

definition svc_reconcile :: "GlobalIngressIP list result \<Rightarrow> Service list" where
  "svc_reconcile ingressIPs = reconcile ingressIPs (\<lambda>gi. map_option (\<lambda>name.
     \<lparr>sv_Namespace = gi_Namespace gi, sv_Name = name, sv_Labels = Map.empty, sv_Finalizers = [], sv_Type = ServiceTypeClusterIP,
      sv_ClusterIP = [], sv_Ports = [], sv_Selector = [], sv_ExternalIPs = [], sv_IPFamilies = [], sv_SingleStack = False,
      sv_PublishNotReadyAddresses = False\<rparr>) (gi_ServiceRef gi))"

text \<open>\<open>list\<close> has the namespace, the service label and the name that are selected; None is no selection.\<close>

definition ipc_reconcile ::
  "(string \<Rightarrow> string option \<Rightarrow> string option \<Rightarrow> GlobalIngressIP list result) \<Rightarrow> Service \<Rightarrow> (string \<times> string) list" where
  "ipc_reconcile list svc = reconcile (list (sv_Namespace svc) (Some (sv_Name svc)) None)
     (\<lambda>gi. map_option (\<lambda>podName. (podName, gi_Namespace gi)) (gi_PodRef gi))"

definition iec_reconcile ::
  "(string \<Rightarrow> string option \<Rightarrow> string option \<Rightarrow> GlobalIngressIP list result) \<Rightarrow> Service \<Rightarrow> (string \<times> string) list" where
  "iec_reconcile list svc = reconcile (list (sv_Namespace svc) None (Some (sv_Name svc)))
     (\<lambda>gi. map_option (\<lambda>endpointsName. (endpointsName, gi_Namespace gi)) (gi_ServiceRef gi))"

section \<open>One address for each endpoint\<close>

text \<open>
  What the API server documents, with \<open>objs\<close> the stored GlobalIngressIPs: a list by label has the objects with that label, a
  creation adds an object whose name is not taken, a deletion removes one.
\<close>

definition gi_key :: "GlobalIngressIP \<Rightarrow> string \<times> string" where
  "gi_key gi = (gi_Namespace gi, gi_Name gi)"

definition of_service :: "string \<Rightarrow> string \<Rightarrow> GlobalIngressIP \<Rightarrow> bool" where
  "of_service ns svc gi \<longleftrightarrow> gi_Namespace gi = ns \<and> gi_Labels gi ServiceRefLabel = Some svc"

definition ingress_api :: "'k exportAPI \<Rightarrow> ('k \<Rightarrow> GlobalIngressIP list) \<Rightarrow> bool" where
  "ingress_api E objs \<longleftrightarrow>
     (\<forall>ns svc k gis. ea_ListIngressIPs E ns svc k = Inr gis \<longrightarrow> gis = filter (of_service ns svc) (objs k)) \<and>
     (\<forall>gi k k'. ea_CreateIngressIP E gi k = (k', None) \<longrightarrow> gi_key gi \<notin> gi_key ` set (objs k) \<and> objs k' = objs k @ [gi]) \<and>
     (\<forall>ns n k k'. ea_DeleteIngressIP E ns n k = (k', None) \<longrightarrow> objs k' = filter (\<lambda>gi. gi_key gi \<noteq> (ns, n)) (objs k))"

definition endpoint_ip :: "GlobalIngressIP \<Rightarrow> string option" where
  "endpoint_ip gi = gi_Annotations gi headlessSvcEndpointsIP"

lemma filter_drop_key:
  assumes "distinct (map f xs)" "filter P xs = ys @ x # zs"
  shows "filter P (filter (\<lambda>y. f y \<noteq> f x) xs) = ys @ zs" "filter (\<lambda>y. \<not> P y) (filter (\<lambda>y. f y \<noteq> f x) xs) = filter (\<lambda>y. \<not> P y) xs"
proof -
  have "x \<in> set (filter P xs)" unfolding assms(2) by simp
  then have x: "x \<in> set xs" "P x" by simp_all
  have uniq: "y = x" if "y \<in> set xs" "f y = f x" for y using assms(1) x(1) that by (auto simp: distinct_map inj_on_def)
  have "distinct (map f (ys @ x # zs))" using assms by (metis distinct_map_filter)
  then have "\<forall>y\<in>set ys. f y \<noteq> f x" "\<forall>y\<in>set zs. f y \<noteq> f x" by (auto simp: rev_image_eqI)
  then have "filter (\<lambda>y. f y \<noteq> f x) (ys @ x # zs) = ys @ zs" by simp
  then show "filter P (filter (\<lambda>y. f y \<noteq> f x) xs) = ys @ zs" unfolding assms(2) [symmetric] by (simp add: conj_commute)
  show "filter (\<lambda>y. \<not> P y) (filter (\<lambda>y. f y \<noteq> f x) xs) = filter (\<lambda>y. \<not> P y) xs"
    using uniq x(2) by (auto intro!: filter_cong)
qed

text \<open>The objects \<open>kept\<close> so far have the addresses \<open>K\<close>, one each, and \<open>others\<close> are not of the service.\<close>

definition in_sync :: "('k \<Rightarrow> GlobalIngressIP list) \<Rightarrow> string \<Rightarrow> string \<Rightarrow> GlobalIngressIP list \<Rightarrow>
    GlobalIngressIP list \<Rightarrow> string set \<Rightarrow> GlobalIngressIP list \<Rightarrow> 'k \<Rightarrow> bool" where
  "in_sync objs ns svc others kept K rest k \<longleftrightarrow> filter (of_service ns svc) (objs k) = kept @ rest \<and>
     distinct (map endpoint_ip kept) \<and> endpoint_ip ` set kept = Some ` K \<and>
     filter (\<lambda>gi. \<not> of_service ns svc gi) (objs k) = others \<and> distinct (map gi_key (objs k))"

lemma delete_unused_sync:
  assumes api: "ingress_api E objs"
  shows "delete_unused E gis used k = ((k', used'), None) \<Longrightarrow> in_sync objs ns svc others kept K gis k \<Longrightarrow> K \<inter> used = {} \<Longrightarrow>
    \<exists>kept'. in_sync objs ns svc others kept' (K \<union> (used - used')) [] k' \<and> used' \<subseteq> used"
proof (induction gis arbitrary: used k kept K)
  case (Cons gi gis)
  show ?case
  proof (cases "\<exists>epIP. endpoint_ip gi = Some epIP \<and> epIP \<in> used")
    case True
    then obtain ip where ip: "endpoint_ip gi = Some ip" "ip \<in> used" by blast
    have sync: "in_sync objs ns svc others (kept @ [gi]) (insert ip K) gis k"
      using Cons.prems(2,3) ip unfolding in_sync_def by (simp add: image_iff) blast
    have rest: "delete_unused E gis (used - {ip}) k = ((k', used'), None)"
      using Cons.prems(1) ip by (simp add: endpoint_ip_def)
    have "insert ip K \<inter> (used - {ip}) = {}" using Cons.prems(3) by blast
    from Cons.IH [OF rest sync this] obtain kept' where
      "in_sync objs ns svc others kept' (insert ip K \<union> ((used - {ip}) - used')) [] k'" "used' \<subseteq> used - {ip}" by auto
    moreover from this(2) ip have "insert ip K \<union> ((used - {ip}) - used') = K \<union> (used - used')" "used' \<subseteq> used" by blast+
    ultimately show ?thesis by metis
  next
    case False
    with Cons.prems(1) obtain k1 where d: "ea_DeleteIngressIP E (gi_Namespace gi) (gi_Name gi) k = (k1, None)"
      and rest: "delete_unused E gis used k1 = ((k', used'), None)"
      by (auto simp: endpoint_ip_def split: if_splits option.splits prod.splits)
    from api d have "objs k1 = filter (\<lambda>x. gi_key x \<noteq> gi_key gi) (objs k)"
      unfolding ingress_api_def gi_key_def by blast
    with Cons.prems(2) filter_drop_key [of gi_key "objs k" "of_service ns svc" kept gi gis]
    have "in_sync objs ns svc others kept K gis k1" unfolding in_sync_def by (simp add: distinct_map_filter)
    then show ?thesis using Cons.IH [OF rest] Cons.prems(3) by blast
  qed
qed auto

lemma create_new_sync:
  assumes api: "ingress_api E objs" and mk: "\<And>ip. of_service ns svc (mk ip) \<and> endpoint_ip (mk ip) = Some ip"
  shows "create_new E mk ips k = (k', None) \<Longrightarrow> in_sync objs ns svc others kept K [] k \<Longrightarrow> distinct ips \<Longrightarrow> K \<inter> set ips = {} \<Longrightarrow>
    \<exists>kept'. in_sync objs ns svc others kept' (K \<union> set ips) [] k'"
proof (induction ips arbitrary: k kept K)
  case (Cons ip ips)
  then obtain k1 where c: "ea_CreateIngressIP E (mk ip) k = (k1, None)" and rest: "create_new E mk ips k1 = (k', None)"
    by (auto split: prod.splits option.splits)
  from api c have "gi_key (mk ip) \<notin> gi_key ` set (objs k)" "objs k1 = objs k @ [mk ip]" unfolding ingress_api_def by blast+
  with Cons.prems(2,4) mk [of ip] have "in_sync objs ns svc others (kept @ [mk ip]) (insert ip K) [] k1"
    unfolding in_sync_def by auto
  from Cons.IH [OF rest this] Cons.prems(3,4) show ?case by auto
qed auto

text \<open>C17: When the endpoints of a headless service were processed without being put back, the service has exactly one GlobalIngressIP
  for each IPv4 address of its endpoints and none for any other address, and the objects of other services are as before.\<close>

theorem endpoints_synced:
  assumes "ingress_api E objs" and "\<And>S. S \<subseteq> used_ips isIPv4 eps \<Longrightarrow> set (order S) = S \<and> distinct (order S)"
    and "distinct (map gi_key (objs k))"
    and "iec_onCreateOrUpdate E isIPv4 order svcName eps k = (k', False)"
  shows "(let mine = of_service (eps_Namespace eps) (eps_Name eps) in
    distinct (map endpoint_ip (filter mine (objs k'))) \<and>
    endpoint_ip ` set (filter mine (objs k')) = Some ` used_ips isIPv4 eps \<and>
    filter (\<lambda>gi. \<not> mine gi) (objs k') = filter (\<lambda>gi. \<not> mine gi) (objs k))"
proof -
  let ?ns = "eps_Namespace eps" and ?svc = "eps_Name eps" and ?used = "used_ips isIPv4 eps"
  from assms(4) obtain gis k1 used' where l: "ea_ListIngressIPs E ?ns ?svc k = Inr gis"
    and d: "delete_unused E gis ?used k = ((k1, used'), None)"
    and c: "create_new E (endpoint_ingress svcName eps) (order used') k1 = (k', None)"
    by (auto simp: iec_onCreateOrUpdate_def split: sum.splits prod.splits option.splits)
  have "gis = filter (of_service ?ns ?svc) (objs k)" using assms(1) l unfolding ingress_api_def by blast
  then have "in_sync objs ?ns ?svc (filter (\<lambda>gi. \<not> of_service ?ns ?svc gi) (objs k)) [] {} gis k"
    using assms(3) by (simp add: in_sync_def)
  from delete_unused_sync [OF assms(1) d this] obtain kept where
    kept: "in_sync objs ?ns ?svc (filter (\<lambda>gi. \<not> of_service ?ns ?svc gi) (objs k)) kept (?used - used') [] k1" "used' \<subseteq> ?used" by auto
  have order: "set (order used') = used'" "distinct (order used')" using assms(2) [OF kept(2)] by simp_all
  have mk: "of_service ?ns ?svc (endpoint_ingress svcName eps ip) \<and> endpoint_ip (endpoint_ingress svcName eps ip) = Some ip" for ip
    by (simp add: of_service_def endpoint_ip_def endpoint_ingress_def newIngressIP_def new_ingress_def)
  have "(?used - used') \<inter> set (order used') = {}" using order(1) by blast
  from create_new_sync [OF assms(1) mk c kept(1) order(2) this] obtain kept' where
    "in_sync objs ?ns ?svc (filter (\<lambda>gi. \<not> of_service ?ns ?svc gi) (objs k)) kept' (?used - used' \<union> used') [] k'" using order(1) by auto
  moreover have "?used - used' \<union> used' = ?used" using kept(2) by blast
  ultimately show ?thesis unfolding Let_def in_sync_def by (metis append_Nil2)
qed

definition ref_exports :: "GlobalIngressIP list exportAPI" where
  "ref_exports = \<lparr>ea_ListIngressIPs = (\<lambda>ns svc k. Inr (filter (of_service ns svc) k)),
     ea_CreateIngressIP = (\<lambda>gi k. if gi_key gi \<in> gi_key ` set k then (k, Some (Err ''already exists'')) else (k @ [gi], None)),
     ea_DeleteIngressIP = (\<lambda>ns n k. (filter (\<lambda>gi. gi_key gi \<noteq> (ns, n)) k, None)),
     ea_DeleteCollection = (\<lambda>ns svc k. (filter (\<lambda>gi. \<not> of_service ns svc gi) k, None)), ea_ListEndpoints = (\<lambda>_. Inr []),
     ea_DeleteEndpoints = (\<lambda>_ _ k. (k, None)), ea_IsNotFound = (\<lambda>_. False), ea_startPods = (\<lambda>_ k. (k, None)),
     ea_startEndpoints = (\<lambda>_ _ k. (k, None)), ea_startIngressEndpoints = (\<lambda>_ k. (k, None))\<rparr>"

lemma ref_exports_api: "ingress_api ref_exports (\<lambda>k. k)"
  by (auto simp: ingress_api_def ref_exports_def split: if_splits)

definition web_endpoints :: "string list list \<Rightarrow> gnEndpoints" where
  "web_endpoints ips = \<lparr>eps_Namespace = ''ns'', eps_Name = ''web'', eps_Labels = Map.empty, eps_Subsets = ips\<rparr>"

definition stored_ingress :: "GlobalIngressIP list" where
  "stored_ingress = map (endpoint_ingress ''web'' (web_endpoints [])) [''10.0.0.1'', ''10.0.0.9''] @ [new_ingress ''ns'' ''db'']"

theorem endpoints_synced_witness:
  "endpoint_ip ` set (filter (of_service ''ns'' ''web'')
     (fst (iec_onCreateOrUpdate ref_exports (\<lambda>ip. CHR '':'' \<notin> set ip) (\<lambda>S. filter (\<lambda>ip. ip \<in> S) [''10.0.0.1'', ''10.0.0.2''])
       ''web'' (web_endpoints [[''10.0.0.1'', ''fd00::1''], [''10.0.0.2'']]) stored_ingress))) = {Some ''10.0.0.1'', Some ''10.0.0.2''}"
proof -
  let ?v4 = "\<lambda>ip. CHR '':'' \<notin> set ip" and ?order = "\<lambda>S. filter (\<lambda>ip. ip \<in> S) [''10.0.0.1'', ''10.0.0.2'']"
  let ?eps = "web_endpoints [[''10.0.0.1'', ''fd00::1''], [''10.0.0.2'']]"
  let ?r = "iec_onCreateOrUpdate ref_exports ?v4 ?order ''web'' ?eps stored_ingress"
  have used: "used_ips ?v4 ?eps = {''10.0.0.1'', ''10.0.0.2''}" by (simp add: used_ips_def web_endpoints_def)
  have order: "set (?order S) = S \<and> distinct (?order S)" if "S \<subseteq> used_ips ?v4 ?eps" for S
    using that unfolding used by auto
  have keys: "distinct (map gi_key stored_ingress)" by code_simp
  have "snd ?r = False" by code_simp
  then have r: "?r = (fst ?r, False)" by (rule prod_eqI [OF fst_conv [symmetric], unfolded snd_conv])
  have "eps_Namespace ?eps = ''ns''" "eps_Name ?eps = ''web''" by (simp_all add: web_endpoints_def)
  with endpoints_synced [OF ref_exports_api order keys r] show ?thesis by (simp add: Let_def used)
qed

section \<open>Names of pods\<close>

text \<open>A pod whose name has its first 59 characters in common with a pod of the same headless service that has a GlobalIngressIP
  gets none.\<close>

theorem long_pod_names_collide:
  assumes "take 59 (pod_Name p) = take 59 (pod_Name q)" and "op \<noteq> OpDelete"
    and "ipc_process isIPv4 c p OpCreate = (c', Some gi, requeue)"
  shows "ipc_process isIPv4 c' q op = (c', None, False)"
proof -
  from assms(3) have "pod_ingress_name (pod_Name p) \<in> ipc_ingressIPMap c'"
    by (auto simp: ipc_process_def new_ingress_def Let_def split: if_splits)
  moreover have "pod_ingress_name (pod_Name q) = pod_ingress_name (pod_Name p)" using assms(1) by (simp add: pod_ingress_name_def)
  ultimately show ?thesis using assms(2) by (simp add: ipc_process_def new_ingress_def Let_def)
qed

definition long_pod :: "string \<Rightarrow> gnPod" where
  "long_pod suffix = \<lparr>pod_Namespace = ''ns'', pod_Name = replicate 58 (CHR ''a'') @ suffix, pod_IP = ''10.0.0.1'', pod_Phase = ''Running''\<rparr>"

theorem long_pod_names_collide_witness:
  "let c = \<lparr>ipc_svcName = ''web'', ipc_namespace = ''ns'', ipc_publishNotReadyAddresses = False, ipc_ingressIPMap = {}\<rparr>;
       r = ipc_process (\<lambda>_. True) c (long_pod ''x7k2p'') OpCreate in
   fst (snd r) \<noteq> None \<and> fst (snd (ipc_process (\<lambda>_. True) (fst r) (long_pod ''x4mzq'') OpCreate)) = None"
proof -
  let ?c = "\<lparr>ipc_svcName = ''web'', ipc_namespace = ''ns'', ipc_publishNotReadyAddresses = False, ipc_ingressIPMap = {}\<rparr>"
  let ?r = "ipc_process (\<lambda>_. True) ?c (long_pod ''x7k2p'') OpCreate"
  have t: "take 59 (pod_Name (long_pod ''x7k2p'')) = take 59 (pod_Name (long_pod ''x4mzq''))" by (simp add: long_pod_def)
  have s: "fst (snd ?r) \<noteq> None" by (simp add: ipc_process_def long_pod_def Let_def)
  then obtain gi where "fst (snd ?r) = Some gi" by blast
  then have r: "?r = (fst ?r, Some gi, snd (snd ?r))" by (intro prod_eqI) simp_all
  have "ipc_process (\<lambda>_. True) (fst ?r) (long_pod ''x4mzq'') OpCreate = (fst ?r, None, False)"
    by (rule long_pod_names_collide [OF t _ r]) simp
  with s show ?thesis by (simp only: Let_def fst_conv snd_conv simp_thms)
qed

end
