(* ===== verification/GatewayMonitor.thy ===== *)
theory GatewayMonitor
  imports GlobalServices EndpointApi NFTables
begin

text \<open>
  \<open>pkg/globalnet/controllers/gateway_monitor.go\<close> and \<open>uninstall.go\<close>: the chains of Globalnet, the marking of traffic to remote
  clusters, and the controllers, which run on the gateway node that holds the lease.

  The constructors of the controllers are a parameter, \<open>gm_create\<close>, that may fail; so are leader election, the node state
  (\<open>IsOnGateway\<close>, the remote endpoints) and the API server. A run is a sequence of steps: events of the node, callbacks of leader
  election, which come in goroutines of their own, and the shutdown. The mutex makes \<open>startControllers\<close>, \<open>stopControllers\<close> and the
  start of an election atomic; between them the other goroutines may run.
\<close>

section \<open>Chains and marks\<close>

definition SmPostRouting :: string where "SmPostRouting = ''SUBMARINER-POSTROUTING''"

definition NewPostRouting :: ChainIPHook where
  "NewPostRouting = \<lparr>ih_Name = SmPostRouting, ih_Type = ChainTypeNAT, ih_Hook = ChainHookPostrouting,
     ih_Priority = ChainPriorityFirst, ih_Policy = 0, ih_JumpRule = None\<rparr>"

definition createNATChain :: "'k pfDriver \<Rightarrow> string \<Rightarrow> 'k \<Rightarrow> 'k \<times> err option" where
  "createNATChain D chainName k = apsnd (wrap ''error creating packetfilter chain'')
     (pd_CreateChainIfNotExists D TableTypeNAT \<lparr>ch_Name = chainName, ch_Policy = 0\<rparr> k)"

text \<open>A sequence of operations that stops at the first error.\<close>

fun in_sequence :: "('k \<Rightarrow> 'k \<times> err option) list \<Rightarrow> 'k \<Rightarrow> 'k \<times> err option" where
  "in_sequence [] k = (k, None)"
| "in_sequence (f # fs) k = (case f k of (k', Some e) \<Rightarrow> (k', Some e) | (k', None) \<Rightarrow> in_sequence fs k')"

definition jump_rule_to :: "string \<Rightarrow> Rule" where
  "jump_rule_to chain = zero_rule\<lparr>TargetChain := chain, Action := RuleActionJump\<rparr>"

text \<open>An error of the last call is only logged.\<close>

definition createGlobalnetChains :: "'k pfDriver \<Rightarrow> 'k \<Rightarrow> 'k \<times> err option" where
  "createGlobalnetChains D k =
     (let hook = (\<lambda>c k. apsnd (wrap ''error creating IPHook chain'') (pd_CreateIPHookChainIfNotExists D c k)) in
      case in_sequence (map hook [NewGlobalnetIngress, NewPostRouting] @
             map (createNATChain D) [SmGlobalnetEgress, SmGlobalnetMark, SmGlobalnetEgressForPods,
               SmGlobalnetEgressForHeadlessSvcPods, SmGlobalnetEgressForHeadlessSvcEPs, SmGlobalnetEgressForNamespace,
               SmGlobalnetEgressForCluster] @
             [\<lambda>k. apsnd (wrap ''Error prepending rule'') (PrependUnique D TableTypeNAT SmPostRouting [jump_rule_to SmGlobalnetEgress] k)]) k of
        (k1, Some e) \<Rightarrow> (k1, Some e)
      | (k1, None) \<Rightarrow>
          (fst (PrependUnique D TableTypeNAT SmGlobalnetEgress (map jump_rule_to [SmGlobalnetMark, SmGlobalnetEgressForPods,
             SmGlobalnetEgressForHeadlessSvcPods, SmGlobalnetEgressForHeadlessSvcEPs, SmGlobalnetEgressForNamespace,
             SmGlobalnetEgressForCluster]) k1), None))"

definition clearGlobalnetChains :: "'k pfDriver \<Rightarrow> 'k \<Rightarrow> 'k" where
  "clearGlobalnetChains D k = foldl (\<lambda>k chain. fst (pd_ClearChain D TableTypeNAT chain k)) k
     [SmGlobalnetIngress, SmGlobalnetEgress, SmGlobalnetMark]"

definition mark_rule :: "string \<Rightarrow> Rule" where
  "mark_rule subnet = zero_rule\<lparr>DestCIDR := subnet, MarkValue := globalNetIPTableMark, Action := RuleActionMark\<rparr>"

text \<open>Errors are only logged. \<open>isIPv4CIDR\<close> is \<open>IsIPv4CIDRString\<close>.\<close>

fun markRemoteClusterTraffic :: "'k pfDriver \<Rightarrow> (string \<Rightarrow> bool) \<Rightarrow> bool \<Rightarrow> string list \<Rightarrow> 'k \<Rightarrow> 'k" where
  "markRemoteClusterTraffic D isIPv4CIDR addRules [] k = k"
| "markRemoteClusterTraffic D isIPv4CIDR addRules (subnet # subnets) k =
     markRemoteClusterTraffic D isIPv4CIDR addRules subnets
       (if \<not> isIPv4CIDR subnet then k
        else if addRules then fst (pd_AppendUnique D TableTypeNAT SmGlobalnetMark (mark_rule subnet) k)
        else fst (pd_Delete D TableTypeNAT SmGlobalnetMark (mark_rule subnet) k))"

definition gm_RemoteEndpointCreated :: "'k pfDriver \<Rightarrow> (string \<Rightarrow> bool) \<Rightarrow> string \<Rightarrow> EndpointSpec \<Rightarrow> 'k \<Rightarrow> 'k" where
  "gm_RemoteEndpointCreated D isIPv4CIDR globalCIDR spec k =
     (if fst (IsOverlapping (Subnets spec) globalCIDR) then k
      else markRemoteClusterTraffic D isIPv4CIDR True (Subnets spec) k)"

definition gm_RemoteEndpointRemoved :: "'k pfDriver \<Rightarrow> (string \<Rightarrow> bool) \<Rightarrow> EndpointSpec \<Rightarrow> 'k \<Rightarrow> 'k" where
  "gm_RemoteEndpointRemoved D isIPv4CIDR spec k = markRemoteClusterTraffic D isIPv4CIDR False (Subnets spec) k"

section \<open>Controllers and leader election\<close>

text \<open>
  \<open>gm_controllers\<close> are the names of the controllers that were created; \<open>gm_election\<close> is the current election, if its
  stop function is set; \<open>gm_elections\<close> is the number of elections started so far, which serve as their names.
\<close>

record 'k gatewayMonitor =
  gm_isOnGateway :: bool
  gm_shuttingDown :: bool
  gm_remoteEndpoints :: "EndpointSpec list"
  gm_controllers :: "string list"
  gm_election :: "nat option"
  gm_elections :: nat
  gm_cancelled :: "nat set"        \<comment> \<open>elections whose context was cancelled\<close>
  gm_host :: 'k

record 'k gmLibs =
  gm_pf :: "'k pfDriver"
  gm_isIPv4CIDR :: "string \<Rightarrow> bool"
  gm_globalCIDR :: string
  gm_cniIP :: string
  gm_create :: "string \<Rightarrow> 'k \<Rightarrow> 'k \<times> err option"
  gm_start :: "string \<Rightarrow> 'k \<Rightarrow> 'k \<times> err option"
  gm_stop :: "string \<Rightarrow> 'k \<Rightarrow> 'k"

text \<open>
  What is created, in order. Of these, the pool and the groups of per-service controllers are not controllers, and the failure to
  remove stale internal services is only logged.
\<close>

datatype stage = Ctl string | Helper string | Logged string

definition controller_stages :: "string \<Rightarrow> stage list" where
  "controller_stages cniIP = [Ctl ''ClusterGlobalEgressIP'', Ctl ''GlobalEgressIP'', Logged ''RemoveStaleInternalServices'',
     Ctl ''GlobalIngressIP'', Helper ''IngressPodControllers'', Helper ''ServiceExportEndpointsControllers'',
     Helper ''IngressEndpointsControllers'', Ctl ''ServiceExport'', Ctl ''Service''] @
     (if cniIP \<noteq> [] then [Ctl ''Gateway''] else [])"

fun create_stages :: "'k gmLibs \<Rightarrow> stage list \<Rightarrow> string list \<Rightarrow> 'k \<Rightarrow> ('k \<times> string list) \<times> err option" where
  "create_stages G [] cs k = ((k, cs), None)"
| "create_stages G (Ctl n # stages) cs k = (case gm_create G n k of
     (k', Some e) \<Rightarrow> ((k', cs), Some e)
   | (k', None) \<Rightarrow> create_stages G stages (cs @ [n]) k')"
| "create_stages G (Helper n # stages) cs k = (case gm_create G n k of
     (k', Some e) \<Rightarrow> ((k', cs), Some e)
   | (k', None) \<Rightarrow> create_stages G stages cs k')"
| "create_stages G (Logged n # stages) cs k = create_stages G stages cs (fst (gm_create G n k))"

definition startControllers :: "'k gmLibs \<Rightarrow> 'k gatewayMonitor \<Rightarrow> 'k gatewayMonitor \<times> err option" where
  "startControllers G g =
     (if gm_shuttingDown g \<or> \<not> gm_isOnGateway g \<or> gm_controllers g \<noteq> [] then (g, None)
      else (case in_sequence [createGlobalnetChains (gm_pf G), gm_create G ''IPPool''] (gm_host g) of
              (k, Some e) \<Rightarrow> (g\<lparr>gm_host := k\<rparr>, Some e)
            | (k, None) \<Rightarrow>
                (case create_stages G (controller_stages (gm_cniIP G)) [] k of
                   ((k1, cs), Some e) \<Rightarrow> (g\<lparr>gm_host := k1, gm_controllers := cs\<rparr>, Some e)
                 | ((k1, cs), None) \<Rightarrow>
                     (case in_sequence (map (gm_start G) cs) k1 of (k2, e) \<Rightarrow> (g\<lparr>gm_host := k2, gm_controllers := cs\<rparr>, e)))))"

definition stop_election :: "nat option \<Rightarrow> 'k gatewayMonitor \<Rightarrow> 'k gatewayMonitor" where
  "stop_election i g = g\<lparr>gm_cancelled := gm_cancelled g \<union> set_option i\<rparr>"

definition stopControllers :: "'k gmLibs \<Rightarrow> bool \<Rightarrow> 'k gatewayMonitor \<Rightarrow> 'k gatewayMonitor" where
  "stopControllers G clear g =
     (let k = foldl (\<lambda>k c. gm_stop G c k) (gm_host g) (gm_controllers g);
          k1 = (if clear then clearGlobalnetChains (gm_pf G) k else k) in
      stop_election (gm_election g) (g\<lparr>gm_controllers := [], gm_host := k1, gm_election := None\<rparr>))"

definition startLeaderElection :: "'k gatewayMonitor \<Rightarrow> 'k gatewayMonitor" where
  "startLeaderElection g =
     (if gm_shuttingDown g \<or> \<not> gm_isOnGateway g then g
      else g\<lparr>gm_election := Some (gm_elections g), gm_elections := gm_elections g + 1\<rparr>)"

definition OnStartedLeading :: "'k gmLibs \<Rightarrow> nat \<Rightarrow> 'k gatewayMonitor \<Rightarrow> 'k gatewayMonitor" where
  "OnStartedLeading G i g = (case startControllers G g of
      (g', None) \<Rightarrow> g' | (g', Some e) \<Rightarrow> stop_election (Some i) g')"

definition OnStoppedLeading :: "'k gmLibs \<Rightarrow> 'k gatewayMonitor \<Rightarrow> 'k gatewayMonitor" where
  "OnStoppedLeading G g =
     (if \<not> gm_shuttingDown g \<and> gm_isOnGateway g then startLeaderElection (stopControllers G False g) else g)"

definition gm_TransitionToGateway :: "'k gmLibs \<Rightarrow> 'k gatewayMonitor \<Rightarrow> 'k gatewayMonitor" where
  "gm_TransitionToGateway G g =
     startLeaderElection (g\<lparr>gm_host := foldl (\<lambda>k spec. markRemoteClusterTraffic (gm_pf G) (gm_isIPv4CIDR G) True (Subnets spec) k)
       (gm_host g) (gm_remoteEndpoints g)\<rparr>)"

definition gm_TransitionToNonGateway :: "'k gmLibs \<Rightarrow> 'k gatewayMonitor \<Rightarrow> 'k gatewayMonitor" where
  "gm_TransitionToNonGateway G g = stopControllers G True g"

definition gm_Init :: "'k gmLibs \<Rightarrow> 'k gatewayMonitor \<Rightarrow> 'k gatewayMonitor \<times> err option" where
  "gm_Init G g = (case createNATChain (gm_pf G) SmGlobalnetMark (gm_host g) of (k, e) \<Rightarrow> (g\<lparr>gm_host := k\<rparr>, e))"

text \<open>\<open>Stop\<close> sets the flag first; the controllers are stopped in a second step.\<close>

definition gm_Stop_flag :: "'k gatewayMonitor \<Rightarrow> 'k gatewayMonitor" where
  "gm_Stop_flag g = g\<lparr>gm_shuttingDown := True\<rparr>"

definition gm_Stop :: "'k gmLibs \<Rightarrow> 'k gatewayMonitor \<Rightarrow> 'k gatewayMonitor" where
  "gm_Stop G g = stopControllers G True (gm_Stop_flag g)"

text \<open>The syncer that removes the rules of the local gateway when its object is deleted.\<close>

definition cleanup_shouldProcess :: "string \<Rightarrow> gnGateway \<Rightarrow> gnOp \<Rightarrow> bool" where
  "cleanup_shouldProcess hostname gw op \<longleftrightarrow> op = OpDelete \<and> gg_Name gw = hostname \<and> gg_globalIP gw \<noteq> []"

definition cleanup_transform :: "'k pfDriver \<Rightarrow> string \<Rightarrow> gnGateway \<Rightarrow> 'k \<Rightarrow> 'k \<times> bool" where
  "cleanup_transform D cniIP gw k = (case RemoveIngressRulesForHealthCheck D cniIP (gg_globalIP gw) k of (k', e) \<Rightarrow> (k', e \<noteq> None))"

section \<open>Uninstalling\<close>

definition natTableChains :: "string list" where
  "natTableChains = [SmGlobalnetEgressForCluster, SmGlobalnetEgressForHeadlessSvcPods, SmGlobalnetEgressForHeadlessSvcEPs,
     SmGlobalnetEgressForNamespace, SmGlobalnetEgressForPods, SmGlobalnetIngress, SmGlobalnetMark, SmGlobalnetEgress]"

text \<open>Errors are only logged. \<open>destroySets\<close> is \<open>DestroySets\<close> of the packet filter, with the predicate on names.\<close>

definition UninstallDataPath :: "'k pfDriver \<Rightarrow> ((string \<Rightarrow> bool) \<Rightarrow> 'k \<Rightarrow> 'k \<times> err option) \<Rightarrow> 'k \<Rightarrow> 'k" where
  "UninstallDataPath D destroySets k =
     (let k1 = foldl (\<lambda>k chain. fst (FlushNatChain D chain k)) k (natTableChains @ [SmPostRouting]);
          k2 = fst (pd_DeleteIPHookChain D NewGlobalnetIngress k1);
          k3 = foldl (\<lambda>k chain. fst (DeleteNatChain D chain k)) k2 (filter (\<lambda>chain. chain \<noteq> SmGlobalnetIngress) natTableChains) in
      fst (destroySets (\<lambda>name. has_prefix name IPSetPrefix) k3))"

definition deleteInternalService :: "('p, 'k) gnLibs \<Rightarrow> 'k serviceAPI \<Rightarrow> GlobalIngressIP \<Rightarrow> 'k \<Rightarrow> 'k" where
  "deleteInternalService G A gi k = (case gi_ServiceRef gi of
      None \<Rightarrow> k
    | Some ref \<Rightarrow>
        (let internalSvc = GetInternalSvcName G ref in
         case getService A internalSvc (gi_Namespace gi) k of
           Inr (Some service) \<Rightarrow> fst (deleteService A (gi_Namespace gi) internalSvc
             (fst (sa_RemoveFinalizer A service InternalServiceFinalizer k)))
         | _ \<Rightarrow> k))"

text \<open>The services are deleted before the objects are.\<close>

definition deleteGlobalIngressIPs ::
  "('p, 'k) gnLibs \<Rightarrow> 'k serviceAPI \<Rightarrow> ('k \<Rightarrow> GlobalIngressIP list result) \<Rightarrow> ('k \<Rightarrow> 'k \<times> err option) \<Rightarrow> 'k \<Rightarrow> 'k" where
  "deleteGlobalIngressIPs G A list deleteAll k = (case list k of
      Inl e \<Rightarrow> k
    | Inr giips \<Rightarrow> fst (deleteAll (foldl (\<lambda>k gi. deleteInternalService G A gi k) k giips)))"

text \<open>\<open>deleteCollection\<close> deletes all objects of a kind.\<close>

definition DeleteGlobalnetObjects ::
  "('p, 'k) gnLibs \<Rightarrow> 'k serviceAPI \<Rightarrow> ('k \<Rightarrow> GlobalIngressIP list result) \<Rightarrow> (string \<Rightarrow> 'k \<Rightarrow> 'k \<times> err option) \<Rightarrow> 'k \<Rightarrow> 'k" where
  "DeleteGlobalnetObjects G A list deleteCollection k =
     deleteGlobalIngressIPs G A list (deleteCollection ''GlobalIngressIP'')
       (fst (deleteCollection ''GlobalEgressIP'' (fst (deleteCollection ''ClusterGlobalEgressIP'' k))))"

text \<open>Services with a deletion time lose their finalizer; \<open>list\<close> gives a service and whether it is being deleted.\<close>

fun remove_finalizers :: "'k serviceAPI \<Rightarrow> (Service \<times> bool) list \<Rightarrow> 'k \<Rightarrow> 'k \<times> err option" where
  "remove_finalizers A [] k = (k, None)"
| "remove_finalizers A ((svc, deleting) # svcs) k =
     (if deleting
      then (case sa_RemoveFinalizer A svc InternalServiceFinalizer k of
              (k', Some e) \<Rightarrow> (k', Some (Wrapped ''error while removing the finalizer'' e))
            | (k', None) \<Rightarrow> remove_finalizers A svcs k')
      else remove_finalizers A svcs k)"

definition RemoveStaleInternalServices ::
  "'k serviceAPI \<Rightarrow> (string \<Rightarrow> 'k \<Rightarrow> (Service \<times> bool) list result) \<Rightarrow> 'k \<Rightarrow> 'k \<times> err option" where
  "RemoveStaleInternalServices A list k = (case list InternalServiceLabel k of
      Inl e \<Rightarrow> (k, Some (Wrapped ''error listing the services'' e))
    | Inr svcs \<Rightarrow> remove_finalizers A svcs k)"

section \<open>Runs\<close>

text \<open>
  What the goroutines have still to do: \<open>run_transition\<close>, the node is no longer a gateway and the event controller has not called
  \<open>TransitionToNonGateway\<close> yet; \<open>run_stop\<close>, the shutdown flag is set and \<open>Stop\<close> has not stopped the controllers yet; \<open>run_regain\<close> and
  \<open>run_restart\<close>, callbacks that found leadership lost and have yet to stop the controllers, and then to start an election.
\<close>

record 'k gmRun =
  run_gm :: "'k gatewayMonitor"
  run_transition :: bool
  run_stop :: bool
  run_regain :: nat
  run_restart :: nat

inductive gm_step :: "'k gmLibs \<Rightarrow> 'k gmRun \<Rightarrow> 'k gmRun \<Rightarrow> bool" for G where
  becomes_gateway: "\<not> gm_isOnGateway (run_gm r) \<Longrightarrow> \<not> run_transition r \<Longrightarrow>
    gm_step G r (r\<lparr>run_gm := gm_TransitionToGateway G ((run_gm r)\<lparr>gm_isOnGateway := True\<rparr>)\<rparr>)"
| leaves_gateway: "gm_isOnGateway (run_gm r) \<Longrightarrow>
    gm_step G r (r\<lparr>run_gm := (run_gm r)\<lparr>gm_isOnGateway := False\<rparr>, run_transition := True\<rparr>)"
| transition: "run_transition r \<Longrightarrow>
    gm_step G r (r\<lparr>run_gm := gm_TransitionToNonGateway G (run_gm r), run_transition := False\<rparr>)"
| started_leading: "i < gm_elections (run_gm r) \<Longrightarrow> gm_step G r (r\<lparr>run_gm := OnStartedLeading G i (run_gm r)\<rparr>)"
| stopped_leading: "\<not> gm_shuttingDown (run_gm r) \<Longrightarrow> gm_isOnGateway (run_gm r) \<Longrightarrow>
    gm_step G r (r\<lparr>run_regain := Suc (run_regain r)\<rparr>)"
| regain_stops: "run_regain r = Suc n \<Longrightarrow>
    gm_step G r (r\<lparr>run_gm := stopControllers G False (run_gm r), run_regain := n, run_restart := Suc (run_restart r)\<rparr>)"
| regain_starts: "run_restart r = Suc n \<Longrightarrow>
    gm_step G r (r\<lparr>run_gm := startLeaderElection (run_gm r), run_restart := n\<rparr>)"
| remote_created: "gm_step G r (r\<lparr>run_gm := (run_gm r)\<lparr>gm_remoteEndpoints := spec # gm_remoteEndpoints (run_gm r),
    gm_host := gm_RemoteEndpointCreated (gm_pf G) (gm_isIPv4CIDR G) (gm_globalCIDR G) spec (gm_host (run_gm r))\<rparr>\<rparr>)"
| remote_removed: "gm_step G r (r\<lparr>run_gm := (run_gm r)\<lparr>gm_remoteEndpoints := removeAll spec (gm_remoteEndpoints (run_gm r)),
    gm_host := gm_RemoteEndpointRemoved (gm_pf G) (gm_isIPv4CIDR G) spec (gm_host (run_gm r))\<rparr>\<rparr>)"
| shutdown: "\<not> gm_shuttingDown (run_gm r) \<Longrightarrow> gm_step G r (r\<lparr>run_gm := gm_Stop_flag (run_gm r), run_stop := True\<rparr>)"
| stops: "run_stop r \<Longrightarrow> gm_step G r (r\<lparr>run_gm := stopControllers G True (run_gm r), run_stop := False\<rparr>)"

definition gm_initial :: "'k \<Rightarrow> 'k gmRun" where
  "gm_initial k = \<lparr>run_gm = \<lparr>gm_isOnGateway = False, gm_shuttingDown = False, gm_remoteEndpoints = [], gm_controllers = [],
     gm_election = None, gm_elections = 0, gm_cancelled = {}, gm_host = k\<rparr>, run_transition = False, run_stop = False,
     run_regain = 0, run_restart = 0\<rparr>"

inductive gm_reachable :: "'k gmLibs \<Rightarrow> 'k gmRun \<Rightarrow> bool" for G where
  gm_init: "gm_reachable G (gm_initial k)"
| gm_next: "gm_reachable G r \<Longrightarrow> gm_step G r r' \<Longrightarrow> gm_reachable G r'"

text \<open>The whole callback is its check and the two steps after it.\<close>

lemma OnStoppedLeading_steps:
  assumes "\<not> gm_shuttingDown (run_gm r)" "gm_isOnGateway (run_gm r)"
  shows "(gm_step G)\<^sup>*\<^sup>* r (r\<lparr>run_gm := OnStoppedLeading G (run_gm r)\<rparr>)"
proof -
  let ?r1 = "r\<lparr>run_regain := Suc (run_regain r)\<rparr>"
  let ?r2 = "r\<lparr>run_gm := stopControllers G False (run_gm r), run_restart := Suc (run_restart r)\<rparr>"
  have "gm_step G r ?r1" by (rule stopped_leading [OF assms])
  moreover have "gm_step G ?r1 ?r2" using regain_stops [of ?r1 "run_regain r" G] by simp
  moreover have "gm_step G ?r2 (r\<lparr>run_gm := OnStoppedLeading G (run_gm r)\<rparr>)"
    using regain_starts [of ?r2 "run_restart r" G] assms by (simp add: OnStoppedLeading_def)
  ultimately show ?thesis by (meson converse_rtranclp_into_rtranclp r_into_rtranclp)
qed

section \<open>Where the controllers run\<close>

lemma stopControllers_simps [simp]:
  "gm_controllers (stopControllers G clear g) = []" "gm_isOnGateway (stopControllers G clear g) = gm_isOnGateway g"
  "gm_shuttingDown (stopControllers G clear g) = gm_shuttingDown g" "gm_election (stopControllers G clear g) = None"
  "gm_elections (stopControllers G clear g) = gm_elections g"
  "gm_cancelled (stopControllers G clear g) = gm_cancelled g \<union> set_option (gm_election g)"
  by (simp_all add: stopControllers_def stop_election_def Let_def)

lemma startLeaderElection_simps [simp]:
  "gm_controllers (startLeaderElection g) = gm_controllers g" "gm_isOnGateway (startLeaderElection g) = gm_isOnGateway g"
  "gm_shuttingDown (startLeaderElection g) = gm_shuttingDown g" "gm_cancelled (startLeaderElection g) = gm_cancelled g"
  by (simp_all add: startLeaderElection_def)

lemma OnStartedLeading_cases:
  "gm_isOnGateway (OnStartedLeading G i g) = gm_isOnGateway g \<and> gm_shuttingDown (OnStartedLeading G i g) = gm_shuttingDown g \<and>
   (gm_controllers (OnStartedLeading G i g) = gm_controllers g \<or> gm_isOnGateway g \<and> \<not> gm_shuttingDown g)"
  by (auto simp: OnStartedLeading_def startControllers_def stop_election_def split: prod.splits option.splits if_splits)

lemma gm_inv:
  "gm_reachable G r \<Longrightarrow> gm_controllers (run_gm r) \<noteq> [] \<Longrightarrow>
   gm_isOnGateway (run_gm r) \<and> \<not> gm_shuttingDown (run_gm r) \<or> run_transition r \<or> run_stop r"
proof (induction rule: gm_reachable.induct)
  case (gm_next r r')
  from gm_next.hyps(2) gm_next.prems gm_next.IH show ?case
  proof cases
    case (started_leading i)
    then show ?thesis using OnStartedLeading_cases [of G i "run_gm r"] gm_next.prems gm_next.IH by auto
  qed (auto simp: gm_TransitionToGateway_def gm_TransitionToNonGateway_def gm_Stop_flag_def)
qed (simp add: gm_initial_def)

text \<open>C18: The Globalnet controllers only run on a gateway node: when the node is not a gateway, or shuts down, and no call that stops
  them is outstanding, there are none, whatever the order of node events, leader election callbacks and shutdown.\<close>

theorem controllers_only_on_gateway:
  assumes "gm_reachable G r" and "\<not> gm_isOnGateway (run_gm r) \<or> gm_shuttingDown (run_gm r)"
    and "\<not> run_transition r" and "\<not> run_stop r"
  shows "gm_controllers (run_gm r) = []"
  using gm_inv [OF assms(1)] assms(2-4) by blast

definition gm_libs :: "ref_table gmLibs" where
  "gm_libs = \<lparr>gm_pf = nftDriver (ref_nft []) False, gm_isIPv4CIDR = (\<lambda>_. True), gm_globalCIDR = ''242.0.0.0/8'', gm_cniIP = [],
     gm_create = (\<lambda>_ k. (k, None)), gm_start = (\<lambda>_ k. (k, None)), gm_stop = (\<lambda>_ k. k)\<rparr>"

text \<open>The steps of one run: the node becomes a gateway, gains leadership, is no gateway any more.\<close>

definition led_run :: "ref_table gmRun" where
  "led_run = (let r = gm_initial Map.empty;
       r1 = r\<lparr>run_gm := gm_TransitionToGateway gm_libs ((run_gm r)\<lparr>gm_isOnGateway := True\<rparr>)\<rparr> in
     r1\<lparr>run_gm := OnStartedLeading gm_libs 0 (run_gm r1)\<rparr>)"

definition left_run :: "ref_table gmRun" where
  "left_run = led_run\<lparr>run_gm := (run_gm led_run)\<lparr>gm_isOnGateway := False\<rparr>, run_transition := True\<rparr>"

lemma led_run_reachable: "gm_reachable gm_libs led_run"
  unfolding led_run_def Let_def
  by (rule gm_next [OF gm_next [OF gm_init becomes_gateway] started_leading])
    (simp_all add: gm_initial_def gm_TransitionToGateway_def startLeaderElection_def)

theorem controllers_only_on_gateway_witness:
  "gm_controllers (run_gm led_run) = [''ClusterGlobalEgressIP'', ''GlobalEgressIP'', ''GlobalIngressIP'', ''ServiceExport'', ''Service''] \<and>
   gm_controllers (gm_TransitionToNonGateway gm_libs (run_gm left_run)) = []"
proof
  show c: "gm_controllers (run_gm led_run) = [''ClusterGlobalEgressIP'', ''GlobalEgressIP'', ''GlobalIngressIP'', ''ServiceExport'', ''Service'']"
    by code_simp
  let ?r = "left_run\<lparr>run_gm := gm_TransitionToNonGateway gm_libs (run_gm left_run), run_transition := False\<rparr>"
  have on: "gm_isOnGateway (run_gm led_run)" by code_simp
  have "gm_reachable gm_libs left_run"
    unfolding left_run_def by (rule gm_next [OF led_run_reachable leaves_gateway [OF on]])
  then have "gm_reachable gm_libs ?r" by (rule gm_next) (rule transition, simp add: left_run_def)
  moreover have "\<not> run_stop ?r" by (simp add: left_run_def led_run_def gm_initial_def Let_def)
  ultimately have "gm_controllers (run_gm ?r) = []"
    by (intro controllers_only_on_gateway) (simp_all add: left_run_def gm_TransitionToNonGateway_def)
  then show "gm_controllers (gm_TransitionToNonGateway gm_libs (run_gm left_run)) = []" by simp
qed

text \<open>The step in which the controllers fail to start after election \<open>i\<close> gave leadership: the callback then cancels its election.\<close>

definition start_fails :: "'k gmLibs \<Rightarrow> nat \<Rightarrow> 'k gmRun \<Rightarrow> 'k gmRun \<Rightarrow> bool" where
  "start_fails G i r r' \<longleftrightarrow> r' = r\<lparr>run_gm := OnStartedLeading G i (run_gm r)\<rparr> \<and> snd (startControllers G (run_gm r)) \<noteq> None"

definition leaked :: "nat \<Rightarrow> 'k gmRun \<Rightarrow> bool" where
  "leaked i r \<longleftrightarrow> i < gm_elections (run_gm r) \<and> gm_election (run_gm r) \<noteq> Some i \<and> i \<notin> gm_cancelled (run_gm r)"

lemma OnStartedLeading_election:
  "gm_election (OnStartedLeading G j g) = gm_election g \<and> gm_elections (OnStartedLeading G j g) = gm_elections g \<and>
   gm_cancelled (OnStartedLeading G j g) = gm_cancelled g \<union> (if snd (startControllers G g) = None then {} else {j})"
  by (auto simp: OnStartedLeading_def startControllers_def stop_election_def split: prod.splits option.splits if_splits)

lemma startLeaderElection_election:
  "gm_elections g \<le> gm_elections (startLeaderElection g) \<and>
   (gm_election (startLeaderElection g) = gm_election g \<or> gm_election (startLeaderElection g) = Some (gm_elections g))"
  by (auto simp: startLeaderElection_def)

lemma leaked_stays:
  assumes "gm_step G r r'" "\<not> start_fails G i r r'" "leaked i r"
  shows "leaked i r'"
  using assms(1)
proof cases
  case (started_leading j)
  with assms(2,3) OnStartedLeading_election [of G j "run_gm r"] show ?thesis
    by (auto simp: leaked_def start_fails_def split: if_splits)
next
  case becomes_gateway
  with assms(3) startLeaderElection_election show ?thesis
    by (fastforce simp: leaked_def gm_TransitionToGateway_def startLeaderElection_def)
next
  case (regain_starts n)
  with assms(3) startLeaderElection_election [of "run_gm r"] show ?thesis by (auto simp: leaked_def)
qed (use assms(3) in \<open>auto simp: leaked_def gm_TransitionToNonGateway_def gm_Stop_flag_def\<close>)

lemma leaked_for_good:
  "(\<lambda>a b. gm_step G a b \<and> \<not> start_fails G i a b)\<^sup>*\<^sup>* r r' \<Longrightarrow> leaked i r \<Longrightarrow> leaked i r'"
  by (induction rule: rtranclp_induct) (auto intro: leaked_stays)

text \<open>C37: A race leaves an election that nobody can stop. When leadership is lost, and the node stops being a gateway and becomes one again
  between the two steps of the callback, the election that the second transition started is replaced by another one. The run reaches a state
  in which the node is no gateway, nothing is outstanding and no election can be stopped, and yet an election was not cancelled. From
  there no event of the node, no callback and no shutdown ever cancels it: the only step that still could is its own callback, when it gains
  leadership on a gateway and the controllers fail to start.\<close>

theorem election_leaked:
  "\<exists>r i. gm_reachable G r \<and> \<not> gm_isOnGateway (run_gm r) \<and> \<not> run_transition r \<and> run_regain r = 0 \<and> run_restart r = 0 \<and>
     gm_election (run_gm r) = None \<and> i < gm_elections (run_gm r) \<and> i \<notin> gm_cancelled (run_gm r) \<and>
     (\<forall>r'. (\<lambda>a b. gm_step G a b \<and> \<not> start_fails G i a b)\<^sup>*\<^sup>* r r' \<longrightarrow> i \<notin> gm_cancelled (run_gm r') \<and> gm_election (run_gm r') \<noteq> Some i)"
proof -
  define enter where "enter r = r\<lparr>run_gm := gm_TransitionToGateway G ((run_gm r)\<lparr>gm_isOnGateway := True\<rparr>)\<rparr>" for r :: "'a gmRun"
  define leave where "leave r = r\<lparr>run_gm := gm_TransitionToNonGateway G ((run_gm r)\<lparr>gm_isOnGateway := False\<rparr>), run_transition := False\<rparr>"
    for r :: "'a gmRun"
  define halt where "halt r = r\<lparr>run_gm := stopControllers G False (run_gm r), run_restart := Suc (run_restart r)\<rparr>" for r :: "'a gmRun"
  define elect where "elect r = r\<lparr>run_gm := startLeaderElection (run_gm r), run_restart := 0\<rparr>" for r :: "'a gmRun"
  have enter: "gm_reachable G (enter r)" if "gm_reachable G r" "\<not> gm_isOnGateway (run_gm r)" "\<not> run_transition r" for r
    unfolding enter_def by (rule gm_next [OF that(1) becomes_gateway [OF that(2,3)]])
  have leave: "gm_reachable G (leave r)" if "gm_reachable G r" "gm_isOnGateway (run_gm r)" for r
    using gm_next [OF gm_next [OF that(1) leaves_gateway [OF that(2)]] transition] by (simp add: leave_def)
  have halt: "gm_reachable G (halt r)"
    if "gm_reachable G r" "\<not> gm_shuttingDown (run_gm r)" "gm_isOnGateway (run_gm r)" for r
    using gm_next [OF gm_next [OF that(1) stopped_leading [OF that(2,3)]] regain_stops [of _ "run_regain r"]]
    by (simp add: halt_def)
  have elect: "gm_reachable G (elect r)" if "gm_reachable G r" "run_restart r = 1" for r
    unfolding elect_def using gm_next [OF that(1) regain_starts [of r 0]] that(2) by simp
  note defs = enter_def leave_def halt_def elect_def gm_initial_def gm_TransitionToGateway_def
    gm_TransitionToNonGateway_def startLeaderElection_def
  define r0 :: "'a gmRun" where "r0 = gm_initial undefined"
  have "gm_reachable G (enter r0)" by (rule enter) (simp_all add: r0_def gm_init, simp_all add: gm_initial_def)
  then have "gm_reachable G (halt (enter r0))" by (rule halt) (simp_all add: defs r0_def)
  then have "gm_reachable G (leave (halt (enter r0)))" by (rule leave) (simp_all add: defs r0_def)
  then have "gm_reachable G (enter (leave (halt (enter r0))))" by (rule enter) (simp_all add: defs r0_def)
  then have "gm_reachable G (elect (enter (leave (halt (enter r0)))))" by (rule elect) (simp_all add: defs r0_def)
  then have "gm_reachable G (leave (elect (enter (leave (halt (enter r0))))))" by (rule leave) (simp_all add: defs r0_def)
  then show ?thesis
  proof (intro exI [of _ "leave (elect (enter (leave (halt (enter r0)))))"] exI [of _ 1] conjI allI impI)
    let ?r = "leave (elect (enter (leave (halt (enter r0)))))"
    have l: "leaked 1 ?r" by (simp add: leaked_def defs r0_def)
    then show "1 < gm_elections (run_gm ?r)" "1 \<notin> gm_cancelled (run_gm ?r)" by (simp_all add: leaked_def)
    show "1 \<notin> gm_cancelled (run_gm r')" "gm_election (run_gm r') \<noteq> Some 1"
      if "(\<lambda>a b. gm_step G a b \<and> \<not> start_fails G 1 a b)\<^sup>*\<^sup>* ?r r'" for r'
      using leaked_for_good [OF that l] by (simp_all add: leaked_def)
  qed (simp_all add: defs r0_def)
qed

text \<open>The shutdown does not stop the election either.\<close>

theorem election_leaked_witness:
  "\<exists>r. gm_reachable gm_libs r \<and> gm_shuttingDown (run_gm r) \<and> \<not> run_stop r \<and> (\<exists>i<gm_elections (run_gm r). i \<notin> gm_cancelled (run_gm r))"
proof -
  let ?quiet = "\<lambda>i a b. gm_step gm_libs a b \<and> \<not> start_fails gm_libs i a b"
  from election_leaked [of gm_libs] obtain r i where r: "gm_reachable gm_libs r" "\<not> gm_isOnGateway (run_gm r)" "i < gm_elections (run_gm r)"
    "\<And>r'. (?quiet i)\<^sup>*\<^sup>* r r' \<Longrightarrow> i \<notin> gm_cancelled (run_gm r')" by blast
  have quiet: "(?quiet i)\<^sup>*\<^sup>* a c" if "(?quiet i)\<^sup>*\<^sup>* a b" "gm_step gm_libs b c" "\<not> gm_isOnGateway (run_gm b)" for a b c
  proof -
    have "\<not> start_fails gm_libs i b c" using that(3) by (simp add: start_fails_def startControllers_def)
    with that(1,2) show ?thesis by (simp add: rtranclp.rtrancl_into_rtrancl)
  qed
  obtain r1 where r1: "(?quiet i)\<^sup>*\<^sup>* r r1" "gm_reachable gm_libs r1" "\<not> gm_isOnGateway (run_gm r1)" "gm_shuttingDown (run_gm r1)"
    "gm_elections (run_gm r1) = gm_elections (run_gm r)"
  proof (cases "gm_shuttingDown (run_gm r)")
    case True
    with r(1,2) show ?thesis by (intro that [of r]) simp_all
  next
    case False
    note s = shutdown [OF this, of gm_libs]
    show ?thesis
      by (rule that [OF quiet [OF rtranclp.rtrancl_refl s r(2)] gm_next [OF r(1) s]]) (simp_all add: gm_Stop_flag_def r(2))
  qed
  show ?thesis
  proof (cases "run_stop r1")
    case False
    with r1 r(3) r(4) [OF r1(1)] show ?thesis by (intro exI [of _ r1]) auto
  next
    case True
    note s = stops [OF this, of gm_libs]
    let ?r2 = "r1\<lparr>run_gm := stopControllers gm_libs True (run_gm r1), run_stop := False\<rparr>"
    have "i \<notin> gm_cancelled (run_gm ?r2)" by (rule r(4)) (rule quiet [OF r1(1) s r1(3)])
    with gm_next [OF r1(2) s] r1 r(3) show ?thesis by (intro exI [of _ ?r2]) auto
  qed
qed

end
