(* ===== verification/RouteChains.thy ===== *)
theory RouteChains
  imports GatewayMonitor EventController
begin

text \<open>
  \<open>pkg/routeagent_driver/chains\<close> and \<open>constants\<close>: the chains and the routing tables of the route agent's handlers.
\<close>

definition RouteAgentInterClusterNetworkTableID :: int where "RouteAgentInterClusterNetworkTableID = 149"
definition RouteAgentHostNetworkTableID :: int where "RouteAgentHostNetworkTableID = 150"

definition SmPostRoutingMss :: string where "SmPostRoutingMss = ''SUBMARINER-POSTROUTING-MSS''"
definition SmInput :: string where "SmInput = ''SUBMARINER-INPUT''"
definition SmForward :: string where "SmForward = ''SUBMARINER-FORWARD''"
definition SmForwardMSSClamp :: string where "SmForwardMSSClamp = ''SUBMARINER-FWD-MSSCLAMP''"
definition SmSelfSnat :: string where "SmSelfSnat = ''SUBMARINER-SELF-SNAT''"

definition NewForwarding :: ChainIPHook where
  "NewForwarding = \<lparr>ih_Name = SmForward, ih_Type = ChainTypeFilter, ih_Hook = ChainHookForward,
     ih_Priority = ChainPriorityFirst, ih_Policy = 0, ih_JumpRule = None\<rparr>"

definition NewForwardingMSSClamp :: ChainIPHook where
  "NewForwardingMSSClamp = \<lparr>ih_Name = SmForwardMSSClamp, ih_Type = ChainTypeFilter, ih_Hook = ChainHookForward,
     ih_Priority = ChainPriorityFirst, ih_Policy = 0, ih_JumpRule = None\<rparr>"

definition NewInput :: ChainIPHook where
  "NewInput = \<lparr>ih_Name = SmInput, ih_Type = ChainTypeFilter, ih_Hook = ChainHookInput, ih_Priority = ChainPriorityLast, ih_Policy = 0,
     ih_JumpRule = Some (zero_rule\<lparr>Proto := RuleProtoUDP, Action := RuleActionJump, TargetChain := SmInput\<rparr>)\<rparr>"

definition NewSelfSnat :: ChainIPHook where
  "NewSelfSnat = \<lparr>ih_Name = SmSelfSnat, ih_Type = ChainTypeNAT, ih_Hook = ChainHookPostrouting,
     ih_Priority = ChainPriorityMiddle, ih_Policy = 0, ih_JumpRule = None\<rparr>"

section \<open>Sequences of events\<close>

text \<open>An event with the number of times it was queued.\<close>

datatype route_event = EvCreated Endpoint int | EvUpdated Endpoint int | EvRemoved Endpoint int

fun ev_endpoint :: "route_event \<Rightarrow> Endpoint" where
  "ev_endpoint (EvCreated ep n) = ep"
| "ev_endpoint (EvUpdated ep n) = ep"
| "ev_endpoint (EvRemoved ep n) = ep"

fun ev_apply :: "'h callbacks \<Rightarrow> route_event \<Rightarrow> 'h handlerController \<Rightarrow> 'h handlerController" where
  "ev_apply H (EvCreated ep n) c = fst (handleCreatedEndpoint H ep n c)"
| "ev_apply H (EvUpdated ep n) c = fst (handleUpdatedEndpoint H ep n c)"
| "ev_apply H (EvRemoved ep n) c = fst (handleRemovedEndpoint' H ep n c)"

definition ev_run :: "'h callbacks \<Rightarrow> route_event list \<Rightarrow> 'h handlerController \<Rightarrow> 'h handlerController" where
  "ev_run H es c = fold (ev_apply H) es c"

text \<open>The clusters whose endpoint was created successfully and not removed since.\<close>

fun covered :: "(callback \<times> bool) list \<Rightarrow> string set" where
  "covered [] = {}"
| "covered ((RemoteEndpointCreated ep, True) # cs) = insert (ClusterID (ep_Spec ep)) (covered cs)"
| "covered ((RemoteEndpointRemoved ep, ok) # cs) = covered cs - {ClusterID (ep_Spec ep)}"
| "covered (c # cs) = covered cs"

section \<open>What the event controller promises to a handler\<close>

text \<open>
  \<open>I\<close> relates the last endpoint of each cluster, the calls made and the state of the handler; \<open>ok\<close> is what is known of the endpoints.
  It is enough to show that the callbacks keep it: creations and removals of remote endpoints change the last endpoint of a cluster,
  and a removal is only reported for the last endpoint or for a cluster that has none.
\<close>

fun cb_endpoint :: "callback \<Rightarrow> Endpoint option" where
  "cb_endpoint (TransitionToNonGateway ep) = Some ep"
| "cb_endpoint (LocalEndpointCreated ep) = Some ep"
| "cb_endpoint (LocalEndpointUpdated ep) = Some ep"
| "cb_endpoint (LocalEndpointRemoved ep) = Some ep"
| "cb_endpoint (RemoteEndpointCreated ep) = Some ep"
| "cb_endpoint (RemoteEndpointUpdated ep) = Some ep"
| "cb_endpoint (RemoteEndpointRemoved ep) = Some ep"
| "cb_endpoint (StaleRemoteEndpointRemoved ep) = Some ep"
| "cb_endpoint _ = None"

fun changes_last :: "callback \<Rightarrow> bool" where
  "changes_last (RemoteEndpointCreated ep) = True"
| "changes_last (RemoteEndpointRemoved ep) = True"
| "changes_last _ = False"

locale event_client =
  fixes H :: "'h callbacks"
    and I :: "(string \<rightharpoonup> Endpoint) \<Rightarrow> (callback \<times> bool) list \<Rightarrow> 'h \<Rightarrow> bool"
    and ok :: "Endpoint \<Rightarrow> bool"
  assumes on_created: "ok ep \<Longrightarrow> I lasts calls h \<Longrightarrow> H (RemoteEndpointCreated ep) h = (h', e) \<Longrightarrow>
      I (lasts(ClusterID (ep_Spec ep) \<mapsto> ep)) (calls @ [(RemoteEndpointCreated ep, e = None)]) h'"
    and on_removed: "ok ep \<Longrightarrow> pred_option (\<lambda>p. ep_UID p = ep_UID ep) (lasts (ClusterID (ep_Spec ep))) \<Longrightarrow> I lasts calls h \<Longrightarrow> H (RemoteEndpointRemoved ep) h = (h', e) \<Longrightarrow>
      I (lasts(ClusterID (ep_Spec ep) := None)) (calls @ [(RemoteEndpointRemoved ep, e = None)]) h'"
    and on_other: "\<not> changes_last cb \<Longrightarrow> pred_option ok (cb_endpoint cb) \<Longrightarrow> I lasts calls h \<Longrightarrow> H cb h = (h', e) \<Longrightarrow>
      I lasts (calls @ [(cb, e = None)]) h'"
begin

definition held :: "'h handlerController \<Rightarrow> bool" where
  "held c \<longleftrightarrow> I (hc_lastRemoteEndpoint c) (hc_calls c) (hc_handler c)"

lemma held_cong: "hc_lastRemoteEndpoint c' = hc_lastRemoteEndpoint c \<Longrightarrow> hc_calls c' = hc_calls c \<Longrightarrow> hc_handler c' = hc_handler c \<Longrightarrow>
    held c' = held c"
  by (simp add: held_def)

lemma call_other: "held c \<Longrightarrow> \<not> changes_last cb \<Longrightarrow> pred_option ok (cb_endpoint cb) \<Longrightarrow> call_handler H cb c = (c', e) \<Longrightarrow> held c'"
  using on_other [of cb] by (auto simp: held_def call_handler_def split: prod.split_asm)

lemma created_local: "ok ep \<Longrightarrow> held c \<Longrightarrow> held (fst (handleCreatedLocalEndpoint H ep c))"
proof -
  assume a: "ok ep" "held c"
  define c0 where "c0 = (if Hostname (ep_Spec ep) = hc_hostname c then c\<lparr>hc_isOnGateway := True\<rparr> else c)"
  have c0: "held c0" using a(2) by (simp add: c0_def held_def)
  obtain c1 e1 where c1: "call_handler H (LocalEndpointCreated ep) c0 = (c1, e1)" by fastforce
  obtain c2 e2 where c2: "call_handler H TransitionToGateway c1 = (c2, e2)" by fastforce
  have "held c1" using call_other [OF c0 _ _ c1] a(1) by simp
  moreover from call_other [OF this _ _ c2] have "held c2" by simp
  ultimately show ?thesis unfolding handleCreatedLocalEndpoint_def Let_def c0_def [symmetric] c1 by (simp add: c2 held_def)
qed

lemma removed_local: "ok ep \<Longrightarrow> held c \<Longrightarrow> held (fst (handleRemovedLocalEndpoint H ep c))"
proof -
  assume a: "ok ep" "held c"
  define c0 where "c0 = (if Hostname (ep_Spec ep) = hc_hostname c then c\<lparr>hc_isOnGateway := False\<rparr> else c)"
  have c0: "held c0" using a(2) by (simp add: c0_def held_def)
  obtain c1 e1 where c1: "call_handler H (LocalEndpointRemoved ep) c0 = (c1, e1)" by fastforce
  obtain c2 e2 where c2: "call_handler H (TransitionToNonGateway ep) c1 = (c2, e2)" by fastforce
  have "held c1" using call_other [OF c0 _ _ c1] a(1) by simp
  moreover from call_other [OF this _ _ c2] a(1) have "held c2" by simp
  ultimately show ?thesis unfolding handleRemovedLocalEndpoint_def Let_def c0_def [symmetric] c1 by (simp add: c2 held_def)
qed

lemma created_remote: "ok ep \<Longrightarrow> held c \<Longrightarrow> held (fst (handleCreatedRemoteEndpoint H ep c))"
  using on_created [of ep] by (auto simp: held_def handleCreatedRemoteEndpoint_def call_handler_def Let_def split: prod.split option.split)

lemma removed_remote: "ok ep \<Longrightarrow> held c \<Longrightarrow> held (fst (handleRemovedRemoteEndpoint H ep c))"
  using on_removed [of ep] on_other [of "StaleRemoteEndpointRemoved ep"]
  by (auto simp: held_def handleRemovedRemoteEndpoint_def call_handler_def Let_def split: prod.split option.split)

lemma updated: "ok ep \<Longrightarrow> held c \<Longrightarrow> held (fst (handleUpdatedEndpoint H ep n c))"
  using on_other [of "RemoteEndpointUpdated ep"] on_other [of "LocalEndpointUpdated ep"]
  by (auto simp: held_def handleUpdatedEndpoint_def handleUpdatedRemoteEndpoint_def handleUpdatedLocalEndpoint_def dispatch_def
      call_handler_def split: prod.split)

lemma event_held: "ok (ev_endpoint e) \<Longrightarrow> held c \<Longrightarrow> held (ev_apply H e c)"
  using created_local [of "ev_endpoint e" c] removed_local [of "ev_endpoint e" c] created_remote [of "ev_endpoint e" c]
    removed_remote [of "ev_endpoint e" c] updated [of "ev_endpoint e" c]
  by (cases e) (auto simp: handleCreatedEndpoint_def handleRemovedEndpoint'_def dispatch_def split: prod.split)

theorem run_held: "\<forall>e\<in>set es. ok (ev_endpoint e) \<Longrightarrow> held c \<Longrightarrow> held (ev_run H es c)"
  by (induction es arbitrary: c) (simp_all add: ev_run_def event_held)

end

end
