(* ===== verification/IpSets.thy ===== *)
theory IpSets
  imports ConnectionFile
begin

text \<open>
  \<open>pkg/ipset/ipset.go\<close> and \<open>types.go\<close>: sets of addresses of the kernel, through the \<open>ipset\<close> command.

  One run of the command is the parameter: its arguments give the new state of the host and the output, or the text of the error
  with the output. The code recognises errors by their text, so the text is modelled: \<open>%q\<close> is the quoted argument. What happens on
  the host while the code sleeps between two attempts is a parameter too.
\<close>

section \<open>Sets and entries\<close>

definition HashIP :: string where "HashIP = ''hash:ip''"
definition HashIPPort :: string where "HashIPPort = ''hash:ip,port''"
definition HashIPPortIP :: string where "HashIPPortIP = ''hash:ip,port,ip''"
definition HashIPPortNet :: string where "HashIPPortNet = ''hash:ip,port,net''"
definition BitmapPort :: string where "BitmapPort = ''bitmap:port''"
definition HashNet :: string where "HashNet = ''hash:net''"
definition HashNetPort :: string where "HashNetPort = ''hash:net,port''"
definition ProtocolFamilyIPV4 :: string where "ProtocolFamilyIPV4 = ''inet''"
definition ProtocolFamilyIPV6 :: string where "ProtocolFamilyIPV6 = ''inet6''"

record PortRange =
  pr_Begin :: nat
  pr_End :: nat

definition PortRange_String :: "PortRange \<Rightarrow> string" where
  "PortRange_String p = dec_of_nat (pr_Begin p) @ ''-'' @ dec_of_nat (pr_End p)"

definition DefaultPortRange :: PortRange where
  "DefaultPortRange = \<lparr>pr_Begin = 0, pr_End = 65535\<rparr>"

record IPSet =
  is_Name :: string
  is_SetType :: string
  is_HashFamily :: string
  is_HashSize :: nat
  is_MaxElem :: nat
  is_PortRange :: PortRange

record Entry =
  en_IP :: string
  en_Port :: nat
  en_Protocol :: string
  en_Net :: string
  en_IP2 :: string
  en_SetType :: string
  en_Options :: "string list"

definition Entry_String :: "Entry \<Rightarrow> string" where
  "Entry_String e =
     (let port = en_Protocol e @ '':'' @ dec_of_nat (en_Port e) in
      if en_SetType e = HashIP then en_IP e
      else if en_SetType e = HashIPPort then en_IP e @ '','' @ port
      else if en_SetType e = HashIPPortIP then en_IP e @ '','' @ port @ '','' @ en_IP2 e
      else if en_SetType e = HashIPPortNet then en_IP e @ '','' @ port @ '','' @ en_Net e
      else if en_SetType e = HashNet then en_Net e
      else if en_SetType e = HashNetPort then en_Net e @ '','' @ port
      else if en_SetType e = BitmapPort then dec_of_nat (en_Port e)
      else [])"

definition ip_entry :: "string \<Rightarrow> Entry" where
  "ip_entry i = \<lparr>en_IP = i, en_Port = 0, en_Protocol = [], en_Net = [], en_IP2 = [], en_SetType = HashIP, en_Options = []\<rparr>"

section \<open>The command\<close>

record 'k ipsetCmd =
  ic_exec :: "string list \<Rightarrow> 'k \<Rightarrow> 'k \<times> (string \<times> string + string)"    \<comment> \<open>the error and the output, or the output\<close>
  ic_sleep :: "'k \<Rightarrow> 'k"

definition quoted :: "string \<Rightarrow> string" where
  "quoted s = CHR 0x22 # s @ [CHR 0x22]"

definition runWithOutput :: "'k ipsetCmd \<Rightarrow> string list \<Rightarrow> string \<Rightarrow> 'k \<Rightarrow> 'k \<times> string result" where
  "runWithOutput I args msg k = (case ic_exec I args k of
      (k', Inl (e, out)) \<Rightarrow> (k', Inl (Err (msg @ '': '' @ e @ '' ('' @ out @ '')'')))
    | (k', Inr out) \<Rightarrow> (k', Inr out))"

definition ipset_run :: "'k ipsetCmd \<Rightarrow> string list \<Rightarrow> string \<Rightarrow> 'k \<Rightarrow> 'k \<times> err option" where
  "ipset_run I args msg k = (case runWithOutput I args msg k of (k', Inl e) \<Rightarrow> (k', Some e) | (k', Inr _) \<Rightarrow> (k', None))"

text \<open>\<open>err.Error()\<close>.\<close>

fun error_text :: "err \<Rightarrow> string" where
  "error_text (Err m) = m"
| "error_text (Sentinel m) = m"
| "error_text (Wrapped m e) = m @ '': '' @ error_text e"

definition IsNotFoundError :: "err option \<Rightarrow> bool" where
  "IsNotFoundError e = (case e of
      None \<Rightarrow> False
    | Some e \<Rightarrow>
        has_substring (error_text e) ''does not exist'' \<or>
        has_substring (error_text e) ''cannot be deleted'' \<and> has_substring (error_text e) ''it's not added'')"

section \<open>Operations\<close>

definition set_defaults :: "IPSet \<Rightarrow> IPSet" where
  "set_defaults s = \<lparr>is_Name = is_Name s,
     is_SetType = (if is_SetType s = [] then HashIPPort else is_SetType s),
     is_HashFamily = (if is_HashFamily s = [] then ProtocolFamilyIPV4 else is_HashFamily s),
     is_HashSize = (if is_HashSize s = 0 then 1024 else is_HashSize s),
     is_MaxElem = (if is_MaxElem s = 0 then 65536 else is_MaxElem s),
     is_PortRange = (if pr_Begin (is_PortRange s) = 0 \<and> pr_End (is_PortRange s) = 0 then DefaultPortRange else is_PortRange s)\<rparr>"

definition create_args :: "IPSet \<Rightarrow> bool \<Rightarrow> string list" where
  "create_args s ignoreExistErr =
     [''create'', is_Name s, is_SetType s] @
     (if is_SetType s = BitmapPort then [''range'', PortRange_String (is_PortRange s)]
      else [''family'', is_HashFamily s, ''hashsize'', dec_of_nat (is_HashSize s), ''maxelem'', dec_of_nat (is_MaxElem s)]) @
     (if ignoreExistErr then [''-exist''] else [])"

definition createSet :: "'k ipsetCmd \<Rightarrow> IPSet \<Rightarrow> bool \<Rightarrow> 'k \<Rightarrow> 'k \<times> err option" where
  "createSet I s ignoreExistErr = ipset_run I (create_args s ignoreExistErr) (''error creating set '' @ quoted (is_Name s))"

text \<open>The defaults are also set in the argument.\<close>

definition CreateSet :: "'k ipsetCmd \<Rightarrow> IPSet \<Rightarrow> bool \<Rightarrow> 'k \<Rightarrow> 'k \<times> IPSet \<times> err option" where
  "CreateSet I s ignoreExistErr k =
     (let s' = set_defaults s in case createSet I s' ignoreExistErr k of (k', e) \<Rightarrow> (k', s', e))"

definition is_AddEntry :: "'k ipsetCmd \<Rightarrow> Entry \<Rightarrow> string \<Rightarrow> bool \<Rightarrow> 'k \<Rightarrow> 'k \<times> err option" where
  "is_AddEntry I entry s ignoreExistErr = ipset_run I
     (''add'' # (if ignoreExistErr then [''-exist''] else []) @ [s, Entry_String entry] @ en_Options entry)
     (''error adding entry '' @ quoted (Entry_String entry) @ '' to set '' @ quoted s)"

definition AddIPEntry :: "'k ipsetCmd \<Rightarrow> string \<Rightarrow> string \<Rightarrow> bool \<Rightarrow> 'k \<Rightarrow> 'k \<times> err option" where
  "AddIPEntry I i s ignoreExistErr = is_AddEntry I (ip_entry i) s ignoreExistErr"

definition unless_not_found :: "'k \<times> err option \<Rightarrow> 'k \<times> err option" where
  "unless_not_found r = (if IsNotFoundError (snd r) then (fst r, None) else r)"

definition is_DelEntry :: "'k ipsetCmd \<Rightarrow> Entry \<Rightarrow> string \<Rightarrow> 'k \<Rightarrow> 'k \<times> err option" where
  "is_DelEntry I entry s k = unless_not_found (ipset_run I [''del'', s, Entry_String entry]
     (''error deleting entry '' @ quoted (Entry_String entry) @ '' from set '' @ quoted s) k)"

definition DelIPEntry :: "'k ipsetCmd \<Rightarrow> string \<Rightarrow> string \<Rightarrow> 'k \<Rightarrow> 'k \<times> err option" where
  "DelIPEntry I i s = is_DelEntry I (ip_entry i) s"

definition is_TestEntry :: "'k ipsetCmd \<Rightarrow> Entry \<Rightarrow> string \<Rightarrow> 'k \<Rightarrow> 'k \<times> bool result" where
  "is_TestEntry I entry s k = (case ipset_run I [''test'', s, Entry_String entry]
       (''error testing entry '' @ quoted (Entry_String entry) @ '' in set '' @ quoted s) k of
      (k', Some e) \<Rightarrow> (k', if has_substring (error_text e) ''is NOT in set'' then Inr False else Inl e)
    | (k', None) \<Rightarrow> (k', Inr True))"

definition TestIPEntry :: "'k ipsetCmd \<Rightarrow> string \<Rightarrow> string \<Rightarrow> 'k \<Rightarrow> 'k \<times> bool result" where
  "TestIPEntry I i s = is_TestEntry I (ip_entry i) s"

definition FlushSet :: "'k ipsetCmd \<Rightarrow> string \<Rightarrow> 'k \<Rightarrow> 'k \<times> err option" where
  "FlushSet I s k = unless_not_found (ipset_run I [''flush'', s] (''error flushing set '' @ quoted s) k)"

text \<open>
  \<open>retry.OnError\<close>: an error that says the set is in use is retried after a sleep, at most as often as the backoff has steps; then the
  last error is returned.
\<close>

definition in_use_error :: "err \<Rightarrow> bool" where
  "in_use_error e = has_substring (error_text e) ''is in use''"

definition backoff_steps :: nat where "backoff_steps = 20"

fun retry_on_error :: "('k \<Rightarrow> 'k) \<Rightarrow> nat \<Rightarrow> ('k \<Rightarrow> 'k \<times> err option) \<Rightarrow> 'k \<Rightarrow> 'k \<times> err option" where
  "retry_on_error sleep n f k = (case f k of
      (k', None) \<Rightarrow> (k', None)
    | (k', Some e) \<Rightarrow>
        if \<not> in_use_error e \<or> n \<le> 1 then (k', Some e) else retry_on_error sleep (n - 1) f (sleep k'))"

declare retry_on_error.simps [simp del]

definition retryIfInUse :: "'k ipsetCmd \<Rightarrow> string list \<Rightarrow> string \<Rightarrow> 'k \<Rightarrow> 'k \<times> err option" where
  "retryIfInUse I args msg = retry_on_error (ic_sleep I) backoff_steps (ipset_run I args msg)"

definition DestroySet :: "'k ipsetCmd \<Rightarrow> string \<Rightarrow> 'k \<Rightarrow> 'k \<times> err option" where
  "DestroySet I s k = unless_not_found (retryIfInUse I [''destroy'', s] (''error destroying set '' @ quoted s) k)"

definition DestroyAllSets :: "'k ipsetCmd \<Rightarrow> 'k \<Rightarrow> 'k \<times> err option" where
  "DestroyAllSets I = retryIfInUse I [''destroy''] ''error destroying all sets''"

definition ListSets :: "'k ipsetCmd \<Rightarrow> 'k \<Rightarrow> 'k \<times> string list result" where
  "ListSets I k = (case runWithOutput I [''list'', ''-n''] ''error listing all sets'' k of
      (k', Inl e) \<Rightarrow> (k', Inl e) | (k', Inr out) \<Rightarrow> (k', Inr (split_on NL out)))"

text \<open>
  The expression \<open>EntryMemberPattern\<close> matches up to the last line \<open>Members:\<close> that ends with a line break.
\<close>

fun after_members :: "string list \<Rightarrow> string list option" where
  "after_members [] = None"
| "after_members (l # ls) = (case after_members ls of
     Some r \<Rightarrow> Some r | None \<Rightarrow> if l = ''Members:'' \<and> ls \<noteq> [] then Some ls else None)"

definition parse_entries :: "string \<Rightarrow> string list" where
  "parse_entries out = (let ls = split_on NL out in
     map trim_space (filter (\<lambda>s. s \<noteq> []) (case after_members ls of Some r \<Rightarrow> r | None \<Rightarrow> ls)))"

definition is_ListEntries :: "'k ipsetCmd \<Rightarrow> string \<Rightarrow> 'k \<Rightarrow> 'k \<times> string list result" where
  "is_ListEntries I s k =
     (if s = [] then (k, Inl (Err ''set name can't be empty''))
      else (case runWithOutput I [''list'', s] (''error listing set '' @ quoted s) k of
          (k', Inl e) \<Rightarrow> (k', Inl e) | (k', Inr out) \<Rightarrow> (k', Inr (parse_entries out))))"

text \<open>The first match of \<open>v[0-9]+\.[0-9]+\<close>.\<close>

definition version_at :: "string \<Rightarrow> string option" where
  "version_at s = (case s of [] \<Rightarrow> None | c # cs \<Rightarrow>
     (let major = takeWhile is_digit cs; rest = dropWhile is_digit cs; minor = takeWhile is_digit (tl rest) in
      if c = CHR ''v'' \<and> major \<noteq> [] \<and> rest \<noteq> [] \<and> hd rest = CHR ''.'' \<and> minor \<noteq> []
      then Some (c # major @ ''.'' @ minor) else None))"

fun find_version :: "string \<Rightarrow> string option" where
  "find_version [] = None"
| "find_version (c # cs) = (case version_at (c # cs) of Some v \<Rightarrow> Some v | None \<Rightarrow> find_version cs)"

definition GetVersion :: "'k ipsetCmd \<Rightarrow> 'k \<Rightarrow> 'k \<times> string result" where
  "GetVersion I k = (case runWithOutput I [''--version''] ''error retrieving version'' k of
      (k', Inl e) \<Rightarrow> (k', Inl e)
    | (k', Inr out) \<Rightarrow> (k', case find_version out of
        None \<Rightarrow> Inl (Err ''no ipset version found in output'') | Some v \<Rightarrow> Inr v))"

end
