(* ===== verification/NamedSets.thy ===== *)
theory NamedSets
  imports IpSets GoNet
begin

text \<open>
  The named sets of the packet filter: the interface \<open>NamedSet\<close> of \<open>pkg/packetfilter/packetfilter.go\<close> and its two implementations,
  \<open>packetfilter/iptables/namedset.go\<close> over ipset and \<open>packetfilter/nftables/namedset.go\<close> over the knftables library.

  A named set object only holds the description of its set, so an operation takes it as an argument. The kernel is the parameter \<open>'k\<close>,
  and \<open>sets\<close> its abstraction: the entries of each set that exists. The locale \<open>named_sets\<close> is what both implementations
  promise to their clients.
\<close>

section \<open>The interface\<close>

record 'k setDriver =
  sd_Flush :: "string \<Rightarrow> 'k \<Rightarrow> 'k \<times> err option"
  sd_Destroy :: "string \<Rightarrow> 'k \<Rightarrow> 'k \<times> err option"
  sd_Create :: "string \<Rightarrow> bool \<Rightarrow> 'k \<Rightarrow> 'k \<times> err option"
  sd_AddEntry :: "string \<Rightarrow> string \<Rightarrow> bool \<Rightarrow> 'k \<Rightarrow> 'k \<times> err option"
  sd_DelEntry :: "string \<Rightarrow> string \<Rightarrow> 'k \<Rightarrow> 'k \<times> err option"
  sd_ListEntries :: "string \<Rightarrow> 'k \<Rightarrow> 'k \<times> string list result"
  sd_DestroySets :: "(string \<Rightarrow> bool) \<Rightarrow> 'k \<Rightarrow> 'k \<times> err option"

section \<open>ipset\<close>

definition ipt_NewNamedSet :: "IPFamily \<Rightarrow> string \<Rightarrow> IPSet" where
  "ipt_NewNamedSet family name = \<lparr>is_Name = name, is_SetType = HashNet,
     is_HashFamily = (if family = IPv6 then ProtocolFamilyIPV6 else ProtocolFamilyIPV4),
     is_HashSize = 0, is_MaxElem = 0, is_PortRange = \<lparr>pr_Begin = 0, pr_End = 0\<rparr>\<rparr>"

definition ipt_set_Flush :: "'k ipsetCmd \<Rightarrow> IPSet \<Rightarrow> 'k \<Rightarrow> 'k \<times> err option" where
  "ipt_set_Flush I n k = apsnd (wrap ''Flush failed'') (FlushSet I (is_Name n) k)"

definition ipt_set_Destroy :: "'k ipsetCmd \<Rightarrow> IPSet \<Rightarrow> 'k \<Rightarrow> 'k \<times> err option" where
  "ipt_set_Destroy I n k = apsnd (wrap ''Destroy failed'') (DestroySet I (is_Name n) k)"

text \<open>The defaults that \<open>CreateSet\<close> fills in are the same at every call, so the object is not returned.\<close>

definition ipt_set_Create :: "'k ipsetCmd \<Rightarrow> IPSet \<Rightarrow> bool \<Rightarrow> 'k \<Rightarrow> 'k \<times> err option" where
  "ipt_set_Create I n ignoreExistErr k = (case CreateSet I n ignoreExistErr k of (k', _, e) \<Rightarrow> (k', wrap ''Create failed'' e))"

definition ipt_set_AddEntry :: "'k ipsetCmd \<Rightarrow> IPSet \<Rightarrow> string \<Rightarrow> bool \<Rightarrow> 'k \<Rightarrow> 'k \<times> err option" where
  "ipt_set_AddEntry I n entry ignoreExistErr k = apsnd (wrap ''AddIPEntry failed'') (AddIPEntry I entry (is_Name n) ignoreExistErr k)"

definition ipt_set_DelEntry :: "'k ipsetCmd \<Rightarrow> IPSet \<Rightarrow> string \<Rightarrow> 'k \<Rightarrow> 'k \<times> err option" where
  "ipt_set_DelEntry I n entry k = apsnd (wrap ''DelIPEntry failed'') (DelIPEntry I entry (is_Name n) k)"

definition ipt_set_TestEntry :: "'k ipsetCmd \<Rightarrow> IPSet \<Rightarrow> string \<Rightarrow> 'k \<Rightarrow> 'k \<times> bool result" where
  "ipt_set_TestEntry I n entry k = apsnd (wrap_res ''TestEntry failed'') (TestIPEntry I entry (is_Name n) k)"

definition ipt_set_ListEntries :: "'k ipsetCmd \<Rightarrow> IPSet \<Rightarrow> 'k \<Rightarrow> 'k \<times> string list result" where
  "ipt_set_ListEntries I n k = apsnd (wrap_res ''ListEntries failed'') (is_ListEntries I (is_Name n) k)"

text \<open>Every set is tried; the last error is returned.\<close>

fun destroy_filtered :: "(string \<Rightarrow> 'k \<Rightarrow> 'k \<times> err option) \<Rightarrow> (string \<Rightarrow> bool) \<Rightarrow> string list \<Rightarrow> 'k \<Rightarrow> 'k \<times> err list" where
  "destroy_filtered destroy nameFilter [] k = (k, [])"
| "destroy_filtered destroy nameFilter (s # ss) k =
     (if nameFilter s then
        (case destroy s k of
           (k', Some e) \<Rightarrow> apsnd (Cons e) (destroy_filtered destroy nameFilter ss k')
         | (k', None) \<Rightarrow> destroy_filtered destroy nameFilter ss k')
      else destroy_filtered destroy nameFilter ss k)"

definition ipt_DestroySets :: "'k ipsetCmd \<Rightarrow> (string \<Rightarrow> bool) \<Rightarrow> 'k \<Rightarrow> 'k \<times> err option" where
  "ipt_DestroySets I nameFilter k = (case ListSets I k of
      (k', Inl e) \<Rightarrow> (k', Some (Wrapped ''error listing sets'' e))
    | (k', Inr ss) \<Rightarrow> (case destroy_filtered (DestroySet I) nameFilter ss k' of
        (k'', errs) \<Rightarrow> (k'', if errs = [] then None else Some (last errs))))"

definition ipt_sets :: "'k ipsetCmd \<Rightarrow> IPFamily \<Rightarrow> 'k setDriver" where
  "ipt_sets I family = \<lparr>
     sd_Flush = (\<lambda>n. ipt_set_Flush I (ipt_NewNamedSet family n)),
     sd_Destroy = (\<lambda>n. ipt_set_Destroy I (ipt_NewNamedSet family n)),
     sd_Create = (\<lambda>n. ipt_set_Create I (ipt_NewNamedSet family n)),
     sd_AddEntry = (\<lambda>n. ipt_set_AddEntry I (ipt_NewNamedSet family n)),
     sd_DelEntry = (\<lambda>n. ipt_set_DelEntry I (ipt_NewNamedSet family n)),
     sd_ListEntries = (\<lambda>n. ipt_set_ListEntries I (ipt_NewNamedSet family n)),
     sd_DestroySets = ipt_DestroySets I\<rparr>"

section \<open>nftables\<close>

record knftSet =
  ks_Name :: string
  ks_Type :: string
  ks_Flags :: "string list"

datatype setOp =
    NsAddTable string
  | NsAddSet knftSet
  | NsFlushSet knftSet
  | NsDeleteSet string
  | NsAddElement string "string list"
  | NsDeleteElement string "string list"

record 'k nftSets =
  nsx_Run :: "setOp list \<Rightarrow> 'k \<Rightarrow> 'k \<times> err option"
  nsx_ListElements :: "string \<Rightarrow> 'k \<Rightarrow> string list list result"    \<comment> \<open>the keys of the elements\<close>
  nsx_ListSets :: "'k \<Rightarrow> string list result"
  nsx_IsNotFound :: "err \<Rightarrow> bool"

definition nft_NewNamedSet :: "IPFamily \<Rightarrow> string \<Rightarrow> knftSet" where
  "nft_NewNamedSet family name = \<lparr>ks_Name = name, ks_Type = (if family = IPv6 then ''ipv6_addr'' else ''ipv4_addr''),
     ks_Flags = [''interval'']\<rparr>"

definition nft_set_Create :: "'k nftSets \<Rightarrow> knftSet \<Rightarrow> bool \<Rightarrow> 'k \<Rightarrow> 'k \<times> err option" where
  "nft_set_Create N n ignoreExistErr k =
     apsnd (wrap ''error creating set'') (nsx_Run N [NsAddTable ''rules for submariner'', NsAddSet n] k)"

text \<open>An error that says the object is not found is no error.\<close>

definition nft_found :: "'k nftSets \<Rightarrow> string \<Rightarrow> 'k \<times> err option \<Rightarrow> 'k \<times> err option" where
  "nft_found N msg r = (case r of
      (k, Some e) \<Rightarrow> if nsx_IsNotFound N e then (k, None) else (k, Some (Wrapped msg e))
    | (k, None) \<Rightarrow> (k, None))"

definition nft_set_Flush :: "'k nftSets \<Rightarrow> knftSet \<Rightarrow> 'k \<Rightarrow> 'k \<times> err option" where
  "nft_set_Flush N n k = nft_found N ''error flushing set'' (nsx_Run N [NsFlushSet n] k)"

definition deleteSet :: "'k nftSets \<Rightarrow> string \<Rightarrow> 'k \<Rightarrow> 'k \<times> err option" where
  "deleteSet N name k = nft_found N ''error deleting set'' (nsx_Run N [NsDeleteSet name] k)"

definition nft_set_Destroy :: "'k nftSets \<Rightarrow> knftSet \<Rightarrow> 'k \<Rightarrow> 'k \<times> err option" where
  "nft_set_Destroy N n = deleteSet N (ks_Name n)"

definition nft_set_AddEntry :: "'k nftSets \<Rightarrow> knftSet \<Rightarrow> string \<Rightarrow> bool \<Rightarrow> 'k \<Rightarrow> 'k \<times> err option" where
  "nft_set_AddEntry N n entry ignoreExistErr k =
     apsnd (wrap ''error adding entry'') (nsx_Run N [NsAddElement (ks_Name n) [entry]] k)"

definition nft_set_DelEntry :: "'k nftSets \<Rightarrow> knftSet \<Rightarrow> string \<Rightarrow> 'k \<Rightarrow> 'k \<times> err option" where
  "nft_set_DelEntry N n entry k =
     apsnd (wrap ''error deleting entry'') (nsx_Run N [NsDeleteElement (ks_Name n) [entry]] k)"

text \<open>The first part of each key; an element without a key is a panic.\<close>

definition nft_set_ListEntries :: "'k nftSets \<Rightarrow> knftSet \<Rightarrow> 'k \<Rightarrow> 'k \<times> string list result" where
  "nft_set_ListEntries N n k = (k, case nsx_ListElements N (ks_Name n) k of
      Inl e \<Rightarrow> Inl (Wrapped ''error listing elements for set'' e)
    | Inr elems \<Rightarrow> if [] \<in> set elems then Inl (Sentinel ''panic'') else Inr (map hd elems))"

definition nft_DestroySets :: "'k nftSets \<Rightarrow> (string \<Rightarrow> bool) \<Rightarrow> 'k \<Rightarrow> 'k \<times> err option" where
  "nft_DestroySets N nameFilter k =
     (case (case nsx_ListSets N k of Inl e \<Rightarrow> if nsx_IsNotFound N e then Inr [] else Inl e | Inr ss \<Rightarrow> Inr ss) of
        Inl e \<Rightarrow> (k, Some (Wrapped ''error listing sets'' e))
      | Inr ss \<Rightarrow> (case destroy_filtered (deleteSet N) nameFilter ss k of
          (k', errs) \<Rightarrow> (k', if errs = [] then None else Some (Wrapped ''joined'' (hd errs)))))"

definition nft_sets :: "'k nftSets \<Rightarrow> IPFamily \<Rightarrow> 'k setDriver" where
  "nft_sets N family = \<lparr>
     sd_Flush = (\<lambda>n. nft_set_Flush N (nft_NewNamedSet family n)),
     sd_Destroy = (\<lambda>n. nft_set_Destroy N (nft_NewNamedSet family n)),
     sd_Create = (\<lambda>n. nft_set_Create N (nft_NewNamedSet family n)),
     sd_AddEntry = (\<lambda>n. nft_set_AddEntry N (nft_NewNamedSet family n)),
     sd_DelEntry = (\<lambda>n. nft_set_DelEntry N (nft_NewNamedSet family n)),
     sd_ListEntries = (\<lambda>n. nft_set_ListEntries N (nft_NewNamedSet family n)),
     sd_DestroySets = nft_DestroySets N\<rparr>"

section \<open>The contract\<close>

locale named_sets =
  fixes S :: "'k setDriver"
    and inv :: "'k \<Rightarrow> bool"
    and sets :: "'k \<Rightarrow> string \<rightharpoonup> string set"
  assumes Create_ok: "inv k \<Longrightarrow> sd_Create S n True k = (k', e) \<Longrightarrow>
      inv k' \<and> sets k' = (if e = None then (sets k)(n \<mapsto> case_option {} id (sets k n)) else sets k)"
    and Add_ok: "inv k \<Longrightarrow> sets k n = Some E \<Longrightarrow> sd_AddEntry S n x True k = (k', e) \<Longrightarrow>
      inv k' \<and> sets k' = (if e = None then (sets k)(n \<mapsto> insert x E) else sets k)"
    and Add_none: "inv k \<Longrightarrow> sets k n = None \<Longrightarrow> sd_AddEntry S n x True k = (k', e) \<Longrightarrow> inv k' \<and> sets k' = sets k \<and> e \<noteq> None"
    and Del_ok: "inv k \<Longrightarrow> sets k n = Some E \<Longrightarrow> sd_DelEntry S n x k = (k', e) \<Longrightarrow>
      inv k' \<and> sets k' = (sets k)(n \<mapsto> E - {x}) \<and> (x \<in> E \<longrightarrow> e = None)"
    and Del_none: "inv k \<Longrightarrow> sets k n = None \<Longrightarrow> sd_DelEntry S n x k = (k', e) \<Longrightarrow> inv k' \<and> sets k' = sets k"
    and Flush_ok: "inv k \<Longrightarrow> sd_Flush S n k = (k', e) \<Longrightarrow>
      inv k' \<and> sets k' = (if e = None \<and> sets k n \<noteq> None then (sets k)(n \<mapsto> {}) else sets k)"
    and Destroy_ok: "inv k \<Longrightarrow> sd_Destroy S n k = (k', e) \<Longrightarrow>
      inv k' \<and> sets k' = (if e = None then (sets k)(n := None) else sets k)"
    and List_ok: "inv k \<Longrightarrow> sets k n = Some E \<Longrightarrow> sd_ListEntries S n k = (k', r) \<Longrightarrow>
      inv k' \<and> sets k' = sets k \<and> (case r of Inr xs \<Rightarrow> set xs = E | Inl _ \<Rightarrow> True)"

text \<open>Sequences of operations, with the error of each.\<close>

datatype set_op = SetCreate string | SetAdd string string | SetDel string string | SetFlush string | SetDestroy string

fun set_step :: "'k setDriver \<Rightarrow> set_op \<Rightarrow> 'k \<Rightarrow> 'k \<times> err option" where
  "set_step S (SetCreate n) k = sd_Create S n True k"
| "set_step S (SetAdd n x) k = sd_AddEntry S n x True k"
| "set_step S (SetDel n x) k = sd_DelEntry S n x k"
| "set_step S (SetFlush n) k = sd_Flush S n k"
| "set_step S (SetDestroy n) k = sd_Destroy S n k"

fun set_run :: "'k setDriver \<Rightarrow> set_op list \<Rightarrow> 'k \<Rightarrow> 'k \<times> bool list" where
  "set_run S [] k = (k, [])"
| "set_run S (op # ops) k = (case set_step S op k of (k', e) \<Rightarrow> apsnd (Cons (e = None)) (set_run S ops k'))"

text \<open>The specification: what an operation does to the sets, if it succeeds.\<close>

fun set_spec :: "set_op \<Rightarrow> bool \<Rightarrow> (string \<rightharpoonup> string set) \<Rightarrow> (string \<rightharpoonup> string set)" where
  "set_spec (SetCreate n) ok m = (if ok then m(n \<mapsto> case_option {} id (m n)) else m)"
| "set_spec (SetAdd n x) ok m = (case m n of Some E \<Rightarrow> if ok then m(n \<mapsto> insert x E) else m | None \<Rightarrow> m)"
| "set_spec (SetDel n x) ok m = (case m n of Some E \<Rightarrow> m(n \<mapsto> E - {x}) | None \<Rightarrow> m)"
| "set_spec (SetFlush n) ok m = (if ok \<and> m n \<noteq> None then m(n \<mapsto> {}) else m)"
| "set_spec (SetDestroy n) ok m = (if ok then m(n := None) else m)"

definition set_spec_run :: "set_op list \<Rightarrow> bool list \<Rightarrow> (string \<rightharpoonup> string set) \<Rightarrow> (string \<rightharpoonup> string set)" where
  "set_spec_run ops oks m = fold (\<lambda>(op, ok). set_spec op ok) (zip ops oks) m"

context named_sets
begin

lemma step_refines:
  assumes "inv k" "set_step S op k = (k', e)"
  shows "inv k' \<and> sets k' = set_spec op (e = None) (sets k)"
proof (cases op)
  case (SetCreate n)
  then show ?thesis using Create_ok [OF assms(1), of n k' e] assms(2) by simp
next
  case (SetAdd n x)
  then show ?thesis
    using Add_ok [OF assms(1), of n _ x k' e] Add_none [OF assms(1), of n x k' e] assms(2) by (cases "sets k n") auto
next
  case (SetDel n x)
  then show ?thesis
    using Del_ok [OF assms(1), of n _ x k' e] Del_none [OF assms(1), of n x k' e] assms(2) by (cases "sets k n") auto
next
  case (SetFlush n)
  then show ?thesis using Flush_ok [OF assms(1), of n k' e] assms(2) by simp
next
  case (SetDestroy n)
  then show ?thesis using Destroy_ok [OF assms(1), of n k' e] assms(2) by simp
qed

lemma run_refines:
  "inv k \<Longrightarrow> set_run S ops k = (k', oks) \<Longrightarrow>
   inv k' \<and> sets k' = set_spec_run ops oks (sets k) \<and> length oks = length ops"
proof (induction ops arbitrary: k oks)
  case (Cons op ops)
  obtain k1 e where s: "set_step S op k = (k1, e)" by fastforce
  obtain oks' where r: "set_run S ops k1 = (k', oks')" "oks = (e = None) # oks'"
    using Cons.prems(2) s by (auto simp: apsnd_def map_prod_def split: prod.splits)
  from Cons.IH [OF _ r(1)] step_refines [OF Cons.prems(1) s] r(2) show ?case by (simp add: set_spec_run_def)
qed (simp add: set_spec_run_def)

end

text \<open>The result of a deletion does not matter to the specification.\<close>

fun is_del :: "set_op \<Rightarrow> bool" where
  "is_del (SetDel n x) = True"
| "is_del _ = False"

lemma set_spec_del: "is_del op \<Longrightarrow> set_spec op b m = set_spec op b' m"
  by (cases op) (auto split: option.split)

lemma set_spec_run_agree:
  assumes "length oks = length ops" "length oks' = length ops" "\<forall>i<length ops. is_del (ops ! i) \<or> oks ! i = oks' ! i"
  shows "set_spec_run ops oks m = set_spec_run ops oks' m"
  using assms
proof (induction ops arbitrary: oks oks' m)
  case (Cons op ops)
  obtain b bs b' bs' where b: "oks = b # bs" "oks' = b' # bs'"
    using Cons.prems by (metis Suc_length_conv)
  have "is_del op \<or> b = b'" using Cons.prems(3) b by force
  then have "set_spec op b m = set_spec op b' m" using set_spec_del by auto
  moreover have "\<forall>i<length ops. is_del (ops ! i) \<or> bs ! i = bs' ! i" using Cons.prems(3) b by auto
  ultimately show ?case using Cons.IH [of bs bs'] Cons.prems(1,2) b by (simp add: set_spec_run_def)
qed (simp add: set_spec_run_def)

section \<open>What is used of ipset\<close>

definition destroy_error :: "string \<Rightarrow> string \<Rightarrow> string \<Rightarrow> err" where
  "destroy_error n e out = Err (''error destroying set '' @ quoted n @ '': '' @ e @ '' ('' @ out @ '')'')"

definition unlines :: "string list \<Rightarrow> string" where
  "unlines ls = concat (map (\<lambda>l. l @ [NL]) ls)"

text \<open>
  The listing of a set: a header, the line \<open>Members:\<close> and a line for each entry, which may be indented.
\<close>

definition listing :: "string set \<Rightarrow> string \<Rightarrow> bool" where
  "listing E out \<longleftrightarrow> (\<exists>hdr xs. out = unlines (hdr @ ''Members:'' # xs) \<and> trim_space ` set xs = E \<and>
     (\<forall>l\<in>set hdr \<union> set xs. NL \<notin> set l) \<and> [] \<notin> set xs \<and> ''Members:'' \<notin> set xs)"

definition ipset_ok :: "'k ipsetCmd \<Rightarrow> ('k \<Rightarrow> string \<rightharpoonup> string set) \<Rightarrow> bool" where
  "ipset_ok I sets \<longleftrightarrow>
     (\<forall>k. sets (ic_sleep I k) = sets k) \<and>
     (\<forall>s k k' r. ic_exec I (create_args s True) k = (k', r) \<longrightarrow>
        sets k' = (if isl r then sets k else (sets k)(is_Name s \<mapsto> case_option {} id (sets k (is_Name s))))) \<and>
     (\<forall>n x k k' r E. ic_exec I [''add'', ''-exist'', n, x] k = (k', r) \<longrightarrow> sets k n = Some E \<longrightarrow>
        sets k' = (if isl r then sets k else (sets k)(n \<mapsto> insert x E))) \<and>
     (\<forall>n x k k' r. ic_exec I [''add'', ''-exist'', n, x] k = (k', r) \<longrightarrow> sets k n = None \<longrightarrow> sets k' = sets k \<and> isl r) \<and>
     (\<forall>n x k k' r E. ic_exec I [''del'', n, x] k = (k', r) \<longrightarrow> sets k n = Some E \<longrightarrow> sets k' = (sets k)(n \<mapsto> E - {x}) \<and>
        (if x \<in> E then \<not> isl r
         else \<exists>e out. r = Inl (e, out) \<and> has_substring out ''cannot be deleted'' \<and> has_substring out ''it's not added'')) \<and>
     (\<forall>n x k k' r. ic_exec I [''del'', n, x] k = (k', r) \<longrightarrow> sets k n = None \<longrightarrow>
        sets k' = sets k \<and> (\<exists>e out. r = Inl (e, out) \<and> has_substring out ''does not exist'')) \<and>
     (\<forall>n k k' r E. ic_exec I [''flush'', n] k = (k', r) \<longrightarrow> sets k n = Some E \<longrightarrow> sets k' = (sets k)(n \<mapsto> {}) \<and> \<not> isl r) \<and>
     (\<forall>n k k' r. ic_exec I [''flush'', n] k = (k', r) \<longrightarrow> sets k n = None \<longrightarrow>
        sets k' = sets k \<and> (\<exists>e out. r = Inl (e, out) \<and> has_substring out ''does not exist'')) \<and>
     (\<forall>n k k' out. ic_exec I [''destroy'', n] k = (k', Inr out) \<longrightarrow> sets k n \<noteq> None \<longrightarrow> sets k' = (sets k)(n := None)) \<and>
     (\<forall>n k k' e out. ic_exec I [''destroy'', n] k = (k', Inl (e, out)) \<longrightarrow> sets k n \<noteq> None \<longrightarrow>
        sets k' = sets k \<and> \<not> IsNotFoundError (Some (destroy_error n e out))) \<and>
     (\<forall>n k k' r. ic_exec I [''destroy'', n] k = (k', r) \<longrightarrow> sets k n = None \<longrightarrow>
        sets k' = sets k \<and> (\<exists>e out. r = Inl (e, out) \<and> has_substring out ''does not exist'')) \<and>
     (\<forall>n k k' r. ic_exec I [''list'', n] k = (k', r) \<longrightarrow> sets k' = sets k) \<and>
     (\<forall>n k k' out E. ic_exec I [''list'', n] k = (k', Inr out) \<longrightarrow> sets k n = Some E \<longrightarrow> listing E out)"

lemma has_prefix_iff: "has_prefix s p \<longleftrightarrow> (\<exists>t. s = p @ t)"
  by (induction s p rule: has_prefix.induct) auto

lemma has_substring_iff: "has_substring s p \<longleftrightarrow> (\<exists>u v. s = u @ p @ v)"
proof (induction s)
  case (Cons x s)
  have "(\<exists>u v. x # s = u @ p @ v) \<longleftrightarrow> (\<exists>v. x # s = p @ v) \<or> (\<exists>u v. s = u @ p @ v)"
    by (metis (no_types, opaque_lifting) Cons_eq_append_conv append_Cons append_Nil)
  then show ?case using Cons by (simp add: has_prefix_iff)
qed simp

lemma has_substring_mid: "has_substring b p \<Longrightarrow> has_substring (a @ b @ c) p"
  unfolding has_substring_iff by (metis append.assoc)

lemma split_on_unlines: "\<forall>l\<in>set ls. NL \<notin> set l \<Longrightarrow> split_on NL (unlines ls) = ls @ [[]]"
  by (induction ls) (simp_all add: unlines_def split_on_append)

lemma after_members_last: "''Members:'' \<notin> set xs \<Longrightarrow> xs \<noteq> [] \<Longrightarrow> after_members (hdr @ ''Members:'' # xs) = Some xs"
proof (induction hdr)
  case Nil
  have "after_members xs = None" using Nil(1) by (induction xs) auto
  then show ?case using Nil(2) by simp
qed simp

lemma parse_listing: "listing E out \<Longrightarrow> set (parse_entries out) = E"
proof -
  assume "listing E out"
  then obtain hdr xs where x: "out = unlines (hdr @ ''Members:'' # xs)" "trim_space ` set xs = E"
    "\<forall>l\<in>set hdr \<union> set xs. NL \<notin> set l" "[] \<notin> set xs" "''Members:'' \<notin> set xs" by (auto simp: listing_def)
  have "NL \<notin> set ''Members:''" by (simp add: NL_def)
  then have "split_on NL out = hdr @ ''Members:'' # xs @ [[]]"
    using x(1,3) split_on_unlines [of "hdr @ ''Members:'' # xs"] by auto
  moreover have "after_members (hdr @ ''Members:'' # xs @ [[]]) = Some (xs @ [[]])"
    using after_members_last [of "xs @ [[]]" hdr] x(5) by simp
  moreover have "filter (\<lambda>s. s \<noteq> []) xs = xs" using x(4) by (metis (mono_tags, lifting) filter_True)
  ultimately show ?thesis using x(2) by (simp add: parse_entries_def)
qed

text \<open>The text of an error contains the output of the command.\<close>

lemma run_error_text:
  "ic_exec I args k = (k', Inl (e, out)) \<Longrightarrow> has_substring out p \<Longrightarrow>
   \<exists>err. ipset_run I args msg k = (k', Some err) \<and> has_substring (error_text err) p"
  using has_substring_mid [of out p "msg @ '': '' @ e @ '' (''" "'')''"] by (simp add: ipset_run_def runWithOutput_def)

lemma run_not_found:
  "ic_exec I args k = (k', Inl (e, out)) \<Longrightarrow> has_substring out ''does not exist'' \<Longrightarrow>
   unless_not_found (ipset_run I args msg k) = (k', None)"
  using run_error_text [of I args k k' e out "''does not exist''" msg] by (auto simp: unless_not_found_def IsNotFoundError_def)

lemma run_not_added:
  "ic_exec I args k = (k', Inl (e, out)) \<Longrightarrow> has_substring out ''cannot be deleted'' \<Longrightarrow> has_substring out ''it's not added'' \<Longrightarrow>
   unless_not_found (ipset_run I args msg k) = (k', None)"
  using run_error_text [of I args k k' e out "''cannot be deleted''" msg] run_error_text [of I args k k' e out "''it's not added''" msg]
  by (auto simp: unless_not_found_def IsNotFoundError_def)

lemma run_ok: "ic_exec I args k = (k', Inr out) \<Longrightarrow> ipset_run I args msg k = (k', None)"
  by (simp add: ipset_run_def runWithOutput_def)

lemma run_failed: "ic_exec I args k = (k', Inl e) \<Longrightarrow> \<exists>err. ipset_run I args msg k = (k', Some err)"
  by (cases e) (simp add: ipset_run_def runWithOutput_def)

lemmas ipset_ok1 = iffD1 [OF ipset_ok_def]
lemmas ipset_ok2 = conjunct2 [OF ipset_ok1]
lemmas ipset_ok3 = conjunct2 [OF ipset_ok2]
lemmas ipset_ok4 = conjunct2 [OF ipset_ok3]
lemmas ipset_ok5 = conjunct2 [OF ipset_ok4]
lemmas ipset_ok6 = conjunct2 [OF ipset_ok5]
lemmas ipset_ok7 = conjunct2 [OF ipset_ok6]
lemmas ipset_ok8 = conjunct2 [OF ipset_ok7]
lemmas ipset_ok9 = conjunct2 [OF ipset_ok8]
lemmas ipset_ok10 = conjunct2 [OF ipset_ok9]
lemmas ipset_ok11 = conjunct2 [OF ipset_ok10]
lemmas ipset_ok12 = conjunct2 [OF ipset_ok11]
lemmas ipset_ok13 = conjunct2 [OF ipset_ok12]

lemmas ipset_okD =
  conjunct1 [OF ipset_ok1, rule_format]
  conjunct1 [OF ipset_ok2, rule_format]
  conjunct1 [OF ipset_ok3, rule_format]
  conjunct1 [OF ipset_ok4, rule_format]
  conjunct1 [OF ipset_ok5, rule_format]
  conjunct1 [OF ipset_ok6, rule_format]
  conjunct1 [OF ipset_ok7, rule_format]
  conjunct1 [OF ipset_ok8, rule_format]
  conjunct1 [OF ipset_ok9, rule_format]
  conjunct1 [OF ipset_ok10, rule_format]
  conjunct1 [OF ipset_ok11, rule_format]
  conjunct1 [OF ipset_ok12, rule_format]
  ipset_ok13 [rule_format]

lemma destroy_once:
  assumes "ipset_ok I sets" "ipset_run I [''destroy'', n] (''error destroying set '' @ quoted n) k = (k', e)"
  shows "sets k' = (if e = None then (sets k)(n := None) else sets k) \<and>
    (e \<noteq> None \<longrightarrow> (IsNotFoundError e \<longleftrightarrow> sets k n = None))"
proof (cases "ic_exec I [''destroy'', n] k")
  case (Pair k1 r)
  have k1: "k1 = k'" using assms(2) Pair by (cases r) (auto simp: ipset_run_def runWithOutput_def)
  show ?thesis
  proof (cases r)
    case (Inr out)
    then have "e = None" using assms(2) Pair run_ok by fastforce
    moreover have "sets k n \<noteq> None" using ipset_okD(11) [OF assms(1) Pair] Inr by auto
    ultimately show ?thesis using ipset_okD(9) [OF assms(1) Pair [unfolded Inr]] k1 by simp
  next
    case (Inl x)
    obtain msg out where x: "x = (msg, out)" by (cases x)
    have e: "e = Some (destroy_error n msg out)"
      using assms(2) Pair Inl x by (simp add: ipset_run_def runWithOutput_def destroy_error_def)
    show ?thesis
    proof (cases "sets k n = None")
      case True
      from ipset_okD(11) [OF assms(1) Pair True] Inl x have out: "sets k1 = sets k" "has_substring out ''does not exist''" by auto
      have "has_substring (error_text (destroy_error n msg out)) ''does not exist''"
        using has_substring_mid [OF out(2), of "''error destroying set '' @ quoted n @ '': '' @ msg @ '' (''" "'')''"]
        by (simp add: destroy_error_def)
      then show ?thesis using True e k1 out by (simp add: IsNotFoundError_def)
    next
      case False
      then show ?thesis using ipset_okD(10) [OF assms(1) Pair [unfolded Inl x] False] e k1 by simp
    qed
  qed
qed

lemma destroy_retry:
  assumes "ipset_ok I sets"
  shows "retry_on_error (ic_sleep I) m (ipset_run I [''destroy'', n] (''error destroying set '' @ quoted n)) k = (k', e) \<Longrightarrow>
    sets k' = (if e = None then (sets k)(n := None) else sets k) \<and> (e \<noteq> None \<longrightarrow> (IsNotFoundError e \<longleftrightarrow> sets k n = None))"
proof (induction m arbitrary: k rule: nat_less_induct)
  case (1 m)
  let ?f = "ipset_run I [''destroy'', n] (''error destroying set '' @ quoted n)"
  obtain k1 e1 where f: "?f k = (k1, e1)" by fastforce
  note once = destroy_once [OF assms f]
  show ?case
  proof (cases "e1 = None \<or> \<not> in_use_error (the e1) \<or> m \<le> 1")
    case True
    then have "(k1, e1) = (k', e)" using "1.prems" f by (cases e1) (auto simp: retry_on_error.simps)
    then show ?thesis using once by simp
  next
    case False
    then have r: "retry_on_error (ic_sleep I) (m - 1) ?f (ic_sleep I k1) = (k', e)"
      using "1.prems" f by (auto simp: retry_on_error.simps [of _ m])
    have "m - 1 < m" using False by simp
    moreover have "sets (ic_sleep I k1) = sets k" using once False ipset_okD(1) [OF assms] by auto
    ultimately show ?thesis using "1.IH" r by metis
  qed
qed

lemma run_result:
  assumes "ipset_run I args msg k = (k', e)"
  obtains r where "ic_exec I args k = (k', r)" "isl r \<longleftrightarrow> e \<noteq> None"
  using assms by (cases "ic_exec I args k") (auto simp: ipset_run_def runWithOutput_def split: sum.splits)

lemma apsnd_wrapD: "apsnd (wrap m) p = (k', e) \<Longrightarrow> \<exists>e'. p = (k', e') \<and> (e = None \<longleftrightarrow> e' = None)"
  by (cases p) (auto simp: wrap_def split: option.splits)

lemma AddIPEntry_run: "AddIPEntry I x n True k = ipset_run I [''add'', ''-exist'', n, x]
    (''error adding entry '' @ quoted x @ '' to set '' @ quoted n) k"
  by (simp add: AddIPEntry_def is_AddEntry_def ip_entry_def Entry_String_def)

lemma DelIPEntry_run: "DelIPEntry I x n k = unless_not_found (ipset_run I [''del'', n, x]
    (''error deleting entry '' @ quoted x @ '' from set '' @ quoted n) k)"
  by (simp add: DelIPEntry_def is_DelEntry_def ip_entry_def Entry_String_def)

lemma unless_not_found_ok: "unless_not_found (k, None) = (k, None)"
  by (simp add: unless_not_found_def IsNotFoundError_def)

lemma set_defaults_Name [simp]: "is_Name (set_defaults s) = is_Name s"
  by (simp add: set_defaults_def)

lemma ipt_NewNamedSet_Name [simp]: "is_Name (ipt_NewNamedSet family n) = n"
  by (simp add: ipt_NewNamedSet_def)

lemma ipset_del:
  assumes "ipset_ok I sets" "DelIPEntry I x n k = (k', e)"
  shows "sets k' = (case sets k n of Some E \<Rightarrow> (sets k)(n \<mapsto> E - {x}) | None \<Rightarrow> sets k) \<and> e = None"
proof -
  obtain k1 r where x: "ic_exec I [''del'', n, x] k = (k1, r)" by fastforce
  show ?thesis
  proof (cases "sets k n")
    case None
    from ipset_okD(6) [OF assms(1) x None] x assms(2) None show ?thesis
      by (auto simp: DelIPEntry_run run_not_found)
  next
    case (Some E)
    note D = ipset_okD(5) [OF assms(1) x Some]
    show ?thesis
    proof (cases "x \<in> E")
      case True
      with D obtain out where "r = Inr out" by (cases r) auto
      with D x assms(2) Some show ?thesis by (auto simp: DelIPEntry_run run_ok unless_not_found_ok)
    next
      case False
      with D x assms(2) Some show ?thesis by (auto simp: DelIPEntry_run run_not_added)
    qed
  qed
qed

lemma ipset_flush:
  assumes "ipset_ok I sets" "FlushSet I n k = (k', e)"
  shows "sets k' = (if sets k n = None then sets k else (sets k)(n \<mapsto> {})) \<and> e = None"
proof -
  obtain k1 r where x: "ic_exec I [''flush'', n] k = (k1, r)" by fastforce
  show ?thesis
  proof (cases "sets k n")
    case None
    from ipset_okD(8) [OF assms(1) x None] x assms(2) None show ?thesis by (auto simp: FlushSet_def run_not_found)
  next
    case (Some E)
    note D = ipset_okD(7) [OF assms(1) x Some]
    then obtain out where "r = Inr out" by (cases r) auto
    with D x assms(2) Some show ?thesis by (auto simp: FlushSet_def run_ok unless_not_found_ok)
  qed
qed

lemma ipset_destroy:
  assumes "ipset_ok I sets" "DestroySet I n k = (k', e)"
  shows "sets k' = (if e = None then (sets k)(n := None) else sets k)"
proof -
  obtain k1 e1 where r: "retryIfInUse I [''destroy'', n] (''error destroying set '' @ quoted n) k = (k1, e1)" by fastforce
  note D = destroy_retry [OF assms(1) r [unfolded retryIfInUse_def]]
  show ?thesis
  proof (cases "IsNotFoundError e1")
    case True
    then have "e1 \<noteq> None" by (cases e1) (auto simp: IsNotFoundError_def)
    with True have "sets k n = None" "k' = k1" "e = None" using D r assms(2) by (auto simp: DestroySet_def unless_not_found_def)
    then show ?thesis using D by auto
  next
    case False
    then show ?thesis using D r assms(2) by (auto simp: DestroySet_def unless_not_found_def)
  qed
qed

theorem ipset_named_sets:
  assumes "ipset_ok I sets"
  shows "named_sets (ipt_sets I family) (\<lambda>_. True) sets"
proof unfold_locales
  fix k k' n e
  assume "sd_Create (ipt_sets I family) n True k = (k', e)"
  then obtain e' where c: "createSet I (set_defaults (ipt_NewNamedSet family n)) True k = (k', e')" and e: "e = None \<longleftrightarrow> e' = None"
    by (auto simp: ipt_sets_def ipt_set_Create_def CreateSet_def Let_def wrap_def split: prod.splits option.splits)
  from run_result [OF c [unfolded createSet_def]] obtain r
    where r: "ic_exec I (create_args (set_defaults (ipt_NewNamedSet family n)) True) k = (k', r)" "isl r \<longleftrightarrow> e' \<noteq> None" .
  from ipset_okD(2) [OF assms r(1)] r(2) e
  show "True \<and> sets k' = (if e = None then (sets k)(n \<mapsto> case_option {} id (sets k n)) else sets k)" by simp
next
  fix k k' n e x E
  assume E: "sets k n = Some E" and "sd_AddEntry (ipt_sets I family) n x True k = (k', e)"
  then obtain e' where c: "AddIPEntry I x n True k = (k', e')" and e: "e = None \<longleftrightarrow> e' = None"
    by (auto simp: ipt_sets_def ipt_set_AddEntry_def dest: apsnd_wrapD)
  from run_result [OF c [unfolded AddIPEntry_run]] obtain r where r: "ic_exec I [''add'', ''-exist'', n, x] k = (k', r)" "isl r \<longleftrightarrow> e' \<noteq> None" .
  from ipset_okD(3) [OF assms r(1) E] r(2) e show "True \<and> sets k' = (if e = None then (sets k)(n \<mapsto> insert x E) else sets k)" by simp
next
  fix k k' n e x
  assume E: "sets k n = None" and "sd_AddEntry (ipt_sets I family) n x True k = (k', e)"
  then obtain e' where c: "AddIPEntry I x n True k = (k', e')" and e: "e = None \<longleftrightarrow> e' = None"
    by (auto simp: ipt_sets_def ipt_set_AddEntry_def dest: apsnd_wrapD)
  from run_result [OF c [unfolded AddIPEntry_run]] obtain r where r: "ic_exec I [''add'', ''-exist'', n, x] k = (k', r)" "isl r \<longleftrightarrow> e' \<noteq> None" .
  from ipset_okD(4) [OF assms r(1) E] r(2) e show "True \<and> sets k' = sets k \<and> e \<noteq> None" by simp
next
  fix k k' n e x E
  assume E: "sets k n = Some E" and "sd_DelEntry (ipt_sets I family) n x k = (k', e)"
  then show "True \<and> sets k' = (sets k)(n \<mapsto> E - {x}) \<and> (x \<in> E \<longrightarrow> e = None)"
    using ipset_del [OF assms, of x n k k'] by (auto simp: ipt_sets_def ipt_set_DelEntry_def dest!: apsnd_wrapD)
next
  fix k k' n e x
  assume E: "sets k n = None" and "sd_DelEntry (ipt_sets I family) n x k = (k', e)"
  then show "True \<and> sets k' = sets k"
    using ipset_del [OF assms, of x n k k'] by (auto simp: ipt_sets_def ipt_set_DelEntry_def dest!: apsnd_wrapD)
next
  fix k k' n e
  assume "sd_Flush (ipt_sets I family) n k = (k', e)"
  then show "True \<and> sets k' = (if e = None \<and> sets k n \<noteq> None then (sets k)(n \<mapsto> {}) else sets k)"
    using ipset_flush [OF assms, of n k k'] by (auto simp: ipt_sets_def ipt_set_Flush_def dest!: apsnd_wrapD)
next
  fix k k' n e
  assume "sd_Destroy (ipt_sets I family) n k = (k', e)"
  then show "True \<and> sets k' = (if e = None then (sets k)(n := None) else sets k)"
    using ipset_destroy [OF assms, of n k k'] by (auto simp: ipt_sets_def ipt_set_Destroy_def dest!: apsnd_wrapD)
next
  fix k k' n r E
  assume E: "sets k n = Some E" and "sd_ListEntries (ipt_sets I family) n k = (k', r)"
  then show "True \<and> sets k' = sets k \<and> (case r of Inr xs \<Rightarrow> set xs = E | Inl _ \<Rightarrow> True)"
    using ipset_okD(12,13) [OF assms, of n k k']
    by (auto simp: ipt_sets_def ipt_set_ListEntries_def is_ListEntries_def runWithOutput_def wrap_res_def parse_listing
             split: if_splits prod.splits sum.splits)
qed

section \<open>What is used of nftables\<close>

text \<open>
  A transaction that fails changes nothing. An element is deleted if it is there, a set that is not found does not exist, and the
  elements that are listed are those of the set.
\<close>

definition nft_sets_ok :: "'k nftSets \<Rightarrow> ('k \<Rightarrow> string \<rightharpoonup> string set) \<Rightarrow> bool" where
  "nft_sets_ok N sets \<longleftrightarrow>
     (\<forall>ops k k' e. nsx_Run N ops k = (k', Some e) \<longrightarrow> sets k' = sets k) \<and>
     (\<forall>t s k k'. nsx_Run N [NsAddTable t, NsAddSet s] k = (k', None) \<longrightarrow>
        sets k' = (sets k)(ks_Name s \<mapsto> case_option {} id (sets k (ks_Name s)))) \<and>
     (\<forall>n x k k'. nsx_Run N [NsAddElement n [x]] k = (k', None) \<longrightarrow>
        (\<exists>E. sets k n = Some E \<and> sets k' = (sets k)(n \<mapsto> insert x E))) \<and>
     (\<forall>n x k k'. nsx_Run N [NsDeleteElement n [x]] k = (k', None) \<longrightarrow>
        (\<exists>E. sets k n = Some E \<and> x \<in> E \<and> sets k' = (sets k)(n \<mapsto> E - {x}))) \<and>
     (\<forall>n x k E. sets k n = Some E \<longrightarrow> x \<in> E \<longrightarrow> snd (nsx_Run N [NsDeleteElement n [x]] k) = None) \<and>
     (\<forall>s k k'. nsx_Run N [NsFlushSet s] k = (k', None) \<longrightarrow> sets k' = (sets k)(ks_Name s \<mapsto> {})) \<and>
     (\<forall>s k k' e. nsx_Run N [NsFlushSet s] k = (k', Some e) \<longrightarrow> nsx_IsNotFound N e \<longrightarrow> sets k (ks_Name s) = None) \<and>
     (\<forall>s k k'. nsx_Run N [NsFlushSet s] k = (k', None) \<longrightarrow> sets k (ks_Name s) \<noteq> None) \<and>
     (\<forall>n k k'. nsx_Run N [NsDeleteSet n] k = (k', None) \<longrightarrow> sets k' = (sets k)(n := None)) \<and>
     (\<forall>n k k' e. nsx_Run N [NsDeleteSet n] k = (k', Some e) \<longrightarrow> nsx_IsNotFound N e \<longrightarrow> sets k n = None) \<and>
     (\<forall>n k elems E. nsx_ListElements N n k = Inr elems \<longrightarrow> sets k n = Some E \<longrightarrow> [] \<notin> set elems \<and> hd ` set elems = E)"

lemmas nft_ok1 = iffD1 [OF nft_sets_ok_def]
lemmas nft_ok2 = conjunct2 [OF nft_ok1]
lemmas nft_ok3 = conjunct2 [OF nft_ok2]
lemmas nft_ok4 = conjunct2 [OF nft_ok3]
lemmas nft_ok5 = conjunct2 [OF nft_ok4]
lemmas nft_ok6 = conjunct2 [OF nft_ok5]
lemmas nft_ok7 = conjunct2 [OF nft_ok6]
lemmas nft_ok8 = conjunct2 [OF nft_ok7]
lemmas nft_ok9 = conjunct2 [OF nft_ok8]
lemmas nft_ok10 = conjunct2 [OF nft_ok9]
lemmas nft_ok11 = conjunct2 [OF nft_ok10]

lemmas nft_okD =
  conjunct1 [OF nft_ok1, rule_format]
  conjunct1 [OF nft_ok2, rule_format]
  conjunct1 [OF nft_ok3, rule_format]
  conjunct1 [OF nft_ok4, rule_format]
  conjunct1 [OF nft_ok5, rule_format]
  conjunct1 [OF nft_ok6, rule_format]
  conjunct1 [OF nft_ok7, rule_format]
  conjunct1 [OF nft_ok8, rule_format]
  conjunct1 [OF nft_ok9, rule_format]
  conjunct1 [OF nft_ok10, rule_format]
  nft_ok11 [rule_format]

lemma nft_NewNamedSet_Name [simp]: "ks_Name (nft_NewNamedSet family n) = n"
  by (simp add: nft_NewNamedSet_def)

lemma nft_foundD:
  assumes "nft_found N msg r = (k', e)"
  obtains e' where "r = (k', e')" "e' = None \<and> e = None \<or> (\<exists>x. e' = Some x \<and> (if nsx_IsNotFound N x then e = None else e \<noteq> None))"
  using assms by (cases r) (auto simp: nft_found_def split: option.splits if_splits)

theorem nft_named_sets:
  assumes ok: "nft_sets_ok N sets"
  shows "named_sets (nft_sets N family) (\<lambda>_. True) sets"
proof unfold_locales
  fix k k' n e
  assume "sd_Create (nft_sets N family) n True k = (k', e)"
  then obtain e' where r: "nsx_Run N [NsAddTable ''rules for submariner'', NsAddSet (nft_NewNamedSet family n)] k = (k', e')"
    and e: "e = None \<longleftrightarrow> e' = None" by (auto simp: nft_sets_def nft_set_Create_def dest: apsnd_wrapD)
  show "True \<and> sets k' = (if e = None then (sets k)(n \<mapsto> case_option {} id (sets k n)) else sets k)"
    using nft_okD(1) [OF ok] nft_okD(2) [OF ok] r e by (cases e') auto
next
  fix k k' n e x E
  assume E: "sets k n = Some E" and "sd_AddEntry (nft_sets N family) n x True k = (k', e)"
  then obtain e' where "nsx_Run N [NsAddElement n [x]] k = (k', e')" "e = None \<longleftrightarrow> e' = None"
    by (auto simp: nft_sets_def nft_set_AddEntry_def dest: apsnd_wrapD)
  then show "True \<and> sets k' = (if e = None then (sets k)(n \<mapsto> insert x E) else sets k)"
    using nft_okD(1) [OF ok] nft_okD(3) [OF ok] E by (cases e') fastforce+
next
  fix k k' n e x
  assume E: "sets k n = None" and "sd_AddEntry (nft_sets N family) n x True k = (k', e)"
  then obtain e' where "nsx_Run N [NsAddElement n [x]] k = (k', e')" "e = None \<longleftrightarrow> e' = None"
    by (auto simp: nft_sets_def nft_set_AddEntry_def dest: apsnd_wrapD)
  then show "True \<and> sets k' = sets k \<and> e \<noteq> None"
    using nft_okD(1) [OF ok] nft_okD(3) [OF ok] E by (cases e') fastforce+
next
  fix k k' n e x E
  assume E: "sets k n = Some E" and "sd_DelEntry (nft_sets N family) n x k = (k', e)"
  then obtain e' where r: "nsx_Run N [NsDeleteElement n [x]] k = (k', e')" "e = None \<longleftrightarrow> e' = None"
    by (auto simp: nft_sets_def nft_set_DelEntry_def dest: apsnd_wrapD)
  show "True \<and> sets k' = (sets k)(n \<mapsto> E - {x}) \<and> (x \<in> E \<longrightarrow> e = None)"
  proof (cases e')
    case None
    then show ?thesis using nft_okD(4) [OF ok] r E by fastforce
  next
    case (Some y)
    then have "x \<notin> E" using nft_okD(5) [OF ok E] r(1) by fastforce
    moreover have "sets k' = sets k" using nft_okD(1) [OF ok] r(1) Some by blast
    ultimately show ?thesis using E by (auto simp: fun_upd_idem)
  qed
next
  fix k k' n e x
  assume E: "sets k n = None" and "sd_DelEntry (nft_sets N family) n x k = (k', e)"
  then obtain e' where "nsx_Run N [NsDeleteElement n [x]] k = (k', e')"
    by (auto simp: nft_sets_def nft_set_DelEntry_def dest: apsnd_wrapD)
  then show "True \<and> sets k' = sets k" using nft_okD(1) [OF ok] nft_okD(4) [OF ok] E by (cases e') fastforce+
next
  fix k k' n e
  assume "sd_Flush (nft_sets N family) n k = (k', e)"
  then obtain e' where "nsx_Run N [NsFlushSet (nft_NewNamedSet family n)] k = (k', e')"
    "e' = None \<and> e = None \<or> (\<exists>x. e' = Some x \<and> (if nsx_IsNotFound N x then e = None else e \<noteq> None))"
    by (auto simp: nft_sets_def nft_set_Flush_def elim: nft_foundD)
  then show "True \<and> sets k' = (if e = None \<and> sets k n \<noteq> None then (sets k)(n \<mapsto> {}) else sets k)"
    using nft_okD(1) [OF ok, of "[NsFlushSet (nft_NewNamedSet family n)]" k k']
      nft_okD(6,8) [OF ok, of "nft_NewNamedSet family n" k k'] nft_okD(7) [OF ok, of "nft_NewNamedSet family n" k k']
    by (cases e') (auto split: if_splits)
next
  fix k k' n e
  assume "sd_Destroy (nft_sets N family) n k = (k', e)"
  then obtain e' where "nsx_Run N [NsDeleteSet n] k = (k', e')"
    "e' = None \<and> e = None \<or> (\<exists>x. e' = Some x \<and> (if nsx_IsNotFound N x then e = None else e \<noteq> None))"
    by (auto simp: nft_sets_def nft_set_Destroy_def deleteSet_def elim: nft_foundD)
  then show "True \<and> sets k' = (if e = None then (sets k)(n := None) else sets k)"
    using nft_okD(1) [OF ok, of "[NsDeleteSet n]" k k'] nft_okD(9) [OF ok, of n k k'] nft_okD(10) [OF ok, of n k k']
    by (cases e') (auto split: if_splits)
next
  fix k k' n r E
  assume E: "sets k n = Some E" and "sd_ListEntries (nft_sets N family) n k = (k', r)"
  then show "True \<and> sets k' = sets k \<and> (case r of Inr xs \<Rightarrow> set xs = E | Inl _ \<Rightarrow> True)"
    using nft_okD(11) [OF ok _ E] by (auto simp: nft_sets_def nft_set_ListEntries_def split: sum.splits if_splits)
qed

section \<open>Hosts that satisfy the assumptions\<close>

type_synonym ref_sets = "string \<rightharpoonup> string list"

definition abs_sets :: "ref_sets \<Rightarrow> string \<rightharpoonup> string set" where
  "abs_sets k n = map_option set (k n)"

definition entry_ok :: "string \<Rightarrow> bool" where
  "entry_ok x \<longleftrightarrow> x \<noteq> [] \<and> x \<noteq> ''Members:'' \<and> NL \<notin> set x \<and> trim_space x = x"

definition no_set :: "string \<times> string" where
  "no_set = (''exit status 1'', ''The set with the given name does not exist'')"

definition ref_two :: "string \<Rightarrow> string \<Rightarrow> string list \<Rightarrow> ref_sets \<Rightarrow> ref_sets \<times> (string \<times> string + string)" where
  "ref_two c n xs k =
     (if c = ''flush'' then (k(n \<mapsto> []), Inr [])
      else if c = ''destroy'' then (k(n := None), Inr [])
      else if c = ''list'' \<and> list_all entry_ok xs then (k, Inr (unlines ([''Type: hash:net'', ''Members:''] @ xs)))
      else (k, Inl (''exit status 1'', ''bad command'')))"

definition ref_exec :: "string list \<Rightarrow> ref_sets \<Rightarrow> ref_sets \<times> (string \<times> string + string)" where
  "ref_exec args k = (case args of
      [c, n] \<Rightarrow> (case k n of None \<Rightarrow> (k, Inl no_set) | Some xs \<Rightarrow> ref_two c n xs k)
    | [c, n, x] \<Rightarrow> (case k n of
          None \<Rightarrow> (k, Inl no_set)
        | Some xs \<Rightarrow>
            if x \<in> set xs then (k(n \<mapsto> filter (\<lambda>y. y \<noteq> x) xs), Inr [])
            else (k, Inl (''exit status 1'', ''Element cannot be deleted from the set: it's not added'')))
    | [c, o', n, x] \<Rightarrow> (case k n of
          None \<Rightarrow> (k, Inl no_set)
        | Some xs \<Rightarrow> if entry_ok x then (k(n \<mapsto> x # xs), Inr []) else (k, Inl (''exit status 1'', ''syntax error'')))
    | c # n # _ \<Rightarrow> (k(n \<mapsto> case k n of Some xs \<Rightarrow> xs | None \<Rightarrow> []), Inr [])
    | _ \<Rightarrow> (k, Inl (''exit status 1'', ''bad command'')))"

definition ref_ipset :: "ref_sets ipsetCmd" where
  "ref_ipset = \<lparr>ic_exec = ref_exec, ic_sleep = (\<lambda>k. k)\<rparr>"

lemma abs_upd [simp]: "abs_sets (k(n \<mapsto> xs)) = (abs_sets k)(n \<mapsto> set xs)" "abs_sets (k(n := None)) = (abs_sets k)(n := None)"
  by (auto simp: abs_sets_def)

lemma abs_Some: "abs_sets k n = Some E \<longleftrightarrow> (\<exists>xs. k n = Some xs \<and> set xs = E)"
  by (auto simp: abs_sets_def)

lemma abs_None: "abs_sets k n = None \<longleftrightarrow> k n = None"
  by (simp add: abs_sets_def)

lemma no_set_text: "\<exists>e out. no_set = (e, out) \<and> has_substring out ''does not exist''"
  by (simp add: no_set_def)

lemma ref_listing: "list_all entry_ok xs \<Longrightarrow> listing (set xs) (unlines (''Type: hash:net'' # ''Members:'' # xs))"
proof -
  assume ok: "list_all entry_ok xs"
  then have t: "trim_space ` set xs = set xs" by (force simp: list_all_iff entry_ok_def)
  have "NL \<notin> set ''Type: hash:net''" by (simp add: NL_def)
  with ok have nl: "\<forall>l\<in>set [''Type: hash:net''] \<union> set xs. NL \<notin> set l" by (auto simp: list_all_iff entry_ok_def)
  have "[] \<notin> set xs" "''Members:'' \<notin> set xs" using ok by (auto simp: list_all_iff entry_ok_def)
  with t nl show ?thesis unfolding listing_def
    by (intro exI [of _ "[''Type: hash:net'']"] exI [of _ xs]) simp
qed

lemma ref_create:
  "ref_exec (create_args s True) k = (k(is_Name s \<mapsto> case k (is_Name s) of Some xs \<Rightarrow> xs | None \<Rightarrow> []), Inr [])"
  by (simp add: ref_exec_def create_args_def)

lemma ref_ipset_ok: "ipset_ok ref_ipset abs_sets"
  unfolding ipset_ok_def
proof (intro conjI allI impI)
  fix s k k' r assume "ic_exec ref_ipset (create_args s True) k = (k', r)"
  then show "abs_sets k' = (if isl r then abs_sets k else (abs_sets k)(is_Name s \<mapsto> case_option {} id (abs_sets k (is_Name s))))"
    by (auto simp: ref_ipset_def ref_create abs_sets_def split: option.splits)
next
  fix n x k k' r E assume "ic_exec ref_ipset [''del'', n, x] k = (k', r)" "abs_sets k n = Some E"
  then show "abs_sets k' = (abs_sets k)(n \<mapsto> E - {x})"
    by (auto simp: ref_ipset_def ref_exec_def abs_Some split: if_splits intro!: ext)
qed (auto simp: ref_ipset_def ref_exec_def ref_two_def abs_Some abs_None ref_listing no_set_text
         split: if_splits option.splits)

definition ref_sets_run :: "setOp list \<Rightarrow> ref_sets \<Rightarrow> ref_sets \<times> err option" where
  "ref_sets_run ops k = (case ops of
      [NsAddTable _, NsAddSet s] \<Rightarrow> (k(ks_Name s \<mapsto> case k (ks_Name s) of Some xs \<Rightarrow> xs | None \<Rightarrow> []), None)
    | [NsFlushSet s] \<Rightarrow> (case k (ks_Name s) of None \<Rightarrow> (k, Some (Sentinel ''not found'')) | Some _ \<Rightarrow> (k(ks_Name s \<mapsto> []), None))
    | [NsDeleteSet n] \<Rightarrow> (case k n of None \<Rightarrow> (k, Some (Sentinel ''not found'')) | Some _ \<Rightarrow> (k(n := None), None))
    | [NsAddElement n [x]] \<Rightarrow> (case k n of
          None \<Rightarrow> (k, Some (Sentinel ''not found''))
        | Some xs \<Rightarrow> if entry_ok x then (k(n \<mapsto> x # xs), None) else (k, Some (Err ''syntax error'')))
    | [NsDeleteElement n [x]] \<Rightarrow> (case k n of
          None \<Rightarrow> (k, Some (Sentinel ''not found''))
        | Some xs \<Rightarrow>
            if x \<in> set xs then (k(n \<mapsto> filter (\<lambda>y. y \<noteq> x) xs), None) else (k, Some (Sentinel ''not found'')))
    | _ \<Rightarrow> (k, Some (Err ''unsupported'')))"

definition ref_nft_sets :: "ref_sets nftSets" where
  "ref_nft_sets = \<lparr>nsx_Run = ref_sets_run,
     nsx_ListElements = (\<lambda>n k. case k n of None \<Rightarrow> Inl (Sentinel ''not found'') | Some xs \<Rightarrow> Inr (map (\<lambda>x. [x]) xs)),
     nsx_ListSets = (\<lambda>k. Inr []),
     nsx_IsNotFound = (\<lambda>e. e = Sentinel ''not found'')\<rparr>"

lemma ref_sets_run_error: "ref_sets_run ops k = (k', Some e) \<Longrightarrow> k' = k"
  by (auto simp: ref_sets_run_def split: list.splits setOp.splits option.splits if_splits)

lemma ref_nft_sets_ok: "nft_sets_ok ref_nft_sets abs_sets"
  unfolding nft_sets_ok_def
proof (intro conjI allI impI)
  fix ops k k' e assume "nsx_Run ref_nft_sets ops k = (k', Some e)"
  then show "abs_sets k' = abs_sets k" by (auto simp: ref_nft_sets_def dest: ref_sets_run_error)
next
  fix t s k k' assume "nsx_Run ref_nft_sets [NsAddTable t, NsAddSet s] k = (k', None)"
  then show "abs_sets k' = (abs_sets k)(ks_Name s \<mapsto> case_option {} id (abs_sets k (ks_Name s)))"
    by (auto simp: ref_nft_sets_def ref_sets_run_def abs_sets_def split: option.splits)
next
  fix n x k k' assume "nsx_Run ref_nft_sets [NsDeleteElement n [x]] k = (k', None)"
  then show "\<exists>E. abs_sets k n = Some E \<and> x \<in> E \<and> abs_sets k' = (abs_sets k)(n \<mapsto> E - {x})"
    by (auto simp: ref_nft_sets_def ref_sets_run_def abs_Some split: option.splits if_splits)
qed (auto simp: ref_nft_sets_def ref_sets_run_def abs_Some abs_None image_image split: option.splits if_splits)

interpretation ipset_sets: named_sets "ipt_sets ref_ipset IPv4" "\<lambda>_. True" abs_sets
  by (rule ipset_named_sets [OF ref_ipset_ok])

interpretation nft_sets: named_sets "nft_sets ref_nft_sets IPv4" "\<lambda>_. True" abs_sets
  by (rule nft_named_sets [OF ref_nft_sets_ok])

section \<open>Both implementations leave the same sets\<close>

text \<open>C27: A sequence of operations of the interface leaves the same sets with ipset and with nftables, when the operations that are
  not deletions succeed alike; whether a deletion reports an error or not does not matter. (Deleting an entry that is not there is an
  error with nftables and none with ipset.)\<close>

theorem named_sets_agree:
  assumes "ipset_ok I setsI" and "nft_sets_ok N setsN" and "setsI k = setsN m"
    and "set_run (ipt_sets I family) ops k = (k', oks)" and "set_run (nft_sets N family) ops m = (m', oks')"
    and "\<forall>i<length ops. is_del (ops ! i) \<or> oks ! i = oks' ! i"
  shows "setsI k' = setsN m'"
  using named_sets.run_refines [OF ipset_named_sets [OF assms(1)] _ assms(4)]
    named_sets.run_refines [OF nft_named_sets [OF assms(2)] _ assms(5)] set_spec_run_agree [OF _ _ assms(6)] assms(3) by auto

definition example_ops :: "set_op list" where
  "example_ops = [SetCreate ''S'', SetAdd ''S'' ''10.0.0.0/8'', SetAdd ''S'' ''10.1.0.0/16'', SetDel ''S'' ''10.2.0.0/16'',
     SetDel ''S'' ''10.0.0.0/8'', SetFlush ''T'', SetCreate ''T'', SetDestroy ''T'']"

lemma entry_ok_examples [simp]: "entry_ok ''10.0.0.0/8''" "entry_ok ''10.1.0.0/16''"
  by (simp_all add: entry_ok_def NL_def trim_space_def is_space_def)

lemma ref_ipset_steps:
  "sd_Create (ipt_sets ref_ipset IPv4) n True k = (k(n \<mapsto> case k n of Some xs \<Rightarrow> xs | None \<Rightarrow> []), None)"
  "k n = Some xs \<Longrightarrow> entry_ok x \<Longrightarrow> sd_AddEntry (ipt_sets ref_ipset IPv4) n x True k = (k(n \<mapsto> x # xs), None)"
  "k n = Some xs \<Longrightarrow> sd_DelEntry (ipt_sets ref_ipset IPv4) n x k = (if x \<in> set xs then k(n \<mapsto> filter (\<lambda>y. y \<noteq> x) xs) else k, None)"
proof -
  have exec: "ic_exec ref_ipset = ref_exec" by (simp add: ref_ipset_def)
  show "sd_Create (ipt_sets ref_ipset IPv4) n True k = (k(n \<mapsto> case k n of Some xs \<Rightarrow> xs | None \<Rightarrow> []), None)"
    using run_ok [of ref_ipset _ k, unfolded exec, OF ref_create]
    by (simp add: ipt_sets_def ipt_set_Create_def CreateSet_def createSet_def wrap_def Let_def)
  show "sd_AddEntry (ipt_sets ref_ipset IPv4) n x True k = (k(n \<mapsto> x # xs), None)" if "k n = Some xs" "entry_ok x"
    using that run_ok [of ref_ipset "[''add'', ''-exist'', n, x]" k "k(n \<mapsto> x # xs)" "[]"]
    by (simp add: ipt_sets_def ipt_set_AddEntry_def AddIPEntry_run exec ref_exec_def wrap_def)
  show "sd_DelEntry (ipt_sets ref_ipset IPv4) n x k = (if x \<in> set xs then k(n \<mapsto> filter (\<lambda>y. y \<noteq> x) xs) else k, None)"
    if "k n = Some xs"
    using that run_ok [of ref_ipset "[''del'', n, x]" k "k(n \<mapsto> filter (\<lambda>y. y \<noteq> x) xs)" "[]"]
      run_not_added [of ref_ipset "[''del'', n, x]" k k "''exit status 1''" "''Element cannot be deleted from the set: it's not added''"]
    by (auto simp: ipt_sets_def ipt_set_DelEntry_def DelIPEntry_run exec ref_exec_def wrap_def unless_not_found_ok)
qed

lemma ref_ipset_flush_absent: "k n = None \<Longrightarrow> sd_Flush (ipt_sets ref_ipset IPv4) n k = (k, None)"
  using run_not_found [of ref_ipset "[''flush'', n]" k k "fst no_set" "snd no_set"]
  by (simp add: ipt_sets_def ipt_set_Flush_def FlushSet_def wrap_def ref_ipset_def ref_exec_def no_set_def)

lemma ref_ipset_destroy: "k n = Some xs \<Longrightarrow> sd_Destroy (ipt_sets ref_ipset IPv4) n k = (k(n := None), None)"
  using run_ok [of ref_ipset "[''destroy'', n]" k "k(n := None)" "[]"]
  by (simp add: ipt_sets_def ipt_set_Destroy_def DestroySet_def retryIfInUse_def retry_on_error.simps wrap_def ref_ipset_def
      ref_exec_def ref_two_def unless_not_found_ok)

lemma example_ipset_run:
  "set_run (ipt_sets ref_ipset IPv4) example_ops Map.empty = ([''S'' \<mapsto> [''10.1.0.0/16'']], [True, True, True, True, True, True, True, True])"
  by (simp add: example_ops_def ref_ipset_steps ref_ipset_flush_absent ref_ipset_destroy)

lemma example_nft_run:
  "set_run (nft_sets ref_nft_sets IPv4) example_ops Map.empty = ([''S'' \<mapsto> [''10.1.0.0/16'']], [True, True, True, False, True, True, True, True])"
  by (simp add: example_ops_def nft_sets_def nft_set_Create_def nft_set_AddEntry_def nft_set_DelEntry_def nft_set_Flush_def
    nft_set_Destroy_def deleteSet_def nft_found_def ref_nft_sets_def ref_sets_run_def wrap_def)

theorem named_sets_agree_witness:
  "abs_sets (fst (set_run (ipt_sets ref_ipset IPv4) example_ops Map.empty)) = abs_sets (fst (set_run (nft_sets ref_nft_sets IPv4) example_ops Map.empty)) \<and>
   snd (set_run (ipt_sets ref_ipset IPv4) example_ops Map.empty) \<noteq> snd (set_run (nft_sets ref_nft_sets IPv4) example_ops Map.empty)"
proof -
  have "\<forall>i<length example_ops. is_del (example_ops ! i) \<or>
      [True, True, True, True, True, True, True, True] ! i = [True, True, True, False, True, True, True, True] ! i"
    by (simp add: example_ops_def All_less_Suc)
  from named_sets_agree [OF ref_ipset_ok ref_nft_sets_ok refl example_ipset_run example_nft_run this]
  show ?thesis by (simp add: example_ipset_run example_nft_run)
qed

section \<open>Destroying a set ends\<close>

text \<open>The state of the host before each attempt.\<close>

fun before_attempt :: "('k \<Rightarrow> 'k) \<Rightarrow> ('k \<Rightarrow> 'k \<times> err option) \<Rightarrow> 'k \<Rightarrow> nat \<Rightarrow> 'k" where
  "before_attempt sleep f k 0 = k"
| "before_attempt sleep f k (Suc i) = sleep (fst (f (before_attempt sleep f k i)))"

lemma before_attempt_shift: "before_attempt sleep f (sleep (fst (f k))) i = before_attempt sleep f k (Suc i)"
  by (induction i) simp_all

definition in_use_result :: "'k \<times> err option \<Rightarrow> bool" where
  "in_use_result r = (case snd r of None \<Rightarrow> False | Some e \<Rightarrow> in_use_error e)"

lemma retry_attempts:
  "0 < n \<Longrightarrow> \<exists>i<n. retry_on_error sleep n f k = f (before_attempt sleep f k i) \<and>
     (\<forall>j<i. in_use_result (f (before_attempt sleep f k j))) \<and> (in_use_result (f (before_attempt sleep f k i)) \<longrightarrow> Suc i = n)"
proof (induction n arbitrary: k)
  case (Suc n)
  show ?case
  proof (cases "in_use_result (f k) \<and> 0 < n")
    case False
    then have "retry_on_error sleep (Suc n) f k = f k"
      by (cases "f k") (auto simp: retry_on_error.simps [of _ "Suc n"] in_use_result_def split: option.splits)
    with False show ?thesis by (intro exI [of _ 0]) auto
  next
    case True
    let ?k = "sleep (fst (f k))"
    have r: "retry_on_error sleep (Suc n) f k = retry_on_error sleep n f ?k"
      using True by (cases "f k") (auto simp: retry_on_error.simps [of _ "Suc n"] in_use_result_def split: option.splits)
    from Suc.IH [of ?k] True obtain i where i: "i < n" "retry_on_error sleep n f ?k = f (before_attempt sleep f ?k i)"
      "\<forall>j<i. in_use_result (f (before_attempt sleep f ?k j))" "in_use_result (f (before_attempt sleep f ?k i)) \<longrightarrow> Suc i = n" by auto
    have "\<forall>j<Suc i. in_use_result (f (before_attempt sleep f k j))"
      using True i(3) by (auto simp: less_Suc_eq_0_disj before_attempt_shift)
    then show ?thesis using i r before_attempt_shift [of sleep f k i] by (intro exI [of _ "Suc i"]) simp
  qed
qed simp

text \<open>C29: Destroying a set runs the command at least once and at most 20 times, whatever the host does: every attempt but the last one
  failed because the set was in use, the result is that of the last one, and it is not an error \<open>in use\<close> unless it was the 20th.
  An error that says that the set does not exist is no error.\<close>

theorem destroy_attempts:
  "\<exists>i<20. let run = ipset_run I [''destroy'', s] (''error destroying set '' @ quoted s); st = before_attempt (ic_sleep I) run k in
     DestroySet I s k = unless_not_found (run (st i)) \<and> (\<forall>j\<in>{..<i}. in_use_result (run (st j))) \<and> (\<not> in_use_result (run (st i)) \<or> i = 19)"
  using retry_attempts [of 20 "ic_sleep I" "ipset_run I [''destroy'', s] (''error destroying set '' @ quoted s)" k]
  by (auto simp: Let_def DestroySet_def retryIfInUse_def backoff_steps_def)

text \<open>A host whose set is in use for the given number of attempts.\<close>

definition busy_ipset :: "nat ipsetCmd" where
  "busy_ipset = \<lparr>ic_exec = (\<lambda>args n. if n = 0 then (0, Inr []) else
       (n - 1, Inl (''exit status 1'', ''Set cannot be destroyed: it is in use by a kernel component''))),
     ic_sleep = (\<lambda>n. n)\<rparr>"

theorem destroy_attempts_witness:
  "DestroySet busy_ipset ''S'' 3 = (0, None) \<and> snd (DestroySet busy_ipset ''S'' 20) \<noteq> None \<and>
   (\<exists>i<20. let run = ipset_run busy_ipset [''destroy'', ''S''] (''error destroying set '' @ quoted ''S'');
      st = before_attempt (ic_sleep busy_ipset) run 3 in
     DestroySet busy_ipset ''S'' 3 = unless_not_found (run (st i)) \<and> (\<forall>j\<in>{..<i}. in_use_result (run (st j))) \<and>
     (\<not> in_use_result (run (st i)) \<or> i = 19))"
proof -
  have "DestroySet busy_ipset ''S'' 3 = (0, None)" by code_simp
  moreover have "snd (DestroySet busy_ipset ''S'' 20) \<noteq> None" by code_simp
  ultimately show ?thesis using destroy_attempts [of busy_ipset "''S''" 3] by blast
qed

end
