(* ===== verification/MtuHandler.thy ===== *)
theory MtuHandler
  imports RouteChains NamedSets VxlanDriver IPTables
begin

text \<open>
  \<open>pkg/routeagent_driver/handlers/mtu/mtuhandler.go\<close>: the handler that keeps the segments of TCP connections between clusters small
  enough. The subnets of the remote and of the local cluster are entries of two named sets, and two rules on these sets clamp the
  maximum segment size, to the path MTU or to a fixed value.

  The packet filter and the sets of the host are a parameter, and so is the MTU of its default interface. The fields \<open>pFilter\<close>,
  \<open>remoteIPSet\<close> and \<open>localIPSet\<close> are set once, so they are not part of the state.
\<close>

section \<open>The handler\<close>

datatype forceMssSts = notNeeded | needed | configured

definition MaxIPSecOverhead :: int where "MaxIPSecOverhead = 120"
definition RemoteCIDRIPSetIPv4 :: string where "RemoteCIDRIPSetIPv4 = ''SUBMARINER-REMOTECIDRS''"
definition LocalCIDRIPSetIPv4 :: string where "LocalCIDRIPSetIPv4 = ''SUBMARINER-LOCALCIDRS''"
definition RemoteCIDRIPSetIPv6 :: string where "RemoteCIDRIPSetIPv6 = ''SUBMARINER-REMOTECIDRS-V6''"
definition LocalCIDRIPSetIPv6 :: string where "LocalCIDRIPSetIPv6 = ''SUBMARINER-LOCALCIDRS-V6''"

record mtuHandler =
  mh_ipFamily :: IPFamily
  mh_localClusterCidr :: "string list"
  mh_tableType :: TableType
  mh_chainType :: ChainType
  mh_forceMss :: forceMssSts
  mh_tcpMssValue :: int
  mh_localCIDRIPSet :: string
  mh_remoteCIDRIPSet :: string

record 'k mtuHost =
  mo_New :: "IPFamily \<Rightarrow> err option"
  mo_filter :: "'k pfDriver"
  mo_sets :: "'k setDriver"
  mo_order :: "Rule list \<Rightarrow> Rule list"
  mo_MTU :: "IPFamily \<Rightarrow> 'k \<Rightarrow> int result"

definition mtu_NewHandler :: "libs \<Rightarrow> IPFamily \<Rightarrow> string list \<Rightarrow> bool \<Rightarrow> int \<Rightarrow> mtuHandler" where
  "mtu_NewHandler L ipFamily localClusterCidr isGlobalnet tcpMssValue =
     \<lparr>mh_ipFamily = ipFamily, mh_localClusterCidr = ExtractSubnets L ipFamily localClusterCidr, mh_tableType = 0, mh_chainType = 0,
      mh_forceMss = (if isGlobalnet \<or> tcpMssValue \<noteq> 0 then needed else notNeeded), mh_tcpMssValue = tcpMssValue,
      mh_localCIDRIPSet = (if ipFamily = IPv6 then LocalCIDRIPSetIPv6 else LocalCIDRIPSetIPv4),
      mh_remoteCIDRIPSet = (if ipFamily = IPv6 then RemoteCIDRIPSetIPv6 else RemoteCIDRIPSetIPv4)\<rparr>"

definition mss_hook :: "mtuHandler \<Rightarrow> ChainIPHook" where
  "mss_hook h = \<lparr>ih_Name = SmPostRoutingMss, ih_Type = mh_chainType h, ih_Hook = ChainHookPostrouting,
     ih_Priority = ChainPriorityFirst, ih_Policy = 0, ih_JumpRule = None\<rparr>"

definition pmtu_rule :: "string \<Rightarrow> string \<Rightarrow> Rule" where
  "pmtu_rule src dst = zero_rule\<lparr>SrcSetName := src, DestSetName := dst, Action := RuleActionMss, ClampType := ToPMTU\<rparr>"

definition mss_rule :: "string \<Rightarrow> string \<Rightarrow> int \<Rightarrow> Rule" where
  "mss_rule src dst v = zero_rule\<lparr>SrcSetName := src, DestSetName := dst, Action := RuleActionMss, ClampType := ToValue,
     MssValue := dec_of_int v\<rparr>"

definition append_clamp :: "'k mtuHost \<Rightarrow> mtuHandler \<Rightarrow> string \<Rightarrow> string \<Rightarrow> 'k \<Rightarrow> 'k \<times> err option" where
  "append_clamp O' h src dst k = apsnd (wrap ''error appending packetfilter rule'')
     (pd_AppendUnique (mo_filter O') (mh_tableType h) SmPostRoutingMss (pmtu_rule src dst) k)"

definition create_named_set :: "'k mtuHost \<Rightarrow> string \<Rightarrow> 'k \<Rightarrow> 'k \<times> err option" where
  "create_named_set O' n k = apsnd (wrap ''error creating ipset'') (sd_Create (mo_sets O') n True k)"

definition create_hook :: "'k mtuHost \<Rightarrow> mtuHandler \<Rightarrow> 'k \<Rightarrow> 'k \<times> err option" where
  "create_hook O' h k = apsnd (wrap ''error creating IPHookChain chain'') (pd_CreateIPHookChainIfNotExists (mo_filter O') (mss_hook h) k)"

definition mtu_Init :: "'k mtuHost \<Rightarrow> mtuHandler \<Rightarrow> 'k \<Rightarrow> (mtuHandler \<times> 'k) \<times> err option" where
  "mtu_Init O' h k = (case mo_New O' (mh_ipFamily h) of
      Some e \<Rightarrow> ((h, k), Some (Wrapped ''error initializing iptables'' e))
    | None \<Rightarrow>
        let h1 = h\<lparr>mh_tableType := fst (pd_GetMSSClampTypes (mo_filter O')), mh_chainType := snd (pd_GetMSSClampTypes (mo_filter O'))\<rparr>;
            l = mh_localCIDRIPSet h1; r = mh_remoteCIDRIPSet h1 in
        (case in_sequence ([create_hook O' h1, create_named_set O' r, create_named_set O' l] @
             (if mh_forceMss h1 = needed then [] else [append_clamp O' h1 l r, append_clamp O' h1 r l])) k of
           (k', e) \<Rightarrow> ((h1, k'), e)))"

text \<open>Entries are added until the first error; errors of deletions are only logged.\<close>

fun add_entries :: "'k setDriver \<Rightarrow> string \<Rightarrow> string \<Rightarrow> string list \<Rightarrow> 'k \<Rightarrow> 'k \<times> err option" where
  "add_entries S n msg [] k = (k, None)"
| "add_entries S n msg (x # xs) k = (case sd_AddEntry S n x True k of
     (k', Some e) \<Rightarrow> (k', Some (Wrapped msg e)) | (k', None) \<Rightarrow> add_entries S n msg xs k')"

fun del_entries :: "'k setDriver \<Rightarrow> string \<Rightarrow> string list \<Rightarrow> 'k \<Rightarrow> 'k" where
  "del_entries S n [] k = k"
| "del_entries S n (x # xs) k = del_entries S n xs (fst (sd_DelEntry S n x k))"

definition mss_value :: "'k mtuHost \<Rightarrow> mtuHandler \<Rightarrow> Endpoint \<Rightarrow> 'k \<Rightarrow> int result" where
  "mss_value O' h ep k =
     (if mh_tcpMssValue h \<noteq> 0 then Inr (mh_tcpMssValue h)
      else (case mo_MTU O' (mh_ipFamily h) k of
          Inl e \<Rightarrow> Inl (Wrapped ''Unable to find the default interface on host'' e)
        | Inr mtu \<Rightarrow> Inr (mtu - (if Backend (ep_Spec ep) = CableDriverName then MTUOverhead else MaxIPSecOverhead))))"

definition mss_rules :: "mtuHandler \<Rightarrow> int \<Rightarrow> Rule list" where
  "mss_rules h v = [mss_rule (mh_localCIDRIPSet h) (mh_remoteCIDRIPSet h) v, mss_rule (mh_remoteCIDRIPSet h) (mh_localCIDRIPSet h) v]"

definition forceMssClamping :: "'k mtuHost \<Rightarrow> mtuHandler \<Rightarrow> Endpoint \<Rightarrow> 'k \<Rightarrow> 'k \<times> err option" where
  "forceMssClamping O' h ep k = (case mss_value O' h ep k of
      Inl e \<Rightarrow> (k, Some e)
    | Inr v \<Rightarrow> apsnd (wrap ''error updating chain'')
        (UpdateChainRules (mo_filter O') (mo_order O') (mh_tableType h) SmPostRoutingMss (mss_rules h v) k))"

definition mtu_LocalEndpointCreated :: "libs \<Rightarrow> 'k mtuHost \<Rightarrow> Endpoint \<Rightarrow> mtuHandler \<times> 'k \<Rightarrow> (mtuHandler \<times> 'k) \<times> err option" where
  "mtu_LocalEndpointCreated L O' ep = (\<lambda>(h, k).
     (case add_entries (mo_sets O') (mh_localCIDRIPSet h) ''error adding local IP set entry''
         (ExtractSubnets L (mh_ipFamily h) (Subnets (ep_Spec ep))) k of
        (k1, Some e) \<Rightarrow> ((h, k1), Some e)
      | (k1, None) \<Rightarrow>
        (case add_entries (mo_sets O') (mh_localCIDRIPSet h) ''error adding localClusterCidr IP set entry'' (mh_localClusterCidr h) k1 of
           (k2, Some e) \<Rightarrow> ((h, k2), Some e)
         | (k2, None) \<Rightarrow>
             if mh_forceMss h = needed then
               (case forceMssClamping O' h ep k2 of
                  (k3, Some e) \<Rightarrow> ((h, k3), Some (Wrapped ''error forcing TCP MSS clamping'' e))
                | (k3, None) \<Rightarrow> ((h\<lparr>mh_forceMss := configured\<rparr>, k3), None))
             else ((h, k2), None))))"

definition mtu_LocalEndpointRemoved :: "libs \<Rightarrow> 'k mtuHost \<Rightarrow> Endpoint \<Rightarrow> mtuHandler \<times> 'k \<Rightarrow> (mtuHandler \<times> 'k) \<times> err option" where
  "mtu_LocalEndpointRemoved L O' ep = (\<lambda>(h, k).
     ((h, del_entries (mo_sets O') (mh_localCIDRIPSet h)
            (ExtractSubnets L (mh_ipFamily h) (Subnets (ep_Spec ep)) @ mh_localClusterCidr h) k), None))"

definition mtu_RemoteEndpointCreated :: "libs \<Rightarrow> 'k mtuHost \<Rightarrow> Endpoint \<Rightarrow> mtuHandler \<times> 'k \<Rightarrow> (mtuHandler \<times> 'k) \<times> err option" where
  "mtu_RemoteEndpointCreated L O' ep = (\<lambda>(h, k).
     (case add_entries (mo_sets O') (mh_remoteCIDRIPSet h) ''error adding remote IP set entry''
         (ExtractSubnets L (mh_ipFamily h) (Subnets (ep_Spec ep))) k of (k1, e) \<Rightarrow> ((h, k1), e)))"

definition mtu_RemoteEndpointRemoved :: "libs \<Rightarrow> 'k mtuHost \<Rightarrow> Endpoint \<Rightarrow> mtuHandler \<times> 'k \<Rightarrow> (mtuHandler \<times> 'k) \<times> err option" where
  "mtu_RemoteEndpointRemoved L O' ep = (\<lambda>(h, k).
     ((h, del_entries (mo_sets O') (mh_remoteCIDRIPSet h) (ExtractSubnets L (mh_ipFamily h) (Subnets (ep_Spec ep))) k), None))"

text \<open>Errors are only logged.\<close>

definition mtu_Uninstall :: "'k mtuHost \<Rightarrow> mtuHandler \<Rightarrow> 'k \<Rightarrow> 'k" where
  "mtu_Uninstall O' h k = foldl (\<lambda>k f. fst (f k)) k
     [pd_ClearChain (mo_filter O') (mh_tableType h) SmPostRoutingMss,
      pd_DeleteIPHookChain (mo_filter O') (mss_hook h),
      sd_Flush (mo_sets O') (mh_localCIDRIPSet h), sd_Destroy (mo_sets O') (mh_localCIDRIPSet h),
      sd_Flush (mo_sets O') (mh_remoteCIDRIPSet h), sd_Destroy (mo_sets O') (mh_remoteCIDRIPSet h)]"

text \<open>The other callbacks are those of \<open>HandlerBase\<close>.\<close>

fun mtu_callbacks :: "libs \<Rightarrow> 'k mtuHost \<Rightarrow> (mtuHandler \<times> 'k) callbacks" where
  "mtu_callbacks L O' (LocalEndpointCreated ep) s = mtu_LocalEndpointCreated L O' ep s"
| "mtu_callbacks L O' (LocalEndpointRemoved ep) s = mtu_LocalEndpointRemoved L O' ep s"
| "mtu_callbacks L O' (RemoteEndpointCreated ep) s = mtu_RemoteEndpointCreated L O' ep s"
| "mtu_callbacks L O' (RemoteEndpointRemoved ep) s = mtu_RemoteEndpointRemoved L O' ep s"
| "mtu_callbacks L O' cb s = HandlerBase cb s"

section \<open>The sets hold the subnets of the endpoints\<close>

context named_sets
begin

lemma add_entries_ok:
  "inv k \<Longrightarrow> sets k n = Some E \<Longrightarrow> add_entries S n msg xs k = (k', e) \<Longrightarrow>
   \<exists>E'. inv k' \<and> sets k' = (sets k)(n \<mapsto> E') \<and> E \<subseteq> E' \<and> E' \<subseteq> E \<union> set xs \<and> (e = None \<longrightarrow> E' = E \<union> set xs)"
proof (induction xs arbitrary: k E)
  case (Cons x xs)
  obtain k1 e1 where a: "sd_AddEntry S n x True k = (k1, e1)" by fastforce
  note k1 = Add_ok [OF Cons.prems(1,2) a]
  show ?case
  proof (cases e1)
    case None
    with a Cons.prems(3) have "add_entries S n msg xs k1 = (k', e)" by simp
    moreover have "inv k1" "sets k1 n = Some (insert x E)" using k1 None by auto
    ultimately obtain E' where E': "inv k'" "sets k' = (sets k1)(n \<mapsto> E')"
      "insert x E \<subseteq> E'" "E' \<subseteq> insert x E \<union> set xs" "e = None \<longrightarrow> E' = insert x E \<union> set xs" using Cons.IH by blast
    have "sets k' = (sets k)(n \<mapsto> E')" using E'(2) k1 None by (auto simp: fun_eq_iff)
    then show ?thesis using E' by (intro exI [of _ E']) auto
  next
    case (Some y)
    with a Cons.prems k1 have "inv k'" "sets k' = sets k" "e \<noteq> None" by auto
    moreover have "(sets k)(n \<mapsto> E) = sets k" using Cons.prems(2) by (rule fun_upd_idem)
    ultimately show ?thesis by (intro exI [of _ E]) auto
  qed
qed (auto simp: fun_upd_idem)

lemma del_entries_ok:
  "inv k \<Longrightarrow> sets k n = Some E \<Longrightarrow> inv (del_entries S n xs k) \<and> sets (del_entries S n xs k) = (sets k)(n \<mapsto> E - set xs)"
proof (induction xs arbitrary: k E)
  case (Cons x xs)
  obtain k1 e1 where a: "sd_DelEntry S n x k = (k1, e1)" by fastforce
  note k1 = Del_ok [OF Cons.prems(1,2) a]
  have "E - {x} - set xs = E - set (x # xs)" by auto
  with Cons.IH [of k1 "E - {x}"] k1 a show ?case by (simp add: fun_eq_iff)
qed (auto simp: fun_upd_idem)

end

text \<open>The packet filter does not change the sets.\<close>

locale mtu_host = named_sets "mo_sets O'" inv sets for O' :: "'k mtuHost" and inv sets +
  assumes Append_sets: "inv k \<Longrightarrow> inv (fst (pd_Append (mo_filter O') t c r k)) \<and> sets (fst (pd_Append (mo_filter O') t c r k)) = sets k"
    and Delete_sets: "inv k \<Longrightarrow> inv (fst (pd_Delete (mo_filter O') t c r k)) \<and> sets (fst (pd_Delete (mo_filter O') t c r k)) = sets k"
begin

lemma delete_stale_sets: "inv k \<Longrightarrow> inv (delete_stale (mo_filter O') t c rs k) \<and> sets (delete_stale (mo_filter O') t c rs k) = sets k"
  using Delete_sets by (induction rs arbitrary: k) auto

lemma append_missing_sets: "inv k \<Longrightarrow> append_missing (mo_filter O') t c rs ex k = ((k', x), e) \<Longrightarrow> inv k' \<and> sets k' = sets k"
proof (induction rs arbitrary: k ex)
  case (Cons r rs)
  obtain k1 e1 where a: "pd_Append (mo_filter O') t c r k = (k1, e1)" by fastforce
  with Append_sets [OF Cons.prems(1), of t c r] have k1: "inv k1" "sets k1 = sets k" by auto
  show ?case
  proof (cases "r \<in> set ex")
    case True
    with Cons.IH [OF Cons.prems(1)] Cons.prems(2) show ?thesis by simp
  next
    case False
    with a Cons.IH [OF k1(1)] k1 Cons.prems(2) show ?thesis by (cases e1) auto
  qed
qed simp

lemma update_sets: "inv k \<Longrightarrow> UpdateChainRules (mo_filter O') order t c rs k = (k', e) \<Longrightarrow> inv k' \<and> sets k' = sets k"
proof (cases "pd_List (mo_filter O') t c k")
  case (Inr cur)
  assume k: "inv k" and u: "UpdateChainRules (mo_filter O') order t c rs k = (k', e)"
  obtain k1 x e1 where a: "append_missing (mo_filter O') t c rs (remdups cur) k = ((k1, x), e1)" by (metis prod.exhaust)
  note k1 = append_missing_sets [OF k a]
  with delete_stale_sets [of k1 t c "order x"] u a Inr show ?thesis by (cases e1) (auto simp: UpdateChainRules_def)
qed (simp add: UpdateChainRules_def)

lemma force_sets: "inv k \<Longrightarrow> forceMssClamping O' h ep k = (k', e) \<Longrightarrow> inv k' \<and> sets k' = sets k"
proof -
  assume k: "inv k" and f: "forceMssClamping O' h ep k = (k', e)"
  show ?thesis
  proof (cases "mss_value O' h ep k")
    case (Inl x)
    with k f show ?thesis by (simp add: forceMssClamping_def)
  next
    case (Inr v)
    with f obtain e' where "UpdateChainRules (mo_filter O') (mo_order O') (mh_tableType h) SmPostRoutingMss (mss_rules h v) k = (k', e')"
      by (auto simp: forceMssClamping_def dest: apsnd_wrapD)
    with k show ?thesis by (rule update_sets)
  qed
qed

lemma local_created_sets:
  assumes "inv k" "sets k (mh_localCIDRIPSet h) = Some E" "mtu_LocalEndpointCreated L O' ep (h, k) = ((h', k'), e)"
  shows "inv k' \<and> (\<exists>E'. sets k' = (sets k)(mh_localCIDRIPSet h \<mapsto> E')) \<and> mh_ipFamily h' = mh_ipFamily h \<and>
    mh_localCIDRIPSet h' = mh_localCIDRIPSet h \<and> mh_remoteCIDRIPSet h' = mh_remoteCIDRIPSet h"
proof -
  let ?n = "mh_localCIDRIPSet h"
  obtain k1 e1 where a1: "add_entries (mo_sets O') ?n ''error adding local IP set entry'' (ExtractSubnets L (mh_ipFamily h) (Subnets (ep_Spec ep))) k = (k1, e1)" by fastforce
  from add_entries_ok [OF assms(1,2) a1] obtain E1 where k1: "inv k1" "sets k1 = (sets k)(?n \<mapsto> E1)" by blast
  obtain k2 e2 where a2: "add_entries (mo_sets O') ?n ''error adding localClusterCidr IP set entry'' (mh_localClusterCidr h) k1 = (k2, e2)" by fastforce
  from add_entries_ok [OF k1(1) _ a2, of E1] k1(2) obtain E2 where k2: "inv k2" "sets k2 = (sets k)(?n \<mapsto> E2)" by auto
  obtain k3 e3 where a3: "forceMssClamping O' h ep k2 = (k3, e3)" by fastforce
  from force_sets [OF k2(1) a3] k2(2) have k3: "inv k3" "sets k3 = (sets k)(?n \<mapsto> E2)" by auto
  show ?thesis using assms(3) a1 a2 a3 k1 k2 k3
    by (auto simp: mtu_LocalEndpointCreated_def split: option.split_asm if_split_asm)
qed

end

text \<open>
  What is known of the endpoints: all endpoints of a cluster have the subnets \<open>nets\<close> of the cluster, and the subnets of two clusters
  are different. The datastore syncer sees to the second.
\<close>

definition cluster_nets :: "libs \<Rightarrow> IPFamily \<Rightarrow> (string \<Rightarrow> string set) \<Rightarrow> Endpoint \<Rightarrow> bool" where
  "cluster_nets L family nets ep \<longleftrightarrow> set (ExtractSubnets L family (Subnets (ep_Spec ep))) = nets (ClusterID (ep_Spec ep))"

definition apart :: "(string \<Rightarrow> string set) \<Rightarrow> bool" where
  "apart nets \<longleftrightarrow> (\<forall>c d. c \<noteq> d \<longrightarrow> nets c \<inter> nets d = {})"

definition remote_inv ::
  "('k \<Rightarrow> bool) \<Rightarrow> ('k \<Rightarrow> string \<rightharpoonup> string set) \<Rightarrow> IPFamily \<Rightarrow> string \<Rightarrow> string \<Rightarrow> (string \<Rightarrow> string set) \<Rightarrow>
   (string \<rightharpoonup> Endpoint) \<Rightarrow> (callback \<times> bool) list \<Rightarrow> mtuHandler \<times> 'k \<Rightarrow> bool" where
  "remote_inv good sets family lset rset nets lasts calls = (\<lambda>(h, k).
     good k \<and> mh_ipFamily h = family \<and> mh_localCIDRIPSet h = lset \<and> mh_remoteCIDRIPSet h = rset \<and> sets k lset \<noteq> None \<and>
     (\<exists>E. sets k rset = Some E \<and> \<Union> (nets ` covered (rev calls)) \<subseteq> E \<and> E \<subseteq> \<Union> (nets ` dom lasts)) \<and>
     covered (rev calls) \<subseteq> dom lasts \<and> ((\<forall>(cb, ok)\<in>set calls. ok) \<longrightarrow> covered (rev calls) = dom lasts))"

lemma covered_other: "\<not> changes_last cb \<Longrightarrow> covered ((cb, b) # cs) = covered cs"
  by (cases cb) auto

lemma covered_created: "covered ((RemoteEndpointCreated ep, b) # cs) = (if b then insert (ClusterID (ep_Spec ep)) (covered cs) else covered cs)"
  by (cases b) auto

context mtu_host
begin

lemma remote_created_inv:
  assumes "cluster_nets L family nets ep" "remote_inv inv sets family lset rset nets lasts calls s" "lset \<noteq> rset"
    "mtu_RemoteEndpointCreated L O' ep s = (s', e)"
  shows "remote_inv inv sets family lset rset nets (lasts(ClusterID (ep_Spec ep) \<mapsto> ep)) (calls @ [(RemoteEndpointCreated ep, e = None)]) s'"
proof -
  let ?c = "ClusterID (ep_Spec ep)"
  obtain h k where s: "s = (h, k)" by fastforce
  from assms(2) s obtain E where I: "inv k" "sets k rset = Some E" "\<Union> (nets ` covered (rev calls)) \<subseteq> E" "E \<subseteq> \<Union> (nets ` dom lasts)"
    "covered (rev calls) \<subseteq> dom lasts" "mh_ipFamily h = family" "mh_localCIDRIPSet h = lset" "mh_remoteCIDRIPSet h = rset" "sets k lset \<noteq> None"
    "(\<forall>(cb, ok)\<in>set calls. ok) \<longrightarrow> covered (rev calls) = dom lasts"
    by (auto simp: remote_inv_def)
  from assms(4) s I obtain k' where a: "add_entries (mo_sets O') rset ''error adding remote IP set entry''
      (ExtractSubnets L family (Subnets (ep_Spec ep))) k = (k', e)" and s': "s' = (h, k')"
    by (auto simp: mtu_RemoteEndpointCreated_def split: prod.split_asm)
  from add_entries_ok [OF I(1,2) a] assms(1) obtain E' where E': "inv k'" "sets k' = (sets k)(rset \<mapsto> E')" "E \<subseteq> E'"
    "E' \<subseteq> E \<union> nets ?c" "e = None \<longrightarrow> E' = E \<union> nets ?c" unfolding cluster_nets_def by auto
  show ?thesis unfolding remote_inv_def s' using I E' assms(3) by (auto simp: covered_created)
qed

lemma remote_removed_inv:
  assumes "cluster_nets L family nets ep" "remote_inv inv sets family lset rset nets lasts calls s" "lset \<noteq> rset" "apart nets"
    "mtu_RemoteEndpointRemoved L O' ep s = (s', e)"
  shows "remote_inv inv sets family lset rset nets (lasts(ClusterID (ep_Spec ep) := None)) (calls @ [(RemoteEndpointRemoved ep, e = None)]) s'"
proof -
  let ?c = "ClusterID (ep_Spec ep)"
  obtain h k where s: "s = (h, k)" by fastforce
  from assms(2) s obtain E where I: "inv k" "sets k rset = Some E" "\<Union> (nets ` covered (rev calls)) \<subseteq> E" "E \<subseteq> \<Union> (nets ` dom lasts)"
    "covered (rev calls) \<subseteq> dom lasts" "mh_ipFamily h = family" "mh_localCIDRIPSet h = lset" "mh_remoteCIDRIPSet h = rset" "sets k lset \<noteq> None"
    "(\<forall>(cb, ok)\<in>set calls. ok) \<longrightarrow> covered (rev calls) = dom lasts"
    by (auto simp: remote_inv_def)
  let ?k = "del_entries (mo_sets O') rset (ExtractSubnets L family (Subnets (ep_Spec ep))) k"
  from del_entries_ok [OF I(1,2), of "ExtractSubnets L family (Subnets (ep_Spec ep))"] assms(1)
  have k': "inv ?k" "sets ?k = (sets k)(rset \<mapsto> E - nets ?c)" by (auto simp: cluster_nets_def)
  have s': "s' = (h, ?k)" "e = None" using assms(5) s I by (auto simp: mtu_RemoteEndpointRemoved_def)
  have "\<Union> (nets ` (covered (rev calls) - {?c})) \<subseteq> E - nets ?c" using I(3) assms(4) by (fastforce simp: apart_def)
  moreover have "E - nets ?c \<subseteq> \<Union> (nets ` (dom lasts - {?c}))" using I(4) by fastforce
  moreover have "dom (lasts(?c := None)) = dom lasts - {?c}" by auto
  ultimately show ?thesis unfolding remote_inv_def s' using I k' assms(3) by auto
qed

lemma remote_other_inv:
  assumes "\<not> changes_last cb" "remote_inv inv sets family lset rset nets lasts calls s" "lset \<noteq> rset" "mtu_callbacks L O' cb s = (s', e)"
  shows "remote_inv inv sets family lset rset nets lasts (calls @ [(cb, e = None)]) s'"
proof -
  obtain h k where s: "s = (h, k)" by fastforce
  obtain h' k' where s': "s' = (h', k')" by fastforce
  from assms(2) s obtain E F where I: "inv k" "sets k rset = Some E" "sets k lset = Some F" "mh_localCIDRIPSet h = lset"
    by (auto simp: remote_inv_def)
  have "inv k' \<and> (\<exists>F'. sets k' = (sets k)(lset \<mapsto> F')) \<and> mh_ipFamily h' = mh_ipFamily h \<and>
      mh_localCIDRIPSet h' = mh_localCIDRIPSet h \<and> mh_remoteCIDRIPSet h' = mh_remoteCIDRIPSet h"
  proof (cases cb)
    case (LocalEndpointCreated ep)
    then show ?thesis using local_created_sets [of k h F L ep h' k' e] I assms(4) s s' by simp
  next
    case (LocalEndpointRemoved ep)
    then show ?thesis using del_entries_ok [OF I(1,3)] I(4) assms(4) s s' by (auto simp: mtu_LocalEndpointRemoved_def)
  qed (use assms(1,4) s s' I in \<open>auto simp: HandlerBase_def intro!: exI [of _ F] simp: fun_upd_idem\<close>)
  then show ?thesis using assms(2,3) s s' covered_other [OF assms(1)] by (auto simp: remote_inv_def)
qed

lemma remote_inv_client:
  assumes "apart nets" "lset \<noteq> rset"
  shows "event_client (mtu_callbacks L O') (remote_inv inv sets family lset rset nets) (cluster_nets L family nets)"
  using remote_created_inv [OF _ _ assms(2)] remote_removed_inv [OF _ _ assms(2,1)] remote_other_inv [OF _ _ assms(2)]
  by unfold_locales auto

end

section \<open>Packet filter and sets of a host\<close>

text \<open>The packet filter and the sets are two parts of the host.\<close>

definition on_fst :: "('a \<Rightarrow> 'a \<times> 'r) \<Rightarrow> 'a \<times> 'b \<Rightarrow> ('a \<times> 'b) \<times> 'r" where
  "on_fst f s = (case f (fst s) of (a, r) \<Rightarrow> ((a, snd s), r))"

definition on_snd :: "('b \<Rightarrow> 'b \<times> 'r) \<Rightarrow> 'a \<times> 'b \<Rightarrow> ('a \<times> 'b) \<times> 'r" where
  "on_snd f s = (case f (snd s) of (b, r) \<Rightarrow> ((fst s, b), r))"

definition fst_filter :: "'a pfDriver \<Rightarrow> ('a \<times> 'b) pfDriver" where
  "fst_filter D = \<lparr>pd_GetMSSClampTypes = pd_GetMSSClampTypes D, pd_ChainExists = (\<lambda>t c s. pd_ChainExists D t c (fst s)),
     pd_CreateIPHookChainIfNotExists = (\<lambda>c. on_fst (pd_CreateIPHookChainIfNotExists D c)),
     pd_CreateChainIfNotExists = (\<lambda>t c. on_fst (pd_CreateChainIfNotExists D t c)),
     pd_DeleteIPHookChain = (\<lambda>c. on_fst (pd_DeleteIPHookChain D c)), pd_DeleteChain = (\<lambda>t c. on_fst (pd_DeleteChain D t c)),
     pd_ClearChain = (\<lambda>t c. on_fst (pd_ClearChain D t c)), pd_Delete = (\<lambda>t c r. on_fst (pd_Delete D t c r)),
     pd_AppendUnique = (\<lambda>t c r. on_fst (pd_AppendUnique D t c r)), pd_List = (\<lambda>t c s. pd_List D t c (fst s)),
     pd_Append = (\<lambda>t c r. on_fst (pd_Append D t c r)), pd_Insert = (\<lambda>t c i r. on_fst (pd_Insert D t c i r))\<rparr>"

definition snd_sets :: "'b setDriver \<Rightarrow> ('a \<times> 'b) setDriver" where
  "snd_sets S = \<lparr>sd_Flush = (\<lambda>n. on_snd (sd_Flush S n)), sd_Destroy = (\<lambda>n. on_snd (sd_Destroy S n)),
     sd_Create = (\<lambda>n b. on_snd (sd_Create S n b)), sd_AddEntry = (\<lambda>n x b. on_snd (sd_AddEntry S n x b)),
     sd_DelEntry = (\<lambda>n x. on_snd (sd_DelEntry S n x)), sd_ListEntries = (\<lambda>n. on_snd (sd_ListEntries S n)),
     sd_DestroySets = (\<lambda>p. on_snd (sd_DestroySets S p))\<rparr>"

definition pair_host :: "(IPFamily \<Rightarrow> err option) \<Rightarrow> 'a pfDriver \<Rightarrow> 'b setDriver \<Rightarrow> (Rule list \<Rightarrow> Rule list) \<Rightarrow>
    (IPFamily \<Rightarrow> 'a \<times> 'b \<Rightarrow> int result) \<Rightarrow> ('a \<times> 'b) mtuHost" where
  "pair_host new D S order mtu = \<lparr>mo_New = new, mo_filter = fst_filter D, mo_sets = snd_sets S, mo_order = order, mo_MTU = mtu\<rparr>"

lemma on_fstD: "on_fst f s = (s', r) \<Longrightarrow> f (fst s) = (fst s', r) \<and> snd s' = snd s"
  by (auto simp: on_fst_def split: prod.split_asm)

lemma on_sndD: "on_snd f s = (s', r) \<Longrightarrow> f (snd s) = (snd s', r) \<and> fst s' = fst s"
  by (auto simp: on_snd_def split: prod.split_asm)

lemma snd_on_fst [simp]: "snd (fst (on_fst f s)) = snd s"
  by (simp add: on_fst_def split: prod.split)

lemma snd_named_sets:
  assumes "named_sets S good sets"
  shows "named_sets (snd_sets S) (\<lambda>s. good (snd s)) (\<lambda>s. sets (snd s))"
proof unfold_locales
  fix k n k' e
  assume "good (snd k)" "sd_Create (snd_sets S) n True k = (k', e)"
  then show "good (snd k') \<and> sets (snd k') = (if e = None then (sets (snd k))(n \<mapsto> case_option {} id (sets (snd k) n)) else sets (snd k))"
    using named_sets.Create_ok [OF assms, of "snd k" n "snd k'" e] by (auto simp: snd_sets_def dest!: on_sndD)
next
  fix k n E x k' e
  assume "good (snd k)" "sets (snd k) n = Some E" "sd_AddEntry (snd_sets S) n x True k = (k', e)"
  then show "good (snd k') \<and> sets (snd k') = (if e = None then (sets (snd k))(n \<mapsto> insert x E) else sets (snd k))"
    using named_sets.Add_ok [OF assms, of "snd k" n E x "snd k'" e] by (auto simp: snd_sets_def dest!: on_sndD)
next
  fix k n x k' e
  assume "good (snd k)" "sets (snd k) n = None" "sd_AddEntry (snd_sets S) n x True k = (k', e)"
  then show "good (snd k') \<and> sets (snd k') = sets (snd k) \<and> e \<noteq> None"
    using named_sets.Add_none [OF assms, of "snd k" n x "snd k'" e] by (auto simp: snd_sets_def dest!: on_sndD)
next
  fix k n E x k' e
  assume "good (snd k)" "sets (snd k) n = Some E" "sd_DelEntry (snd_sets S) n x k = (k', e)"
  then show "good (snd k') \<and> sets (snd k') = (sets (snd k))(n \<mapsto> E - {x}) \<and> (x \<in> E \<longrightarrow> e = None)"
    using named_sets.Del_ok [OF assms, of "snd k" n E x "snd k'" e] by (auto simp: snd_sets_def dest!: on_sndD)
next
  fix k n x k' e
  assume "good (snd k)" "sets (snd k) n = None" "sd_DelEntry (snd_sets S) n x k = (k', e)"
  then show "good (snd k') \<and> sets (snd k') = sets (snd k)"
    using named_sets.Del_none [OF assms, of "snd k" n x "snd k'" e] by (auto simp: snd_sets_def dest!: on_sndD)
next
  fix k n k' e
  assume "good (snd k)" "sd_Flush (snd_sets S) n k = (k', e)"
  then show "good (snd k') \<and> sets (snd k') = (if e = None \<and> sets (snd k) n \<noteq> None then (sets (snd k))(n \<mapsto> {}) else sets (snd k))"
    using named_sets.Flush_ok [OF assms, of "snd k" n "snd k'" e] by (auto simp: snd_sets_def dest!: on_sndD)
next
  fix k n k' e
  assume "good (snd k)" "sd_Destroy (snd_sets S) n k = (k', e)"
  then show "good (snd k') \<and> sets (snd k') = (if e = None then (sets (snd k))(n := None) else sets (snd k))"
    using named_sets.Destroy_ok [OF assms, of "snd k" n "snd k'" e] by (auto simp: snd_sets_def dest!: on_sndD)
next
  fix k n E k' r
  assume "good (snd k)" "sets (snd k) n = Some E" "sd_ListEntries (snd_sets S) n k = (k', r)"
  then show "good (snd k') \<and> sets (snd k') = sets (snd k) \<and> (case r of Inr xs \<Rightarrow> set xs = E | Inl _ \<Rightarrow> True)"
    using named_sets.List_ok [OF assms, of "snd k" n E "snd k'" r] by (auto simp: snd_sets_def dest!: on_sndD)
qed

lemma pair_mtu_host: "named_sets S good sets \<Longrightarrow> mtu_host (pair_host new D S order mtu) (\<lambda>s. good (snd s)) (\<lambda>s. sets (snd s))"
  unfolding mtu_host_def mtu_host_axioms_def using snd_named_sets [of S good sets] by (simp add: pair_host_def fst_filter_def)

interpretation ipset_mtu: mtu_host "pair_host new (iptDriver ref_ipt) (ipt_sets ref_ipset IPv4) order mtu" "\<lambda>s. True" "\<lambda>s. abs_sets (snd s)"
  by (rule pair_mtu_host [OF ipset_named_sets [OF ref_ipset_ok]])

interpretation ipset_mtu_events: event_client
  "mtu_callbacks L (pair_host new (iptDriver ref_ipt) (ipt_sets ref_ipset IPv4) order mtu)"
  "remote_inv (\<lambda>s. True) (\<lambda>s. abs_sets (snd s)) IPv4 LocalCIDRIPSetIPv4 RemoteCIDRIPSetIPv4 (\<lambda>c. {c})" "cluster_nets L IPv4 (\<lambda>c. {c})"
  by (rule ipset_mtu.remote_inv_client) (simp_all add: apart_def LocalCIDRIPSetIPv4_def RemoteCIDRIPSetIPv4_def)

lemma set_names [simp]: "mh_localCIDRIPSet (mtu_NewHandler L f cs g v) \<noteq> mh_remoteCIDRIPSet (mtu_NewHandler L f cs g v)"
  by (simp add: mtu_NewHandler_def LocalCIDRIPSetIPv4_def RemoteCIDRIPSetIPv4_def LocalCIDRIPSetIPv6_def RemoteCIDRIPSetIPv6_def)

lemma in_sequence_frame:
  "\<forall>f\<in>set fs. \<forall>k. P k \<longrightarrow> P (fst (f k)) \<Longrightarrow> P k \<Longrightarrow> in_sequence fs k = (k', e) \<Longrightarrow> P k'"
proof (induction fs arbitrary: k)
  case (Cons f fs)
  obtain k1 e1 where "f k = (k1, e1)" by fastforce
  with Cons show ?case by (cases e1) fastforce+
qed simp

lemma in_sequence_append: "in_sequence (fs @ gs) k = (case in_sequence fs k of (k', Some e) \<Rightarrow> (k', Some e) | (k', None) \<Rightarrow> in_sequence gs k')"
  by (induction fs arbitrary: k) (auto split: prod.split option.split)

lemma append_clamp_frame: "snd (fst (append_clamp (pair_host new D S order mtu) h a b s)) = snd s"
  by (simp add: append_clamp_def pair_host_def fst_filter_def)

lemma create_hook_frame: "snd (fst (create_hook (pair_host new D S order mtu) h s)) = snd s"
  by (simp add: create_hook_def pair_host_def fst_filter_def)

lemma create_named_set_ok:
  assumes "named_sets S good sets" "good (snd k)" "create_named_set (pair_host new D S order mtu) n k = (k', None)"
  shows "good (snd k') \<and> sets (snd k') = (sets (snd k))(n \<mapsto> case_option {} id (sets (snd k) n))"
proof -
  from assms(3) have "sd_Create (snd_sets S) n True k = (k', None)"
    by (auto simp: create_named_set_def pair_host_def wrap_def apsnd_def map_prod_def split: prod.split_asm option.split_asm)
  from named_sets.Create_ok [OF snd_named_sets [OF assms(1)] assms(2) this] show ?thesis by simp
qed

text \<open>After the initialisation of a host without sets both sets exist and are empty.\<close>

lemma mtu_Init_sets:
  assumes ns: "named_sets S good sets" and k: "good (snd k)" "sets (snd k) = Map.empty"
    and i: "mtu_Init (pair_host new D S order mtu) h k = ((h', k'), None)" and n: "mh_localCIDRIPSet h \<noteq> mh_remoteCIDRIPSet h"
  shows "good (snd k') \<and> sets (snd k') = [mh_localCIDRIPSet h \<mapsto> {}, mh_remoteCIDRIPSet h \<mapsto> {}] \<and> mh_ipFamily h' = mh_ipFamily h \<and>
    mh_localCIDRIPSet h' = mh_localCIDRIPSet h \<and> mh_remoteCIDRIPSet h' = mh_remoteCIDRIPSet h"
proof -
  let ?O = "pair_host new D S order mtu"
  let ?l = "mh_localCIDRIPSet h" and ?r = "mh_remoteCIDRIPSet h"
  let ?h = "h\<lparr>mh_tableType := fst (pd_GetMSSClampTypes (mo_filter ?O)), mh_chainType := snd (pd_GetMSSClampTypes (mo_filter ?O))\<rparr>"
  let ?rest = "if mh_forceMss h = needed then [] else [append_clamp ?O ?h ?l ?r, append_clamp ?O ?h ?r ?l]"
  from i have h': "h' = ?h" and seq: "in_sequence ([create_hook ?O ?h, create_named_set ?O ?r, create_named_set ?O ?l] @ ?rest) k = (k', None)"
    by (auto simp: mtu_Init_def Let_def split: option.split_asm prod.split_asm)
  obtain k1 where k1: "create_hook ?O ?h k = (k1, None)"
    and seq1: "in_sequence (create_named_set ?O ?r # create_named_set ?O ?l # ?rest) k1 = (k', None)"
    using seq by (auto simp del: in_sequence.simps(1) split: prod.split_asm option.split_asm)
  obtain k2 where k2: "create_named_set ?O ?r k1 = (k2, None)" and seq2: "in_sequence (create_named_set ?O ?l # ?rest) k2 = (k', None)"
    using seq1 by (auto split: prod.split_asm option.split_asm)
  obtain k3 where k3: "create_named_set ?O ?l k2 = (k3, None)" and seq3: "in_sequence ?rest k3 = (k', None)"
    using seq2 by (auto split: prod.split_asm option.split_asm)
  have s1: "snd k1 = snd k" using k1 by (metis fst_conv create_hook_frame)
  from create_named_set_ok [OF ns _ k2] s1 k have c2: "good (snd k2)" "sets (snd k2) = [?r \<mapsto> {}]" by auto
  from create_named_set_ok [OF ns c2(1) k3] c2 n have c3: "good (snd k3)" "sets (snd k3) = [?l \<mapsto> {}, ?r \<mapsto> {}]" by (auto simp: fun_eq_iff)
  have "snd k' = snd k3"
    by (rule in_sequence_frame [where P = "\<lambda>s. snd s = snd k3", OF _ refl seq3]) (auto simp: append_clamp_frame)
  then show ?thesis using c3 h' by simp
qed

text \<open>C12: The MTU handler, the event controller and ipset together: whatever sequence of endpoint events arrives after the initialisation of
  a host without sets, with retries and failures, the remote set has no subnet of a cluster without an endpoint, and it has the
  subnets of every cluster whose endpoint was processed without error. Without failures it has exactly the subnets of the clusters
  that have an endpoint. The endpoints of a cluster are assumed to have the same subnets and different clusters different ones, and
  deleting an entry that is there to succeed.\<close>

theorem remote_set_follows_endpoints:
  assumes "ipset_ok I sets" and "apart nets" and "\<forall>e\<in>set es. cluster_nets L family nets (ev_endpoint e)"
    and "sets (snd k0) = Map.empty"
    and "mtu_Init (pair_host new D (ipt_sets I family) order mtu) (mtu_NewHandler L family cidrs globalnet mss) k0 = ((h, k), None)"
    and "c = ev_run (mtu_callbacks L (pair_host new D (ipt_sets I family) order mtu)) es (new_handlerController cluster host (h, k))"
  shows "\<exists>E. sets (snd (snd (hc_handler c))) (mh_remoteCIDRIPSet h) = Some E \<and>
    \<Union> (nets ` covered (rev (hc_calls c))) \<subseteq> E \<and> E \<subseteq> \<Union> (nets ` dom (hc_lastRemoteEndpoint c)) \<and>
    ((\<forall>(cb, ok)\<in>set (hc_calls c). ok) \<longrightarrow> E = \<Union> (nets ` dom (hc_lastRemoteEndpoint c)))"
proof -
  let ?O = "pair_host new D (ipt_sets I family) order mtu"
  note ns = ipset_named_sets [OF assms(1)]
  from mtu_Init_sets [OF ns _ assms(4,5)] have i: "sets (snd k) = [mh_localCIDRIPSet h \<mapsto> {}, mh_remoteCIDRIPSet h \<mapsto> {}]"
    "mh_ipFamily h = family" "mh_localCIDRIPSet h \<noteq> mh_remoteCIDRIPSet h"
    by (auto simp: mtu_NewHandler_def LocalCIDRIPSetIPv4_def RemoteCIDRIPSetIPv4_def LocalCIDRIPSetIPv6_def RemoteCIDRIPSetIPv6_def)
  note client = mtu_host.remote_inv_client [OF pair_mtu_host [OF ns] assms(2) i(3)]
  have "event_client.held (remote_inv (\<lambda>s. True) (\<lambda>s. sets (snd s)) family (mh_localCIDRIPSet h) (mh_remoteCIDRIPSet h) nets)
      (new_handlerController cluster host (h, k))"
    using i by (simp add: event_client.held_def [OF client] new_handlerController_def remote_inv_def)
  from event_client.run_held [OF client assms(3) this] have inv: "remote_inv (\<lambda>s. True) (\<lambda>s. sets (snd s)) family
      (mh_localCIDRIPSet h) (mh_remoteCIDRIPSet h) nets (hc_lastRemoteEndpoint c) (hc_calls c) (hc_handler c)"
    unfolding event_client.held_def [OF client] assms(6) .
  obtain h2 k2 where hk: "hc_handler c = (h2, k2)" by (rule prod.exhaust)
  from inv [unfolded hk remote_inv_def prod.case] obtain E where E: "sets (snd k2) (mh_remoteCIDRIPSet h) = Some E"
    "\<Union> (nets ` covered (rev (hc_calls c))) \<subseteq> E" "E \<subseteq> \<Union> (nets ` dom (hc_lastRemoteEndpoint c))"
    "(\<forall>(cb, ok)\<in>set (hc_calls c). ok) \<longrightarrow> covered (rev (hc_calls c)) = dom (hc_lastRemoteEndpoint c)" by blast
  have "E = \<Union> (nets ` dom (hc_lastRemoteEndpoint c))" if "\<forall>(cb, ok)\<in>set (hc_calls c). ok"
    using E(2,3) unfolding mp [OF E(4) that] by (rule subset_antisym [rotated])
  with E(1-3) show ?thesis unfolding hk snd_conv by blast
qed

definition remote_of :: "string \<Rightarrow> string \<Rightarrow> Endpoint" where
  "remote_of cluster subnet = example_endpoint\<lparr>ep_Name := cluster, ep_Spec := example_spec\<lparr>ClusterID := cluster, Subnets := [subnet]\<rparr>\<rparr>"

definition example_nets :: "string \<Rightarrow> string set" where
  "example_nets c = (if c = ''west'' then {''10.2.0.0/16''} else if c = ''north'' then {''10.3.0.0/16''} else {})"

definition example_host :: "(ref_kernel \<times> ref_sets) mtuHost" where
  "example_host = pair_host (\<lambda>_. None) (iptDriver ref_ipt) (ipt_sets ref_ipset IPv4) rev (\<lambda>_ _. Inr 1500)"

definition example_mtu_init :: "(mtuHandler \<times> ref_kernel \<times> ref_sets) \<times> err option" where
  "example_mtu_init = mtu_Init example_host (mtu_NewHandler ref_libs IPv4 [''10.1.0.0/16''] True 0) ([(''mangle'', ''POSTROUTING'') \<mapsto> []], Map.empty)"

definition example_events :: "route_event list" where
  "example_events = [EvCreated (remote_of ''west'' ''10.2.0.0/16'') 0, EvCreated (remote_of ''north'' ''10.3.0.0/16'') 0,
     EvRemoved (remote_of ''west'' ''10.2.0.0/16'') 0]"

definition example_mtu_run :: "(mtuHandler \<times> ref_kernel \<times> ref_sets) handlerController" where
  "example_mtu_run = ev_run (mtu_callbacks ref_libs example_host) example_events
     (new_handlerController ''east'' ''node'' (fst example_mtu_init))"

theorem remote_set_follows_endpoints_witness:
  "\<exists>E. abs_sets (snd (snd (hc_handler example_mtu_run))) RemoteCIDRIPSetIPv4 = Some E \<and>
     E = \<Union> (example_nets ` dom (hc_lastRemoteEndpoint example_mtu_run)) \<and> hc_lastRemoteEndpoint example_mtu_run ''west'' = None \<and>
     hc_lastRemoteEndpoint example_mtu_run ''north'' \<noteq> None"
proof -
  have n: "ExtractSubnets ref_libs IPv4 [''10.2.0.0/16''] = [''10.2.0.0/16'']" "ExtractSubnets ref_libs IPv4 [''10.3.0.0/16''] = [''10.3.0.0/16'']"
    by code_simp+
  have "snd example_mtu_init = None" by code_simp
  then have i: "mtu_Init example_host (mtu_NewHandler ref_libs IPv4 [''10.1.0.0/16''] True 0) ([(''mangle'', ''POSTROUTING'') \<mapsto> []], Map.empty) =
      ((fst (fst example_mtu_init), snd (fst example_mtu_init)), None)" unfolding example_mtu_init_def by (metis prod.collapse)
  have calls: "\<forall>(cb, ok)\<in>set (hc_calls example_mtu_run). ok" by code_simp
  have lasts: "hc_lastRemoteEndpoint example_mtu_run ''west'' = None" "hc_lastRemoteEndpoint example_mtu_run ''north'' \<noteq> None" by code_simp+
  have r: "mh_remoteCIDRIPSet (fst (fst example_mtu_init)) = RemoteCIDRIPSetIPv4" by code_simp
  have a: "apart example_nets" by (auto simp: apart_def example_nets_def)
  have es: "\<forall>e\<in>set example_events. cluster_nets ref_libs IPv4 example_nets (ev_endpoint e)"
    using n by (simp add: example_events_def cluster_nets_def remote_of_def example_nets_def)
  have c: "example_mtu_run = ev_run (mtu_callbacks ref_libs (pair_host (\<lambda>_. None) (iptDriver ref_ipt) (ipt_sets ref_ipset IPv4) rev (\<lambda>_ _. Inr 1500)))
      example_events (new_handlerController ''east'' ''node'' (fst (fst example_mtu_init), snd (fst example_mtu_init)))"
    by (simp add: example_mtu_run_def example_host_def)
  have "abs_sets (snd ([(''mangle'', ''POSTROUTING'') \<mapsto> []] :: ref_kernel, Map.empty)) = Map.empty" by (auto simp: abs_sets_def)
  from remote_set_follows_endpoints [OF ref_ipset_ok a es this i [unfolded example_host_def] c] calls lasts r show ?thesis by auto
qed

section \<open>The segment size\<close>

lemma fst_chain_driver:
  assumes "chain_driver D good chain supported"
  shows "chain_driver (fst_filter D) (\<lambda>s. good (fst s)) (\<lambda>t c s. chain t c (fst s)) supported"
proof unfold_locales
  fix k t c rs assume "good (fst k)" "pd_List (fst_filter D) t c k = Inr rs"
  then show "rs = chain t c (fst k)" using chain_driver.List_ok [OF assms] by (simp add: fst_filter_def)
next
  fix k r t c k' assume "good (fst k)" "supported r" "pd_Append (fst_filter D) t c r k = (k', None)"
  then show "good (fst k') \<and> chain t c (fst k') = chain t c (fst k) @ [r] \<and> (\<forall>t' c'. c' \<noteq> c \<longrightarrow> chain t' c' (fst k') = chain t' c' (fst k))"
    using chain_driver.Append_ok [OF assms, of "fst k" r t c "fst k'"] by (simp add: fst_filter_def) (blast dest: on_fstD)
next
  fix k r n t c k' assume "good (fst k)" "supported r" "n \<le> length (chain t c (fst k))" "pd_Insert (fst_filter D) t c (int (Suc n)) r k = (k', None)"
  then show "good (fst k') \<and> chain t c (fst k') = take n (chain t c (fst k)) @ r # drop n (chain t c (fst k)) \<and>
      (\<forall>t' c'. c' \<noteq> c \<longrightarrow> chain t' c' (fst k') = chain t' c' (fst k))"
    using chain_driver.Insert_ok [OF assms, of "fst k" r n t c "fst k'"] by (simp add: fst_filter_def) (drule on_fstD, simp)
next
  fix k r t c k' assume "good (fst k)" "supported r" "pd_Delete (fst_filter D) t c r k = (k', None)"
  then show "good (fst k') \<and> chain t c (fst k') = remove1 r (chain t c (fst k)) \<and> (\<forall>t' c'. c' \<noteq> c \<longrightarrow> chain t' c' (fst k') = chain t' c' (fst k))"
    using chain_driver.Delete_ok [OF assms, of "fst k" r t c "fst k'"] by (simp add: fst_filter_def) (blast dest: on_fstD)
next
  fix k r t c k' e assume "good (fst k)" "supported r" "pd_Delete (fst_filter D) t c r k = (k', Some e)"
  then show "good (fst k') \<and> (\<forall>t' c'. chain t' c' (fst k') = chain t' c' (fst k))"
    using chain_driver.Delete_failed [OF assms, of "fst k" r t c "fst k'" e] by (simp add: fst_filter_def) (blast dest: on_fstD)
qed

lemma add_entries_fst: "add_entries (snd_sets S) n msg xs k = (k', e) \<Longrightarrow> fst k' = fst k"
proof (induction xs arbitrary: k)
  case (Cons x xs)
  obtain k1 e1 where a: "sd_AddEntry (snd_sets S) n x True k = (k1, e1)" by (rule prod.exhaust)
  then have "fst k1 = fst k" by (simp add: snd_sets_def) (blast dest: on_sndD)
  with a Cons show ?case by (cases e1) auto
qed simp

lemma mss_rules_distinct: "mh_localCIDRIPSet h \<noteq> mh_remoteCIDRIPSet h \<Longrightarrow> distinct (mss_rules h v)"
  by (simp add: mss_rules_def mss_rule_def zero_rule_def)

text \<open>C28: When a fixed segment size is needed, processing the local endpoint without error clamps the segments to the configured value,
  or else to the MTU \<open>m\<close> of the default interface less the overhead of the cable driver: the rules of both directions are in the
  chain, and they are its only rules if stale ones can be deleted. With the overhead of IPsec a full segment with 40 bytes of headers and 80 bytes
  of encapsulation fits the MTU; with that of VXLAN, which does not include the headers, it exceeds it by 40 bytes. The chain is taken to
  be readable and to have no rule twice, as the driver leaves it.\<close>

theorem mss_clamped:
  assumes "ipt_ok I specs normal" and "ipt_inv specs normal (fst k)" and "mh_forceMss h = needed"
    and "mh_localCIDRIPSet h \<noteq> mh_remoteCIDRIPSet h"
    and "v = (if mh_tcpMssValue h \<noteq> 0 then mh_tcpMssValue h else m - (if Backend (ep_Spec ep) = ''vxlan'' then 50 else 120))"
    and "\<forall>r\<in>set (mss_rules h v). ipt_supported normal r"
    and "\<forall>r\<in>set (ipt_chain specs (mh_tableType h) SmPostRoutingMss (fst k)). ipt_supported normal r"
    and "distinct (ipt_chain specs (mh_tableType h) SmPostRoutingMss (fst k))" and "\<And>xs. set (order xs) = set xs"
    and "mtu_LocalEndpointCreated L (pair_host new (iptDriver I) S order (\<lambda>_ _. Inr m)) ep (h, k) = ((h', k'), None)"
  shows "mh_forceMss h' = configured \<and>
    set (mss_rules h v) \<subseteq> set (ipt_chain specs (mh_tableType h) SmPostRoutingMss (fst k')) \<and>
    ((\<forall>r k. ipt_inv specs normal k \<longrightarrow> r \<in> set (ipt_chain specs (mh_tableType h) SmPostRoutingMss k) \<longrightarrow>
        snd (pd_Delete (iptDriver I) (mh_tableType h) SmPostRoutingMss r k) = None) \<longrightarrow>
     set (ipt_chain specs (mh_tableType h) SmPostRoutingMss (fst k')) = set (mss_rules h v)) \<and>
    (mh_tcpMssValue h = 0 \<longrightarrow> v + 40 + (if Backend (ep_Spec ep) = ''vxlan'' then MTUOverhead else 80) =
       (if Backend (ep_Spec ep) = ''vxlan'' then m + 40 else m))"
proof -
  let ?O = "pair_host new (iptDriver I) S order (\<lambda>_ _. Inr m)" and ?c = "\<lambda>k. ipt_chain specs (mh_tableType h) SmPostRoutingMss (fst k)"
  have S: "mo_sets ?O = snd_sets S" "mo_filter ?O = fst_filter (iptDriver I)" "mo_order ?O = order" by (simp_all add: pair_host_def)
  obtain k2 e2 k1 where a: "add_entries (snd_sets S) (mh_localCIDRIPSet h) ''error adding local IP set entry''
      (ExtractSubnets L (mh_ipFamily h) (Subnets (ep_Spec ep))) k = (k1, None)"
    "add_entries (snd_sets S) (mh_localCIDRIPSet h) ''error adding localClusterCidr IP set entry'' (mh_localClusterCidr h) k1 = (k2, None)"
    "forceMssClamping ?O h ep k2 = (k', None)" "h' = h\<lparr>mh_forceMss := configured\<rparr>"
    using assms(3,10) by (auto simp: mtu_LocalEndpointCreated_def S split: prod.split_asm option.split_asm)
  have k2: "fst k2 = fst k" using add_entries_fst [OF a(1)] add_entries_fst [OF a(2)] by simp
  have "mss_value ?O h ep k2 = Inr v"
    using assms(5) by (simp add: mss_value_def pair_host_def CableDriverName_def MTUOverhead_def MaxIPSecOverhead_def)
  with a(3) have u: "UpdateChainRules (fst_filter (iptDriver I)) order (mh_tableType h) SmPostRoutingMss (mss_rules h v) k2 = (k', None)"
    by (auto simp: forceMssClamping_def S dest: apsnd_wrapD)
  note D = fst_chain_driver [OF iptables_chain_driver [OF assms(1)]]
  note U = chain_driver.UpdateChainRules_ok [OF D assms(2,6,7,8) [folded k2] mss_rules_distinct [OF assms(4)] assms(9) u]
  have "set (?c k') = set (mss_rules h v)"
    if del: "\<forall>r k. ipt_inv specs normal k \<longrightarrow> r \<in> set (ipt_chain specs (mh_tableType h) SmPostRoutingMss k) \<longrightarrow>
        snd (pd_Delete (iptDriver I) (mh_tableType h) SmPostRoutingMss r k) = None"
  proof -
    have "\<forall>r k. ipt_inv specs normal (fst k) \<longrightarrow> r \<in> set (?c k) \<longrightarrow>
        snd (pd_Delete (fst_filter (iptDriver I)) (mh_tableType h) SmPostRoutingMss r k) = None"
      using del by (auto simp: fst_filter_def on_fst_def split: prod.split) (metis snd_conv)
    with U have "?c k' = filter (\<lambda>r. r \<in> set (mss_rules h v)) (?c k2) @ filter (\<lambda>r. r \<notin> set (?c k2)) (mss_rules h v)" by blast
    then show ?thesis by auto
  qed
  then show ?thesis using U a(4) assms(5) by (simp add: MTUOverhead_def)
qed

definition mss_example :: "(mtuHandler \<times> ref_kernel \<times> ref_sets) \<times> err option" where
  "mss_example = mtu_LocalEndpointCreated ref_libs example_host (example_endpoint\<lparr>ep_Spec := example_spec\<lparr>Backend := ''vxlan''\<rparr>\<rparr>)
     ((mtu_NewHandler ref_libs IPv4 [''10.1.0.0/16''] True 0)\<lparr>mh_tableType := TableTypeRoute\<rparr>,
      [(''mangle'', SmPostRoutingMss) \<mapsto> []], [LocalCIDRIPSetIPv4 \<mapsto> []])"

theorem mss_clamped_witness:
  "mh_forceMss (fst (fst mss_example)) = configured \<and>
   set (ipt_chain ref_specs TableTypeRoute SmPostRoutingMss (fst (snd (fst mss_example)))) =
     {mss_rule LocalCIDRIPSetIPv4 RemoteCIDRIPSetIPv4 1450, mss_rule RemoteCIDRIPSetIPv4 LocalCIDRIPSetIPv4 1450}"
proof -
  let ?h = "(mtu_NewHandler ref_libs IPv4 [''10.1.0.0/16''] True 0)\<lparr>mh_tableType := TableTypeRoute\<rparr>"
  let ?k = "([(''mangle'', SmPostRoutingMss) \<mapsto> []] :: ref_kernel, [LocalCIDRIPSetIPv4 \<mapsto> []] :: ref_sets)"
  let ?ep = "example_endpoint\<lparr>ep_Spec := example_spec\<lparr>Backend := ''vxlan''\<rparr>\<rparr>"
  have inv: "ipt_inv ref_specs no_spaces (fst ?k)" by (simp add: ipt_inv_def ref_specs_def split: option.split)
  have h: "mh_forceMss ?h = needed" "mh_localCIDRIPSet ?h \<noteq> mh_remoteCIDRIPSet ?h" by code_simp+
  have v: "(1450 :: int) = (if mh_tcpMssValue ?h \<noteq> 0 then mh_tcpMssValue ?h else 1500 - (if Backend (ep_Spec ?ep) = ''vxlan'' then 50 else 120))"
    by code_simp
  have s: "\<forall>r\<in>set (mss_rules ?h 1450). ipt_supported no_spaces r" by code_simp
  have c: "ipt_chain ref_specs (mh_tableType ?h) SmPostRoutingMss (fst ?k) = []" by code_simp
  then have c': "\<forall>r\<in>set (ipt_chain ref_specs (mh_tableType ?h) SmPostRoutingMss (fst ?k)). ipt_supported no_spaces r"
    "distinct (ipt_chain ref_specs (mh_tableType ?h) SmPostRoutingMss (fst ?k))" by simp_all
  have "snd mss_example = None" by code_simp
  then have e: "mtu_LocalEndpointCreated ref_libs (pair_host (\<lambda>_. None) (iptDriver ref_ipt) (ipt_sets ref_ipset IPv4) rev (\<lambda>_ _. Inr 1500)) ?ep (?h, ?k) =
      ((fst (fst mss_example), snd (fst mss_example)), None)"
    unfolding mss_example_def example_host_def by (metis prod.collapse)
  from mss_clamped [OF ref_ipt_ok inv h v s c' set_rev e] ref_delete_ok
  show ?thesis by (simp add: mss_rules_def mtu_NewHandler_def)
qed

end
