(* ===== verification/Netlink.thy ===== *)
theory Netlink
  imports VxlanIface IpSets
begin

text \<open>
  \<open>pkg/netlink/netlink.go\<close>, \<open>adapter.go\<close> and \<open>pkg/cni\<close>: what the agents do with links, routes, rules and kernel settings beyond a single call
  of the netlink library. The library, the file system and the time that passes in a sleep are the record \<open>nlLib\<close>; methods that only
  pass their arguments on are its fields. \<open>EEXIST\<close> and \<open>ErrNotExist\<close> of \<open>VxlanIface\<close> stand for \<open>fs.ErrExist\<close> and \<open>fs.ErrNotExist\<close>.
\<close>

section \<open>The library\<close>

record nlRoute =
  nr_Dst :: "ipnet option"
  nr_Src :: "ip option"
  nr_Gw :: "ip option"
  nr_Scope :: nat
  nr_LinkIndex :: int
  nr_Protocol :: int
  nr_Table :: int

record nlRule =
  ru_Table :: int
  ru_Priority :: int
  ru_Family :: int

record xfrmPolicy =
  xp_Src :: ipnet
  xp_Dst :: ipnet
  xp_Proto :: int

record netIface =
  nif_Index :: int
  nif_Name :: string
  nif_MTU :: int

record nlLink =
  lk_Name :: string
  lk_Index :: int

record 'k nlLib =
  nl_LinkByName :: "string \<Rightarrow> 'k \<Rightarrow> 'k \<times> nlLink result"
  nl_LinkDel :: "nlLink \<Rightarrow> 'k \<Rightarrow> 'k \<times> err option"
  nl_RouteAdd :: "nlRoute \<Rightarrow> 'k \<Rightarrow> 'k \<times> err option"
  nl_RouteDel :: "nlRoute \<Rightarrow> 'k \<Rightarrow> 'k \<times> err option"
  nl_RouteReplace :: "nlRoute \<Rightarrow> 'k \<Rightarrow> 'k \<times> err option"
  nl_RouteGet :: "ip option \<Rightarrow> 'k \<Rightarrow> 'k \<times> nlRoute list result"
  nl_RouteList :: "nlLink option \<Rightarrow> int \<Rightarrow> 'k \<Rightarrow> 'k \<times> nlRoute list result"
  nl_RuleAdd :: "nlRule \<Rightarrow> 'k \<Rightarrow> 'k \<times> err option"
  nl_RuleDel :: "nlRule \<Rightarrow> 'k \<Rightarrow> 'k \<times> err option"
  nl_RuleList :: "int \<Rightarrow> 'k \<Rightarrow> 'k \<times> nlRule list result"
  nl_XfrmPolicyDel :: "xfrmPolicy \<Rightarrow> 'k \<Rightarrow> 'k \<times> err option"
  nl_XfrmPolicyList :: "int \<Rightarrow> 'k \<Rightarrow> 'k \<times> xfrmPolicy list result"
  nl_InterfaceByIndex :: "int \<Rightarrow> 'k \<Rightarrow> netIface result"
  nl_InterfaceByName :: "string \<Rightarrow> 'k \<Rightarrow> netIface result"
  nl_Addrs :: "netIface \<Rightarrow> 'k \<Rightarrow> string list result"
  nl_Interfaces :: "'k \<Rightarrow> netIface list result"
  nl_IfaceIPs :: "netIface \<Rightarrow> 'k \<Rightarrow> ip option list result"     \<comment> \<open>\<open>Addrs\<close>; None for an address that is no \<open>IPNet\<close>\<close>
  nl_ReadFile :: "string \<Rightarrow> 'k \<Rightarrow> string result"
  nl_WriteFile :: "string \<Rightarrow> string \<Rightarrow> 'k \<Rightarrow> 'k \<times> err option"
  nl_Run :: "string list \<Rightarrow> 'k \<Rightarrow> 'k \<times> err option"
  nl_sleep :: "'k \<Rightarrow> 'k"

section \<open>Reading\<close>

definition ErrDumpInterrupted :: err where "ErrDumpInterrupted = Sentinel ''dump interrupted''"

definition MaxRetries :: nat where "MaxRetries = 5"

fun retry_interrupted :: "('k \<Rightarrow> 'k) \<Rightarrow> nat \<Rightarrow> ('k \<Rightarrow> 'k \<times> 'a result) \<Rightarrow> 'k \<Rightarrow> 'k \<times> 'a result" where
  "retry_interrupted sleep n op k = (case op k of
      (k', Inr x) \<Rightarrow> (k', Inr x)
    | (k', Inl e) \<Rightarrow>
        if \<not> errors_is e ErrDumpInterrupted \<or> n \<le> 1 then (k', Inl e) else retry_interrupted sleep (n - 1) op (sleep k'))"

declare retry_interrupted.simps [simp del]

definition retryOnInterrupted :: "'k nlLib \<Rightarrow> ('k \<Rightarrow> 'k \<times> 'a result) \<Rightarrow> 'k \<Rightarrow> 'k \<times> 'a result" where
  "retryOnInterrupted N op = retry_interrupted (nl_sleep N) MaxRetries op"

definition ToNetlinkFamily :: "IPFamily \<Rightarrow> int" where
  "ToNetlinkFamily family = (case family of IPv4 \<Rightarrow> 2 | IPv6 \<Rightarrow> 10 | IPFamilyUnknown \<Rightarrow> 0)"

definition netlink_LinkByName :: "'k nlLib \<Rightarrow> string \<Rightarrow> 'k \<Rightarrow> 'k \<times> nlLink result" where
  "netlink_LinkByName N name = retryOnInterrupted N (nl_LinkByName N name)"

definition netlink_RouteGet :: "'k nlLib \<Rightarrow> ip option \<Rightarrow> 'k \<Rightarrow> 'k \<times> nlRoute list result" where
  "netlink_RouteGet N destination = retryOnInterrupted N (nl_RouteGet N destination)"

definition netlink_RouteList :: "'k nlLib \<Rightarrow> nlLink option \<Rightarrow> IPFamily \<Rightarrow> 'k \<Rightarrow> 'k \<times> nlRoute list result" where
  "netlink_RouteList N link family = retryOnInterrupted N (nl_RouteList N link (ToNetlinkFamily family))"

definition netlink_RuleList :: "'k nlLib \<Rightarrow> IPFamily \<Rightarrow> 'k \<Rightarrow> 'k \<times> nlRule list result" where
  "netlink_RuleList N family = retryOnInterrupted N (nl_RuleList N (ToNetlinkFamily family))"

definition netlink_XfrmPolicyList :: "'k nlLib \<Rightarrow> IPFamily \<Rightarrow> 'k \<Rightarrow> 'k \<times> xfrmPolicy list result" where
  "netlink_XfrmPolicyList N family = retryOnInterrupted N (nl_XfrmPolicyList N (ToNetlinkFamily family))"

definition LinkNotFoundError :: err where "LinkNotFoundError = Sentinel ''Link not found''"

definition IsLinkNotFoundError :: "err \<Rightarrow> bool" where
  "IsLinkNotFoundError e \<longleftrightarrow> errors_is e LinkNotFoundError \<or> error_text e = ''Link not found''"

section \<open>Kernel settings\<close>

definition ipConfPath :: "string \<Rightarrow> IPFamily \<Rightarrow> string" where
  "ipConfPath interfaceName family = ''/proc/sys/net/ipv'' @ family_str family @ ''/conf/'' @ interfaceName"

definition trim_newlines :: "string \<Rightarrow> string" where
  "trim_newlines s = rev (dropWhile (\<lambda>c. c = NL) (rev (dropWhile (\<lambda>c. c = NL) s)))"

definition setSysctl :: "'k nlLib \<Rightarrow> string \<Rightarrow> string \<Rightarrow> 'k \<Rightarrow> 'k \<times> err option" where
  "setSysctl N path contents k = (case nl_ReadFile N path k of
      Inl e \<Rightarrow> (k, Some e)
    | Inr existing \<Rightarrow> if trim_newlines existing = contents then (k, None) else nl_WriteFile N path contents k)"

definition EnableLooseModeReversePathFilter :: "'k nlLib \<Rightarrow> string \<Rightarrow> IPFamily \<Rightarrow> 'k \<Rightarrow> 'k \<times> err option" where
  "EnableLooseModeReversePathFilter N interfaceName family k =
     (if family = IPv6 then (k, None)
      else apsnd (wrap ''unable to update rp_filter proc entry'') (setSysctl N (ipConfPath interfaceName family @ ''/rp_filter'') ''2'' k))"

definition getReversePathFilter :: "'k nlLib \<Rightarrow> string \<Rightarrow> 'k \<Rightarrow> string result" where
  "getReversePathFilter N interfaceName k = (case nl_ReadFile N (ipConfPath interfaceName IPv4 @ ''/rp_filter'') k of
      Inl e \<Rightarrow> Inl (Wrapped ''unable to read proc entry'' e) | Inr existing \<Rightarrow> Inr (trim_newlines existing))"

text \<open>The loop, with the rounds that are left.\<close>

fun ensure_loose :: "'k nlLib \<Rightarrow> string \<Rightarrow> IPFamily \<Rightarrow> nat \<Rightarrow> 'k \<Rightarrow> 'k \<times> err option" where
  "ensure_loose N interfaceName family 0 k = (k, Some (Err ''loose mode not configured on iface''))"
| "ensure_loose N interfaceName family (Suc n) k =
     (let k1 = nl_sleep N k in
      if getReversePathFilter N interfaceName k1 = Inr ''2'' then (k1, None)
      else (case EnableLooseModeReversePathFilter N interfaceName family k1 of
          (k2, Some e) \<Rightarrow> (k2, Some (Wrapped ''error enabling loose mode on iface'' e))
        | (k2, None) \<Rightarrow> ensure_loose N interfaceName family n k2))"

definition netlink_EnsureLooseMode :: "'k nlLib \<Rightarrow> string \<Rightarrow> IPFamily \<Rightarrow> 'k \<Rightarrow> 'k \<times> err option" where
  "netlink_EnsureLooseMode N interfaceName family k =
     (if family = IPv6 then (k, None) else ensure_loose N interfaceName family 10 k)"

definition netlink_EnableForwarding :: "'k nlLib \<Rightarrow> string \<Rightarrow> IPFamily \<Rightarrow> 'k \<Rightarrow> 'k \<times> err option" where
  "netlink_EnableForwarding N interfaceName family k =
     apsnd (wrap ''unable to update forwarding on interface'') (setSysctl N (ipConfPath interfaceName family @ ''/forwarding'') ''1'' k)"

definition ConfigureTCPMTUProbe :: "'k nlLib \<Rightarrow> string \<Rightarrow> string \<Rightarrow> 'k \<Rightarrow> 'k \<times> err option" where
  "ConfigureTCPMTUProbe N mtuProbe baseMss k =
     (case setSysctl N ''/proc/sys/net/ipv4/tcp_mtu_probing'' mtuProbe k of
        (k1, Some e) \<Rightarrow> (k1, Some (Wrapped ''unable to update value of tcp_mtu_probing'' e))
      | (k1, None) \<Rightarrow> apsnd (wrap ''unable to update value of tcp_base_mss'') (setSysctl N ''/proc/sys/net/ipv4/tcp_base_mss'' baseMss k1))"

section \<open>Rules and routes\<close>

definition FlushRouteTable :: "'k nlLib \<Rightarrow> int \<Rightarrow> 'k \<Rightarrow> 'k \<times> err option" where
  "FlushRouteTable N tableID = nl_Run N [''/sbin/ip'', ''r'', ''flush'', ''table'', dec_of_int tableID]"

definition NewTableRule :: "int \<Rightarrow> IPFamily \<Rightarrow> nlRule" where
  "NewTableRule tableID family = \<lparr>ru_Table = tableID, ru_Priority = tableID, ru_Family = ToNetlinkFamily family\<rparr>"

definition adapter_RuleAddIfNotPresent :: "'k nlLib \<Rightarrow> nlRule \<Rightarrow> 'k \<Rightarrow> 'k \<times> err option" where
  "adapter_RuleAddIfNotPresent N rule k = (case nl_RuleAdd N rule k of
      (k', Some e) \<Rightarrow> (k', if errors_is e EEXIST then None else Some (Wrapped ''failed to add rule'' e))
    | (k', None) \<Rightarrow> (k', None))"

definition adapter_RuleDelIfPresent :: "'k nlLib \<Rightarrow> nlRule \<Rightarrow> 'k \<Rightarrow> 'k \<times> err option" where
  "adapter_RuleDelIfPresent N rule k = (case nl_RuleDel N rule k of
      (k', Some e) \<Rightarrow> (k', if errors_is e ErrNotExist then None else Some (Wrapped ''failed to delete rule'' e))
    | (k', None) \<Rightarrow> (k', None))"

definition adapter_RouteAddOrReplace :: "'k nlLib \<Rightarrow> nlRoute \<Rightarrow> 'k \<Rightarrow> 'k \<times> err option" where
  "adapter_RouteAddOrReplace N route k = (case nl_RouteAdd N route k of
      (k', Some e) \<Rightarrow> if errors_is e EEXIST then nl_RouteReplace N route k' else (k', Some e)
    | (k', None) \<Rightarrow> (k', None))"

definition allZeroesFamilyAddress :: "IPFamily \<Rightarrow> string" where
  "allZeroesFamilyAddress family = (case family of IPv4 \<Rightarrow> ''0.0.0.0/0'' | IPv6 \<Rightarrow> ''::/0'' | IPFamilyUnknown \<Rightarrow> [])"

definition default_route :: "IPFamily \<Rightarrow> nlRoute \<Rightarrow> bool" where
  "default_route family r \<longleftrightarrow>
     (case nr_Dst r of None \<Rightarrow> True | Some d \<Rightarrow> ipnet_String d = allZeroesFamilyAddress family) \<and> 0 < nr_LinkIndex r"

definition adapter_GetDefaultGatewayInterface :: "'k nlLib \<Rightarrow> IPFamily \<Rightarrow> 'k \<Rightarrow> 'k \<times> netIface result" where
  "adapter_GetDefaultGatewayInterface N family k = (case netlink_RouteList N None family k of
      (k', Inl e) \<Rightarrow> (k', Inl e)
    | (k', Inr routes) \<Rightarrow> (k', case find (default_route family) routes of
        Some r \<Rightarrow> nl_InterfaceByIndex N (nr_LinkIndex r) k'
      | None \<Rightarrow> Inl (Err ''default gateway interface could not be determined from routes'')))"

text \<open>Errors of deleting routes are only logged.\<close>

fun delete_routes :: "'k nlLib \<Rightarrow> nlRoute list \<Rightarrow> 'k \<Rightarrow> 'k" where
  "delete_routes N [] k = k"
| "delete_routes N (r # rs) k = delete_routes N rs (fst (nl_RouteDel N r k))"

definition netlink_DeleteIfaceAndAssociatedRoutes :: "'k nlLib \<Rightarrow> string \<Rightarrow> int \<Rightarrow> IPFamily \<Rightarrow> 'k \<Rightarrow> 'k \<times> err option" where
  "netlink_DeleteIfaceAndAssociatedRoutes N iface tableID family k = (case netlink_LinkByName N iface k of
      (k1, Inl e) \<Rightarrow> (k1, None)
    | (k1, Inr link) \<Rightarrow>
        let k3 = (case netlink_RouteList N (Some link) family k1 of
              (k2, Inl e) \<Rightarrow> k2
            | (k2, Inr routes) \<Rightarrow> delete_routes N (filter (\<lambda>r. nr_Table r = tableID) routes) k2) in
        apsnd (wrap ''failed to delete the vxlan interface'') (nl_LinkDel N link k3))"

definition foreign_policy :: "IPFamily \<Rightarrow> xfrmPolicy \<Rightarrow> bool" where
  "foreign_policy family p \<longleftrightarrow> ipnet_String (xp_Dst p) = allZeroesFamilyAddress family \<and>
     ipnet_String (xp_Src p) = allZeroesFamilyAddress family \<and> xp_Proto p = 0"

fun delete_policies :: "'k nlLib \<Rightarrow> xfrmPolicy list \<Rightarrow> 'k \<Rightarrow> 'k \<times> err option" where
  "delete_policies N [] k = (k, None)"
| "delete_policies N (p # ps) k = (case nl_XfrmPolicyDel N p k of
     (k', Some e) \<Rightarrow> (k', Some (Wrapped ''error deleting XFRM policy'' e)) | (k', None) \<Rightarrow> delete_policies N ps k')"

definition DeleteXfrmRules :: "'k nlLib \<Rightarrow> IPFamily \<Rightarrow> 'k \<Rightarrow> 'k \<times> err option" where
  "DeleteXfrmRules N family k = (case netlink_XfrmPolicyList N family k of
      (k', Inl e) \<Rightarrow> (k', Some (Wrapped ''error retrieving current xfrm policies'' e))
    | (k', Inr ps) \<Rightarrow> delete_policies N (filter (\<lambda>p. \<not> foreign_policy family p) ps) k')"

section \<open>The interface of the network plugin\<close>

record cniInterface =
  ci_Name :: string
  ci_IPAddress :: string

definition cni_plugins :: "string list" where
  "cni_plugins = [''generic'', ''calico'', ''canal-flannel'', ''flannel'', ''kindnet'', ''OpenShiftSDN'', ''OVNKubernetes'', ''weave-net'']"

fun iface_addresses :: "'k nlLib \<Rightarrow> netIface list \<Rightarrow> 'k \<Rightarrow> (string \<times> ip) list result" where
  "iface_addresses N [] k = Inr []"
| "iface_addresses N (i # is) k = (case nl_IfaceIPs N i k of
      Inl e \<Rightarrow> Inl (Wrapped ''iface.Addrs returned error'' e)
    | Inr as \<Rightarrow> (case iface_addresses N is k of
        Inl e \<Rightarrow> Inl e | Inr rest \<Rightarrow> Inr (map (Pair (nif_Name i)) (List.map_filter id as) @ rest)))"

definition HostInterfaces :: "'k nlLib \<Rightarrow> 'k \<Rightarrow> (string \<times> ip) list result" where
  "HostInterfaces N k = (case nl_Interfaces N k of
      Inl e \<Rightarrow> Inl (Wrapped ''net.Interfaces() returned error'' e) | Inr is \<Rightarrow> iface_addresses N is k)"

text \<open>A CIDR of the family that does not parse is a panic.\<close>

fun find_cni :: "libs \<Rightarrow> IPFamily \<Rightarrow> (string \<times> ip) list \<Rightarrow> string list \<Rightarrow> cniInterface result" where
  "find_cni L family hosts [] = Inl (Err ''unable to find a CNI Interface which has an IP from the cluster CIDRs'')"
| "find_cni L family hosts (cidr # cidrs) =
     (if IPFamilyOfCIDRString L cidr \<noteq> family then find_cni L family hosts cidrs
      else (case ParseCIDR cidr of
          None \<Rightarrow> Inl (Sentinel ''panic'')
        | Some net \<Rightarrow> (case find (\<lambda>(name, a). IPFamilyOf L a = family \<and> Contains net a) hosts of
            Some (name, a) \<Rightarrow> Inr \<lparr>ci_Name = name, ci_IPAddress = ip_String a\<rparr>
          | None \<Rightarrow> find_cni L family hosts cidrs)))"

definition cni_Discover :: "libs \<Rightarrow> 'k nlLib \<Rightarrow> string list \<Rightarrow> IPFamily \<Rightarrow> 'k \<Rightarrow> cniInterface result" where
  "cni_Discover L N clusterCIDRs family k = (case HostInterfaces N k of
      Inl e \<Rightarrow> Inl e | Inr hosts \<Rightarrow> find_cni L family hosts clusterCIDRs)"

section \<open>Properties\<close>

lemma ensure_loose_ok: "ensure_loose N name family n k = (k', None) \<Longrightarrow> getReversePathFilter N name k' = Inr ''2''"
  by (induction n arbitrary: k) (auto simp: Let_def split: if_split_asm prod.split_asm option.split_asm)

text \<open>When the loose mode of an IPv4 interface was ensured without error, the setting of the host is 2: it was read last, and nothing
  was changed after it.\<close>

theorem loose_mode_ensured:
  "netlink_EnsureLooseMode N name family k = (k', None) \<Longrightarrow> family \<noteq> IPv6 \<Longrightarrow> getReversePathFilter N name k' = Inr ''2''"
  by (auto simp: netlink_EnsureLooseMode_def intro: ensure_loose_ok)

definition cni_candidate :: "libs \<Rightarrow> IPFamily \<Rightarrow> string list \<Rightarrow> string \<times> ip \<Rightarrow> bool" where
  "cni_candidate L family cidrs = (\<lambda>(name, a). IPFamilyOf L a = family \<and>
     (\<exists>c\<in>set cidrs. IPFamilyOfCIDRString L c = family \<and> (\<exists>net. ParseCIDR c = Some net \<and> Contains net a)))"

lemma find_cni_ok:
  "find_cni L family hosts cidrs = Inr i \<Longrightarrow>
   \<exists>(name, a)\<in>set hosts. cni_candidate L family cidrs (name, a) \<and> i = \<lparr>ci_Name = name, ci_IPAddress = ip_String a\<rparr>"
proof (induction cidrs)
  case (Cons c cs)
  show ?case
  proof (cases "IPFamilyOfCIDRString L c = family")
    case False
    with Cons show ?thesis by (fastforce simp: cni_candidate_def)
  next
    case True
    with Cons.prems obtain net where net: "ParseCIDR c = Some net" by (auto split: option.split_asm)
    show ?thesis
    proof (cases "find (\<lambda>(name, a). IPFamilyOf L a = family \<and> Contains net a) hosts")
      case None
      with Cons True net show ?thesis by (fastforce simp: cni_candidate_def)
    next
      case (Some x)
      obtain name a where x: "x = (name, a)" by (cases x)
      from Some x have "(name, a) \<in> set hosts" "IPFamilyOf L a = family" "Contains net a"
        by (auto simp: find_Some_iff in_set_conv_nth)
      with Cons.prems True net Some x show ?thesis by (force simp: cni_candidate_def)
    qed
  qed
qed simp

lemma find_cni_none:
  "find_cni L family hosts cidrs = Inl e \<Longrightarrow> \<forall>c\<in>set cidrs. IPFamilyOfCIDRString L c = family \<longrightarrow> ParseCIDR c \<noteq> None \<Longrightarrow>
   \<forall>h\<in>set hosts. \<not> cni_candidate L family cidrs h"
proof (induction cidrs)
  case (Cons c cs)
  show ?case
  proof (cases "IPFamilyOfCIDRString L c = family")
    case False
    with Cons show ?thesis by (fastforce simp: cni_candidate_def)
  next
    case True
    with Cons.prems(2) obtain net where net: "ParseCIDR c = Some net" by auto
    from Cons.prems(1) True net have f: "find (\<lambda>(name, a). IPFamilyOf L a = family \<and> Contains net a) hosts = None"
      "find_cni L family hosts cs = Inl e" by (auto split: option.split_asm)
    from f(1) have "\<forall>(name, a)\<in>set hosts. \<not> (IPFamilyOf L a = family \<and> Contains net a)" by (auto simp: find_None_iff)
    with Cons.IH [OF f(2)] Cons.prems(2) net show ?thesis by (fastforce simp: cni_candidate_def)
  qed
qed (simp add: cni_candidate_def)

text \<open>The interface of the network plugin is found exactly when the host has an address of the family in one of the cluster's CIDRs
  of that family, and then it is such an interface.\<close>

theorem cni_Discover_correct:
  assumes "HostInterfaces N k = Inr hosts" and "\<forall>c\<in>set cidrs. IPFamilyOfCIDRString L c = family \<longrightarrow> ParseCIDR c \<noteq> None"
  shows "(case cni_Discover L N cidrs family k of
      Inr i \<Rightarrow> \<exists>(name, a)\<in>set hosts. cni_candidate L family cidrs (name, a) \<and> i = \<lparr>ci_Name = name, ci_IPAddress = ip_String a\<rparr>
    | Inl e \<Rightarrow> \<forall>h\<in>set hosts. \<not> cni_candidate L family cidrs h)"
  using assms find_cni_ok [of L family hosts cidrs] find_cni_none [of L family hosts cidrs]
  by (auto simp: cni_Discover_def split: sum.split)

text \<open>A host where nothing changes, for witnesses.\<close>

definition idle_nl :: "'k nlLib" where
  "idle_nl = \<lparr>nl_LinkByName = (\<lambda>n k. (k, Inr \<lparr>lk_Name = n, lk_Index = 7\<rparr>)), nl_LinkDel = (\<lambda>_ k. (k, None)),
     nl_RouteAdd = (\<lambda>_ k. (k, None)), nl_RouteDel = (\<lambda>_ k. (k, None)), nl_RouteReplace = (\<lambda>_ k. (k, None)),
     nl_RouteGet = (\<lambda>_ k. (k, Inr [])), nl_RouteList = (\<lambda>_ _ k. (k, Inr [])),
     nl_RuleAdd = (\<lambda>_ k. (k, None)), nl_RuleDel = (\<lambda>_ k. (k, None)), nl_RuleList = (\<lambda>_ k. (k, Inr [])),
     nl_XfrmPolicyDel = (\<lambda>_ k. (k, None)), nl_XfrmPolicyList = (\<lambda>_ k. (k, Inr [])),
     nl_InterfaceByIndex = (\<lambda>i _. Inr \<lparr>nif_Index = i, nif_Name = ''eth0'', nif_MTU = 1500\<rparr>),
     nl_InterfaceByName = (\<lambda>n _. Inr \<lparr>nif_Index = 2, nif_Name = n, nif_MTU = 1500\<rparr>),
     nl_Addrs = (\<lambda>_ _. Inr [''192.168.1.5/24'']), nl_Interfaces = (\<lambda>_. Inr []), nl_IfaceIPs = (\<lambda>_ _. Inr []),
     nl_ReadFile = (\<lambda>_ _. Inr ''2''), nl_WriteFile = (\<lambda>_ _ k. (k, None)), nl_Run = (\<lambda>_ k. (k, None)), nl_sleep = (\<lambda>k. k)\<rparr>"

end
