(* ===== verification/KubeProxy.thy ===== *)
theory KubeProxy
  imports MtuHandler Netlink
begin

text \<open>
  \<open>pkg/routeagent_driver/handlers/kubeproxy\<close>: the handler of the route agent for network plugins with kube-proxy. On a node that is not the
  gateway it builds a VXLAN interface to the gateway and routes the remote subnets through it; on the gateway it builds the other end and
  routes for pods in the host network. On every node it exempts the traffic between clusters from address translation.

  The state of the host is \<open>'k\<close>: \<open>kh_link\<close> are the operations of the VXLAN interface on it, \<open>kh_net\<close> the netlink library, \<open>kh_filter\<close> the packet
  filter. Sets of strings are lists without duplicates; Go iterates over them in any order, \<open>kh_order\<close>. \<open>kp_isOnGateway\<close> is the state
  that the event controller shares with its handler. The end of the process by \<open>logger.Fatalf\<close> and a panic are errors.
\<close>

section \<open>State\<close>

definition VxLANIface :: string where "VxLANIface = ''vx-submariner''"
definition VxLANVTepNetworkPrefixCIDR :: string where "VxLANVTepNetworkPrefixCIDR = ''240.0.0.0/8''"
definition VxLANVTepNetworkPrefixCIDRIPv6 :: string where "VxLANVTepNetworkPrefixCIDRIPv6 = ''fd00:100:100::/96''"
definition IntraClusterVxLAN :: int where "IntraClusterVxLAN = 4800"

datatype Operation = Add | Delete | Flush

record SyncHandler =
  kp_localEndpointIfaceName :: string
  kp_localClusterCidr :: "string list"
  kp_localServiceCidr :: "string list"
  kp_ipFamily :: IPFamily
  kp_remoteSubnets :: "string list"
  kp_remoteSubnetGw :: "string \<rightharpoonup> ip option"
  kp_remoteVTEPs :: "string list"
  kp_routeCacheGWNode :: "string list"
  kp_vxlanDevice :: "vxlanLink option"
  kp_vxlanGwIP :: "ip option option"      \<comment> \<open>a pointer to an address, which may be nil\<close>
  kp_vxlanIface :: string
  kp_hostname :: string
  kp_cniIface :: "cniInterface option"
  kp_defaultHostIface :: netIface
  kp_activeEndpointHostname :: string
  kp_vtepPrefixCIDR :: string
  kp_isOnGateway :: bool

record 'k kpHost =
  kh_link :: "'k netLink"
  kh_net :: "'k nlLib"
  kh_filter :: "'k pfDriver"
  kh_Hostname :: "'k \<Rightarrow> string result"
  kh_order :: "string list \<Rightarrow> string list"

definition kp_panic :: err where "kp_panic = Sentinel ''panic''"
definition kp_fatal :: "err \<Rightarrow> err" where "kp_fatal e = Wrapped ''fatal'' e"

definition GetVxLANInterfaceName :: "IPFamily \<Rightarrow> string" where
  "GetVxLANInterfaceName ipFamily = (if ipFamily = IPv6 then VxLANIface @ ''-'' @ family_str ipFamily else VxLANIface)"

text \<open>The host interface is only known after \<open>Init\<close>.\<close>

definition NewSyncHandler :: "libs \<Rightarrow> IPFamily \<Rightarrow> string list \<Rightarrow> string list \<Rightarrow> SyncHandler" where
  "NewSyncHandler L ipFamily localClusterCidr localServiceCidr = \<lparr>kp_localEndpointIfaceName = [],
     kp_localClusterCidr = ExtractSubnets L ipFamily localClusterCidr, kp_localServiceCidr = ExtractSubnets L ipFamily localServiceCidr,
     kp_ipFamily = ipFamily, kp_remoteSubnets = [], kp_remoteSubnetGw = Map.empty, kp_remoteVTEPs = [], kp_routeCacheGWNode = [],
     kp_vxlanDevice = None, kp_vxlanGwIP = None, kp_vxlanIface = GetVxLANInterfaceName ipFamily, kp_hostname = [], kp_cniIface = None,
     kp_defaultHostIface = \<lparr>nif_Index = 0, nif_Name = [], nif_MTU = 0\<rparr>, kp_activeEndpointHostname = [],
     kp_vtepPrefixCIDR = (if ipFamily = IPv6 then VxLANVTepNetworkPrefixCIDRIPv6 else VxLANVTepNetworkPrefixCIDR),
     kp_isOnGateway = False\<rparr>"

definition kp_GetNetworkPlugins :: "string list" where
  "kp_GetNetworkPlugins = filter (\<lambda>p. p \<noteq> ''OVNKubernetes'') cni_plugins"

section \<open>Chains and rules\<close>

definition vxlan_input_rule :: Rule where
  "vxlan_input_rule = zero_rule\<lparr>Proto := RuleProtoUDP, DPort := dec_of_int IntraClusterVxLAN, Action := RuleActionAccept\<rparr>"

definition vxlan_forward_rule :: "SyncHandler \<Rightarrow> Rule" where
  "vxlan_forward_rule kp = zero_rule\<lparr>OutInterface := kp_vxlanIface kp, Action := RuleActionAccept\<rparr>"

definition host_snat_rule :: "SyncHandler \<Rightarrow> cniInterface \<Rightarrow> Rule" where
  "host_snat_rule kp i = zero_rule\<lparr>OutInterface := kp_vxlanIface kp, SrcCIDR := kp_vtepPrefixCIDR kp, SnatCIDR := ci_IPAddress i,
     Action := RuleActionSNAT\<rparr>"

definition createPFilterChains :: "'k kpHost \<Rightarrow> SyncHandler \<Rightarrow> 'k \<Rightarrow> 'k \<times> err option" where
  "createPFilterChains H kp k =
     (let hook = (\<lambda>c k. apsnd (wrap ''error installing IPHook chain'') (pd_CreateIPHookChainIfNotExists (kh_filter H) c k));
          append = (\<lambda>t c r k. apsnd (wrap ''unable to append rule'') (pd_AppendUnique (kh_filter H) t c r k)) in
      in_sequence (map hook [NewPostRouting, NewInput, NewForwarding, NewSelfSnat] @
        [append TableTypeFilter SmInput vxlan_input_rule,
         \<lambda>k. apsnd (wrap ''unable to append rule to allow vxlan traffic'')
               (PrependUnique (kh_filter H) TableTypeFilter SmForward [vxlan_forward_rule kp] k)] @
        (case kp_cniIface kp of None \<Rightarrow> [] | Some i \<Rightarrow> [append TableTypeNAT SmPostRouting (host_snat_rule kp i)])) k)"

definition accept_rule :: "string \<Rightarrow> string \<Rightarrow> Rule" where
  "accept_rule src dst = zero_rule\<lparr>Action := RuleActionAccept, SrcCIDR := src, DestCIDR := dst\<rparr>"

definition cluster_rules :: "SyncHandler \<Rightarrow> string \<Rightarrow> Rule list" where
  "cluster_rules kp remoteCidrBlock =
     concat (map (\<lambda>localCidr. [accept_rule localCidr remoteCidrBlock, accept_rule remoteCidrBlock localCidr]) (kp_localClusterCidr kp))"

definition programIptableRulesForInterClusterTraffic :: "'k kpHost \<Rightarrow> SyncHandler \<Rightarrow> string \<Rightarrow> Operation \<Rightarrow> 'k \<Rightarrow> 'k \<times> err option" where
  "programIptableRulesForInterClusterTraffic H kp remoteCidrBlock operation k = (case operation of
      Add \<Rightarrow> in_sequence (map (\<lambda>r k. apsnd (wrap ''error appending packetfilter rule'') (pd_AppendUnique (kh_filter H) TableTypeNAT SmPostRouting r k))
               (cluster_rules kp remoteCidrBlock)) k
    | Delete \<Rightarrow> in_sequence (map (\<lambda>r k. apsnd (wrap ''error deleting packetfilter rule'') (pd_Delete (kh_filter H) TableTypeNAT SmPostRouting r k))
               (cluster_rules kp remoteCidrBlock)) k
    | Flush \<Rightarrow> (k, None))"

text \<open>Errors are only logged.\<close>

fun updateIptableRulesForInterClusterTraffic :: "'k kpHost \<Rightarrow> SyncHandler \<Rightarrow> string list \<Rightarrow> Operation \<Rightarrow> 'k \<Rightarrow> 'k" where
  "updateIptableRulesForInterClusterTraffic H kp [] operation k = k"
| "updateIptableRulesForInterClusterTraffic H kp (c # cs) operation k =
     updateIptableRulesForInterClusterTraffic H kp cs operation (fst (programIptableRulesForInterClusterTraffic H kp c operation k))"

section \<open>Routes of the host network\<close>

text \<open>The result None is the panic of the nil network when the CIDR does not parse.\<close>

definition isGatewayInRemoteCIDR :: "SyncHandler \<Rightarrow> string \<Rightarrow> bool option" where
  "isGatewayInRemoteCIDR kp remoteCIDR = (case kp_remoteSubnetGw kp remoteCIDR of
      None \<Rightarrow> Some False
    | Some gwIP \<Rightarrow> (case ParseCIDR remoteCIDR of
        None \<Rightarrow> None
      | Some ipnet \<Rightarrow> Some (case gwIP of None \<Rightarrow> False | Some a \<Rightarrow> Contains ipnet a)))"

definition RT_SCOPE_UNIVERSE :: nat where "RT_SCOPE_UNIVERSE = 0"
definition RT_SCOPE_LINK :: nat where "RT_SCOPE_LINK = 253"

definition host_route :: "'k kpHost \<Rightarrow> SyncHandler \<Rightarrow> cniInterface \<Rightarrow> ipnet \<Rightarrow> ip option option \<Rightarrow> 'k \<Rightarrow> nlRoute" where
  "host_route H kp cni dst viaGw k =
     \<lparr>nr_Dst = Some dst, nr_Src = ParseIP (ci_IPAddress cni), nr_Gw = (case viaGw of Some gw \<Rightarrow> gw | None \<Rightarrow> None),
      nr_Scope = (if viaGw = None then RT_SCOPE_LINK else RT_SCOPE_UNIVERSE),
      nr_LinkIndex = (if kp_localEndpointIfaceName kp = [] then nif_Index (kp_defaultHostIface kp)
        else (case nl_InterfaceByName (kh_net H) (kp_localEndpointIfaceName kp) k of
            Inr i \<Rightarrow> nif_Index i | Inl _ \<Rightarrow> nif_Index (kp_defaultHostIface kp))),
      nr_Protocol = 4, nr_Table = RouteAgentHostNetworkTableID\<rparr>"

definition configureRoute :: "'k kpHost \<Rightarrow> SyncHandler \<Rightarrow> cniInterface \<Rightarrow> string \<Rightarrow> Operation \<Rightarrow> ip option option \<Rightarrow> 'k \<Rightarrow> 'k \<times> err option" where
  "configureRoute H kp cni remoteSubnet operation viaGw k = (case ParseCIDR remoteSubnet of
      None \<Rightarrow> (k, Some (Wrapped ''error parsing cidr block'' (Sentinel ''ParseError'')))
    | Some dst \<Rightarrow> (let route = host_route H kp cni dst viaGw k in
        (case operation of
           Add \<Rightarrow> (case nl_RouteAdd (kh_net H) route k of
               (k', Some e) \<Rightarrow> (k', if errors_is e EEXIST then None else Some (Wrapped ''error adding the route'' e))
             | (k', None) \<Rightarrow> (k', None))
         | Delete \<Rightarrow> apsnd (wrap ''error deleting the route'') (nl_RouteDel (kh_net H) route k)
         | Flush \<Rightarrow> (k, None))))"

text \<open>
  The next hop to the gateway of a remote subnet that contains the gateway itself. The error of \<open>RouteGet\<close> is only logged and the first
  route is taken anyway, so it is a panic: None.
\<close>

definition via_gateway :: "'k kpHost \<Rightarrow> SyncHandler \<Rightarrow> string \<Rightarrow> 'k \<Rightarrow> 'k \<times> ip option option option" where
  "via_gateway H kp inputCidrBlock k = (case isGatewayInRemoteCIDR kp inputCidrBlock of
      None \<Rightarrow> (k, None)
    | Some False \<Rightarrow> (k, Some None)
    | Some True \<Rightarrow> (case netlink_RouteGet (kh_net H) (the (kp_remoteSubnetGw kp inputCidrBlock)) k of
        (k', Inr (r # _)) \<Rightarrow> (k', Some (Some (nr_Gw r)))
      | (k', _) \<Rightarrow> (k', None)))"

text \<open>The result is an error only for a panic; errors of the routes are logged. It is called with a network plugin interface.\<close>

definition updateRoutingRulesForCIDRBlock ::
  "'k kpHost \<Rightarrow> cniInterface \<Rightarrow> string \<Rightarrow> Operation \<Rightarrow> SyncHandler \<times> 'k \<Rightarrow> (SyncHandler \<times> 'k) \<times> err option" where
  "updateRoutingRulesForCIDRBlock H cni inputCidrBlock operation = (\<lambda>(kp, k).
     (case via_gateway H kp inputCidrBlock k of
        (k1, None) \<Rightarrow> ((kp, k1), Some kp_panic)
      | (k1, Some viaGW) \<Rightarrow>
          (case operation of
             Add \<Rightarrow>
               if inputCidrBlock \<in> set (kp_routeCacheGWNode kp) then ((kp, k1), None)
               else (let kp1 = kp\<lparr>kp_routeCacheGWNode := List.insert inputCidrBlock (kp_routeCacheGWNode kp)\<rparr> in
                     ((kp1, fst (configureRoute H kp1 cni inputCidrBlock operation viaGW k1)), None))
           | Delete \<Rightarrow>
               if inputCidrBlock \<in> set (kp_routeCacheGWNode kp) then
                 (let kp1 = kp\<lparr>kp_routeCacheGWNode := removeAll inputCidrBlock (kp_routeCacheGWNode kp)\<rparr> in
                  ((kp1, fst (configureRoute H kp1 cni inputCidrBlock operation viaGW k1)), None))
               else ((kp, k1), None)
           | Flush \<Rightarrow> ((kp, k1), None))))"

fun update_blocks ::
  "'k kpHost \<Rightarrow> cniInterface \<Rightarrow> string list \<Rightarrow> Operation \<Rightarrow> SyncHandler \<times> 'k \<Rightarrow> (SyncHandler \<times> 'k) \<times> err option" where
  "update_blocks H cni [] operation s = (s, None)"
| "update_blocks H cni (c # cs) operation s = (case updateRoutingRulesForCIDRBlock H cni c operation s of
     (s', Some e) \<Rightarrow> (s', Some e) | (s', None) \<Rightarrow> update_blocks H cni cs operation s')"

definition updateRoutingRulesForHostNetworkSupport ::
  "'k kpHost \<Rightarrow> string list \<Rightarrow> Operation \<Rightarrow> SyncHandler \<times> 'k \<Rightarrow> (SyncHandler \<times> 'k) \<times> err option" where
  "updateRoutingRulesForHostNetworkSupport H inputCidrBlocks operation = (\<lambda>(kp, k).
     (if operation = Flush
      then ((kp\<lparr>kp_routeCacheGWNode := []\<rparr>, fst (FlushRouteTable (kh_net H) RouteAgentHostNetworkTableID k)), None)
      else (case kp_cniIface kp of
          None \<Rightarrow> ((kp, k), None)
        | Some cni \<Rightarrow> if \<not> kp_isOnGateway kp then ((kp, k), None) else update_blocks H cni inputCidrBlocks operation (kp, k))))"

section \<open>Routes to the gateway\<close>

definition has_next_hop :: "nlRoute \<Rightarrow> bool" where
  "has_next_hop r \<longleftrightarrow> nr_Dst r \<noteq> None \<and> nr_Gw r \<noteq> None"

definition cleanVxSubmarinerRoutes :: "'k kpHost \<Rightarrow> SyncHandler \<Rightarrow> 'k \<Rightarrow> 'k" where
  "cleanVxSubmarinerRoutes H kp k = (case netlink_LinkByName (kh_net H) (kp_vxlanIface kp) k of
      (k1, Inl e) \<Rightarrow> k1
    | (k1, Inr link) \<Rightarrow> (case netlink_RouteList (kh_net H) (Some link) (kp_ipFamily kp) k1 of
        (k2, Inl e) \<Rightarrow> k2
      | (k2, Inr routes) \<Rightarrow> delete_routes (kh_net H)
          (filter (\<lambda>r. has_next_hop r \<and> ipnet_String (the (nr_Dst r)) \<in> set (kp_remoteSubnets kp)) routes) k2))"

definition known_route :: "SyncHandler \<Rightarrow> ip \<Rightarrow> nlRoute \<Rightarrow> bool" where
  "known_route kp vxlanGw r \<longleftrightarrow> ipnet_String (the (nr_Dst r)) \<in> set (kp_remoteSubnets kp) \<and> nr_Gw r = Some vxlanGw"

definition removeUnknownRoutes :: "'k kpHost \<Rightarrow> SyncHandler \<Rightarrow> ip \<Rightarrow> nlRoute list \<Rightarrow> 'k \<Rightarrow> 'k" where
  "removeUnknownRoutes H kp vxlanGw currentRouteList k =
     delete_routes (kh_net H) (filter (\<lambda>r. has_next_hop r \<and> \<not> known_route kp vxlanGw r) currentRouteList) k"

definition vx_route :: "int \<Rightarrow> ip option \<Rightarrow> ipnet \<Rightarrow> nlRoute" where
  "vx_route index gw dst = \<lparr>nr_Dst = Some dst, nr_Src = None, nr_Gw = gw, nr_Scope = RT_SCOPE_UNIVERSE, nr_LinkIndex = index,
     nr_Protocol = 4, nr_Table = 0\<rparr>"

text \<open>A CIDR that does not parse ends the loop; errors of adding are only logged.\<close>

fun add_missing_routes :: "'k kpHost \<Rightarrow> int \<Rightarrow> ip \<Rightarrow> nlRoute list \<Rightarrow> string list \<Rightarrow> 'k \<Rightarrow> 'k" where
  "add_missing_routes H index vxlanGw currentRouteList [] k = k"
| "add_missing_routes H index vxlanGw currentRouteList (c # cs) k = (case ParseCIDR c of
      None \<Rightarrow> k
    | Some dst \<Rightarrow> add_missing_routes H index vxlanGw currentRouteList cs
        (if \<exists>r\<in>set currentRouteList. has_next_hop r \<and> nr_Gw r = Some vxlanGw \<and> ipnet_String (the (nr_Dst r)) = ipnet_String dst
         then k else fst (nl_RouteAdd (kh_net H) (vx_route index (Some vxlanGw) dst) k)))"

definition reconcileRoutes :: "'k kpHost \<Rightarrow> SyncHandler \<Rightarrow> ip \<Rightarrow> 'k \<Rightarrow> 'k \<times> err option" where
  "reconcileRoutes H kp vxlanGw k = (case netlink_LinkByName (kh_net H) (kp_vxlanIface kp) k of
      (k1, Inl e) \<Rightarrow> (k1, Some (Wrapped ''error retrieving link by name'' e))
    | (k1, Inr link) \<Rightarrow> (case netlink_RouteList (kh_net H) (Some link) (kp_ipFamily kp) k1 of
        (k2, Inl e) \<Rightarrow> (k2, Some (Wrapped ''error retrieving routes for link'' e))
      | (k2, Inr routes) \<Rightarrow>
          (case netlink_RouteList (kh_net H) (Some link) (kp_ipFamily kp) (removeUnknownRoutes H kp vxlanGw routes k2) of
             (k3, Inl e) \<Rightarrow> (k3, Some (Wrapped ''error retrieving routes for link'' e))
           | (k3, Inr routes') \<Rightarrow>
               (add_missing_routes H (lk_Index link) vxlanGw routes' (kh_order H (kp_remoteSubnets kp)) k3, None))))"

fun route_subnets :: "'k kpHost \<Rightarrow> int \<Rightarrow> ip option \<Rightarrow> Operation \<Rightarrow> string list \<Rightarrow> 'k \<Rightarrow> 'k \<times> err option" where
  "route_subnets H index gw operation [] k = (k, None)"
| "route_subnets H index gw operation (c # cs) k = (case ParseCIDR c of
      None \<Rightarrow> (k, Some (Wrapped ''error parsing cidr block'' (Sentinel ''ParseError'')))
    | Some dst \<Rightarrow>
        (case (case operation of
             Add \<Rightarrow> apsnd (wrap ''error adding route'') (adapter_RouteAddOrReplace (kh_net H) (vx_route index gw dst) k)
           | Delete \<Rightarrow> apsnd (wrap ''error deleting route'') (nl_RouteDel (kh_net H) (vx_route index gw dst) k)
           | Flush \<Rightarrow> (k, None)) of
           (k', Some e) \<Rightarrow> (k', Some e)
         | (k', None) \<Rightarrow> route_subnets H index gw operation cs k'))"

definition updateRoutingRulesForInterClusterSupport :: "'k kpHost \<Rightarrow> SyncHandler \<Rightarrow> string list \<Rightarrow> Operation \<Rightarrow> 'k \<Rightarrow> 'k \<times> err option" where
  "updateRoutingRulesForInterClusterSupport H kp remoteCIDRs operation k =
     (if kp_isOnGateway kp then (k, None)
      else (case (kp_vxlanDevice kp, kp_vxlanGwIP kp) of
          (Some _, Some gw) \<Rightarrow> (case netlink_LinkByName (kh_net H) (kp_vxlanIface kp) k of
              (k1, Inl e) \<Rightarrow> (k1, Some (Wrapped ''error retrieving link by name'' e))
            | (k1, Inr link) \<Rightarrow> route_subnets H (lk_Index link) gw operation remoteCIDRs k1)
        | _ \<Rightarrow> (k, None)))"

section \<open>The VXLAN interface\<close>

text \<open>The address that \<open>net.ParseCIDR\<close> returns beside the network.\<close>

definition ParseCIDR_ip :: "string \<Rightarrow> ip option" where
  "ParseCIDR_ip s = (case ParseCIDR s of None \<Rightarrow> None | Some _ \<Rightarrow> ParseIP (fst (cut (CHR ''/'') s)))"

fun parse_host_addrs :: "libs \<Rightarrow> IPFamily \<Rightarrow> string list \<Rightarrow> ip result" where
  "parse_host_addrs L family [] = Inl (Err ''no default host interface IP found'')"
| "parse_host_addrs L family (a # as) = (case ParseCIDR_ip a of
      None \<Rightarrow> Inl (Err ''unable to parse CIDR'')
    | Some i \<Rightarrow> if IPFamilyOf L i = family then Inr i else parse_host_addrs L family as)"

definition getHostIfaceIPAddress :: "libs \<Rightarrow> 'k kpHost \<Rightarrow> SyncHandler \<Rightarrow> 'k \<Rightarrow> ip result" where
  "getHostIfaceIPAddress L H kp k = (case nl_Addrs (kh_net H) (kp_defaultHostIface kp) k of
      Inl e \<Rightarrow> Inl (Wrapped ''error getting default host addresses'' e) | Inr addrs \<Rightarrow> parse_host_addrs L (kp_ipFamily kp) addrs)"

definition newVxlanInterface :: "'k kpHost \<Rightarrow> vxlanAttributes \<Rightarrow> 'k \<Rightarrow> 'k \<times> vxlanLink result" where
  "newVxlanInterface H attrs k = (case createLinkDevice (kh_link H) attrs k of
      (k1, Inl e) \<Rightarrow> (k1, Inl (Wrapped ''error creating VxLAN interface'' e))
    | (k1, Inr link) \<Rightarrow> (case SetupLink (kh_link H) (vl_Name link) k1 of
        (k2, Some e) \<Rightarrow> (k2, Inl (Wrapped ''failed to bring up VxLAN interface'' e)) | (k2, None) \<Rightarrow> (k2, Inr link)))"

text \<open>A node address that does not parse makes a forwarding entry with a nil address.\<close>

fun add_fdbs :: "'k kpHost \<Rightarrow> string \<Rightarrow> string list \<Rightarrow> 'k \<Rightarrow> 'k \<times> err option" where
  "add_fdbs H name [] k = (k, None)"
| "add_fdbs H name (a # as) k = (case AddFDB (kh_link H) name (ParseIP a) k of
      (k', Some e) \<Rightarrow> (k', Some (Wrapped ''failed to add FDB entry on the Gateway Node vxlan iface'' e))
    | (k', None) \<Rightarrow> add_fdbs H name as k')"

definition vx_attributes :: "SyncHandler \<Rightarrow> ip option \<Rightarrow> ip option \<Rightarrow> vxlanAttributes" where
  "vx_attributes kp grp src = \<lparr>va_Name = kp_vxlanIface kp, va_VxlanID = 100, va_Group = grp, va_SrcAddr = src,
     va_VtepPort = IntraClusterVxLAN, va_Mtu = nif_MTU (kp_defaultHostIface kp), va_HardwareAddr = HardwareAddrFromIP src\<rparr>"

text \<open>
  The device is assigned before its error is looked at, so it is nil after an error. \<open>gatewayNodeIP\<close> is None on the gateway.
\<close>

definition create_device :: "'k kpHost \<Rightarrow> bool \<Rightarrow> ip option \<Rightarrow> ip \<Rightarrow> SyncHandler \<times> 'k \<Rightarrow> (SyncHandler \<times> 'k) \<times> err option" where
  "create_device H gateway gatewayNodeIP ipAddr = (\<lambda>(kp, k).
     (let src = (if gateway \<and> kp_ipFamily kp = IPv6 then (case kp_vxlanGwIP kp of Some gw \<Rightarrow> gw | None \<Rightarrow> Some ipAddr) else Some ipAddr) in
      case newVxlanInterface H (vx_attributes kp (if gateway then None else gatewayNodeIP) src) k of
        (k1, Inl e) \<Rightarrow> ((kp\<lparr>kp_vxlanDevice := None\<rparr>, k1), Some (Wrapped ''failed to create vxlan interface'' e))
      | (k1, Inr link) \<Rightarrow>
          (let kp1 = kp\<lparr>kp_vxlanDevice := Some link\<rparr> in
           if \<not> gateway then ((kp1, k1), None)
           else (case add_fdbs H (vl_Name link) (kh_order H (kp_remoteVTEPs kp)) k1 of
               (k2, Some e) \<Rightarrow> ((kp1, k2), Some e)
             | (k2, None) \<Rightarrow> (case netlink_EnsureLooseMode (kh_net H) (kp_vxlanIface kp) (kp_ipFamily kp) k2 of
                 (k3, e) \<Rightarrow> ((kp1, k3), wrap ''error while validating loose mode'' e))))))"

definition createVxLANInterface :: "libs \<Rightarrow> 'k kpHost \<Rightarrow> bool \<Rightarrow> ip option \<Rightarrow> SyncHandler \<times> 'k \<Rightarrow> (SyncHandler \<times> 'k) \<times> err option" where
  "createVxLANInterface L H gateway gatewayNodeIP = (\<lambda>(kp, k).
     (case getHostIfaceIPAddress L H kp k of
        Inl e \<Rightarrow> ((kp, k), Some (Wrapped ''unable to retrieve the address on the Host'' e))
      | Inr ipAddr \<Rightarrow> (case GetVtepIPAddressFrom (ip_String ipAddr) (kp_vtepPrefixCIDR kp) (kp_ipFamily kp) of
          Inl e \<Rightarrow> ((kp, k), Some (Wrapped ''failed to derive the vxlan vtepIP'' e))
        | Inr vtepIP \<Rightarrow> (case create_device H gateway gatewayNodeIP ipAddr (kp, k) of
            (s, Some e) \<Rightarrow> (s, Some e)
          | ((kp1, k1), None) \<Rightarrow> (case ParseCIDR (kp_vtepPrefixCIDR kp1) of
              None \<Rightarrow> ((kp1, k1), Some (Wrapped ''invalid VTEP CIDR'' (Sentinel ''ParseError'')))
            | Some ipNet \<Rightarrow> (case ConfigureIPAddress (kh_link H) (kp_vxlanIface kp1) vtepIP (n_ones ipNet) k1 of
                (k2, Some e) \<Rightarrow> ((kp1, k2), Some (Wrapped ''failed to configure vxlan interface ipaddress'' e))
              | (k2, None) \<Rightarrow> (case netlink_EnableForwarding (kh_net H) (kp_vxlanIface kp1) (kp_ipFamily kp1) k2 of
                  (k3, e) \<Rightarrow> ((kp1, k3), wrap ''error enabling forwarding'' e))))))))"

section \<open>Endpoint events\<close>

definition self_snat_rules :: "SyncHandler \<Rightarrow> string \<Rightarrow> Rule list" where
  "self_snat_rules kp localCidr =
     (let l = (if kp_ipFamily kp = IPv6 then LocalCIDRIPSetIPv6 else LocalCIDRIPSetIPv4);
          r = (if kp_ipFamily kp = IPv6 then RemoteCIDRIPSetIPv6 else RemoteCIDRIPSetIPv4) in
      [zero_rule\<lparr>SrcCIDR := localCidr, DestSetName := r, Action := RuleActionSelfSNAT\<rparr>,
       zero_rule\<lparr>SrcSetName := r, DestSetName := l, Action := RuleActionSelfSNAT\<rparr>])"

text \<open>\<open>localClusterCidr[0]\<close> panics when the list is empty.\<close>

definition append_self_snat :: "'k kpHost \<Rightarrow> SyncHandler \<times> 'k \<Rightarrow> (SyncHandler \<times> 'k) \<times> err option" where
  "append_self_snat H = (\<lambda>(kp, k). (case kp_localClusterCidr kp of
      [] \<Rightarrow> ((kp, k), Some kp_panic)
    | c # _ \<Rightarrow> (case in_sequence (map (\<lambda>r k. apsnd (wrap ''unable to append rule'') (pd_AppendUnique (kh_filter H) TableTypeNAT SmSelfSnat r k))
          (self_snat_rules kp c)) k of (k', e) \<Rightarrow> ((kp, k'), e))))"

text \<open>The device that points to an older endpoint is deleted.\<close>

definition delete_old_device :: "'k kpHost \<Rightarrow> string \<Rightarrow> SyncHandler \<times> 'k \<Rightarrow> (SyncHandler \<times> 'k) \<times> err option" where
  "delete_old_device H hostname = (\<lambda>(kp, k). (case kp_vxlanDevice kp of
      Some dev \<Rightarrow>
        if kp_activeEndpointHostname kp \<noteq> hostname then
          (case DeleteLinkDevice (kh_link H) (vl_Name dev) k of
             (k', Some e) \<Rightarrow> ((kp, k'), Some (Wrapped ''failed to delete the vxlan interface that points to old endpoint'' e))
           | (k', None) \<Rightarrow> ((kp\<lparr>kp_vxlanDevice := None, kp_activeEndpointHostname := []\<rparr>, k'), None))
        else ((kp, k), None)
    | None \<Rightarrow> ((kp, k), None)))"

text \<open>\<open>net.IP.String\<close> of a nil address is \<open><nil>\<close>.\<close>

definition opt_ip_String :: "ip option \<Rightarrow> string" where
  "opt_ip_String i = (case i of None \<Rightarrow> ''<nil>'' | Some a \<Rightarrow> ip_String a)"

definition connect_to_gateway :: "libs \<Rightarrow> 'k kpHost \<Rightarrow> EndpointSpec \<Rightarrow> ip option \<Rightarrow> SyncHandler \<times> 'k \<Rightarrow> (SyncHandler \<times> 'k) \<times> err option" where
  "connect_to_gateway L H spec gwNodeIP s =
     (case delete_old_device H (Hostname spec) s of
        (s1, Some e) \<Rightarrow> (s1, Some e)
      | (s1, None) \<Rightarrow>
          (case GetVtepIPAddressFrom (opt_ip_String gwNodeIP) (kp_vtepPrefixCIDR (fst s1)) (kp_ipFamily (fst s1)) of
             Inl e \<Rightarrow> (s1, Some (Wrapped ''failed to derive the remoteVtepIP'' e))
           | Inr remoteVtepIP \<Rightarrow>
               (case createVxLANInterface L H False gwNodeIP s1 of
                  (s2, Some e) \<Rightarrow> (s2, Some (kp_fatal e))
                | ((kp2, k2), None) \<Rightarrow>
                    (let kp3 = kp2\<lparr>kp_vxlanGwIP := Some (Some remoteVtepIP), kp_activeEndpointHostname := Hostname spec\<rparr> in
                     case reconcileRoutes H kp3 remoteVtepIP k2 of (k3, e) \<Rightarrow> ((kp3, k3), wrap ''error while reconciling routes'' e)))))"

definition kp_LocalEndpointCreated :: "libs \<Rightarrow> 'k kpHost \<Rightarrow> Endpoint \<Rightarrow> SyncHandler \<times> 'k \<Rightarrow> (SyncHandler \<times> 'k) \<times> err option" where
  "kp_LocalEndpointCreated L H endpoint = (\<lambda>(kp, k).
     (let spec = ep_Spec endpoint;
          kp1 = kp\<lparr>kp_localEndpointIfaceName := cfg_get (BackendConfig spec) ''interface-name''\<rparr>;
          gwNodeIP = ParseIP (GetPrivateIP L (kp_ipFamily kp1) spec) in
      case (if \<not> kp_isOnGateway kp1 then connect_to_gateway L H spec gwNodeIP (kp1, k)
            else ((kp1\<lparr>kp_vxlanGwIP := Some gwNodeIP\<rparr>, k), None)) of
        (s, Some e) \<Rightarrow> (s, Some e)
      | (s, None) \<Rightarrow> append_self_snat H s))"

definition kp_LocalEndpointRemoved :: "'k kpHost \<Rightarrow> Endpoint \<Rightarrow> SyncHandler \<times> 'k \<Rightarrow> (SyncHandler \<times> 'k) \<times> err option" where
  "kp_LocalEndpointRemoved H endpoint = (\<lambda>(kp, k). (case kp_vxlanDevice kp of
      Some dev \<Rightarrow>
        if kp_activeEndpointHostname kp = Hostname (ep_Spec endpoint) then
          (case DeleteLinkDevice (kh_link H) (vl_Name dev) k of
             (k', e) \<Rightarrow> ((kp\<lparr>kp_vxlanDevice := None, kp_vxlanGwIP := None, kp_activeEndpointHostname := []\<rparr>, k'),
                        wrap ''failed to delete the vxlan interface on Endpoint removal'' e))
        else ((kp, k), None)
    | None \<Rightarrow> ((kp, k), None)))"

definition record_subnets :: "ip option \<Rightarrow> string list \<Rightarrow> SyncHandler \<Rightarrow> SyncHandler" where
  "record_subnets gwIP subnets kp = fold (\<lambda>c kp. kp\<lparr>kp_remoteSubnets := List.insert c (kp_remoteSubnets kp),
     kp_remoteSubnetGw := (kp_remoteSubnetGw kp)(c \<mapsto> gwIP)\<rparr>) subnets kp"

definition forget_subnets :: "string list \<Rightarrow> SyncHandler \<Rightarrow> SyncHandler" where
  "forget_subnets subnets kp = fold (\<lambda>c kp. kp\<lparr>kp_remoteSubnets := removeAll c (kp_remoteSubnets kp),
     kp_remoteSubnetGw := (kp_remoteSubnetGw kp)(c := None)\<rparr>) subnets kp"

text \<open>What follows the bookkeeping of both events.\<close>

definition program_subnets :: "'k kpHost \<Rightarrow> string list \<Rightarrow> Operation \<Rightarrow> SyncHandler \<times> 'k \<Rightarrow> (SyncHandler \<times> 'k) \<times> err option" where
  "program_subnets H subnets operation = (\<lambda>(kp, k).
     (case updateRoutingRulesForInterClusterSupport H kp subnets operation k of
        (k1, Some e) \<Rightarrow> ((kp, k1), Some e)
      | (k1, None) \<Rightarrow>
          (case updateRoutingRulesForHostNetworkSupport H subnets operation (kp, k1) of
             (s, Some e) \<Rightarrow> (s, Some e)
           | ((kp2, k2), None) \<Rightarrow> ((kp2, updateIptableRulesForInterClusterTraffic H kp2 subnets operation k2), None))))"

definition kp_RemoteEndpointCreated :: "libs \<Rightarrow> 'k kpHost \<Rightarrow> Endpoint \<Rightarrow> SyncHandler \<times> 'k \<Rightarrow> (SyncHandler \<times> 'k) \<times> err option" where
  "kp_RemoteEndpointCreated L H endpoint = (\<lambda>(kp, k).
     (let subnets = ExtractSubnets L (kp_ipFamily kp) (Subnets (ep_Spec endpoint)) in
      if OverlappingSubnets (kp_localServiceCidr kp) (kp_localClusterCidr kp) subnets \<noteq> None then ((kp, k), None)
      else program_subnets H subnets Add (record_subnets (GatewayIP L (kp_ipFamily kp) (ep_Spec endpoint)) subnets kp, k)))"

definition kp_RemoteEndpointRemoved :: "libs \<Rightarrow> 'k kpHost \<Rightarrow> Endpoint \<Rightarrow> SyncHandler \<times> 'k \<Rightarrow> (SyncHandler \<times> 'k) \<times> err option" where
  "kp_RemoteEndpointRemoved L H endpoint = (\<lambda>(kp, k).
     (let subnets = ExtractSubnets L (kp_ipFamily kp) (Subnets (ep_Spec endpoint)) in
      program_subnets H subnets Delete (forget_subnets subnets kp, k)))"

section \<open>Transitions and nodes\<close>

definition kp_TransitionToNonGateway :: "'k kpHost \<Rightarrow> SyncHandler \<times> 'k \<Rightarrow> (SyncHandler \<times> 'k) \<times> err option" where
  "kp_TransitionToNonGateway H = (\<lambda>(kp, k).
     (case updateRoutingRulesForHostNetworkSupport H [] Flush (kp, cleanVxSubmarinerRoutes H kp k) of
        ((kp1, k1), _) \<Rightarrow>
          ((kp1, fst (adapter_RuleDelIfPresent (kh_net H) (NewTableRule RouteAgentHostNetworkTableID (kp_ipFamily kp1)) k1)), None)))"

definition kp_TransitionToGateway :: "libs \<Rightarrow> 'k kpHost \<Rightarrow> SyncHandler \<times> 'k \<Rightarrow> (SyncHandler \<times> 'k) \<times> err option" where
  "kp_TransitionToGateway L H = (\<lambda>(kp, k).
     (case createVxLANInterface L H True None (kp\<lparr>kp_activeEndpointHostname := kp_hostname kp\<rparr>, cleanVxSubmarinerRoutes H kp k) of
        (s, Some e) \<Rightarrow> (s, Some (kp_fatal e))
      | ((kp1, k1), None) \<Rightarrow>
          updateRoutingRulesForHostNetworkSupport H (kh_order H (kp_remoteSubnets kp1)) Add
            (kp1, fst (adapter_RuleAddIfNotPresent (kh_net H) (NewTableRule RouteAgentHostNetworkTableID (kp_ipFamily kp1)) k1))))"

text \<open>A node is the list of its addresses with whether each is an internal one.\<close>

type_synonym nodeAddresses = "(bool \<times> string) list"

definition populateRemoteVtepIps :: "'k kpHost \<Rightarrow> string \<Rightarrow> Operation \<Rightarrow> SyncHandler \<times> 'k \<Rightarrow> SyncHandler \<times> 'k" where
  "populateRemoteVtepIps H vtepIP operation = (\<lambda>(kp, k).
     (let kp1 = (case operation of
            Add \<Rightarrow> kp\<lparr>kp_remoteVTEPs := List.insert vtepIP (kp_remoteVTEPs kp)\<rparr>
          | Delete \<Rightarrow> kp\<lparr>kp_remoteVTEPs := removeAll vtepIP (kp_remoteVTEPs kp)\<rparr>
          | Flush \<Rightarrow> kp) in
      case (kp_isOnGateway kp1, kp_vxlanDevice kp1) of
        (True, Some dev) \<Rightarrow> (kp1, case operation of
            Add \<Rightarrow> fst (AddFDB (kh_link H) (vl_Name dev) (ParseIP vtepIP) k)
          | Delete \<Rightarrow> fst (DelFDB (kh_link H) (vl_Name dev) (ParseIP vtepIP) k)
          | Flush \<Rightarrow> k)
      | _ \<Rightarrow> (kp1, k)))"

definition kp_NodeCreated :: "libs \<Rightarrow> 'k kpHost \<Rightarrow> nodeAddresses \<Rightarrow> SyncHandler \<times> 'k \<Rightarrow> SyncHandler \<times> 'k" where
  "kp_NodeCreated L H addrs s = (case find (\<lambda>(internal, a). internal \<and> IPFamilyOfString L a = kp_ipFamily (fst s)) addrs of
      Some (_, a) \<Rightarrow> populateRemoteVtepIps H a Add s | None \<Rightarrow> s)"

text \<open>Unlike a created node, the first internal address of a removed one is taken whatever its family.\<close>

definition kp_NodeRemoved :: "'k kpHost \<Rightarrow> nodeAddresses \<Rightarrow> SyncHandler \<times> 'k \<Rightarrow> SyncHandler \<times> 'k" where
  "kp_NodeRemoved H addrs s = (case find fst addrs of Some (_, a) \<Rightarrow> populateRemoteVtepIps H a Delete s | None \<Rightarrow> s)"

section \<open>Start and removal\<close>

fun discover_cni :: "libs \<Rightarrow> 'k kpHost \<Rightarrow> SyncHandler \<Rightarrow> nat \<Rightarrow> 'k \<Rightarrow> 'k \<times> cniInterface option" where
  "discover_cni L H kp 0 k = (k, None)"
| "discover_cni L H kp (Suc n) k = (case cni_Discover L (kh_net H) (kp_localClusterCidr kp) (kp_ipFamily kp) k of
      Inr i \<Rightarrow> (k, Some i) | Inl _ \<Rightarrow> discover_cni L H kp n (nl_sleep (kh_net H) k))"

text \<open>A network plugin that is not found is not fatal.\<close>

definition kp_Init :: "libs \<Rightarrow> 'k kpHost \<Rightarrow> SyncHandler \<times> 'k \<Rightarrow> (SyncHandler \<times> 'k) \<times> err option" where
  "kp_Init L H = (\<lambda>(kp, k).
     (case kh_Hostname H k of
        Inl e \<Rightarrow> ((kp, k), Some (Wrapped ''unable to determine hostname'' e))
      | Inr hostname \<Rightarrow>
          (let kp1 = kp\<lparr>kp_hostname := hostname\<rparr> in
           case adapter_GetDefaultGatewayInterface (kh_net H) (kp_ipFamily kp1) k of
             (k1, Inl e) \<Rightarrow> ((kp1, k1), Some (Wrapped ''Unable to find the default interface on host'' e))
           | (k1, Inr iface) \<Rightarrow>
               (let kp2 = kp1\<lparr>kp_defaultHostIface := iface\<rparr>; (k2, cni) = discover_cni L H kp2 12 k1; kp3 = kp2\<lparr>kp_cniIface := cni\<rparr>;
                    (k3, e) = (case cni of None \<Rightarrow> (k2, None)
                      | Some i \<Rightarrow> EnableLooseModeReversePathFilter (kh_net H) (ci_Name i) (kp_ipFamily kp3) k2) in
                case e of
                  Some e \<Rightarrow> ((kp3, k3), Some (Wrapped ''error enabling loose mode'' e))
                | None \<Rightarrow> (case createPFilterChains H kp3 k3 of (k4, e) \<Rightarrow> ((kp3, k4), wrap ''createPFilterChains returned error'' e))))))"

definition deleteIPTableChains :: "'k kpHost \<Rightarrow> 'k \<Rightarrow> 'k" where
  "deleteIPTableChains H k = foldl (\<lambda>k f. fst (f k)) k
     [pd_ClearChain (kh_filter H) TableTypeNAT SmPostRouting, pd_DeleteIPHookChain (kh_filter H) NewPostRouting,
      pd_ClearChain (kh_filter H) TableTypeFilter SmInput, pd_DeleteIPHookChain (kh_filter H) NewInput,
      pd_ClearChain (kh_filter H) TableTypeNAT SmSelfSnat, pd_DeleteIPHookChain (kh_filter H) NewSelfSnat,
      pd_ClearChain (kh_filter H) TableTypeFilter SmForward, pd_DeleteIPHookChain (kh_filter H) NewForwarding]"

text \<open>Errors are only logged. \<open>newFilter\<close> is the error of \<open>packetfilter.New\<close>.\<close>

definition kp_Uninstall :: "'k kpHost \<Rightarrow> err option \<Rightarrow> SyncHandler \<Rightarrow> 'k \<Rightarrow> 'k" where
  "kp_Uninstall H newFilter kp k =
     (let k1 = fst (FlushRouteTable (kh_net H) RouteAgentHostNetworkTableID k);
          k2 = fst (adapter_RuleDelIfPresent (kh_net H) (NewTableRule RouteAgentHostNetworkTableID (kp_ipFamily kp)) k1);
          k3 = fst (LinkDel (kh_link H) (kp_vxlanIface kp) k2) in
      if newFilter \<noteq> None then k3 else deleteIPTableChains H k3)"

end
