(* ===== verification/KubeProxyProps.thy ===== *)
theory KubeProxyProps
  imports KubeProxy GlobalnetNat
begin

text \<open>
  Properties of the handler for kube-proxy: the routes to the gateway are exactly those of the remote subnets after a reconciliation, the
  rules of a remote subnet can be removed without a trace, and the case of a host network route that is not removed.
\<close>

section \<open>What is used of the routing table\<close>

text \<open>
  A route is known by its destination, next hop and link. \<open>routes\<close> are those of the main table for the family \<open>f\<close>. Reading does
  not change them and a sleep does not either; a route is deleted if it is there, and it is added if there is none to its
  destination.
\<close>

definition route_key :: "nlRoute \<Rightarrow> ipnet option \<times> ip option \<times> int" where
  "route_key r = (nr_Dst r, nr_Gw r, nr_LinkIndex r)"

definition route_table_ok :: "'k nlLib \<Rightarrow> int \<Rightarrow> ('k \<Rightarrow> (ipnet option \<times> ip option \<times> int) set) \<Rightarrow> bool" where
  "route_table_ok N f routes \<longleftrightarrow>
     (\<forall>k. routes (nl_sleep N k) = routes k) \<and>
     (\<forall>name k. routes (fst (nl_LinkByName N name k)) = routes k) \<and>
     (\<forall>link k. routes (fst (nl_RouteList N (Some link) f k)) = routes k) \<and>
     (\<forall>link k rs. snd (nl_RouteList N (Some link) f k) = Inr rs \<longrightarrow>
        route_key ` set rs = {(d, g, i). (d, g, i) \<in> routes k \<and> i = lk_Index link}) \<and>
     (\<forall>r k. routes (fst (nl_RouteDel N r k)) = routes k - {route_key r}) \<and>
     (\<forall>r k. routes (fst (nl_RouteAdd N r k)) =
        (if snd (nl_RouteAdd N r k) = None then insert (route_key r) (routes k) else routes k)) \<and>
     (\<forall>r k. (\<forall>(d, g, i)\<in>routes k. d \<noteq> nr_Dst r) \<longrightarrow> snd (nl_RouteAdd N r k) = None)"

lemmas route_ok1 = iffD1 [OF route_table_ok_def]
lemmas route_ok2 = conjunct2 [OF route_ok1]
lemmas route_ok3 = conjunct2 [OF route_ok2]
lemmas route_ok4 = conjunct2 [OF route_ok3]
lemmas route_ok5 = conjunct2 [OF route_ok4]
lemmas route_ok6 = conjunct2 [OF route_ok5]
lemmas route_ok7 = conjunct2 [OF route_ok6]

lemmas route_okD = conjunct1 [OF route_ok1, rule_format] conjunct1 [OF route_ok2, rule_format] conjunct1 [OF route_ok3, rule_format]
  conjunct1 [OF route_ok4, rule_format] conjunct1 [OF route_ok5, rule_format] conjunct1 [OF route_ok6, rule_format] route_ok7 [rule_format]

text \<open>Retries keep what one attempt keeps, and the result is that of an attempt.\<close>

lemma retry_keeps:
  assumes sleep: "\<And>k. f (sleep k) = f k" and op: "\<And>k. f (fst (op k)) = f k"
  shows "f (fst (retry_interrupted sleep n op k)) = f k \<and>
    (\<exists>k1. f k1 = f k \<and> retry_interrupted sleep n op k = op k1)"
proof (induction n arbitrary: k rule: nat_less_induct)
  case (1 n)
  obtain k1 r where o: "op k = (k1, r)" by fastforce
  with op have k1: "f k1 = f k" by (metis fst_conv)
  show ?case
  proof (cases "\<exists>e. r = Inl e \<and> errors_is e ErrDumpInterrupted \<and> \<not> n \<le> 1")
    case False
    then have "retry_interrupted sleep n op k = op k" using o by (auto simp: retry_interrupted.simps [of _ n] split: sum.split)
    with o k1 show ?thesis by auto
  next
    case True
    then have r: "retry_interrupted sleep n op k = retry_interrupted sleep (n - 1) op (sleep k1)" and "n - 1 < n"
      using o by (auto simp: retry_interrupted.simps [of _ n])
    with "1.IH" have "f (fst (retry_interrupted sleep (n - 1) op (sleep k1))) = f (sleep k1) \<and>
        (\<exists>k2. f k2 = f (sleep k1) \<and> retry_interrupted sleep (n - 1) op (sleep k1) = op k2)" by blast
    with r k1 sleep show ?thesis by auto
  qed
qed

lemma link_keeps:
  assumes "route_table_ok N f routes" "netlink_LinkByName N name k = (k', r)"
  shows "routes k' = routes k"
  using retry_keeps [of routes "nl_sleep N" "nl_LinkByName N name" MaxRetries k, OF route_okD(1) [OF assms(1)] route_okD(2) [OF assms(1)]] assms(2)
  by (simp add: netlink_LinkByName_def retryOnInterrupted_def)

lemma list_keeps:
  assumes "route_table_ok N (ToNetlinkFamily fam) routes" "netlink_RouteList N (Some link) fam k = (k', r)"
  shows "routes k' = routes k \<and> (\<forall>rs. r = Inr rs \<longrightarrow> route_key ` set rs = {(d, g, i). (d, g, i) \<in> routes k \<and> i = lk_Index link})"
proof -
  from retry_keeps [of routes "nl_sleep N" "nl_RouteList N (Some link) (ToNetlinkFamily fam)" MaxRetries k,
      OF route_okD(1) [OF assms(1)] route_okD(3) [OF assms(1)]]
  obtain k1 where k1: "routes k1 = routes k" "nl_RouteList N (Some link) (ToNetlinkFamily fam) k1 = (k', r)" "routes k' = routes k"
    using assms(2) by (auto simp: netlink_RouteList_def retryOnInterrupted_def)
  from route_okD(4) [OF assms(1), of link k1] k1 show ?thesis by auto
qed

lemma delete_routes_keys: "route_table_ok N f routes \<Longrightarrow> routes (delete_routes N rs k) = routes k - route_key ` set rs"
  by (induction rs arbitrary: k) (auto simp: route_okD(5))

definition nets_of :: "string list \<Rightarrow> ipnet set" where
  "nets_of cs = {n. \<exists>c\<in>set cs. ParseCIDR c = Some n}"

text \<open>The routes to the given networks through the gateway.\<close>

definition via :: "ip \<Rightarrow> int \<Rightarrow> ipnet set \<Rightarrow> (ipnet option \<times> ip option \<times> int) set" where
  "via gw index nets = (\<lambda>d. (Some d, Some gw, index)) ` nets"

text \<open>Destinations print to text that parses to them again.\<close>

definition printable :: "(ipnet option \<times> ip option \<times> int) set \<Rightarrow> bool" where
  "printable R \<longleftrightarrow> (\<forall>(d, g, i)\<in>R. \<forall>n. d = Some n \<longrightarrow> ParseCIDR (ipnet_String n) = Some n)"

definition canonical_cidr :: "string \<Rightarrow> bool" where
  "canonical_cidr c \<longleftrightarrow> (\<exists>n. ParseCIDR c = Some n \<and> ipnet_String n = c)"

definition only_via :: "ip \<Rightarrow> int \<Rightarrow> ipnet set \<Rightarrow> (ipnet option \<times> ip option \<times> int) set \<Rightarrow> bool" where
  "only_via gw index nets R \<longleftrightarrow> (\<forall>(d, g, i)\<in>R. d \<in> Some ` nets \<longrightarrow> g = Some gw \<and> i = index)"

lemma add_missing_routes_spec:
  assumes ok: "route_table_ok (kh_net H) f routes"
  shows "\<forall>c\<in>set cs. canonical_cidr c \<Longrightarrow> only_via gw index (nets_of cs) (routes k) \<Longrightarrow> printable (route_key ` set cur) \<Longrightarrow>
    {x \<in> route_key ` set cur. fst x \<in> Some ` nets_of cs} \<subseteq> routes k \<Longrightarrow> \<forall>r\<in>set cur. nr_LinkIndex r = index \<Longrightarrow>
    routes (add_missing_routes H index gw cur cs k) = routes k \<union> via gw index (nets_of cs)"
proof (induction cs arbitrary: k)
  case Nil
  then show ?case by (simp add: nets_of_def via_def)
next
  case (Cons c cs)
  from Cons.prems(1) obtain n where n: "ParseCIDR c = Some n" "ipnet_String n = c" by (auto simp: canonical_cidr_def)
  have nets: "nets_of (c # cs) = insert n (nets_of cs)" using n(1) by (auto simp: nets_of_def)
  let ?found = "\<exists>r\<in>set cur. has_next_hop r \<and> nr_Gw r = Some gw \<and> ipnet_String (the (nr_Dst r)) = ipnet_String n"
  let ?k = "if ?found then k else fst (nl_RouteAdd (kh_net H) (vx_route index (Some gw) n) k)"
  have k': "routes ?k = insert (Some n, Some gw, index) (routes k)"
  proof (cases ?found)
    case True
    then obtain r d where r: "r \<in> set cur" "nr_Gw r = Some gw" "nr_Dst r = Some d" "ipnet_String d = ipnet_String n"
      by (auto simp: has_next_hop_def)
    have "printable {route_key r}" using Cons.prems(3) r(1) by (auto simp: printable_def)
    then have "ParseCIDR (ipnet_String d) = Some d" using r(3) by (simp add: printable_def route_key_def)
    with r(4) n have "d = n" by simp
    with r Cons.prems(4,5) nets have "(Some n, Some gw, index) \<in> routes k" by (force simp: route_key_def)
    with True show ?thesis by (simp add: insert_absorb)
  next
    case False
    let ?r = "vx_route index (Some gw) n"
    have key: "route_key ?r = (Some n, Some gw, index)" by (simp add: route_key_def vx_route_def)
    show ?thesis unfolding if_not_P [OF False]
    proof (cases "(Some n, Some gw, index) \<in> routes k")
      case True
      then show "routes (fst (nl_RouteAdd (kh_net H) ?r k)) = insert (Some n, Some gw, index) (routes k)"
        using route_okD(6) [OF ok, of ?r k] key by (auto simp: insert_absorb)
    next
      case new: False
      have "\<forall>(d, g, i)\<in>routes k. d \<noteq> nr_Dst ?r" using new Cons.prems(2) nets by (force simp: only_via_def vx_route_def)
      with route_okD(7) [OF ok, of k ?r] route_okD(6) [OF ok, of ?r k] key
      show "routes (fst (nl_RouteAdd (kh_net H) ?r k)) = insert (Some n, Some gw, index) (routes k)" by simp
    qed
  qed
  have "only_via gw index (nets_of cs) (routes ?k)" using Cons.prems(2) nets k' by (auto simp: only_via_def)
  moreover have "{x \<in> route_key ` set cur. fst x \<in> Some ` nets_of cs} \<subseteq> routes ?k" using Cons.prems(4) nets k' by auto
  ultimately have "routes (add_missing_routes H index gw cur cs ?k) = routes ?k \<union> via gw index (nets_of cs)"
    using Cons.IH [of ?k] Cons.prems(1,3,5) by simp
  moreover have "add_missing_routes H index gw cur (c # cs) k = add_missing_routes H index gw cur cs ?k" using n by simp
  ultimately show ?case using k' nets by (simp add: via_def)
qed

section \<open>Reconciliation\<close>

text \<open>The routes that the handler does not touch: of other links, and without a destination or a next hop.\<close>

definition other_routes :: "int \<Rightarrow> (ipnet option \<times> ip option \<times> int) set \<Rightarrow> (ipnet option \<times> ip option \<times> int) set" where
  "other_routes index R = {(d, g, i). (d, g, i) \<in> R \<and> (i \<noteq> index \<or> d = None \<or> g = None)}"

lemma listed_route:
  assumes "route_key ` set rs = {(d, g, i). (d, g, i) \<in> R \<and> i = index}" "r \<in> set rs"
  shows "route_key r \<in> R \<and> nr_LinkIndex r = index"
  using imageI [OF assms(2), of route_key] unfolding assms(1) by (auto simp: route_key_def)

lemma remove_unknown_keys:
  assumes ok: "route_table_ok (kh_net H) f routes" and key: "route_key ` set rs = {(d, g, i). (d, g, i) \<in> routes k \<and> i = index}"
    and p: "printable (routes k)" and c: "\<forall>c\<in>set (kp_remoteSubnets kp). canonical_cidr c"
  shows "routes (removeUnknownRoutes H kp gw rs k) = other_routes index (routes k) \<union> (via gw index (nets_of (kp_remoteSubnets kp)) \<inter> routes k)"
proof -
  let ?bad = "filter (\<lambda>r. has_next_hop r \<and> \<not> known_route kp gw r) rs"
  have mem: "ipnet_String n \<in> set (kp_remoteSubnets kp) \<longleftrightarrow> n \<in> nets_of (kp_remoteSubnets kp)" if "(Some n, g, i) \<in> routes k" for n g i
  proof
    have n: "ParseCIDR (ipnet_String n) = Some n" using p that by (auto simp: printable_def)
    then show "n \<in> nets_of (kp_remoteSubnets kp)" if "ipnet_String n \<in> set (kp_remoteSubnets kp)" using that by (auto simp: nets_of_def)
    show "ipnet_String n \<in> set (kp_remoteSubnets kp)" if "n \<in> nets_of (kp_remoteSubnets kp)"
      using that c by (fastforce simp: nets_of_def canonical_cidr_def)
  qed
  have "route_key ` set ?bad = {(d, g, i). (d, g, i) \<in> routes k \<and> i = index \<and> d \<noteq> None \<and> g \<noteq> None \<and>
      \<not> (g = Some gw \<and> d \<in> Some ` nets_of (kp_remoteSubnets kp))}" (is "_ = ?B")
  proof (intro equalityI subsetI)
    fix x assume "x \<in> route_key ` set ?bad"
    then obtain r where r: "r \<in> set rs" "has_next_hop r" "\<not> known_route kp gw r" "x = route_key r" by auto
    then have "x \<in> routes k" "nr_LinkIndex r = index" using listed_route [OF key r(1)] by auto
    with r mem show "x \<in> ?B" by (auto simp: route_key_def has_next_hop_def known_route_def)
  next
    fix x assume x: "x \<in> ?B"
    then have "x \<in> route_key ` set rs" unfolding key by auto
    then obtain r where r: "r \<in> set rs" "x = route_key r" by auto
    with x mem have "has_next_hop r" "\<not> known_route kp gw r" by (auto simp: route_key_def has_next_hop_def known_route_def)
    with r show "x \<in> route_key ` set ?bad" by simp
  qed
  then show ?thesis unfolding removeUnknownRoutes_def delete_routes_keys [OF ok] by (auto simp: other_routes_def via_def)
qed

text \<open>C13: Reconciling the routes on a node that is not the gateway leaves, on the link of the VXLAN interface, exactly one route through the
  gateway for each remote subnet: stale routes and routes through an old gateway are removed, missing ones added, routes of other links and
  without a next hop are kept. The subnets are given in canonical form, no other link has a route to one of them, and deleting a route is taken
  to succeed: the code only logs its errors.\<close>

theorem reconcile_routes_exact:
  assumes "route_table_ok (kh_net H) (ToNetlinkFamily (kp_ipFamily kp)) routes" and "printable (routes k)"
    and "\<forall>c\<in>set (kp_remoteSubnets kp). canonical_cidr c" and "\<And>xs. set (kh_order H xs) = set xs"
    and "snd (netlink_LinkByName (kh_net H) (kp_vxlanIface kp) k) = Inr link"
    and "\<forall>(d, g, i)\<in>other_routes (lk_Index link) (routes k). d \<notin> Some ` nets_of (kp_remoteSubnets kp)"
    and "reconcileRoutes H kp gw k = (k', None)"
  shows "routes k' = other_routes (lk_Index link) (routes k) \<union> via gw (lk_Index link) (nets_of (kp_remoteSubnets kp))"
proof -
  note ok = assms(1)
  let ?i = "lk_Index link" and ?n = "nets_of (kp_remoteSubnets kp)"
  obtain k1 where l: "netlink_LinkByName (kh_net H) (kp_vxlanIface kp) k = (k1, Inr link)" using assms(5) by (metis prod.collapse)
  obtain k2 rs where r2: "netlink_RouteList (kh_net H) (Some link) (kp_ipFamily kp) k1 = (k2, Inr rs)"
    using assms(7) l by (auto simp: reconcileRoutes_def split: prod.split_asm sum.split_asm)
  obtain k3 rs' where r3: "netlink_RouteList (kh_net H) (Some link) (kp_ipFamily kp) (removeUnknownRoutes H kp gw rs k2) = (k3, Inr rs')"
    and k': "k' = add_missing_routes H ?i gw rs' (kh_order H (kp_remoteSubnets kp)) k3"
    using assms(7) l r2 by (auto simp: reconcileRoutes_def split: prod.split_asm sum.split_asm)
  have k2: "routes k2 = routes k" and key2: "route_key ` set rs = {(d, g, i). (d, g, i) \<in> routes k2 \<and> i = ?i}"
    using link_keeps [OF ok l] list_keeps [OF ok r2] by auto
  note rm = remove_unknown_keys [OF ok key2 assms(2) [folded k2] assms(3), of gw, unfolded k2]
  have k3: "routes k3 = other_routes ?i (routes k) \<union> (via gw ?i ?n \<inter> routes k)"
    and key3: "route_key ` set rs' = {(d, g, i). (d, g, i) \<in> routes k3 \<and> i = ?i}"
    using list_keeps [OF ok r3] rm by auto
  have sub: "routes k3 \<subseteq> routes k" unfolding k3 by (auto simp: other_routes_def)
  have n: "nets_of (kh_order H (kp_remoteSubnets kp)) = ?n" using assms(4) by (auto simp: nets_of_def)
  have "routes k' = routes k3 \<union> via gw ?i (nets_of (kh_order H (kp_remoteSubnets kp)))"
    unfolding k'
  proof (rule add_missing_routes_spec [OF ok])
    show "\<forall>c\<in>set (kh_order H (kp_remoteSubnets kp)). canonical_cidr c" using assms(3,4) by auto
    show "only_via gw ?i (nets_of (kh_order H (kp_remoteSubnets kp))) (routes k3)"
      unfolding n k3 using assms(6) by (auto simp: only_via_def via_def)
    show "printable (route_key ` set rs')" using assms(2) sub unfolding key3 printable_def by auto
    show "{x \<in> route_key ` set rs'. fst x \<in> Some ` nets_of (kh_order H (kp_remoteSubnets kp))} \<subseteq> routes k3" unfolding key3 by auto
    show "\<forall>r\<in>set rs'. nr_LinkIndex r = ?i" using listed_route [OF key3] by blast
  qed
  then show ?thesis unfolding n k3 by auto
qed

section \<open>A host\<close>

definition idle_filter :: "'k pfDriver" where
  "idle_filter = \<lparr>pd_GetMSSClampTypes = (0, 0), pd_ChainExists = (\<lambda>_ _ _. Inr True), pd_CreateIPHookChainIfNotExists = (\<lambda>_ k. (k, None)),
     pd_CreateChainIfNotExists = (\<lambda>_ _ k. (k, None)), pd_DeleteIPHookChain = (\<lambda>_ k. (k, None)), pd_DeleteChain = (\<lambda>_ _ k. (k, None)),
     pd_ClearChain = (\<lambda>_ _ k. (k, None)), pd_Delete = (\<lambda>_ _ _ k. (k, None)), pd_AppendUnique = (\<lambda>_ _ _ k. (k, None)),
     pd_List = (\<lambda>_ _ _. Inr []), pd_Append = (\<lambda>_ _ _ k. (k, None)), pd_Insert = (\<lambda>_ _ _ _ k. (k, None))\<rparr>"

definition idle_link :: "'k netLink" where
  "idle_link = \<lparr>LinkAdd = (\<lambda>_ k. (k, None)), LinkDel = (\<lambda>_ k. (k, None)), LinkByName = (\<lambda>n _. Inr (OtherDev n)), LinkSetUp = (\<lambda>_ k. (k, None)),
     AddrAdd = (\<lambda>_ _ k. (k, None)), NeighAppend = (\<lambda>_ k. (k, None)), NeighDel = (\<lambda>_ k. (k, None)), RouteAddOrReplace = (\<lambda>_ k. (k, None)),
     RouteDel = (\<lambda>_ k. (k, None)), RuleAddIfNotPresent = (\<lambda>_ _ k. (k, None)), RuleDelIfPresent = (\<lambda>_ _ k. (k, None)),
     GetDefaultGatewayInterfaceMTU = (\<lambda>_ _. Inr 1500), EnsureLooseModeIsConfigured = (\<lambda>_ _ k. (k, None)),
     EnableForwarding = (\<lambda>_ _ k. (k, None)), DeleteIfaceAndAssociatedRoutes = (\<lambda>_ _ _ k. (k, None)), CniDiscover = (\<lambda>_ _ _. Inr [])\<rparr>"

text \<open>The routes of a host, newest first.\<close>

type_synonym ref_routes = "nlRoute list"

definition ref_nl :: "ref_routes nlLib" where
  "ref_nl = idle_nl\<lparr>
     nl_RouteAdd := (\<lambda>r k. if \<exists>x\<in>set k. nr_Dst x = nr_Dst r then (k, Some EEXIST) else (r # k, None)),
     nl_RouteDel := (\<lambda>r k. (filter (\<lambda>x. route_key x \<noteq> route_key r) k, None)),
     nl_RouteList := (\<lambda>l _ k. (k, Inr (case l of None \<Rightarrow> k | Some l \<Rightarrow> filter (\<lambda>x. nr_LinkIndex x = lk_Index l) k)))\<rparr>"

definition ref_kp_host :: "ref_routes kpHost" where
  "ref_kp_host = \<lparr>kh_link = idle_link, kh_net = ref_nl, kh_filter = idle_filter, kh_Hostname = (\<lambda>_. Inr ''node''), kh_order = rev\<rparr>"

definition key_set :: "ref_routes \<Rightarrow> (ipnet option \<times> ip option \<times> int) set" where
  "key_set k = route_key ` set k"

lemma ref_nl_ok: "route_table_ok ref_nl f key_set"
  unfolding route_table_ok_def
  by (intro conjI allI impI) (auto simp: ref_nl_def idle_nl_def key_set_def route_key_def image_iff)

definition example_kp :: SyncHandler where
  "example_kp = (NewSyncHandler GoNet.ref_libs IPv4 [''10.1.0.0/16''] [''100.1.0.0/16''])\<lparr>kp_remoteSubnets := [''10.2.0.0/16'', ''10.3.0.0/16'']\<rparr>"

definition net_10 :: "nat \<Rightarrow> ipnet" where
  "net_10 n = \<lparr>n_ip = IP4 (word_of_nat (10 * 16777216 + n * 65536)), n_ones = 16, n_bits = 32\<rparr>"

definition gw_240 :: "nat \<Rightarrow> ip" where
  "gw_240 n = IP4 (word_of_nat (240 * 16777216 + n))"

text \<open>A route to \<open>10.2.0.0/16\<close> through an old gateway, a stale one to \<open>10.9.0.0/16\<close>, and the route of the interface itself.\<close>

definition example_routes :: ref_routes where
  "example_routes = [vx_route 7 (Some (gw_240 4)) (net_10 2), vx_route 7 (Some (gw_240 4)) (net_10 9), vx_route 7 None (net_10 200),
     vx_route 3 (Some (gw_240 1)) (net_10 77)]"

theorem reconcile_routes_exact_witness:
  "key_set (fst (reconcileRoutes ref_kp_host example_kp (gw_240 5) example_routes)) =
     {(Some (net_10 200), None, 7), (Some (net_10 77), Some (gw_240 1), 3), (Some (net_10 2), Some (gw_240 5), 7),
      (Some (net_10 3), Some (gw_240 5), 7)}"
proof -
  have p: "printable (key_set example_routes)"
  proof -
    have "\<forall>r\<in>set example_routes. ParseCIDR (ipnet_String (the (nr_Dst r))) = Some (the (nr_Dst r))" by code_simp
    then show ?thesis by (auto simp: printable_def key_set_def route_key_def)
  qed
  have c: "ParseCIDR ''10.2.0.0/16'' = Some (net_10 2)" "ParseCIDR ''10.3.0.0/16'' = Some (net_10 3)"
    "ipnet_String (net_10 2) = ''10.2.0.0/16''" "ipnet_String (net_10 3) = ''10.3.0.0/16''" by code_simp+
  have subs: "kp_remoteSubnets example_kp = [''10.2.0.0/16'', ''10.3.0.0/16'']" "kp_ipFamily example_kp = IPv4"
    by (simp_all add: example_kp_def NewSyncHandler_def)
  have can: "\<forall>c\<in>set (kp_remoteSubnets example_kp). canonical_cidr c" using c by (auto simp: subs canonical_cidr_def)
  have nets: "nets_of (kp_remoteSubnets example_kp) = {net_10 2, net_10 3}" using c by (auto simp: subs nets_of_def)
  have d: "net_10 200 \<noteq> net_10 2" "net_10 200 \<noteq> net_10 3" "net_10 77 \<noteq> net_10 2" "net_10 77 \<noteq> net_10 3" by code_simp+
  have others: "other_routes 7 (key_set example_routes) = {(Some (net_10 200), None, 7), (Some (net_10 77), Some (gw_240 1), 3)}"
    by (auto simp: other_routes_def key_set_def example_routes_def route_key_def vx_route_def)
  have o: "\<forall>(d, g, i)\<in>other_routes (lk_Index \<lparr>lk_Name = kp_vxlanIface example_kp, lk_Index = 7\<rparr>) (key_set example_routes).
      d \<notin> Some ` nets_of (kp_remoteSubnets example_kp)" unfolding nets using d by (simp add: others)
  have l: "snd (netlink_LinkByName (kh_net ref_kp_host) (kp_vxlanIface example_kp) example_routes) =
      Inr \<lparr>lk_Name = kp_vxlanIface example_kp, lk_Index = 7\<rparr>"
    by (simp add: netlink_LinkByName_def retryOnInterrupted_def retry_interrupted.simps ref_kp_host_def ref_nl_def idle_nl_def)
  have ord: "\<And>xs. set (kh_order ref_kp_host xs) = set xs" by (simp add: ref_kp_host_def)
  have n: "kh_net ref_kp_host = ref_nl" by (simp add: ref_kp_host_def)
  have "snd (reconcileRoutes ref_kp_host example_kp (gw_240 5) example_routes) = None" by code_simp
  then have r: "reconcileRoutes ref_kp_host example_kp (gw_240 5) example_routes =
      (fst (reconcileRoutes ref_kp_host example_kp (gw_240 5) example_routes), None)" by (metis prod.collapse)
  from reconcile_routes_exact [OF ref_nl_ok [folded n] p can ord l o r] show ?thesis unfolding nets by (auto simp: others via_def)
qed

section \<open>Rules between clusters\<close>

context nat_driver
begin

lemma append_all:
  "inv k \<Longrightarrow> \<forall>r\<in>set rs. supported r \<Longrightarrow> distinct rs \<Longrightarrow> set rs \<inter> set (chain t c k) = {} \<Longrightarrow>
   in_sequence (map (\<lambda>r k. apsnd (wrap m) (pd_AppendUnique D t c r k)) rs) k = (k', None) \<Longrightarrow>
   inv k' \<and> chain t c k' = chain t c k @ rs \<and> (\<forall>t' c'. c' \<noteq> c \<longrightarrow> chain t' c' k' = chain t' c' k)"
proof (induction rs arbitrary: k)
  case (Cons r rs)
  obtain k1 e1 where a: "pd_AppendUnique D t c r k = (k1, e1)" by fastforce
  with Cons.prems(5) have "e1 = None" and rest: "in_sequence (map (\<lambda>r k. apsnd (wrap m) (pd_AppendUnique D t c r k)) rs) k1 = (k', None)"
    by (cases e1; simp)+
  with AppendUnique_ok [OF Cons.prems(1), of r t c k1] a Cons.prems(2,4)
  have k1: "inv k1" "chain t c k1 = chain t c k @ [r]" "\<forall>t' c'. c' \<noteq> c \<longrightarrow> chain t' c' k1 = chain t' c' k" by auto
  from Cons.IH [OF k1(1) _ _ _ rest] Cons.prems(2-4) k1 show ?case by auto
qed simp

lemma delete_all:
  "inv k \<Longrightarrow> \<forall>r\<in>set rs. supported r \<Longrightarrow> distinct rs \<Longrightarrow> set rs \<inter> set xs = {} \<Longrightarrow> chain t c k = xs @ rs \<Longrightarrow>
   in_sequence (map (\<lambda>r k. apsnd (wrap m) (pd_Delete D t c r k)) rs) k = (k', None) \<Longrightarrow>
   chain t c k' = xs \<and> (\<forall>t' c'. c' \<noteq> c \<longrightarrow> chain t' c' k' = chain t' c' k)"
proof (induction rs arbitrary: k)
  case (Cons r rs)
  obtain k1 e1 where a: "pd_Delete D t c r k = (k1, e1)" by fastforce
  with Cons.prems(6) have "e1 = None" and rest: "in_sequence (map (\<lambda>r k. apsnd (wrap m) (pd_Delete D t c r k)) rs) k1 = (k', None)"
    by (cases e1; simp)+
  with Delete_ok [OF Cons.prems(1), of r t c k1] a Cons.prems(2,4,5)
  have k1: "inv k1" "chain t c k1 = xs @ rs" "\<forall>t' c'. c' \<noteq> c \<longrightarrow> chain t' c' k1 = chain t' c' k" by (auto simp: remove1_append)
  from Cons.IH [OF k1(1) _ _ _ k1(2) rest] Cons.prems(2-4) k1 show ?case by auto
qed simp

end

lemma cluster_rules_distinct:
  assumes "distinct (kp_localClusterCidr kp)" "c \<notin> set (kp_localClusterCidr kp)"
  shows "distinct (cluster_rules kp c)"
proof -
  have "distinct (concat (map (\<lambda>l. [accept_rule l c, accept_rule c l]) ls))" if "distinct ls" "c \<notin> set ls" for ls
    using that by (induction ls) (auto simp: accept_rule_def zero_rule_def)
  then show ?thesis using assms by (simp add: cluster_rules_def)
qed

text \<open>C23: Through the nftables driver, the rules that exempt the traffic between the local networks and a remote subnet from translation are put
  at the end of the chain, one for each direction and local network, and removing them leaves every chain as it was before. The rules are
  taken to be new to the chain.\<close>

theorem cluster_rules_round_trip:
  assumes "nft_ok N rules" and "nft_inv rules k" and "kh_filter H = nftDriver N v6" and "\<forall>r\<in>set (cluster_rules kp c). clean_rule r"
    and "distinct (kp_localClusterCidr kp)" and "c \<notin> set (kp_localClusterCidr kp)"
    and "set (cluster_rules kp c) \<inter> set (nft_chain rules TableTypeNAT SmPostRouting k) = {}"
    and "programIptableRulesForInterClusterTraffic H kp c Add k = (k1, None)"
    and "programIptableRulesForInterClusterTraffic H kp c Delete k1 = (k2, None)"
  shows "nft_chain rules TableTypeNAT SmPostRouting k1 = nft_chain rules TableTypeNAT SmPostRouting k @ cluster_rules kp c \<and>
    nft_chain rules TableTypeNAT chain k2 = nft_chain rules TableTypeNAT chain k"
proof -
  note D = nftables_nat_driver [OF assms(1), of v6]
  note d = cluster_rules_distinct [OF assms(5,6)]
  have a: "in_sequence (map (\<lambda>r k. apsnd (wrap ''error appending packetfilter rule'') (pd_AppendUnique (nftDriver N v6) TableTypeNAT SmPostRouting r k))
      (cluster_rules kp c)) k = (k1, None)" using assms(3,8) by (simp add: programIptableRulesForInterClusterTraffic_def)
  have b: "in_sequence (map (\<lambda>r k. apsnd (wrap ''error deleting packetfilter rule'') (pd_Delete (nftDriver N v6) TableTypeNAT SmPostRouting r k))
      (cluster_rules kp c)) k1 = (k2, None)" using assms(3,9) by (simp add: programIptableRulesForInterClusterTraffic_def)
  note s1 = nat_driver.append_all [OF D assms(2,4) d assms(7) a]
  note s2 = nat_driver.delete_all [OF D conjunct1 [OF s1] assms(4) d assms(7) conjunct1 [OF conjunct2 [OF s1]] b]
  show ?thesis using s1 s2 by (cases "chain = SmPostRouting") auto
qed

definition nft_kp_host :: "ref_table kpHost" where
  "nft_kp_host = \<lparr>kh_link = idle_link, kh_net = idle_nl, kh_filter = nftDriver (ref_nft []) False, kh_Hostname = (\<lambda>_. Inr ''node''), kh_order = rev\<rparr>"

definition kp_table :: ref_table where
  "kp_table = [SmPostRouting \<mapsto> [(4, SerializeRule (accept_rule ''10.1.0.0/16'' ''10.3.0.0/16''))]]"

lemma kp_table_inv: "nft_inv ref_rules kp_table"
proof -
  have "clean_rule (accept_rule ''10.1.0.0/16'' ''10.3.0.0/16'')" by code_simp
  then show ?thesis by (auto simp: nft_inv_def ref_rules_def kp_table_def)
qed

theorem cluster_rules_round_trip_witness:
  "let k1 = fst (programIptableRulesForInterClusterTraffic nft_kp_host example_kp ''10.2.0.0/16'' Add kp_table);
       k2 = fst (programIptableRulesForInterClusterTraffic nft_kp_host example_kp ''10.2.0.0/16'' Delete k1) in
   nft_chain ref_rules TableTypeNAT SmPostRouting k1 = [accept_rule ''10.1.0.0/16'' ''10.3.0.0/16'',
     accept_rule ''10.1.0.0/16'' ''10.2.0.0/16'', accept_rule ''10.2.0.0/16'' ''10.1.0.0/16''] \<and>
   nft_chain ref_rules TableTypeNAT SmPostRouting k2 = [accept_rule ''10.1.0.0/16'' ''10.3.0.0/16'']"
proof -
  let ?c = "''10.2.0.0/16''"
  let ?p = "programIptableRulesForInterClusterTraffic nft_kp_host example_kp ?c Add kp_table"
  let ?q = "programIptableRulesForInterClusterTraffic nft_kp_host example_kp ?c Delete (fst ?p)"
  have l: "kp_localClusterCidr example_kp = [''10.1.0.0/16'']" by code_simp
  have r: "cluster_rules example_kp ?c = [accept_rule ''10.1.0.0/16'' ?c, accept_rule ?c ''10.1.0.0/16'']" by (simp add: cluster_rules_def l)
  have c: "\<forall>r\<in>set (cluster_rules example_kp ?c). clean_rule r" unfolding r by code_simp
  have d: "distinct (kp_localClusterCidr example_kp)" "?c \<notin> set (kp_localClusterCidr example_kp)" unfolding l by simp_all
  have t: "nft_chain ref_rules TableTypeNAT SmPostRouting kp_table = [accept_rule ''10.1.0.0/16'' ''10.3.0.0/16'']" by code_simp
  have i: "set (cluster_rules example_kp ?c) \<inter> set (nft_chain ref_rules TableTypeNAT SmPostRouting kp_table) = {}"
    unfolding r t by (simp add: accept_rule_def zero_rule_def)
  have f: "kh_filter nft_kp_host = nftDriver (ref_nft []) False" by (simp add: nft_kp_host_def)
  have "snd ?p = None" "snd ?q = None" by code_simp+
  then have pq: "?p = (fst ?p, None)" "?q = (fst ?q, None)" by (metis prod.collapse)+
  from cluster_rules_round_trip [OF ref_nft_ok kp_table_inv f c d i pq, of SmPostRouting] show ?thesis unfolding r t by (simp add: Let_def)
qed

section \<open>A host network route that stays\<close>

text \<open>The packet filter has nothing to do with the routes.\<close>

definition filter_keeps :: "'k pfDriver \<Rightarrow> ('k \<Rightarrow> 'r) \<Rightarrow> bool" where
  "filter_keeps D table \<longleftrightarrow> (\<forall>t c r k. table (fst (pd_AppendUnique D t c r k)) = table k \<and> table (fst (pd_Delete D t c r k)) = table k)"

lemma in_sequence_keeps: "(\<And>f k. f \<in> set fs \<Longrightarrow> table (fst (f k)) = table k) \<Longrightarrow> table (fst (in_sequence fs k)) = table k"
proof (induction fs arbitrary: k)
  case (Cons f fs)
  obtain k1 e where f: "f k = (k1, e)" by fastforce
  from Cons.prems [of f k] f have "table k1 = table k" by simp
  with Cons.IH [of k1] Cons.prems f show ?case by (cases e) auto
qed simp

lemma cluster_traffic_keeps:
  assumes "filter_keeps (kh_filter H) table"
  shows "table (updateIptableRulesForInterClusterTraffic H kp cs operation k) = table k"
proof -
  have "table (fst (programIptableRulesForInterClusterTraffic H kp c operation k)) = table k" for c k
    using assms unfolding programIptableRulesForInterClusterTraffic_def filter_keeps_def
    by (cases operation) (auto intro!: in_sequence_keeps)
  then show ?thesis by (induction cs arbitrary: k) simp_all
qed

text \<open>C39: On the gateway, the creation of a remote endpoint whose subnet contains the address of its gateway adds a route of the host network
  with that gateway's next hop. The removal of the endpoint forgets the gateway before it deletes the route, so it names a route of link
  scope without a next hop: on a host that only deletes routes of the given scope, and whose packet filter does not touch the routes, the
  route that was added stays, while the handler knows neither the subnet nor the route any more and reports no error.\<close>

theorem host_route_stays:
  assumes "kp_isOnGateway kp" and "kp_cniIface kp = Some cni" and "c \<notin> set (kp_routeCacheGWNode kp)"
    and "ExtractSubnets L (kp_ipFamily kp) (Subnets (ep_Spec endpoint)) = [c]"
    and "OverlappingSubnets (kp_localServiceCidr kp) (kp_localClusterCidr kp) [c] = None"
    and "ParseCIDR c = Some n" and "GatewayIP L (kp_ipFamily kp) (ep_Spec endpoint) = Some a" and "Contains n a"
    and "netlink_RouteGet (kh_net H) (Some a) k = (k1, Inr (g # gs))"
    and "r = host_route H kp cni n (Some (nr_Gw g)) k1"
    and "nl_RouteAdd (kh_net H) r k1 = (k2, None)" and "r \<in> table k2"
    and "\<And>x y k. x \<in> table k \<Longrightarrow> nr_Scope x \<noteq> nr_Scope y \<Longrightarrow> x \<in> table (fst (nl_RouteDel (kh_net H) y k))"
    and "filter_keeps (kh_filter H) table"
    and "kp_RemoteEndpointCreated L H endpoint (kp, k) = ((kp', k'), e)"
    and "kp_RemoteEndpointRemoved L H endpoint (kp', k') = ((kp'', k''), e')"
  shows "c \<in> set (kp_routeCacheGWNode kp') \<and> r \<in> table k' \<and> e = None \<and>
    c \<notin> set (kp_remoteSubnets kp'') \<and> c \<notin> set (kp_routeCacheGWNode kp'') \<and> r \<in> table k'' \<and> e' = None"
proof -
  note defs = program_subnets_def updateRoutingRulesForInterClusterSupport_def updateRoutingRulesForHostNetworkSupport_def
    updateRoutingRulesForCIDRBlock_def via_gateway_def configureRoute_def Let_def
  let ?kp = "(record_subnets (Some a) [c] kp)\<lparr>kp_routeCacheGWNode := List.insert c (kp_routeCacheGWNode kp)\<rparr>"
  have rec: "kp_isOnGateway (record_subnets (Some a) [c] kp)" "kp_cniIface (record_subnets (Some a) [c] kp) = Some cni"
    "kp_routeCacheGWNode (record_subnets (Some a) [c] kp) = kp_routeCacheGWNode kp"
    "kp_remoteSubnetGw (record_subnets (Some a) [c] kp) c = Some (Some a)" "kp_ipFamily (record_subnets (Some a) [c] kp) = kp_ipFamily kp"
    using assms(1,2) by (simp_all add: record_subnets_def)
  have gw: "isGatewayInRemoteCIDR (record_subnets (Some a) [c] kp) c = Some True"
    using assms(6,8) rec(4) by (simp add: isGatewayInRemoteCIDR_def)
  have hr: "host_route H ?kp cni n (Some (nr_Gw g)) k1 = r"
    unfolding assms(10) by (simp add: host_route_def record_subnets_def split: sum.split)
  have add: "kp' = ?kp" "k' = updateIptableRulesForInterClusterTraffic H ?kp [c] Add k2" "e = None"
    using assms(3-7,9,11,15) rec gw hr by (auto simp: kp_RemoteEndpointCreated_def defs)
  have k': "r \<in> table k'" using assms(12) by (simp only: add(2) cluster_traffic_keeps [OF assms(14)])
  let ?kq = "forget_subnets [c] kp'"
  have q: "kp_isOnGateway ?kq" "kp_cniIface ?kq = Some cni" "kp_routeCacheGWNode ?kq = List.insert c (kp_routeCacheGWNode kp)"
    "isGatewayInRemoteCIDR ?kq c = Some False" "kp_ipFamily kp' = kp_ipFamily kp" "c \<notin> set (kp_remoteSubnets ?kq)"
    using rec by (simp_all add: add(1) forget_subnets_def isGatewayInRemoteCIDR_def)
  let ?kr = "?kq\<lparr>kp_routeCacheGWNode := removeAll c (kp_routeCacheGWNode ?kq)\<rparr>"
  let ?rr = "host_route H ?kr cni n None k'"
  have del: "kp'' = ?kr" "k'' = updateIptableRulesForInterClusterTraffic H ?kr [c] Delete (fst (nl_RouteDel (kh_net H) ?rr k'))" "e' = None"
    using assms(4,6,16) q by (auto simp: kp_RemoteEndpointRemoved_def defs)
  have "nr_Scope r \<noteq> nr_Scope ?rr"
    using assms(10) by (simp add: host_route_def RT_SCOPE_LINK_def RT_SCOPE_UNIVERSE_def)
  from assms(13) [OF k' this] have "r \<in> table k''" by (simp only: del(2) cluster_traffic_keeps [OF assms(14)])
  then show ?thesis using add(1,3) del(1,3) q k' by simp
qed

text \<open>A host that finds its way to a gateway by \<open>192.168.1.1\<close> and deletes routes of the same destination, scope and next hop.\<close>

definition scoped_nl :: "ref_routes nlLib" where
  "scoped_nl = ref_nl\<lparr>
     nl_RouteGet := (\<lambda>_ k. (k, Inr [vx_route 2 (ParseIP ''192.168.1.1'') (net_10 0)])),
     nl_RouteDel := (\<lambda>r k. (filter (\<lambda>x. \<not> (nr_Dst x = nr_Dst r \<and> nr_Scope x = nr_Scope r \<and> nr_Gw x = nr_Gw r)) k, None))\<rparr>"

definition gateway_host :: "ref_routes kpHost" where
  "gateway_host = ref_kp_host\<lparr>kh_net := scoped_nl\<rparr>"

definition gateway_kp :: SyncHandler where
  "gateway_kp = (NewSyncHandler GoNet.ref_libs IPv4 [''10.1.0.0/16''] [''100.1.0.0/16''])\<lparr>kp_isOnGateway := True,
     kp_cniIface := Some \<lparr>ci_Name = ''cni0'', ci_IPAddress = ''10.1.0.1''\<rparr>\<rparr>"

definition inside_endpoint :: Endpoint where
  "inside_endpoint = example_endpoint\<lparr>ep_Spec :=
     example_spec\<lparr>Subnets := [''10.2.0.0/16''], PublicIP := ''10.2.0.9'', PublicIPs := [''10.2.0.9'']\<rparr>\<rparr>"


theorem host_route_stays_witness:
  "let s1 = fst (kp_RemoteEndpointCreated GoNet.ref_libs gateway_host inside_endpoint (gateway_kp, []));
       s2 = fst (kp_RemoteEndpointRemoved GoNet.ref_libs gateway_host inside_endpoint s1) in
   kp_remoteSubnets (fst s1) = [''10.2.0.0/16''] \<and> kp_remoteSubnets (fst s2) = [] \<and> kp_routeCacheGWNode (fst s2) = [] \<and>
   host_route gateway_host gateway_kp \<lparr>ci_Name = ''cni0'', ci_IPAddress = ''10.1.0.1''\<rparr> (net_10 2) (Some (ParseIP ''192.168.1.1'')) [] \<in> set (snd s2)"
proof -
  let ?c = "''10.2.0.0/16''" and ?cni = "\<lparr>ci_Name = ''cni0'', ci_IPAddress = ''10.1.0.1''\<rparr>"
  let ?a = "IP4 (word_of_nat (10 * 16777216 + 2 * 65536 + 9))" and ?g = "vx_route 2 (ParseIP ''192.168.1.1'') (net_10 0)"
  let ?r = "host_route gateway_host gateway_kp ?cni (net_10 2) (Some (nr_Gw ?g)) []"
  let ?p = "kp_RemoteEndpointCreated GoNet.ref_libs gateway_host inside_endpoint (gateway_kp, [])"
  let ?q = "kp_RemoteEndpointRemoved GoNet.ref_libs gateway_host inside_endpoint (fst (fst ?p), snd (fst ?p))"
  have kp: "kp_isOnGateway gateway_kp" "kp_cniIface gateway_kp = Some ?cni" "?c \<notin> set (kp_routeCacheGWNode gateway_kp)"
    by (simp_all add: gateway_kp_def NewSyncHandler_def)
  have sub: "ExtractSubnets GoNet.ref_libs (kp_ipFamily gateway_kp) (Subnets (ep_Spec inside_endpoint)) = [?c]" by code_simp
  have over: "OverlappingSubnets (kp_localServiceCidr gateway_kp) (kp_localClusterCidr gateway_kp) [?c] = None" by code_simp
  have n: "ParseCIDR ?c = Some (net_10 2)" "GatewayIP GoNet.ref_libs (kp_ipFamily gateway_kp) (ep_Spec inside_endpoint) = Some ?a"
    "Contains (net_10 2) ?a" by code_simp+
  have get: "netlink_RouteGet (kh_net gateway_host) (Some ?a) [] = ([], Inr (?g # []))"
    by (simp add: netlink_RouteGet_def retryOnInterrupted_def retry_interrupted.simps gateway_host_def scoped_nl_def)
  have add: "nl_RouteAdd (kh_net gateway_host) ?r [] = ([?r], None)" by (simp add: gateway_host_def scoped_nl_def ref_nl_def)
  have mem: "?r \<in> set [?r]" by simp
  have del: "\<And>x y k. x \<in> set k \<Longrightarrow> nr_Scope x \<noteq> nr_Scope y \<Longrightarrow> x \<in> set (fst (nl_RouteDel (kh_net gateway_host) y k))"
    by (simp add: gateway_host_def scoped_nl_def)
  have filter: "filter_keeps (kh_filter gateway_host) set" by (simp add: filter_keeps_def gateway_host_def ref_kp_host_def idle_filter_def)
  have p: "?p = ((fst (fst ?p), snd (fst ?p)), snd ?p)" "?q = ((fst (fst ?q), snd (fst ?q)), snd ?q)" by simp_all
  have gw: "nr_Gw ?g = ParseIP ''192.168.1.1''" by (simp add: vx_route_def)
  have "kp_remoteSubnets (fst (fst ?p)) = [?c]" "kp_remoteSubnets (fst (fst ?q)) = []" "kp_routeCacheGWNode (fst (fst ?q)) = []"
    by code_simp+
  with host_route_stays [where table = set, OF kp sub over n get refl add mem del filter p] show ?thesis by (simp add: Let_def gw)
qed

end
