(* ===== verification/GoRegexp.thy ===== *)
theory GoRegexp
  imports GoStd
begin

text \<open>
  What the code uses of Go's \<open>regexp\<close>: the leftmost match, and at one position the match that a backtracking search prefers. \<open>rx_ends\<close> lists what
  may follow a match at the start of a text, the preferred one first: an alternative before the next one, and more repetitions before
  fewer. A repetition without an upper bound is cut at the length of the text, which is enough for expressions that match no
  empty text.
\<close>

datatype rx =
    Class "char \<Rightarrow> bool"
  | Seq rx rx
  | Alt rx rx
  | Rep rx nat nat      \<comment> \<open>\<open>x{m,n}\<close>, greedy\<close>
  | Plus rx             \<comment> \<open>\<open>x+\<close>, greedy\<close>

fun rep_ends :: "(string \<Rightarrow> string list) \<Rightarrow> nat \<Rightarrow> nat \<Rightarrow> string \<Rightarrow> string list" where
  "rep_ends m lo 0 s = (if lo = 0 then [s] else [])"
| "rep_ends m lo (Suc hi) s = concat (map (rep_ends m (lo - 1) hi) (m s)) @ (if lo = 0 then [s] else [])"

primrec rx_ends :: "rx \<Rightarrow> string \<Rightarrow> string list" where
  "rx_ends (Class p) s = (case s of [] \<Rightarrow> [] | c # cs \<Rightarrow> if p c then [cs] else [])"
| "rx_ends (Seq a b) s = concat (map (rx_ends b) (rx_ends a s))"
| "rx_ends (Alt a b) s = rx_ends a s @ rx_ends b s"
| "rx_ends (Rep r lo hi) s = rep_ends (rx_ends r) lo hi s"
| "rx_ends (Plus r) s = rep_ends (rx_ends r) 1 (length s) s"

text \<open>The first match in a text, \<open>FindAllString(s, -1)[0]\<close>.\<close>

fun rx_find :: "rx \<Rightarrow> string \<Rightarrow> string option" where
  "rx_find r s = (case rx_ends r s of
      e # _ \<Rightarrow> Some (take (length s - length e) s)
    | [] \<Rightarrow> (case s of [] \<Rightarrow> None | _ # cs \<Rightarrow> rx_find r cs))"

declare rx_find.simps [simp del]

definition rx_char :: "char \<Rightarrow> rx" where
  "rx_char c = Class (\<lambda>x. x = c)"

definition rx_opt :: "rx \<Rightarrow> rx" where
  "rx_opt r = Rep r 0 1"

fun rx_seq :: "rx list \<Rightarrow> rx" where
  "rx_seq [] = Rep (Class (\<lambda>_. False)) 0 0"
| "rx_seq [r] = r"
| "rx_seq (r # s # rs) = Seq r (rx_seq (s # rs))"

fun rx_alt :: "rx list \<Rightarrow> rx" where
  "rx_alt [] = Class (\<lambda>_. False)"
| "rx_alt [r] = r"
| "rx_alt (r # s # rs) = Alt r (rx_alt (s # rs))"

text \<open>A text without regard to case.\<close>

definition rx_word :: "string \<Rightarrow> rx" where
  "rx_word w = rx_seq (map (\<lambda>c. Class (\<lambda>x. char_to_lower x = char_to_lower c)) w)"

section \<open>Greedy repetition\<close>

text \<open>A text from which an expression has one way to proceed, for as many steps as there are texts in the list.\<close>

fun follows :: "(string \<Rightarrow> string list) \<Rightarrow> string \<Rightarrow> string list \<Rightarrow> string \<Rightarrow> bool" where
  "follows m s [] t \<longleftrightarrow> s = t"
| "follows m s (x # xs) t \<longleftrightarrow> m s = [x] \<and> follows m x xs t"

lemma rep_ends_greedy:
  "follows m s xs t \<Longrightarrow> m t = [] \<or> length xs = hi \<Longrightarrow> lo \<le> length xs \<Longrightarrow> length xs \<le> hi \<Longrightarrow> \<exists>r. rep_ends m lo hi s = t # r"
proof (induction xs arbitrary: s lo hi)
  case Nil
  then show ?case by (cases hi) auto
next
  case (Cons x xs)
  then obtain h where h: "hi = Suc h" by (cases hi) auto
  have "lo - 1 \<le> length xs" using Cons.prems(3) by simp
  with h Cons.prems Cons.IH [of x h "lo - 1"] obtain r where "rep_ends m (lo - 1) h x = t # r" by auto
  with h Cons.prems show ?case by simp
qed

lemma rep_ends_short: "follows m s xs t \<Longrightarrow> m t = [] \<Longrightarrow> length xs < lo \<Longrightarrow> rep_ends m lo hi s = []"
proof (induction xs arbitrary: s lo hi)
  case Nil
  then show ?case by (cases hi) auto
next
  case (Cons x xs)
  then show ?case by (cases hi) auto
qed

text \<open>A run of characters of a class that ends with another character.\<close>

fun suffixes_of :: "string \<Rightarrow> string \<Rightarrow> string list" where
  "suffixes_of [] t = []"
| "suffixes_of (c # cs) t = (cs @ t) # suffixes_of cs t"

lemma suffixes_of_length [simp]: "length (suffixes_of w t) = length w"
  by (induction w) auto

lemma class_follows: "list_all p w \<Longrightarrow> follows (rx_ends (Class p)) (w @ t) (suffixes_of w t) t"
  by (induction w) auto

definition stops :: "(char \<Rightarrow> bool) \<Rightarrow> string \<Rightarrow> bool" where
  "stops p t \<longleftrightarrow> (case t of [] \<Rightarrow> True | c # _ \<Rightarrow> \<not> p c)"

lemma stops_class: "rx_ends (Class p) t = [] \<longleftrightarrow> stops p t"
  by (cases t) (auto simp: stops_def)

lemma class_rep_greedy:
  "list_all p w \<Longrightarrow> stops p t \<Longrightarrow> lo \<le> length w \<Longrightarrow> length w \<le> hi \<Longrightarrow> \<exists>r. rx_ends (Rep (Class p) lo hi) (w @ t) = t # r"
  using rep_ends_greedy [OF class_follows [of p w t], of hi lo] stops_class [of p t] by simp

text \<open>A run that is followed by a separator has one match.\<close>

lemma run_separator:
  "list_all p w \<Longrightarrow> \<not> p c \<Longrightarrow>
   concat (map (rx_ends (rx_char c)) (rep_ends (rx_ends (Class p)) lo hi (w @ c # t))) = (if lo \<le> length w \<and> length w \<le> hi then [t] else [])"
proof (induction w arbitrary: lo hi)
  case Nil
  then show ?case by (cases hi) (auto simp: rx_char_def)
next
  case (Cons x w)
  then have "x \<noteq> c" by auto
  with Cons show ?case by (cases hi) (auto simp: rx_char_def)
qed

lemma run_none:
  "stops p t \<Longrightarrow> 0 < lo \<Longrightarrow> rx_ends (Seq (Rep (Class p) lo hi) r) t = []"
  using rep_ends_short [of "rx_ends (Class p)" t "[]" t lo hi] stops_class [of p t] by simp

lemma rx_find_here: "rx_ends r (w @ t) = t # es \<Longrightarrow> rx_find r (w @ t) = Some w"
  by (simp add: rx_find.simps)

lemma rx_find_skip:
  "(\<And>c s. c \<in> set pre \<Longrightarrow> rx_ends r (c # s) = []) \<Longrightarrow> rx_find r (pre @ s) = rx_find r s"
  by (induction pre) (simp_all add: rx_find.simps [of r "_ # _"])

end
