(* ===== verification/PublicIP.thy ===== *)
theory PublicIP
  imports GoRegexp LocalEndpoint Netlink
begin

text \<open>
  \<open>endpoint/public_ip.go\<close>, \<open>public_ip_watcher.go\<close> and \<open>local_ip.go\<close>: how a gateway finds its own addresses. A public address comes from the
  configuration, from web services, from the DNS or from a load balancer; the HTTP client, the resolver, the API server, the
  context of the request and the shuffling of the services are the record \<open>ipEnv\<close>. Of several joined errors the first is kept.
\<close>

section \<open>Addresses in a text\<close>

definition rx_digit :: rx where
  "rx_digit = Class is_digit"

definition is_hex :: "char \<Rightarrow> bool" where
  "is_hex c \<longleftrightarrow> is_digit c \<or> char_to_lower c \<in> set ''abcdef''"

definition IPv4RE :: rx where
  "IPv4RE = Seq (Rep (Seq (Rep rx_digit 1 3) (rx_char (CHR ''.''))) 3 3) (Rep rx_digit 1 3)"

text \<open>The parts of \<open>IPv6RE\<close>: a group, a group and a colon, a colon and a group.\<close>

definition rx_hex :: rx where
  "rx_hex = Rep (Class is_hex) 1 4"

definition rx_colon :: rx where
  "rx_colon = rx_char (CHR '':'')"

definition hex_colon :: rx where
  "hex_colon = Seq rx_hex rx_colon"

definition colon_hex :: rx where
  "colon_hex = Seq rx_colon rx_hex"

definition digit_between :: "char \<Rightarrow> char \<Rightarrow> rx" where
  "digit_between a b = Class (\<lambda>c. is_digit c \<and> digit_val a \<le> digit_val c \<and> digit_val c \<le> digit_val b)"

definition rx_25x :: rx where
  "rx_25x = rx_seq [rx_char (CHR ''2''), rx_char (CHR ''5''), digit_between (CHR ''0'') (CHR ''5'')]"

definition rx_2xx :: rx where
  "rx_2xx = rx_seq [rx_char (CHR ''2''), digit_between (CHR ''0'') (CHR ''4''), rx_digit]"

definition rx_1xx :: "rx list" where
  "rx_1xx = [rx_opt (digit_between (CHR ''0'') (CHR ''1'')), rx_digit, rx_opt rx_digit]"

text \<open>The dot belongs to the last alternative of an octet only, as it is written there.\<close>

definition rx_octet_dot :: rx where
  "rx_octet_dot = rx_alt [rx_25x, rx_2xx, rx_seq (rx_1xx @ [rx_char (CHR ''.'')])]"

definition rx_octet :: rx where
  "rx_octet = rx_alt [rx_25x, rx_2xx, rx_seq rx_1xx]"

definition is_alnum :: "char \<Rightarrow> bool" where
  "is_alnum c \<longleftrightarrow> is_digit c \<or> (97 \<le> (of_char (char_to_lower c) :: nat) \<and> (of_char (char_to_lower c) :: nat) \<le> 122)"

definition IPv6RE :: rx where
  "IPv6RE = rx_alt [
     Seq (Rep hex_colon 7 7) rx_hex,
     Seq (Rep hex_colon 1 6) (Seq rx_colon (rx_opt rx_hex)),
     Seq (Rep hex_colon 1 5) (Rep colon_hex 1 2),
     Seq (Rep hex_colon 1 4) (Rep colon_hex 1 3),
     Seq (Rep hex_colon 1 3) (Rep colon_hex 1 4),
     Seq (Rep hex_colon 1 2) (Rep colon_hex 1 5),
     Seq rx_hex (Rep colon_hex 1 6),
     rx_seq [rx_colon, rx_colon, Rep hex_colon 1 7],
     rx_seq [rx_colon, rx_colon, Rep rx_hex 1 7],
     rx_seq [rx_word ''fe80:'', Rep (Seq rx_colon (Rep (Class is_hex) 0 4)) 0 4, rx_char (CHR ''%''), Plus (Class is_alnum)],
     rx_seq [rx_colon, rx_colon,
       rx_opt (rx_seq [rx_word ''ffff'', rx_opt (Seq rx_colon (Rep (rx_char (CHR ''0'')) 1 4)), rx_colon]), Rep rx_octet_dot 3 3, rx_octet],
     rx_seq [Rep hex_colon 1 4, rx_colon, Rep rx_octet_dot 3 3, rx_octet],
     rx_seq [Rep hex_colon 1 7, rx_opt rx_colon, rx_hex]]"

definition firstIPInString :: "IPFamily \<Rightarrow> string \<Rightarrow> string result" where
  "firstIPInString family body = (case rx_find (if family = IPv4 then IPv4RE else IPv6RE) body of
      None \<Rightarrow> Inl (Err ''no address found'') | Some m \<Rightarrow> Inr m)"

section \<open>The environment\<close>

record lbIngress =
  li_IP :: string
  li_Hostname :: string

record 'k ipEnv =
  pe_Get :: "string \<Rightarrow> 'k \<Rightarrow> 'k \<times> string result result"      \<comment> \<open>an HTTP request, then reading the body of the response\<close>
  pe_LookupIP :: "string \<Rightarrow> string \<Rightarrow> 'k \<Rightarrow> 'k \<times> ip list result"
  pe_GetService :: "string \<Rightarrow> string \<Rightarrow> 'k \<Rightarrow> 'k \<times> lbIngress list result"   \<comment> \<open>the ingresses in the status of a service\<close>
  pe_ctxErr :: "'k \<Rightarrow> err option"
  pe_sleep :: "nat \<Rightarrow> 'k \<Rightarrow> 'k"         \<comment> \<open>the wait after the given number of attempts, or until the context ends\<close>
  pe_shuffle :: "string list \<Rightarrow> 'k \<Rightarrow> string list"

section \<open>Resolvers\<close>

definition ip_number :: "ip \<Rightarrow> nat" where
  "ip_number a = (case a of IP4 w \<Rightarrow> unat w | IP6 w \<Rightarrow> unat w)"

definition publicDNSIP :: "libs \<Rightarrow> 'k ipEnv \<Rightarrow> IPFamily \<Rightarrow> string \<Rightarrow> 'k \<Rightarrow> 'k \<times> string result" where
  "publicDNSIP L E family fqdn k = (case pe_LookupIP E (''ip'' @ family_str family) fqdn k of
      (k', Inl e) \<Rightarrow> (k', Inl (Wrapped ''error resolving DNS hostname for public IP'' e))
    | (k', Inr ips) \<Rightarrow> (k', Inr (case sort_key ip_number (filter (\<lambda>a. IPFamilyOf L a = family) ips) of
          [] \<Rightarrow> [] | a # _ \<Rightarrow> ip_String a)))"

definition publicAPI :: "'k ipEnv \<Rightarrow> IPFamily \<Rightarrow> string \<Rightarrow> 'k \<Rightarrow> 'k \<times> string result" where
  "publicAPI E family v k = (case pe_Get E (if has_prefix v ''http'' then v else ''https://'' @ v) k of
      (k', Inl e) \<Rightarrow> (k', Inl (Wrapped ''error retrieving public IP'' e))
    | (k', Inr (Inl e)) \<Rightarrow> (k', Inl (Wrapped ''error reading API response'' e))
    | (k', Inr (Inr body)) \<Rightarrow> (k', firstIPInString family body))"

definition publicIP :: "IPFamily \<Rightarrow> string \<Rightarrow> 'k \<Rightarrow> 'k \<times> string result" where
  "publicIP family v k = (k, firstIPInString family v)"

text \<open>The loop over the ingresses with a host name: None when no name gave an address.\<close>

fun resolve_hostnames :: "(string \<Rightarrow> 'k \<Rightarrow> 'k \<times> string result) \<Rightarrow> lbIngress list \<Rightarrow> 'k \<Rightarrow> 'k \<times> string option result" where
  "resolve_hostnames resolver [] k = (k, Inr None)"
| "resolve_hostnames resolver (i # is) k =
     (if li_Hostname i = [] then resolve_hostnames resolver is k
      else (case resolver (li_Hostname i) k of
          (k', Inl e) \<Rightarrow> (k', Inl e)
        | (k', Inr a) \<Rightarrow> if a \<noteq> [] then (k', Inr (Some a)) else resolve_hostnames resolver is k'))"

definition no_ingress_ip :: err where
  "no_ingress_ip = Err ''no IP or Hostname resolved for service LoadBalancer''"

definition resolveIngressIP ::
  "libs \<Rightarrow> IPFamily \<Rightarrow> lbIngress list \<Rightarrow> (string \<Rightarrow> 'k \<Rightarrow> 'k \<times> string result) option \<Rightarrow> 'k \<Rightarrow> 'k \<times> string \<times> bool \<times> err option" where
  "resolveIngressIP L family ingresses hostnameResolver k =
     (case find (\<lambda>i. li_IP i \<noteq> [] \<and> IPFamilyOfString L (li_IP i) = family) ingresses of
        Some i \<Rightarrow> (k, li_IP i, True, None)
      | None \<Rightarrow> (case hostnameResolver of
          None \<Rightarrow> if \<exists>i\<in>set ingresses. li_IP i \<noteq> [] then (k, [], False, Some no_ingress_ip) else (k, [], True, None)
        | Some resolver \<Rightarrow> (case resolve_hostnames resolver ingresses k of
            (k', Inl e) \<Rightarrow> (k', [], False, Some e)
          | (k', Inr (Some a)) \<Rightarrow> (k', a, True, None)
          | (k', Inr None) \<Rightarrow> (k', [], False, Some no_ingress_ip))))"

text \<open>
  \<open>wait.ExponentialBackoffWithContext\<close> with 24 steps: the context is looked at before every attempt; the cap of the wait is not reached within
  them. The loop carries the last error of an attempt. Its own errors are those that \<open>wait.Interrupted\<close> recognizes.
\<close>

definition LoadBalancerRetrySteps :: nat where "LoadBalancerRetrySteps = 24"

definition ErrWaitTimeout :: err where "ErrWaitTimeout = Sentinel ''timed out waiting for the condition''"

definition lb_attempt ::
  "libs \<Rightarrow> 'k ipEnv \<Rightarrow> IPFamily \<Rightarrow> string \<Rightarrow> string \<Rightarrow> (string \<Rightarrow> 'k \<Rightarrow> 'k \<times> string result) option \<Rightarrow> 'k \<Rightarrow> 'k \<times> string \<times> bool \<times> err option" where
  "lb_attempt L E family namespace lb hostnameResolver k = (case pe_GetService E namespace lb k of
      (k', Inl e) \<Rightarrow> (k', [], False, Some (Wrapped ''error getting service for the public IP address'' e))
    | (k', Inr []) \<Rightarrow> (k', [], False, Some (Err ''service doesn't contain any LoadBalancer ingress yet''))
    | (k', Inr (i # is)) \<Rightarrow> resolveIngressIP L family (i # is) hostnameResolver k')"

fun lb_loop :: "'k ipEnv \<Rightarrow> ('k \<Rightarrow> 'k \<times> string \<times> bool \<times> err option) \<Rightarrow> nat \<Rightarrow> err option \<Rightarrow> 'k \<Rightarrow> 'k \<times> string result" where
  "lb_loop E attempt 0 lastErr k = (k, Inl (case lastErr of Some e \<Rightarrow> e | None \<Rightarrow> Wrapped ''error resolving service LoadBalancer'' ErrWaitTimeout))"
| "lb_loop E attempt (Suc n) lastErr k = (case pe_ctxErr E k of
      Some e \<Rightarrow> (k, Inl (case lastErr of Some l \<Rightarrow> l | None \<Rightarrow> Wrapped ''error resolving service LoadBalancer'' e))
    | None \<Rightarrow> (case attempt k of
        (k', a, True, _) \<Rightarrow> (k', Inr a)
      | (k', a, False, e) \<Rightarrow>
          lb_loop E attempt n (if e = None then lastErr else e) (if n = 0 then k' else pe_sleep E (LoadBalancerRetrySteps - n) k')))"

definition resolveLoadBalancerIP ::
  "libs \<Rightarrow> 'k ipEnv \<Rightarrow> IPFamily \<Rightarrow> string \<Rightarrow> string \<Rightarrow> (string \<Rightarrow> 'k \<Rightarrow> 'k \<times> string result) option \<Rightarrow> 'k \<Rightarrow> 'k \<times> string result" where
  "resolveLoadBalancerIP L E family namespace lb hostnameResolver =
     lb_loop E (lb_attempt L E family namespace lb hostnameResolver) LoadBalancerRetrySteps None"

definition publicLoadBalancerIP :: "libs \<Rightarrow> 'k ipEnv \<Rightarrow> IPFamily \<Rightarrow> string \<Rightarrow> string \<Rightarrow> 'k \<Rightarrow> 'k \<times> string result" where
  "publicLoadBalancerIP L E family namespace lb = resolveLoadBalancerIP L E family namespace lb (Some (publicDNSIP L E family))"

definition publicLoadBalancerDirectIP :: "libs \<Rightarrow> 'k ipEnv \<Rightarrow> IPFamily \<Rightarrow> string \<Rightarrow> string \<Rightarrow> 'k \<Rightarrow> 'k \<times> string result" where
  "publicLoadBalancerDirectIP L E family namespace lb = resolveLoadBalancerIP L E family namespace lb None"

section \<open>Trying the resolvers\<close>

definition trim_blanks :: "string \<Rightarrow> string" where
  "trim_blanks s = rev (dropWhile (\<lambda>c. c = CHR '' '') (rev (dropWhile (\<lambda>c. c = CHR '' '') s)))"

definition parseResolver :: "string \<Rightarrow> (string \<times> string) result" where
  "parseResolver resolver = (case cut (CHR '':'') (trim_blanks resolver) of
      (m, config, found) \<Rightarrow> if \<not> found \<or> m = [] \<or> config = [] then Inl (Err ''invalid format for annotation'') else Inr (m, config))"

definition publicIPMethods ::
  "string \<rightharpoonup> (libs \<Rightarrow> 'k ipEnv \<Rightarrow> IPFamily \<Rightarrow> string \<Rightarrow> string \<Rightarrow> 'k \<Rightarrow> 'k \<times> string result)" where
  "publicIPMethods = map_of [
     (''api'', \<lambda>L E family namespace. publicAPI E family), (''ipv4'', \<lambda>L E family namespace. publicIP family),
     (''ipv6'', \<lambda>L E family namespace. publicIP family), (''lb'', publicLoadBalancerIP), (''dns'', \<lambda>L E family namespace. publicDNSIP L E family)]"

definition resolvePublicIP :: "libs \<Rightarrow> 'k ipEnv \<Rightarrow> IPFamily \<Rightarrow> string \<Rightarrow> string \<Rightarrow> string \<Rightarrow> 'k \<Rightarrow> 'k \<times> string result" where
  "resolvePublicIP L E family namespace m param k = (case publicIPMethods m of
      None \<Rightarrow> (k, Inl (Err ''unknown resolver in annotation'')) | Some f \<Rightarrow> f L E family namespace param k)"

text \<open>\<open>errors.Join\<close> of no errors is nil.\<close>

definition join_errs :: "err list \<Rightarrow> err option" where
  "join_errs es = (case es of [] \<Rightarrow> None | e # _ \<Rightarrow> Some (Wrapped ''joined'' e))"

text \<open>The loop over the resolvers; the result is the address with its resolver, or the errors.\<close>

fun try_resolvers ::
  "libs \<Rightarrow> 'k ipEnv \<Rightarrow> IPFamily \<Rightarrow> string \<Rightarrow> (string \<Rightarrow> bool) \<Rightarrow> string list \<Rightarrow> err list \<Rightarrow> 'k \<Rightarrow> 'k \<times> (err list + string \<times> string)" where
  "try_resolvers L E family namespace useResolver [] errs k = (k, Inl errs)"
| "try_resolvers L E family namespace useResolver (resolver # rs) errs k =
     (case parseResolver resolver of
        Inr (m, param) \<Rightarrow>
          if \<not> useResolver m then try_resolvers L E family namespace useResolver rs errs k
          else (case resolvePublicIP L E family namespace m param k of
              (k', r) \<Rightarrow> (case pe_ctxErr E k' of
                  Some e \<Rightarrow> (k', Inl (errs @ [Wrapped ''Resolver'' e]))
                | None \<Rightarrow> (case r of
                    Inr a \<Rightarrow> (k', Inr (a, resolver))
                  | Inl e \<Rightarrow> try_resolvers L E family namespace useResolver rs (errs @ [Wrapped ''Resolver'' e]) k')))
      | Inl e \<Rightarrow> (case pe_ctxErr E k of
            Some e' \<Rightarrow> (k, Inl (errs @ [Wrapped ''Resolver'' e']))
          | None \<Rightarrow> try_resolvers L E family namespace useResolver rs (errs @ [Wrapped ''Resolver'' e]) k))"

text \<open>When no resolver is used there are no errors to join, and the result is an empty address without an error.\<close>

definition invokeResolvers ::
  "libs \<Rightarrow> 'k ipEnv \<Rightarrow> IPFamily \<Rightarrow> string \<Rightarrow> string \<Rightarrow> (string \<Rightarrow> bool) \<Rightarrow> 'k \<Rightarrow> 'k \<times> (string \<times> string) result" where
  "invokeResolvers L E family namespace config useResolver k =
     (case try_resolvers L E family namespace useResolver (split_on (CHR '','') config) [] k of
        (k', Inr (a, resolver)) \<Rightarrow> (k', Inr (a, resolver))
      | (k', Inl errs) \<Rightarrow> (k', case join_errs errs of
            None \<Rightarrow> Inr ([], []) | Some e \<Rightarrow> Inl (Wrapped ''Unable to resolve public IP by any of the resolver methods'' e)))"

fun try_load_balancers ::
  "libs \<Rightarrow> 'k ipEnv \<Rightarrow> IPFamily \<Rightarrow> string \<Rightarrow> string list \<Rightarrow> err list \<Rightarrow> 'k \<Rightarrow> 'k \<times> (err list + string \<times> string)" where
  "try_load_balancers L E family namespace [] errs k = (k, Inl errs)"
| "try_load_balancers L E family namespace (r # rs) errs k =
     (case parseResolver r of
        Inl e \<Rightarrow> try_load_balancers L E family namespace rs (errs @ [e]) k
      | Inr (m, param) \<Rightarrow>
          if m \<noteq> ''lb'' then try_load_balancers L E family namespace rs errs k
          else (case publicLoadBalancerDirectIP L E family namespace param k of
              (k', Inr a) \<Rightarrow> if a \<noteq> [] then (k', Inr (a, r)) else try_load_balancers L E family namespace rs errs k'
            | (k', Inl e) \<Rightarrow> try_load_balancers L E family namespace rs (errs @ [Wrapped ''Resolver'' e]) k'))"

definition resolvePublicIPAirGapped ::
  "libs \<Rightarrow> 'k ipEnv \<Rightarrow> IPFamily \<Rightarrow> string \<Rightarrow> string \<Rightarrow> 'k \<Rightarrow> 'k \<times> (string \<times> string) result" where
  "resolvePublicIPAirGapped L E family namespace config k =
     (case invokeResolvers L E family namespace config (\<lambda>m. m = ''ipv4'' \<or> m = ''ipv6'') k of
        (k1, r) \<Rightarrow> (case r of
            Inr (c # cs, resolver) \<Rightarrow> (k1, Inr (c # cs, resolver))
          | _ \<Rightarrow> (case try_load_balancers L E family namespace (split_on (CHR '','') config) (case r of Inl e \<Rightarrow> [e] | Inr _ \<Rightarrow> []) k1 of
              (k2, Inr (a, resolver)) \<Rightarrow> (k2, Inr (a, resolver))
            | (k2, Inl errs) \<Rightarrow> (k2, case join_errs errs of None \<Rightarrow> Inr ([], []) | Some e \<Rightarrow> Inl e))))"

definition getPublicIPResolvers :: "'k ipEnv \<Rightarrow> IPFamily \<Rightarrow> 'k \<Rightarrow> string" where
  "getPublicIPResolvers E family k = join '','' (pe_shuffle E (case family of
      IPv4 \<Rightarrow> [''api:ip4.seeip.org'', ''api:ipecho.net/plain'', ''api:ifconfig.me'', ''api:ipinfo.io/ip'', ''api:4.ident.me'',
        ''api:checkip.amazonaws.com'', ''api:4.icanhazip.com'', ''api:myexternalip.com/raw'', ''api:4.tnedi.me'', ''api:api.ipify.org'']
    | IPv6 \<Rightarrow> [''api:api64.ipify.org'', ''api:api6.ipify.org'']
    | IPFamilyUnknown \<Rightarrow> []) k)"

definition public_config :: "'k ipEnv \<Rightarrow> IPFamily \<Rightarrow> SubmarinerSpecification \<Rightarrow> (string, string) fmap \<Rightarrow> 'k \<Rightarrow> string" where
  "public_config E family submSpec backendConfig k = (case fmlookup backendConfig PublicIPConfig of
      Some c \<Rightarrow> c | None \<Rightarrow> if ss_PublicIP submSpec \<noteq> [] then ss_PublicIP submSpec else getPublicIPResolvers E family k)"

text \<open>In an air-gapped deployment errors are only logged.\<close>

definition pub_GetPublicIP ::
  "libs \<Rightarrow> 'k ipEnv \<Rightarrow> IPFamily \<Rightarrow> SubmarinerSpecification \<Rightarrow> (string, string) fmap \<Rightarrow> bool \<Rightarrow> 'k \<Rightarrow> 'k \<times> (string \<times> string) result" where
  "pub_GetPublicIP L E family submSpec backendConfig airGapped k =
     (if family = IPFamilyUnknown then (k, Inr ([], []))
      else (let config = public_config E family submSpec backendConfig k in
            if airGapped then (case resolvePublicIPAirGapped L E family (ss_Namespace submSpec) config k of
                (k', Inl _) \<Rightarrow> (k', Inr ([], [])) | (k', Inr r) \<Rightarrow> (k', Inr r))
            else invokeResolvers L E family (ss_Namespace submSpec) config (\<lambda>_. True) k))"

section \<open>The watcher\<close>

text \<open>The addresses that changed, in the order of the families; a family whose address cannot be found is skipped.\<close>

fun changed_ips ::
  "libs \<Rightarrow> 'k ipEnv \<Rightarrow> SubmarinerSpecification \<Rightarrow> EndpointSpec \<Rightarrow> IPFamily list \<Rightarrow> 'k \<Rightarrow> 'k \<times> string list" where
  "changed_ips L E submSpec spec [] k = (k, [])"
| "changed_ips L E submSpec spec (f # fs) k = (case pub_GetPublicIP L E f submSpec (BackendConfig spec) False k of
      (k', Inl _) \<Rightarrow> changed_ips L E submSpec spec fs k'
    | (k', Inr (a, _)) \<Rightarrow> (case changed_ips L E submSpec spec fs k' of
        (k'', as) \<Rightarrow> (k'', if a \<noteq> GetPublicIP L f spec then a # as else as)))"

definition updateLocalEndpoint :: "libs \<Rightarrow> 'k endpointClient \<Rightarrow> string list \<Rightarrow> LocalEp \<Rightarrow> 'k \<Rightarrow> (LocalEp \<times> 'k) \<times> err option" where
  "updateLocalEndpoint L C publicIPs l k =
     apsnd (wrap ''error updating the public IP of the local endpoint'') (Update L C (fold (SetPublicIP L) publicIPs) l k)"

text \<open>An error of the update is only logged.\<close>

definition syncPublicIP ::
  "libs \<Rightarrow> 'k ipEnv \<Rightarrow> 'k endpointClient \<Rightarrow> SubmarinerSpecification \<Rightarrow> LocalEp \<Rightarrow> 'k \<Rightarrow> LocalEp \<times> 'k" where
  "syncPublicIP L E C submSpec l k =
     (case changed_ips L E submSpec (Spec l) (spec_GetIPFamilies L submSpec) k of
        (k', publicIPs) \<Rightarrow> if publicIPs = [] then (l, k') else fst (updateLocalEndpoint L C publicIPs l k'))"

section \<open>The local address\<close>

definition infraInternalIPv6 :: "ip option" where
  "infraInternalIPv6 = ParseIP ''fd69::2''"

definition familyToDestIP :: "IPFamily \<Rightarrow> string" where
  "familyToDestIP family = (case family of IPv4 \<Rightarrow> ''8.8.8.8'' | IPv6 \<Rightarrow> ''2001:4860:4860::8888'' | IPFamilyUnknown \<Rightarrow> [])"

definition IsLoopback :: "ip \<Rightarrow> bool" where
  "IsLoopback a = (case a of IP4 w \<Rightarrow> drop_bit 24 w = 127 | IP6 w \<Rightarrow> w = 1)"

definition IsLinkLocalUnicast :: "ip \<Rightarrow> bool" where
  "IsLinkLocalUnicast a = (case a of IP4 w \<Rightarrow> drop_bit 16 w = 0xa9fe | IP6 w \<Rightarrow> drop_bit 118 w = 0x3fa)"

definition isAcceptableIPv6 :: "ip \<Rightarrow> bool" where
  "isAcceptableIPv6 a \<longleftrightarrow> \<not> IsLoopback a \<and> \<not> IsLinkLocalUnicast a \<and> Some a \<noteq> infraInternalIPv6"

text \<open>\<open>dial\<close> is the local address of a socket that is connected to a destination.\<close>

record 'k dialer =
  di_Dial :: "string \<Rightarrow> string \<Rightarrow> 'k \<Rightarrow> ip result"
  di_net :: "'k nlLib"

definition getLocalIPFromRoutes :: "'k dialer \<Rightarrow> IPFamily \<Rightarrow> 'k \<Rightarrow> 'k \<times> string result" where
  "getLocalIPFromRoutes D family k = (case netlink_RouteList (di_net D) None family k of
      (k', Inl e) \<Rightarrow> (k', Inl (Wrapped ''error listing routes'' e))
    | (k', Inr routes) \<Rightarrow> (k', case find (\<lambda>r. nr_Gw r \<noteq> None \<and> nr_Src r \<noteq> None \<and> (family = IPv6 \<longrightarrow> isAcceptableIPv6 (the (nr_Src r)))) routes of
          Some r \<Rightarrow> Inr (ip_String (the (nr_Src r))) | None \<Rightarrow> Inl (Err ''couldn't find route for family'')))"

text \<open>The interface is that of the first address equal to the given one; only addresses from there on are looked at.\<close>

fun same_interface :: "libs \<Rightarrow> ip \<Rightarrow> string \<Rightarrow> (string \<times> ip) list \<Rightarrow> string" where
  "same_interface L a owned [] = []"
| "same_interface L a owned ((name, b) # hosts) =
     (if IPFamilyOf L b \<noteq> IPv6 then same_interface L a owned hosts
      else (let owned' = (if owned = [] \<and> b = a then name else owned) in
            if owned' \<noteq> [] \<and> owned' = name \<and> isAcceptableIPv6 b then ip_String b else same_interface L a owned' hosts))"

definition getValidGlobalIPv6FromSameInterface :: "libs \<Rightarrow> 'k dialer \<Rightarrow> ip \<Rightarrow> 'k \<Rightarrow> string result" where
  "getValidGlobalIPv6FromSameInterface L D a k = (case HostInterfaces (di_net D) k of
      Inl e \<Rightarrow> Inl (Wrapped ''failed to list interfaces'' e) | Inr hosts \<Rightarrow> Inr (same_interface L a [] hosts))"

definition GetLocalIPForDestination :: "libs \<Rightarrow> 'k dialer \<Rightarrow> string \<Rightarrow> IPFamily \<Rightarrow> 'k \<Rightarrow> 'k \<times> string result" where
  "GetLocalIPForDestination L D dst family k =
     (let fallback = apsnd (wrap_res ''error getting local IP'') (getLocalIPFromRoutes D family k) in
      case di_Dial D (''udp'' @ family_str family) dst k of
        Inl e \<Rightarrow> fallback
      | Inr a \<Rightarrow>
          if family = IPv4 \<or> isAcceptableIPv6 a then (k, Inr (ip_String a))
          else (case getValidGlobalIPv6FromSameInterface L D a k of
              Inl e \<Rightarrow> fallback
            | Inr s \<Rightarrow> if s \<noteq> [] then (k, Inr s) else fallback))"

definition GetLocalIP :: "libs \<Rightarrow> 'k dialer \<Rightarrow> IPFamily \<Rightarrow> 'k \<Rightarrow> 'k \<times> string result" where
  "GetLocalIP L D family = GetLocalIPForDestination L D (familyToDestIP family) family"

section \<open>Properties\<close>

text \<open>A body with one dotted quad, whatever surrounds it, gives the quad.\<close>

definition dotted :: "string list \<Rightarrow> bool" where
  "dotted os \<longleftrightarrow> length os = 4 \<and> (\<forall>o'\<in>set os. list_all is_digit o' \<and> o' \<noteq> [] \<and> length o' \<le> 3)"

lemma quad_follows:
  assumes "list_all is_digit w" "w \<noteq> []" "length w \<le> 3"
  shows "rx_ends (Seq (Rep rx_digit 1 3) (rx_char (CHR ''.''))) (w @ CHR ''.'' # t) = [t]"
proof -
  have "1 \<le> length w" using assms(2) by (cases w) auto
  then show ?thesis using run_separator [OF assms(1), of "CHR ''.''" 1 3 t] assms(3) by (simp add: rx_digit_def is_digit_def)
qed

theorem ipv4_address_found:
  assumes "dotted os" and "\<forall>c\<in>set pre. \<not> is_digit c" and "stops is_digit post"
  shows "firstIPInString IPv4 (pre @ join ''.'' os @ post) = Inr (join ''.'' os)"
proof -
  let ?m = "Seq (Rep rx_digit 1 3) (rx_char (CHR ''.''))"
  obtain a b c d where os: "os = [a, b, c, d]" using assms(1) by (auto simp: dotted_def numeral_eq_Suc length_Suc_conv)
  have o': "list_all is_digit x \<and> x \<noteq> [] \<and> length x \<le> 3" if "x \<in> set os" for x using assms(1) that by (auto simp: dotted_def)
  have q: "rx_ends ?m (x @ CHR ''.'' # t) = [t]" if "x \<in> set os" for x t using o' [OF that] quad_follows by blast
  have "follows (rx_ends ?m) (join ''.'' os @ post)
      [b @ CHR ''.'' # c @ CHR ''.'' # d @ post, c @ CHR ''.'' # d @ post, d @ post] (d @ post)"
    using q by (simp add: os del: rx_ends.simps)
  from rep_ends_greedy [OF this, of 3 3] obtain r where "rep_ends (rx_ends ?m) 3 3 (join ''.'' os @ post) = (d @ post) # r" by auto
  moreover obtain r' where "rx_ends (Rep rx_digit 1 3) (d @ post) = post # r'"
    using class_rep_greedy [of is_digit d post 1 3] o' [of d] assms(3) os by (cases d) (auto simp: rx_digit_def simp del: rx_ends.simps)
  ultimately obtain es where "rx_ends IPv4RE (join ''.'' os @ post) = post # es" by (auto simp: IPv4RE_def simp del: rx_ends.simps(1))
  then have "rx_find IPv4RE (join ''.'' os @ post) = Some (join ''.'' os)" by (rule rx_find_here)
  moreover have "rx_ends IPv4RE (x # s) = []" if "x \<in> set pre" for x s
  proof -
    have "rx_ends ?m (x # s) = []" using run_none [of is_digit "x # s" 1 3 "rx_char (CHR ''.'')"] assms(2) that
      by (simp add: stops_def rx_digit_def del: rx_ends.simps)
    then show ?thesis by (simp add: IPv4RE_def numeral_3_eq_3 del: rx_ends.simps(1,3))
  qed
  ultimately show ?thesis using rx_find_skip [of pre IPv4RE "join ''.'' os @ post"] by (simp add: firstIPInString_def)
qed

text \<open>The groups of an IPv6 address, each followed by a colon.\<close>

definition hex_groups :: "string list \<Rightarrow> bool" where
  "hex_groups gs \<longleftrightarrow> (\<forall>g\<in>set gs. list_all is_hex g \<and> g \<noteq> [] \<and> length g \<le> 4)"

lemma not_hex_colon: "\<not> is_hex (CHR '':'')"
  by code_simp

lemma hex_colon_end: "list_all is_hex g \<Longrightarrow> g \<noteq> [] \<Longrightarrow> length g \<le> 4 \<Longrightarrow> rx_ends hex_colon (g @ CHR '':'' # t) = [t]"
  using run_separator [of is_hex g "CHR '':''" 1 4 t] not_hex_colon by (cases g) (auto simp: hex_colon_def rx_hex_def rx_colon_def)

lemma hex_colon_none: "stops is_hex t \<Longrightarrow> rx_ends hex_colon t = []"
  unfolding hex_colon_def rx_hex_def by (rule run_none) simp_all

lemma groups_follow:
  "hex_groups gs \<Longrightarrow> \<exists>xs. length xs = length gs \<and> follows (rx_ends hex_colon) (concat (map (\<lambda>g. g @ '':'') gs) @ t) xs t"
proof (induction gs)
  case (Cons g gs)
  then obtain xs where "length xs = length gs" "follows (rx_ends hex_colon) (concat (map (\<lambda>g. g @ '':'') gs) @ t) xs t"
    by (auto simp: hex_groups_def)
  moreover have "rx_ends hex_colon (g @ CHR '':'' # concat (map (\<lambda>g. g @ '':'') gs) @ t) = [concat (map (\<lambda>g. g @ '':'') gs) @ t]"
    using Cons.prems by (intro hex_colon_end) (auto simp: hex_groups_def)
  ultimately show ?case by (intro exI [of _ "(concat (map (\<lambda>g. g @ '':'') gs) @ t) # xs"]) simp
qed simp

lemma join_colons: "gs \<noteq> [] \<Longrightarrow> concat (map (\<lambda>g. g @ '':'') gs) @ t = join '':'' gs @ CHR '':'' # t"
  by (induction "'':''" gs rule: join.induct) auto

text \<open>C40: Of an IPv6 address with a gap, a resolver takes at most one group after the gap: with groups, the gap and a group \<open>h\<close> the result ends with
  \<open>h\<close>, also if a colon and more groups follow.\<close>

theorem ipv6_address_cut_off:
  assumes "hex_groups gs" and "gs \<noteq> []" and "length gs \<le> 6" and "hex_groups [h]" and "stops is_hex post"
  shows "firstIPInString IPv6 (join '':'' gs @ ''::'' @ h @ post) = Inr (join '':'' gs @ ''::'' @ h)"
proof -
  let ?t = "CHR '':'' # h @ post" and ?s = "join '':'' gs @ ''::'' @ h @ post"
  have s: "?s = concat (map (\<lambda>g. g @ '':'') gs) @ ?t" by (simp add: join_colons [OF assms(2)])
  obtain xs where xs: "length xs = length gs" "follows (rx_ends hex_colon) ?s xs ?t" unfolding s using groups_follow [OF assms(1)] by blast
  have none: "rx_ends hex_colon ?t = []" by (rule hex_colon_none) (simp add: stops_def not_hex_colon)
  have "rep_ends (rx_ends hex_colon) 7 7 ?s = []" using rep_ends_short [OF xs(2) none, of 7 7] xs(1) assms(3) by simp
  then have a: "rx_ends (Seq (Rep hex_colon 7 7) rx_hex) ?s = []" by (simp only: rx_ends.simps concat.simps list.map)
  have "1 \<le> length gs" using assms(2) by (cases gs) auto
  with rep_ends_greedy [OF xs(2), of 6 1] none xs(1) assms(3) obtain r where r: "rep_ends (rx_ends hex_colon) 1 6 ?s = ?t # r" by auto
  obtain r' where "rx_ends rx_hex (h @ post) = post # r'"
    using class_rep_greedy [of is_hex h post 1 4] assms(4,5) by (cases h) (auto simp: hex_groups_def rx_hex_def simp del: rx_ends.simps)
  then have "\<exists>es. rx_ends (Seq rx_colon (rx_opt rx_hex)) ?t = post # es" by (simp add: rx_colon_def rx_char_def rx_opt_def)
  with r obtain es where b: "rx_ends (Seq (Rep hex_colon 1 6) (Seq rx_colon (rx_opt rx_hex))) ?s = post # es"
    unfolding rx_ends.simps(2) [of "Rep hex_colon 1 6"] rx_ends.simps(4) by auto
  have "\<exists>es. rx_ends IPv6RE ?s = post # es"
    unfolding IPv6RE_def rx_alt.simps rx_ends.simps(3) a b by simp
  then obtain es where "rx_ends IPv6RE ((join '':'' gs @ ''::'' @ h) @ post) = post # es" by auto
  from rx_find_here [OF this] show ?thesis by (simp add: firstIPInString_def)
qed

theorem ipv6_address_cut_off_witness:
  "firstIPInString IPv6 ''2001:db8::8a2e:370:7334'' = Inr ''2001:db8::8a2e'' \<and> ParseIP ''2001:db8::8a2e'' \<noteq> ParseIP ''2001:db8::8a2e:370:7334''"
proof -
  have "hex_groups [''2001'', ''db8'']" "hex_groups [''8a2e'']" "stops is_hex '':370:7334''" by code_simp+
  from ipv6_address_cut_off [OF this(1) _ _ this(2,3)] have "firstIPInString IPv6 ''2001:db8::8a2e:370:7334'' = Inr ''2001:db8::8a2e''" by simp
  moreover have "ParseIP ''2001:db8::8a2e'' \<noteq> ParseIP ''2001:db8::8a2e:370:7334''" by code_simp
  ultimately show ?thesis by simp
qed

lemma air_gapped_methods:
  "m = ''ipv4'' \<or> m = ''ipv6'' \<Longrightarrow> resolvePublicIP L E family namespace m param k = (k, firstIPInString family param)"
  by (auto simp: resolvePublicIP_def publicIPMethods_def publicIP_def)

lemma try_resolvers_offline:
  "try_resolvers L (E\<lparr>pe_Get := g, pe_LookupIP := l\<rparr>) family namespace (\<lambda>m. m = ''ipv4'' \<or> m = ''ipv6'') rs errs k =
   try_resolvers L E family namespace (\<lambda>m. m = ''ipv4'' \<or> m = ''ipv6'') rs errs k"
  by (induction rs arbitrary: errs k) (auto simp: air_gapped_methods split: sum.split option.split)

lemma lb_loop_offline: "lb_loop (E\<lparr>pe_Get := g, pe_LookupIP := l\<rparr>) f n e k = lb_loop E f n e k"
  by (induction n arbitrary: e k) (auto split: option.split prod.split bool.split)

lemma try_load_balancers_offline:
  "try_load_balancers L (E\<lparr>pe_Get := g, pe_LookupIP := l\<rparr>) family namespace rs errs k = try_load_balancers L E family namespace rs errs k"
proof (induction rs arbitrary: errs k)
  case (Cons r rs)
  have "lb_attempt L (E\<lparr>pe_Get := g, pe_LookupIP := l\<rparr>) family namespace p None = lb_attempt L E family namespace p None" for p
    by (auto simp: lb_attempt_def fun_eq_iff)
  then show ?case
    by (auto simp: Cons.IH publicLoadBalancerDirectIP_def resolveLoadBalancerIP_def lb_loop_offline split: sum.split prod.split)
qed simp

lemma public_config_offline: "public_config (E\<lparr>pe_Get := g, pe_LookupIP := l\<rparr>) family submSpec b k = public_config E family submSpec b k"
  by (simp add: public_config_def getPublicIPResolvers_def split: option.split)

text \<open>C14: In an air-gapped deployment finding the public address uses neither web services nor the DNS: whatever they would do, the result and the state
  of the host are the same.\<close>

theorem air_gapped_offline:
  "pub_GetPublicIP L (E\<lparr>pe_Get := g, pe_LookupIP := l\<rparr>) family submSpec backendConfig True k =
   pub_GetPublicIP L E family submSpec backendConfig True k"
  unfolding pub_GetPublicIP_def resolvePublicIPAirGapped_def invokeResolvers_def try_resolvers_offline try_load_balancers_offline
    public_config_offline by simp

text \<open>The address that a host name gives does not depend on the order of the resolver's answer: it is the least of the family.\<close>

theorem dns_address_least:
  assumes "pe_LookupIP E (''ip'' @ family_str family) fqdn k = (k', Inr ips)" and "a \<in> set ips" and "IPFamilyOf L a = family"
    and "\<forall>b\<in>set ips. IPFamilyOf L b = family \<longrightarrow> ip_number a < ip_number b \<or> a = b"
  shows "publicDNSIP L E family fqdn k = (k', Inr (ip_String a))"
proof -
  let ?xs = "sort_key ip_number (filter (\<lambda>a. IPFamilyOf L a = family) ips)"
  have a: "a \<in> set ?xs" using assms(2,3) by simp
  then obtain b bs where b: "?xs = b # bs" by (cases ?xs) auto
  have "sorted (map ip_number ?xs)" by simp
  with a b have "ip_number b \<le> ip_number a" by auto
  moreover have "b \<in> set ?xs" unfolding b by simp
  then have "ip_number a < ip_number b \<or> a = b" using assms(4) by simp
  ultimately have "b = a" by auto
  with b assms(1) show ?thesis by (simp add: publicDNSIP_def)
qed

lemma same_interface_acceptable: "same_interface L a owned hosts \<noteq> [] \<Longrightarrow> \<exists>b. isAcceptableIPv6 b \<and> same_interface L a owned hosts = ip_String b"
  by (induction L a owned hosts rule: same_interface.induct) (auto simp: Let_def split: if_splits)

lemma route_acceptable:
  assumes "getLocalIPFromRoutes D IPv6 k = (k', Inr s)"
  shows "\<exists>b. isAcceptableIPv6 b \<and> s = ip_String b"
proof -
  obtain k1 rs where l: "netlink_RouteList (di_net D) None IPv6 k = (k1, Inr rs)"
    using assms by (auto simp: getLocalIPFromRoutes_def split: prod.split_asm sum.split_asm)
  show ?thesis
  proof (cases "find (\<lambda>r. nr_Gw r \<noteq> None \<and> nr_Src r \<noteq> None \<and> (IPv6 = IPv6 \<longrightarrow> isAcceptableIPv6 (the (nr_Src r)))) rs")
    case None
    with assms l show ?thesis unfolding getLocalIPFromRoutes_def by simp
  next
    case (Some r)
    with assms l have "s = ip_String (the (nr_Src r))" unfolding getLocalIPFromRoutes_def by simp
    moreover have "isAcceptableIPv6 (the (nr_Src r))" using Some by (auto simp: find_Some_iff)
    ultimately show ?thesis by blast
  qed
qed

text \<open>The local IPv6 address of a gateway is never a loopback or link-local address or the one that OVN-Kubernetes reserves, whichever of the ways to
  find it succeeds: the socket, another address of its interface, or the routes.\<close>

theorem local_ipv6_acceptable:
  assumes "GetLocalIP L D IPv6 k = (k', Inr s)"
  shows "\<exists>b. isAcceptableIPv6 b \<and> s = ip_String b"
proof -
  have fb: ?thesis if "apsnd (wrap_res ''error getting local IP'') (getLocalIPFromRoutes D IPv6 k) = (k', Inr s)"
    using that route_acceptable [of D k k' s] by (cases "getLocalIPFromRoutes D IPv6 k") auto
  show ?thesis
  proof (cases "di_Dial D (''udp'' @ family_str IPv6) (familyToDestIP IPv6) k")
    case (Inl e)
    with assms fb show ?thesis by (simp add: GetLocalIP_def GetLocalIPForDestination_def Let_def)
  next
    case (Inr a)
    with assms fb show ?thesis
      using same_interface_acceptable [of L a "[]"]
      by (auto simp: GetLocalIP_def GetLocalIPForDestination_def getValidGlobalIPv6FromSameInterface_def Let_def split: if_splits sum.split_asm)
  qed
qed

text \<open>A host whose socket has the reserved address \<open>fd69::2\<close>; its interface also has \<open>fe80::1\<close> and \<open>fd00::7\<close>.\<close>

definition addr_ovn :: ip where "addr_ovn = IP6 0xfd690000000000000000000000000002"
definition addr_link :: ip where "addr_link = IP6 0xfe800000000000000000000000000001"
definition addr_host :: ip where "addr_host = IP6 0xfd000000000000000000000000000007"

definition example_dialer :: "unit dialer" where
  "example_dialer = \<lparr>di_Dial = (\<lambda>_ _ _. Inr addr_ovn),
     di_net = idle_nl\<lparr>nl_Interfaces := (\<lambda>_. Inr [\<lparr>nif_Index = 2, nif_Name = ''br-ex'', nif_MTU = 1500\<rparr>]),
       nl_IfaceIPs := (\<lambda>_ _. Inr [Some addr_link, Some addr_ovn, Some addr_host])\<rparr>\<rparr>"

lemma infra_addr: "infraInternalIPv6 = Some addr_ovn"
  by code_simp

lemma example_acceptable: "\<not> isAcceptableIPv6 addr_ovn" "\<not> isAcceptableIPv6 addr_link" "isAcceptableIPv6 addr_host"
proof -
  show "\<not> isAcceptableIPv6 addr_ovn" by (simp add: isAcceptableIPv6_def infra_addr)
  have "IsLinkLocalUnicast addr_link" by code_simp
  then show "\<not> isAcceptableIPv6 addr_link" by (simp add: isAcceptableIPv6_def)
  have "\<not> IsLoopback addr_host" "\<not> IsLinkLocalUnicast addr_host" "addr_host \<noteq> addr_ovn" by code_simp+
  then show "isAcceptableIPv6 addr_host" by (simp add: isAcceptableIPv6_def infra_addr)
qed

theorem local_ipv6_acceptable_witness:
  "snd (GetLocalIP ref_libs example_dialer IPv6 ()) = Inr (ip_String addr_host) \<and> (\<exists>b. isAcceptableIPv6 b \<and> ip_String addr_host = ip_String b)"
proof -
  have "HostInterfaces (di_net example_dialer) () = Inr [(''br-ex'', addr_link), (''br-ex'', addr_ovn), (''br-ex'', addr_host)]"
    by (simp add: HostInterfaces_def example_dialer_def)
  moreover have "addr_link \<noteq> addr_ovn" by code_simp
  moreover have "ip_String addr_host \<noteq> []" by (auto simp: addr_host_def ip_String_def Let_def groups6_def upt_conv_Cons split: prod.split)
  ultimately have "GetLocalIP ref_libs example_dialer IPv6 () = ((), Inr (ip_String addr_host))"
    using example_acceptable
    by (simp add: GetLocalIP_def GetLocalIPForDestination_def getValidGlobalIPv6FromSameInterface_def example_dialer_def ref_libs_def family_of_def
        addr_link_def addr_ovn_def addr_host_def)
  then show ?thesis using local_ipv6_acceptable [of ref_libs example_dialer "()" "()" "ip_String addr_host"] by simp
qed

section \<open>What the watcher publishes\<close>

lemma changed_ips_read:
  assumes addr: "\<And>f k. f \<in> set fs \<Longrightarrow> snd (pub_GetPublicIP L E f submSpec (BackendConfig spec) False k) = addr f"
    and fam: "\<And>f a r. f \<in> set fs \<Longrightarrow> addr f = Inr (a, r) \<Longrightarrow> a \<noteq> [] \<and> IPFamilyOfString L a = f \<and> f \<noteq> IPFamilyUnknown"
  shows "GetPublicIP L g (fold (SetPublicIP L) (snd (changed_ips L E submSpec spec fs k)) s) =
    (case addr g of Inr (a, _) \<Rightarrow> if g \<in> set fs \<and> a \<noteq> GetPublicIP L g spec then a else GetPublicIP L g s | Inl _ \<Rightarrow> GetPublicIP L g s)"
  using assms
proof (induction fs arbitrary: k s)
  case Nil
  then show ?case by (simp split: sum.split)
next
  case (Cons f fs)
  obtain k' where k': "pub_GetPublicIP L E f submSpec (BackendConfig spec) False k = (k', addr f)"
    using Cons.prems(1) [of f k] by (metis list.set_intros(1) prod.collapse)
  have IH: "GetPublicIP L g (fold (SetPublicIP L) (snd (changed_ips L E submSpec spec fs k')) s) =
    (case addr g of Inr (a, _) \<Rightarrow> if g \<in> set fs \<and> a \<noteq> GetPublicIP L g spec then a else GetPublicIP L g s | Inl _ \<Rightarrow> GetPublicIP L g s)" for s
    by (rule Cons.IH) (rule Cons.prems(1), simp, rule Cons.prems(2), simp)
  show ?case
  proof (cases "addr f")
    case (Inl e)
    then show ?thesis using IH [of s] k' by (auto split: sum.split)
  next
    case (Inr p)
    obtain a r where p: "p = (a, r)" by (rule prod.exhaust)
    have a: "a \<noteq> []" "IPFamilyOfString L a = f" "f \<noteq> IPFamilyUnknown" using Cons.prems(2) [of f a r] Inr p by auto
    let ?s = "if a \<noteq> GetPublicIP L f spec then SetPublicIP L a s else s"
    have "GetPublicIP L g ?s = (if g = f \<and> a \<noteq> GetPublicIP L f spec then a else GetPublicIP L g s)"
      using set_get_ip [OF a(2,3,1), of g s] by auto
    moreover have "snd (changed_ips L E submSpec spec (f # fs) k) =
        (if a \<noteq> GetPublicIP L f spec then a # snd (changed_ips L E submSpec spec fs k') else snd (changed_ips L E submSpec spec fs k'))"
      using k' Inr p by (simp split: prod.split)
    ultimately show ?thesis using IH [of ?s] Inr p by (auto split: sum.split)
  qed
qed

text \<open>C15: After a round of the watcher the local endpoint has, for each family, the public address that was found, and where none was found the one it
  had before. The addresses that are found are of the family and the server has the endpoint that was written last.\<close>

theorem public_addresses_follow:
  assumes "\<And>f k. f \<in> set (spec_GetIPFamilies L submSpec) \<Longrightarrow> snd (pub_GetPublicIP L E f submSpec (BackendConfig (Spec l)) False k) = addr f"
    and "\<And>f a r. f \<in> set (spec_GetIPFamilies L submSpec) \<Longrightarrow> addr f = Inr (a, r) \<Longrightarrow>
      a \<noteq> [] \<and> IPFamilyOfString L a = f \<and> f \<noteq> IPFamilyUnknown"
    and "\<And>ep m k. snd (ec_MustUpdate C ep m k) = Inr (m (ep_Spec ep))" and "le_created l \<Longrightarrow> endpointFrom L (Spec l) \<noteq> None"
    and "g \<in> set (spec_GetIPFamilies L submSpec)" and "syncPublicIP L E C submSpec l k = (l', k')"
  shows "GetPublicIP L g (Spec l') = (case addr g of Inr (a, _) \<Rightarrow> a | Inl _ \<Rightarrow> GetPublicIP L g (Spec l))"
proof -
  let ?fs = "spec_GetIPFamilies L submSpec"
  obtain k1 as where as: "changed_ips L E submSpec (Spec l) ?fs k = (k1, as)" by fastforce
  have read: "GetPublicIP L g (fold (SetPublicIP L) as (Spec l)) = (case addr g of Inr (a, _) \<Rightarrow> a | Inl _ \<Rightarrow> GetPublicIP L g (Spec l))"
    using changed_ips_read [of ?fs L E submSpec "Spec l" addr g k "Spec l", OF assms(1,2)] as assms(5) by (auto split: sum.split)
  have "Spec l' = fold (SetPublicIP L) as (Spec l)"
  proof (cases "as = []")
    case False
    then have l': "l' = fst (fst (Update L C (fold (SetPublicIP L) as) l k1))"
      using assms(6) as by (auto simp: syncPublicIP_def updateLocalEndpoint_def)
    show ?thesis
    proof (cases "le_created l")
      case True
      with assms(4) obtain ep where ep: "endpointFrom L (le_spec l) = Some ep" by (auto simp: Spec_def)
      then have "ep_Spec ep = le_spec l" by (auto simp: endpointFrom_def split: sum.split_asm)
      with True ep assms(3) [of ep "fold (SetPublicIP L) as" k1] l' show ?thesis
        by (cases "ec_MustUpdate C ep (fold (SetPublicIP L) as) k1") (auto simp: Update_def Spec_def)
    qed (use l' in \<open>simp add: Update_def Spec_def\<close>)
  qed (use assms(6) as in \<open>simp add: syncPublicIP_def\<close>)
  with read show ?thesis by simp
qed

text \<open>A resolver that finds the configured address.\<close>

definition static_env :: "unit ipEnv" where
  "static_env = \<lparr>pe_Get = (\<lambda>_ k. (k, Inl (Err ''offline''))), pe_LookupIP = (\<lambda>_ _ k. (k, Inl (Err ''offline''))), pe_GetService = (\<lambda>_ _ k. (k, Inr [])),
     pe_ctxErr = (\<lambda>_. None), pe_sleep = (\<lambda>_ k. k), pe_shuffle = (\<lambda>xs _. xs)\<rparr>"

definition echo_client :: "unit endpointClient" where
  "echo_client = \<lparr>ec_MustUpdate = (\<lambda>ep m k. (k, Inr (m (ep_Spec ep)))), ec_CreateOrUpdate = (\<lambda>_ k. (k, None))\<rparr>"

definition static_submariner :: SubmarinerSpecification where
  "static_submariner = example_submariner\<lparr>ss_PublicIP := ''ipv4:203.0.113.7''\<rparr>"

theorem public_addresses_follow_witness:
  "GetPublicIP ref_libs IPv4 (Spec (fst (syncPublicIP ref_libs static_env echo_client static_submariner (NewLocal example_local) ()))) = ''203.0.113.7'' \<and>
   GetPublicIP ref_libs IPv4 example_local \<noteq> ''203.0.113.7''"
proof -
  let ?fs = "spec_GetIPFamilies ref_libs static_submariner" and ?l = "NewLocal example_local"
  let ?addr = "\<lambda>f. Inr (''203.0.113.7'', ''ipv4:203.0.113.7'') :: (string \<times> string) result"
  have fs: "?fs = [IPv4]" by code_simp
  have "snd (pub_GetPublicIP ref_libs static_env IPv4 static_submariner (BackendConfig (Spec ?l)) False ()) = ?addr IPv4" by code_simp
  then have addr: "snd (pub_GetPublicIP ref_libs static_env f static_submariner (BackendConfig (Spec ?l)) False k) = ?addr f" if "f \<in> set ?fs" for f k
    using that fs by simp
  have "IPFamilyOfString ref_libs ''203.0.113.7'' = IPv4" by code_simp
  then have fam: "a \<noteq> [] \<and> IPFamilyOfString ref_libs a = f \<and> f \<noteq> IPFamilyUnknown" if "f \<in> set ?fs" "?addr f = Inr (a, r)" for f a r
    using that fs by auto
  have C: "snd (ec_MustUpdate echo_client ep m k) = Inr (m (ep_Spec ep))" for ep m k by (simp add: echo_client_def)
  have nc: "le_created ?l \<Longrightarrow> endpointFrom ref_libs (Spec ?l) \<noteq> None" by (simp add: NewLocal_def)
  have g: "IPv4 \<in> set ?fs" using fs by simp
  have old: "GetPublicIP ref_libs IPv4 example_local \<noteq> ''203.0.113.7''" by code_simp
  let ?r = "syncPublicIP ref_libs static_env echo_client static_submariner ?l ()"
  have "GetPublicIP ref_libs IPv4 (Spec (fst ?r)) =
      (case ?addr IPv4 of Inr (a, _) \<Rightarrow> a | Inl _ \<Rightarrow> GetPublicIP ref_libs IPv4 (Spec ?l))"
    by (rule public_addresses_follow [where addr = ?addr and k' = "snd ?r"]) (erule addr, erule (1) fam, rule C, erule nc, rule g, rule prod.collapse [symmetric])
  with old show ?thesis by simp
qed

end
