(* ===== verification/Spec2Isabelle.thy ===== *)
theory Spec2Isabelle
  imports CableEngineProps NatDiscoveryProps PingerProps GatewaySyncer Tunnel EventController DatastoreSyncer IPTables NFTables
    LibreswanCert WireGuardProps GlobalnetProps GatewayMonitor KubeProxyProps PublicIP
begin

text \<open>
  Submariner connects the pod and service networks of Kubernetes clusters. Each cluster has a gateway node. Its gateway
  process publishes an Endpoint, learns those of the other clusters from a broker, discovers by which address each can be
  reached through NAT, and has a cable driver build the tunnel. A route agent on every node follows the endpoints and
  programs routes and packet filters. This library models the parts of the Go code under \<open>src/pkg\<close> that decide what
  is connected to what, one theory per part, and proves what each promises to the others.

  \<^bold>\<open>How the code is translated.\<close> A struct is a record, an enumeration a datatype, a method a function that takes the
  receiver and returns it updated. An error is a value of \<open>err\<close>: an operation returns \<open>err option\<close> or \<open>err + 'a\<close>. A
  panic is an error value or None, and the text says which. A mutex makes a method atomic; a goroutine or a timer is a step of
  an inductive relation. Machine integers have their width: \<open>wrap64\<close> is the wrap-around of \<open>int64\<close>. Code outside the
  repository is a parameter: the record \<open>libs\<close> (the IP family functions of \<open>k8s.io/utils/net\<close>), the kernel of the VXLAN
  driver, the command line of libreswan and its files, the iptables and nftables libraries, the Kubernetes clients. What the
  proofs use of such code is a predicate named in each theorem (\<open>libs_ok\<close>, \<open>ipt_ok\<close>, \<open>nft_ok\<close>, \<open>whack_ok\<close>, \<open>conf_ok\<close>,
  \<open>pluto_works\<close>, \<open>wg_device_ok\<close>, \<open>ipset_ok\<close>, \<open>nft_sets_ok\<close>, \<open>route_table_ok\<close>), and every such predicate has a reference implementation that satisfies it. All functions are total;
  no definition needs fuel.

  \<^bold>\<open>Foundations.\<close>
  \<^item> \<open>Prelude\<close>: lemma collections, results, lists and maps.
  \<^item> \<open>GoStd\<close>, \<open>GoNet\<close>: what the code uses of Go's \<open>strings\<close>, \<open>strconv\<close> and \<open>net\<close>: splitting and joining, decimal and
    hexadecimal numbers, parsing and printing of IP addresses and CIDRs, masks, \<open>IPNet.Contains\<close>.
  \<^item> \<open>Cidr\<close> (\<open>cidr/iputil.go\<close>): overlap and containment of CIDRs; equal to overlap and inclusion of the address sets.
  \<^item> \<open>EndpointApi\<close> (\<open>apis/submariner.io/v1\<close>, \<open>types\<close>): endpoints, clusters, connections, gateways and the methods of
    EndpointSpec.

  \<^bold>\<open>From an endpoint to a tunnel.\<close>
  \<^item> \<open>LocalEndpoint\<close> (\<open>endpoint/local_endpoint.go\<close>): the endpoint a gateway publishes for itself.
  \<^item> \<open>GoRegexp\<close>, \<open>PublicIP\<close> (\<open>endpoint/public_ip.go\<close>, \<open>public_ip_watcher.go\<close>, \<open>local_ip.go\<close>): how a gateway finds its addresses; leftmost matching of regular
    expressions, resolvers in order, retries. An air-gapped deployment uses no web service and no DNS, the watcher publishes the addresses
    that were found, and an IPv6 address with more than one group after its gap is cut off.
  \<^item> \<open>DatastoreSyncer\<close> (\<open>controllers/datastoresyncer\<close>): which remote endpoints are accepted. An accepted endpoint lies inside
    the networks its cluster declared and does not overlap other clusters; the accepted endpoints stay disjoint.
  \<^item> \<open>Tunnel\<close> (\<open>controllers/tunnel/tunnel.go\<close>): endpoint events to engine calls.
  \<^item> \<open>NatDiscovery\<close>, \<open>NatDiscoveryProps\<close> (\<open>natdiscovery\<close>): the state machine that probes the private and the public address of a
    remote endpoint. \<open>nat_step\<close> are its steps; the invariant ties the selected address to the state, every check ends at its
    timeout with the address and NAT setting that the endpoint itself declares, a private selection is kept, a request and its response
    agree.
  \<^item> \<open>CableDriver\<close> (\<open>cable/driver.go\<close>): the driver interface, as the record \<open>Driver\<close>, and its contract, the locale
    \<open>cable_driver\<close>: connections have distinct keys, connecting adds one, disconnecting removes one, listing keeps them.
  \<^item> \<open>CableEngine\<close>, \<open>CableEngineProps\<close> (\<open>cableengine/cableengine.go\<close>): installs cables when NAT discovery reports, with any
    driver that satisfies the contract: at most one cable per cluster and family, an older endpoint never replaces a newer
    one, results that come after a removal are ignored. \<open>engine_step\<close> composes the engine, NAT discovery and the driver, with
    endpoints of any cluster: that none of the local cluster is connected is the engine's doing.
  \<^item> \<open>VxlanIface\<close>, \<open>VxlanDriver\<close> (\<open>vxlan\<close>, \<open>cable/vxlan\<close>): the VXLAN driver, an interpretation of \<open>cable_driver\<close>.
  \<^item> \<open>ConnectionFile\<close>, \<open>Libreswan\<close>, \<open>LibreswanProps\<close>, \<open>LibreswanCert\<close> (\<open>cable/libreswan\<close>, \<open>cable/psk\<close>): the libreswan driver
    with pre-shared keys and with certificates, also an interpretation of \<open>cable_driver\<close>. The two gateways of a cable choose
    complementary roles, describe the same connection, and at least one initiates it; connecting loads one connection for each pair of subnets and
    disconnecting deletes it; the status follows Pluto's traffic report; the connection file is a map from names to stanzas
    that validated inputs cannot break; connections dropped by a shared daemon are restored at the third refresh.
  \<^item> \<open>AwgOptions\<close>, \<open>WireGuard\<close>, \<open>WireGuardProps\<close> (\<open>cable/wireguard\<close>, \<open>cable/amneziawg\<close>): the WireGuard driver and its obfuscating copy. The
    locale \<open>peer_update\<close> has what they share; each driver's status update is an interpretation. The peers of the device are
    those of the recorded connections in every run (\<open>wg_run\<close>), a new peer is verified, the status follows the peer's counters
    and handshakes, and exactly the consistent sets of options are accepted.

  \<^bold>\<open>Watching the tunnels.\<close>
  \<^item> \<open>Pinger\<close>, \<open>PingerProps\<close> (\<open>pinger\<close>, \<open>cableengine/healthchecker\<close>): ping statistics with 64-bit arithmetic, which belong to the last
    round trips and do not overflow below a bound, the pinger's callbacks, and the controller: every running pinger is one it can still stop.
  \<^item> \<open>GatewaySyncer\<close> (\<open>cableengine/syncer\<close>): the Gateway object that reports connections, latency and health, and its cleanup.

  \<^bold>\<open>On every node.\<close>
  \<^item> \<open>EventController\<close> (\<open>event\<close>, \<open>event/controller\<close>): the registry of handlers and the dispatch of endpoint and node events;
    transitions to gateway and to non-gateway alternate.
  \<^item> \<open>PacketFilter\<close>, \<open>IPTables\<close>, \<open>NFTables\<close> (\<open>packetfilter\<close>): rules, the locale \<open>chain_driver\<close> for a driver of chains, the
    adapter's operations proved in it, and the two drivers as its interpretations. Rules survive the round trip through an
    iptables rule specification and through the comment that the nftables driver keeps; below it is shown that
    both drivers leave the same chain behind.
  \<^item> \<open>IpSets\<close>, \<open>NamedSets\<close> (\<open>ipset\<close>, \<open>packetfilter/*/namedset.go\<close>): sets of subnets. The locale \<open>named_sets\<close> is their contract; ipset and
    nftables are interpretations of it and leave the same sets behind. Destroying a set that is in use ends after 20 attempts.
  \<^item> \<open>RouteChains\<close>: the chains of the route agent's handlers, and what a handler may rely on of the event controller (\<open>event_client\<close>).
  \<^item> \<open>MtuHandler\<close> (\<open>routeagent_driver/handlers/mtu\<close>): the handler that clamps the segment size; its set follows the endpoints.
  \<^item> \<open>Netlink\<close> (\<open>netlink\<close>, \<open>cni\<close>): retries on interrupted dumps, reverse path filters, rules and routes, and the interface of the network
    plugin.
  \<^item> \<open>KubeProxy\<close>, \<open>KubeProxyProps\<close> (\<open>routeagent_driver/handlers/kubeproxy\<close>): the handler for network plugins that leave routing to kube-proxy. On a
    node that is not the gateway, a reconciliation leaves exactly the routes of the remote subnets through the gateway; the rules of a
    subnet can be added and removed without a trace. On the gateway the removal of an endpoint may leave a route of the host network behind.

  \<^bold>\<open>Global addresses.\<close> Clusters with overlapping networks reach each other by addresses of a global network.
  \<^item> \<open>GlobalnetFilter\<close>, \<open>GlobalnetNat\<close> (\<open>globalnet/chains\<close>, \<open>globalnet/controllers/packetfilter\<close>): the translation rules, the locale
    \<open>nat_driver\<close> that extends \<open>chain_driver\<close>, its interpretations on both drivers, and the round trips: programming and
    removing the rules of an object leaves every chain as it was.
  \<^item> \<open>GlobalEgress\<close>, \<open>GlobalIngress\<close> (\<open>globalnet/controllers\<close>): the controllers that allocate addresses for namespaces, the
    cluster, services, pods, endpoints and gateways. \<open>GlobalAddresses\<close> shows each handler to be a transaction of one object on the
    shared pool and composes them in the step relation \<open>gn_step\<close>; \<open>GlobalnetProps\<close> has the result: no two objects share an
    address, in every run in which no deletion releases an address that its object does not have, and after a restart. It also shows when a
    deletion does so.
  \<^item> \<open>GlobalServices\<close>: which ingress objects exist for an exported service; after the endpoints of a service were
    processed there is exactly one for each address.
  \<^item> \<open>GatewayMonitor\<close> (\<open>gateway_monitor.go\<close>, \<open>uninstall.go\<close>): chains, marks, leader election and the start and stop of the
    controllers; \<open>gm_step\<close> interleaves the goroutines; the controllers only run on a gateway, but a race can leave an election that
    nothing stops.

  \<^bold>\<open>Not modelled.\<close> The issuing and installing of certificates (\<open>certificate_handler.go\<close>: x509 and the NSS database), metrics,
  logging, process start-up and leader election of the gateway, generated clients and test doubles. The pool of global
  addresses (\<open>admiral/pkg/ipam\<close>) and the resource syncers are parameters. The route agent's handlers for OVN and Calico and its
  health checker are not modelled.
\<close>

section \<open>Both packet filter drivers\<close>

text \<open>C26: The two packet filter drivers agree: on chains with the same rules, prepending a rule that both support leaves
  the same chain behind.\<close>

theorem packet_filters_agree:
  assumes "ipt_ok I specs normal" and "ipt_inv specs normal k" and "nft_ok N rules" and "nft_inv rules m"
    and "ipt_supported normal r" and "clean_rule r" and "ipt_chain specs t c k = nft_chain rules t c m"
    and "PrependUnique (iptDriver I) t c [r] k = (k', None)" and "PrependUnique (nftDriver N v6) t c [r] m = (m', None)"
  shows "ipt_chain specs t c k' = nft_chain rules t c m' \<and> hd (nft_chain rules t c m') = r"
proof -
  from chain_driver.PrependUnique_one [OF iptables_chain_driver [OF assms(1)] assms(2,5,8)]
  have "ipt_chain specs t c k' = r # removeAll r (ipt_chain specs t c k)" by blast
  moreover from chain_driver.PrependUnique_one [OF nftables_chain_driver [OF assms(3)] assms(4,6,9)]
  have "nft_chain rules t c m' = r # removeAll r (nft_chain rules t c m)" by blast
  ultimately show ?thesis using assms(7) by simp
qed

definition example_table :: ref_table where
  "example_table = [''POST'' \<mapsto>
     [(4, SerializeRule (jump_to ''KUBE'')), (7, SerializeRule (jump_to ''EGRESS'')), (9, SerializeRule (jump_to ''EGRESS''))]]"

lemma example_table_inv: "nft_inv ref_rules example_table"
proof -
  have "\<forall>c\<in>set [''KUBE'', ''EGRESS'']. clean_rule (jump_to c)" by code_simp
  then show ?thesis by (auto simp: nft_inv_def ref_rules_def example_table_def)
qed

theorem packet_filters_agree_witness:
  "nft_chain ref_rules TableTypeNAT ''POST''
     (fst (PrependUnique (nftDriver (ref_nft [''POST'']) False) TableTypeNAT ''POST'' [jump_to ''EGRESS''] example_table)) =
   [jump_to ''EGRESS'', jump_to ''KUBE'']"
proof -
  let ?p = "PrependUnique (iptDriver ref_ipt) TableTypeNAT ''POST'' [jump_to ''EGRESS''] example_kernel"
  let ?q = "PrependUnique (nftDriver (ref_nft [''POST'']) False) TableTypeNAT ''POST'' [jump_to ''EGRESS''] example_table"
  have s: "ipt_supported no_spaces (jump_to ''EGRESS'')" "clean_rule (jump_to ''EGRESS'')"
    "ipt_chain ref_specs TableTypeNAT ''POST'' example_kernel = nft_chain ref_rules TableTypeNAT ''POST'' example_table"
    by code_simp+
  have "snd ?p = None" "snd ?q = None" by code_simp+
  then have p: "?p = (fst ?p, None)" "?q = (fst ?q, None)" by (metis prod.collapse)+
  have "ipt_chain ref_specs TableTypeNAT ''POST'' (fst ?p) = [jump_to ''EGRESS'', jump_to ''KUBE'']" by code_simp
  with packet_filters_agree [OF ref_ipt_ok example_kernel_inv ref_nft_ok example_table_inv s p] show ?thesis by simp
qed

end
